(* ===== verification/Prelude.thy ===== *)
theory Prelude
  imports Main "HOL-Library.Word"
begin

text \<open>
  The types and the generic facts every component of the development shares.

  A Go \<open>string\<close> and a Go \<open>[]byte\<close> are both byte sequences: they are modelled as
  \<^typ>\<open>string\<close>, a list of 8-bit characters. A \<open>time.Time\<close> is the instant it denotes, an
  integer number of nanoseconds since the Unix epoch, and a \<open>time.Duration\<close> an integer number
  of nanoseconds. A \<open>uuid.UUID\<close> is its 16 raw bytes. Errors are values of one datatype: the
  sentinel errors the packages declare, \<open>errors.New\<close> texts (\<open>Errorf\<close>), \<open>%w\<close> wrapping
  (\<open>Wrap\<close>), and the errors a SQL statement can produce.

  The record \<open>lib\<close> holds the functions the program calls and that are not under src/ (the
  module github.com/google/uuid) and the cryptographic primitives of the Go standard library. They are
  arguments of the definitions that use them; what a property relies on is a named predicate over
  the record. The record \<open>world\<close> holds what one run of an operation reads from outside: the
  clock, the database's \<open>now()\<close>, the fresh identifiers and the random bytes, each indexed by the
  number of the call within the operation; and how the database behaves in it: whether the
  transaction begins, which statement fails (by its number), and how the commit ends (committed,
  failed, or committed with the answer lost).
\<close>

type_synonym bytes = string
type_synonym uuid = string
type_synonym instant = int
type_synonym duration = int

named_theorems go_eval \<open>evaluation of the Go library fragments on concrete input\<close>
named_theorems inv_intros \<open>one rule per operation: it preserves the invariant of its component\<close>

section \<open>Errors\<close>

datatype error =
    Errorf string
  | Wrap string error
  | SqlNoRows
  | SqlConstraint
  | DbUnavailable
  | ErrInvalidInput
  | ErrInvalidActivation
  | ErrMessageIDCollision
  | ErrActivationConflict
  | ErrInviteInvalid
  | ErrSessionNotFound
  | ErrUnexpectedState
  | ErrActivationMissing

text \<open>\<open>errors.Is(err, target)\<close>: the target is found by unwrapping.\<close>

fun errors_is :: "error \<Rightarrow> error \<Rightarrow> bool" where
  "errors_is (Wrap t e) x = (Wrap t e = x \<or> errors_is e x)"
| "errors_is e x = (e = x)"

fun is_err :: "error + 'a \<Rightarrow> bool" where
  "is_err (Inl _) = True"
| "is_err (Inr _) = False"

text \<open>When a chain of checks succeeds: every early return was passed.\<close>

named_theorems go_ok \<open>success of a step of a chain of checks\<close>

lemma sum_case_Inr [go_ok]:
  "(case r of Inl e \<Rightarrow> Inl (f e) | Inr y \<Rightarrow> g y) = Inr x \<longleftrightarrow> (\<exists>y. r = Inr y \<and> g y = Inr x)"
  by (auto split: sum.split)

lemma option_case_Inr [go_ok]:
  "(case r of None \<Rightarrow> Inl e | Some y \<Rightarrow> g y) = Inr x \<longleftrightarrow> (\<exists>y. r = Some y \<and> g y = Inr x)"
  by (auto split: option.split)

lemma if_Inl_Inr [go_ok]: "(if b then Inl e else r) = Inr x \<longleftrightarrow> \<not> b \<and> r = Inr x"
  by simp

section \<open>What is outside the repository\<close>

record lib =
  uuid_parse :: "string \<Rightarrow> uuid option"
  uuid_string :: "uuid \<Rightarrow> string"
  uuid_version :: "uuid \<Rightarrow> nat"
  sha256 :: "bytes \<Rightarrow> bytes"
  hmac_sha256 :: "bytes \<Rightarrow> bytes \<Rightarrow> bytes"
  aes_gcm_seal :: "bytes \<Rightarrow> bytes \<Rightarrow> bytes \<Rightarrow> bytes \<Rightarrow> bytes"
  aes_gcm_open :: "bytes \<Rightarrow> bytes \<Rightarrow> bytes \<Rightarrow> bytes \<Rightarrow> bytes option"
  pem_decode :: "bytes \<Rightarrow> bytes option"
  parse_pkix :: "bytes \<Rightarrow> error + bytes option"
  parse_pkcs8 :: "bytes \<Rightarrow> error + bytes option"
  ed25519_from_seed :: "bytes \<Rightarrow> bytes"
  ed25519_public :: "bytes \<Rightarrow> bytes"
  ed25519_sign :: "bytes \<Rightarrow> bytes \<Rightarrow> bytes"
  ed25519_verify :: "bytes \<Rightarrow> bytes \<Rightarrow> bytes \<Rightarrow> bool"

datatype commit_outcome = Committed | CommitFailed | CommitLost

record world =
  go_now :: "nat \<Rightarrow> instant"
  db_now :: instant
  new_v7 :: "nat \<Rightarrow> error + uuid"
  rand_read :: "nat \<Rightarrow> bytes"
  tx_begins :: bool
  stmt_fails :: "nat \<Rightarrow> bool"
  tx_commits :: commit_outcome

text \<open>
  The documented laws of those functions: \<open>Parse\<close> gives 16 bytes and reads back what \<open>String\<close>
  prints of them, 36 bytes of visible ASCII; AES-GCM opens what was sealed under the same key, nonce
  and associated data, and an Ed25519 signature of 64 bytes verifies under the public key of the
  private key that made it. In \<open>parse_pkix\<close> and \<open>parse_pkcs8\<close>, \<open>Inr None\<close> is a key that is not
  Ed25519.
\<close>

definition uuid_laws :: "lib \<Rightarrow> bool" where
  "uuid_laws L \<longleftrightarrow>
     (\<forall>s u. uuid_parse L s = Some u \<longrightarrow> length u = 16) \<and>
     (\<forall>u. length u = 16 \<longrightarrow>
        uuid_parse L (uuid_string L u) = Some u \<and> length (uuid_string L u) = 36 \<and>
        list_all (\<lambda>c. of_char c \<in> {33..126::nat}) (uuid_string L u))"

definition aead_laws :: "lib \<Rightarrow> bool" where
  "aead_laws L \<longleftrightarrow> (\<forall>k n p a. aes_gcm_open L k n (aes_gcm_seal L k n p a) a = Some p)"

definition signature_laws :: "lib \<Rightarrow> bool" where
  "signature_laws L \<longleftrightarrow>
     (\<forall>k m. ed25519_verify L (ed25519_public L k) m (ed25519_sign L k m) \<and>
            length (ed25519_sign L k m) = 64)"

lemma uuid_parse_string [simp]:
  "uuid_laws L \<Longrightarrow> length u = 16 \<Longrightarrow> uuid_parse L (uuid_string L u) = Some u"
  by (simp add: uuid_laws_def)

text \<open>
  The check three packages make in the same words (\<open>uuidV7\<close>): a value that parses as a UUID of
  version 7 and is the canonical print of what it parses as.
\<close>

definition uuid_v7 :: "lib \<Rightarrow> string \<Rightarrow> bool" where
  "uuid_v7 L value =
     (case uuid_parse L value of None \<Rightarrow> False
      | Some u \<Rightarrow> uuid_version L u = 7 \<and> uuid_string L u = value)"

lemma uuid_v7_inj: "uuid_v7 L a \<Longrightarrow> uuid_v7 L b \<Longrightarrow> uuid_parse L a = uuid_parse L b \<Longrightarrow> a = b"
  by (auto simp: uuid_v7_def split: option.splits)

section \<open>Facts about lists the components share\<close>

lemma find_Some_iff_first:
  "find P xs = Some x \<Longrightarrow> x \<in> set xs \<and> P x"
  by (auto simp: find_Some_iff)

lemma find_None_append [simp]:
  "find P xs = None \<Longrightarrow> find P (xs @ ys) = find P ys"
  by (induction xs) (auto split: if_splits)

lemma find_Some_append [simp]:
  "find P xs = Some x \<Longrightarrow> find P (xs @ ys) = Some x"
  by (induction xs) (auto split: if_splits)

lemma find_map_keep:
  assumes "\<And>x. x \<in> set xs \<Longrightarrow> P (f x) = P x"
  shows "find P (map f xs) = map_option f (find P xs)"
  using assms by (induction xs) auto

lemma find_unique:
  assumes "sorted_wrt (\<lambda>x y. k x \<noteq> k y) xs" and "x \<in> set xs" and "k x = v"
  shows "find (\<lambda>y. k y = v) xs = Some x"
  using assms by (induction xs) auto

lemma sorted_wrt_distinct_keys:
  "sorted_wrt (\<lambda>x y. k x \<noteq> k y) xs \<longleftrightarrow> distinct (map k xs)"
  by (induction xs) auto

lemma filter_map_keep:
  assumes "\<And>x. x \<in> set xs \<Longrightarrow> P (f x) = P x"
  shows "filter P (map f xs) = map f (filter P xs)"
  using assms by (induction xs) auto

end
