(* ===== verification/Go_Strings.thy ===== *)
theory Go_Strings
  imports Prelude
begin

text \<open>
  The parts of the Go packages \<open>strings\<close>, \<open>strconv\<close> and \<open>unicode/utf8\<close> the program uses,
  on byte strings. A rune of white space (\<open>unicode.IsSpace\<close>) is recognised by its UTF-8 encoding:
  its first byte is never a continuation byte, so the encoding occurs in a string exactly where
  Go's rune iteration finds the rune.
\<close>

definition byte :: "char \<Rightarrow> nat" where
  "byte c = of_char c"

lemma byte_less [simp]: "byte c < 256"
  by (simp add: byte_def)

lemma char_of_byte [simp]: "char_of (byte c) = c"
  by (simp add: byte_def)

lemma byte_char_of [simp]: "n < 256 \<Longrightarrow> byte (char_of n) = n"
  by (simp add: byte_def)

lemma byte_inj: "byte c = byte d \<longleftrightarrow> c = d"
  by (metis char_of_byte)

lemma byte_eq: "byte c = n \<Longrightarrow> c = char_of n"
  by (metis char_of_byte)

section \<open>White space\<close>

definition space_runes :: "bytes list" where
  "space_runes =
     [[CHR 0x09], [CHR 0x0A], [CHR 0x0B], [CHR 0x0C], [CHR 0x0D], [CHR 0x20],
      [CHR 0xC2, CHR 0x85], [CHR 0xC2, CHR 0xA0], [CHR 0xE1, CHR 0x9A, CHR 0x80],
      [CHR 0xE2, CHR 0x80, CHR 0x80], [CHR 0xE2, CHR 0x80, CHR 0x81],
      [CHR 0xE2, CHR 0x80, CHR 0x82], [CHR 0xE2, CHR 0x80, CHR 0x83],
      [CHR 0xE2, CHR 0x80, CHR 0x84], [CHR 0xE2, CHR 0x80, CHR 0x85],
      [CHR 0xE2, CHR 0x80, CHR 0x86], [CHR 0xE2, CHR 0x80, CHR 0x87],
      [CHR 0xE2, CHR 0x80, CHR 0x88], [CHR 0xE2, CHR 0x80, CHR 0x89],
      [CHR 0xE2, CHR 0x80, CHR 0x8A], [CHR 0xE2, CHR 0x80, CHR 0xA8],
      [CHR 0xE2, CHR 0x80, CHR 0xA9], [CHR 0xE2, CHR 0x80, CHR 0xAF],
      [CHR 0xE2, CHR 0x81, CHR 0x9F], [CHR 0xE3, CHR 0x80, CHR 0x80]]"

definition starts_with :: "bytes \<Rightarrow> bytes \<Rightarrow> bool" where
  "starts_with r s \<longleftrightarrow> take (length r) s = r"

lemma starts_with_Nil [simp]: "starts_with [] s"
  by (simp add: starts_with_def)

lemma starts_with_Cons [simp]:
  "starts_with (x # r) [] = False"
  "starts_with (x # r) (y # s) = (x = y \<and> starts_with r s)"
  by (auto simp: starts_with_def)

lemma starts_with_length: "starts_with r s \<Longrightarrow> length r \<le> length s"
  by (metis length_take min.cobounded2 min.commute starts_with_def)

text \<open>Length of the first of the given encodings that starts the string, 0 when none does.\<close>

definition head_len :: "bytes list \<Rightarrow> bytes \<Rightarrow> nat" where
  "head_len rs s = (case find (\<lambda>r. starts_with r s) rs of None \<Rightarrow> 0 | Some r \<Rightarrow> length r)"

lemma head_len_le: "head_len rs s \<le> length s"
  by (auto simp: head_len_def starts_with_length dest!: find_Some_iff_first split: option.split)

function strip :: "bytes list \<Rightarrow> bytes \<Rightarrow> bytes" where
  "strip rs s = (if head_len rs s = 0 then s else strip rs (drop (head_len rs s) s))"
  by pat_completeness auto
termination
proof (relation "measure (\<lambda>(rs, s). length s)")
  show "wf (measure (\<lambda>(rs::bytes list, s::bytes). length s))"
    by simp
next
  fix rs s
  assume "head_len rs s \<noteq> 0"
  with head_len_le [of rs s]
  show "((rs, drop (head_len rs s) s), (rs, s)) \<in> measure (\<lambda>(rs, s). length s)"
    by simp
qed

declare strip.simps [simp del]

text \<open>\<open>strings.TrimSpace\<close>, \<open>strings.HasPrefix\<close>, \<open>strings.TrimPrefix\<close>.\<close>

definition trim_space :: "bytes \<Rightarrow> bytes" where
  "trim_space s = rev (strip (map rev space_runes) (rev (strip space_runes s)))"

definition trim_prefix :: "bytes \<Rightarrow> bytes \<Rightarrow> bytes" where
  "trim_prefix p s = (if starts_with p s then drop (length p) s else s)"

text \<open>\<open>strings.Fields\<close>: the maximal runs of bytes outside white space.\<close>

function fields_from :: "bytes \<Rightarrow> bytes \<Rightarrow> bytes list" where
  "fields_from acc s =
     (if s = [] then (if acc = [] then [] else [acc])
      else if head_len space_runes s > 0
        then (if acc = [] then [] else [acc]) @ fields_from [] (drop (head_len space_runes s) s)
      else fields_from (acc @ [hd s]) (tl s))"
  by pat_completeness auto
termination
proof (relation "measure (\<lambda>(acc, s). length s)")
  show "wf (measure (\<lambda>(acc::bytes, s::bytes). length s))"
    by simp
next
  fix acc s :: bytes
  assume "s \<noteq> []" "0 < head_len space_runes s"
  with head_len_le [of space_runes s]
  show "(([], drop (head_len space_runes s) s), (acc, s)) \<in> measure (\<lambda>(acc, s). length s)"
    by simp
next
  fix acc s :: bytes
  assume "s \<noteq> []" "\<not> 0 < head_len space_runes s"
  then show "((acc @ [hd s], tl s), (acc, s)) \<in> measure (\<lambda>(acc, s). length s)"
    by simp
qed

declare fields_from.simps [simp del]

definition go_fields :: "bytes \<Rightarrow> bytes list" where
  "go_fields s = fields_from [] s"

text \<open>\<open>strings.Cut\<close> on a one-byte separator (before, after, found) and \<open>strings.Split\<close>.\<close>

definition go_cut :: "char \<Rightarrow> bytes \<Rightarrow> bytes \<times> bytes \<times> bool" where
  "go_cut c s = (takeWhile (\<lambda>x. x \<noteq> c) s, tl (dropWhile (\<lambda>x. x \<noteq> c) s), c \<in> set s)"

fun go_split :: "char \<Rightarrow> bytes \<Rightarrow> bytes list" where
  "go_split c [] = [[]]"
| "go_split c (x # xs) =
     (if x = c then [] # go_split c xs
      else (case go_split c xs of [] \<Rightarrow> [[x]] | p # ps \<Rightarrow> (x # p) # ps))"

text \<open>
  \<open>strings.ToLower\<close> on the ASCII letters. The program compares the result with ASCII words only,
  and no rune outside ASCII lowers to a letter of those words.
\<close>

definition lower_byte :: "char \<Rightarrow> char" where
  "lower_byte c = (if 65 \<le> byte c \<and> byte c \<le> 90 then char_of (byte c + 32) else c)"

definition to_lower :: "bytes \<Rightarrow> bytes" where
  "to_lower s = map lower_byte s"

section \<open>Trimming a string without white space\<close>

lemma head_len_zero:
  assumes "\<And>r. r \<in> set rs \<Longrightarrow> r \<noteq> [] \<and> (s = [] \<or> hd r \<noteq> hd s)"
  shows "head_len rs s = 0"
proof -
  have "\<not> starts_with r s" if "r \<in> set rs" for r
    using assms [OF that] by (cases r; cases s) auto
  then show ?thesis
    by (auto simp: head_len_def split: option.split dest!: find_Some_iff_first)
qed

definition visible :: "char \<Rightarrow> bool" where
  "visible c \<longleftrightarrow> 33 \<le> byte c \<and> byte c \<le> 126"

lemma strip_visible_front:
  "list_all visible s \<Longrightarrow> strip space_runes s = s"
proof -
  assume v: "list_all visible s"
  have "head_len space_runes s = 0"
  proof (rule head_len_zero)
    fix r
    assume "r \<in> set space_runes"
    with v show "r \<noteq> [] \<and> (s = [] \<or> hd r \<noteq> hd s)"
      by (cases s) (auto simp: space_runes_def visible_def byte_def)
  qed
  then show ?thesis
    by (subst strip.simps) simp
qed

lemma strip_visible_back:
  "list_all visible s \<Longrightarrow> strip (map rev space_runes) s = s"
proof -
  assume v: "list_all visible s"
  have "head_len (map rev space_runes) s = 0"
  proof (rule head_len_zero)
    fix r
    assume "r \<in> set (map rev space_runes)"
    with v show "r \<noteq> [] \<and> (s = [] \<or> hd r \<noteq> hd s)"
      by (cases s) (auto simp: space_runes_def visible_def byte_def)
  qed
  then show ?thesis
    by (subst strip.simps) simp
qed

lemma trim_space_visible: "list_all visible s \<Longrightarrow> trim_space s = s"
  by (simp add: trim_space_def strip_visible_front strip_visible_back list_all_rev)

section \<open>Decimal numbers\<close>

definition digit_char :: "nat \<Rightarrow> char" where
  "digit_char d = char_of (48 + d)"

definition is_digit :: "char \<Rightarrow> bool" where
  "is_digit c \<longleftrightarrow> 48 \<le> byte c \<and> byte c \<le> 57"

definition digit_val :: "char \<Rightarrow> nat" where
  "digit_val c = byte c - 48"

fun nat_digits :: "nat \<Rightarrow> string" where
  "nat_digits n = (if n < 10 then [digit_char n] else nat_digits (n div 10) @ [digit_char (n mod 10)])"

declare nat_digits.simps [simp del]

definition digits_val :: "string \<Rightarrow> nat" where
  "digits_val s = foldl (\<lambda>a c. 10 * a + digit_val c) 0 s"

text \<open>\<open>strconv.FormatInt(n, 10)\<close> and \<open>strconv.Itoa\<close>.\<close>

definition format_int :: "int \<Rightarrow> string" where
  "format_int n = (if n < 0 then CHR ''-'' # nat_digits (nat (- n)) else nat_digits (nat n))"

text \<open>\<open>strconv.ParseUint(s, 10, 64)\<close>; an error is \<open>None\<close>.\<close>

definition parse_uint64 :: "string \<Rightarrow> nat option" where
  "parse_uint64 s =
     (if s = [] \<or> \<not> list_all is_digit s then None
      else if digits_val s < 2 ^ 64 then Some (digits_val s) else None)"

text \<open>\<open>strconv.ParseInt(s, 10, 64)\<close> and, with 64-bit \<open>int\<close>, \<open>strconv.Atoi\<close>.\<close>

definition parse_int64 :: "string \<Rightarrow> int option" where
  "parse_int64 s =
     (let (neg, d) = (case s of [] \<Rightarrow> (False, [])
                      | c # cs \<Rightarrow> if c = CHR ''-'' then (True, cs)
                                  else if c = CHR ''+'' then (False, cs) else (False, s))
      in case parse_uint64 d of None \<Rightarrow> None
         | Some n \<Rightarrow> if neg then (if int n \<le> 2 ^ 63 then Some (- int n) else None)
                     else (if int n < 2 ^ 63 then Some (int n) else None))"

lemma byte_digit_char [simp]: "d < 10 \<Longrightarrow> byte (digit_char d) = 48 + d"
  by (simp add: byte_def digit_char_def)

lemma is_digit_char [simp]: "d < 10 \<Longrightarrow> is_digit (digit_char d)"
  by (simp add: is_digit_def)

lemma digit_val_char [simp]: "d < 10 \<Longrightarrow> digit_val (digit_char d) = d"
  by (simp add: digit_val_def)

lemma nat_digits_nonempty [simp]: "nat_digits n \<noteq> []"
  by (subst nat_digits.simps) simp

lemma nat_digits_are_digits [simp]: "list_all is_digit (nat_digits n)"
proof (induction n rule: nat_digits.induct)
  case (1 n)
  then show ?case
    by (subst nat_digits.simps) simp
qed

lemma digits_val_snoc [simp]: "digits_val (s @ [c]) = 10 * digits_val s + digit_val c"
  by (simp add: digits_val_def)

lemma digits_val_nat_digits [simp]: "digits_val (nat_digits n) = n"
proof (induction n rule: nat_digits.induct)
  case (1 n)
  show ?case
  proof (cases "n < 10")
    case True
    then show ?thesis
      by (subst nat_digits.simps) (simp add: digits_val_def)
  next
    case False
    with "1" show ?thesis
      by (subst nat_digits.simps) simp
  qed
qed

lemma foldl_digits_acc:
  "foldl (\<lambda>a c. 10 * a + digit_val c) k s = k * 10 ^ length s + digits_val s"
proof (induction s rule: rev_induct)
  case Nil
  then show ?case by (simp add: digits_val_def)
next
  case (snoc c s)
  then show ?case by (simp add: algebra_simps)
qed

lemma digits_val_append: "digits_val (s @ t) = digits_val s * 10 ^ length t + digits_val t"
  using foldl_digits_acc [of "digits_val s" t] by (simp add: digits_val_def)

lemma digits_val_zeros [simp]: "digits_val (replicate n CHR ''0'') = 0"
  by (induction n) (simp_all add: digits_val_append digits_val_def digit_val_def byte_def
      foldl_digits_acc [unfolded digits_val_def])

lemma digits_val_bound: "list_all is_digit s \<Longrightarrow> digits_val s < 10 ^ length s"
proof (induction s rule: rev_induct)
  case Nil
  then show ?case by (simp add: digits_val_def)
next
  case (snoc c s)
  then have "digits_val s < 10 ^ length s" and "digit_val c < 10"
    by (auto simp: is_digit_def digit_val_def)
  then show ?case by simp
qed

lemma nat_digits_length: "n < 10 ^ k \<Longrightarrow> 0 < k \<Longrightarrow> length (nat_digits n) \<le> k"
proof (induction n arbitrary: k rule: nat_digits.induct)
  case (1 n)
  show ?case
  proof (cases "n < 10")
    case True
    with "1.prems" show ?thesis by (subst nat_digits.simps) simp
  next
    case False
    then obtain j where k: "k = Suc j" and j: "0 < j"
      using "1.prems" by (cases k; cases "k - 1") auto
    have "n div 10 < 10 ^ j"
      using "1.prems"(1) k by (simp add: div_less_iff_less_mult mult.commute)
    with "1.IH" False j have "length (nat_digits (n div 10)) \<le> j" by blast
    with False k show ?thesis by (subst nat_digits.simps) simp
  qed
qed

lemma hd_nat_digits: "hd (nat_digits n) = CHR ''0'' \<longleftrightarrow> n = 0"
proof (induction n rule: nat_digits.induct)
  case (1 n)
  have z: "digit_char d = CHR ''0'' \<longleftrightarrow> d = 0" if "d < 10" for d
  proof
    assume "digit_char d = CHR ''0''"
    then have "byte (digit_char d) = 48" by (simp add: byte_def)
    with that show "d = 0" by simp
  next
    assume "d = 0"
    then show "digit_char d = CHR ''0''"
      by (simp add: digit_char_def char_of_def bit_iff_odd)
  qed
  show ?case
  proof (cases "n < 10")
    case True
    with z show ?thesis by (subst nat_digits.simps) simp
  next
    case False
    with "1" show ?thesis
      by (subst nat_digits.simps) (simp add: hd_append)
  qed
qed

lemma parse_uint64_digits:
  "parse_uint64 s = Some n \<longleftrightarrow> s \<noteq> [] \<and> list_all is_digit s \<and> digits_val s < 2 ^ 64 \<and> n = digits_val s"
  by (auto simp: parse_uint64_def)

lemma parse_uint64_nat_digits: "n < 2 ^ 64 \<Longrightarrow> parse_uint64 (nat_digits n) = Some n"
  by (simp add: parse_uint64_def)

lemma hd_digit_no_sign:
  "list_all is_digit s \<Longrightarrow> s \<noteq> [] \<Longrightarrow> hd s \<noteq> CHR ''-'' \<and> hd s \<noteq> CHR ''+''"
  by (cases s) (auto simp: is_digit_def byte_def)

lemma parse_format_int: "- (2 ^ 63) \<le> n \<Longrightarrow> n < 2 ^ 63 \<Longrightarrow> parse_int64 (format_int n) = Some n"
proof (cases "n < 0")
  case True
  assume "- (2 ^ 63) \<le> n"
  with True have "parse_uint64 (nat_digits (nat (- n))) = Some (nat (- n))"
    by (intro parse_uint64_nat_digits) simp
  with True \<open>- (2 ^ 63) \<le> n\<close> show ?thesis
    by (simp add: format_int_def parse_int64_def)
next
  case False
  assume "n < 2 ^ 63"
  with False have p: "parse_uint64 (nat_digits (nat n)) = Some (nat n)"
    by (intro parse_uint64_nat_digits) simp
  obtain c cs where c: "nat_digits (nat n) = c # cs"
    by (cases "nat_digits (nat n)") auto
  with hd_digit_no_sign [OF nat_digits_are_digits, of "nat n"]
  have "c \<noteq> CHR ''-''" "c \<noteq> CHR ''+''"
    by simp_all
  with False \<open>n < 2 ^ 63\<close> p c show ?thesis
    by (simp add: format_int_def parse_int64_def)
qed

end
