(* ===== verification/Go_Json.thy ===== *)
theory Go_Json
  imports Go_Strings
begin

text \<open>
  Go's \<open>unicode/utf8\<close> and \<open>encoding/json\<close> as the program uses them: \<open>json.Marshal\<close> (and an encoder
  with \<open>SetEscapeHTML(false)\<close>) of a flat struct, and a decoder into a flat struct, strict
  (\<open>DisallowUnknownFields\<close> and no trailing value) or lenient (\<open>json.Unmarshal\<close>). The text is
  parsed into a JSON tree with one unit of fuel per nesting step; the length of the text is always
  enough. A struct is the list of its fields with their kinds and a decoded struct the list of the
  field values, with Go's zero value where the text has none. The main fact: what is printed for
  valid UTF-8 strings is read back, by both decoders.
\<close>

section \<open>UTF-8\<close>

definition cont :: "char \<Rightarrow> bool" where
  "cont c \<longleftrightarrow> 128 \<le> byte c \<and> byte c \<le> 191"

text \<open>The number of bytes of the rune at the head of the string, 0 when it is not valid UTF-8.\<close>

fun utf8_len :: "bytes \<Rightarrow> nat" where
  "utf8_len [] = 0"
| "utf8_len (a # r) =
     (if byte a < 128 then 1
      else if 194 \<le> byte a \<and> byte a \<le> 223 then
        (case r of b # _ \<Rightarrow> if cont b then 2 else 0 | _ \<Rightarrow> 0)
      else if 224 \<le> byte a \<and> byte a \<le> 239 then
        (case r of b # c # _ \<Rightarrow>
           if cont b \<and> cont c \<and> (byte a = 224 \<longrightarrow> 160 \<le> byte b) \<and> (byte a = 237 \<longrightarrow> byte b \<le> 159)
           then 3 else 0 | _ \<Rightarrow> 0)
      else if 240 \<le> byte a \<and> byte a \<le> 244 then
        (case r of b # c # d # _ \<Rightarrow>
           if cont b \<and> cont c \<and> cont d \<and> (byte a = 240 \<longrightarrow> 144 \<le> byte b) \<and> (byte a = 244 \<longrightarrow> byte b \<le> 143)
           then 4 else 0 | _ \<Rightarrow> 0)
      else 0)"

lemma utf8_len_le: "utf8_len s \<le> length s"
  by (cases s) (auto split: list.splits)

lemma utf8_len_drop: "utf8_len s \<noteq> 0 \<Longrightarrow> length (drop (utf8_len s) s) < length s"
  using utf8_len_le [of s] by (cases s) auto

text \<open>\<open>utf8.ValidString\<close>.\<close>

function utf8_valid :: "bytes \<Rightarrow> bool" where
  "utf8_valid s =
     (if s = [] then True else if utf8_len s = 0 then False else utf8_valid (drop (utf8_len s) s))"
  by pat_completeness auto
termination
proof (relation "measure length")
  fix s :: bytes
  assume "utf8_len s \<noteq> 0"
  then show "(drop (utf8_len s) s, s) \<in> measure length"
    unfolding in_measure by (rule utf8_len_drop)
qed simp

declare utf8_valid.simps [simp del]

lemma utf8_valid_Nil [simp]: "utf8_valid []"
  by (subst utf8_valid.simps) simp

lemma utf8_valid_ascii: "byte c < 128 \<Longrightarrow> utf8_valid (c # s) = utf8_valid s"
  by (subst utf8_valid.simps) simp

lemma utf8_valid_visible: "list_all visible s \<Longrightarrow> utf8_valid s"
  by (induction s) (simp_all add: utf8_valid_ascii visible_def)

text \<open>\<open>utf8.AppendRune\<close>.\<close>

definition rune_bytes :: "nat \<Rightarrow> bytes" where
  "rune_bytes r =
     (if r < 128 then [char_of r]
      else if r < 2048 then [char_of (192 + r div 64), char_of (128 + r mod 64)]
      else if 1114111 < r \<or> (55296 \<le> r \<and> r \<le> 57343) then [CHR 0xEF, CHR 0xBF, CHR 0xBD]
      else if r < 65536 then
        [char_of (224 + r div 4096), char_of (128 + r div 64 mod 64), char_of (128 + r mod 64)]
      else [char_of (240 + r div 262144), char_of (128 + r div 4096 mod 64),
            char_of (128 + r div 64 mod 64), char_of (128 + r mod 64)])"

definition replacement :: bytes where
  "replacement = [CHR 0xEF, CHR 0xBF, CHR 0xBD]"

section \<open>Strings\<close>

definition hex_char :: "nat \<Rightarrow> char" where
  "hex_char d = (if d < 10 then char_of (48 + d) else char_of (87 + d))"

definition hex_val :: "char \<Rightarrow> nat option" where
  "hex_val c = (let b = byte c in
     if 48 \<le> b \<and> b \<le> 57 then Some (b - 48)
     else if 97 \<le> b \<and> b \<le> 102 then Some (b - 87)
     else if 65 \<le> b \<and> b \<le> 70 then Some (b - 55) else None)"

definition escape_byte :: "bool \<Rightarrow> char \<Rightarrow> string" where
  "escape_byte html c =
     (let b = byte c; bs = char_of (92::nat) in
      if b = 34 \<or> b = 92 then [bs, c]
      else if b = 8 then [bs, CHR ''b''] else if b = 12 then [bs, CHR ''f'']
      else if b = 10 then [bs, CHR ''n''] else if b = 13 then [bs, CHR ''r'']
      else if b = 9 then [bs, CHR ''t'']
      else if b < 32 \<or> (html \<and> (b = 60 \<or> b = 62 \<or> b = 38))
        then [bs, CHR ''u'', CHR ''0'', CHR ''0'', hex_char (b div 16), hex_char (b mod 16)]
      else [c])"

definition line_separator :: bytes where
  "line_separator = [CHR 0xE2, CHR 0x80, CHR 0xA8]"

definition paragraph_separator :: bytes where
  "paragraph_separator = [CHR 0xE2, CHR 0x80, CHR 0xA9]"

definition escape_rune :: "bytes \<Rightarrow> string" where
  "escape_rune r =
     (if r = line_separator then char_of (92::nat) # ''u2028''
      else if r = paragraph_separator then char_of (92::nat) # ''u2029'' else r)"

function quote_body :: "bool \<Rightarrow> bytes \<Rightarrow> string" where
  "quote_body html [] = []"
| "quote_body html (c # s) =
     (if byte c < 128 then escape_byte html c @ quote_body html s
      else if utf8_len (c # s) = 0 then (char_of (92::nat) # ''ufffd'') @ quote_body html s
      else escape_rune (take (utf8_len (c # s)) (c # s)) @ quote_body html (drop (utf8_len (c # s)) (c # s)))"
  by pat_completeness auto
termination
proof (relation "measure (\<lambda>(h, s). length s)")
  fix html :: bool and c s
  assume "utf8_len (c # s) \<noteq> 0"
  then show "((html, drop (utf8_len (c # s)) (c # s)), html, c # s) \<in> measure (\<lambda>(h, s). length s)"
    unfolding in_measure prod.case by (rule utf8_len_drop)
qed (simp_all del: utf8_len.simps)

declare quote_body.simps(2) [simp del]

definition quote :: "bool \<Rightarrow> bytes \<Rightarrow> string" where
  "quote html s = CHR 0x22 # quote_body html s @ [CHR 0x22]"

fun hex4 :: "string \<Rightarrow> (nat \<times> string) option" where
  "hex4 (a # b # c # d # r) =
     (case (hex_val a, hex_val b, hex_val c, hex_val d) of
        (Some x, Some y, Some z, Some w) \<Rightarrow> Some (((x * 16 + y) * 16 + z) * 16 + w, r)
      | _ \<Rightarrow> None)"
| "hex4 _ = None"

lemma hex4_length: "hex4 s = Some (v, r) \<Longrightarrow> length s = length r + 4"
  by (cases s rule: hex4.cases) (auto split: option.splits)

text \<open>
  After a first \<open>\<backslash>uXXXX\<close> that is a surrogate, a second one that completes the pair is taken with
  it; otherwise the rune is replaced by U+FFFD and the second one is left.
\<close>

definition unicode_escape :: "string \<Rightarrow> (bytes \<times> string) option" where
  "unicode_escape s =
     (case hex4 s of None \<Rightarrow> None
      | Some (v, r) \<Rightarrow>
          if 55296 \<le> v \<and> v \<le> 57343 then
            (case r of b # u # r' \<Rightarrow>
               (if byte b = 92 \<and> u = CHR ''u'' then
                  (case hex4 r' of None \<Rightarrow> None
                   | Some (v2, r2) \<Rightarrow>
                       if v \<le> 56319 \<and> 56320 \<le> v2 \<and> v2 \<le> 57343
                       then Some (rune_bytes ((v - 55296) * 1024 + (v2 - 56320) + 65536), r2)
                       else Some (replacement, r))
                else Some (replacement, r))
             | _ \<Rightarrow> Some (replacement, r))
          else Some (rune_bytes v, r))"

lemma unicode_escape_length: "unicode_escape s = Some (v, r) \<Longrightarrow> length r < length s"
  by (auto simp: unicode_escape_def split: option.splits if_splits list.splits dest!: hex4_length)

definition simple_escape :: "char \<Rightarrow> char option" where
  "simple_escape e =
     (if byte e = 34 \<or> byte e = 92 \<or> byte e = 47 then Some e
      else if e = CHR ''b'' then Some (CHR 0x08) else if e = CHR ''f'' then Some (CHR 0x0C)
      else if e = CHR ''n'' then Some (CHR 0x0A) else if e = CHR ''r'' then Some (CHR 0x0D)
      else if e = CHR ''t'' then Some (CHR 0x09) else None)"

text \<open>The contents of a string literal after its opening quote, and what follows its closing one.\<close>

function unquote :: "string \<Rightarrow> (bytes \<times> string) option" where
  "unquote [] = None"
| "unquote (c # s) =
     (if byte c = 34 then Some ([], s)
      else if byte c = 92 then
        (case s of [] \<Rightarrow> None
         | e # s' \<Rightarrow>
            (case simple_escape e of
               Some x \<Rightarrow> map_option (\<lambda>(t, r). (x # t, r)) (unquote s')
             | None \<Rightarrow>
                 if e = CHR ''u'' then
                   (case unicode_escape s' of None \<Rightarrow> None
                    | Some (x, s'') \<Rightarrow> map_option (\<lambda>(t, r). (x @ t, r)) (unquote s''))
                 else None))
      else if byte c < 32 then None
      else if utf8_len (c # s) = 0 then map_option (\<lambda>(t, r). (replacement @ t, r)) (unquote s)
      else map_option (\<lambda>(t, r). (take (utf8_len (c # s)) (c # s) @ t, r))
             (unquote (drop (utf8_len (c # s)) (c # s))))"
  by pat_completeness auto
termination
proof (relation "measure length")
  fix c e s' x s'' and s :: string and x2 :: "bytes \<times> string"
  assume "s = e # s'" "unicode_escape s' = Some x2" "(x, s'') = x2"
  then show "(s'', c # s) \<in> measure length"
    using unicode_escape_length [of s' x s''] by simp
next
  fix c s
  assume "utf8_len (c # s) \<noteq> 0"
  then show "(drop (utf8_len (c # s)) (c # s), c # s) \<in> measure length"
    unfolding in_measure by (rule utf8_len_drop)
qed (simp_all del: utf8_len.simps)

declare unquote.simps(2) [simp del]

section \<open>Values\<close>

datatype json = JNull | JBool bool | JNum string | JStr bytes | JArr "json list" | JObj "(bytes \<times> json) list"

definition is_ws :: "char \<Rightarrow> bool" where
  "is_ws c \<longleftrightarrow> byte c = 32 \<or> byte c = 9 \<or> byte c = 10 \<or> byte c = 13"

definition skip_ws :: "string \<Rightarrow> string" where
  "skip_ws s = dropWhile is_ws s"

text \<open>The number literal at the head of the text, with the rest.\<close>

definition frac_part :: "string \<Rightarrow> (string \<times> string) option" where
  "frac_part s =
     (case s of c # r \<Rightarrow>
        (if c = CHR ''.'' then
           (if takeWhile is_digit r = [] then None
            else Some (c # takeWhile is_digit r, dropWhile is_digit r))
         else Some ([], s)) | [] \<Rightarrow> Some ([], s))"

definition exp_part :: "string \<Rightarrow> (string \<times> string) option" where
  "exp_part s =
     (case s of c # r \<Rightarrow>
        (if c = CHR ''e'' \<or> c = CHR ''E'' then
           (let (sg, r') = (case r of x # r' \<Rightarrow> if x = CHR ''+'' \<or> x = CHR ''-'' then ([x], r') else ([], r)
                            | [] \<Rightarrow> ([], r))
            in if takeWhile is_digit r' = [] then None
               else Some (c # sg @ takeWhile is_digit r', dropWhile is_digit r'))
         else Some ([], s)) | [] \<Rightarrow> Some ([], s))"

definition int_part :: "string \<Rightarrow> (string \<times> string) option" where
  "int_part s =
     (let (sg, r) = (case s of c # r \<Rightarrow> if c = CHR ''-'' then ([c], r) else ([], s) | [] \<Rightarrow> ([], s))
      in case r of [] \<Rightarrow> None
         | d # r' \<Rightarrow> if \<not> is_digit d then None
                    else if d = CHR ''0'' then Some (sg @ [d], r')
                    else Some (sg @ takeWhile is_digit r, dropWhile is_digit r))"

definition number_literal :: "string \<Rightarrow> (string \<times> string) option" where
  "number_literal s =
     (case int_part s of None \<Rightarrow> None
      | Some (i, r) \<Rightarrow> (case frac_part r of None \<Rightarrow> None
         | Some (f, r) \<Rightarrow> (case exp_part r of None \<Rightarrow> None
            | Some (e, r) \<Rightarrow> Some (i @ f @ e, r))))"

fun parse_value :: "nat \<Rightarrow> string \<Rightarrow> (json \<times> string) option"
  and parse_members :: "nat \<Rightarrow> string \<Rightarrow> ((bytes \<times> json) list \<times> string) option"
  and parse_elements :: "nat \<Rightarrow> string \<Rightarrow> (json list \<times> string) option" where
  "parse_value 0 s = None"
| "parse_value (Suc n) s =
     (case skip_ws s of [] \<Rightarrow> None
      | c # r \<Rightarrow>
          if byte c = 34 then map_option (\<lambda>(t, r). (JStr t, r)) (unquote r)
          else if c = CHR ''{'' then
            (case skip_ws r of [] \<Rightarrow> None
             | d # r' \<Rightarrow> if d = CHR ''}'' then Some (JObj [], r')
                        else map_option (\<lambda>(ms, r). (JObj ms, r)) (parse_members n (d # r')))
          else if c = CHR ''['' then
            (case skip_ws r of [] \<Rightarrow> None
             | d # r' \<Rightarrow> if d = CHR '']'' then Some (JArr [], r')
                        else map_option (\<lambda>(es, r). (JArr es, r)) (parse_elements n (d # r')))
          else if starts_with ''true'' (c # r) then Some (JBool True, drop 4 (c # r))
          else if starts_with ''false'' (c # r) then Some (JBool False, drop 5 (c # r))
          else if starts_with ''null'' (c # r) then Some (JNull, drop 4 (c # r))
          else map_option (\<lambda>(l, r). (JNum l, r)) (number_literal (c # r)))"
| "parse_members 0 s = None"
| "parse_members (Suc n) s =
     (case skip_ws s of [] \<Rightarrow> None
      | c # r \<Rightarrow>
          if byte c \<noteq> 34 then None
          else (case unquote r of None \<Rightarrow> None
            | Some (k, r1) \<Rightarrow>
               (case skip_ws r1 of [] \<Rightarrow> None
                | d # r2 \<Rightarrow>
                    if d \<noteq> CHR '':'' then None
                    else (case parse_value n r2 of None \<Rightarrow> None
                      | Some (v, r3) \<Rightarrow>
                         (case skip_ws r3 of [] \<Rightarrow> None
                          | e # r4 \<Rightarrow>
                              if e = CHR ''}'' then Some ([(k, v)], r4)
                              else if e = CHR '','' then map_option (\<lambda>(ms, r). ((k, v) # ms, r)) (parse_members n r4)
                              else None)))))"
| "parse_elements 0 s = None"
| "parse_elements (Suc n) s =
     (case parse_value n s of None \<Rightarrow> None
      | Some (v, r1) \<Rightarrow>
         (case skip_ws r1 of [] \<Rightarrow> None
          | e # r2 \<Rightarrow>
              if e = CHR '']'' then Some ([v], r2)
              else if e = CHR '','' then map_option (\<lambda>(es, r). (v # es, r)) (parse_elements n r2)
              else None))"

section \<open>Flat structs\<close>

datatype kind = KStr | KInt | KBool

datatype fval = FStr bytes | FInt int | FBool bool

fun zero_value :: "kind \<Rightarrow> fval" where
  "zero_value KStr = FStr []"
| "zero_value KInt = FInt 0"
| "zero_value KBool = FBool False"

fun decode_field :: "kind \<Rightarrow> fval \<Rightarrow> json \<Rightarrow> fval option" where
  "decode_field k old JNull = Some old"
| "decode_field KStr old (JStr s) = Some (FStr s)"
| "decode_field KInt old (JNum l) = map_option FInt (parse_int64 l)"
| "decode_field KBool old (JBool b) = Some (FBool b)"
| "decode_field _ _ _ = None"

text \<open>
  The field a key names: exactly, or up to case folding, where the Kelvin sign folds to K and the
  long s to S as well.
\<close>

function fold_name :: "bytes \<Rightarrow> bytes" where
  "fold_name [] = []"
| "fold_name (c # s) =
     (if starts_with [CHR 0xE2, CHR 0x84, CHR 0xAA] (c # s) then CHR ''K'' # fold_name (drop 2 s)
      else if starts_with [CHR 0xC5, CHR 0xBF] (c # s) then CHR ''S'' # fold_name (drop 1 s)
      else (if 97 \<le> byte c \<and> byte c \<le> 122 then char_of (byte c - 32) else c) # fold_name s)"
  by pat_completeness auto
termination
  by (relation "measure length") auto

text \<open>The fields of a struct: JSON name, kind, and whether the tag says \<open>omitempty\<close>.\<close>

type_synonym spec = "(bytes \<times> kind \<times> bool) list"

definition field_index :: "spec \<Rightarrow> bytes \<Rightarrow> nat option" where
  "field_index sp k =
     (case find (\<lambda>i. fst (sp ! i) = k) [0..<length sp] of
        Some i \<Rightarrow> Some i
      | None \<Rightarrow> find (\<lambda>i. fold_name (fst (sp ! i)) = fold_name k) [0..<length sp])"

fun decode_members :: "bool \<Rightarrow> spec \<Rightarrow> fval list \<Rightarrow> (bytes \<times> json) list \<Rightarrow> fval list option" where
  "decode_members strict sp vs [] = Some vs"
| "decode_members strict sp vs ((k, j) # ms) =
     (case field_index sp k of
        None \<Rightarrow> if strict then None else decode_members strict sp vs ms
      | Some i \<Rightarrow> (case decode_field (fst (snd (sp ! i))) (vs ! i) j of None \<Rightarrow> None
                  | Some v \<Rightarrow> decode_members strict sp (vs[i := v]) ms))"

definition zero_struct :: "spec \<Rightarrow> fval list" where
  "zero_struct sp = map (\<lambda>(n, k, om). zero_value k) sp"

fun decode_struct :: "bool \<Rightarrow> spec \<Rightarrow> json \<Rightarrow> fval list option" where
  "decode_struct strict sp JNull = Some (zero_struct sp)"
| "decode_struct strict sp (JObj ms) = decode_members strict sp (zero_struct sp) ms"
| "decode_struct strict sp _ = None"

text \<open>
  One value and then only white space: a \<open>Decoder\<close> with \<open>DisallowUnknownFields\<close> and the check that
  a second \<open>Decode\<close> gives \<open>io.EOF\<close> (strict), or \<open>json.Unmarshal\<close> (lenient).
\<close>

definition unmarshal :: "bool \<Rightarrow> spec \<Rightarrow> string \<Rightarrow> fval list option" where
  "unmarshal strict sp s =
     (case parse_value (Suc (length s)) s of None \<Rightarrow> None
      | Some (j, r) \<Rightarrow> if skip_ws r \<noteq> [] then None else decode_struct strict sp j)"

fun print_fval :: "bool \<Rightarrow> fval \<Rightarrow> string" where
  "print_fval html (FStr s) = quote html s"
| "print_fval html (FInt n) = format_int n"
| "print_fval html (FBool b) = (if b then ''true'' else ''false'')"

fun print_members :: "bool \<Rightarrow> (bytes \<times> fval) list \<Rightarrow> string" where
  "print_members html [] = []"
| "print_members html [(k, v)] = quote html k @ '':'' @ print_fval html v"
| "print_members html ((k, v) # ms) = quote html k @ '':'' @ print_fval html v @ '','' @ print_members html ms"

text \<open>The fields \<open>json.Marshal\<close> prints of a struct, and its text.\<close>

fun printed_fields :: "spec \<Rightarrow> fval list \<Rightarrow> (bytes \<times> fval) list" where
  "printed_fields ((n, k, om) # sp) (v # vs) =
     (if om \<and> v = zero_value k then [] else [(n, v)]) @ printed_fields sp vs"
| "printed_fields _ _ = []"

definition marshal :: "bool \<Rightarrow> spec \<Rightarrow> fval list \<Rightarrow> string" where
  "marshal html sp vs = ''{'' @ print_members html (printed_fields sp vs) @ ''}''"

section \<open>What is printed is read back\<close>

lemma hex_val_char: "d < 16 \<Longrightarrow> hex_val (hex_char d) = Some d"
  by (auto simp: hex_val_def hex_char_def byte_char_of Let_def)

lemma unquote_plain:
  assumes "32 \<le> byte c" "byte c < 128" "byte c \<noteq> 34" "byte c \<noteq> 92"
  shows "unquote (c # s) = map_option (\<lambda>(t, r). (c # t, r)) (unquote s)"
  using assms by (simp add: unquote.simps(2))

lemma unquote_simple:
  assumes "simple_escape e = Some x"
  shows "unquote (char_of (92::nat) # e # s) = map_option (\<lambda>(t, r). (x # t, r)) (unquote s)"
  using assms by (simp add: unquote.simps(2) byte_char_of)

lemma unquote_u:
  assumes "unicode_escape s = Some (x, r)"
  shows "unquote (char_of (92::nat) # CHR ''u'' # s) = map_option (\<lambda>(t, r). (x @ t, r)) (unquote r)"
proof -
  have "simple_escape CHR ''u'' = None"
    by (simp add: simple_escape_def byte_def)
  with assms show ?thesis
    by (simp add: unquote.simps(2) byte_char_of)
qed

lemma unicode_escape_00:
  assumes "b < 128"
  shows "unicode_escape (CHR ''0'' # CHR ''0'' # hex_char (b div 16) # hex_char (b mod 16) # s) = Some ([char_of b], s)"
proof -
  have "hex_val CHR ''0'' = Some 0"
    by (simp add: hex_val_def byte_def)
  moreover have "hex_val (hex_char (b div 16)) = Some (b div 16)" "hex_val (hex_char (b mod 16)) = Some (b mod 16)"
    using assms by (simp_all add: hex_val_char)
  ultimately show ?thesis
    using assms by (simp add: unicode_escape_def rune_bytes_def)
qed

lemma unquote_escape_byte:
  assumes "byte c < 128"
  shows "unquote (escape_byte html c @ s) = map_option (\<lambda>(t, r). (c # t, r)) (unquote s)"
proof -
  have ctl: "simple_escape CHR ''b'' = Some (char_of (8::nat))" "simple_escape CHR ''f'' = Some (char_of (12::nat))"
    "simple_escape CHR ''n'' = Some (char_of (10::nat))" "simple_escape CHR ''r'' = Some (char_of (13::nat))"
    "simple_escape CHR ''t'' = Some (char_of (9::nat))"
    by (simp_all add: simple_escape_def byte_def char_of_def bit_iff_odd)
  define q where "q \<longleftrightarrow> byte c < 32 \<or> html \<and> (byte c = 60 \<or> byte c = 62 \<or> byte c = 38)"
  define special where "special \<longleftrightarrow> byte c \<in> {34, 92, 8, 12, 10, 13, 9}"
  consider "byte c = 34 \<or> byte c = 92" | "byte c = 8" | "byte c = 12" | "byte c = 10" | "byte c = 13" | "byte c = 9"
    | "\<not> special" "q" | "\<not> special" "\<not> q"
    unfolding special_def by blast
  then show ?thesis
  proof cases
    case 1
    then have "simple_escape c = Some c" by (auto simp: simple_escape_def)
    from unquote_simple [OF this] 1 show ?thesis by (simp add: escape_byte_def Let_def)
  next
    case 7
    then have e: "escape_byte html c = [char_of (92::nat), CHR ''u'', CHR ''0'', CHR ''0'',
        hex_char (byte c div 16), hex_char (byte c mod 16)]"
      by (simp add: escape_byte_def Let_def special_def q_def)
    from unquote_u [OF unicode_escape_00 [OF assms]] show ?thesis
      unfolding e by simp
  next
    case 8
    then have "escape_byte html c = [c]" "32 \<le> byte c" "byte c \<noteq> 34" "byte c \<noteq> 92"
      by (auto simp: escape_byte_def Let_def special_def q_def)
    with assms show ?thesis by (simp add: unquote_plain)
  qed (simp_all add: escape_byte_def unquote_simple [OF ctl(1)] unquote_simple [OF ctl(2)]
      unquote_simple [OF ctl(3)] unquote_simple [OF ctl(4)] unquote_simple [OF ctl(5)] byte_eq [symmetric])
qed

lemma utf8_len_take:
  "utf8_len t \<noteq> 0 \<Longrightarrow> utf8_len (take (utf8_len t) t @ x) = utf8_len t"
  by (cases t) (auto split: list.splits if_splits)

lemma unquote_rune:
  assumes "utf8_len (c # s) \<noteq> 0" "128 \<le> byte c"
  shows "unquote (take (utf8_len (c # s)) (c # s) @ x) =
    map_option (\<lambda>(t, r). (take (utf8_len (c # s)) (c # s) @ t, r)) (unquote x)"
proof -
  define n where "n = utf8_len (c # s)"
  have n: "n \<noteq> 0" "n \<le> length (c # s)"
    using assms(1) utf8_len_le [of "c # s"] by (simp_all add: n_def del: utf8_len.simps)
  then obtain y where y: "take n (c # s) = c # y" by (cases n) auto
  have "utf8_len (take n (c # s) @ x) = n"
    using utf8_len_take [OF assms(1)] by (simp only: n_def)
  then have len: "utf8_len (c # (y @ x)) = n" using y by simp
  have "length (take n (c # s)) = n" using n by (simp only: length_take min_absorb2)
  then have ly: "length y = n - 1" using y n by simp
  have "take n (c # (y @ x)) = c # y" "drop n (c # (y @ x)) = x"
    using ly n(1) by (cases n; simp)+
  then have "unquote (c # (y @ x)) = map_option (\<lambda>(t, r). ((c # y) @ t, r)) (unquote x)"
    using assms(2) n(1) by (subst unquote.simps(2)) (simp only: len if_False, simp)
  then show ?thesis
    unfolding n_def [symmetric] y by simp
qed

lemma unquote_escape_rune:
  assumes "utf8_len (c # s) \<noteq> 0" "128 \<le> byte c"
  shows "unquote (escape_rune (take (utf8_len (c # s)) (c # s)) @ x) =
    map_option (\<lambda>(t, r). (take (utf8_len (c # s)) (c # s) @ t, r)) (unquote x)"
proof -
  define r where "r = take (utf8_len (c # s)) (c # s)"
  have sep: "unicode_escape (''2028'' @ x) = Some (line_separator, x)"
    "unicode_escape (''2029'' @ x) = Some (paragraph_separator, x)"
    by (simp_all add: unicode_escape_def hex_val_def byte_def rune_bytes_def line_separator_def
        paragraph_separator_def char_of_def bit_iff_odd)
  show ?thesis
    using unquote_rune [OF assms, of x] unquote_u [OF sep(1)] unquote_u [OF sep(2)]
    unfolding r_def [symmetric] by (simp add: escape_rune_def)
qed

lemma unquote_quote_body:
  "utf8_valid s \<Longrightarrow> unquote (quote_body html s @ CHR 0x22 # rest) = Some (s, rest)"
proof (induction html s rule: quote_body.induct)
  case (1 html)
  then show ?case by (simp add: unquote.simps(2) byte_def)
next
  case (2 html c s)
  show ?case
  proof (cases "byte c < 128")
    case True
    with "2.prems" have "utf8_valid s" by (simp add: utf8_valid_ascii)
    with "2.IH"(1) True show ?thesis
      by (simp add: quote_body.simps(2) unquote_escape_byte)
  next
    case False
    with "2.prems" have n: "utf8_len (c # s) \<noteq> 0" and v: "utf8_valid (drop (utf8_len (c # s)) (c # s))"
      by (subst (asm) utf8_valid.simps, metis list.simps(3))+
    note IH = "2.IH"(3) [OF False n v]
    have "unquote (quote_body html (c # s) @ CHR 0x22 # rest) =
      map_option (\<lambda>(t, r). (take (utf8_len (c # s)) (c # s) @ t, r))
        (unquote (quote_body html (drop (utf8_len (c # s)) (c # s)) @ CHR 0x22 # rest))"
      unfolding quote_body.simps(2) if_not_P [OF False] if_not_P [OF n] append_assoc
      by (rule unquote_escape_rune) (use n False in auto)
    then show ?thesis
      unfolding IH by simp
  qed
qed

lemma quote_text: "quote html s @ x = CHR 0x22 # (quote_body html s @ CHR 0x22 # x)"
  by (simp add: quote_def)

lemma skip_ws_Cons [simp]: "\<not> is_ws c \<Longrightarrow> skip_ws (c # s) = c # s"
  by (simp add: skip_ws_def)

lemma not_ws [simp]:
  "\<not> is_ws CHR 0x22" "\<not> is_ws CHR '':''" "\<not> is_ws CHR '',''" "\<not> is_ws CHR ''}''" "\<not> is_ws CHR ''{''"
  by (simp_all add: is_ws_def byte_def)

fun json_of :: "fval \<Rightarrow> json" where
  "json_of (FStr s) = JStr s"
| "json_of (FInt n) = JNum (format_int n)"
| "json_of (FBool b) = JBool b"

text \<open>Values that survive: valid UTF-8 strings and integers of 64 bits.\<close>

fun printable :: "fval \<Rightarrow> bool" where
  "printable (FStr s) = utf8_valid s"
| "printable (FInt n) = (- (2 ^ 63) \<le> n \<and> n < 2 ^ 63)"
| "printable (FBool b) = True"

definition delimiter :: "char \<Rightarrow> bool" where
  "delimiter c \<longleftrightarrow> c = CHR '','' \<or> c = CHR ''}''"

lemma delimiter_props:
  assumes "delimiter c"
  shows "\<not> is_digit c" "\<not> is_ws c" "c \<noteq> CHR ''.''" "c \<noteq> CHR ''e''" "c \<noteq> CHR ''E''"
  using assms by (auto simp: delimiter_def is_digit_def is_ws_def byte_def)

lemma digits_before_delimiter:
  assumes "list_all is_digit s" "delimiter c"
  shows "takeWhile is_digit (s @ c # x) = s" "dropWhile is_digit (s @ c # x) = c # x"
  using assms delimiter_props(1) [OF assms(2)]
  by (auto simp: list_all_iff takeWhile_append dropWhile_append)

lemma nat_digits_Cons:
  obtains d ds where "nat_digits n = d # ds" "is_digit d" "list_all is_digit ds" "d = CHR ''0'' \<longrightarrow> ds = []"
proof -
  obtain d ds where d: "nat_digits n = d # ds"
    by (cases "nat_digits n") auto
  have "list_all is_digit (d # ds)"
    using nat_digits_are_digits [of n] by (simp only: d)
  moreover have "ds = []" if "d = CHR ''0''"
  proof -
    have "n = 0" using hd_nat_digits [of n] that by (simp add: d)
    then show ?thesis using d by (subst (asm) nat_digits.simps) simp
  qed
  ultimately show ?thesis using that d by simp
qed

lemma int_part_format:
  assumes "delimiter c"
  shows "int_part (format_int n @ c # x) = Some (format_int n, c # x)"
proof -
  obtain d ds where d: "nat_digits (nat \<bar>n\<bar>) = d # ds" and dig: "is_digit d" "list_all is_digit ds"
    and z: "d = CHR ''0'' \<longrightarrow> ds = []"
    by (rule nat_digits_Cons [of "nat \<bar>n\<bar>"])
  have "list_all is_digit (d # ds)" using dig by simp
  from digits_before_delimiter [OF this assms]
  have tw: "takeWhile is_digit (d # ds @ c # x) = d # ds" "dropWhile is_digit (d # ds @ c # x) = c # x"
    by simp_all
  have nm: "d \<noteq> CHR ''-''" using dig(1) by (auto simp: is_digit_def byte_def)
  show ?thesis
  proof (cases "n < 0")
    case True
    with d have f: "format_int n = CHR ''-'' # d # ds" by (simp add: format_int_def)
    show ?thesis unfolding f using tw dig(1) z by (auto simp: int_part_def)
  next
    case False
    with d have f: "format_int n = d # ds" by (simp add: format_int_def)
    show ?thesis unfolding f using tw dig(1) z nm by (auto simp: int_part_def)
  qed
qed

lemma number_literal_format:
  assumes "delimiter c"
  shows "number_literal (format_int n @ c # x) = Some (format_int n, c # x)"
  using int_part_format [OF assms, of n x] delimiter_props [OF assms]
  by (simp add: number_literal_def frac_part_def exp_part_def)

lemma format_int_Cons:
  obtains h t where "format_int n = h # t" "is_digit h \<or> h = CHR ''-''"
proof -
  obtain d ds where "nat_digits (nat \<bar>n\<bar>) = d # ds" "is_digit d" "list_all is_digit ds"
      "d = CHR ''0'' \<longrightarrow> ds = []"
    by (rule nat_digits_Cons [of "nat \<bar>n\<bar>"])
  then show ?thesis
    using that by (cases "n < 0") (auto simp: format_int_def)
qed

lemma parse_printed_value:
  assumes "printable v" "delimiter c"
  shows "parse_value (Suc n) (print_fval html v @ c # x) = Some (json_of v, c # x)"
proof (cases v)
  case (FStr s)
  with assms(1) have "unquote (quote_body html s @ CHR 0x22 # c # x) = Some (s, c # x)"
    by (simp add: unquote_quote_body)
  with FStr show ?thesis
    by (simp add: quote_text byte_def)
next
  case (FInt k)
  obtain h t where f: "format_int k = h # t" and h: "is_digit h \<or> h = CHR ''-''"
    by (rule format_int_Cons)
  from h have hh: "\<not> is_ws h" "byte h \<noteq> 34" "h \<noteq> CHR ''{''" "h \<noteq> CHR ''[''" "h \<noteq> CHR ''t''"
    "h \<noteq> CHR ''f''" "h \<noteq> CHR ''n''"
    by (auto simp: is_digit_def is_ws_def byte_def)
  have "number_literal (h # (t @ c # x)) = Some (h # t, c # x)"
    using number_literal_format [OF assms(2), of k x] by (simp only: f append_Cons)
  with hh FInt f show ?thesis by simp
next
  case (FBool b)
  then show ?thesis
    by (cases b) (simp_all add: skip_ws_def is_ws_def byte_def)
qed

lemma parse_printed_members:
  assumes "ms \<noteq> []" "length ms < n" "\<forall>(k, v)\<in>set ms. utf8_valid k \<and> printable v"
  shows "parse_members n (print_members html ms @ CHR ''}'' # x) = Some (map (\<lambda>(k, v). (k, json_of v)) ms, x)"
  using assms
proof (induction html ms arbitrary: n rule: print_members.induct)
  case (1 html)
  then show ?case by simp
next
  case (2 html k v)
  then obtain m where n: "n = Suc (Suc m)" by (cases n; cases "n - 1") auto
  have "parse_value (Suc m) (print_fval html v @ CHR ''}'' # x) = Some (json_of v, CHR ''}'' # x)"
    using 2 by (intro parse_printed_value) (auto simp: delimiter_def)
  moreover have "unquote (quote_body html k @ CHR 0x22 # y) = Some (k, y)" for y
    using 2 by (simp add: unquote_quote_body)
  ultimately show ?case
    by (simp add: n quote_text byte_def del: parse_value.simps)
next
  case (3 html k v m1 ms)
  then obtain m where n: "n = Suc (Suc m)" and m: "length (m1 # ms) < Suc m"
    by (cases n; cases "n - 1") auto
  have "parse_value (Suc m) (print_fval html v @ CHR '','' # y) = Some (json_of v, CHR '','' # y)" for y
    using 3 by (intro parse_printed_value) (auto simp: delimiter_def)
  moreover have "unquote (quote_body html k @ CHR 0x22 # y) = Some (k, y)" for y
    using 3 by (simp add: unquote_quote_body)
  moreover have "parse_members (Suc m) (print_members html (m1 # ms) @ CHR ''}'' # x) =
      Some (map (\<lambda>(k, v). (k, json_of v)) (m1 # ms), x)"
    using 3 m by (intro "3.IH") auto
  ultimately show ?case
    unfolding n print_members.simps(3) append_assoc quote_text
    by (subst parse_members.simps(2))
      (simp add: byte_def del: parse_value.simps parse_members.simps(2) print_members.simps)
qed

section \<open>Structs\<close>

definition spec_ok :: "spec \<Rightarrow> bool" where
  "spec_ok sp \<longleftrightarrow> distinct (map fst sp) \<and> list_all utf8_valid (map fst sp)"

fun has_kind :: "kind \<Rightarrow> fval \<Rightarrow> bool" where
  "has_kind KStr (FStr _) = True"
| "has_kind KInt (FInt _) = True"
| "has_kind KBool (FBool _) = True"
| "has_kind _ _ = False"

definition struct_ok :: "spec \<Rightarrow> fval list \<Rightarrow> bool" where
  "struct_ok sp vs \<longleftrightarrow>
     length vs = length sp \<and> list_all2 (\<lambda>f v. has_kind (fst (snd f)) v \<and> printable v) sp vs"

lemma find_upt_unique:
  assumes "i < n" "P i" "\<And>j. j < i \<Longrightarrow> \<not> P j"
  shows "find P [0..<n] = Some i"
  using assms by (auto simp: find_Some_iff intro!: exI [of _ i])

lemma field_index_own:
  assumes "distinct (map fst sp)" "i < length sp"
  shows "field_index sp (fst (sp ! i)) = Some i"
proof -
  have "find (\<lambda>j. fst (sp ! j) = fst (sp ! i)) [0..<length sp] = Some i"
  proof (rule find_upt_unique)
    fix j
    assume "j < i"
    with assms show "\<not> fst (sp ! j) = fst (sp ! i)"
      using nth_eq_iff_index_eq [OF assms(1), of j i] by simp
  qed (use assms in simp_all)
  then show ?thesis by (simp add: field_index_def)
qed

lemma decode_own_field: "has_kind k v \<Longrightarrow> printable v \<Longrightarrow> decode_field k old (json_of v) = Some v"
  by (cases k; cases v) (auto simp: parse_format_int)

lemma decode_printed_suffix:
  assumes "distinct (map fst (pre @ suf))" "length vpre = length pre"
    and "list_all2 (\<lambda>f v. has_kind (fst (snd f)) v \<and> printable v) suf vsuf"
  shows "decode_members strict (pre @ suf) (vpre @ zero_struct suf)
      (map (\<lambda>(k, v). (k, json_of v)) (printed_fields suf vsuf)) = Some (vpre @ vsuf)"
  using assms
proof (induction suf vsuf arbitrary: pre vpre rule: printed_fields.induct)
  case (1 n k om sp v vs)
  have IH: "decode_members strict (pre @ (n, k, om) # sp) (vpre @ v # zero_struct sp)
      (map (\<lambda>(k, v). (k, json_of v)) (printed_fields sp vs)) = Some (vpre @ v # vs)"
    using "1.IH" [of "pre @ [(n, k, om)]" "vpre @ [v]"] "1.prems" by simp
  show ?case
  proof (cases "om \<and> v = zero_value k")
    case True
    with IH show ?thesis by (simp add: zero_struct_def)
  next
    case False
    have "field_index (pre @ (n, k, om) # sp) n = Some (length pre)"
      using field_index_own [of "pre @ (n, k, om) # sp" "length pre"] "1.prems"(1) by simp
    moreover have "printed_fields ((n, k, om) # sp) (v # vs) = (n, v) # printed_fields sp vs"
      using False by auto
    moreover have "zero_struct ((n, k, om) # sp) = zero_value k # zero_struct sp"
      by (simp add: zero_struct_def)
    ultimately show ?thesis
      using "1.prems"(2,3) IH
      by (simp only: list.map decode_members.simps prod.case)
        (simp add: decode_own_field nth_append list_update_append)
  qed
qed (auto simp: zero_struct_def list_all2_Cons1 list_all2_Cons2)

lemma printed_fields_sub:
  "(n, v) \<in> set (printed_fields sp vs) \<Longrightarrow> n \<in> fst ` set sp \<and> v \<in> set vs"
  by (induction sp vs rule: printed_fields.induct) (auto split: if_splits)

lemma length_printed_fields: "length (printed_fields sp vs) \<le> length sp"
  by (induction sp vs rule: printed_fields.induct) auto

lemma length_print_members: "ms \<noteq> [] \<Longrightarrow> length ms \<le> length (print_members html ms)"
  by (induction html ms rule: print_members.induct) (auto simp: quote_def)

theorem unmarshal_marshal:
  assumes "spec_ok sp" "struct_ok sp vs"
  shows "unmarshal strict sp (marshal html sp vs) = Some vs"
proof -
  define ms where "ms = printed_fields sp vs"
  define t where "t = marshal html sp vs"
  have vals: "\<forall>(k, v)\<in>set ms. utf8_valid k \<and> printable v"
  proof safe
    fix k v
    assume "(k, v) \<in> set ms"
    then have "k \<in> fst ` set sp" "v \<in> set vs"
      using printed_fields_sub unfolding ms_def by blast+
    moreover have "\<forall>v\<in>set vs. printable v"
      using assms(2) by (metis (mono_tags, lifting) struct_ok_def list_all2_conv_all_nth in_set_conv_nth)
    ultimately show "utf8_valid k" "printable v"
      using assms(1) by (auto simp: spec_ok_def list_all_iff)
  qed
  have dec: "decode_members strict sp (zero_struct sp) (map (\<lambda>(k, v). (k, json_of v)) ms) = Some vs"
    using decode_printed_suffix [of "[]" sp "[]" vs strict] assms by (simp add: ms_def spec_ok_def struct_ok_def)
  have "parse_value (Suc (length t)) t = Some (JObj (map (\<lambda>(k, v). (k, json_of v)) ms), [])"
  proof (cases "ms = []")
    case True
    then have "t = ''{}''" by (simp add: t_def marshal_def ms_def)
    with True show ?thesis by (simp add: byte_def)
  next
    case False
    have t: "t = CHR ''{'' # print_members html ms @ [CHR ''}'']"
      by (simp add: t_def marshal_def ms_def)
    obtain k v ms' where ms: "ms = (k, v) # ms'"
      using False by (cases ms) auto
    then obtain y where y: "print_members html ms @ [CHR ''}''] = CHR 0x22 # y"
      by (cases ms') (simp_all add: quote_def)
    have "length ms < length t"
      using length_print_members [OF False, of html] by (simp add: t)
    from parse_printed_members [OF False this vals, of html "[]"]
    have "parse_members (length t) (CHR 0x22 # y) = Some (map (\<lambda>(k, v). (k, json_of v)) ms, [])"
      by (simp only: y)
    moreover have "t = CHR ''{'' # CHR 0x22 # y"
      by (simp only: t y)
    ultimately show ?thesis
      by (simp add: byte_def)
  qed
  then show ?thesis
    using dec by (simp add: unmarshal_def t_def [symmetric] skip_ws_def)
qed

section \<open>The size of what is printed\<close>

lemma length_escape_byte: "length (escape_byte html c) \<le> 6"
  by (simp add: escape_byte_def Let_def)

lemma length_escape_rune: "r \<noteq> [] \<Longrightarrow> length (escape_rune r) \<le> 6 * length r"
  by (cases r) (auto simp: escape_rune_def)

lemma length_quote_body: "length (quote_body html s) \<le> 6 * length s"
proof (induction html s rule: quote_body.induct)
  case (2 html c s)
  show ?case
  proof (cases "byte c < 128")
    case True
    with "2.IH"(1) length_escape_byte [of html c] show ?thesis
      by (simp add: quote_body.simps(2))
  next
    case big: False
    show ?thesis
    proof (cases "utf8_len (c # s) = 0")
      case True
      with "2.IH"(2) big show ?thesis
        by (simp add: quote_body.simps(2) del: utf8_len.simps)
    next
      case False
      define n where "n = utf8_len (c # s)"
      have n: "0 < n" "n \<le> length (c # s)"
        using False utf8_len_le [of "c # s"] by (simp_all add: n_def del: utf8_len.simps)
      have q: "quote_body html (c # s) = escape_rune (take n (c # s)) @ quote_body html (drop n (c # s))"
        unfolding n_def quote_body.simps(2) using big False by (simp only: if_False)
      have "take n (c # s) \<noteq> []"
        using n by (cases n) simp_all
      then have "length (escape_rune (take n (c # s))) \<le> 6 * n"
        using length_escape_rune [of "take n (c # s)"] n by simp
      moreover have "length (quote_body html (drop n (c # s))) \<le> 6 * (length (c # s) - n)"
        using "2.IH"(3) [OF big False] unfolding n_def [symmetric] by simp
      ultimately show ?thesis
        unfolding q using n(2) by simp
    qed
  qed
qed simp

fun fval_size :: "fval \<Rightarrow> nat" where
  "fval_size (FStr s) = 6 * length s + 2"
| "fval_size (FInt n) = length (format_int n)"
| "fval_size (FBool b) = 5"

lemma length_print_fval: "length (print_fval html v) \<le> fval_size v"
  using length_quote_body [of html] by (cases v) (auto simp: quote_def)

lemma length_print_members_le:
  "length (print_members html ms) \<le> (\<Sum>(k, v)\<leftarrow>ms. 6 * length k + 4 + fval_size v)"
proof (induction html ms rule: print_members.induct)
  case (2 html k v)
  then show ?case
    using length_quote_body [of html k] length_print_fval [of html v] by (simp add: quote_def)
next
  case (3 html k v m ms)
  then show ?case
    using length_quote_body [of html k] length_print_fval [of html v] by (simp add: quote_def)
qed simp

definition struct_size :: "spec \<Rightarrow> fval list \<Rightarrow> nat" where
  "struct_size sp vs = 2 + (\<Sum>((n, k, om), v)\<leftarrow>zip sp vs. 6 * length n + 4 + fval_size v)"

lemma length_marshal: "length (marshal html sp vs) \<le> struct_size sp vs"
proof -
  have "(\<Sum>(k, v)\<leftarrow>printed_fields sp vs. 6 * length k + 4 + fval_size v) + 2 \<le> struct_size sp vs"
    by (induction sp vs rule: printed_fields.induct) (auto simp: struct_size_def split: if_splits)
  then show ?thesis
    using length_print_members_le [of html "printed_fields sp vs"] by (simp add: marshal_def)
qed

end
