(* ===== verification/Payload.thy ===== *)
theory Payload
  imports Go_Json
begin

text \<open>
  \<open>DecodePayload\<close> of src/internal/platform/message/codec.go and the encoding of a payload with
  \<open>json.Marshal\<close> in \<open>Codec.Sign\<close>. A payload type is a record with three functions: its JSON
  fields, the values of a record and the record of the values. The locale \<open>payload_type\<close> is the
  contract between a message type and the codec; the contract theories interpret it once for
  every message type of the program, and what it gives is that a decoded payload is the encoded
  one.
\<close>

definition decode_payload :: "spec \<Rightarrow> (fval list \<Rightarrow> 'r) \<Rightarrow> bytes \<Rightarrow> error + 'r" where
  "decode_payload sp of_vals s =
     (case unmarshal True sp s of None \<Rightarrow> Inl (Errorf ''decode payload'') | Some vs \<Rightarrow> Inr (of_vals vs))"

definition encode_payload :: "spec \<Rightarrow> ('r \<Rightarrow> fval list) \<Rightarrow> 'r \<Rightarrow> bytes" where
  "encode_payload sp vals r = marshal True sp (vals r)"

text \<open>The field of a decoded value list at a position, of the kind the position has.\<close>

fun str_of :: "fval \<Rightarrow> bytes" where
  "str_of (FStr s) = s"
| "str_of _ = []"

fun int_of :: "fval \<Rightarrow> int" where
  "int_of (FInt n) = n"
| "int_of _ = 0"

fun bool_of :: "fval \<Rightarrow> bool" where
  "bool_of (FBool b) = b"
| "bool_of _ = False"

lemma struct_ok_kinds:
  "struct_ok sp vs \<longleftrightarrow> list_all2 (\<lambda>f v. has_kind (fst (snd f)) v) sp vs \<and> list_all printable vs"
proof (cases "length vs = length sp")
  case True
  then have "list_all2 (\<lambda>f v. has_kind (fst (snd f)) v \<and> printable v) sp vs \<longleftrightarrow>
      list_all2 (\<lambda>f v. has_kind (fst (snd f)) v) sp vs \<and> list_all printable vs"
    by (induction vs sp rule: list_induct2) auto
  with True show ?thesis
    by (simp add: struct_ok_def)
next
  case False
  then have "\<not> list_all2 (\<lambda>f v. has_kind (fst (snd f)) v) sp vs"
    by (metis list_all2_lengthD)
  with False show ?thesis
    by (simp add: struct_ok_def)
qed

locale payload_type =
  fixes sp :: spec and vals :: "'r \<Rightarrow> fval list" and of_vals :: "fval list \<Rightarrow> 'r"
  assumes names: "spec_ok sp"
    and kinds: "list_all2 (\<lambda>f v. has_kind (fst (snd f)) v) sp (vals r)"
    and read_back: "of_vals (vals r) = r"
begin

lemma unmarshal_vals:
  "list_all printable (vals r) \<Longrightarrow> unmarshal strict sp (marshal html sp (vals r)) = Some (vals r)"
  by (intro unmarshal_marshal names) (simp add: struct_ok_kinds kinds)

lemma decode_encode:
  "list_all printable (vals r) \<Longrightarrow> decode_payload sp of_vals (encode_payload sp vals r) = Inr r"
  using unmarshal_vals [of r True True]
  by (simp only: decode_payload_def encode_payload_def option.case read_back)

lemma encode_inj:
  assumes "list_all printable (vals r)" "list_all printable (vals r')"
    and "encode_payload sp vals r = encode_payload sp vals r'"
  shows "r = r'"
  using decode_encode [OF assms(1)] decode_encode [OF assms(2)] assms(3) by (metis sum.inject(2))

end

end
