(* ===== verification/Go_Time.thy ===== *)
theory Go_Time
  imports Go_Strings "HOL-Library.Monad_Syntax"
begin

text \<open>
  The part of Go's package \<open>time\<close> the program uses: \<open>time.Parse(time.RFC3339Nano, s)\<close> with the
  leniencies of Go's parser (a one-digit hour, a comma for the period, any number of fraction
  digits, zone offsets up to 24 hours and 60 minutes), \<open>t.UTC().Format(time.RFC3339Nano)\<close>, and
  \<open>Sub\<close>, which saturates at the range of a 64-bit duration. A parsed time is its instant and
  whether its location is UTC, which it is when the text ends in \<open>Z\<close>. The main fact is that what
  \<open>Format\<close> prints for an instant of the years 0 to 9999 parses back to that instant.
\<close>

definition nanosecond :: duration where "nanosecond = 1"
definition millisecond :: duration where "millisecond = 1000000"
definition second :: duration where "second = 1000000000"
definition minute :: duration where "minute = 60 * second"
definition hour :: duration where "hour = 60 * minute"

lemmas duration_defs = nanosecond_def millisecond_def second_def minute_def hour_def

definition time_sub :: "instant \<Rightarrow> instant \<Rightarrow> duration" where
  "time_sub t u = max (- (2 ^ 63)) (min (2 ^ 63 - 1) (t - u))"

section \<open>The calendar\<close>

definition is_leap :: "int \<Rightarrow> bool" where
  "is_leap y \<longleftrightarrow> y mod 4 = 0 \<and> (y mod 100 \<noteq> 0 \<or> y mod 400 = 0)"

definition month_lengths :: "bool \<Rightarrow> int list" where
  "month_lengths leap = [31, if leap then 29 else 28, 31, 30, 31, 30, 31, 31, 30, 31, 30, 31]"

definition days_before_year :: "int \<Rightarrow> int" where
  "days_before_year y = 365 * y + (y + 3) div 4 - (y + 99) div 100 + (y + 399) div 400"

definition days_before_month :: "int \<Rightarrow> int \<Rightarrow> int" where
  "days_before_month y m = sum_list (take (nat (m - 1)) (month_lengths (is_leap y)))"

definition days_in :: "int \<Rightarrow> int \<Rightarrow> int" where
  "days_in m y = month_lengths (is_leap y) ! nat (m - 1)"

definition epoch_days :: int where
  "epoch_days = 719528"

definition date_instant :: "int \<Rightarrow> int \<Rightarrow> int \<Rightarrow> int \<Rightarrow> int \<Rightarrow> int \<Rightarrow> int \<Rightarrow> instant" where
  "date_instant y mo d h mi s ns =
     (((days_before_year y + days_before_month y mo + d - 1 - epoch_days) * 24 + h) * 60 + mi) * 60 * 1000000000
     + s * 1000000000 + ns"

text \<open>The year and the day of the year of a day counted from 1 January of year 0.\<close>

definition year_day :: "int \<Rightarrow> int \<times> int" where
  "year_day d =
     (let e = d - 366; a = e div 146097; r = e mod 146097;
          b = min 3 (r div 36524); r2 = r - 36524 * b;
          c = r2 div 1461; r3 = r2 - 1461 * c;
          n = min 3 (r3 div 365)
      in (400 * a + 100 * b + 4 * c + n + 1, r3 - 365 * n))"

fun split_month :: "int \<Rightarrow> int list \<Rightarrow> int \<Rightarrow> int \<times> int" where
  "split_month m [] r = (m, r + 1)"
| "split_month m (l # ls) r = (if r < l then (m, r + 1) else split_month (m + 1) ls (r - l))"

definition civil :: "int \<Rightarrow> int \<times> int \<times> int" where
  "civil d = (let (y, yd) = year_day d; (m, day) = split_month 1 (month_lengths (is_leap y)) yd
              in (y, m, day))"

lemma mod_zero_top:
  fixes x k :: int
  assumes "1 \<le> x" "x \<le> k"
  shows "x mod k = 0 \<longleftrightarrow> x = k"
  using assms by (cases "x = k") simp_all

lemma year_day_parts:
  fixes a b c n :: int
  assumes "0 \<le> b" "b \<le> 3" "0 \<le> c" "c \<le> 24" "0 \<le> n" "n \<le> 3"
  defines "y \<equiv> 400 * a + 100 * b + 4 * c + n + 1"
  shows "days_before_year y = 365 * y + (100 * a + 25 * b + c + 1) - (4 * a + b + 1) + (a + 1)"
    and "is_leap y \<longleftrightarrow> n = 3 \<and> (c \<noteq> 24 \<or> b = 3)"
proof -
  have "(y + 3) div 4 = 100 * a + 25 * b + c + 1"
    by (rule int_div_pos_eq [where r = n]) (use assms(1-6) in \<open>simp_all add: y_def\<close>)
  moreover have "(y + 99) div 100 = 4 * a + b + 1"
    by (rule int_div_pos_eq [where r = "4 * c + n"]) (use assms(1-6) in \<open>simp_all add: y_def\<close>)
  moreover have "(y + 399) div 400 = a + 1"
    by (rule int_div_pos_eq [where r = "100 * b + 4 * c + n"]) (use assms(1-6) in \<open>simp_all add: y_def\<close>)
  ultimately show "days_before_year y = 365 * y + (100 * a + 25 * b + c + 1) - (4 * a + b + 1) + (a + 1)"
    by (simp add: days_before_year_def)
  have "y = 4 * (100 * a + 25 * b + c) + (n + 1)"
    by (simp add: y_def)
  then have "y mod 4 = (n + 1) mod 4"
    by (simp only: mod_mult_self4)
  with assms(5,6) have m4: "y mod 4 = 0 \<longleftrightarrow> n = 3"
    by (cases "n = 3") auto
  have "y = 100 * (4 * a + b) + (4 * c + n + 1)"
    by (simp add: y_def)
  then have "y mod 100 = (4 * c + n + 1) mod 100"
    by (simp only: mod_mult_self4)
  also have "\<dots> = 0 \<longleftrightarrow> 4 * c + n + 1 = 100"
    using assms(3-6) by (intro mod_zero_top) simp_all
  also have "\<dots> \<longleftrightarrow> n = 3 \<and> c = 24"
    using assms(3-6) by linarith
  finally have m100: "y mod 100 = 0 \<longleftrightarrow> n = 3 \<and> c = 24" .
  have "y = 400 * a + (100 * b + 4 * c + n + 1)"
    by (simp add: y_def)
  then have "y mod 400 = (100 * b + 4 * c + n + 1) mod 400"
    by (simp only: mod_mult_self4)
  also have "\<dots> = 0 \<longleftrightarrow> 100 * b + 4 * c + n + 1 = 400"
    using assms(1-6) by (intro mod_zero_top) simp_all
  also have "\<dots> \<longleftrightarrow> n = 3 \<and> c = 24 \<and> b = 3"
    using assms(1-6) by linarith
  finally have m400: "y mod 400 = 0 \<longleftrightarrow> n = 3 \<and> c = 24 \<and> b = 3" .
  from m4 m100 m400 show "is_leap y \<longleftrightarrow> n = 3 \<and> (c \<noteq> 24 \<or> b = 3)"
    by (auto simp: is_leap_def)
qed

text \<open>One step of the decomposition: \<open>min k (r div m)\<close> and what is left, for \<open>r \<le> (k + 1) * m\<close>.\<close>

lemma min_div_step:
  fixes r m k :: int
  assumes "0 \<le> r" "0 < m" "0 \<le> k" "r \<le> (k + 1) * m"
  defines "q \<equiv> min k (r div m)"
  shows "0 \<le> q" "q \<le> k" "0 \<le> r - m * q" "r - m * q \<le> m" "q \<noteq> k \<Longrightarrow> r - m * q < m"
proof -
  have r: "r = m * (r div m) + r mod m" and "0 \<le> r mod m" "r mod m < m" and "0 \<le> r div m"
    using assms(1,2) by (simp_all add: pos_imp_zdiv_nonneg_iff)
  show "0 \<le> q" "q \<le> k" using assms(3) \<open>0 \<le> r div m\<close> by (simp_all add: q_def)
  have "m * q \<le> m * (r div m)"
    using assms(2) by (intro mult_left_mono) (simp_all add: q_def)
  with r \<open>0 \<le> r mod m\<close> show "0 \<le> r - m * q" by linarith
  show lt: "r - m * q < m" if "q \<noteq> k"
  proof -
    from that have "q = r div m" by (simp add: q_def min_def split: if_splits)
    then have "m * q = m * (r div m)" by simp
    with r \<open>r mod m < m\<close> show ?thesis by linarith
  qed
  show "r - m * q \<le> m"
  proof (cases "q = k")
    case True
    with assms(4) show ?thesis by (simp add: algebra_simps)
  next
    case False
    then show ?thesis using lt by simp
  qed
qed

lemma year_day_correct:
  assumes "year_day d = (y, yd)"
  shows "days_before_year y + yd = d \<and> 0 \<le> yd \<and> yd < (if is_leap y then 366 else 365)"
proof -
  define e where "e = d - 366"
  define a where "a = e div 146097"
  define r where "r = e mod 146097"
  define b where "b = min 3 (r div 36524)"
  define r2 where "r2 = r - 36524 * b"
  define c where "c = r2 div 1461"
  define r3 where "r3 = r2 - 1461 * c"
  define n where "n = min 3 (r3 div 365)"
  have "year_day d = (400 * a + 100 * b + 4 * c + n + 1, r3 - 365 * n)"
    unfolding year_day_def Let_def n_def r3_def c_def r2_def b_def r_def a_def e_def by (rule refl)
  with assms have y: "y = 400 * a + 100 * b + 4 * c + n + 1" and yd: "yd = r3 - 365 * n"
    by simp_all
  have r: "0 \<le> r" "r < 146097" and e: "e = 146097 * a + r"
    by (auto simp: r_def a_def)
  have b: "0 \<le> b" "b \<le> 3" and r2: "0 \<le> r2" "r2 \<le> 36524" and r2': "b \<noteq> 3 \<Longrightarrow> r2 < 36524"
    using min_div_step [of r 36524 3] r by (simp_all add: b_def r2_def)
  have "r3 = r2 mod 1461"
    by (simp add: r3_def c_def minus_mult_div_eq_mod)
  then have r3: "0 \<le> r3" "r3 < 1461" by simp_all
  have c: "0 \<le> c" "c \<le> 24"
    using r2 by (simp_all add: c_def pos_imp_zdiv_nonneg_iff)
  have n: "0 \<le> n" "n \<le> 3" and yd_bound: "0 \<le> yd" "yd \<le> 365" and yd': "n \<noteq> 3 \<Longrightarrow> yd < 365"
    using min_div_step [of r3 365 3] r3 by (simp_all add: n_def yd)
  note parts = year_day_parts [OF b c n, of a, folded y]
  have yd_leap: "yd < 365" if "n = 3" "c = 24" "b \<noteq> 3"
    using that r2' by (auto simp: yd r3_def)
  have "days_before_year y + yd = d"
    unfolding parts(1) unfolding yd r3_def r2_def y using e by (simp add: e_def)
  moreover have "yd < (if is_leap y then 366 else 365)"
    using yd_bound(2) yd' yd_leap by (auto simp: parts(2))
  ultimately show ?thesis using yd_bound(1) by simp
qed

lemma split_month_correct:
  assumes "split_month m ls r = (m', day)" and "0 \<le> r" and "r < sum_list ls"
  shows "m \<le> m' \<and> nat (m' - m) < length ls \<and> 1 \<le> day \<and> day \<le> ls ! nat (m' - m) \<and>
         r = sum_list (take (nat (m' - m)) ls) + day - 1"
  using assms
proof (induction m ls r rule: split_month.induct)
  case (1 m r)
  then show ?case by simp
next
  case (2 m l ls r)
  show ?case
  proof (cases "r < l")
    case True
    with "2.prems" show ?thesis by auto
  next
    case False
    with "2.prems" have "split_month (m + 1) ls (r - l) = (m', day)" "0 \<le> r - l" "r - l < sum_list ls"
      by auto
    from "2.IH" [OF False this]
    have IH: "m + 1 \<le> m'" "nat (m' - (m + 1)) < length ls" "1 \<le> day"
      "day \<le> ls ! nat (m' - (m + 1))" "r - l = sum_list (take (nat (m' - (m + 1))) ls) + day - 1"
      by auto
    from IH(1) have "nat (m' - m) = Suc (nat (m' - (m + 1)))" by simp
    with IH show ?thesis by simp
  qed
qed

lemma civil_correct:
  assumes "civil d = (y, m, day)"
  shows "1 \<le> m" "m \<le> 12" "1 \<le> day" "day \<le> days_in m y" "day \<le> 31"
    and "days_before_year y + days_before_month y m + day - 1 = d"
proof -
  obtain yd where yd: "year_day d = (y, yd)"
    and sm: "split_month 1 (month_lengths (is_leap y)) yd = (m, day)"
    using assms by (auto simp: civil_def split: prod.splits)
  from year_day_correct [OF yd] have d: "days_before_year y + yd = d" and "0 \<le> yd"
    and "yd < sum_list (month_lengths (is_leap y))"
    by (auto simp: month_lengths_def split: if_splits)
  from split_month_correct [OF sm this(2,3)]
  have *: "1 \<le> m" "nat (m - 1) < length (month_lengths (is_leap y))" "1 \<le> day"
    "day \<le> month_lengths (is_leap y) ! nat (m - 1)"
    "yd = sum_list (take (nat (m - 1)) (month_lengths (is_leap y))) + day - 1"
    by auto
  have "\<forall>x\<in>set (month_lengths (is_leap y)). x \<le> 31"
    by (simp add: month_lengths_def)
  with *(2) have "month_lengths (is_leap y) ! nat (m - 1) \<le> 31"
    using nth_mem by blast
  with * d show "1 \<le> m" "1 \<le> day" "day \<le> days_in m y" "day \<le> 31"
    "days_before_year y + days_before_month y m + day - 1 = d"
    by (auto simp: days_in_def days_before_month_def)
  from *(2) show "m \<le> 12" by (simp add: month_lengths_def)
qed

section \<open>Format\<close>

definition pad_int :: "nat \<Rightarrow> int \<Rightarrow> string" where
  "pad_int w n =
     (let ds = nat_digits (nat \<bar>n\<bar>)
      in (if n < 0 then ''-'' else []) @ replicate (w - length ds) CHR ''0'' @ ds)"

definition trim_zeros :: "string \<Rightarrow> string" where
  "trim_zeros s = rev (dropWhile (\<lambda>c. c = CHR ''0'') (rev s))"

definition day_nanos :: int where
  "day_nanos = 86400 * 1000000000"

text \<open>\<open>t.UTC().Format(layout)\<close> with layout \<open>time.RFC3339Nano\<close> or \<open>time.RFC3339\<close>.\<close>

definition format_time :: "bool \<Rightarrow> instant \<Rightarrow> string" where
  "format_time nano t =
     (let (y, mo, d) = civil (t div day_nanos + epoch_days);
          r = t mod day_nanos; ns = r mod 1000000000; sec = r div 1000000000
      in pad_int 4 y @ ''-'' @ pad_int 2 mo @ ''-'' @ pad_int 2 d @ ''T'' @
         pad_int 2 (sec div 3600) @ '':'' @ pad_int 2 (sec div 60 mod 60) @ '':'' @ pad_int 2 (sec mod 60) @
         (if nano \<and> ns \<noteq> 0 then ''.'' @ trim_zeros (pad_int 9 ns) else []) @ ''Z'')"

abbreviation format_rfc3339nano :: "instant \<Rightarrow> string" where
  "format_rfc3339nano \<equiv> format_time True"

section \<open>Parse\<close>

definition get_num :: "bool \<Rightarrow> bytes \<Rightarrow> (int \<times> bytes) option" where
  "get_num fixed s =
     (case s of [] \<Rightarrow> None
      | c # cs \<Rightarrow>
         if \<not> is_digit c then None
         else (case cs of
             c2 # cs2 \<Rightarrow> if is_digit c2 then Some (int (10 * digit_val c + digit_val c2), cs2)
                         else if fixed then None else Some (int (digit_val c), cs)
           | [] \<Rightarrow> if fixed then None else Some (int (digit_val c), [])))"

definition get_year :: "bytes \<Rightarrow> (int \<times> bytes) option" where
  "get_year s =
     (if length s < 4 \<or> \<not> list_all is_digit (take 4 s) then None
      else Some (int (digits_val (take 4 s)), drop 4 s))"

definition expect :: "char \<Rightarrow> bytes \<Rightarrow> bytes option" where
  "expect c s = (case s of [] \<Rightarrow> None | x # xs \<Rightarrow> if x = c then Some xs else None)"

definition get_fraction :: "bytes \<Rightarrow> int \<times> bytes" where
  "get_fraction s =
     (if 2 \<le> length s \<and> (hd s = CHR ''.'' \<or> hd s = CHR '','') \<and> is_digit (s ! 1)
      then (let ds = take 9 (takeWhile is_digit (tl s))
            in (int (digits_val ds * 10 ^ (9 - length ds)), dropWhile is_digit (tl s)))
      else (0, s))"

text \<open>The zone: \<open>Z\<close>, or a sign and \<open>hh:mm\<close>; the offset in seconds and whether it is UTC.\<close>

definition get_zone :: "bytes \<Rightarrow> ((int \<times> bool) \<times> bytes) option" where
  "get_zone s =
     (if s \<noteq> [] \<and> hd s = CHR ''Z'' then Some ((0, True), tl s)
      else if length s < 6 \<or> s ! 3 \<noteq> CHR '':'' then None
      else do {
        (hr, _) \<leftarrow> get_num True (take 2 (drop 1 s));
        (mi, _) \<leftarrow> get_num True (take 2 (drop 4 s));
        (if hr > 24 \<or> mi > 60 then None
         else if hd s = CHR ''+'' then Some (((hr * 60 + mi) * 60, False), drop 6 s)
         else if hd s = CHR ''-'' then Some ((- ((hr * 60 + mi) * 60), False), drop 6 s)
         else None)
      })"

definition in_range :: "int \<Rightarrow> int \<Rightarrow> int \<Rightarrow> unit option" where
  "in_range lo hi n = (if lo \<le> n \<and> n \<le> hi then Some () else None)"

definition parse_rfc3339nano :: "string \<Rightarrow> (instant \<times> bool) option" where
  "parse_rfc3339nano s0 = do {
     (y, s1) \<leftarrow> get_year s0;
     s2 \<leftarrow> expect (CHR ''-'') s1;
     (mo, s3) \<leftarrow> get_num True s2;
     in_range 1 12 mo;
     s4 \<leftarrow> expect (CHR ''-'') s3;
     (d, s5) \<leftarrow> get_num True s4;
     s6 \<leftarrow> expect (CHR ''T'') s5;
     (h, s7) \<leftarrow> get_num False s6;
     in_range 0 23 h;
     s8 \<leftarrow> expect (CHR '':'') s7;
     (mi, s9) \<leftarrow> get_num True s8;
     in_range 0 59 mi;
     s10 \<leftarrow> expect (CHR '':'') s9;
     (sec, s11) \<leftarrow> get_num True s10;
     in_range 0 59 sec;
     let (ns, s12) = get_fraction s11;
     ((off, utc), s13) \<leftarrow> get_zone s12;
     (if s13 \<noteq> [] then None else Some ());
     in_range 1 (days_in mo y) d;
     Some (date_instant y mo d h mi sec ns - off * 1000000000, utc)
   }"

text \<open>\<open>time.Parse(time.RFC3339Nano, s)\<close> where only the instant matters.\<close>

definition parse_instant :: "string \<Rightarrow> instant option" where
  "parse_instant s = map_option fst (parse_rfc3339nano s)"

section \<open>What is printed parses back\<close>

definition year_of :: "instant \<Rightarrow> int" where
  "year_of t = fst (civil (t div day_nanos + epoch_days))"

lemma zeros_are_digits [simp]: "list_all is_digit (replicate n CHR ''0'')"
  by (induction n) (simp_all add: is_digit_def byte_def)

lemma pad_int_props:
  assumes "0 \<le> n" "n < 10 ^ w" "0 < w"
  shows "length (pad_int w n) = w" "list_all is_digit (pad_int w n)" "digits_val (pad_int w n) = nat n"
proof -
  have "nat n < 10 ^ w"
    using assms(1,2) by (simp add: nat_less_iff)
  then have "length (nat_digits (nat n)) \<le> w"
    using assms(3) by (rule nat_digits_length)
  then show "length (pad_int w n) = w"
    using assms(1) by (simp add: pad_int_def Let_def)
  show "list_all is_digit (pad_int w n)"
    using assms(1) by (simp add: pad_int_def Let_def)
  show "digits_val (pad_int w n) = nat n"
    using assms(1) by (simp add: pad_int_def Let_def digits_val_append)
qed

lemma get_num_two:
  assumes "is_digit a" "is_digit b"
  shows "get_num fixed (a # b # s) = Some (int (digits_val [a, b]), s)"
  using assms by (simp add: get_num_def digits_val_def)

lemma get_num_pad [simp]:
  assumes "0 \<le> n" "n < 100"
  shows "get_num fixed (pad_int 2 n @ s) = Some (n, s)"
proof -
  have "length (pad_int 2 n) = 2" and d: "list_all is_digit (pad_int 2 n)"
    and v: "digits_val (pad_int 2 n) = nat n"
    using pad_int_props [of n 2] assms by simp_all
  then obtain a b where ab: "pad_int 2 n = [a, b]"
    by (auto simp: numeral_2_eq_2 length_Suc_conv)
  with d v assms(1) get_num_two [of a b fixed s] show ?thesis by simp
qed

lemma get_year_pad [simp]:
  assumes "0 \<le> y" "y \<le> 9999"
  shows "get_year (pad_int 4 y @ s) = Some (y, s)"
  using pad_int_props [of y 4] assms by (simp add: get_year_def)

lemma expect_Cons [simp]: "expect c (c # s) = Some s"
  by (simp add: expect_def)

lemma trim_zeros_split: "s = trim_zeros s @ replicate (length s - length (trim_zeros s)) CHR ''0''"
proof -
  define z where "z = takeWhile (\<lambda>c. c = CHR ''0'') (rev s)"
  have "rev s = z @ rev (trim_zeros s)"
    by (simp add: trim_zeros_def z_def)
  then have s: "s = trim_zeros s @ rev z"
    by (metis rev_append rev_rev_ident)
  have "z = replicate (length z) CHR ''0''"
    unfolding z_def by (rule replicate_length_same [symmetric]) (auto dest: set_takeWhileD)
  then obtain k where k: "z = replicate k CHR ''0''"
    by blast
  with s have sk: "s = trim_zeros s @ replicate k CHR ''0''"
    by simp
  then have "length s = length (trim_zeros s) + k"
    by (metis length_append length_replicate)
  with sk show ?thesis
    by simp
qed

lemma get_fraction_format:
  assumes "0 \<le> ns" "ns < 1000000000"
  shows "get_fraction ((if ns \<noteq> 0 then ''.'' @ trim_zeros (pad_int 9 ns) else []) @ ''Z'') = (ns, ''Z'')"
proof (cases "ns = 0")
  case True
  then show ?thesis by (simp add: get_fraction_def)
next
  case False
  define p where "p = pad_int 9 ns"
  define q where "q = trim_zeros p"
  have p: "length p = 9" "list_all is_digit p" "digits_val p = nat ns"
    using pad_int_props [of ns 9] assms by (simp_all add: p_def)
  have split: "p = q @ replicate (9 - length q) CHR ''0''"
    using trim_zeros_split [of p] p(1) by (simp add: q_def)
  have q9: "length q \<le> 9"
    using arg_cong [OF split, of length] p(1) by simp
  have dq: "list_all is_digit q"
    using p(2) split by (metis list_all_append)
  have val: "digits_val q * 10 ^ (9 - length q) = nat ns"
    using arg_cong [OF split, of digits_val] p(3) by (simp add: digits_val_append)
  then have frac: "int (digits_val q) * 10 ^ (9 - length q) = ns"
    using assms(1) by (metis int_nat_eq of_nat_mult of_nat_numeral of_nat_power)
  have "q \<noteq> []"
  proof
    assume "q = []"
    with val have "nat ns = 0" by (simp add: digits_val_def)
    with False assms(1) show False by simp
  qed
  moreover have "takeWhile is_digit (q @ ''Z'') = q" "dropWhile is_digit (q @ ''Z'') = ''Z''"
    using dq by (auto simp: list_all_iff is_digit_def byte_def takeWhile_append dropWhile_append)
  moreover have "is_digit (hd q)"
    using dq \<open>q \<noteq> []\<close> by (cases q) auto
  ultimately show ?thesis
    using False q9 frac unfolding p_def [symmetric] q_def [symmetric]
    by (cases q) (simp_all add: get_fraction_def Let_def)
qed

lemma in_range_Some [simp]: "lo \<le> n \<Longrightarrow> n \<le> hi \<Longrightarrow> in_range lo hi n = Some ()"
  by (simp add: in_range_def)

lemma clock_parts:
  fixes r :: int
  defines "sec \<equiv> r div 1000000000"
  assumes "0 \<le> r" "r < day_nanos"
  shows "0 \<le> sec div 3600" "sec div 3600 \<le> 23" "0 \<le> sec div 60 mod 60" "sec div 60 mod 60 \<le> 59"
    "0 \<le> sec mod 60" "sec mod 60 \<le> 59"
    "((sec div 3600 * 60) + sec div 60 mod 60) * 60 * 1000000000 + (sec mod 60) * 1000000000
       + r mod 1000000000 = r"
proof -
  have s: "0 \<le> sec" "sec < 86400" and r: "r = sec * 1000000000 + r mod 1000000000"
    using assms(2,3) by (auto simp: sec_def day_nanos_def)
  have "sec div 3600 = sec div 60 div 60"
    by (simp add: zdiv_zmult2_eq [symmetric])
  then have "sec = (sec div 3600 * 60 + sec div 60 mod 60) * 60 + sec mod 60"
    by simp
  with r show "((sec div 3600 * 60) + sec div 60 mod 60) * 60 * 1000000000 + (sec mod 60) * 1000000000
       + r mod 1000000000 = r"
    by (metis (no_types, opaque_lifting) distrib_right)
  show "sec div 3600 \<le> 23"
    using s(2) zdiv_mono1 [of sec 86399 3600] by simp
  show "0 \<le> sec div 3600" using s(1) by (simp add: pos_imp_zdiv_nonneg_iff)
qed simp_all

lemma parse_printed_fields:
  assumes "0 \<le> y" "y \<le> 9999" "1 \<le> mo" "mo \<le> 12" "1 \<le> d" "d \<le> days_in mo y" "d \<le> 31"
    and "0 \<le> h" "h \<le> 23" "0 \<le> mi" "mi \<le> 59" "0 \<le> s" "s \<le> 59"
    and f: "get_fraction f = (ns, ''Z'')"
  shows "parse_rfc3339nano (pad_int 4 y @ ''-'' @ pad_int 2 mo @ ''-'' @ pad_int 2 d @ ''T'' @
      pad_int 2 h @ '':'' @ pad_int 2 mi @ '':'' @ pad_int 2 s @ f)
    = Some (date_instant y mo d h mi s ns, True)"
  unfolding parse_rfc3339nano_def using assms by (simp add: get_zone_def)

lemma parse_format_rfc3339nano:
  assumes "0 \<le> year_of t" "year_of t \<le> 9999"
  shows "parse_rfc3339nano (format_rfc3339nano t) = Some (t, True)"
proof -
  define r where "r = t mod day_nanos"
  define sec where "sec = r div 1000000000"
  define ns where "ns = r mod 1000000000"
  obtain y mo d where c: "civil (t div day_nanos + epoch_days) = (y, mo, d)"
    by (cases "civil (t div day_nanos + epoch_days)") auto
  note civ = civil_correct [OF c]
  have y: "0 \<le> y" "y \<le> 9999" using assms c by (simp_all add: year_of_def)
  have r: "0 \<le> r" "r < day_nanos" by (simp_all add: r_def day_nanos_def)
  note clk = clock_parts [OF r, folded sec_def ns_def]
  have ns: "0 \<le> ns" "ns < 1000000000" by (simp_all add: ns_def)
  have fmt: "format_rfc3339nano t = pad_int 4 y @ ''-'' @ pad_int 2 mo @ ''-'' @ pad_int 2 d @ ''T'' @
      pad_int 2 (sec div 3600) @ '':'' @ pad_int 2 (sec div 60 mod 60) @ '':'' @ pad_int 2 (sec mod 60) @
      (if ns \<noteq> 0 then ''.'' @ trim_zeros (pad_int 9 ns) else []) @ ''Z''"
    by (simp add: format_time_def c r_def sec_def ns_def Let_def)
  have "date_instant y mo d (sec div 3600) (sec div 60 mod 60) (sec mod 60) ns
        = (t div day_nanos) * day_nanos + r"
  proof -
    have days: "days_before_year y + days_before_month y mo + d - 1 - epoch_days = t div day_nanos"
      using civ(6) by linarith
    show ?thesis
      unfolding date_instant_def days using clk(7) by (simp add: day_nanos_def algebra_simps)
  qed
  then have inst: "date_instant y mo d (sec div 3600) (sec div 60 mod 60) (sec mod 60) ns = t"
    by (simp add: r_def)
  show ?thesis
    unfolding fmt using parse_printed_fields [OF y civ(1-5) clk(1-6) get_fraction_format [OF ns]]
    by (simp only: inst)
qed

lemma parse_instant_format:
  "0 \<le> year_of t \<Longrightarrow> year_of t \<le> 9999 \<Longrightarrow> parse_instant (format_rfc3339nano t) = Some t"
  by (simp add: parse_instant_def parse_format_rfc3339nano)

lemma length_format_time:
  assumes "0 \<le> year_of t" "year_of t \<le> 9999"
  shows "length (format_time nano t) \<le> 30"
proof -
  define r where "r = t mod day_nanos"
  define sec where "sec = r div 1000000000"
  define ns where "ns = r mod 1000000000"
  obtain y mo d where c: "civil (t div day_nanos + epoch_days) = (y, mo, d)"
    by (cases "civil (t div day_nanos + epoch_days)") auto
  note civ = civil_correct [OF c]
  have r: "0 \<le> r" "r < day_nanos" by (simp_all add: r_def day_nanos_def)
  note clk = clock_parts [OF r, folded sec_def ns_def]
  have two: "length (pad_int 2 x) = 2" if "0 \<le> x" "x \<le> 59" for x
    using pad_int_props(1) [of x 2] that by simp
  have y: "0 \<le> y" "y < 10 ^ 4" using assms by (simp_all add: year_of_def c)
  have n: "0 \<le> ns" "ns < 10 ^ 9" by (simp_all add: ns_def)
  have l: "length (pad_int 4 y) = 4" "length (pad_int 9 ns) = 9"
    using pad_int_props(1) [OF y] pad_int_props(1) [OF n] by simp_all
  have l2: "length (pad_int 2 mo) = 2" "length (pad_int 2 d) = 2"
    "length (pad_int 2 (sec div 3600)) = 2" "length (pad_int 2 (sec div 60 mod 60)) = 2"
    "length (pad_int 2 (sec mod 60)) = 2"
  proof -
    have "1 \<le> mo" "mo \<le> 12" "1 \<le> d" "d \<le> 31" using civ by linarith+
    then show "length (pad_int 2 mo) = 2" "length (pad_int 2 d) = 2" by (intro two; linarith)+
    show "length (pad_int 2 (sec div 3600)) = 2" by (rule two [OF clk(1)]) (use clk(2) in linarith)
    show "length (pad_int 2 (sec div 60 mod 60)) = 2" by (rule two [OF clk(3,4)])
    show "length (pad_int 2 (sec mod 60)) = 2" by (rule two [OF clk(5,6)])
  qed
  have "length (trim_zeros (pad_int 9 ns)) \<le> 9"
    using length_dropWhile_le [of _ "rev (pad_int 9 ns)"] l(2) by (simp add: trim_zeros_def)
  then obtain f where f: "(if nano \<and> ns \<noteq> 0 then ''.'' @ trim_zeros (pad_int 9 ns) else []) = f" "length f \<le> 10"
    by fastforce
  show ?thesis
    unfolding format_time_def c prod.case Let_def r_def [symmetric] sec_def [symmetric] ns_def [symmetric] f(1)
    using f(2) by (simp only: length_append l l2 list.size)
qed

end
