(* ===== verification/Go_Base64.thy ===== *)
theory Go_Base64
  imports Go_Strings
begin

text \<open>
  Go's package \<open>encoding/base64\<close> as the program uses it: \<open>StdEncoding\<close> with padding (encode, and
  decode, which skips carriage returns and newlines and does not check trailing bits) and
  \<open>RawURLEncoding.EncodeToString\<close>. Decoding reads back what was encoded.
\<close>

definition std_alphabet :: string where
  "std_alphabet = ''ABCDEFGHIJKLMNOPQRSTUVWXYZabcdefghijklmnopqrstuvwxyz0123456789+/''"

definition url_alphabet :: string where
  "url_alphabet = ''ABCDEFGHIJKLMNOPQRSTUVWXYZabcdefghijklmnopqrstuvwxyz0123456789-_''"

fun index_of :: "char \<Rightarrow> string \<Rightarrow> nat option" where
  "index_of c [] = None"
| "index_of c (x # xs) = (if x = c then Some 0 else map_option Suc (index_of c xs))"

definition std_val :: "char \<Rightarrow> nat option" where
  "std_val c = index_of c std_alphabet"

fun sextets :: "bytes \<Rightarrow> nat list" where
  "sextets [] = []"
| "sextets [a] = [byte a div 4, byte a mod 4 * 16]"
| "sextets [a, b] = [byte a div 4, byte a mod 4 * 16 + byte b div 16, byte b mod 16 * 4]"
| "sextets (a # b # c # r) =
     [byte a div 4, byte a mod 4 * 16 + byte b div 16, byte b mod 16 * 4 + byte c div 64, byte c mod 64]
     @ sextets r"

definition pad_len :: "bytes \<Rightarrow> nat" where
  "pad_len s = (if length s mod 3 = 0 then 0 else 3 - length s mod 3)"

definition std_encode :: "bytes \<Rightarrow> string" where
  "std_encode s = map (\<lambda>v. std_alphabet ! v) (sextets s) @ replicate (pad_len s) CHR ''=''"

definition raw_url_encode :: "bytes \<Rightarrow> string" where
  "raw_url_encode s = map (\<lambda>v. url_alphabet ! v) (sextets s)"

fun decode_quads :: "string \<Rightarrow> bytes option" where
  "decode_quads [] = Some []"
| "decode_quads (c0 # c1 # c2 # c3 # r) =
     (case (std_val c0, std_val c1) of
        (Some v0, Some v1) \<Rightarrow>
          if c2 = CHR ''='' then
            (if c3 = CHR ''='' \<and> r = [] then Some [char_of (v0 * 4 + v1 div 16)] else None)
          else (case std_val c2 of None \<Rightarrow> None
            | Some v2 \<Rightarrow>
               if c3 = CHR ''='' then
                 (if r = [] then Some [char_of (v0 * 4 + v1 div 16), char_of (v1 mod 16 * 16 + v2 div 4)] else None)
               else (case std_val c3 of None \<Rightarrow> None
                 | Some v3 \<Rightarrow> map_option (\<lambda>t. char_of (v0 * 4 + v1 div 16) # char_of (v1 mod 16 * 16 + v2 div 4)
                                            # char_of (v2 mod 4 * 64 + v3) # t) (decode_quads r)))
      | _ \<Rightarrow> None)"
| "decode_quads _ = None"

definition std_decode :: "string \<Rightarrow> bytes option" where
  "std_decode s = decode_quads (filter (\<lambda>c. c \<noteq> CHR 0x0A \<and> c \<noteq> CHR 0x0D) s)"

section \<open>Decoding reads back what was encoded\<close>

lemma std_alphabet_length [simp]: "length std_alphabet = 64"
  by (simp add: std_alphabet_def)

lemma std_alphabet_table:
  "\<forall>v\<in>set [0..<64]. std_val (std_alphabet ! v) = Some v \<and> std_alphabet ! v \<noteq> CHR ''='' \<and>
     std_alphabet ! v \<noteq> CHR 0x0A \<and> std_alphabet ! v \<noteq> CHR 0x0D"
  by code_simp

lemma std_val_nth [simp]: "v < 64 \<Longrightarrow> std_val (std_alphabet ! v) = Some v"
  and std_nth_neq [simp]: "v < 64 \<Longrightarrow> std_alphabet ! v \<noteq> CHR ''=''"
  using std_alphabet_table by auto

lemma sextets_bound: "\<forall>v\<in>set (sextets s). v < 64"
proof (induction s rule: sextets.induct)
  case (2 a)
  have "byte a div 4 < 64" using byte_less [of a] by (simp add: less_mult_imp_div_less)
  then show ?case by simp
next
  case (3 a b)
  have "byte a div 4 < 64" "byte b div 16 < 16" "byte a mod 4 < 4"
    using byte_less [of a] byte_less [of b] by (simp_all add: less_mult_imp_div_less)
  then show ?case by auto
next
  case (4 a b c r)
  have "byte a div 4 < 64" "byte b div 16 < 16" "byte c div 64 < 4" "byte a mod 4 < 4" "byte b mod 16 < 16"
    using byte_less [of a] byte_less [of b] byte_less [of c] by (simp_all add: less_mult_imp_div_less)
  with "4" show ?case by auto
qed simp

lemma join_bytes:
  "byte a div 4 * 4 + (byte a mod 4 * 16 + byte b div 16) div 16 = byte a"
  "(byte a mod 4 * 16 + byte b div 16) mod 16 * 16 + (byte b mod 16 * 4 + byte c div 64) div 4 = byte b"
  "(byte b mod 16 * 4 + byte c div 64) mod 4 * 64 + byte c mod 64 = byte c"
  "byte a div 4 * 4 + byte a mod 4 * 16 div 16 = byte a"
  "(byte a mod 4 * 16 + byte b div 16) mod 16 * 16 + byte b mod 16 * 4 div 4 = byte b"
proof -
  have a: "byte a div 16 < 16" and b: "byte b div 16 < 16" and c: "byte c div 64 < 4"
    using byte_less [of a] byte_less [of b] byte_less [of c] by (simp_all add: less_mult_imp_div_less)
  show "byte a div 4 * 4 + (byte a mod 4 * 16 + byte b div 16) div 16 = byte a"
    "byte a div 4 * 4 + byte a mod 4 * 16 div 16 = byte a"
    using b by simp_all
  show "(byte a mod 4 * 16 + byte b div 16) mod 16 * 16 + (byte b mod 16 * 4 + byte c div 64) div 4 = byte b"
    "(byte a mod 4 * 16 + byte b div 16) mod 16 * 16 + byte b mod 16 * 4 div 4 = byte b"
    using b c by simp_all
  show "(byte b mod 16 * 4 + byte c div 64) mod 4 * 64 + byte c mod 64 = byte c"
    using c by simp
qed

lemma decode_quads_encode: "decode_quads (std_encode s) = Some s"
proof (induction s rule: sextets.induct)
  case 1
  then show ?case by (simp add: std_encode_def pad_len_def)
next
  case (2 a)
  have "byte a div 4 < 64" using byte_less [of a] by (simp add: less_mult_imp_div_less)
  then show ?case by (simp add: std_encode_def pad_len_def numeral_2_eq_2 join_bytes)
next
  case (3 a b)
  have "byte a div 4 < 64" "byte a mod 4 * 16 + byte b div 16 < 64" "byte b mod 16 * 4 < 64"
    and "byte b div 16 < 16"
    using sextets_bound [of "[a, b]"] byte_less [of b] by (simp_all add: less_mult_imp_div_less)
  then show ?case by (simp add: std_encode_def pad_len_def join_bytes)
next
  case (4 a b c r)
  have "byte a div 4 < 64" "byte a mod 4 * 16 + byte b div 16 < 64"
    "byte b mod 16 * 4 + byte c div 64 < 64" "byte c mod 64 < 64"
    using sextets_bound [of "a # b # c # r"] by simp_all
  moreover have "pad_len (a # b # c # r) = pad_len r"
    by (simp add: pad_len_def)
  moreover have "byte b div 16 < 16" "byte c div 64 < 4"
    using byte_less [of b] byte_less [of c] by (simp_all add: less_mult_imp_div_less)
  ultimately show ?case
    using "4" by (simp add: std_encode_def join_bytes)
qed

lemma std_decode_encode: "std_decode (std_encode s) = Some s"
proof -
  have "\<forall>c\<in>set (std_encode s). c \<noteq> CHR 0x0A \<and> c \<noteq> CHR 0x0D"
    using sextets_bound [of s] std_alphabet_table by (auto simp: std_encode_def)
  then have "filter (\<lambda>c. c \<noteq> CHR 0x0A \<and> c \<noteq> CHR 0x0D) (std_encode s) = std_encode s"
    by simp
  then show ?thesis
    by (simp add: std_decode_def decode_quads_encode)
qed

lemma length_sextets: "length (sextets s) = (4 * length s + 2) div 3"
  by (induction s rule: sextets.induct) simp_all

lemma std_encode_ascii: "list_all visible (std_encode s)"
proof -
  have "list_all visible std_alphabet"
    by (simp add: std_alphabet_def visible_def byte_def)
  then have "visible (std_alphabet ! v)" if "v < 64" for v
    using that by (simp add: list_all_length)
  with sextets_bound [of s] show ?thesis
    by (auto simp: std_encode_def list_all_iff) (simp_all add: visible_def byte_def)
qed

lemma length_std_encode: "length (std_encode s) = 4 * ((length s + 2) div 3)"
proof -
  define q where "q = length s div 3"
  have s: "length s = 3 * q + length s mod 3"
    by (simp add: q_def)
  have "length s mod 3 = 0 \<or> length s mod 3 = 1 \<or> length s mod 3 = 2"
    by linarith
  moreover have "(4 * (3 * q) + 2) div 3 = 4 * q" "(3 * q + 2) div 3 = q"
    by linarith+
  ultimately show ?thesis
    using s by (elim disjE) (simp_all add: std_encode_def length_sextets pad_len_def)
qed

end
