(* ===== verification/Envelope.thy ===== *)
theory Envelope
  imports Payload Go_Time Go_Base64
begin

text \<open>
  src/internal/platform/envelope/envelope.go: the signed message envelope. \<open>sign\<close> builds an
  envelope, \<open>encode\<close> and \<open>decode\<close> are its JSON text on the wire, and \<open>verify\<close> checks it against a
  policy and the key the \<open>KeyLookup\<close> of the caller gives. The \<open>KeyLookup\<close> interface is an argument
  \<open>keys\<close> of \<open>verify\<close> and the locale \<open>key_lookup\<close> is what its callers rely on.
\<close>

definition Version :: int where "Version = 1"
definition ContentType :: string where "ContentType = ''application/json''"
definition MaxBytes :: nat where "MaxBytes = 262144"
definition signing_label :: string where "signing_label = ''RW-NATS-SIGNED-V1''"
definition PrivateKeySize :: nat where "PrivateKeySize = 64"
definition SignatureSize :: nat where "SignatureSize = 64"

record envelope =
  envelope_version :: int
  message_id :: string
  message_type :: string
  subject :: string
  producer :: string
  key_id :: string
  occurred_at :: string
  expires_at :: string
  correlation_id :: string
  causation_id :: string
  content_type :: string
  payload_base64 :: string
  signature_base64 :: string

record metadata =
  m_message_id :: string
  m_message_type :: string
  m_subject :: string
  m_producer :: string
  m_key_id :: string
  m_occurred_at :: instant
  m_expires_at :: "instant option"
  m_correlation_id :: string
  m_causation_id :: string

type_synonym key_lookup_fn = "string \<Rightarrow> string \<Rightarrow> instant \<Rightarrow> error + bytes"

record verify_policy =
  vp_subject :: string
  vp_message_type :: string
  vp_allowed_producers :: "string set"
  vp_require_expiry :: bool
  vp_now :: instant
  vp_clock_skew :: duration
  vp_event_max_age :: duration

definition envelope_spec :: spec where
  "envelope_spec =
     [(''envelope_version'', KInt, False),
      (''message_id'', KStr, False),
      (''message_type'', KStr, False),
      (''subject'', KStr, False),
      (''producer'', KStr, False),
      (''key_id'', KStr, False),
      (''occurred_at'', KStr, False),
      (''expires_at'', KStr, True),
      (''correlation_id'', KStr, False),
      (''causation_id'', KStr, True),
      (''content_type'', KStr, False),
      (''payload_base64'', KStr, False),
      (''signature_base64'', KStr, False)]"

definition envelope_vals :: "envelope \<Rightarrow> fval list" where
  "envelope_vals r =
     [FInt (envelope_version r), FStr (message_id r), FStr (message_type r), FStr (subject r),
      FStr (producer r), FStr (key_id r), FStr (occurred_at r), FStr (expires_at r),
      FStr (correlation_id r), FStr (causation_id r), FStr (content_type r), FStr (payload_base64 r),
      FStr (signature_base64 r)]"

definition envelope_of :: "fval list \<Rightarrow> envelope" where
  "envelope_of vs =
     \<lparr>envelope_version = int_of (vs ! 0), message_id = str_of (vs ! 1), message_type = str_of (vs ! 2),
      subject = str_of (vs ! 3), producer = str_of (vs ! 4), key_id = str_of (vs ! 5),
      occurred_at = str_of (vs ! 6), expires_at = str_of (vs ! 7), correlation_id = str_of (vs ! 8),
      causation_id = str_of (vs ! 9), content_type = str_of (vs ! 10), payload_base64 = str_of (vs ! 11),
      signature_base64 = str_of (vs ! 12)\<rparr>"

interpretation env: payload_type envelope_spec envelope_vals envelope_of
  by unfold_locales
    (simp_all add: envelope_spec_def envelope_vals_def envelope_of_def spec_ok_def utf8_valid_visible visible_def byte_def)

section \<open>Times and identifiers\<close>

definition canonical_time :: "instant \<Rightarrow> string" where
  "canonical_time value = format_rfc3339nano value"

definition parse_canonical_time :: "string \<Rightarrow> error + instant" where
  "parse_canonical_time value =
     (case parse_rfc3339nano value of
        None \<Rightarrow> Inl (Errorf ''timestamp must be canonical UTC RFC3339Nano'')
      | Some (parsed, utc) \<Rightarrow>
          if \<not> utc \<or> canonical_time parsed \<noteq> value
          then Inl (Errorf ''timestamp must be canonical UTC RFC3339Nano'')
          else Inr parsed)"

definition check_uuid_v7 :: "lib \<Rightarrow> string \<Rightarrow> error + unit" where
  "check_uuid_v7 L value =
     (case uuid_parse L value of
        None \<Rightarrow> Inl (Errorf ''must be a lowercase canonical UUIDv7'')
      | Some parsed \<Rightarrow>
          if uuid_string L parsed \<noteq> value \<or> uuid_version L parsed \<noteq> 7
          then Inl (Errorf ''must be a lowercase canonical UUIDv7'')
          else Inr ())"

text \<open>\<open>parsed, _ := parseCanonicalTime(value)\<close>: the zero time where there is an error.\<close>

definition zero_time :: instant where "zero_time = date_instant 1 1 1 0 0 0 0"

definition canonical_or_zero :: "string \<Rightarrow> instant" where
  "canonical_or_zero value = (case parse_canonical_time value of Inl _ \<Rightarrow> zero_time | Inr t \<Rightarrow> t)"

section \<open>Fields\<close>

definition validate_fields :: "lib \<Rightarrow> envelope \<Rightarrow> error + bytes" where
  "validate_fields L env =
     (if envelope_version env \<noteq> Version then Inl (Errorf ''unsupported envelope version'')
      else case check_uuid_v7 L (message_id env) of Inl e \<Rightarrow> Inl (Wrap ''message_id'' e) | Inr _ \<Rightarrow>
      case check_uuid_v7 L (correlation_id env) of Inl e \<Rightarrow> Inl (Wrap ''correlation_id'' e) | Inr _ \<Rightarrow>
      case (if causation_id env \<noteq> '''' then check_uuid_v7 L (causation_id env) else Inr ()) of
        Inl e \<Rightarrow> Inl (Wrap ''causation_id'' e) | Inr _ \<Rightarrow>
      if message_type env = '''' \<or> subject env = '''' \<or> producer env = '''' \<or> key_id env = ''''
      then Inl (Errorf ''message identity fields are required'')
      else if content_type env \<noteq> ContentType then Inl (Errorf ''unsupported content type'')
      else case parse_canonical_time (occurred_at env) of Inl e \<Rightarrow> Inl (Wrap ''occurred_at'' e) | Inr _ \<Rightarrow>
      if expires_at env = '''' then Inl (Errorf ''expires_at is required in envelope v1'')
      else case parse_canonical_time (expires_at env) of Inl e \<Rightarrow> Inl (Wrap ''expires_at'' e) | Inr expires \<Rightarrow>
      if \<not> expires > canonical_or_zero (occurred_at env)
      then Inl (Errorf ''expires_at must be after occurred_at'')
      else case std_decode (payload_base64 env) of
        None \<Rightarrow> Inl (Errorf ''invalid payload base64'')
      | Some payload \<Rightarrow> Inr payload)"

definition validate_signature :: "string \<Rightarrow> error + unit" where
  "validate_signature value =
     (case std_decode value of
        None \<Rightarrow> Inl (Errorf ''invalid signature encoding'')
      | Some signature \<Rightarrow>
          if length signature \<noteq> SignatureSize then Inl (Errorf ''invalid signature encoding'') else Inr ())"

text \<open>\<open>binary.BigEndian.PutUint64\<close>, and the signed bytes: the label, then every part behind its length.\<close>

definition put_uint64 :: "nat \<Rightarrow> bytes" where
  "put_uint64 n = map (\<lambda>i. char_of ((n div 256 ^ (7 - i)) mod 256)) [0..<8]"

definition signed_parts :: "envelope \<Rightarrow> bytes \<Rightarrow> bytes list" where
  "signed_parts env payload =
     [format_int (envelope_version env), message_id env, message_type env, subject env, producer env,
      key_id env, occurred_at env, expires_at env, correlation_id env, causation_id env,
      content_type env, payload]"

definition frame :: "bytes \<Rightarrow> bytes" where
  "frame part = put_uint64 (length part) @ part"

definition signing_input :: "envelope \<Rightarrow> bytes \<Rightarrow> bytes" where
  "signing_input env payload =
     foldl (\<lambda>result part. result @ put_uint64 (length part) @ part) signing_label (signed_parts env payload)"

section \<open>The operations\<close>

definition sign :: "lib \<Rightarrow> metadata \<Rightarrow> bytes \<Rightarrow> bytes \<Rightarrow> error + envelope" where
  "sign L meta payload private_key =
     (if length private_key \<noteq> PrivateKeySize then Inl (Errorf ''invalid Ed25519 private key'')
      else
        let env = \<lparr>envelope_version = Version, message_id = m_message_id meta,
                   message_type = m_message_type meta, subject = m_subject meta,
                   producer = m_producer meta, key_id = m_key_id meta,
                   occurred_at = canonical_time (m_occurred_at meta), expires_at = '''',
                   correlation_id = m_correlation_id meta, causation_id = m_causation_id meta,
                   content_type = ContentType, payload_base64 = std_encode payload,
                   signature_base64 = ''''\<rparr>;
            env = (case m_expires_at meta of None \<Rightarrow> env
                   | Some t \<Rightarrow> env\<lparr>expires_at := canonical_time t\<rparr>)
        in case validate_fields L env of Inl e \<Rightarrow> Inl e
           | Inr _ \<Rightarrow>
               Inr (env\<lparr>signature_base64 := std_encode (ed25519_sign L private_key (signing_input env payload))\<rparr>))"

definition encode :: "lib \<Rightarrow> envelope \<Rightarrow> error + bytes" where
  "encode L env =
     (case validate_fields L env of Inl e \<Rightarrow> Inl e | Inr _ \<Rightarrow>
      case validate_signature (signature_base64 env) of Inl e \<Rightarrow> Inl e | Inr _ \<Rightarrow>
      let encoded = marshal False envelope_spec (envelope_vals env) in
      if length encoded > MaxBytes then Inl (Errorf ''envelope exceeds maximum size'') else Inr encoded)"

definition decode :: "lib \<Rightarrow> bytes \<Rightarrow> int \<Rightarrow> error + envelope \<times> bytes" where
  "decode L data max_bytes =
     (let max_bytes = (if max_bytes \<le> 0 \<or> max_bytes > int MaxBytes then int MaxBytes else max_bytes) in
      if length data = 0 \<or> int (length data) > max_bytes
      then Inl (Errorf ''envelope size is outside allowed range'')
      else case unmarshal True envelope_spec data of
        None \<Rightarrow> Inl (Errorf ''decode envelope'')
      | Some vs \<Rightarrow>
          let env = envelope_of vs in
          case validate_fields L env of Inl e \<Rightarrow> Inl e | Inr payload \<Rightarrow>
          case validate_signature (signature_base64 env) of Inl e \<Rightarrow> Inl e | Inr _ \<Rightarrow>
          Inr (env, payload))"

definition verify :: "lib \<Rightarrow> instant \<Rightarrow> envelope \<Rightarrow> bytes \<Rightarrow> key_lookup_fn \<Rightarrow> verify_policy \<Rightarrow> error + unit" where
  "verify L clock env payload keys policy =
     (case validate_fields L env of Inl e \<Rightarrow> Inl e | Inr _ \<Rightarrow>
      case validate_signature (signature_base64 env) of Inl e \<Rightarrow> Inl e | Inr _ \<Rightarrow>
      let parsed_occurred = canonical_or_zero (occurred_at env) in
      if subject env \<noteq> vp_subject policy
      then Inl (Errorf ''envelope subject does not match delivery subject'')
      else if message_type env \<noteq> vp_message_type policy then Inl (Errorf ''message type is not allowed'')
      else if producer env \<notin> vp_allowed_producers policy then Inl (Errorf ''producer is not allowed'')
      else if vp_require_expiry policy \<and> expires_at env = '''' then Inl (Errorf ''command expiry is required'')
      else
        let now = (if vp_now policy = zero_time then clock else vp_now policy) in
        if parsed_occurred > now + vp_clock_skew policy
        then Inl (Errorf ''message occurred_at is in the future'')
        else if vp_event_max_age policy > 0 \<and> parsed_occurred < now + (- vp_event_max_age policy)
        then Inl (Errorf ''event is too old'')
        else if expires_at env \<noteq> '''' \<and> now > canonical_or_zero (expires_at env) + vp_clock_skew policy
        then Inl (Errorf ''message has expired'')
        else case keys (producer env) (key_id env) parsed_occurred of Inl e \<Rightarrow> Inl e
        | Inr public_key \<Rightarrow>
            (case std_decode (signature_base64 env) of
               None \<Rightarrow> Inl (Errorf ''invalid signature encoding'')
             | Some signature \<Rightarrow>
                 if length signature \<noteq> SignatureSize then Inl (Errorf ''invalid signature encoding'')
                 else if \<not> ed25519_verify L public_key (signing_input env payload) signature
                 then Inl (Errorf ''invalid envelope signature'')
                 else Inr ()))"

section \<open>The signed bytes determine the fields\<close>

lemma length_put_uint64 [simp]: "length (put_uint64 n) = 8"
  by (simp add: put_uint64_def)

lemma div_power_digits:
  fixes n m :: nat
  assumes "n < 256 ^ k" "m < 256 ^ k"
    and "\<And>j. j < k \<Longrightarrow> (n div 256 ^ j) mod 256 = (m div 256 ^ j) mod 256"
  shows "n = m"
  using assms
proof (induction k arbitrary: n m)
  case (Suc k)
  have "n div 256 = m div 256"
  proof (rule Suc.IH)
    show "n div 256 < 256 ^ k" "m div 256 < 256 ^ k"
      using Suc.prems(1,2) by (simp_all add: less_mult_imp_div_less mult.commute)
    fix j
    assume "j < k"
    then show "(n div 256 div 256 ^ j) mod 256 = (m div 256 div 256 ^ j) mod 256"
      using Suc.prems(3) [of "Suc j"] by (simp add: div_mult2_eq)
  qed
  moreover have "n mod 256 = m mod 256"
    using Suc.prems(3) [of 0] by simp
  ultimately show ?case
    by (metis div_mult_mod_eq)
qed simp

lemma put_uint64_inj:
  assumes "n < 2 ^ 64" "m < 2 ^ 64" "put_uint64 n = put_uint64 m"
  shows "n = m"
proof (rule div_power_digits [of n 8 m])
  show "n < 256 ^ 8" "m < 256 ^ 8" using assms(1,2) by simp_all
  fix j :: nat
  assume "j < 8"
  then have "[0..<8] ! (7 - j) = 7 - j" "j \<le> 7"
    using nth_upt [of 0 "7 - j" 8] by simp_all
  with \<open>j < 8\<close> have "put_uint64 n ! (7 - j) = char_of ((n div 256 ^ j) mod 256)"
    and "put_uint64 m ! (7 - j) = char_of ((m div 256 ^ j) mod 256)"
    by (simp_all add: put_uint64_def del: upt.simps upt_rec_numeral)
  then have "byte (char_of ((n div 256 ^ j) mod 256)) = byte (char_of ((m div 256 ^ j) mod 256))"
    by (simp only: assms(3))
  then show "(n div 256 ^ j) mod 256 = (m div 256 ^ j) mod 256"
    by (simp only: byte_char_of mod_less_divisor zero_less_numeral)
qed

lemma frames_inj:
  assumes "length xs = length ys"
    and "\<forall>x\<in>set xs. length x < 2 ^ 64" "\<forall>y\<in>set ys. length y < 2 ^ 64"
    and "concat (map frame xs) = concat (map frame ys)"
  shows "xs = ys"
  using assms
proof (induction xs ys rule: list_induct2)
  case (Cons x xs y ys)
  then have "frame x @ concat (map frame xs) = frame y @ concat (map frame ys)"
    by simp
  then have "put_uint64 (length x) @ (x @ concat (map frame xs)) =
      put_uint64 (length y) @ (y @ concat (map frame ys))"
    by (simp only: frame_def [of x] frame_def [of y] append_assoc)
  then have "put_uint64 (length x) = put_uint64 (length y)"
    and rest: "x @ concat (map frame xs) = y @ concat (map frame ys)"
    using append_eq_append_conv [of "put_uint64 (length x)" "put_uint64 (length y)"] by simp_all
  then have "length x = length y"
    using Cons.prems by (intro put_uint64_inj) simp_all
  with rest have "x = y" "concat (map frame xs) = concat (map frame ys)" by simp_all
  with Cons show ?case by simp
qed simp

lemma foldl_frames:
  "foldl (\<lambda>result part. result @ put_uint64 (length part) @ part) a xs = a @ concat (map frame xs)"
  by (induction xs arbitrary: a) (simp_all add: frame_def)

lemma signing_input_frames:
  "signing_input env payload = signing_label @ concat (map frame (signed_parts env payload))"
  by (simp add: signing_input_def foldl_frames)

lemma length_signed_parts [simp]: "length (signed_parts env payload) = 12"
  by (simp add: signed_parts_def)

lemma format_int_inj:
  assumes "- (2 ^ 63) \<le> m" "m < 2 ^ 63" "- (2 ^ 63) \<le> n" "n < 2 ^ 63" "format_int m = format_int n"
  shows "m = n"
  using parse_format_int [OF assms(1,2)] parse_format_int [OF assms(3,4)] assms(5)
  by (metis option.inject)

definition parts_fit :: "envelope \<Rightarrow> bytes \<Rightarrow> bool" where
  "parts_fit env payload \<longleftrightarrow>
     list_all (\<lambda>part. length part < 2 ^ 64) (signed_parts env payload) \<and>
     - (2 ^ 63) \<le> envelope_version env \<and> envelope_version env < 2 ^ 63"

text \<open>
  C29. The signed byte string determines what is signed: two envelopes with payloads whose signing
  inputs are equal agree on the payload and on every field but the two base64 fields, for all
  field lengths a Go slice can have. So a signature never carries over to other field contents,
  whatever separators the fields contain.
\<close>

theorem signing_input_injective:
  assumes "parts_fit e p" "parts_fit e' p'" and "signing_input e p = signing_input e' p'"
  shows "p = p' \<and> e' = e\<lparr>payload_base64 := payload_base64 e', signature_base64 := signature_base64 e'\<rparr>"
proof -
  have "concat (map frame (signed_parts e p)) = concat (map frame (signed_parts e' p'))"
    using assms(3) by (simp add: signing_input_frames)
  then have "signed_parts e p = signed_parts e' p'"
    using assms(1,2) unfolding parts_fit_def list_all_iff
    by (intro frames_inj) (simp_all add: length_signed_parts)
  then have parts: "format_int (envelope_version e) = format_int (envelope_version e')"
    "message_id e = message_id e'" "message_type e = message_type e'" "subject e = subject e'"
    "producer e = producer e'" "key_id e = key_id e'" "occurred_at e = occurred_at e'"
    "expires_at e = expires_at e'" "correlation_id e = correlation_id e'"
    "causation_id e = causation_id e'" "content_type e = content_type e'" "p = p'"
    by (simp_all only: signed_parts_def list.inject)
  have "envelope_version e = envelope_version e'"
    using assms(1,2) parts(1) unfolding parts_fit_def by (intro format_int_inj) simp_all
  with parts show ?thesis
    by simp
qed

definition example_envelope :: envelope where
  "example_envelope =
     \<lparr>envelope_version = 1, message_id = ''m'', message_type = ''t'', subject = ''s'', producer = ''p'',
      key_id = ''k'', occurred_at = ''o'', expires_at = ''e'', correlation_id = ''c'', causation_id = [],
      content_type = ContentType, payload_base64 = ''AQ=='', signature_base64 = []\<rparr>"

lemma signing_input_injective_witness:
  "let e = example_envelope; e' = e\<lparr>signature_base64 := ''AA==''\<rparr> in
     ''x'' = ''x'' \<and> e' = e\<lparr>payload_base64 := payload_base64 e', signature_base64 := signature_base64 e'\<rparr>"
  unfolding Let_def
  by (rule signing_input_injective)
    (simp_all add: parts_fit_def signed_parts_def example_envelope_def ContentType_def signing_input_def
      format_int_def nat_digits.simps)

section \<open>What is accepted\<close>

lemma check_uuid_v7_ok [simp]: "check_uuid_v7 L v = Inr x \<longleftrightarrow> uuid_v7 L v"
  by (auto simp: check_uuid_v7_def uuid_v7_def split: option.splits)

lemma check_uuid_v7_bad: "check_uuid_v7 L v = Inl e \<Longrightarrow> \<not> uuid_v7 L v"
  by (auto simp: check_uuid_v7_def uuid_v7_def split: option.splits if_splits)

lemma validate_signature_ok [simp]:
  "validate_signature v = Inr x \<longleftrightarrow> (\<exists>s. std_decode v = Some s \<and> length s = SignatureSize)"
  by (auto simp: validate_signature_def split: option.splits)

lemma canonical_or_zero_ok [simp]: "parse_canonical_time v = Inr t \<Longrightarrow> canonical_or_zero v = t"
  by (simp add: canonical_or_zero_def)

lemma parse_canonical_ok:
  "parse_canonical_time v = Inr t \<longleftrightarrow> parse_rfc3339nano v = Some (t, True) \<and> canonical_time t = v"
  by (auto simp: parse_canonical_time_def split: option.splits if_splits)

lemma validate_fields_ok:
  "validate_fields L env = Inr payload \<longleftrightarrow>
     envelope_version env = Version \<and> uuid_v7 L (message_id env) \<and> uuid_v7 L (correlation_id env) \<and>
     (causation_id env = [] \<or> uuid_v7 L (causation_id env)) \<and>
     message_type env \<noteq> [] \<and> subject env \<noteq> [] \<and> producer env \<noteq> [] \<and> key_id env \<noteq> [] \<and>
     content_type env = ContentType \<and> expires_at env \<noteq> [] \<and>
     (\<exists>t u. parse_canonical_time (occurred_at env) = Inr t \<and> parse_canonical_time (expires_at env) = Inr u \<and> t < u) \<and>
     std_decode (payload_base64 env) = Some payload"
proof -
  have c: "(if causation_id env \<noteq> [] then check_uuid_v7 L (causation_id env) else Inr ()) = Inr () \<longleftrightarrow>
      causation_id env = [] \<or> uuid_v7 L (causation_id env)"
    by simp
  show ?thesis
    unfolding validate_fields_def go_ok c check_uuid_v7_ok
    by (auto simp: canonical_or_zero_def not_less)
qed

definition policy_now :: "instant \<Rightarrow> verify_policy \<Rightarrow> instant" where
  "policy_now clock policy = (if vp_now policy = zero_time then clock else vp_now policy)"

text \<open>The conditions of an accepted message, stated on the instants its times denote.\<close>

definition fresh :: "instant \<Rightarrow> verify_policy \<Rightarrow> instant \<Rightarrow> instant \<Rightarrow> bool" where
  "fresh now policy occurred expires \<longleftrightarrow>
     occurred < expires \<and> occurred \<le> now + vp_clock_skew policy \<and>
     (vp_event_max_age policy > 0 \<longrightarrow> now - vp_event_max_age policy \<le> occurred) \<and>
     now \<le> expires + vp_clock_skew policy"

definition authentic :: "lib \<Rightarrow> key_lookup_fn \<Rightarrow> envelope \<Rightarrow> bytes \<Rightarrow> instant \<Rightarrow> bool" where
  "authentic L keys env payload at \<longleftrightarrow>
     (\<exists>key signature. keys (producer env) (key_id env) at = Inr key \<and>
        std_decode (signature_base64 env) = Some signature \<and> length signature = SignatureSize \<and>
        ed25519_verify L key (signing_input env payload) signature)"

lemma verify_cases:
  assumes "validate_fields L env = Inr p" "parse_canonical_time (occurred_at env) = Inr t"
    and "parse_canonical_time (expires_at env) = Inr u" and "t < u"
  shows "verify L clock env payload keys policy = Inr () \<longleftrightarrow>
     subject env = vp_subject policy \<and> message_type env = vp_message_type policy \<and>
     producer env \<in> vp_allowed_producers policy \<and>
     fresh (policy_now clock policy) policy t u \<and> authentic L keys env payload t"
proof -
  have "expires_at env \<noteq> []" using assms(1) by (simp add: validate_fields_ok)
  then show ?thesis
    unfolding verify_def fresh_def authentic_def policy_now_def [symmetric] Let_def go_ok
      validate_signature_ok canonical_or_zero_ok [OF assms(2)] canonical_or_zero_ok [OF assms(3)] assms(1)
    using assms(4) by auto
qed

lemma verify_iff:
  "verify L clock env payload keys policy = Inr () \<longleftrightarrow>
     (\<exists>p t u. validate_fields L env = Inr p \<and>
        parse_canonical_time (occurred_at env) = Inr t \<and> parse_canonical_time (expires_at env) = Inr u \<and>
        subject env = vp_subject policy \<and> message_type env = vp_message_type policy \<and>
        producer env \<in> vp_allowed_producers policy \<and>
        fresh (policy_now clock policy) policy t u \<and> authentic L keys env payload t)"
  (is "?v \<longleftrightarrow> ?r")
proof (cases "\<exists>p. validate_fields L env = Inr p")
  case True
  then obtain p t u where "validate_fields L env = Inr p" "parse_canonical_time (occurred_at env) = Inr t"
      "parse_canonical_time (expires_at env) = Inr u" "t < u"
    by (auto simp: validate_fields_ok)
  then show ?thesis
    using verify_cases [of L env p t u clock payload keys policy] by auto
next
  case False
  then show ?thesis
    unfolding verify_def go_ok by blast
qed

text \<open>
  The contract of \<open>KeyLookup\<close>: a key that \<open>Lookup\<close> returns is trusted for the producer, the key
  identifier and the time asked for. It is promised of a well-formed key set, and of a producer
  name without a NUL byte.
\<close>

locale key_lookup =
  fixes wf :: "'k \<Rightarrow> bool" and lookup :: "'k \<Rightarrow> key_lookup_fn"
    and trusted :: "'k \<Rightarrow> string \<Rightarrow> string \<Rightarrow> instant \<Rightarrow> bytes \<Rightarrow> bool"
  assumes lookup_trusted:
    "wf k \<Longrightarrow> lookup k p i t = Inr key \<Longrightarrow> CHR 0x00 \<notin> set p \<Longrightarrow> trusted k p i t key"
begin

lemma verified_trusted:
  assumes "wf k" "verify L clock env payload (lookup k) policy = Inr ()"
    and "\<forall>p\<in>vp_allowed_producers policy. CHR 0x00 \<notin> set p"
  shows "\<exists>t u key signature. parse_canonical_time (occurred_at env) = Inr t \<and>
     parse_canonical_time (expires_at env) = Inr u \<and> fresh (policy_now clock policy) policy t u \<and>
     subject env = vp_subject policy \<and> message_type env = vp_message_type policy \<and>
     producer env \<in> vp_allowed_producers policy \<and>
     trusted k (producer env) (key_id env) t key \<and>
     std_decode (signature_base64 env) = Some signature \<and>
     ed25519_verify L key (signing_input env payload) signature"
  using assms unfolding verify_iff authentic_def by (blast intro: lookup_trusted)

end

section \<open>A signed message is accepted\<close>

lemma canonical_time_parses:
  "0 \<le> year_of t \<Longrightarrow> year_of t \<le> 9999 \<Longrightarrow> parse_canonical_time (canonical_time t) = Inr t"
  by (simp add: parse_canonical_time_def canonical_time_def parse_format_rfc3339nano)

lemma uuid_v7_visible: "uuid_laws L \<Longrightarrow> uuid_v7 L v \<Longrightarrow> list_all visible v"
  by (auto simp: uuid_v7_def uuid_laws_def visible_def byte_def list_all_iff split: option.splits)

lemma canonical_time_visible: "list_all visible (canonical_time t)"
proof -
  have digit: "is_digit c \<Longrightarrow> visible c" for c
    by (auto simp: is_digit_def visible_def)
  have d: "list_all visible (nat_digits n)" for n
    using nat_digits_are_digits [of n] by (auto simp: list_all_iff digit)
  have z: "list_all visible (replicate n CHR ''0'')" for n
    by (induction n) (simp_all add: visible_def byte_def)
  have pad: "list_all visible (pad_int w n)" for w n
    by (simp add: pad_int_def Let_def d z) (simp add: visible_def byte_def)
  have "list_all visible (trim_zeros s)" if "list_all visible s" for s
    using that by (auto simp: trim_zeros_def list_all_iff dest: set_dropWhileD)
  with pad show ?thesis
    by (auto simp: canonical_time_def format_time_def Let_def split: prod.split)
      (simp_all add: visible_def byte_def)
qed

text \<open>What \<open>Sign\<close> returns: the unsigned envelope of the metadata, its fields checked, and the signature.\<close>

definition unsigned_envelope :: "metadata \<Rightarrow> bytes \<Rightarrow> envelope" where
  "unsigned_envelope meta payload =
     \<lparr>envelope_version = Version, message_id = m_message_id meta,
      message_type = m_message_type meta, subject = m_subject meta,
      producer = m_producer meta, key_id = m_key_id meta,
      occurred_at = canonical_time (m_occurred_at meta),
      expires_at = (case m_expires_at meta of None \<Rightarrow> [] | Some t \<Rightarrow> canonical_time t),
      correlation_id = m_correlation_id meta, causation_id = m_causation_id meta,
      content_type = ContentType, payload_base64 = std_encode payload, signature_base64 = []\<rparr>"

lemma sign_ok:
  "sign L meta payload key = Inr env \<longleftrightarrow>
     length key = PrivateKeySize \<and> (\<exists>p. validate_fields L (unsigned_envelope meta payload) = Inr p) \<and>
     env = (unsigned_envelope meta payload)\<lparr>signature_base64 :=
       std_encode (ed25519_sign L key (signing_input (unsigned_envelope meta payload) payload))\<rparr>"
proof -
  have e: "(case m_expires_at meta of None \<Rightarrow> E | Some t \<Rightarrow> E\<lparr>expires_at := canonical_time t\<rparr>) =
      unsigned_envelope meta payload"
    if "E = \<lparr>envelope_version = Version, message_id = m_message_id meta,
                   message_type = m_message_type meta, subject = m_subject meta,
                   producer = m_producer meta, key_id = m_key_id meta,
                   occurred_at = canonical_time (m_occurred_at meta), expires_at = [],
                   correlation_id = m_correlation_id meta, causation_id = m_causation_id meta,
                   content_type = ContentType, payload_base64 = std_encode payload,
                   signature_base64 = []\<rparr>" for E
    unfolding that unsigned_envelope_def by (cases "m_expires_at meta") simp_all
  show ?thesis
    unfolding sign_def Let_def e [OF refl] go_ok by auto
qed

lemma validate_fields_signature: "validate_fields L (env\<lparr>signature_base64 := s\<rparr>) = validate_fields L env"
  by (simp add: validate_fields_def cong: sum.case_cong option.case_cong if_cong)

lemma signing_input_signature: "signing_input (env\<lparr>signature_base64 := s\<rparr>) p = signing_input env p"
  by (simp add: signing_input_def signed_parts_def)

text \<open>The strings of the metadata that the caller chooses are valid UTF-8, and its times fit RFC 3339.\<close>

definition metadata_ok :: "metadata \<Rightarrow> instant \<Rightarrow> instant \<Rightarrow> bool" where
  "metadata_ok meta occurred expires \<longleftrightarrow>
     m_occurred_at meta = occurred \<and> m_expires_at meta = Some expires \<and>
     0 \<le> year_of occurred \<and> year_of occurred \<le> 9999 \<and> 0 \<le> year_of expires \<and> year_of expires \<le> 9999 \<and>
     utf8_valid (m_message_type meta) \<and> utf8_valid (m_subject meta) \<and>
     utf8_valid (m_producer meta) \<and> utf8_valid (m_key_id meta)"

lemma signed_valid:
  assumes "signature_laws L" "metadata_ok meta t u" "sign L meta payload key = Inr env"
  shows "validate_fields L env = Inr payload" "validate_signature (signature_base64 env) = Inr ()"
    and "parse_canonical_time (occurred_at env) = Inr t" "parse_canonical_time (expires_at env) = Inr u" "t < u"
    and "std_decode (signature_base64 env) = Some (ed25519_sign L key (signing_input env payload))"
    and "producer env = m_producer meta" "key_id env = m_key_id meta" "subject env = m_subject meta"
    and "message_type env = m_message_type meta"
proof -
  from assms(3) obtain p where v: "validate_fields L env = Inr p"
    and e: "env = (unsigned_envelope meta payload)\<lparr>signature_base64 :=
       std_encode (ed25519_sign L key (signing_input (unsigned_envelope meta payload) payload))\<rparr>"
    by (auto simp: sign_ok validate_fields_signature)
  then show vp: "validate_fields L env = Inr payload"
    by (auto simp: validate_fields_ok unsigned_envelope_def std_decode_encode)
  show "std_decode (signature_base64 env) = Some (ed25519_sign L key (signing_input env payload))"
    unfolding e signing_input_signature by (simp add: std_decode_encode)
  then show "validate_signature (signature_base64 env) = Inr ()"
    using assms(1) by (simp add: signature_laws_def SignatureSize_def)
  show t: "parse_canonical_time (occurred_at env) = Inr t" and u: "parse_canonical_time (expires_at env) = Inr u"
    using assms(2) by (simp_all add: e unsigned_envelope_def metadata_ok_def canonical_time_parses)
  from vp t u show "t < u" by (auto simp: validate_fields_ok)
  show "producer env = m_producer meta" "key_id env = m_key_id meta" "subject env = m_subject meta"
    "message_type env = m_message_type meta"
    by (simp_all add: e unsigned_envelope_def)
qed

lemma signed_printable:
  assumes "uuid_laws L" "metadata_ok meta t u" "sign L meta payload key = Inr env"
  shows "list_all printable (envelope_vals env)"
proof -
  from assms(3) have e: "env = (unsigned_envelope meta payload)\<lparr>signature_base64 :=
       std_encode (ed25519_sign L key (signing_input (unsigned_envelope meta payload) payload))\<rparr>"
    by (auto simp: sign_ok)
  from assms(3) obtain p where "validate_fields L (unsigned_envelope meta payload) = Inr p"
    by (auto simp: sign_ok)
  then have ids: "uuid_v7 L (m_message_id meta)" "uuid_v7 L (m_correlation_id meta)"
      "m_causation_id meta = [] \<or> uuid_v7 L (m_causation_id meta)"
    unfolding validate_fields_ok by (simp_all add: unsigned_envelope_def)
  have "list_all visible ContentType"
    by (simp add: ContentType_def visible_def byte_def)
  moreover have "utf8_valid (m_message_id meta)" "utf8_valid (m_correlation_id meta)" "utf8_valid (m_causation_id meta)"
    using ids uuid_v7_visible [OF assms(1)] utf8_valid_visible by auto
  moreover have "m_expires_at meta = Some u" "utf8_valid (m_message_type meta)" "utf8_valid (m_subject meta)"
     "utf8_valid (m_producer meta)" "utf8_valid (m_key_id meta)"
    using assms(2) by (simp_all add: metadata_ok_def)
  ultimately show ?thesis
    by (simp add: e unsigned_envelope_def envelope_vals_def Version_def utf8_valid_visible
      canonical_time_visible std_encode_ascii)
qed

lemma signed_decodes:
  assumes "uuid_laws L" "signature_laws L" "metadata_ok meta t u" "sign L meta payload key = Inr env"
    and "encode L env = Inr data"
  shows "decode L data (int MaxBytes) = Inr (env, payload)"
proof -
  note v = signed_valid [OF assms(2,3,4)]
  have d: "data = marshal False envelope_spec (envelope_vals env)" "length data \<le> MaxBytes"
    using assms(5) unfolding encode_def Let_def go_ok by auto
  have "unmarshal True envelope_spec data = Some (envelope_vals env)"
    unfolding d(1) by (rule env.unmarshal_vals) (rule signed_printable [OF assms(1,3,4)])
  moreover have "data \<noteq> []" by (simp add: d(1) marshal_def)
  ultimately show ?thesis
    using d(2) v(1) env.read_back [of env]
    by (simp add: decode_def Let_def MaxBytes_def v(2) del: validate_signature_ok)
qed

lemma signed_verifies:
  assumes "signature_laws L" "metadata_ok meta t u" "sign L meta payload key = Inr env"
    and "keys (m_producer meta) (m_key_id meta) t = Inr (ed25519_public L key)"
    and "vp_subject policy = m_subject meta" "vp_message_type policy = m_message_type meta"
    and "m_producer meta \<in> vp_allowed_producers policy"
    and "fresh (policy_now clock policy) policy t u"
  shows "verify L clock env payload keys policy = Inr ()"
  using signed_valid [OF assms(1-3)] assms(1,4-8)
  by (subst verify_cases) (auto simp: authentic_def signature_laws_def SignatureSize_def)

end
