(* ===== verification/Sample_Lib.thy ===== *)
theory Sample_Lib
  imports Go_Json
begin

text \<open>
  A concrete \<open>lib\<close>: the functions outside the repository instantiated by small ones that obey the
  documented laws (identifiers in the text form of RFC 9562, a seal and a signature without
  cryptographic strength). It shows that the laws can hold, and the instances of the properties
  are evaluated with it.
\<close>

definition hex_byte :: "char \<Rightarrow> string" where
  "hex_byte c = [hex_char (byte c div 16), hex_char (byte c mod 16)]"

definition hex :: "bytes \<Rightarrow> string" where
  "hex s = concat (map hex_byte s)"

fun unhex :: "string \<Rightarrow> bytes option" where
  "unhex [] = Some []"
| "unhex (a # b # s) =
     (case (hex_val a, hex_val b, unhex s) of
        (Some x, Some y, Some r) \<Rightarrow> Some (char_of (16 * x + y) # r)
      | _ \<Rightarrow> None)"
| "unhex _ = None"

definition sample_uuid_string :: "uuid \<Rightarrow> string" where
  "sample_uuid_string u =
     hex (take 4 u) @ ''-'' @ hex (take 2 (drop 4 u)) @ ''-'' @ hex (take 2 (drop 6 u)) @ ''-'' @
     hex (take 2 (drop 8 u)) @ ''-'' @ hex (drop 10 u)"

definition sample_uuid_parse :: "string \<Rightarrow> uuid option" where
  "sample_uuid_parse s =
     (case unhex (filter (\<lambda>c. c \<noteq> CHR ''-'') s) of
        Some u \<Rightarrow> if length u = 16 then Some u else None
      | None \<Rightarrow> None)"

definition sample_lib :: lib where
  "sample_lib =
     \<lparr>uuid_parse = sample_uuid_parse,
      uuid_string = sample_uuid_string,
      uuid_version = (\<lambda>u. byte (u ! 6) div 16),
      sha256 = (\<lambda>s. take 32 (s @ replicate 32 CHR 0x00)),
      hmac_sha256 = (\<lambda>k s. take 32 (s @ replicate 32 CHR 0x00)),
      aes_gcm_seal = (\<lambda>k n p a. p @ replicate 16 CHR 0x00),
      aes_gcm_open = (\<lambda>k n c a. if length c < 16 then None else Some (take (length c - 16) c)),
      pem_decode = (\<lambda>s. Some s),
      parse_pkix = (\<lambda>s. Inr (Some s)),
      parse_pkcs8 = (\<lambda>s. Inr (Some s)),
      ed25519_from_seed = (\<lambda>s. s @ s),
      ed25519_public = (\<lambda>k. drop 32 k),
      ed25519_sign = (\<lambda>k m. replicate 64 CHR 0x53),
      ed25519_verify = (\<lambda>k m s. s = replicate 64 CHR 0x53)\<rparr>"

lemma hex_append: "hex (s @ t) = hex s @ hex t"
  by (simp add: hex_def)

lemma hex_char_visible: "d < 16 \<Longrightarrow> visible (hex_char d) \<and> hex_char d \<noteq> CHR ''-''"
proof -
  assume "d < 16"
  then have b: "byte (hex_char d) = (if d < 10 then 48 + d else 87 + d)"
    by (simp add: hex_char_def)
  have "byte CHR ''-'' = 45"
    by (simp add: byte_def)
  moreover have "byte (hex_char d) \<noteq> 45"
    unfolding b by simp
  ultimately have "hex_char d \<noteq> CHR ''-''"
    by metis
  with b \<open>d < 16\<close> show ?thesis by (simp add: visible_def)
qed

lemma hex_no_dash: "filter (\<lambda>c. c \<noteq> CHR ''-'') (hex s) = hex s"
  using hex_char_visible by (induction s) (auto simp: hex_def hex_byte_def less_mult_imp_div_less)

lemma hex_visible: "list_all visible (hex s)"
  using hex_char_visible by (induction s) (auto simp: hex_def hex_byte_def less_mult_imp_div_less)

lemma unhex_hex: "unhex (hex s) = Some s"
proof (induction s)
  case (Cons c s)
  have "byte c div 16 < 16" by (simp add: less_mult_imp_div_less)
  with Cons show ?case
    by (simp add: hex_def hex_byte_def hex_val_char)
qed (simp add: hex_def)

lemma sample_string_hex: "filter (\<lambda>c. c \<noteq> CHR ''-'') (sample_uuid_string u) = hex u"
proof -
  have "take 4 u @ take 2 (drop 4 u) @ take 2 (drop 6 u) @ take 2 (drop 8 u) @ drop 10 u = u"
    using append_take_drop_id [of 4 u] append_take_drop_id [of 2 "drop 4 u"]
      append_take_drop_id [of 2 "drop 6 u"] append_take_drop_id [of 2 "drop 8 u"] by simp
  then show ?thesis
    by (simp add: sample_uuid_string_def hex_no_dash flip: hex_append)
qed

lemma length_hex [simp]: "length (hex s) = 2 * length s"
  by (induction s) (simp_all add: hex_def hex_byte_def)

lemma length_sample_string: "length u = 16 \<Longrightarrow> length (sample_uuid_string u) = 36"
  by (simp add: sample_uuid_string_def)

lemma sample_uuid_laws: "uuid_laws sample_lib"
proof -
  have "list_all visible (sample_uuid_string u)" for u
    by (simp add: sample_uuid_string_def hex_visible) (simp add: visible_def byte_def)
  then show ?thesis
    unfolding uuid_laws_def
    by (auto simp: sample_lib_def length_sample_string sample_uuid_parse_def sample_string_hex unhex_hex list_all_iff
        visible_def byte_def split: option.splits if_splits)
qed

lemma sample_aead_laws: "aead_laws sample_lib"
  by (simp add: aead_laws_def sample_lib_def)

lemma sample_signature_laws: "signature_laws sample_lib"
  by (simp add: signature_laws_def sample_lib_def)

text \<open>Two identifiers of version 7, their text, and a \<open>world\<close> that hands them out.\<close>

definition sample_uuid :: "nat \<Rightarrow> uuid" where
  "sample_uuid n = replicate 6 CHR 0x01 @ [CHR 0x70, CHR 0x00, CHR 0x80] @ replicate 6 CHR 0x00 @ [char_of (n + 1)]"

definition sample_id :: "nat \<Rightarrow> string" where
  "sample_id n = sample_uuid_string (sample_uuid n)"

lemma length_sample_uuid [simp]: "length (sample_uuid n) = 16"
  by (simp add: sample_uuid_def)

lemma sample_id_parse [simp]: "uuid_parse sample_lib (sample_id n) = Some (sample_uuid n)"
  by (simp add: sample_lib_def sample_uuid_parse_def sample_id_def sample_string_hex unhex_hex)

lemma sample_id_v7 [simp]: "uuid_v7 sample_lib (sample_id n)"
  using sample_id_parse [of n]
  by (simp add: uuid_v7_def) (simp add: sample_lib_def sample_uuid_def sample_id_def byte_def nth_append)

definition sample_world :: world where
  "sample_world =
     \<lparr>go_now = (\<lambda>_. 1700000000000000000), db_now = 1700000000000000000,
      new_v7 = (\<lambda>n. Inr (sample_uuid n)), rand_read = (\<lambda>n. replicate 32 (char_of (n + 7))),
      tx_begins = True, stmt_fails = (\<lambda>_. False), tx_commits = Committed\<rparr>"

end
