(* ===== verification/Keyring.thy ===== *)
theory Keyring
  imports Envelope Sample_Lib
begin

text \<open>
  src/internal/platform/crypto/keyring.go: the trusted signing keys, the keyring that encrypts
  stored data, and the loading of both from their manifests. The file system is the record \<open>fs\<close>:
  what \<open>os.Lstat\<close> of the cleaned path reports, the bytes of a file, and the manifest that
  \<open>decodeFile\<close> reads from it. A Go map is a partial function; \<open>TrustedKeys.Lookup\<close> implements the
  interface \<open>key_lookup\<close> of \<^verbatim>\<open>Envelope\<close>.
\<close>

unbundle bit_operations_syntax

record trusted_key =
  tk_producer :: string
  tk_key_id :: string
  tk_public_key :: bytes
  tk_valid_from :: instant
  tk_valid_until :: instant

type_synonym trusted_keys = "string \<rightharpoonup> trusted_key"

record data_key =
  dk_key :: bytes
  dk_decrypt_only :: bool

record data_keyring =
  kr_active :: string
  kr_keys :: "string \<rightharpoonup> data_key"

record ciphertext =
  ct_key_id :: string
  ct_nonce :: string
  ct_value :: string

record trusted_key_item =
  ti_producer :: string
  ti_key_id :: string
  ti_public_key_pem :: string
  ti_valid_from :: string
  ti_valid_until :: string

record trusted_keys_file =
  tf_version :: int
  tf_keys :: "trusted_key_item list"

record data_key_item =
  di_key_id :: string
  di_key_base64 :: string
  di_decrypt_only :: bool

record data_keyring_file =
  df_version :: int
  df_active_key_id :: string
  df_keys :: "data_key_item list"

record file_info =
  fi_symlink :: bool
  fi_regular :: bool
  fi_perm :: nat

record fs =
  lstat_clean :: "string \<Rightarrow> error + file_info"
  read_file :: "string \<Rightarrow> error + bytes"
  decode_trusted :: "string \<Rightarrow> error + trusted_keys_file"
  decode_data :: "string \<Rightarrow> error + data_keyring_file"

section \<open>Secret files\<close>

definition validate_file :: "fs \<Rightarrow> string \<Rightarrow> error + unit" where
  "validate_file F path =
     (case lstat_clean F path of Inl e \<Rightarrow> Inl (Wrap ''inspect secret file'' e)
      | Inr info \<Rightarrow>
          if fi_symlink info then Inl (Errorf ''secret file must not be a symlink'')
          else if \<not> fi_regular info then Inl (Errorf ''secret file must be regular'')
          else if fi_perm info AND 0b010010 \<noteq> 0
          then Inl (Errorf ''secret file must not be group/world-writable'')
          else Inr ())"

definition load_signing_private_key :: "lib \<Rightarrow> fs \<Rightarrow> string \<Rightarrow> string \<Rightarrow> error + bytes" where
  "load_signing_private_key L F file_path encoded =
     (if file_path \<noteq> '''' then
        case validate_file F file_path of Inl e \<Rightarrow> Inl e | Inr _ \<Rightarrow>
        (case read_file F file_path of Inl e \<Rightarrow> Inl (Wrap ''read signing key'' e) | Inr raw \<Rightarrow>
        (case pem_decode L raw of None \<Rightarrow> Inl (Errorf ''signing key must be PKCS#8 PEM'') | Some block \<Rightarrow>
        (case parse_pkcs8 L block of Inl e \<Rightarrow> Inl (Wrap ''parse signing key'' e) | Inr parsed \<Rightarrow>
        (case parsed of None \<Rightarrow> Inl (Errorf ''signing key is not Ed25519'') | Some key \<Rightarrow> Inr key))))
      else case std_decode encoded of None \<Rightarrow> Inl (Errorf ''decode signing private key'') | Some raw \<Rightarrow>
        (case parse_pkcs8 L raw of
           Inr (Some key) \<Rightarrow> Inr key
         | _ \<Rightarrow>
             if length raw = 32 then Inr (ed25519_from_seed L raw)
             else if length raw = 64 then Inr raw
             else Inl (Errorf ''test signing key must be Ed25519 seed, private key or PKCS#8 DER'')))"

definition load_fingerprint_key :: "fs \<Rightarrow> string \<Rightarrow> error + bytes" where
  "load_fingerprint_key F path =
     (case validate_file F path of Inl e \<Rightarrow> Inl e | Inr _ \<Rightarrow>
      case read_file F path of Inl e \<Rightarrow> Inl (Wrap ''read fingerprint key'' e) | Inr raw \<Rightarrow>
      (case std_decode (trim_space raw) of
         None \<Rightarrow> Inl (Errorf ''fingerprint key must be standard base64 containing 32 bytes'')
       | Some key \<Rightarrow>
           if length key \<noteq> 32
           then Inl (Errorf ''fingerprint key must be standard base64 containing 32 bytes'')
           else Inr key))"

definition fingerprint :: "lib \<Rightarrow> bytes \<Rightarrow> bytes \<Rightarrow> bytes" where
  "fingerprint L key value = hmac_sha256 L key value"

section \<open>Trusted signing keys\<close>

definition map_key :: "string \<Rightarrow> string \<Rightarrow> string" where
  "map_key p k = p @ CHR 0x00 # k"

definition trusted_key_of :: "lib \<Rightarrow> trusted_key_item \<Rightarrow> error + trusted_key" where
  "trusted_key_of L item =
     (case pem_decode L (ti_public_key_pem item) of None \<Rightarrow> Inl (Errorf ''trusted key is not PEM'') | Some block \<Rightarrow>
      case parse_pkix L block of Inl e \<Rightarrow> Inl (Wrap ''parse trusted key'' e) | Inr parsed \<Rightarrow>
      (case parsed of None \<Rightarrow> Inl (Errorf ''trusted key is not Ed25519'') | Some public_key \<Rightarrow>
      (case parse_instant (ti_valid_from item) of None \<Rightarrow> Inl (Errorf ''parse valid_from'') | Some valid_from \<Rightarrow>
      (case parse_instant (ti_valid_until item) of None \<Rightarrow> Inl (Errorf ''invalid validity'') | Some valid_until \<Rightarrow>
      if \<not> valid_until > valid_from then Inl (Errorf ''invalid validity'')
      else if ti_producer item = '''' \<or> ti_key_id item = ''''
      then Inl (Errorf ''trusted producer and key ID are required'')
      else Inr \<lparr>tk_producer = ti_producer item, tk_key_id = ti_key_id item, tk_public_key = public_key,
                tk_valid_from = valid_from, tk_valid_until = valid_until\<rparr>))))"

fun add_trusted_keys :: "lib \<Rightarrow> trusted_keys \<Rightarrow> trusted_key_item list \<Rightarrow> error + trusted_keys" where
  "add_trusted_keys L result [] = Inr result"
| "add_trusted_keys L result (item # items) =
     (case trusted_key_of L item of Inl e \<Rightarrow> Inl e | Inr key \<Rightarrow>
      let mk = map_key (ti_producer item) (ti_key_id item) in
      if result mk \<noteq> None then Inl (Errorf ''duplicate trusted key'')
      else add_trusted_keys L (result(mk \<mapsto> key)) items)"

definition load_trusted_keys :: "lib \<Rightarrow> fs \<Rightarrow> string \<Rightarrow> error + trusted_keys" where
  "load_trusted_keys L F path =
     (case validate_file F path of Inl e \<Rightarrow> Inl e | Inr _ \<Rightarrow>
      case decode_trusted F path of Inl e \<Rightarrow> Inl (Wrap ''trusted keys'' e) | Inr manifest \<Rightarrow>
      if tf_version manifest \<noteq> 1 \<or> length (tf_keys manifest) = 0
      then Inl (Errorf ''trusted keys manifest must be non-empty version 1'')
      else add_trusted_keys L Map.empty (tf_keys manifest))"

definition lookup_key :: "trusted_keys \<Rightarrow> string \<Rightarrow> string \<Rightarrow> instant \<Rightarrow> error + bytes" where
  "lookup_key keys p k at =
     (case keys (map_key p k) of None \<Rightarrow> Inl (Errorf ''untrusted producer or key ID'')
      | Some key \<Rightarrow>
          if at < tk_valid_from key \<or> \<not> at < tk_valid_until key
          then Inl (Errorf ''trusted key is outside its validity period'')
          else Inr (tk_public_key key))"

section \<open>The data keyring\<close>

fun add_data_keys :: "string \<Rightarrow> (string \<rightharpoonup> data_key) \<Rightarrow> nat \<Rightarrow> data_key_item list \<Rightarrow>
    error + (string \<rightharpoonup> data_key) \<times> nat" where
  "add_data_keys active result active_count [] = Inr (result, active_count)"
| "add_data_keys active result active_count (item # items) =
     (if di_key_id item = '''' then Inl (Errorf ''empty data key ID'')
      else if result (di_key_id item) \<noteq> None then Inl (Errorf ''duplicate data key'')
      else case std_decode (di_key_base64 item) of
        None \<Rightarrow> Inl (Errorf ''data key must decode to 32 bytes'')
      | Some key \<Rightarrow>
          if length key \<noteq> 32 then Inl (Errorf ''data key must decode to 32 bytes'')
          else
            let result = result(di_key_id item \<mapsto> \<lparr>dk_key = key, dk_decrypt_only = di_decrypt_only item\<rparr>) in
            if di_key_id item = active then
              (if di_decrypt_only item then Inl (Errorf ''active data key cannot be decrypt-only'')
               else add_data_keys active result (active_count + 1) items)
            else add_data_keys active result active_count items)"

definition data_keyring_of :: "data_keyring_file \<Rightarrow> error + data_keyring" where
  "data_keyring_of manifest =
     (if df_version manifest \<noteq> 1 \<or> df_active_key_id manifest = ''''
      then Inl (Errorf ''data keyring must be version 1 with an active key'')
      else case add_data_keys (df_active_key_id manifest) Map.empty 0 (df_keys manifest) of
        Inl e \<Rightarrow> Inl e
      | Inr (keys, active_count) \<Rightarrow>
          if active_count \<noteq> 1 then Inl (Errorf ''active data key must exist exactly once'')
          else Inr \<lparr>kr_active = df_active_key_id manifest, kr_keys = keys\<rparr>)"

definition load_data_keyring :: "fs \<Rightarrow> string \<Rightarrow> error + data_keyring" where
  "load_data_keyring F path =
     (case validate_file F path of Inl e \<Rightarrow> Inl e | Inr _ \<Rightarrow>
      case decode_data F path of Inl e \<Rightarrow> Inl (Wrap ''data keyring'' e) | Inr manifest \<Rightarrow>
      data_keyring_of manifest)"

text \<open>\<open>rand.Read\<close> fills a buffer; \<open>aes.NewCipher\<close> refuses a key of another size.\<close>

definition NonceSize :: nat where "NonceSize = 12"

definition rand_bytes :: "world \<Rightarrow> nat \<Rightarrow> nat \<Rightarrow> bytes" where
  "rand_bytes w i n = take n (rand_read w i @ replicate n CHR 0x00)"

definition aes_key_size :: "bytes \<Rightarrow> bool" where
  "aes_key_size k \<longleftrightarrow> length k \<in> {16, 24, 32}"

definition encrypt :: "lib \<Rightarrow> data_keyring \<Rightarrow> world \<Rightarrow> nat \<Rightarrow> bytes \<Rightarrow> bytes \<Rightarrow> error + ciphertext" where
  "encrypt L k w i plaintext aad =
     (case kr_keys k (kr_active k) of None \<Rightarrow> Inl (Errorf ''active encryption key unavailable'')
      | Some key \<Rightarrow>
          if dk_decrypt_only key then Inl (Errorf ''active encryption key unavailable'')
          else if \<not> aes_key_size (dk_key key) then Inl (Errorf ''crypto/aes: invalid key size'')
          else
            let nonce = rand_bytes w i NonceSize;
                sealed = aes_gcm_seal L (dk_key key) nonce plaintext aad
            in Inr \<lparr>ct_key_id = kr_active k, ct_nonce = std_encode nonce, ct_value = std_encode sealed\<rparr>)"

definition decrypt :: "lib \<Rightarrow> data_keyring \<Rightarrow> ciphertext \<Rightarrow> bytes \<Rightarrow> error + bytes" where
  "decrypt L k value aad =
     (case kr_keys k (ct_key_id value) of None \<Rightarrow> Inl (Errorf ''unknown data key ID'') | Some key \<Rightarrow>
      case std_decode (ct_nonce value) of None \<Rightarrow> Inl (Errorf ''decode encryption nonce'') | Some nonce \<Rightarrow>
      (case std_decode (ct_value value) of None \<Rightarrow> Inl (Errorf ''decode ciphertext'') | Some sealed \<Rightarrow>
      if \<not> aes_key_size (dk_key key) then Inl (Errorf ''crypto/aes: invalid key size'')
      else if length nonce \<noteq> NonceSize then Inl (Errorf ''invalid encryption nonce length'')
      else (case aes_gcm_open L (dk_key key) nonce sealed aad of
              None \<Rightarrow> Inl (Errorf ''decrypt data'')
            | Some plain \<Rightarrow> Inr plain)))"

section \<open>The trusted keys implement the key lookup\<close>

definition trusted_wf :: "trusted_keys \<Rightarrow> bool" where
  "trusted_wf keys \<longleftrightarrow>
     (\<forall>mk e. keys mk = Some e \<longrightarrow> mk = map_key (tk_producer e) (tk_key_id e) \<and> CHR 0x00 \<notin> set (tk_producer e))"

definition trusted :: "trusted_keys \<Rightarrow> string \<Rightarrow> string \<Rightarrow> instant \<Rightarrow> bytes \<Rightarrow> bool" where
  "trusted keys p i t key \<longleftrightarrow>
     (\<exists>e. keys (map_key p i) = Some e \<and> tk_producer e = p \<and> tk_key_id e = i \<and>
          tk_public_key e = key \<and> tk_valid_from e \<le> t \<and> t < tk_valid_until e)"

lemma map_key_inj:
  assumes "map_key p k = map_key q j" "CHR 0x00 \<notin> set p" "CHR 0x00 \<notin> set q"
  shows "p = q" "k = j"
proof -
  have tw: "takeWhile (\<lambda>c. c \<noteq> CHR 0x00) (map_key x y) = x" if "CHR 0x00 \<notin> set x" for x y
    using that by (auto simp: map_key_def takeWhile_append)
  from tw [OF assms(2), of k] tw [OF assms(3), of j] assms(1) show "p = q" by simp
  with assms(1) show "k = j" by (simp add: map_key_def)
qed

interpretation trust: key_lookup trusted_wf lookup_key trusted
proof
  fix keys p i t key
  assume wf: "trusted_wf keys" and l: "lookup_key keys p i t = Inr key" and z: "CHR 0x00 \<notin> set p"
  from l obtain e where e: "keys (map_key p i) = Some e" "tk_public_key e = key"
      "tk_valid_from e \<le> t" "t < tk_valid_until e"
    unfolding lookup_key_def go_ok by auto
  with wf have "map_key p i = map_key (tk_producer e) (tk_key_id e)" "CHR 0x00 \<notin> set (tk_producer e)"
    by (auto simp: trusted_wf_def)
  with z have "tk_producer e = p" "tk_key_id e = i"
    using map_key_inj [of p i "tk_producer e" "tk_key_id e"] by auto
  with e show "trusted keys p i t key"
    by (auto simp: trusted_def)
qed

lemma trusted_key_of_fields:
  assumes "trusted_key_of L item = Inr e"
  shows "tk_producer e = ti_producer item" "tk_key_id e = ti_key_id item"
  using assms unfolding trusted_key_of_def go_ok by auto

lemma add_trusted_keys_entries:
  assumes "add_trusted_keys L result items = Inr keys" "keys mk = Some e"
  shows "result mk = Some e \<or>
    (\<exists>item\<in>set items. trusted_key_of L item = Inr e \<and> mk = map_key (ti_producer item) (ti_key_id item))"
  using assms
proof (induction L result items rule: add_trusted_keys.induct)
  case (2 L result item items)
  from "2.prems"(1) obtain key where k: "trusted_key_of L item = Inr key"
    and r: "result (map_key (ti_producer item) (ti_key_id item)) = None"
    and rest: "add_trusted_keys L (result(map_key (ti_producer item) (ti_key_id item) \<mapsto> key)) items = Inr keys"
    unfolding add_trusted_keys.simps Let_def go_ok by auto
  from "2.IH" [OF k refl _ rest "2.prems"(2)] r k show ?case
    by (auto split: if_splits)
qed simp

lemma loaded_trusted:
  assumes "load_trusted_keys L F path = Inr keys"
  obtains manifest where "decode_trusted F path = Inr manifest"
    and "\<And>mk e. keys mk = Some e \<Longrightarrow>
      \<exists>item\<in>set (tf_keys manifest). trusted_key_of L item = Inr e \<and> mk = map_key (tk_producer e) (tk_key_id e)"
proof -
  from assms obtain manifest where m: "decode_trusted F path = Inr manifest"
    and a: "add_trusted_keys L Map.empty (tf_keys manifest) = Inr keys"
    unfolding load_trusted_keys_def go_ok by auto
  have "\<exists>item\<in>set (tf_keys manifest). trusted_key_of L item = Inr e \<and> mk = map_key (tk_producer e) (tk_key_id e)"
    if "keys mk = Some e" for mk e
    using add_trusted_keys_entries [OF a that] trusted_key_of_fields [of L _ e] by fastforce
  with m that show thesis by blast
qed

lemma loaded_trusted_wf:
  assumes "load_trusted_keys L F path = Inr keys" "decode_trusted F path = Inr manifest"
    and "\<forall>item\<in>set (tf_keys manifest). CHR 0x00 \<notin> set (ti_producer item)"
  shows "trusted_wf keys"
  using assms trusted_key_of_fields unfolding trusted_wf_def
  by (elim loaded_trusted) fastforce

section \<open>The data keyring\<close>

lemma add_data_keys_entries:
  assumes "add_data_keys active result n items = Inr (keys, m)"
  shows "keys x = Some k \<longleftrightarrow> result x = Some k \<or>
    (\<exists>item\<in>set items. di_key_id item = x \<and> std_decode (di_key_base64 item) = Some (dk_key k) \<and>
       length (dk_key k) = 32 \<and> dk_decrypt_only k = di_decrypt_only item)"
  using assms
proof (induction items arbitrary: result n)
  case (Cons item items)
  from Cons.prems obtain key where fresh: "result (di_key_id item) = None"
    and key: "std_decode (di_key_base64 item) = Some key" "length key = 32"
    and rest: "add_data_keys active (result(di_key_id item \<mapsto> \<lparr>dk_key = key, dk_decrypt_only = di_decrypt_only item\<rparr>))
      (if di_key_id item = active then n + 1 else n) items = Inr (keys, m)"
    by (auto simp: Let_def split: if_splits option.splits)
  note IH = Cons.IH [OF rest]
  have own: "\<lparr>dk_key = key, dk_decrypt_only = di_decrypt_only item\<rparr> = k \<longleftrightarrow>
      std_decode (di_key_base64 item) = Some (dk_key k) \<and> length (dk_key k) = 32 \<and>
      dk_decrypt_only k = di_decrypt_only item"
    using key by (cases k) auto
  show ?case
    unfolding IH using fresh own by auto
qed simp

lemma add_data_keys_active:
  assumes "add_data_keys active result n items = Inr (keys, m)"
    and "\<forall>k. result active = Some k \<longrightarrow> \<not> dk_decrypt_only k" "n > 0 \<longleftrightarrow> result active \<noteq> None"
  shows "(\<forall>k. keys active = Some k \<longrightarrow> \<not> dk_decrypt_only k) \<and> (m > 0 \<longleftrightarrow> keys active \<noteq> None)"
  using assms
  by (induction active result n items rule: add_data_keys.induct)
    (auto simp: Let_def split: if_splits option.splits)

definition keyring_ok :: "data_keyring \<Rightarrow> bool" where
  "keyring_ok k \<longleftrightarrow>
     (\<exists>key. kr_keys k (kr_active k) = Some key \<and> \<not> dk_decrypt_only key) \<and>
     (\<forall>key\<in>ran (kr_keys k). length (dk_key key) = 32)"

lemma data_keyring_ok:
  assumes "data_keyring_of manifest = Inr k"
  shows "keyring_ok k"
proof -
  from assms obtain keys m where a: "add_data_keys (df_active_key_id manifest) Map.empty 0 (df_keys manifest) = Inr (keys, m)"
    and m: "m = 1" and k: "k = \<lparr>kr_active = df_active_key_id manifest, kr_keys = keys\<rparr>"
    unfolding data_keyring_of_def go_ok by (auto split: if_splits)
  have "length (dk_key key) = 32" if "keys x = Some key" for x key
    using add_data_keys_entries [OF a, of x key] that by auto
  moreover have "\<exists>key. keys (df_active_key_id manifest) = Some key \<and> \<not> dk_decrypt_only key"
    using add_data_keys_active [OF a] m by auto
  ultimately show ?thesis
    by (auto simp: keyring_ok_def k ran_def)
qed

lemma length_rand_bytes [simp]: "length (rand_bytes w i n) = n"
  by (simp add: rand_bytes_def)

lemma encrypt_ok:
  assumes "keyring_ok k"
  obtains key where "kr_keys k (kr_active k) = Some key" "length (dk_key key) = 32"
    and "encrypt L k w i p a = Inr \<lparr>ct_key_id = kr_active k, ct_nonce = std_encode (rand_bytes w i NonceSize),
      ct_value = std_encode (aes_gcm_seal L (dk_key key) (rand_bytes w i NonceSize) p a)\<rparr>"
proof -
  from assms obtain key where k: "kr_keys k (kr_active k) = Some key" "\<not> dk_decrypt_only key"
    by (auto simp: keyring_ok_def)
  with assms have "length (dk_key key) = 32"
    by (auto simp: keyring_ok_def ran_def)
  with k show thesis
    by (intro that [of key]) (simp_all add: encrypt_def aes_key_size_def Let_def)
qed

lemma decrypt_sealed:
  assumes "aead_laws L" "kr_keys k i = Some key" "length (dk_key key) = 32" "length nonce = NonceSize"
  shows "decrypt L k \<lparr>ct_key_id = i, ct_nonce = std_encode nonce,
      ct_value = std_encode (aes_gcm_seal L (dk_key key) nonce p a)\<rparr> a = Inr p"
  using assms by (simp add: decrypt_def std_decode_encode aes_key_size_def aead_laws_def)

text \<open>
  C28. Encrypted data survives key rotation: with a keyring loaded from a manifest, encryption always
  succeeds, and what it produced is decrypted to the same plaintext, under the same associated
  data, with any later keyring whose manifest still lists the keys of the earlier one, whatever
  key is active there and also where the old key became decrypt-only.
\<close>

theorem encrypted_data_survives_rotation:
  assumes "aead_laws L" "data_keyring_of manifest = Inr k" "data_keyring_of manifest' = Inr k'"
    and "\<forall>item\<in>set (df_keys manifest). \<exists>item'\<in>set (df_keys manifest').
      di_key_id item' = di_key_id item \<and> di_key_base64 item' = di_key_base64 item"
  shows "\<exists>c. encrypt L k w i p a = Inr c \<and> decrypt L k' c a = Inr p"
proof -
  obtain keys m where a: "add_data_keys (df_active_key_id manifest) Map.empty 0 (df_keys manifest) = Inr (keys, m)"
    and k: "kr_keys k = keys"
    using assms(2) unfolding data_keyring_of_def go_ok by (auto split: if_splits)
  obtain keys' m' where a': "add_data_keys (df_active_key_id manifest') Map.empty 0 (df_keys manifest') = Inr (keys', m')"
    and k': "kr_keys k' = keys'"
    using assms(3) unfolding data_keyring_of_def go_ok by (auto split: if_splits)
  obtain key where key: "kr_keys k (kr_active k) = Some key" "length (dk_key key) = 32"
    and enc: "encrypt L k w i p a = Inr \<lparr>ct_key_id = kr_active k, ct_nonce = std_encode (rand_bytes w i NonceSize),
      ct_value = std_encode (aes_gcm_seal L (dk_key key) (rand_bytes w i NonceSize) p a)\<rparr>"
    by (rule encrypt_ok [OF data_keyring_ok [OF assms(2)]])
  obtain item where item: "item \<in> set (df_keys manifest)" "di_key_id item = kr_active k"
      "std_decode (di_key_base64 item) = Some (dk_key key)"
    using add_data_keys_entries [OF a, of "kr_active k" key] key(1) k by auto
  then obtain item' where item': "item' \<in> set (df_keys manifest')" "di_key_id item' = kr_active k"
      "std_decode (di_key_base64 item') = Some (dk_key key)"
    using assms(4) by metis
  define key' where "key' = \<lparr>dk_key = dk_key key, dk_decrypt_only = di_decrypt_only item'\<rparr>"
  have "kr_keys k' (kr_active k) = Some key'"
    using add_data_keys_entries [OF a', of "kr_active k" key'] item' key(2) k' by (auto simp: key'_def)
  then have "decrypt L k' \<lparr>ct_key_id = kr_active k, ct_nonce = std_encode (rand_bytes w i NonceSize),
      ct_value = std_encode (aes_gcm_seal L (dk_key key') (rand_bytes w i NonceSize) p a)\<rparr> a = Inr p"
    using key(2) by (intro decrypt_sealed [OF assms(1)]) (simp_all add: key'_def)
  with enc show ?thesis by (simp add: key'_def)
qed

definition sample_keyring_file :: "string \<Rightarrow> data_key_item list \<Rightarrow> data_keyring_file" where
  "sample_keyring_file active items = \<lparr>df_version = 1, df_active_key_id = active, df_keys = items\<rparr>"

definition sample_key_item :: "string \<Rightarrow> char \<Rightarrow> bool \<Rightarrow> data_key_item" where
  "sample_key_item i c only =
     \<lparr>di_key_id = i, di_key_base64 = std_encode (replicate 32 c), di_decrypt_only = only\<rparr>"

definition sample_keyring :: data_keyring where
  "sample_keyring = \<lparr>kr_active = ''k1'', kr_keys = [''k1'' \<mapsto> \<lparr>dk_key = replicate 32 CHR ''a'', dk_decrypt_only = False\<rparr>]\<rparr>"

definition rotated_keyring :: data_keyring where
  "rotated_keyring = \<lparr>kr_active = ''k2'',
     kr_keys = [''k1'' \<mapsto> \<lparr>dk_key = replicate 32 CHR ''a'', dk_decrypt_only = True\<rparr>,
                ''k2'' \<mapsto> \<lparr>dk_key = replicate 32 CHR ''b'', dk_decrypt_only = False\<rparr>]\<rparr>"

lemma sample_keyring_loads:
  "data_keyring_of (sample_keyring_file ''k1'' [sample_key_item ''k1'' CHR ''a'' False]) = Inr sample_keyring"
  "data_keyring_of (sample_keyring_file ''k2'' [sample_key_item ''k1'' CHR ''a'' True, sample_key_item ''k2'' CHR ''b'' False])
     = Inr rotated_keyring"
  by (simp_all add: data_keyring_of_def sample_keyring_file_def sample_key_item_def std_decode_encode
      sample_keyring_def rotated_keyring_def)

lemma encrypted_data_survives_rotation_witness:
  "\<exists>c. encrypt sample_lib sample_keyring sample_world 0 ''wallet'' ''aad'' = Inr c \<and>
     decrypt sample_lib rotated_keyring c ''aad'' = Inr ''wallet''"
  by (rule encrypted_data_survives_rotation [OF sample_aead_laws sample_keyring_loads])
    (simp add: sample_keyring_file_def sample_key_item_def)

end
