(* ===== verification/Codec.thy ===== *)
theory Codec
  imports Keyring
begin

text \<open>
  \<open>Codec\<close> of src/internal/platform/message/codec.go: what a service signs before it puts a message
  in its outbox and what it verifies before it handles one. The \<open>i\<close>-th call of \<open>codec_sign\<close> in an
  operation takes the \<open>i\<close>-th fresh identifier and clock reading of the \<open>world\<close>; \<open>json.Marshal\<close> of a
  payload record cannot fail and is done by the caller.
\<close>

record codec =
  cd_producer :: string
  cd_key_id :: string
  cd_private_key :: bytes
  cd_trusted :: trusted_keys
  cd_clock_skew :: duration

record outbox_message =
  om_message_id :: uuid
  om_subject :: string
  om_envelope :: bytes
  om_kind :: string
  om_expires_at :: instant

record verified =
  vf_envelope :: envelope
  vf_payload :: bytes
  vf_id :: uuid
  vf_expires :: instant

definition nil_uuid :: uuid where
  "nil_uuid = replicate 16 CHR 0x00"

definition codec_sign ::
  "lib \<Rightarrow> codec \<Rightarrow> world \<Rightarrow> nat \<Rightarrow> string \<Rightarrow> string \<Rightarrow> uuid \<Rightarrow> uuid \<Rightarrow> bytes \<Rightarrow> instant \<Rightarrow> error + outbox_message" where
  "codec_sign L c w i subj mtype correlation causation raw_payload expires =
     (case new_v7 w i of Inl e \<Rightarrow> Inl (Wrap ''generate message ID'' e) | Inr mid \<Rightarrow>
      let now = go_now w i;
          meta = \<lparr>m_message_id = uuid_string L mid, m_message_type = mtype, m_subject = subj,
                  m_producer = cd_producer c, m_key_id = cd_key_id c, m_occurred_at = now,
                  m_expires_at = Some expires, m_correlation_id = uuid_string L correlation,
                  m_causation_id = (if causation \<noteq> nil_uuid then uuid_string L causation else '''')\<rparr>
      in case sign L meta raw_payload (cd_private_key c) of Inl e \<Rightarrow> Inl (Wrap ''sign envelope'' e) | Inr signed_env \<Rightarrow>
         case encode L signed_env of Inl e \<Rightarrow> Inl (Wrap ''encode envelope'' e) | Inr encoded \<Rightarrow>
         Inr \<lparr>om_message_id = mid, om_subject = subj, om_envelope = encoded, om_kind = '''',
              om_expires_at = expires\<rparr>)"

definition EventMaxAge :: duration where "EventMaxAge = 24 * hour"

definition codec_policy :: "codec \<Rightarrow> instant \<Rightarrow> string \<Rightarrow> string \<Rightarrow> string list \<Rightarrow> verify_policy" where
  "codec_policy c now subj mtype allowed =
     \<lparr>vp_subject = subj, vp_message_type = mtype, vp_allowed_producers = set allowed,
      vp_require_expiry = True, vp_now = now, vp_clock_skew = cd_clock_skew c, vp_event_max_age = EventMaxAge\<rparr>"

definition codec_verify ::
  "lib \<Rightarrow> codec \<Rightarrow> world \<Rightarrow> bytes \<Rightarrow> string \<Rightarrow> string \<Rightarrow> string list \<Rightarrow> error + verified" where
  "codec_verify L c w data subj mtype allowed =
     (case decode L data (int MaxBytes) of Inl e \<Rightarrow> Inl e | Inr (env, payload) \<Rightarrow>
      case verify L (go_now w 0) env payload (lookup_key (cd_trusted c)) (codec_policy c (go_now w 0) subj mtype allowed) of
        Inl e \<Rightarrow> Inl e | Inr _ \<Rightarrow>
      (case uuid_parse L (message_id env) of None \<Rightarrow> Inl (Errorf ''invalid verified message ID'') | Some mid \<Rightarrow>
      (case parse_instant (expires_at env) of None \<Rightarrow> Inl (Errorf ''invalid verified expiry'') | Some expires \<Rightarrow>
      Inr \<lparr>vf_envelope = env, vf_payload = payload, vf_id = mid, vf_expires = expires\<rparr>)))"

section \<open>What the codec promises\<close>

definition signing_metadata :: "lib \<Rightarrow> codec \<Rightarrow> instant \<Rightarrow> uuid \<Rightarrow> string \<Rightarrow> string \<Rightarrow> uuid \<Rightarrow> uuid \<Rightarrow> instant \<Rightarrow> metadata" where
  "signing_metadata L c now mid subj mtype correlation causation expires =
     \<lparr>m_message_id = uuid_string L mid, m_message_type = mtype, m_subject = subj,
      m_producer = cd_producer c, m_key_id = cd_key_id c, m_occurred_at = now,
      m_expires_at = Some expires, m_correlation_id = uuid_string L correlation,
      m_causation_id = (if causation \<noteq> nil_uuid then uuid_string L causation else [])\<rparr>"

lemma codec_sign_ok:
  "codec_sign L c w i subj mtype correlation causation raw expires = Inr item \<longleftrightarrow>
     (\<exists>mid env data. new_v7 w i = Inr mid \<and>
        sign L (signing_metadata L c (go_now w i) mid subj mtype correlation causation expires) raw (cd_private_key c) = Inr env \<and>
        encode L env = Inr data \<and>
        item = \<lparr>om_message_id = mid, om_subject = subj, om_envelope = data, om_kind = [], om_expires_at = expires\<rparr>)"
  unfolding codec_sign_def signing_metadata_def Let_def go_ok by auto

lemma codec_verify_ok:
  "codec_verify L c w data subj mtype allowed = Inr v \<longleftrightarrow>
     decode L data (int MaxBytes) = Inr (vf_envelope v, vf_payload v) \<and>
     verify L (go_now w 0) (vf_envelope v) (vf_payload v) (lookup_key (cd_trusted c))
       (codec_policy c (go_now w 0) subj mtype allowed) = Inr () \<and>
     uuid_parse L (message_id (vf_envelope v)) = Some (vf_id v) \<and>
     parse_instant (expires_at (vf_envelope v)) = Some (vf_expires v)"
  unfolding codec_verify_def go_ok by (cases v) (auto simp: go_ok split: prod.splits)

lemma codec_now: "policy_now clock (codec_policy c clock subj mtype allowed) = clock"
  by (simp add: policy_now_def codec_policy_def)

text \<open>
  The moment a receiver reads a message: not before it was signed by more than the clock skew, not
  older than the maximal age, and not after its expiry by more than the skew.
\<close>

definition timely :: "duration \<Rightarrow> instant \<Rightarrow> instant \<Rightarrow> instant \<Rightarrow> bool" where
  "timely skew occurred expires now \<longleftrightarrow>
     occurred \<le> now + skew \<and> now - EventMaxAge \<le> occurred \<and> now \<le> expires + skew"

definition rfc3339_years :: "instant \<Rightarrow> bool" where
  "rfc3339_years t \<longleftrightarrow> 0 \<le> year_of t \<and> year_of t \<le> 9999"

lemma signed_item_verifies:
  assumes "uuid_laws L" "signature_laws L"
    and "codec_sign L c w i subj mtype correlation causation raw expires = Inr item"
    and "utf8_valid subj" "utf8_valid mtype" "utf8_valid (cd_producer c)" "utf8_valid (cd_key_id c)"
    and "rfc3339_years (go_now w i)" "rfc3339_years expires" "length (om_message_id item) = 16"
    and "lookup_key (cd_trusted r) (cd_producer c) (cd_key_id c) (go_now w i) = Inr (ed25519_public L (cd_private_key c))"
    and "cd_producer c \<in> set allowed" "timely (cd_clock_skew r) (go_now w i) expires (go_now w' 0)"
  shows "\<exists>env. codec_verify L r w' (om_envelope item) subj mtype allowed =
    Inr \<lparr>vf_envelope = env, vf_payload = raw, vf_id = om_message_id item, vf_expires = expires\<rparr> \<and>
    producer env = cd_producer c"
proof -
  let ?m = "signing_metadata L c (go_now w i) (om_message_id item) subj mtype correlation causation expires"
  from assms(3) obtain env data where s: "sign L ?m raw (cd_private_key c) = Inr env"
    and e: "encode L env = Inr data" and d: "om_envelope item = data"
    unfolding codec_sign_ok by auto
  have ok: "metadata_ok ?m (go_now w i) expires"
    using assms(4-9) by (simp add: metadata_ok_def signing_metadata_def rfc3339_years_def)
  note v = signed_valid [OF assms(2) ok s]
  have "fresh (policy_now (go_now w' 0) (codec_policy r (go_now w' 0) subj mtype allowed))
      (codec_policy r (go_now w' 0) subj mtype allowed) (go_now w i) expires"
    using assms(13) v(5) unfolding codec_now
    by (simp add: fresh_def timely_def codec_policy_def)
  then have ver: "verify L (go_now w' 0) env raw (lookup_key (cd_trusted r))
      (codec_policy r (go_now w' 0) subj mtype allowed) = Inr ()"
    using assms(11,12)
    by (intro signed_verifies [OF assms(2) ok s]) (simp_all add: signing_metadata_def codec_policy_def)
  have "decode L data (int MaxBytes) = Inr (env, raw)"
    by (rule signed_decodes [OF assms(1,2) ok s e])
  moreover have "uuid_parse L (message_id env) = Some (om_message_id item)"
    using s assms(1,10) by (auto simp: sign_ok unsigned_envelope_def signing_metadata_def)
  moreover have "parse_instant (expires_at env) = Some expires"
    using v(4) by (auto simp: parse_canonical_ok parse_instant_def)
  ultimately show ?thesis
    using ver v(7) by (intro exI [of _ env]) (simp add: codec_verify_ok d signing_metadata_def)
qed

section \<open>Signing succeeds\<close>

lemma uuid_string_length: "uuid_laws L \<Longrightarrow> length u = 16 \<Longrightarrow> length (uuid_string L u) = 36"
  by (simp add: uuid_laws_def)

lemma uuid_string_v7:
  "uuid_laws L \<Longrightarrow> length u = 16 \<Longrightarrow> uuid_version L u = 7 \<Longrightarrow> uuid_v7 L (uuid_string L u)"
  by (simp add: uuid_v7_def)

lemma canonical_time_nonempty: "canonical_time t \<noteq> []"
proof -
  have "CHR ''-'' \<in> set (canonical_time t)"
    by (cases "civil (t div day_nanos + epoch_days)") (simp add: canonical_time_def format_time_def Let_def)
  then show ?thesis by auto
qed

definition is_v7 :: "lib \<Rightarrow> uuid \<Rightarrow> bool" where
  "is_v7 L u \<longleftrightarrow> length u = 16 \<and> uuid_version L u = 7"

text \<open>A codec that can sign: a full private key, names of at most 256 bytes of valid UTF-8.\<close>

definition short_name :: "string \<Rightarrow> bool" where
  "short_name s \<longleftrightarrow> s \<noteq> [] \<and> length s \<le> 256 \<and> utf8_valid s"

definition codec_ready :: "codec \<Rightarrow> bool" where
  "codec_ready c \<longleftrightarrow>
     length (cd_private_key c) = PrivateKeySize \<and> short_name (cd_producer c) \<and> short_name (cd_key_id c)"

lemma encode_fits:
  assumes "validate_fields L env = Inr p" "validate_signature (signature_base64 env) = Inr ()"
    and "struct_size envelope_spec (envelope_vals env) \<le> MaxBytes"
  shows "\<exists>data. encode L env = Inr data"
  using assms length_marshal [of False envelope_spec "envelope_vals env"]
  by (simp add: encode_def Let_def del: validate_signature_ok)

lemma codec_sign_succeeds:
  assumes "uuid_laws L" "signature_laws L" "codec_ready c" "new_v7 w i = Inr mid" "is_v7 L mid"
    and "is_v7 L correlation" "causation = nil_uuid \<or> is_v7 L causation"
    and "short_name subj" "short_name mtype" "length raw \<le> 20000"
    and "rfc3339_years (go_now w i)" "rfc3339_years expires" "go_now w i < expires"
  obtains item where "codec_sign L c w i subj mtype correlation causation raw expires = Inr item"
    and "om_message_id item = mid" "om_subject item = subj" "om_expires_at item = expires"
proof -
  let ?m = "signing_metadata L c (go_now w i) mid subj mtype correlation causation expires"
  let ?e = "unsigned_envelope ?m raw"
  let ?s = "?e\<lparr>signature_base64 := std_encode (ed25519_sign L (cd_private_key c) (signing_input ?e raw))\<rparr>"
  have valid: "validate_fields L ?e = Inr raw"
    unfolding validate_fields_ok
    using assms by (auto simp: unsigned_envelope_def signing_metadata_def std_decode_encode codec_ready_def
        short_name_def is_v7_def rfc3339_years_def canonical_time_parses uuid_string_v7 canonical_time_nonempty)
  have s: "sign L ?m raw (cd_private_key c) = Inr ?s"
    using valid assms(3) unfolding sign_ok by (auto simp: codec_ready_def)
  have sg: "validate_signature (signature_base64 ?s) = Inr ()"
    using assms(2) by (simp add: std_decode_encode signature_laws_def SignatureSize_def)
  have t: "length (canonical_time (go_now w i)) \<le> 30" "length (canonical_time expires) \<le> 30"
    using assms(11,12) by (simp_all add: canonical_time_def rfc3339_years_def length_format_time)
  have c: "length (m_causation_id ?m) \<le> 36"
    using assms(1,7) uuid_string_length by (auto simp: signing_metadata_def is_v7_def)
  have names: "length (cd_producer c) \<le> 256" "length (cd_key_id c) \<le> 256" "length subj \<le> 256" "length mtype \<le> 256"
    using assms(3,8,9) by (simp_all add: codec_ready_def short_name_def)
  have "length (std_encode raw) \<le> 4 * (20002 div 3)"
    using assms(10) by (simp only: length_std_encode mult_le_mono2 div_le_mono add_le_mono1)
  then have "struct_size envelope_spec (envelope_vals ?s) \<le> MaxBytes"
    using t c names assms(1,2,5,6)
    by (simp add: struct_size_def envelope_spec_def envelope_vals_def unsigned_envelope_def
        signing_metadata_def length_std_encode [of "ed25519_sign _ _ _"] signature_laws_def is_v7_def uuid_string_length Version_def
        ContentType_def MaxBytes_def format_int_def nat_digits.simps [of "Suc 0"])
  then obtain data where "encode L ?s = Inr data"
    using encode_fits [of L ?s raw] valid sg by (auto simp: validate_fields_signature)
  with s assms(4) show thesis
    by (intro that [of "\<lparr>om_message_id = mid, om_subject = subj, om_envelope = data, om_kind = [], om_expires_at = expires\<rparr>"])
      (auto simp: codec_sign_ok)
qed

section \<open>Properties\<close>

text \<open>
  C20. Sign and verify: a ready codec signs any payload of up to 20000 bytes under a fresh
  identifier, and a receiver that trusts the signing key at that time and reads the bytes in time
  accepts them for the same subject and message type, and gets exactly the payload, the message
  identifier and the expiry that were signed.
\<close>

theorem signed_message_accepted:
  assumes "uuid_laws L" "signature_laws L" "codec_ready c" "new_v7 w i = Inr mid" "is_v7 L mid"
    and "is_v7 L correlation" "causation = nil_uuid \<or> is_v7 L causation"
    and "short_name subj" "short_name mtype" "length raw \<le> 20000"
    and "rfc3339_years (go_now w i)" "rfc3339_years expires" "go_now w i < expires"
    and "lookup_key (cd_trusted r) (cd_producer c) (cd_key_id c) (go_now w i) = Inr (ed25519_public L (cd_private_key c))"
    and "cd_producer c \<in> set allowed" "timely (cd_clock_skew r) (go_now w i) expires (go_now w' 0)"
  shows "\<exists>item env. codec_sign L c w i subj mtype correlation causation raw expires = Inr item \<and>
    om_message_id item = mid \<and>
    codec_verify L r w' (om_envelope item) subj mtype allowed =
      Inr \<lparr>vf_envelope = env, vf_payload = raw, vf_id = mid, vf_expires = expires\<rparr>"
proof -
  obtain item where item: "codec_sign L c w i subj mtype correlation causation raw expires = Inr item"
      "om_message_id item = mid"
    using codec_sign_succeeds [OF assms(1-13)] by metis
  have "\<exists>env. codec_verify L r w' (om_envelope item) subj mtype allowed =
      Inr \<lparr>vf_envelope = env, vf_payload = raw, vf_id = om_message_id item, vf_expires = expires\<rparr> \<and>
      producer env = cd_producer c"
    using assms(3,5,8,9)
    by (intro signed_item_verifies [OF assms(1,2) item(1) _ _ _ _ assms(11,12) _ assms(14-16)])
      (simp_all add: codec_ready_def short_name_def is_v7_def item(2))
  with item show ?thesis by auto
qed

definition sample_codec :: codec where
  "sample_codec =
     \<lparr>cd_producer = ''rw-bot'', cd_key_id = ''bot-1'', cd_private_key = replicate 64 CHR ''k'',
      cd_trusted = [map_key ''rw-bot'' ''bot-1'' \<mapsto>
        \<lparr>tk_producer = ''rw-bot'', tk_key_id = ''bot-1'', tk_public_key = replicate 32 CHR ''k'',
         tk_valid_from = 1600000000000000000, tk_valid_until = 2000000000000000000\<rparr>],
      cd_clock_skew = 2 * minute\<rparr>"

lemma sample_years: "rfc3339_years 1700000000000000000" "rfc3339_years 1700000600000000000"
proof -
  have "year_of 1700000000000000000 = 2023" "year_of 1700000600000000000 = 2023"
    by code_simp+
  then show "rfc3339_years 1700000000000000000" "rfc3339_years 1700000600000000000"
    by (simp_all add: rfc3339_years_def)
qed

lemma sample_v7 [simp]: "is_v7 sample_lib (sample_uuid n)"
  by (simp add: is_v7_def) (simp add: sample_lib_def sample_uuid_def byte_def nth_append)

lemma short_name_visible: "list_all visible s \<Longrightarrow> s \<noteq> [] \<Longrightarrow> length s \<le> 256 \<Longrightarrow> short_name s"
  by (simp add: short_name_def utf8_valid_visible)

lemma sample_codec_ready: "codec_ready sample_codec"
  by (auto simp: codec_ready_def sample_codec_def PrivateKeySize_def intro!: short_name_visible)
    (simp_all add: visible_def byte_def)

lemma signed_message_accepted_witness:
  "\<exists>item env. codec_sign sample_lib sample_codec sample_world 0 ''s'' ''t'' (sample_uuid 5) nil_uuid ''{}'' 1700000600000000000 = Inr item \<and>
    om_message_id item = sample_uuid 0 \<and>
    codec_verify sample_lib sample_codec sample_world (om_envelope item) ''s'' ''t'' [''rw-bot''] =
      Inr \<lparr>vf_envelope = env, vf_payload = ''{}'', vf_id = sample_uuid 0, vf_expires = 1700000600000000000\<rparr>"
proof (rule signed_message_accepted [OF sample_uuid_laws sample_signature_laws sample_codec_ready])
  show "lookup_key (cd_trusted sample_codec) (cd_producer sample_codec) (cd_key_id sample_codec)
      (go_now sample_world 0) = Inr (ed25519_public sample_lib (cd_private_key sample_codec))"
    by (simp add: lookup_key_def sample_codec_def sample_world_def sample_lib_def)
  show "timely (cd_clock_skew sample_codec) (go_now sample_world 0) 1700000600000000000 (go_now sample_world 0)"
    by (simp add: timely_def sample_codec_def sample_world_def duration_defs EventMaxAge_def)
qed (simp_all add: sample_world_def sample_years sample_codec_def short_name_visible visible_def byte_def)

text \<open>
  C8. What an accepted message shows: a message that \<open>Codec.Verify\<close> accepts, with keys loaded
  from a manifest whose producer names have no NUL byte, was sent by an allowed producer for this
  subject and type, within its age and expiry bounds, and its signature over exactly these fields
  and this payload verifies under a key the manifest lists for that producer and key identifier
  and that was valid when the message was signed.
\<close>

theorem accepted_message_trusted:
  assumes "load_trusted_keys L F path = Inr (cd_trusted r)" "decode_trusted F path = Inr manifest"
    and "\<forall>item\<in>set (tf_keys manifest). CHR 0x00 \<notin> set (ti_producer item)"
    and "\<forall>p\<in>set allowed. CHR 0x00 \<notin> set p"
    and "codec_verify L r w data subj mtype allowed = Inr v"
  shows "\<exists>occurred item key signature.
    subject (vf_envelope v) = subj \<and> message_type (vf_envelope v) = mtype \<and>
    producer (vf_envelope v) \<in> set allowed \<and>
    parse_canonical_time (occurred_at (vf_envelope v)) = Inr occurred \<and>
    occurred < vf_expires v \<and> timely (cd_clock_skew r) occurred (vf_expires v) (go_now w 0) \<and>
    item \<in> set (tf_keys manifest) \<and> ti_producer item = producer (vf_envelope v) \<and>
    ti_key_id item = key_id (vf_envelope v) \<and> trusted_key_of L item = Inr key \<and>
    tk_valid_from key \<le> occurred \<and> occurred < tk_valid_until key \<and>
    std_decode (signature_base64 (vf_envelope v)) = Some signature \<and>
    ed25519_verify L (tk_public_key key) (signing_input (vf_envelope v) (vf_payload v)) signature"
proof -
  note v = assms(5) [unfolded codec_verify_ok]
  have "trusted_wf (cd_trusted r)"
    by (rule loaded_trusted_wf [OF assms(1-3)])
  moreover have "\<forall>p\<in>vp_allowed_producers (codec_policy r (go_now w 0) subj mtype allowed). CHR 0x00 \<notin> set p"
    using assms(4) by (simp add: codec_policy_def)
  ultimately obtain t u key signature where *: "parse_canonical_time (occurred_at (vf_envelope v)) = Inr t"
      "parse_canonical_time (expires_at (vf_envelope v)) = Inr u"
      "fresh (go_now w 0) (codec_policy r (go_now w 0) subj mtype allowed) t u"
      "subject (vf_envelope v) = subj" "message_type (vf_envelope v) = mtype"
      "producer (vf_envelope v) \<in> set allowed"
      "trusted (cd_trusted r) (producer (vf_envelope v)) (key_id (vf_envelope v)) t key"
      "std_decode (signature_base64 (vf_envelope v)) = Some signature"
      "ed25519_verify L key (signing_input (vf_envelope v) (vf_payload v)) signature"
    using trust.verified_trusted [of "cd_trusted r" L "go_now w 0" "vf_envelope v" "vf_payload v"
        "codec_policy r (go_now w 0) subj mtype allowed"] v
    unfolding codec_now by (auto simp: codec_policy_def)
  have "u = vf_expires v"
    using *(2) v by (simp add: parse_canonical_ok parse_instant_def)
  moreover obtain e where e: "cd_trusted r (map_key (producer (vf_envelope v)) (key_id (vf_envelope v))) = Some e"
      "tk_producer e = producer (vf_envelope v)" "tk_key_id e = key_id (vf_envelope v)" "tk_public_key e = key"
      "tk_valid_from e \<le> t" "t < tk_valid_until e"
    using *(7) by (auto simp: trusted_def)
  moreover obtain item where "item \<in> set (tf_keys manifest)" "trusted_key_of L item = Inr e"
    using loaded_trusted [OF assms(1)] assms(2) e(1) by (metis sum.inject(2))
  ultimately show ?thesis
    using * trusted_key_of_fields [of L item e]
    by (intro exI [of _ t] exI [of _ item] exI [of _ e] exI [of _ signature])
      (simp add: fresh_def timely_def codec_policy_def EventMaxAge_def duration_defs)
qed

definition sample_manifest :: trusted_keys_file where
  "sample_manifest =
     \<lparr>tf_version = 1,
      tf_keys = [\<lparr>ti_producer = ''rw-bot'', ti_key_id = ''bot-1'', ti_public_key_pem = replicate 32 CHR ''k'',
                  ti_valid_from = format_rfc3339nano 1600000000000000000,
                  ti_valid_until = format_rfc3339nano 2000000000000000000\<rparr>]\<rparr>"

definition sample_fs :: fs where
  "sample_fs =
     \<lparr>lstat_clean = (\<lambda>_. Inr \<lparr>fi_symlink = False, fi_regular = True, fi_perm = 0\<rparr>),
      read_file = (\<lambda>_. Inr []), decode_trusted = (\<lambda>_. Inr sample_manifest),
      decode_data = (\<lambda>_. Inl DbUnavailable)\<rparr>"

lemma sample_trusted_loaded: "load_trusted_keys sample_lib sample_fs ''keys'' = Inr (cd_trusted sample_codec)"
proof -
  have "year_of 1600000000000000000 = 2020" "year_of 2000000000000000000 = 2033"
    by code_simp+
  then have t: "parse_instant (format_rfc3339nano 1600000000000000000) = Some 1600000000000000000"
    "parse_instant (format_rfc3339nano 2000000000000000000) = Some 2000000000000000000"
    by (simp_all add: parse_instant_format)
  have lib: "pem_decode sample_lib s = Some s" "parse_pkix sample_lib s = Inr (Some s)" for s
    by (simp_all add: sample_lib_def)
  show ?thesis
    by (simp add: load_trusted_keys_def validate_file_def sample_fs_def sample_manifest_def trusted_key_of_def
        t sample_codec_def lib Let_def)
qed

lemma sample_message_verified:
  obtains v where "codec_verify sample_lib sample_codec sample_world
      (case codec_sign sample_lib sample_codec sample_world 0 ''s'' ''t'' (sample_uuid 5) nil_uuid ''{}'' 1700000600000000000 of
         Inl _ \<Rightarrow> [] | Inr item \<Rightarrow> om_envelope item) ''s'' ''t'' [''rw-bot''] = Inr v"
proof -
  have w: "new_v7 sample_world 0 = Inr (sample_uuid 0)" "go_now sample_world n = 1700000000000000000" for n
    by (simp_all add: sample_world_def)
  have names: "short_name ''s''" "short_name ''t''" "utf8_valid ''s''" "utf8_valid ''t''"
    by (simp_all add: short_name_visible utf8_valid_visible visible_def byte_def)
  obtain item where item: "codec_sign sample_lib sample_codec sample_world 0 ''s'' ''t'' (sample_uuid 5) nil_uuid ''{}''
      1700000600000000000 = Inr item" "om_message_id item = sample_uuid 0"
    using codec_sign_succeeds [OF sample_uuid_laws sample_signature_laws sample_codec_ready w(1), of "sample_uuid 5"
        nil_uuid "''s''" "''t''" "''{}''" 1700000600000000000] names sample_years
    by (auto simp: w)
  have "\<exists>env. codec_verify sample_lib sample_codec sample_world (om_envelope item) ''s'' ''t'' [''rw-bot''] =
      Inr \<lparr>vf_envelope = env, vf_payload = ''{}'', vf_id = om_message_id item, vf_expires = 1700000600000000000\<rparr> \<and>
      producer env = cd_producer sample_codec"
    using sample_codec_ready names sample_years
    by (intro signed_item_verifies [OF sample_uuid_laws sample_signature_laws item(1)])
      (simp_all add: w item(2) codec_ready_def short_name_def lookup_key_def sample_codec_def sample_lib_def timely_def
        duration_defs EventMaxAge_def PrivateKeySize_def)
  with item(1) that show thesis by auto
qed

lemma accepted_message_trusted_witness:
  "\<exists>data v occurred item key signature.
    codec_verify sample_lib sample_codec sample_world data ''s'' ''t'' [''rw-bot''] = Inr v \<and>
    subject (vf_envelope v) = ''s'' \<and> message_type (vf_envelope v) = ''t'' \<and>
    producer (vf_envelope v) \<in> set [''rw-bot''] \<and>
    parse_canonical_time (occurred_at (vf_envelope v)) = Inr occurred \<and>
    occurred < vf_expires v \<and>
    timely (cd_clock_skew sample_codec) occurred (vf_expires v) (go_now sample_world 0) \<and>
    item \<in> set (tf_keys sample_manifest) \<and> ti_producer item = producer (vf_envelope v) \<and>
    ti_key_id item = key_id (vf_envelope v) \<and> trusted_key_of sample_lib item = Inr key \<and>
    tk_valid_from key \<le> occurred \<and> occurred < tk_valid_until key \<and>
    std_decode (signature_base64 (vf_envelope v)) = Some signature \<and>
    ed25519_verify sample_lib (tk_public_key key) (signing_input (vf_envelope v) (vf_payload v)) signature"
proof -
  obtain data v where v: "codec_verify sample_lib sample_codec sample_world data ''s'' ''t'' [''rw-bot''] = Inr v"
    by (rule sample_message_verified)
  have m: "decode_trusted sample_fs ''keys'' = Inr sample_manifest"
    by (simp add: sample_fs_def)
  have n: "\<forall>item\<in>set (tf_keys sample_manifest). CHR 0x00 \<notin> set (ti_producer item)"
    "\<forall>p\<in>set [''rw-bot'']. CHR 0x00 \<notin> set p"
    by (simp_all add: sample_manifest_def)
  show ?thesis
    using accepted_message_trusted [OF sample_trusted_loaded m n v] v by blast
qed

end
