(* ===== verification/Bot_Contract.thy ===== *)
theory Bot_Contract
  imports Payload
begin

text \<open>
  The message types of src/internal/bot/contract/messages.go, in the form of
  \<^verbatim>\<open>Sessions_Contract\<close>.
\<close>

section \<open>Subjects and message types\<close>

definition InviteCreateSubject :: string where "InviteCreateSubject = ''rw.bot.v1.invite.create''"
definition InviteCreateType :: string where "InviteCreateType = ''rw.bot.invite.create.v1''"
definition InviteCreatedSubject :: string where "InviteCreatedSubject = ''rw.bot.v1.invite.created''"
definition InviteCreatedType :: string where "InviteCreatedType = ''rw.bot.invite.created.v1''"
definition ActivationReserveSubject :: string where "ActivationReserveSubject = ''rw.topup.v1.activation.reserve''"
definition ActivationReserveType :: string where "ActivationReserveType = ''rw.topup.activation.reserve.v1''"
definition ActivationReservedSubject :: string where "ActivationReservedSubject = ''rw.topup.v1.activation.reserved''"
definition ActivationReservedType :: string where "ActivationReservedType = ''rw.topup.activation.reserved.v1''"
definition ReserveRejectedSubject :: string where "ReserveRejectedSubject = ''rw.topup.v1.activation.reserve_rejected''"
definition ReserveRejectedType :: string where "ReserveRejectedType = ''rw.topup.activation.reserve_rejected.v1''"
definition PaymentConfirmedSubject :: string where "PaymentConfirmedSubject = ''rw.topup.v1.activation.payment_confirmed''"
definition PaymentConfirmedType :: string where "PaymentConfirmedType = ''rw.topup.activation.payment_confirmed.v1''"

lemmas bot_subjects [go_eval] =
  InviteCreateSubject_def
  InviteCreateType_def
  InviteCreatedSubject_def
  InviteCreatedType_def
  ActivationReserveSubject_def
  ActivationReserveType_def
  ActivationReservedSubject_def
  ActivationReservedType_def
  ReserveRejectedSubject_def
  ReserveRejectedType_def
  PaymentConfirmedSubject_def
  PaymentConfirmedType_def

section \<open>InviteCreate\<close>

record invite_create =
  ic_operation_id :: string
  ic_balance_id :: string
  ic_requested_ttl_seconds :: int

definition invite_create_spec :: spec where
  "invite_create_spec =
     [(''operation_id'', KStr, False),
      (''balance_id'', KStr, False),
      (''requested_ttl_seconds'', KInt, True)]"

definition invite_create_vals :: "invite_create \<Rightarrow> fval list" where
  "invite_create_vals r =
     [FStr (ic_operation_id r),
      FStr (ic_balance_id r),
      FInt (ic_requested_ttl_seconds r)]"

definition invite_create_of :: "fval list \<Rightarrow> invite_create" where
  "invite_create_of vs =
     \<lparr>ic_operation_id = str_of (vs ! 0),
      ic_balance_id = str_of (vs ! 1),
      ic_requested_ttl_seconds = int_of (vs ! 2)\<rparr>"

definition decode_invite_create :: "bytes \<Rightarrow> error + invite_create" where
  "decode_invite_create = decode_payload invite_create_spec invite_create_of"

definition encode_invite_create :: "invite_create \<Rightarrow> bytes" where
  "encode_invite_create = encode_payload invite_create_spec invite_create_vals"

interpretation invite_create: payload_type invite_create_spec invite_create_vals invite_create_of
  by unfold_locales
    (simp_all add: invite_create_spec_def invite_create_vals_def invite_create_of_def spec_ok_def utf8_valid_visible visible_def byte_def)

section \<open>InviteCreated\<close>

record invite_created =
  id_operation_id :: string
  id_invite :: string
  id_bot_deep_link :: string
  id_expires_at :: string

definition invite_created_spec :: spec where
  "invite_created_spec =
     [(''operation_id'', KStr, False),
      (''invite'', KStr, False),
      (''bot_deep_link'', KStr, False),
      (''expires_at'', KStr, False)]"

definition invite_created_vals :: "invite_created \<Rightarrow> fval list" where
  "invite_created_vals r =
     [FStr (id_operation_id r),
      FStr (id_invite r),
      FStr (id_bot_deep_link r),
      FStr (id_expires_at r)]"

definition invite_created_of :: "fval list \<Rightarrow> invite_created" where
  "invite_created_of vs =
     \<lparr>id_operation_id = str_of (vs ! 0),
      id_invite = str_of (vs ! 1),
      id_bot_deep_link = str_of (vs ! 2),
      id_expires_at = str_of (vs ! 3)\<rparr>"

definition decode_invite_created :: "bytes \<Rightarrow> error + invite_created" where
  "decode_invite_created = decode_payload invite_created_spec invite_created_of"

definition encode_invite_created :: "invite_created \<Rightarrow> bytes" where
  "encode_invite_created = encode_payload invite_created_spec invite_created_vals"

interpretation invite_created: payload_type invite_created_spec invite_created_vals invite_created_of
  by unfold_locales
    (simp_all add: invite_created_spec_def invite_created_vals_def invite_created_of_def spec_ok_def utf8_valid_visible visible_def byte_def)

section \<open>ActivationReserve\<close>

record activation_reserve =
  ar_operation_id :: string
  ar_balance_id :: string
  ar_session_id :: string
  ar_sender_wallet :: string
  ar_verification_amount :: string
  ar_asset :: string
  ar_network :: string

definition activation_reserve_spec :: spec where
  "activation_reserve_spec =
     [(''operation_id'', KStr, False),
      (''balance_id'', KStr, False),
      (''session_id'', KStr, False),
      (''sender_wallet'', KStr, False),
      (''verification_amount'', KStr, False),
      (''asset'', KStr, False),
      (''network'', KStr, False)]"

definition activation_reserve_vals :: "activation_reserve \<Rightarrow> fval list" where
  "activation_reserve_vals r =
     [FStr (ar_operation_id r),
      FStr (ar_balance_id r),
      FStr (ar_session_id r),
      FStr (ar_sender_wallet r),
      FStr (ar_verification_amount r),
      FStr (ar_asset r),
      FStr (ar_network r)]"

definition activation_reserve_of :: "fval list \<Rightarrow> activation_reserve" where
  "activation_reserve_of vs =
     \<lparr>ar_operation_id = str_of (vs ! 0),
      ar_balance_id = str_of (vs ! 1),
      ar_session_id = str_of (vs ! 2),
      ar_sender_wallet = str_of (vs ! 3),
      ar_verification_amount = str_of (vs ! 4),
      ar_asset = str_of (vs ! 5),
      ar_network = str_of (vs ! 6)\<rparr>"

definition decode_activation_reserve :: "bytes \<Rightarrow> error + activation_reserve" where
  "decode_activation_reserve = decode_payload activation_reserve_spec activation_reserve_of"

definition encode_activation_reserve :: "activation_reserve \<Rightarrow> bytes" where
  "encode_activation_reserve = encode_payload activation_reserve_spec activation_reserve_vals"

interpretation activation_reserve: payload_type activation_reserve_spec activation_reserve_vals activation_reserve_of
  by unfold_locales
    (simp_all add: activation_reserve_spec_def activation_reserve_vals_def activation_reserve_of_def spec_ok_def utf8_valid_visible visible_def byte_def)

section \<open>ActivationReserved\<close>

record activation_reserved =
  as_operation_id :: string
  as_external_reservation_id :: string
  as_receiver_wallet :: string
  as_amount :: string
  as_valid_from :: string
  as_expires_at :: string

definition activation_reserved_spec :: spec where
  "activation_reserved_spec =
     [(''operation_id'', KStr, False),
      (''external_reservation_id'', KStr, False),
      (''receiver_wallet'', KStr, False),
      (''amount'', KStr, False),
      (''valid_from'', KStr, False),
      (''expires_at'', KStr, False)]"

definition activation_reserved_vals :: "activation_reserved \<Rightarrow> fval list" where
  "activation_reserved_vals r =
     [FStr (as_operation_id r),
      FStr (as_external_reservation_id r),
      FStr (as_receiver_wallet r),
      FStr (as_amount r),
      FStr (as_valid_from r),
      FStr (as_expires_at r)]"

definition activation_reserved_of :: "fval list \<Rightarrow> activation_reserved" where
  "activation_reserved_of vs =
     \<lparr>as_operation_id = str_of (vs ! 0),
      as_external_reservation_id = str_of (vs ! 1),
      as_receiver_wallet = str_of (vs ! 2),
      as_amount = str_of (vs ! 3),
      as_valid_from = str_of (vs ! 4),
      as_expires_at = str_of (vs ! 5)\<rparr>"

definition decode_activation_reserved :: "bytes \<Rightarrow> error + activation_reserved" where
  "decode_activation_reserved = decode_payload activation_reserved_spec activation_reserved_of"

definition encode_activation_reserved :: "activation_reserved \<Rightarrow> bytes" where
  "encode_activation_reserved = encode_payload activation_reserved_spec activation_reserved_vals"

interpretation activation_reserved: payload_type activation_reserved_spec activation_reserved_vals activation_reserved_of
  by unfold_locales
    (simp_all add: activation_reserved_spec_def activation_reserved_vals_def activation_reserved_of_def spec_ok_def utf8_valid_visible visible_def byte_def)

section \<open>PaymentConfirmed\<close>

record payment_confirmed =
  pc_operation_id :: string
  pc_external_reservation_id :: string
  pc_transaction_id :: string
  pc_sender_wallet :: string
  pc_receiver_wallet :: string
  pc_amount :: string
  pc_observed_at :: string

definition payment_confirmed_spec :: spec where
  "payment_confirmed_spec =
     [(''operation_id'', KStr, False),
      (''external_reservation_id'', KStr, False),
      (''transaction_id'', KStr, False),
      (''sender_wallet'', KStr, False),
      (''receiver_wallet'', KStr, False),
      (''amount'', KStr, False),
      (''observed_at'', KStr, False)]"

definition payment_confirmed_vals :: "payment_confirmed \<Rightarrow> fval list" where
  "payment_confirmed_vals r =
     [FStr (pc_operation_id r),
      FStr (pc_external_reservation_id r),
      FStr (pc_transaction_id r),
      FStr (pc_sender_wallet r),
      FStr (pc_receiver_wallet r),
      FStr (pc_amount r),
      FStr (pc_observed_at r)]"

definition payment_confirmed_of :: "fval list \<Rightarrow> payment_confirmed" where
  "payment_confirmed_of vs =
     \<lparr>pc_operation_id = str_of (vs ! 0),
      pc_external_reservation_id = str_of (vs ! 1),
      pc_transaction_id = str_of (vs ! 2),
      pc_sender_wallet = str_of (vs ! 3),
      pc_receiver_wallet = str_of (vs ! 4),
      pc_amount = str_of (vs ! 5),
      pc_observed_at = str_of (vs ! 6)\<rparr>"

definition decode_payment_confirmed :: "bytes \<Rightarrow> error + payment_confirmed" where
  "decode_payment_confirmed = decode_payload payment_confirmed_spec payment_confirmed_of"

definition encode_payment_confirmed :: "payment_confirmed \<Rightarrow> bytes" where
  "encode_payment_confirmed = encode_payload payment_confirmed_spec payment_confirmed_vals"

interpretation payment_confirmed: payload_type payment_confirmed_spec payment_confirmed_vals payment_confirmed_of
  by unfold_locales
    (simp_all add: payment_confirmed_spec_def payment_confirmed_vals_def payment_confirmed_of_def spec_ok_def utf8_valid_visible visible_def byte_def)

section \<open>Rejection\<close>

record reserve_rejection =
  rr_operation_id :: string
  rr_code :: string
  rr_retryable :: bool
  rr_retry_after :: string

definition reserve_rejection_spec :: spec where
  "reserve_rejection_spec =
     [(''operation_id'', KStr, False),
      (''code'', KStr, False),
      (''retryable'', KBool, False),
      (''retry_after'', KStr, True)]"

definition reserve_rejection_vals :: "reserve_rejection \<Rightarrow> fval list" where
  "reserve_rejection_vals r =
     [FStr (rr_operation_id r),
      FStr (rr_code r),
      FBool (rr_retryable r),
      FStr (rr_retry_after r)]"

definition reserve_rejection_of :: "fval list \<Rightarrow> reserve_rejection" where
  "reserve_rejection_of vs =
     \<lparr>rr_operation_id = str_of (vs ! 0),
      rr_code = str_of (vs ! 1),
      rr_retryable = bool_of (vs ! 2),
      rr_retry_after = str_of (vs ! 3)\<rparr>"

definition decode_reserve_rejection :: "bytes \<Rightarrow> error + reserve_rejection" where
  "decode_reserve_rejection = decode_payload reserve_rejection_spec reserve_rejection_of"

definition encode_reserve_rejection :: "reserve_rejection \<Rightarrow> bytes" where
  "encode_reserve_rejection = encode_payload reserve_rejection_spec reserve_rejection_vals"

interpretation reserve_rejection: payload_type reserve_rejection_spec reserve_rejection_vals reserve_rejection_of
  by unfold_locales
    (simp_all add: reserve_rejection_spec_def reserve_rejection_vals_def reserve_rejection_of_def spec_ok_def utf8_valid_visible visible_def byte_def)

end
