(* ===== verification/Sessions_Contract.thy ===== *)
theory Sessions_Contract
  imports Payload
begin

text \<open>
  The message types of src/internal/sessions/contract/messages.go: the subjects, the message type
  names, and one record per payload with its JSON fields. A Go \<open>int64\<close> field is an integer; the
  decoder refuses a literal outside 64 bits.
\<close>

section \<open>Subjects and message types\<close>

definition ActivationVerifySubject :: string where "ActivationVerifySubject = ''rw.sessions.v1.activation.verify''"
definition ActivationVerifyType :: string where "ActivationVerifyType = ''rw.sessions.activation.verify.v1''"
definition ActivationActivated :: string where "ActivationActivated = ''rw.sessions.v1.activation.activated''"
definition ActivationActivatedType :: string where "ActivationActivatedType = ''rw.sessions.activation.activated.v1''"
definition ActivationRejected :: string where "ActivationRejected = ''rw.sessions.v1.activation.rejected''"
definition ActivationRejectedType :: string where "ActivationRejectedType = ''rw.sessions.activation.rejected.v1''"
definition TopupVerifySubject :: string where "TopupVerifySubject = ''rw.topup.v1.activation.verify''"
definition TopupVerifyType :: string where "TopupVerifyType = ''rw.topup.activation.verify.v1''"
definition TopupVerifiedSubject :: string where "TopupVerifiedSubject = ''rw.topup.v1.activation.verified''"
definition TopupVerifiedType :: string where "TopupVerifiedType = ''rw.topup.activation.verified.v1''"
definition TopupRejectedSubject :: string where "TopupRejectedSubject = ''rw.topup.v1.activation.verification_rejected''"
definition TopupRejectedType :: string where "TopupRejectedType = ''rw.topup.activation.verification_rejected.v1''"

lemmas subjects [go_eval] =
  ActivationVerifySubject_def
  ActivationVerifyType_def
  ActivationActivated_def
  ActivationActivatedType_def
  ActivationRejected_def
  ActivationRejectedType_def
  TopupVerifySubject_def
  TopupVerifyType_def
  TopupVerifiedSubject_def
  TopupVerifiedType_def
  TopupRejectedSubject_def
  TopupRejectedType_def

section \<open>ActivationVerify\<close>

record activation_verify =
  av_operation_id :: string
  av_session_id :: string
  av_balance_id :: string
  av_bot_id :: int
  av_telegram_user_id :: int
  av_telegram_chat_id :: int
  av_sender_wallet :: string
  av_receiver_wallet :: string
  av_amount :: string
  av_asset :: string
  av_network :: string
  av_transaction_id :: string
  av_external_reservation_id :: string
  av_offer_valid_from :: string
  av_offer_expires_at :: string
  av_display_label :: string

definition activation_verify_spec :: spec where
  "activation_verify_spec =
     [(''operation_id'', KStr, False),
      (''session_id'', KStr, False),
      (''balance_id'', KStr, False),
      (''bot_id'', KInt, False),
      (''telegram_user_id'', KInt, False),
      (''telegram_chat_id'', KInt, False),
      (''sender_wallet'', KStr, False),
      (''receiver_wallet'', KStr, False),
      (''amount'', KStr, False),
      (''asset'', KStr, False),
      (''network'', KStr, False),
      (''transaction_id'', KStr, False),
      (''external_reservation_id'', KStr, False),
      (''offer_valid_from'', KStr, False),
      (''offer_expires_at'', KStr, False),
      (''display_label'', KStr, True)]"

definition activation_verify_vals :: "activation_verify \<Rightarrow> fval list" where
  "activation_verify_vals r =
     [FStr (av_operation_id r),
      FStr (av_session_id r),
      FStr (av_balance_id r),
      FInt (av_bot_id r),
      FInt (av_telegram_user_id r),
      FInt (av_telegram_chat_id r),
      FStr (av_sender_wallet r),
      FStr (av_receiver_wallet r),
      FStr (av_amount r),
      FStr (av_asset r),
      FStr (av_network r),
      FStr (av_transaction_id r),
      FStr (av_external_reservation_id r),
      FStr (av_offer_valid_from r),
      FStr (av_offer_expires_at r),
      FStr (av_display_label r)]"

definition activation_verify_of :: "fval list \<Rightarrow> activation_verify" where
  "activation_verify_of vs =
     \<lparr>av_operation_id = str_of (vs ! 0),
      av_session_id = str_of (vs ! 1),
      av_balance_id = str_of (vs ! 2),
      av_bot_id = int_of (vs ! 3),
      av_telegram_user_id = int_of (vs ! 4),
      av_telegram_chat_id = int_of (vs ! 5),
      av_sender_wallet = str_of (vs ! 6),
      av_receiver_wallet = str_of (vs ! 7),
      av_amount = str_of (vs ! 8),
      av_asset = str_of (vs ! 9),
      av_network = str_of (vs ! 10),
      av_transaction_id = str_of (vs ! 11),
      av_external_reservation_id = str_of (vs ! 12),
      av_offer_valid_from = str_of (vs ! 13),
      av_offer_expires_at = str_of (vs ! 14),
      av_display_label = str_of (vs ! 15)\<rparr>"

definition decode_activation_verify :: "bytes \<Rightarrow> error + activation_verify" where
  "decode_activation_verify = decode_payload activation_verify_spec activation_verify_of"

definition encode_activation_verify :: "activation_verify \<Rightarrow> bytes" where
  "encode_activation_verify = encode_payload activation_verify_spec activation_verify_vals"

interpretation activation_verify: payload_type activation_verify_spec activation_verify_vals activation_verify_of
  by unfold_locales
    (simp_all add: activation_verify_spec_def activation_verify_vals_def activation_verify_of_def spec_ok_def utf8_valid_visible visible_def byte_def)

section \<open>TopupVerify\<close>

record topup_verify =
  tv_operation_id :: string
  tv_transaction_id :: string
  tv_external_reservation_id :: string
  tv_sender_wallet :: string
  tv_receiver_wallet :: string
  tv_amount :: string
  tv_asset :: string
  tv_network :: string

definition topup_verify_spec :: spec where
  "topup_verify_spec =
     [(''operation_id'', KStr, False),
      (''transaction_id'', KStr, False),
      (''external_reservation_id'', KStr, False),
      (''sender_wallet'', KStr, False),
      (''receiver_wallet'', KStr, False),
      (''amount'', KStr, False),
      (''asset'', KStr, False),
      (''network'', KStr, False)]"

definition topup_verify_vals :: "topup_verify \<Rightarrow> fval list" where
  "topup_verify_vals r =
     [FStr (tv_operation_id r),
      FStr (tv_transaction_id r),
      FStr (tv_external_reservation_id r),
      FStr (tv_sender_wallet r),
      FStr (tv_receiver_wallet r),
      FStr (tv_amount r),
      FStr (tv_asset r),
      FStr (tv_network r)]"

definition topup_verify_of :: "fval list \<Rightarrow> topup_verify" where
  "topup_verify_of vs =
     \<lparr>tv_operation_id = str_of (vs ! 0),
      tv_transaction_id = str_of (vs ! 1),
      tv_external_reservation_id = str_of (vs ! 2),
      tv_sender_wallet = str_of (vs ! 3),
      tv_receiver_wallet = str_of (vs ! 4),
      tv_amount = str_of (vs ! 5),
      tv_asset = str_of (vs ! 6),
      tv_network = str_of (vs ! 7)\<rparr>"

definition decode_topup_verify :: "bytes \<Rightarrow> error + topup_verify" where
  "decode_topup_verify = decode_payload topup_verify_spec topup_verify_of"

definition encode_topup_verify :: "topup_verify \<Rightarrow> bytes" where
  "encode_topup_verify = encode_payload topup_verify_spec topup_verify_vals"

interpretation topup_verify: payload_type topup_verify_spec topup_verify_vals topup_verify_of
  by unfold_locales
    (simp_all add: topup_verify_spec_def topup_verify_vals_def topup_verify_of_def spec_ok_def utf8_valid_visible visible_def byte_def)

section \<open>TopupVerified\<close>

record topup_verified =
  td_operation_id :: string
  td_transaction_id :: string
  td_external_reservation_id :: string
  td_sender_wallet :: string
  td_receiver_wallet :: string
  td_amount :: string
  td_asset :: string
  td_network :: string
  td_finalized_at :: string

definition topup_verified_spec :: spec where
  "topup_verified_spec =
     [(''operation_id'', KStr, False),
      (''transaction_id'', KStr, False),
      (''external_reservation_id'', KStr, False),
      (''sender_wallet'', KStr, False),
      (''receiver_wallet'', KStr, False),
      (''amount'', KStr, False),
      (''asset'', KStr, False),
      (''network'', KStr, False),
      (''finalized_at'', KStr, False)]"

definition topup_verified_vals :: "topup_verified \<Rightarrow> fval list" where
  "topup_verified_vals r =
     [FStr (td_operation_id r),
      FStr (td_transaction_id r),
      FStr (td_external_reservation_id r),
      FStr (td_sender_wallet r),
      FStr (td_receiver_wallet r),
      FStr (td_amount r),
      FStr (td_asset r),
      FStr (td_network r),
      FStr (td_finalized_at r)]"

definition topup_verified_of :: "fval list \<Rightarrow> topup_verified" where
  "topup_verified_of vs =
     \<lparr>td_operation_id = str_of (vs ! 0),
      td_transaction_id = str_of (vs ! 1),
      td_external_reservation_id = str_of (vs ! 2),
      td_sender_wallet = str_of (vs ! 3),
      td_receiver_wallet = str_of (vs ! 4),
      td_amount = str_of (vs ! 5),
      td_asset = str_of (vs ! 6),
      td_network = str_of (vs ! 7),
      td_finalized_at = str_of (vs ! 8)\<rparr>"

definition decode_topup_verified :: "bytes \<Rightarrow> error + topup_verified" where
  "decode_topup_verified = decode_payload topup_verified_spec topup_verified_of"

definition encode_topup_verified :: "topup_verified \<Rightarrow> bytes" where
  "encode_topup_verified = encode_payload topup_verified_spec topup_verified_vals"

interpretation topup_verified: payload_type topup_verified_spec topup_verified_vals topup_verified_of
  by unfold_locales
    (simp_all add: topup_verified_spec_def topup_verified_vals_def topup_verified_of_def spec_ok_def utf8_valid_visible visible_def byte_def)

section \<open>Rejection\<close>

record rejection =
  rj_operation_id :: string
  rj_code :: string
  rj_retryable :: bool
  rj_retry_after :: string

definition rejection_spec :: spec where
  "rejection_spec =
     [(''operation_id'', KStr, False),
      (''code'', KStr, False),
      (''retryable'', KBool, False),
      (''retry_after'', KStr, True)]"

definition rejection_vals :: "rejection \<Rightarrow> fval list" where
  "rejection_vals r =
     [FStr (rj_operation_id r),
      FStr (rj_code r),
      FBool (rj_retryable r),
      FStr (rj_retry_after r)]"

definition rejection_of :: "fval list \<Rightarrow> rejection" where
  "rejection_of vs =
     \<lparr>rj_operation_id = str_of (vs ! 0),
      rj_code = str_of (vs ! 1),
      rj_retryable = bool_of (vs ! 2),
      rj_retry_after = str_of (vs ! 3)\<rparr>"

definition decode_rejection :: "bytes \<Rightarrow> error + rejection" where
  "decode_rejection = decode_payload rejection_spec rejection_of"

definition encode_rejection :: "rejection \<Rightarrow> bytes" where
  "encode_rejection = encode_payload rejection_spec rejection_vals"

interpretation rejection: payload_type rejection_spec rejection_vals rejection_of
  by unfold_locales
    (simp_all add: rejection_spec_def rejection_vals_def rejection_of_def spec_ok_def utf8_valid_visible visible_def byte_def)

section \<open>Activated\<close>

record activated =
  ac_operation_id :: string
  ac_session_id :: string
  ac_balance_id :: string
  ac_status :: string
  ac_authority_version :: int
  ac_activated_at :: string

definition activated_spec :: spec where
  "activated_spec =
     [(''operation_id'', KStr, False),
      (''session_id'', KStr, False),
      (''balance_id'', KStr, False),
      (''status'', KStr, False),
      (''authority_version'', KInt, False),
      (''activated_at'', KStr, False)]"

definition activated_vals :: "activated \<Rightarrow> fval list" where
  "activated_vals r =
     [FStr (ac_operation_id r),
      FStr (ac_session_id r),
      FStr (ac_balance_id r),
      FStr (ac_status r),
      FInt (ac_authority_version r),
      FStr (ac_activated_at r)]"

definition activated_of :: "fval list \<Rightarrow> activated" where
  "activated_of vs =
     \<lparr>ac_operation_id = str_of (vs ! 0),
      ac_session_id = str_of (vs ! 1),
      ac_balance_id = str_of (vs ! 2),
      ac_status = str_of (vs ! 3),
      ac_authority_version = int_of (vs ! 4),
      ac_activated_at = str_of (vs ! 5)\<rparr>"

definition decode_activated :: "bytes \<Rightarrow> error + activated" where
  "decode_activated = decode_payload activated_spec activated_of"

definition encode_activated :: "activated \<Rightarrow> bytes" where
  "encode_activated = encode_payload activated_spec activated_vals"

interpretation activated: payload_type activated_spec activated_vals activated_of
  by unfold_locales
    (simp_all add: activated_spec_def activated_vals_def activated_of_def spec_ok_def utf8_valid_visible visible_def byte_def)

end
