(* ===== verification/Sessions_Domain.thy ===== *)
theory Sessions_Domain
  imports Sessions_Contract Go_Time
begin

text \<open>
  src/internal/sessions/domain/activation.go: the checks an activation command and a top-up
  result must pass. A Go \<open>error\<close> result is \<^typ>\<open>error + unit\<close>.
\<close>

definition valid_wallet :: "string \<Rightarrow> bool" where
  "valid_wallet value =
     (if length value < 16 \<or> length value > 128 then False
      else \<not> list_ex (\<lambda>character. byte character < 0x21 \<or> byte character > 0x7e) value)"

definition valid_external_id :: "string \<Rightarrow> bool" where
  "valid_external_id value \<longleftrightarrow>
     1 \<le> length value \<and> length value \<le> 256 \<and> trim_space value = value"

definition valid_amount :: "string \<Rightarrow> bool" where
  "valid_amount value =
     (if value = '''' \<or> length value > 64 \<or> starts_with ''+'' value \<or> starts_with ''-'' value \<or>
         list_ex (\<lambda>c. c \<in> set ''eE '') value
      then False
      else
        let parts = go_split CHR ''.'' value in
        if length parts > 2 \<or> parts ! 0 = '''' \<or> (length (parts ! 0) > 1 \<and> parts ! 0 ! 0 = CHR ''0'')
        then False
        else if parse_uint64 (parts ! 0) = None then False
        else if length parts = 2 then
          (if length (parts ! 1) < 1 \<or> length (parts ! 1) > 18 then False
           else parse_uint64 (parts ! 1) \<noteq> None)
        else True)"

definition validate_activation :: "lib \<Rightarrow> activation_verify \<Rightarrow> string \<Rightarrow> instant \<Rightarrow> error + unit" where
  "validate_activation L command configured_network now =
     (if \<not> uuid_v7 L (av_operation_id command) \<or> \<not> uuid_v7 L (av_session_id command) \<or>
         av_bot_id command \<le> 0 \<or> av_telegram_user_id command \<le> 0 \<or> av_telegram_chat_id command \<le> 0
      then Inl ErrInvalidActivation
      else if length (av_balance_id command) < 1 \<or> length (av_balance_id command) > 256 \<or>
         av_asset command \<noteq> ''USDT'' \<or> av_network command \<noteq> configured_network
      then Inl ErrInvalidActivation
      else if \<not> valid_wallet (av_sender_wallet command) \<or> \<not> valid_wallet (av_receiver_wallet command) \<or>
         \<not> valid_external_id (av_transaction_id command) \<or>
         \<not> valid_external_id (av_external_reservation_id command)
      then Inl ErrInvalidActivation
      else if \<not> valid_amount (av_amount command) \<or> length (av_display_label command) > 128 \<or>
         \<not> utf8_valid (av_display_label command)
      then Inl ErrInvalidActivation
      else case parse_instant (av_offer_valid_from command) of
        None \<Rightarrow> Inl ErrInvalidActivation
      | Some valid_from \<Rightarrow>
          (case parse_instant (av_offer_expires_at command) of
             None \<Rightarrow> Inl ErrInvalidActivation
           | Some expires \<Rightarrow>
               if valid_from > now + 2 * minute \<or> \<not> expires > now \<or> \<not> expires > valid_from \<or>
                  time_sub expires valid_from < minute \<or> time_sub expires valid_from > hour \<or>
                  expires > now + 2 * hour
               then Inl ErrInvalidActivation
               else Inr ()))"

definition validate_topup_result :: "topup_verified \<Rightarrow> topup_verify \<Rightarrow> error + unit" where
  "validate_topup_result result expected =
     (if td_operation_id result \<noteq> tv_operation_id expected \<or>
         td_transaction_id result \<noteq> tv_transaction_id expected \<or>
         td_external_reservation_id result \<noteq> tv_external_reservation_id expected \<or>
         td_sender_wallet result \<noteq> tv_sender_wallet expected \<or>
         td_receiver_wallet result \<noteq> tv_receiver_wallet expected \<or>
         td_amount result \<noteq> tv_amount expected \<or>
         td_asset result \<noteq> tv_asset expected \<or> td_network result \<noteq> tv_network expected
      then Inl (Errorf ''verified transaction facts do not match expected values'')
      else if parse_instant (td_finalized_at result) = None
      then Inl (Errorf ''invalid finalized timestamp'')
      else Inr ())"

section \<open>What acceptance means\<close>

lemma valid_wallet_visible:
  "valid_wallet w \<longleftrightarrow> 16 \<le> length w \<and> length w \<le> 128 \<and> list_all visible w"
  by (auto simp: valid_wallet_def visible_def list_ex_iff list_all_iff not_less not_le)

lemma valid_wallet_utf8: "valid_wallet w \<Longrightarrow> utf8_valid w"
  by (simp add: valid_wallet_visible utf8_valid_visible)

text \<open>Duration subtraction saturates; inside the accepted window it does not.\<close>

lemma time_sub_window:
  "minute \<le> time_sub a b \<Longrightarrow> time_sub a b \<le> hour \<Longrightarrow> time_sub a b = a - b"
  by (auto simp: time_sub_def duration_defs split: if_splits)

definition offer_window :: "instant \<Rightarrow> instant \<Rightarrow> instant \<Rightarrow> bool" where
  "offer_window now valid_from expires \<longleftrightarrow>
     valid_from \<le> now + 2 * minute \<and> now < expires \<and>
     minute \<le> expires - valid_from \<and> expires - valid_from \<le> hour"

lemma offer_window_check:
  "(valid_from > now + 2 * minute \<or> \<not> expires > now \<or> \<not> expires > valid_from \<or>
     time_sub expires valid_from < minute \<or> time_sub expires valid_from > hour) \<longleftrightarrow>
   \<not> offer_window now valid_from expires"
proof -
  have *: "time_sub a b = a - b" if "0 < a - b" "a - b \<le> hour" for a b :: int
    using that by (auto simp: time_sub_def duration_defs)
  show ?thesis
  proof (cases "0 < expires - valid_from \<and> expires - valid_from \<le> hour")
    case True
    then show ?thesis
      using * [of expires valid_from] by (auto simp: offer_window_def)
  next
    case False
    then have "\<not> expires > valid_from \<or> time_sub expires valid_from > hour"
      by (auto simp: time_sub_def duration_defs)
    with False show ?thesis
      by (auto simp: offer_window_def duration_defs)
  qed
qed

end
