(* ===== verification/Bot_Domain.thy ===== *)
theory Bot_Domain
  imports Bot_Contract Sessions_Domain
begin

text \<open>
  src/internal/bot/domain/activation.go: the checks of the bot on commands, wallets and the results
  of the top-up service, and the rendering of an amount. Compared with
  \<^verbatim>\<open>Sessions_Domain\<close>, whose checks the other service makes on the same data: the two wallet
  checks accept the same strings, and every amount the bot renders is one that service accepts.
\<close>

definition validate_invite_create :: "lib \<Rightarrow> invite_create \<Rightarrow> error + unit" where
  "validate_invite_create L command =
     (if \<not> uuid_v7 L (ic_operation_id command) \<or> trim_space (ic_balance_id command) \<noteq> ic_balance_id command \<or>
         length (ic_balance_id command) < 1 \<or> length (ic_balance_id command) > 256
      then Inl ErrInvalidInput
      else if ic_requested_ttl_seconds command \<noteq> 0 \<and>
         (ic_requested_ttl_seconds command < 300 \<or> ic_requested_ttl_seconds command > 604800)
      then Inl ErrInvalidInput
      else Inr ())"

definition validate_wallet :: "string \<Rightarrow> error + unit" where
  "validate_wallet value =
     (if length value < 16 \<or> length value > 128 \<or> trim_space value \<noteq> value then Inl ErrInvalidInput
      else if list_ex (\<lambda>character. byte character < 0x21 \<or> byte character > 0x7e) value
      then Inl ErrInvalidInput
      else Inr ())"

definition external_id :: "string \<Rightarrow> bool" where
  "external_id value \<longleftrightarrow>
     1 \<le> length value \<and> length value \<le> 256 \<and> trim_space value = value"

definition validate_reserved :: "activation_reserved \<Rightarrow> string \<Rightarrow> string \<Rightarrow> instant \<Rightarrow> error + unit" where
  "validate_reserved result expected_operation_id expected_amount now =
     (if as_operation_id result \<noteq> expected_operation_id \<or> as_amount result \<noteq> expected_amount \<or>
         \<not> external_id (as_external_reservation_id result) \<or>
         is_err (validate_wallet (as_receiver_wallet result))
      then Inl ErrInvalidInput
      else case parse_instant (as_valid_from result) of
        None \<Rightarrow> Inl ErrInvalidInput
      | Some valid_from \<Rightarrow>
          (case parse_instant (as_expires_at result) of
             None \<Rightarrow> Inl ErrInvalidInput
           | Some expires_at \<Rightarrow>
               if valid_from > now + 2 * minute \<or> \<not> expires_at > now \<or> \<not> expires_at > valid_from \<or>
                  time_sub expires_at valid_from < minute \<or> time_sub expires_at valid_from > hour
               then Inl ErrInvalidInput
               else Inr ()))"

definition validate_payment ::
  "payment_confirmed \<Rightarrow> payment_confirmed \<Rightarrow> instant \<Rightarrow> instant \<Rightarrow> error + unit" where
  "validate_payment result expected offer_expires_at now =
     (if pc_operation_id result \<noteq> pc_operation_id expected \<or>
         pc_external_reservation_id result \<noteq> pc_external_reservation_id expected \<or>
         pc_sender_wallet result \<noteq> pc_sender_wallet expected \<or>
         pc_receiver_wallet result \<noteq> pc_receiver_wallet expected \<or>
         pc_amount result \<noteq> pc_amount expected \<or> \<not> external_id (pc_transaction_id result)
      then Inl ErrInvalidInput
      else case parse_instant (pc_observed_at result) of
        None \<Rightarrow> Inl ErrInvalidInput
      | Some observed_at \<Rightarrow>
          if observed_at > offer_expires_at \<or> observed_at > now + 2 * minute then Inl ErrInvalidInput
          else Inr ())"

text \<open>
  \<open>FormatAmount\<close>: \<open>None\<close> is the panic of a slice bound outside the string, which a negative scale
  gives.
\<close>

definition format_amount :: "int \<Rightarrow> int \<Rightarrow> string option" where
  "format_amount minor scale =
     (let digits = format_int minor in
      if scale = 0 then Some digits
      else
        let digits = (if int (length digits) \<le> scale
                      then replicate (nat (scale - int (length digits) + 1)) CHR ''0'' @ digits
                      else digits);
            point = int (length digits) - scale
        in if 0 \<le> point \<and> point \<le> int (length digits)
           then Some (take (nat point) digits @ ''.'' @ drop (nat point) digits)
           else None)"

section \<open>Amounts\<close>

text \<open>The number of minor units an amount text denotes at a scale.\<close>

definition amount_minor :: "nat \<Rightarrow> string \<Rightarrow> nat" where
  "amount_minor scale s =
     (let parts = go_split CHR ''.'' s in
      digits_val (parts ! 0) * 10 ^ scale + (if length parts = 2 then digits_val (parts ! 1) else 0))"

lemma go_split_none: "c \<notin> set s \<Longrightarrow> go_split c s = [s]"
  by (induction s) auto

lemma go_split_one: "c \<notin> set a \<Longrightarrow> c \<notin> set b \<Longrightarrow> go_split c (a @ c # b) = [a, b]"
  by (induction a) (auto simp: go_split_none)

lemma digits_no: "list_all is_digit s \<Longrightarrow> \<not> is_digit c \<Longrightarrow> c \<notin> set s"
  by (auto simp: list_all_iff)

lemma not_digit [simp]:
  "\<not> is_digit CHR ''.''" "\<not> is_digit CHR ''+''" "\<not> is_digit CHR ''-''" "\<not> is_digit CHR ''e''"
  "\<not> is_digit CHR ''E''" "\<not> is_digit CHR '' ''"
  by (simp_all add: is_digit_def byte_def)

lemma starts_with_singleton: "starts_with [c] s \<longleftrightarrow> s \<noteq> [] \<and> hd s = c"
  by (cases s) auto

lemma no_sign_no_exponent:
  assumes "set s \<subseteq> {c. is_digit c} \<union> {CHR ''.''}"
  shows "\<not> starts_with ''+'' s \<and> \<not> starts_with ''-'' s \<and> \<not> list_ex (\<lambda>c. c \<in> set ''eE '') s"
proof -
  have "CHR ''+'' \<notin> set s" "CHR ''-'' \<notin> set s" "CHR ''e'' \<notin> set s" "CHR ''E'' \<notin> set s" "CHR '' '' \<notin> set s"
    using assms by (auto dest!: subsetD)
  then show ?thesis
    by (cases s) (auto simp: list_ex_iff)
qed

lemma valid_amount_whole:
  assumes "list_all is_digit a" "a \<noteq> []" "length a > 1 \<longrightarrow> a ! 0 \<noteq> CHR ''0''"
    and "digits_val a < 2 ^ 64" "length a \<le> 64"
  shows "valid_amount a"
proof -
  have "\<not> starts_with ''+'' a \<and> \<not> starts_with ''-'' a \<and> \<not> list_ex (\<lambda>c. c \<in> set ''eE '') a"
    using assms(1) by (intro no_sign_no_exponent) (auto simp: list_all_iff)
  with assms show ?thesis
    by (auto simp: valid_amount_def go_split_none digits_no parse_uint64_def)
qed

lemma valid_amount_fraction:
  assumes "list_all is_digit a" "a \<noteq> []" "length a > 1 \<longrightarrow> a ! 0 \<noteq> CHR ''0''"
    and "digits_val a < 2 ^ 64" and "list_all is_digit b" "1 \<le> length b" "length b \<le> 18"
    and "length a \<le> 45"
  shows "valid_amount (a @ CHR ''.'' # b)"
proof -
  have "digits_val b < 10 ^ 18"
    using digits_val_bound [OF assms(5)] power_increasing [OF assms(7), of "10::nat"] by linarith
  then have "digits_val b < 2 ^ 64" by simp
  moreover have "\<not> starts_with ''+'' (a @ CHR ''.'' # b) \<and> \<not> starts_with ''-'' (a @ CHR ''.'' # b) \<and>
      \<not> list_ex (\<lambda>c. c \<in> set ''eE '') (a @ CHR ''.'' # b)"
    using assms(1,5) by (intro no_sign_no_exponent) (auto simp: list_all_iff)
  ultimately show ?thesis
    using assms by (auto simp: valid_amount_def go_split_one digits_no parse_uint64_def)
qed

text \<open>The digits the code cuts: padded to one more than the scale.\<close>

definition padded_digits :: "nat \<Rightarrow> nat \<Rightarrow> string" where
  "padded_digits k n =
     (let d = nat_digits n in if length d \<le> k then replicate (Suc k - length d) CHR ''0'' @ d else d)"

lemma padded_digits_props:
  assumes "n < 10 ^ 19" "k \<le> 18"
  shows "list_all is_digit (padded_digits k n)" "digits_val (padded_digits k n) = n"
    and "k < length (padded_digits k n)" "length (padded_digits k n) \<le> 19"
    and "length (padded_digits k n) > k + 1 \<longrightarrow> hd (padded_digits k n) \<noteq> CHR ''0''"
proof -
  have l: "length (nat_digits n) \<le> 19"
    using nat_digits_length [of n 19] assms(1) by simp
  show "list_all is_digit (padded_digits k n)"
    by (auto simp: padded_digits_def Let_def list_all_append list_all_iff is_digit_def byte_def)
      (use nat_digits_are_digits [of n] in \<open>auto simp: list_all_iff is_digit_def byte_def\<close>)
  show "digits_val (padded_digits k n) = n"
    by (simp add: padded_digits_def Let_def digits_val_append del: replicate.simps replicate_Suc)
  show "k < length (padded_digits k n)" "length (padded_digits k n) \<le> 19"
    using l assms(2) by (auto simp: padded_digits_def Let_def)
  show "length (padded_digits k n) > k + 1 \<longrightarrow> hd (padded_digits k n) \<noteq> CHR ''0''"
  proof
    assume long: "length (padded_digits k n) > k + 1"
    then have p: "padded_digits k n = nat_digits n"
      by (auto simp: padded_digits_def Let_def split: if_splits)
    with long have "n \<noteq> 0" by (cases n) (auto simp: nat_digits.simps [of 0])
    with p show "hd (padded_digits k n) \<noteq> CHR ''0''" by (simp add: hd_nat_digits)
  qed
qed

lemma format_amount_cut:
  assumes "0 \<le> minor" "0 < scale"
  shows "format_amount minor scale =
     Some (take (length (padded_digits (nat scale) (nat minor)) - nat scale) (padded_digits (nat scale) (nat minor)) @
           CHR ''.'' # drop (length (padded_digits (nat scale) (nat minor)) - nat scale) (padded_digits (nat scale) (nat minor)))"
proof -
  define p where "p = padded_digits (nat scale) (nat minor)"
  have f: "format_int minor = nat_digits (nat minor)"
    using assms by (simp add: format_int_def)
  have p': "p = (if int (length (nat_digits (nat minor))) \<le> scale
      then replicate (nat (scale - int (length (nat_digits (nat minor))) + 1)) CHR ''0'' @ nat_digits (nat minor)
      else nat_digits (nat minor))"
    using assms by (auto simp: p_def padded_digits_def Let_def nat_le_iff nat_diff_distrib nat_add_distrib le_nat_iff Suc_diff_le)
  have l: "scale < int (length p)"
    using assms unfolding p' by auto
  then have "nat (int (length p) - scale) = length p - nat scale"
    using assms by linarith
  with assms l show ?thesis
    by (simp add: format_amount_def Let_def f p'[symmetric] p_def [symmetric])
qed

lemma format_amount_denotes:
  assumes "0 \<le> minor" "minor < 2 ^ 63" "0 \<le> scale" "scale \<le> 18"
  shows "\<exists>s. format_amount minor scale = Some s \<and> valid_amount s \<and> amount_minor (nat scale) s = nat minor"
proof (cases "scale = 0")
  case True
  have m: "nat minor < 2 ^ 63" using assms by simp
  then have "length (nat_digits (nat minor)) \<le> 19"
    by (intro nat_digits_length) simp_all
  moreover have "length (nat_digits (nat minor)) > 1 \<longrightarrow> nat_digits (nat minor) ! 0 \<noteq> CHR ''0''"
    using hd_nat_digits [of "nat minor"] by (auto simp: hd_conv_nth nat_digits.simps [of 0])
  ultimately have "valid_amount (nat_digits (nat minor))"
    using m by (intro valid_amount_whole) simp_all
  moreover have "amount_minor 0 (nat_digits (nat minor)) = nat minor"
    by (simp add: amount_minor_def go_split_none digits_no [OF nat_digits_are_digits])
  ultimately show ?thesis
    using True assms by (simp add: format_amount_def format_int_def)
next
  case False
  define k where "k = nat scale"
  define p where "p = padded_digits k (nat minor)"
  define a where "a = take (length p - k) p"
  define b where "b = drop (length p - k) p"
  have k: "0 < k" "k \<le> 18" using assms False by (auto simp: k_def)
  have m: "nat minor < 2 ^ 63" using assms by simp
  then have m19: "nat minor < 10 ^ 19" by simp
  note p = padded_digits_props [OF m19 k(2), folded p_def]
  have ab: "a @ b = p" "length b = k" "length a = length p - k" using p(3) by (auto simp: a_def b_def)
  have dig: "list_all is_digit a" "list_all is_digit b"
    using p(1) unfolding ab(1) [symmetric] by simp_all
  have val: "digits_val a * 10 ^ k + digits_val b = nat minor"
    using p(2) digits_val_append [of a b] ab by simp
  have "valid_amount (a @ CHR ''.'' # b)"
  proof (rule valid_amount_fraction)
    show "a \<noteq> []" using ab(3) p(3) by auto
    then have "a ! 0 = hd p" using ab(1) by (metis hd_append2 hd_conv_nth)
    then show "length a > 1 \<longrightarrow> a ! 0 \<noteq> CHR ''0''" using p(5) ab(3) by auto
    have "digits_val a \<le> digits_val a * 10 ^ k" by simp
    then have "digits_val a \<le> nat minor" using val by linarith
    with m show "digits_val a < 2 ^ 64" by simp
  qed (use ab k p(4) dig in auto)
  moreover have "amount_minor k (a @ CHR ''.'' # b) = nat minor"
    using val by (simp add: amount_minor_def go_split_one digits_no [OF dig(1)] digits_no [OF dig(2)])
  ultimately show ?thesis
    using format_amount_cut [of minor scale] assms False by (auto simp: k_def p_def a_def b_def)
qed

section \<open>The two wallet checks\<close>

text \<open>
  C40. Both services accept the same wallets: \<open>ValidateWallet\<close> of the bot, which also compares the
  value with its \<open>strings.TrimSpace\<close>, and \<open>validWallet\<close> of the sessions service. The
  comparison changes nothing, since a visible ASCII string has no space to trim.
\<close>

theorem wallet_checks_agree: "validate_wallet w = Inr () \<longleftrightarrow> valid_wallet w"
  using trim_space_visible [of w]
  by (auto simp: validate_wallet_def valid_wallet_visible visible_def list_ex_iff list_all_iff not_less not_le)

text \<open>
  C39. What \<open>FormatAmount\<close> renders, the sessions service accepts and reads back: for a non-negative
  64-bit number of minor units and a scale between 0 and 18 it returns a text (no slice bound
  fails) that \<open>validAmount\<close> accepts and that denotes the number.
\<close>

theorem format_amount_round_trip:
  assumes "0 \<le> minor" "minor < 2 ^ 63" "0 \<le> scale" "scale \<le> 18"
  shows "\<exists>s. format_amount minor scale = Some s \<and> valid_amount s \<and>
    amount_minor (nat scale) s = nat minor"
  using format_amount_denotes [OF assms] .

lemma format_amount_round_trip_witness:
  "\<exists>s. format_amount 105 6 = Some s \<and> valid_amount s \<and> amount_minor (nat 6) s = nat 105"
  by (rule format_amount_round_trip) simp_all

end
