(* ===== verification/Sql.thy ===== *)
theory Sql
  imports Go_Json
begin

text \<open>
  Transactions on PostgreSQL as the stores use them through pgx: \<open>BeginTx\<close>, statements, \<open>Commit\<close>,
  and \<open>defer tx.Rollback\<close>. A table is the list of its rows, a database a record of tables, and a
  transaction body a function of the world that either ends with an error or gives a value and the
  new state: the database and the number of statements run. A statement fails when the world says
  so, or when its result violates the schema (row checks, unique and foreign keys), which
  PostgreSQL checks statement by statement. \<open>run_tx\<close> runs a transaction alone: this is the behaviour when
  transactions follow one another. The program runs them at PostgreSQL's default, READ COMMITTED, where each statement
  sees what others have committed by then, and synchronises by row locks, advisory locks and unique keys. Where these
  do not order two transactions an interleaving differs: \<open>consume_invite_raced\<close> (theory \<open>Bot_Race\<close>) is such a case. What
  is stated of steps and runs is stated for transactions that follow one another.
\<close>

type_synonym ('d, 'a) tx = "world \<Rightarrow> 'd \<times> nat \<Rightarrow> error + 'a \<times> ('d \<times> nat)"

definition tx_return :: "'a \<Rightarrow> ('d, 'a) tx" where
  "tx_return x w s = Inr (x, s)"

definition tx_fail :: "error \<Rightarrow> ('d, 'a) tx" where
  "tx_fail e w s = Inl e"

definition tx_bind :: "('d, 'a) tx \<Rightarrow> ('a \<Rightarrow> ('d, 'b) tx) \<Rightarrow> ('d, 'b) tx" where
  "tx_bind m f w s = (case m w s of Inl e \<Rightarrow> Inl e | Inr (x, s') \<Rightarrow> f x w s')"

text \<open>A step without a statement: \<open>if err != nil { return err }\<close>.\<close>

definition tx_lift :: "(world \<Rightarrow> error + 'a) \<Rightarrow> ('d, 'a) tx" where
  "tx_lift r w s = (case r w of Inl e \<Rightarrow> Inl e | Inr x \<Rightarrow> Inr (x, s))"

text \<open>A query, and a statement that changes the database; \<open>ok\<close> is the schema, \<open>msg\<close> the \<open>%w\<close> text.\<close>

definition tx_query :: "string \<Rightarrow> (world \<Rightarrow> 'd \<Rightarrow> 'a) \<Rightarrow> ('d, 'a) tx" where
  "tx_query msg q w s =
     (if stmt_fails w (snd s) then Inl (Wrap msg DbUnavailable) else Inr (q w (fst s), (fst s, snd s + 1)))"

definition tx_exec :: "('d \<Rightarrow> bool) \<Rightarrow> string \<Rightarrow> (world \<Rightarrow> 'd \<Rightarrow> 'a \<times> 'd) \<Rightarrow> ('d, 'a) tx" where
  "tx_exec ok msg f w s =
     (if stmt_fails w (snd s) then Inl (Wrap msg DbUnavailable)
      else if \<not> ok (snd (f w (fst s))) then Inl (Wrap msg SqlConstraint)
      else Inr (fst (f w (fst s)), (snd (f w (fst s)), snd s + 1)))"

definition run_tx :: "world \<Rightarrow> ('d, 'a) tx \<Rightarrow> 'd \<Rightarrow> (error + 'a) \<times> 'd" where
  "run_tx w body d =
     (if \<not> tx_begins w then (Inl (Wrap ''begin'' DbUnavailable), d)
      else case body w (d, 0) of
        Inl e \<Rightarrow> (Inl e, d)
      | Inr (x, (d', n)) \<Rightarrow>
          (case tx_commits w of
             Committed \<Rightarrow> (Inr x, d')
           | CommitFailed \<Rightarrow> (Inl (Wrap ''commit'' DbUnavailable), d)
           | CommitLost \<Rightarrow> (Inl (Wrap ''commit'' DbUnavailable), d')))"

text \<open>A \<open>timestamptz\<close> has microseconds; a \<open>text\<close> value is valid UTF-8 without a NUL byte.\<close>

definition pg_time :: "instant \<Rightarrow> instant" where
  "pg_time t = t div 1000 * 1000"

definition pg_text :: "string \<Rightarrow> bool" where
  "pg_text s \<longleftrightarrow> utf8_valid s \<and> CHR 0x00 \<notin> set s"

definition pg_length :: "string \<Rightarrow> nat" where
  "pg_length s = length (filter (\<lambda>c. \<not> cont c) s)"

definition bigint_positive :: "int \<Rightarrow> bool" where
  "bigint_positive n \<longleftrightarrow> 0 < n \<and> n < 2 ^ 63"

definition label_ok :: "string option \<Rightarrow> bool" where
  "label_ok l \<longleftrightarrow> (case l of None \<Rightarrow> True | Some s \<Rightarrow> pg_text s \<and> 1 \<le> pg_length s \<and> pg_length s \<le> 128)"

definition nullif_empty :: "string \<Rightarrow> string option" where
  "nullif_empty s = (if s = [] then None else Some s)"

section \<open>Reasoning about bodies\<close>

named_theorems tx_ok \<open>when a transaction body succeeds\<close>

lemma tx_return_ok [tx_ok]: "tx_return x w s = Inr (y, s') \<longleftrightarrow> y = x \<and> s' = s"
  by (auto simp: tx_return_def)

lemma tx_fail_ok [tx_ok]: "tx_fail e w s = Inr r \<longleftrightarrow> False"
  by (simp add: tx_fail_def)

lemma tx_bind_ok [tx_ok]:
  "tx_bind m f w s = Inr (y, s') \<longleftrightarrow> (\<exists>x s''. m w s = Inr (x, s'') \<and> f x w s'' = Inr (y, s'))"
  by (auto simp: tx_bind_def split: sum.splits)

lemma tx_lift_ok [tx_ok]: "tx_lift r w s = Inr (y, s') \<longleftrightarrow> r w = Inr y \<and> s' = s"
  by (auto simp: tx_lift_def split: sum.splits)

lemma tx_query_ok [tx_ok]:
  "tx_query msg q w s = Inr (y, s') \<longleftrightarrow>
     \<not> stmt_fails w (snd s) \<and> y = q w (fst s) \<and> s' = (fst s, snd s + 1)"
  by (auto simp: tx_query_def)

lemma tx_exec_ok [tx_ok]:
  "tx_exec ok msg f w s = Inr (y, s') \<longleftrightarrow>
     \<not> stmt_fails w (snd s) \<and> ok (snd (f w (fst s))) \<and> y = fst (f w (fst s)) \<and> s' = (snd (f w (fst s)), snd s + 1)"
  by (auto simp: tx_exec_def)

text \<open>
  A relation between the databases before and after, kept by a body: what holds of every statement
  and is transitive holds of the whole. \<open>keeps R m\<close> is the form the components prove it in.
\<close>

definition keeps :: "('d \<Rightarrow> 'd \<Rightarrow> bool) \<Rightarrow> ('d, 'a) tx \<Rightarrow> bool" where
  "keeps R m \<longleftrightarrow> (\<forall>w s x s'. m w s = Inr (x, s') \<longrightarrow> R (fst s) (fst s'))"

named_theorems keeps_intros \<open>a body keeps a relation\<close>

lemma keepsD: "keeps R m \<Longrightarrow> m w s = Inr (x, s') \<Longrightarrow> R (fst s) (fst s')"
  unfolding keeps_def by blast

lemma keeps_return [keeps_intros]: "reflp R \<Longrightarrow> keeps R (tx_return x)"
  by (auto simp: keeps_def tx_return_def reflp_def)

lemma keeps_fail [keeps_intros]: "keeps R (tx_fail e)"
  by (auto simp: keeps_def tx_fail_def)

lemma keeps_lift [keeps_intros]: "reflp R \<Longrightarrow> keeps R (tx_lift r)"
  by (auto simp: keeps_def tx_lift_ok reflp_def)

lemma keeps_query [keeps_intros]: "reflp R \<Longrightarrow> keeps R (tx_query msg q)"
  by (auto simp: keeps_def tx_query_ok reflp_def)

lemma keeps_bind [keeps_intros]:
  "transp R \<Longrightarrow> keeps R m \<Longrightarrow> (\<And>x. keeps R (f x)) \<Longrightarrow> keeps R (tx_bind m f)"
  unfolding keeps_def tx_bind_ok transp_def by blast

lemma keeps_exec: "(\<And>w d. ok (snd (f w d)) \<Longrightarrow> R d (snd (f w d))) \<Longrightarrow> keeps R (tx_exec ok msg f)"
  by (auto simp: keeps_def tx_exec_ok)

lemma keeps_if [keeps_intros]: "keeps R a \<Longrightarrow> keeps R b \<Longrightarrow> keeps R (if c then a else b)"
  by simp

lemma keeps_option [keeps_intros]:
  "keeps R a \<Longrightarrow> (\<And>x. keeps R (b x)) \<Longrightarrow> keeps R (case r of None \<Rightarrow> a | Some x \<Rightarrow> b x)"
  by (cases r) auto

lemma keeps_sum [keeps_intros]:
  "(\<And>x. keeps R (a x)) \<Longrightarrow> (\<And>x. keeps R (b x)) \<Longrightarrow> keeps R (case r of Inl x \<Rightarrow> a x | Inr x \<Rightarrow> b x)"
  by (cases r) auto

lemma keeps_prod [keeps_intros]: "(\<And>x y. keeps R (a x y)) \<Longrightarrow> keeps R (case r of (x, y) \<Rightarrow> a x y)"
  by (cases r) auto

text \<open>What a body keeps, its transaction keeps, however it ends.\<close>

lemma run_tx_keeps: "reflp R \<Longrightarrow> keeps R body \<Longrightarrow> R d (snd (run_tx w body d))"
  unfolding run_tx_def by (auto simp: reflp_def dest: keepsD split: sum.splits commit_outcome.splits)

lemma run_tx_invariant:
  "P d \<Longrightarrow> (\<And>x d' n. body w (d, 0) = Inr (x, (d', n)) \<Longrightarrow> P d') \<Longrightarrow> P (snd (run_tx w body d))"
  unfolding run_tx_def by (auto split: sum.splits commit_outcome.splits)

text \<open>The schema itself is kept: each statement checks it.\<close>

definition schema_kept :: "('d \<Rightarrow> bool) \<Rightarrow> 'd \<Rightarrow> 'd \<Rightarrow> bool" where
  "schema_kept ok d d' \<longleftrightarrow> (ok d \<longrightarrow> ok d')"

lemma schema_kept_pre [simp, intro]: "reflp (schema_kept ok)" "transp (schema_kept ok)"
  by (auto simp: schema_kept_def reflp_def transp_def)

lemma schema_exec: "keeps (schema_kept ok) (tx_exec ok msg f)"
  by (rule keeps_exec) (simp add: schema_kept_def)

lemmas schema_keeps = keeps_bind [OF schema_kept_pre(2)] keeps_return [OF schema_kept_pre(1)]
  keeps_lift [OF schema_kept_pre(1)] keeps_query [OF schema_kept_pre(1)] keeps_fail keeps_if keeps_option keeps_sum
  keeps_prod schema_exec

lemma run_tx_Inr:
  "run_tx w body d = (Inr x, d') \<longleftrightarrow>
     tx_begins w \<and> tx_commits w = Committed \<and> (\<exists>n. body w (d, 0) = Inr (x, (d', n)))"
  by (auto simp: run_tx_def split: sum.splits commit_outcome.splits)

lemma run_tx_Inl:
  "run_tx w body d = (Inl e, d') \<Longrightarrow> tx_commits w \<noteq> CommitLost \<Longrightarrow> d' = d"
  by (auto simp: run_tx_def split: sum.splits commit_outcome.splits if_splits)

lemma run_tx_cases:
  "(\<exists>e. run_tx w body d = (Inl e, d)) \<or>
   (\<exists>x d' n. body w (d, 0) = Inr (x, (d', n)) \<and>
      (run_tx w body d = (Inr x, d') \<or> run_tx w body d = (Inl (Wrap ''commit'' DbUnavailable), d')))"
  by (cases "body w (d, 0)"; cases "tx_commits w"; cases "tx_begins w") (auto simp: run_tx_def)

end
