(* ===== verification/Message_Store.thy ===== *)
theory Message_Store
  imports Codec Sql
begin

text \<open>
  src/internal/platform/message/store.go: the inbox, which remembers the messages a service has
  received and so makes redelivery harmless, and the outbox, from which the publisher sends. The
  tables \<open>message_inbox\<close> and \<open>message_outbox\<close> are the record \<open>msgdb\<close>, which the database of each service
  extends; \<open>ok\<close> is the schema of that database. The columns the code never reads back
  (\<open>received_at\<close>) are left out.
\<close>

datatype inbox_status = PROCESSING | COMPLETED | APPLIED | REJECTED

datatype outbox_status = PENDING | PUBLISHING | PUBLISHED | CONFIRMED | DEAD

record inbox_row =
  ib_message_id :: uuid
  ib_subject :: string
  ib_producer :: string
  ib_payload_digest :: bytes
  ib_status :: inbox_status
  ib_result_message_id :: "uuid option"
  ib_completed_at :: "instant option"
  ib_expires_at :: instant

record outbox_row =
  ob_message_id :: uuid
  ob_subject :: string
  ob_envelope :: bytes
  ob_kind :: string
  ob_status :: outbox_status
  ob_attempts :: int
  ob_next_attempt_at :: instant
  ob_lease_until :: "instant option"
  ob_last_error_code :: "string option"
  ob_created_at :: instant
  ob_published_at :: "instant option"
  ob_confirmed_at :: "instant option"
  ob_expires_at :: instant

record msgdb =
  inbox :: "inbox_row list"
  outbox :: "outbox_row list"

text \<open>The constraints of the migrations on the two tables.\<close>

definition inbox_row_ok :: "inbox_status set \<Rightarrow> inbox_row \<Rightarrow> bool" where
  "inbox_row_ok statuses r \<longleftrightarrow>
     pg_text (ib_subject r) \<and> pg_text (ib_producer r) \<and> length (ib_payload_digest r) = 32 \<and>
     ib_status r \<in> statuses \<and> (ib_status r = PROCESSING \<longleftrightarrow> ib_completed_at r = None) \<and>
     (ib_status r = COMPLETED \<longleftrightarrow> ib_result_message_id r \<noteq> None)"

definition outbox_row_ok :: "outbox_row \<Rightarrow> bool" where
  "outbox_row_ok r \<longleftrightarrow>
     pg_text (ob_subject r) \<and> 1 \<le> length (ob_envelope r) \<and> length (ob_envelope r) \<le> 400000 \<and>
     ob_kind r \<in> {''COMMAND'', ''RESULT'', ''EVENT''} \<and> 0 \<le> ob_attempts r \<and> ob_attempts r < 2 ^ 31 \<and>
     ob_created_at r < ob_expires_at r \<and>
     (ob_status r = PUBLISHING \<longleftrightarrow> ob_lease_until r \<noteq> None) \<and>
     (ob_status r = CONFIRMED \<longleftrightarrow> ob_confirmed_at r \<noteq> None)"

definition msgdb_ok :: "inbox_status set \<Rightarrow> 'a msgdb_scheme \<Rightarrow> bool" where
  "msgdb_ok statuses d \<longleftrightarrow>
     list_all (inbox_row_ok statuses) (inbox d) \<and> distinct (map ib_message_id (inbox d)) \<and>
     list_all outbox_row_ok (outbox d) \<and> distinct (map ob_message_id (outbox d))"

text \<open>\<open>uuid.Parse\<close> with the error ignored: the zero identifier where it fails.\<close>

definition parse_or_nil :: "lib \<Rightarrow> string \<Rightarrow> uuid" where
  "parse_or_nil L s = (case uuid_parse L s of None \<Rightarrow> nil_uuid | Some u \<Rightarrow> u)"

section \<open>Inbox\<close>

record inbox_result =
  ir_accepted :: bool
  ir_completed :: bool
  ir_result_message_id :: "uuid option"

definition find_inbox :: "uuid \<Rightarrow> 'a msgdb_scheme \<Rightarrow> inbox_row option" where
  "find_inbox mid d = find (\<lambda>r. ib_message_id r = mid) (inbox d)"

definition register_inbox ::
  "('a msgdb_scheme \<Rightarrow> bool) \<Rightarrow> uuid \<Rightarrow> string \<Rightarrow> string \<Rightarrow> bytes \<Rightarrow> instant \<Rightarrow> ('a msgdb_scheme, inbox_result) tx" where
  "register_inbox ok mid subj sender payload_digest expires =
     tx_bind (tx_exec ok ''insert inbox message'' (\<lambda>w d.
         if find_inbox mid d \<noteq> None then (0::nat, d)
         else (1, d\<lparr>inbox := inbox d @ [\<lparr>ib_message_id = mid, ib_subject = subj, ib_producer = sender,
                 ib_payload_digest = payload_digest, ib_status = PROCESSING, ib_result_message_id = None,
                 ib_completed_at = None, ib_expires_at = pg_time expires\<rparr>]\<rparr>)))
       (\<lambda>rows_affected.
         if rows_affected = 1
         then tx_return \<lparr>ir_accepted = True, ir_completed = False, ir_result_message_id = None\<rparr>
         else tx_bind (tx_query ''read duplicate inbox message'' (\<lambda>w. find_inbox mid)) (\<lambda>stored.
           case stored of
             None \<Rightarrow> tx_fail (Wrap ''read duplicate inbox message'' SqlNoRows)
           | Some r \<Rightarrow>
               if ib_payload_digest r \<noteq> payload_digest then tx_fail ErrMessageIDCollision
               else tx_return \<lparr>ir_accepted = False, ir_completed = (ib_status r = COMPLETED),
                      ir_result_message_id = ib_result_message_id r\<rparr>))"

text \<open>An \<open>UPDATE message_inbox ... WHERE message_id = $1 AND status = 'PROCESSING'\<close> and its row count.\<close>

definition is_processing :: "uuid \<Rightarrow> inbox_row \<Rightarrow> bool" where
  "is_processing mid r \<longleftrightarrow> ib_message_id r = mid \<and> ib_status r = PROCESSING"

definition update_inbox :: "uuid \<Rightarrow> (inbox_row \<Rightarrow> inbox_row) \<Rightarrow> 'a msgdb_scheme \<Rightarrow> nat \<times> 'a msgdb_scheme" where
  "update_inbox mid f d =
     (length (filter (is_processing mid) (inbox d)),
      d\<lparr>inbox := map (\<lambda>r. if is_processing mid r then f r else r) (inbox d)\<rparr>)"

definition complete_inbox :: "('a msgdb_scheme \<Rightarrow> bool) \<Rightarrow> uuid \<Rightarrow> uuid \<Rightarrow> ('a msgdb_scheme, unit) tx" where
  "complete_inbox ok mid result =
     tx_bind (tx_exec ok ''complete inbox message'' (\<lambda>w. update_inbox mid (\<lambda>r.
         r\<lparr>ib_status := COMPLETED, ib_result_message_id := Some result, ib_completed_at := Some (db_now w)\<rparr>)))
       (\<lambda>rows_affected.
         if rows_affected \<noteq> 1 then tx_fail (Errorf ''inbox message is not processing'') else tx_return ())"

definition reject_inbox :: "('a msgdb_scheme \<Rightarrow> bool) \<Rightarrow> uuid \<Rightarrow> ('a msgdb_scheme, unit) tx" where
  "reject_inbox ok mid =
     tx_bind (tx_exec ok ''reject inbox message'' (\<lambda>w. update_inbox mid (\<lambda>r.
         r\<lparr>ib_status := REJECTED, ib_completed_at := Some (db_now w)\<rparr>))) (\<lambda>_. tx_return ())"

definition acknowledge_inbox :: "('a msgdb_scheme \<Rightarrow> bool) \<Rightarrow> uuid \<Rightarrow> ('a msgdb_scheme, unit) tx" where
  "acknowledge_inbox ok mid =
     tx_bind (tx_exec ok ''acknowledge inbox message'' (\<lambda>w. update_inbox mid (\<lambda>r.
         r\<lparr>ib_status := APPLIED, ib_completed_at := Some (db_now w)\<rparr>)))
       (\<lambda>rows_affected.
         if rows_affected \<noteq> 1 then tx_fail (Errorf ''inbox message is not processing'') else tx_return ())"

section \<open>Outbox\<close>

definition find_outbox :: "uuid \<Rightarrow> 'a msgdb_scheme \<Rightarrow> outbox_row option" where
  "find_outbox mid d = find (\<lambda>r. ob_message_id r = mid) (outbox d)"

definition new_outbox_row :: "outbox_message \<Rightarrow> instant \<Rightarrow> outbox_row" where
  "new_outbox_row item now =
     \<lparr>ob_message_id = om_message_id item, ob_subject = om_subject item, ob_envelope = om_envelope item,
      ob_kind = om_kind item, ob_status = PENDING, ob_attempts = 0, ob_next_attempt_at = now,
      ob_lease_until = None, ob_last_error_code = None, ob_created_at = now, ob_published_at = None,
      ob_confirmed_at = None, ob_expires_at = pg_time (om_expires_at item)\<rparr>"

definition insert_outbox :: "('a msgdb_scheme \<Rightarrow> bool) \<Rightarrow> outbox_message \<Rightarrow> ('a msgdb_scheme, unit) tx" where
  "insert_outbox ok item =
     tx_exec ok ''insert outbox message'' (\<lambda>w d.
       ((), if find_outbox (om_message_id item) d \<noteq> None then d
            else d\<lparr>outbox := outbox d @ [new_outbox_row item (db_now w)]\<rparr>))"

definition update_outbox :: "(outbox_row \<Rightarrow> bool) \<Rightarrow> (outbox_row \<Rightarrow> outbox_row) \<Rightarrow> 'a msgdb_scheme \<Rightarrow> 'a msgdb_scheme" where
  "update_outbox P f d = d\<lparr>outbox := map (\<lambda>r. if P r then f r else r) (outbox d)\<rparr>"

definition requeue_outbox :: "('a msgdb_scheme \<Rightarrow> bool) \<Rightarrow> uuid \<Rightarrow> ('a msgdb_scheme, unit) tx" where
  "requeue_outbox ok mid =
     tx_exec ok ''requeue outbox message'' (\<lambda>w d.
       ((), update_outbox (\<lambda>r. ob_message_id r = mid \<and> ob_status r \<notin> {CONFIRMED, DEAD})
              (\<lambda>r. r\<lparr>ob_status := PENDING, ob_next_attempt_at := db_now w, ob_lease_until := None\<rparr>) d))"

definition confirm_outbox :: "('a msgdb_scheme \<Rightarrow> bool) \<Rightarrow> uuid \<Rightarrow> ('a msgdb_scheme, unit) tx" where
  "confirm_outbox ok mid =
     tx_exec ok ''confirm outbox message'' (\<lambda>w d.
       ((), update_outbox (\<lambda>r. ob_message_id r = mid \<and> ob_status r \<noteq> DEAD)
              (\<lambda>r. r\<lparr>ob_status := CONFIRMED, ob_confirmed_at := Some (db_now w), ob_lease_until := None\<rparr>) d))"

section \<open>Encryption of outbox rows\<close>

definition ciphertext_spec :: spec where
  "ciphertext_spec = [(''key_id'', KStr, False), (''nonce_base64'', KStr, False), (''ciphertext_base64'', KStr, False)]"

definition ciphertext_vals :: "ciphertext \<Rightarrow> fval list" where
  "ciphertext_vals c = [FStr (ct_key_id c), FStr (ct_nonce c), FStr (ct_value c)]"

definition ciphertext_of :: "fval list \<Rightarrow> ciphertext" where
  "ciphertext_of vs = \<lparr>ct_key_id = str_of (vs ! 0), ct_nonce = str_of (vs ! 1), ct_value = str_of (vs ! 2)\<rparr>"

interpretation ct: payload_type ciphertext_spec ciphertext_vals ciphertext_of
  by unfold_locales
    (simp_all add: ciphertext_spec_def ciphertext_vals_def ciphertext_of_def spec_ok_def utf8_valid_visible
      visible_def byte_def)

definition nul :: string where "nul = [CHR 0x00]"

definition outbox_aad :: "lib \<Rightarrow> string \<Rightarrow> uuid \<Rightarrow> string \<Rightarrow> bytes" where
  "outbox_aad L service mid subj =
     service @ nul @ ''message_outbox'' @ nul @ uuid_string L mid @ nul @ subj @ nul @ ''envelope''"

definition seal_outbox :: "lib \<Rightarrow> data_keyring \<Rightarrow> world \<Rightarrow> nat \<Rightarrow> string \<Rightarrow> outbox_message \<Rightarrow> error + outbox_message" where
  "seal_outbox L keyring w i service item =
     (case encrypt L keyring w i (om_envelope item) (outbox_aad L service (om_message_id item) (om_subject item)) of
        Inl e \<Rightarrow> Inl (Wrap ''encrypt outbox envelope'' e)
      | Inr sealed \<Rightarrow> Inr (item\<lparr>om_envelope := marshal True ciphertext_spec (ciphertext_vals sealed)\<rparr>))"

definition open_outbox :: "lib \<Rightarrow> data_keyring \<Rightarrow> string \<Rightarrow> outbox_message \<Rightarrow> error + outbox_message" where
  "open_outbox L keyring service item =
     (case unmarshal False ciphertext_spec (om_envelope item) of
        None \<Rightarrow> Inl (Errorf ''decode outbox ciphertext'')
      | Some vs \<Rightarrow>
          (case decrypt L keyring (ciphertext_of vs) (outbox_aad L service (om_message_id item) (om_subject item)) of
             Inl e \<Rightarrow> Inl (Wrap ''decrypt outbox envelope'' e)
           | Inr plain \<Rightarrow> Inr (item\<lparr>om_envelope := plain\<rparr>)))"

section \<open>What never changes in the message tables\<close>

text \<open>
  \<open>inbox_le r r'\<close>: the row \<open>r'\<close> is a later state of \<open>r\<close>. The content stays, and a row that has left
  \<open>PROCESSING\<close> stays as it is. \<open>outbox_le\<close> is the same for the outbox: content and creation stay, the
  attempts grow, and \<open>DEAD\<close> and \<open>CONFIRMED\<close> are final. In \<open>msg_le\<close> the tables that a service adds
  stay as they are.
\<close>

definition inbox_le :: "inbox_row \<Rightarrow> inbox_row \<Rightarrow> bool" where
  "inbox_le r r' \<longleftrightarrow>
     ib_message_id r' = ib_message_id r \<and> ib_subject r' = ib_subject r \<and> ib_producer r' = ib_producer r \<and>
     ib_payload_digest r' = ib_payload_digest r \<and> ib_expires_at r' = ib_expires_at r \<and>
     (ib_status r \<noteq> PROCESSING \<longrightarrow> r' = r)"

definition outbox_le :: "outbox_row \<Rightarrow> outbox_row \<Rightarrow> bool" where
  "outbox_le r r' \<longleftrightarrow>
     ob_message_id r' = ob_message_id r \<and> ob_subject r' = ob_subject r \<and> ob_envelope r' = ob_envelope r \<and>
     ob_kind r' = ob_kind r \<and> ob_created_at r' = ob_created_at r \<and> ob_expires_at r' = ob_expires_at r \<and>
     ob_attempts r \<le> ob_attempts r' \<and>
     (ob_status r = DEAD \<longrightarrow> ob_status r' = DEAD) \<and> (ob_status r = CONFIRMED \<longrightarrow> ob_status r' = CONFIRMED)"

definition rows_grow :: "('r \<Rightarrow> 'r \<Rightarrow> bool) \<Rightarrow> 'r list \<Rightarrow> 'r list \<Rightarrow> bool" where
  "rows_grow le xs ys \<longleftrightarrow> length xs \<le> length ys \<and> list_all2 le xs (take (length xs) ys)"

definition msg_le :: "'a msgdb_scheme \<Rightarrow> 'a msgdb_scheme \<Rightarrow> bool" where
  "msg_le d d' \<longleftrightarrow>
     rows_grow inbox_le (inbox d) (inbox d') \<and> rows_grow outbox_le (outbox d) (outbox d') \<and>
     msgdb.more d' = msgdb.more d"

lemma inbox_le_refl [simp]: "inbox_le r r"
  by (simp add: inbox_le_def)

lemma inbox_le_trans: "inbox_le a b \<Longrightarrow> inbox_le b c \<Longrightarrow> inbox_le a c"
  by (auto simp: inbox_le_def)

lemma outbox_le_refl [simp]: "outbox_le r r"
  by (simp add: outbox_le_def)

lemma outbox_le_trans: "outbox_le a b \<Longrightarrow> outbox_le b c \<Longrightarrow> outbox_le a c"
  by (auto simp: outbox_le_def)

lemma rows_grow_refl: "(\<And>r. le r r) \<Longrightarrow> rows_grow le xs xs"
  by (simp add: rows_grow_def list_all2_refl)

lemma rows_grow_trans:
  assumes "\<And>a b c. le a b \<Longrightarrow> le b c \<Longrightarrow> le a c" "rows_grow le xs ys" "rows_grow le ys zs"
  shows "rows_grow le xs zs"
proof -
  have "list_all2 le (take (length xs) ys) (take (length xs) zs)"
    using list_all2_takeI [of le ys "take (length ys) zs" "length xs"] assms(2,3)
    by (simp add: rows_grow_def min_def)
  with assms show ?thesis
    by (auto simp: rows_grow_def intro: list_all2_trans [of le le le])
qed

lemma rows_grow_append: "(\<And>r. le r r) \<Longrightarrow> rows_grow le xs (xs @ ys)"
  by (simp add: rows_grow_def list_all2_refl)

lemma rows_grow_map: "(\<And>r. r \<in> set xs \<Longrightarrow> le r (f r)) \<Longrightarrow> rows_grow le xs (map f xs)"
  by (simp add: rows_grow_def list_all2_conv_all_nth)

lemma rows_grow_member:
  assumes "rows_grow le xs ys" "r \<in> set xs"
  obtains r' where "r' \<in> set ys" "le r r'"
proof -
  obtain i where i: "i < length xs" "xs ! i = r"
    using assms(2) by (auto simp: in_set_conv_nth)
  with assms(1) have "le r (ys ! i)" "i < length ys"
    by (auto simp: rows_grow_def list_all2_conv_all_nth)
  with that [of "ys ! i"] show thesis by simp
qed

lemma msg_le_reflp [simp, intro]: "reflp msg_le"
  by (simp add: reflp_def msg_le_def rows_grow_refl)

lemma msg_le_transp [simp, intro]: "transp msg_le"
  unfolding transp_def msg_le_def
  using rows_grow_trans [of inbox_le] rows_grow_trans [of outbox_le] inbox_le_trans outbox_le_trans
  by (metis (no_types, lifting))

lemma msg_le_inbox_append: "msg_le d (d\<lparr>inbox := inbox d @ rs\<rparr>)"
  by (simp add: msg_le_def rows_grow_append rows_grow_refl)

lemma msg_le_outbox_append: "msg_le d (d\<lparr>outbox := outbox d @ rs\<rparr>)"
  by (simp add: msg_le_def rows_grow_append rows_grow_refl)

lemma msg_le_update_inbox:
  "(\<And>r. is_processing mid r \<Longrightarrow> inbox_le r (f r)) \<Longrightarrow> msg_le d (snd (update_inbox mid f d))"
  by (simp add: msg_le_def update_inbox_def rows_grow_map rows_grow_refl)

lemma msg_le_update_outbox:
  "(\<And>r. P r \<Longrightarrow> outbox_le r (f r)) \<Longrightarrow> msg_le d (update_outbox P f d)"
  by (simp add: msg_le_def update_outbox_def rows_grow_map rows_grow_refl)

lemmas msg_le_steps = msg_le_inbox_append msg_le_outbox_append msg_le_update_inbox msg_le_update_outbox

lemma register_inbox_keeps [keeps_intros]: "keeps msg_le (register_inbox ok mid subj sender dig e)"
  unfolding register_inbox_def
  by (intro keeps_bind keeps_if keeps_return keeps_query keeps_option keeps_fail keeps_exec)
    (auto simp: msg_le_inbox_append intro: msg_le_reflp [THEN reflpD])

lemma inbox_updates_keep [keeps_intros]:
  "keeps msg_le (complete_inbox ok mid result)" "keeps msg_le (reject_inbox ok mid)"
  "keeps msg_le (acknowledge_inbox ok mid)"
  unfolding complete_inbox_def reject_inbox_def acknowledge_inbox_def
  by (intro keeps_bind keeps_if keeps_return keeps_fail keeps_exec msg_le_update_inbox;
      auto simp: is_processing_def inbox_le_def)+

lemma outbox_updates_keep [keeps_intros]:
  "keeps msg_le (insert_outbox ok item)" "keeps msg_le (requeue_outbox ok mid)" "keeps msg_le (confirm_outbox ok mid)"
  unfolding insert_outbox_def requeue_outbox_def confirm_outbox_def
  by (intro keeps_exec; auto intro!: msg_le_update_outbox simp: msg_le_outbox_append outbox_le_def
      intro: msg_le_reflp [THEN reflpD])+

end
