(* ===== verification/Sessions_Store.thy ===== *)
theory Sessions_Store
  imports Message_Store Sessions_Domain "HOL-Library.Product_Lexorder" "HOL-Library.List_Lexorder" "HOL-Library.Char_ord"
begin

text \<open>
  src/internal/sessions/adapter/postgres/store.go: the database of the sessions service and the
  transactions on it. A row is a record with the columns the code writes and reads back (of the
  bookkeeping columns only those it reads; \<open>client_type\<close> has one value). The handlers build on the
  message store; \<open>factory\<close> is the \<open>ResultFactory\<close> argument. In one operation every fresh identifier,
  clock reading and nonce has its own index in the \<open>world\<close>.
\<close>

datatype verification_status = V_PENDING | V_VERIFIED | V_REJECTED | V_EXPIRED | V_MANUAL_REVIEW

datatype session_status = ACTIVE | REVOKED

datatype event_type = ACTIVATED | REACTIVATED | SESSION_REVOKED

record identity_row =
  bi_id :: uuid
  bi_balance_ciphertext :: bytes
  bi_balance_fingerprint :: bytes
  bi_sender_ciphertext :: bytes
  bi_sender_fingerprint :: bytes
  bi_network :: string

record session_row =
  sn_id :: uuid
  sn_identity_id :: uuid
  sn_bot_id :: int
  sn_telegram_user_id :: int
  sn_telegram_chat_id :: int
  sn_display_label :: "string option"
  sn_status :: session_status
  sn_activation_network :: string
  sn_activation_transaction_id :: string
  sn_first_activated_at :: instant
  sn_last_activated_at :: instant
  sn_revoked_at :: "instant option"
  sn_version :: int

record verification_row =
  vr_id :: uuid
  vr_operation_id :: uuid
  vr_command_message_id :: uuid
  vr_topup_command_message_id :: uuid
  vr_session_id :: uuid
  vr_balance_ciphertext :: bytes
  vr_balance_fingerprint :: bytes
  vr_bot_id :: int
  vr_telegram_user_id :: int
  vr_telegram_chat_id :: int
  vr_sender_ciphertext :: bytes
  vr_sender_fingerprint :: bytes
  vr_receiver_ciphertext :: bytes
  vr_receiver_fingerprint :: bytes
  vr_display_label :: "string option"
  vr_amount :: string
  vr_network :: string
  vr_transaction_id :: string
  vr_external_reservation_id :: string
  vr_offer_expires_at :: instant
  vr_status :: verification_status
  vr_failure_code :: "string option"
  vr_updated_at :: instant
  vr_completed_at :: "instant option"
  vr_version :: int

record event_row =
  ev_id :: uuid
  ev_session_id :: uuid
  ev_operation_id :: uuid
  ev_type :: event_type
  ev_authority_version :: int
  ev_occurred_at :: instant
  ev_network :: string
  ev_transaction_id :: string

record sessions_db = msgdb +
  identities :: "identity_row list"
  sessions :: "session_row list"
  verifications :: "verification_row list"
  events :: "event_row list"

section \<open>The schema\<close>

definition identity_row_ok :: "identity_row \<Rightarrow> bool" where
  "identity_row_ok r \<longleftrightarrow>
     length (bi_balance_fingerprint r) = 32 \<and> length (bi_sender_fingerprint r) = 32 \<and>
     pg_text (bi_network r) \<and> 1 \<le> pg_length (bi_network r) \<and> pg_length (bi_network r) \<le> 64"

definition session_row_ok :: "session_row \<Rightarrow> bool" where
  "session_row_ok r \<longleftrightarrow>
     bigint_positive (sn_bot_id r) \<and> bigint_positive (sn_telegram_user_id r) \<and> bigint_positive (sn_telegram_chat_id r) \<and>
     label_ok (sn_display_label r) \<and> pg_text (sn_activation_network r) \<and> pg_text (sn_activation_transaction_id r) \<and>
     1 \<le> pg_length (sn_activation_transaction_id r) \<and> pg_length (sn_activation_transaction_id r) \<le> 256 \<and>
     bigint_positive (sn_version r) \<and> (sn_status r = REVOKED \<longleftrightarrow> sn_revoked_at r \<noteq> None)"

definition verification_row_ok :: "verification_row \<Rightarrow> bool" where
  "verification_row_ok r \<longleftrightarrow>
     length (vr_balance_fingerprint r) = 32 \<and> length (vr_sender_fingerprint r) = 32 \<and>
     length (vr_receiver_fingerprint r) = 32 \<and>
     bigint_positive (vr_bot_id r) \<and> bigint_positive (vr_telegram_user_id r) \<and> bigint_positive (vr_telegram_chat_id r) \<and>
     label_ok (vr_display_label r) \<and> pg_text (vr_amount r) \<and> pg_text (vr_network r) \<and>
     pg_text (vr_transaction_id r) \<and> pg_text (vr_external_reservation_id r) \<and>
     (case vr_failure_code r of None \<Rightarrow> True | Some c \<Rightarrow> pg_text c) \<and>
     bigint_positive (vr_version r) \<and> (vr_status r = V_PENDING \<longleftrightarrow> vr_completed_at r = None)"

definition event_row_ok :: "event_row \<Rightarrow> bool" where
  "event_row_ok r \<longleftrightarrow> ev_operation_id r \<noteq> [] \<and> bigint_positive (ev_authority_version r)"

definition active_rows :: "session_row list \<Rightarrow> session_row list" where
  "active_rows rs = filter (\<lambda>r. sn_status r = ACTIVE) rs"

definition sessions_keys_ok :: "'a sessions_db_scheme \<Rightarrow> bool" where
  "sessions_keys_ok d \<longleftrightarrow>
     distinct (map bi_id (identities d)) \<and> distinct (map bi_balance_fingerprint (identities d)) \<and>
     distinct (map sn_id (sessions d)) \<and>
     distinct (map (\<lambda>r. (sn_activation_network r, sn_activation_transaction_id r)) (sessions d)) \<and>
     distinct (map (\<lambda>r. (sn_bot_id r, sn_telegram_user_id r)) (active_rows (sessions d))) \<and>
     distinct (map vr_id (verifications d)) \<and> distinct (map vr_operation_id (verifications d)) \<and>
     distinct (map vr_command_message_id (verifications d)) \<and>
     distinct (map vr_topup_command_message_id (verifications d)) \<and>
     distinct (map ev_id (events d)) \<and> distinct (map ev_operation_id (events d))"

definition sessions_refs_ok :: "'a sessions_db_scheme \<Rightarrow> bool" where
  "sessions_refs_ok d \<longleftrightarrow>
     list_all (\<lambda>r. sn_identity_id r \<in> bi_id ` set (identities d)) (sessions d) \<and>
     list_all (\<lambda>r. vr_command_message_id r \<in> ib_message_id ` set (inbox d) \<and>
                   vr_topup_command_message_id r \<in> ob_message_id ` set (outbox d)) (verifications d) \<and>
     list_all (\<lambda>r. ev_session_id r \<in> sn_id ` set (sessions d)) (events d)"

definition sessions_ok :: "'a sessions_db_scheme \<Rightarrow> bool" where
  "sessions_ok d \<longleftrightarrow>
     msgdb_ok {PROCESSING, COMPLETED, REJECTED} d \<and>
     list_all identity_row_ok (identities d) \<and> list_all session_row_ok (sessions d) \<and>
     list_all verification_row_ok (verifications d) \<and> list_all event_row_ok (events d) \<and>
     sessions_keys_ok d \<and> sessions_refs_ok d"

section \<open>The store\<close>

record store =
  st_keyring :: data_keyring
  st_fingerprint_key :: bytes

record incoming =
  in_message_id :: uuid
  in_subject :: string
  in_producer :: string
  in_payload :: bytes
  in_expires_at :: instant

record completion =
  co_operation_id :: uuid
  co_session_id :: uuid
  co_balance_id :: string
  co_activated :: bool
  co_authority_version :: int
  co_code :: string
  co_retryable :: bool
  co_occurred_at :: instant

type_synonym result_factory = "completion \<Rightarrow> world \<Rightarrow> error + outbox_message"

record pending_retry =
  pr_verification_id :: uuid
  pr_operation_id :: uuid
  pr_command_message_id :: uuid
  pr_topup_command_message_id :: uuid
  pr_offer_expires_at :: instant
  pr_balance_id :: string
  pr_facts :: topup_verify

definition service_name :: string where "service_name = ''rw-active-sessions''"

definition row_aad :: "lib \<Rightarrow> string \<Rightarrow> string \<Rightarrow> uuid \<Rightarrow> string \<Rightarrow> bytes" where
  "row_aad L service table row_id column = service @ nul @ table @ nul @ uuid_string L row_id @ nul @ column"

definition st_encrypt :: "lib \<Rightarrow> store \<Rightarrow> nat \<Rightarrow> string \<Rightarrow> uuid \<Rightarrow> string \<Rightarrow> string \<Rightarrow> world \<Rightarrow> error + bytes" where
  "st_encrypt L st i table row_id column value w =
     (case encrypt L (st_keyring st) w i value (row_aad L service_name table row_id column) of
        Inl e \<Rightarrow> Inl (Wrap (''encrypt '' @ column) e)
      | Inr sealed \<Rightarrow> Inr (marshal True ciphertext_spec (ciphertext_vals sealed)))"

definition st_decrypt :: "lib \<Rightarrow> store \<Rightarrow> string \<Rightarrow> uuid \<Rightarrow> string \<Rightarrow> bytes \<Rightarrow> error + string" where
  "st_decrypt L st table row_id column encoded =
     (case unmarshal False ciphertext_spec encoded of None \<Rightarrow> Inl (Errorf (''decode '' @ column))
      | Some vs \<Rightarrow>
          (case decrypt L (st_keyring st) (ciphertext_of vs) (row_aad L service_name table row_id column) of
             Inl e \<Rightarrow> Inl (Wrap (''decrypt '' @ column) e)
           | Inr plain \<Rightarrow> Inr plain))"

definition st_fingerprint :: "lib \<Rightarrow> store \<Rightarrow> string \<Rightarrow> bytes" where
  "st_fingerprint L st value = fingerprint L (st_fingerprint_key st) value"

definition st_insert_outbox :: "lib \<Rightarrow> store \<Rightarrow> nat \<Rightarrow> outbox_message \<Rightarrow> (sessions_db, unit) tx" where
  "st_insert_outbox L st i item =
     tx_bind (tx_lift (\<lambda>w. seal_outbox L (st_keyring st) w i service_name item)) (insert_outbox sessions_ok)"

text \<open>
  How every handler of a message begins: the message is registered in the inbox; a message that was
  registered before has no further effect than to send its result again.
\<close>

definition deduplicated :: "lib \<Rightarrow> incoming \<Rightarrow> (sessions_db, unit) tx \<Rightarrow> (sessions_db, unit) tx" where
  "deduplicated L inc body =
     tx_bind (register_inbox sessions_ok (in_message_id inc) (in_subject inc) (in_producer inc)
                (sha256 L (in_payload inc)) (in_expires_at inc)) (\<lambda>r.
       if \<not> ir_accepted r then
         (if ir_completed r \<and> ir_result_message_id r \<noteq> None
          then requeue_outbox sessions_ok (the (ir_result_message_id r))
          else tx_return ())
       else body)"

section \<open>Accepting an activation command\<close>

definition accepted_row :: "lib \<Rightarrow> store \<Rightarrow> instant \<Rightarrow> uuid \<Rightarrow> incoming \<Rightarrow> activation_verify \<Rightarrow> outbox_message \<Rightarrow>
    bytes \<Rightarrow> bytes \<Rightarrow> bytes \<Rightarrow> verification_row" where
  "accepted_row L st now vid inc command topup balance_ct sender_ct receiver_ct =
     \<lparr>vr_id = vid, vr_operation_id = parse_or_nil L (av_operation_id command),
      vr_command_message_id = in_message_id inc, vr_topup_command_message_id = om_message_id topup,
      vr_session_id = parse_or_nil L (av_session_id command),
      vr_balance_ciphertext = balance_ct, vr_balance_fingerprint = st_fingerprint L st (av_balance_id command),
      vr_bot_id = av_bot_id command, vr_telegram_user_id = av_telegram_user_id command,
      vr_telegram_chat_id = av_telegram_chat_id command,
      vr_sender_ciphertext = sender_ct, vr_sender_fingerprint = st_fingerprint L st (av_sender_wallet command),
      vr_receiver_ciphertext = receiver_ct, vr_receiver_fingerprint = st_fingerprint L st (av_receiver_wallet command),
      vr_display_label = nullif_empty (av_display_label command),
      vr_amount = av_amount command, vr_network = av_network command, vr_transaction_id = av_transaction_id command,
      vr_external_reservation_id = av_external_reservation_id command,
      vr_offer_expires_at = pg_time (case parse_instant (av_offer_expires_at command) of None \<Rightarrow> zero_time | Some t \<Rightarrow> t),
      vr_status = V_PENDING, vr_failure_code = None, vr_updated_at = now, vr_completed_at = None, vr_version = 1\<rparr>"

definition accept_verification ::
  "lib \<Rightarrow> store \<Rightarrow> incoming \<Rightarrow> activation_verify \<Rightarrow> outbox_message \<Rightarrow> world \<Rightarrow> sessions_db \<Rightarrow> (error + unit) \<times> sessions_db" where
  "accept_verification L st inc command topup w d =
     (case new_v7 w 4 of Inl e \<Rightarrow> (Inl (Wrap ''generate verification ID'' e), d) | Inr vid \<Rightarrow>
      case st_encrypt L st 0 ''activation_verifications'' vid ''balance_id'' (av_balance_id command) w of
        Inl e \<Rightarrow> (Inl e, d) | Inr balance_ct \<Rightarrow>
      case st_encrypt L st 1 ''activation_verifications'' vid ''sender_wallet'' (av_sender_wallet command) w of
        Inl e \<Rightarrow> (Inl e, d) | Inr sender_ct \<Rightarrow>
      case st_encrypt L st 2 ''activation_verifications'' vid ''receiver_wallet'' (av_receiver_wallet command) w of
        Inl e \<Rightarrow> (Inl e, d) | Inr receiver_ct \<Rightarrow>
      run_tx w (deduplicated L inc
        (tx_bind (st_insert_outbox L st 3 topup) (\<lambda>_.
         tx_exec sessions_ok ''insert activation verification'' (\<lambda>w d.
           ((), d\<lparr>verifications := verifications d @
                    [accepted_row L st (db_now w) vid inc command topup balance_ct sender_ct receiver_ct]\<rparr>))))) d)"

section \<open>Settling a verification\<close>

definition find_verification :: "(verification_row \<Rightarrow> bool) \<Rightarrow> 'a sessions_db_scheme \<Rightarrow> verification_row option" where
  "find_verification P d = find P (verifications d)"

definition lock_verification :: "uuid \<Rightarrow> (sessions_db, verification_row) tx" where
  "lock_verification operation_id =
     tx_bind (tx_query ''lock activation verification'' (\<lambda>w. find_verification (\<lambda>r. vr_operation_id r = operation_id)))
       (\<lambda>r. case r of None \<Rightarrow> tx_fail (Errorf ''activation verification not found'') | Some row \<Rightarrow> tx_return row)"

definition update_verifications ::
  "(verification_row \<Rightarrow> bool) \<Rightarrow> (verification_row \<Rightarrow> verification_row) \<Rightarrow> sessions_db \<Rightarrow> sessions_db" where
  "update_verifications P f d = d\<lparr>verifications := map (\<lambda>r. if P r then f r else r) (verifications d)\<rparr>"

definition finish_verification :: "verification_row \<Rightarrow> verification_status \<Rightarrow> string \<Rightarrow> (sessions_db, unit) tx" where
  "finish_verification row status code =
     tx_exec sessions_ok ''finish verification'' (\<lambda>w d.
       ((), update_verifications (\<lambda>r. vr_id r = vr_id row \<and> vr_status r = V_PENDING)
              (\<lambda>r. r\<lparr>vr_status := status, vr_failure_code := nullif_empty code,
                     vr_completed_at := Some (db_now w), vr_updated_at := db_now w,
                     vr_version := vr_version r + 1\<rparr>) d))"

text \<open>
  The end of every handler that settles a verification, which \<open>ApplyTopupVerified\<close> and
  \<open>completeRejected\<close> write out: the result message is signed and stored, the verification finished,
  the command and the incoming message completed with it, and the top-up command confirmed.
\<close>

definition settle_verification ::
  "lib \<Rightarrow> store \<Rightarrow> uuid \<Rightarrow> verification_row \<Rightarrow> verification_status \<Rightarrow> string \<Rightarrow> completion \<Rightarrow> result_factory \<Rightarrow>
    (sessions_db, unit) tx" where
  "settle_verification L st incoming_id row status code completion factory =
     tx_bind (tx_lift (factory completion)) (\<lambda>result.
     tx_bind (st_insert_outbox L st 8 (result\<lparr>om_kind := ''RESULT''\<rparr>)) (\<lambda>_.
     tx_bind (finish_verification row status code) (\<lambda>_.
     tx_bind (complete_inbox sessions_ok (vr_command_message_id row) (om_message_id result)) (\<lambda>_.
     tx_bind (complete_inbox sessions_ok incoming_id (om_message_id result)) (\<lambda>_.
     confirm_outbox sessions_ok (vr_topup_command_message_id row))))))"

definition complete_rejected ::
  "lib \<Rightarrow> store \<Rightarrow> uuid \<Rightarrow> verification_row \<Rightarrow> completion \<Rightarrow> result_factory \<Rightarrow> (sessions_db, unit) tx" where
  "complete_rejected L st incoming_id row completion factory =
     settle_verification L st incoming_id row V_REJECTED (co_code completion) completion factory"

section \<open>A verified transaction\<close>

definition expected_facts :: "lib \<Rightarrow> store \<Rightarrow> verification_row \<Rightarrow> error + topup_verify" where
  "expected_facts L st row =
     (case st_decrypt L st ''activation_verifications'' (vr_id row) ''sender_wallet'' (vr_sender_ciphertext row) of
        Inl e \<Rightarrow> Inl e | Inr sender \<Rightarrow>
      case st_decrypt L st ''activation_verifications'' (vr_id row) ''receiver_wallet'' (vr_receiver_ciphertext row) of
        Inl e \<Rightarrow> Inl e | Inr receiver \<Rightarrow>
      Inr \<lparr>tv_operation_id = '''', tv_transaction_id = vr_transaction_id row,
           tv_external_reservation_id = vr_external_reservation_id row, tv_sender_wallet = sender,
           tv_receiver_wallet = receiver, tv_amount = vr_amount row, tv_asset = ''USDT'', tv_network = vr_network row\<rparr>)"

definition same_facts :: "topup_verified \<Rightarrow> topup_verify \<Rightarrow> bool" where
  "same_facts actual expected \<longleftrightarrow>
     td_transaction_id actual = tv_transaction_id expected \<and>
     td_external_reservation_id actual = tv_external_reservation_id expected \<and>
     td_sender_wallet actual = tv_sender_wallet expected \<and>
     td_receiver_wallet actual = tv_receiver_wallet expected \<and>
     td_amount actual = tv_amount expected \<and> td_network actual = tv_network expected"

definition ensure_identity ::
  "lib \<Rightarrow> store \<Rightarrow> verification_row \<Rightarrow> string \<Rightarrow> string \<Rightarrow> (sessions_db, uuid \<times> bool) tx" where
  "ensure_identity L st row balance_id sender_wallet =
     tx_bind (tx_query ''lock balance identity'' (\<lambda>w d. ())) (\<lambda>_.
     tx_bind (tx_query ''read balance identity'' (\<lambda>w d.
         find (\<lambda>r. bi_balance_fingerprint r = vr_balance_fingerprint row) (identities d))) (\<lambda>stored.
     case stored of
       None \<Rightarrow>
         tx_bind (tx_lift (\<lambda>w. new_v7 w 5)) (\<lambda>identity_id.
         tx_bind (tx_lift (st_encrypt L st 4 ''balance_identities'' identity_id ''balance_id'' balance_id)) (\<lambda>balance_ct.
         tx_bind (tx_lift (st_encrypt L st 5 ''balance_identities'' identity_id ''sender_wallet'' sender_wallet)) (\<lambda>wallet_ct.
         tx_bind (tx_exec sessions_ok ''insert balance identity'' (\<lambda>w d.
             ((), d\<lparr>identities := identities d @
                [\<lparr>bi_id = identity_id, bi_balance_ciphertext = balance_ct,
                  bi_balance_fingerprint = vr_balance_fingerprint row, bi_sender_ciphertext = wallet_ct,
                  bi_sender_fingerprint = vr_sender_fingerprint row, bi_network = vr_network row\<rparr>]\<rparr>))) (\<lambda>_.
         tx_return (identity_id, True)))))
     | Some r \<Rightarrow>
         if bi_network r \<noteq> vr_network row \<or> bi_sender_fingerprint r \<noteq> vr_sender_fingerprint row
         then tx_return (bi_id r, False)
         else tx_bind (tx_lift (\<lambda>w. st_decrypt L st ''balance_identities'' (bi_id r) ''sender_wallet'' (bi_sender_ciphertext r)))
                (\<lambda>stored_wallet. tx_return (bi_id r, stored_wallet = sender_wallet))))"

definition conflicting :: "verification_row \<Rightarrow> session_row \<Rightarrow> bool" where
  "conflicting row r \<longleftrightarrow>
     ((sn_bot_id r = vr_bot_id row \<and> sn_telegram_user_id r = vr_telegram_user_id row \<and> sn_status r = ACTIVE) \<or>
      (sn_activation_network r = vr_network row \<and> sn_activation_transaction_id r = vr_transaction_id row)) \<and>
     sn_id r \<noteq> vr_session_id row"

definition operation_of :: "uuid \<Rightarrow> sessions_db \<Rightarrow> uuid" where
  "operation_of vid d = (case find_verification (\<lambda>r. vr_id r = vid) d of None \<Rightarrow> [] | Some r \<Rightarrow> vr_operation_id r)"

definition insert_session :: "verification_row \<Rightarrow> uuid \<Rightarrow> instant \<Rightarrow> (sessions_db, unit) tx" where
  "insert_session row identity_id now =
     tx_exec sessions_ok ''persist active session'' (\<lambda>w d.
       ((), d\<lparr>sessions := sessions d @
          [\<lparr>sn_id = vr_session_id row, sn_identity_id = identity_id, sn_bot_id = vr_bot_id row,
            sn_telegram_user_id = vr_telegram_user_id row, sn_telegram_chat_id = vr_telegram_chat_id row,
            sn_display_label = vr_display_label row, sn_status = ACTIVE, sn_activation_network = vr_network row,
            sn_activation_transaction_id = vr_transaction_id row, sn_first_activated_at = pg_time now,
            sn_last_activated_at = pg_time now, sn_revoked_at = None, sn_version = 1\<rparr>]\<rparr>))"

definition update_session :: "verification_row \<Rightarrow> instant \<Rightarrow> int \<Rightarrow> (sessions_db, unit) tx" where
  "update_session row now version =
     tx_exec sessions_ok ''persist active session'' (\<lambda>w d.
       ((), d\<lparr>sessions := map (\<lambda>r. if sn_id r = vr_session_id row
          then r\<lparr>sn_telegram_chat_id := vr_telegram_chat_id row, sn_activation_network := vr_network row,
                 sn_activation_transaction_id := vr_transaction_id row, sn_last_activated_at := pg_time now,
                 sn_version := version\<rparr>
          else r) (sessions d)\<rparr>))"

definition insert_event :: "verification_row \<Rightarrow> event_type \<Rightarrow> int \<Rightarrow> instant \<Rightarrow> (sessions_db, int) tx" where
  "insert_event row etype version now =
     tx_bind (tx_lift (\<lambda>w. new_v7 w 6)) (\<lambda>event_id.
     tx_bind (tx_exec sessions_ok ''insert session event'' (\<lambda>w d.
         ((), d\<lparr>events := events d @
            [\<lparr>ev_id = event_id, ev_session_id = vr_session_id row, ev_operation_id = operation_of (vr_id row) d,
              ev_type = etype, ev_authority_version = version, ev_occurred_at = pg_time now,
              ev_network = vr_network row, ev_transaction_id = vr_transaction_id row\<rparr>]\<rparr>))) (\<lambda>_.
     tx_return version))"

text \<open>\<open>None\<close> is \<open>ErrActivationConflict\<close>, the one error that the caller handles.\<close>

definition activate_session :: "verification_row \<Rightarrow> uuid \<Rightarrow> instant \<Rightarrow> (sessions_db, int option) tx" where
  "activate_session row identity_id now =
     tx_bind (tx_query ''lock Telegram identity'' (\<lambda>w d. ())) (\<lambda>_.
     tx_bind (tx_query ''lock activation transaction'' (\<lambda>w d. ())) (\<lambda>_.
     tx_bind (tx_query ''check activation conflicts'' (\<lambda>w d. find (conflicting row) (sessions d))) (\<lambda>conflict.
     if conflict \<noteq> None then tx_return None
     else
       tx_bind (tx_query ''read active session'' (\<lambda>w d. find (\<lambda>r. sn_id r = vr_session_id row) (sessions d))) (\<lambda>current.
       case current of
         None \<Rightarrow>
           tx_bind (insert_session row identity_id now) (\<lambda>_.
           tx_bind (insert_event row ACTIVATED 1 now) (\<lambda>v. tx_return (Some v)))
       | Some r \<Rightarrow>
           if sn_identity_id r \<noteq> identity_id \<or> sn_status r \<noteq> ACTIVE then tx_return None
           else
             tx_bind (update_session row now (sn_version r + 1)) (\<lambda>_.
             tx_bind (insert_event row REACTIVATED (sn_version r + 1) now) (\<lambda>v. tx_return (Some v)))))))"

definition new_completion :: "uuid \<Rightarrow> verification_row \<Rightarrow> instant \<Rightarrow> completion" where
  "new_completion operation_id row now =
     \<lparr>co_operation_id = operation_id, co_session_id = vr_session_id row, co_balance_id = '''', co_activated = False,
      co_authority_version = 0, co_code = '''', co_retryable = False, co_occurred_at = now\<rparr>"

definition finalized_in_time :: "topup_verified \<Rightarrow> verification_row \<Rightarrow> instant \<Rightarrow> bool" where
  "finalized_in_time verified row now =
     (case parse_instant (td_finalized_at verified) of None \<Rightarrow> False
      | Some finalized_at \<Rightarrow> \<not> finalized_at > vr_offer_expires_at row \<and> \<not> finalized_at > now + 2 * minute)"

definition apply_verified_body ::
  "lib \<Rightarrow> store \<Rightarrow> incoming \<Rightarrow> topup_verified \<Rightarrow> uuid \<Rightarrow> result_factory \<Rightarrow> (sessions_db, unit) tx" where
  "apply_verified_body L st inc verified operation_id factory =
     tx_bind (lock_verification operation_id) (\<lambda>row.
     if vr_status row \<noteq> V_PENDING then reject_inbox sessions_ok (in_message_id inc)
     else
     tx_bind (tx_lift (\<lambda>w. expected_facts L st row)) (\<lambda>expected.
     tx_bind (tx_lift (\<lambda>w. Inr (new_completion operation_id row (go_now w 1), go_now w 2))) (\<lambda>(completion, now).
     if \<not> same_facts verified expected \<or> \<not> finalized_in_time verified row now
     then complete_rejected L st (in_message_id inc) row (completion\<lparr>co_code := ''CONTRACT_VIOLATION''\<rparr>) factory
     else
     tx_bind (tx_lift (\<lambda>w. st_decrypt L st ''activation_verifications'' (vr_id row) ''balance_id'' (vr_balance_ciphertext row))) (\<lambda>balance_id.
     tx_bind (tx_lift (\<lambda>w. st_decrypt L st ''activation_verifications'' (vr_id row) ''sender_wallet'' (vr_sender_ciphertext row))) (\<lambda>sender_wallet.
     tx_bind (ensure_identity L st row balance_id sender_wallet) (\<lambda>(identity_id, wallet_match).
     if \<not> wallet_match
     then complete_rejected L st (in_message_id inc) row
            (completion\<lparr>co_balance_id := balance_id, co_code := ''WALLET_MISMATCH''\<rparr>) factory
     else
     tx_bind (activate_session row identity_id (co_occurred_at completion)) (\<lambda>authority_version.
     case authority_version of
       None \<Rightarrow> complete_rejected L st (in_message_id inc) row
                 (completion\<lparr>co_balance_id := balance_id, co_code := ''CONFLICT''\<rparr>) factory
     | Some v \<Rightarrow> settle_verification L st (in_message_id inc) row V_VERIFIED ''''
                   (completion\<lparr>co_balance_id := balance_id, co_activated := True, co_authority_version := v\<rparr>) factory)))))))"

definition apply_topup_verified ::
  "lib \<Rightarrow> store \<Rightarrow> incoming \<Rightarrow> topup_verified \<Rightarrow> result_factory \<Rightarrow> world \<Rightarrow> sessions_db \<Rightarrow> (error + unit) \<times> sessions_db" where
  "apply_topup_verified L st inc verified factory w d =
     (case uuid_parse L (td_operation_id verified) of None \<Rightarrow> (Inl (Errorf ''invalid operation ID''), d)
      | Some operation_id \<Rightarrow>
          run_tx w (deduplicated L inc (apply_verified_body L st inc verified operation_id factory)) d)"

section \<open>A rejection\<close>

definition apply_rejected_body ::
  "lib \<Rightarrow> store \<Rightarrow> incoming \<Rightarrow> rejection \<Rightarrow> uuid \<Rightarrow> result_factory \<Rightarrow> (sessions_db, unit) tx" where
  "apply_rejected_body L st inc rej operation_id factory =
     tx_bind (lock_verification operation_id) (\<lambda>row.
     if vr_status row \<noteq> V_PENDING then reject_inbox sessions_ok (in_message_id inc)
     else
     tx_bind (tx_lift (\<lambda>w. st_decrypt L st ''activation_verifications'' (vr_id row) ''balance_id'' (vr_balance_ciphertext row))) (\<lambda>balance_id.
     tx_bind (tx_lift (\<lambda>w. Inr (go_now w 1))) (\<lambda>now.
     complete_rejected L st (in_message_id inc) row
       ((new_completion operation_id row now)\<lparr>co_balance_id := balance_id, co_code := rj_code rej,
          co_retryable := rj_retryable rej\<rparr>) factory)))"

definition apply_topup_rejected ::
  "lib \<Rightarrow> store \<Rightarrow> incoming \<Rightarrow> rejection \<Rightarrow> result_factory \<Rightarrow> world \<Rightarrow> sessions_db \<Rightarrow> (error + unit) \<times> sessions_db" where
  "apply_topup_rejected L st inc rej factory w d =
     (case uuid_parse L (rj_operation_id rej) of None \<Rightarrow> (Inl (Errorf ''invalid operation ID''), d)
      | Some operation_id \<Rightarrow>
          run_tx w (deduplicated L inc (apply_rejected_body L st inc rej operation_id factory)) d)"

section \<open>Reconciliation\<close>

fun collect :: "('a \<Rightarrow> error + 'b) \<Rightarrow> 'a list \<Rightarrow> error + 'b list" where
  "collect f [] = Inr []"
| "collect f (x # xs) =
     (case f x of Inl e \<Rightarrow> Inl e | Inr y \<Rightarrow>
      (case collect f xs of Inl e \<Rightarrow> Inl e | Inr ys \<Rightarrow> Inr (y # ys)))"

definition needs_retry :: "instant \<Rightarrow> sessions_db \<Rightarrow> verification_row \<Rightarrow> bool" where
  "needs_retry now d r \<longleftrightarrow>
     vr_status r = V_PENDING \<and>
     (case find_outbox (vr_topup_command_message_id r) d of None \<Rightarrow> False
      | Some ob \<Rightarrow> vr_offer_expires_at r \<le> now \<or> ob_status ob = DEAD)"

definition retry_of :: "lib \<Rightarrow> store \<Rightarrow> verification_row \<Rightarrow> error + pending_retry" where
  "retry_of L st r =
     (case st_decrypt L st ''activation_verifications'' (vr_id r) ''balance_id'' (vr_balance_ciphertext r) of
        Inl e \<Rightarrow> Inl e | Inr balance_id \<Rightarrow>
      case st_decrypt L st ''activation_verifications'' (vr_id r) ''sender_wallet'' (vr_sender_ciphertext r) of
        Inl e \<Rightarrow> Inl e | Inr sender \<Rightarrow>
      case st_decrypt L st ''activation_verifications'' (vr_id r) ''receiver_wallet'' (vr_receiver_ciphertext r) of
        Inl e \<Rightarrow> Inl e | Inr receiver \<Rightarrow>
      Inr \<lparr>pr_verification_id = vr_id r, pr_operation_id = vr_operation_id r,
           pr_command_message_id = vr_command_message_id r,
           pr_topup_command_message_id = vr_topup_command_message_id r,
           pr_offer_expires_at = vr_offer_expires_at r, pr_balance_id = balance_id,
           pr_facts = \<lparr>tv_operation_id = uuid_string L (vr_operation_id r), tv_transaction_id = vr_transaction_id r,
             tv_external_reservation_id = vr_external_reservation_id r, tv_sender_wallet = sender,
             tv_receiver_wallet = receiver, tv_amount = vr_amount r, tv_asset = ''USDT'', tv_network = vr_network r\<rparr>\<rparr>)"

definition pending_retries :: "lib \<Rightarrow> store \<Rightarrow> int \<Rightarrow> world \<Rightarrow> sessions_db \<Rightarrow> error + pending_retry list" where
  "pending_retries L st limit w d =
     (if stmt_fails w 0 then Inl (Wrap ''list pending verification retries'' DbUnavailable)
      else collect (retry_of L st)
        (take (nat limit) (sort_key (\<lambda>r. (vr_updated_at r, vr_id r)) (filter (needs_retry (db_now w) d) (verifications d)))))"

definition current_command :: "pending_retry \<Rightarrow> (sessions_db, verification_row) tx" where
  "current_command item =
     tx_bind (tx_query ''lock verification'' (\<lambda>w. find_verification (\<lambda>r. vr_id r = pr_verification_id item)))
       (\<lambda>r. case r of None \<Rightarrow> tx_fail SqlNoRows | Some row \<Rightarrow> tx_return row)"

definition replace_topup_command ::
  "lib \<Rightarrow> store \<Rightarrow> pending_retry \<Rightarrow> outbox_message \<Rightarrow> world \<Rightarrow> sessions_db \<Rightarrow> (error + unit) \<times> sessions_db" where
  "replace_topup_command L st item new_command w d =
     run_tx w
       (tx_bind (current_command item) (\<lambda>row.
        if vr_status row \<noteq> V_PENDING \<or> vr_topup_command_message_id row \<noteq> pr_topup_command_message_id item
        then tx_return ()
        else
        tx_bind (st_insert_outbox L st 3 new_command) (\<lambda>_.
        tx_exec sessions_ok ''replace top-up verification command'' (\<lambda>w d.
          ((), update_verifications (\<lambda>r. vr_id r = pr_verification_id item)
                 (\<lambda>r. r\<lparr>vr_topup_command_message_id := om_message_id new_command, vr_updated_at := db_now w,
                        vr_version := vr_version r + 1\<rparr>) d))))) d"

definition expire_verification ::
  "lib \<Rightarrow> store \<Rightarrow> pending_retry \<Rightarrow> result_factory \<Rightarrow> world \<Rightarrow> sessions_db \<Rightarrow> (error + unit) \<times> sessions_db" where
  "expire_verification L st item factory w d =
     run_tx w
       (tx_bind (current_command item) (\<lambda>row.
        if vr_status row \<noteq> V_PENDING \<or> vr_topup_command_message_id row \<noteq> pr_topup_command_message_id item
        then tx_return ()
        else
        tx_bind (tx_lift (\<lambda>w. Inr (go_now w 1))) (\<lambda>now.
        tx_bind (current_command item) (\<lambda>again.
        tx_bind (tx_lift (factory \<lparr>co_operation_id = pr_operation_id item, co_session_id = vr_session_id again,
            co_balance_id = pr_balance_id item, co_activated = False, co_authority_version = 0,
            co_code = ''EXPIRED'', co_retryable = False, co_occurred_at = now\<rparr>)) (\<lambda>result.
        tx_bind (st_insert_outbox L st 8 (result\<lparr>om_kind := ''RESULT''\<rparr>)) (\<lambda>_.
        tx_bind (tx_exec sessions_ok ''expire verification'' (\<lambda>w d.
            ((), update_verifications (\<lambda>r. vr_id r = pr_verification_id item)
                   (\<lambda>r. r\<lparr>vr_status := V_EXPIRED, vr_failure_code := Some ''EXPIRED'',
                          vr_completed_at := Some (db_now w), vr_updated_at := db_now w,
                          vr_version := vr_version r + 1\<rparr>) d))) (\<lambda>_.
        tx_bind (complete_inbox sessions_ok (pr_command_message_id item) (om_message_id result)) (\<lambda>_.
        confirm_outbox sessions_ok (vr_topup_command_message_id row))))))))) d"

end
