(* ===== verification/Sessions_Service.thy ===== *)
theory Sessions_Service
  imports Sessions_Store
begin

text \<open>
  src/internal/sessions/app/service.go: the message handlers of the sessions service and its
  reconciliation. A handler takes the bytes of a message and the subject it came on and runs one
  transaction; its result is Go's \<open>error\<close> and the database after it. \<open>reconcile_once\<close> runs one
  transaction per item, each in a \<open>world\<close> of its own.
\<close>

record service =
  sv_store :: store
  sv_codec :: codec
  sv_usdt_network :: string
  sv_reconcile_batch :: int

definition result_factory_of :: "lib \<Rightarrow> service \<Rightarrow> uuid \<Rightarrow> result_factory" where
  "result_factory_of L sv causation completion w =
     (let expires = co_occurred_at completion + 24 * hour in
      if co_activated completion then
        codec_sign L (sv_codec sv) w 7 ActivationActivated ActivationActivatedType (co_operation_id completion) causation
          (encode_activated \<lparr>ac_operation_id = uuid_string L (co_operation_id completion),
             ac_session_id = uuid_string L (co_session_id completion), ac_balance_id = co_balance_id completion,
             ac_status = ''ACTIVE'', ac_authority_version = co_authority_version completion,
             ac_activated_at = format_rfc3339nano (co_occurred_at completion)\<rparr>) expires
      else
        codec_sign L (sv_codec sv) w 7 ActivationRejected ActivationRejectedType (co_operation_id completion) causation
          (encode_rejection \<lparr>rj_operation_id = uuid_string L (co_operation_id completion), rj_code = co_code completion,
             rj_retryable = co_retryable completion, rj_retry_after = ''''\<rparr>) expires)"

definition incoming_of :: "verified \<Rightarrow> string \<Rightarrow> incoming" where
  "incoming_of v subj =
     \<lparr>in_message_id = vf_id v, in_subject = subj, in_producer = producer (vf_envelope v),
      in_payload = vf_payload v, in_expires_at = vf_expires v\<rparr>"

definition topup_payload :: "activation_verify \<Rightarrow> topup_verify" where
  "topup_payload command =
     \<lparr>tv_operation_id = av_operation_id command, tv_transaction_id = av_transaction_id command,
      tv_external_reservation_id = av_external_reservation_id command, tv_sender_wallet = av_sender_wallet command,
      tv_receiver_wallet = av_receiver_wallet command, tv_amount = av_amount command, tv_asset = av_asset command,
      tv_network = av_network command\<rparr>"

definition handle_activation_verify ::
  "lib \<Rightarrow> service \<Rightarrow> string \<Rightarrow> bytes \<Rightarrow> world \<Rightarrow> sessions_db \<Rightarrow> (error + unit) \<times> sessions_db" where
  "handle_activation_verify L sv subj data w d =
     (case codec_verify L (sv_codec sv) w data subj ActivationVerifyType [''rw-bot''] of
        Inl e \<Rightarrow> (Inl (Wrap ''verify activation command'' e), d) | Inr v \<Rightarrow>
      case decode_activation_verify (vf_payload v) of Inl e \<Rightarrow> (Inl e, d) | Inr command \<Rightarrow>
      case validate_activation L command (sv_usdt_network sv) (go_now w 1) of Inl e \<Rightarrow> (Inl e, d) | Inr _ \<Rightarrow>
      let topup_expiry = go_now w 2 + 5 * minute;
          topup_expiry = (if vf_expires v < topup_expiry then vf_expires v else topup_expiry)
      in case codec_sign L (sv_codec sv) w 3 TopupVerifySubject TopupVerifyType (parse_or_nil L (av_operation_id command))
                (vf_id v) (encode_topup_verify (topup_payload command)) topup_expiry of
        Inl e \<Rightarrow> (Inl e, d)
      | Inr topup \<Rightarrow>
          accept_verification L (sv_store sv) (incoming_of v subj) command (topup\<lparr>om_kind := ''COMMAND''\<rparr>) w d)"

definition handle_topup_verified ::
  "lib \<Rightarrow> service \<Rightarrow> string \<Rightarrow> bytes \<Rightarrow> world \<Rightarrow> sessions_db \<Rightarrow> (error + unit) \<times> sessions_db" where
  "handle_topup_verified L sv subj data w d =
     (case codec_verify L (sv_codec sv) w data subj TopupVerifiedType [''rw-topup''] of
        Inl e \<Rightarrow> (Inl (Wrap ''verify top-up result'' e), d) | Inr v \<Rightarrow>
      case decode_topup_verified (vf_payload v) of Inl e \<Rightarrow> (Inl e, d) | Inr result \<Rightarrow>
      apply_topup_verified L (sv_store sv) (incoming_of v subj) result (result_factory_of L sv (vf_id v)) w d)"

definition handle_topup_rejected ::
  "lib \<Rightarrow> service \<Rightarrow> string \<Rightarrow> bytes \<Rightarrow> world \<Rightarrow> sessions_db \<Rightarrow> (error + unit) \<times> sessions_db" where
  "handle_topup_rejected L sv subj data w d =
     (case codec_verify L (sv_codec sv) w data subj TopupRejectedType [''rw-topup''] of
        Inl e \<Rightarrow> (Inl (Wrap ''verify top-up rejection'' e), d) | Inr v \<Rightarrow>
      case decode_rejection (vf_payload v) of Inl e \<Rightarrow> (Inl e, d) | Inr rej \<Rightarrow>
      if rj_operation_id rej = '''' \<or> rj_code rej = '''' then (Inl (Errorf ''invalid top-up rejection''), d)
      else apply_topup_rejected L (sv_store sv) (incoming_of v subj) rej (result_factory_of L sv (vf_id v)) w d)"

section \<open>Reconciliation\<close>

definition reconcile_item ::
  "lib \<Rightarrow> service \<Rightarrow> instant \<Rightarrow> pending_retry \<Rightarrow> world \<Rightarrow> sessions_db \<Rightarrow> (error + unit) \<times> sessions_db" where
  "reconcile_item L sv now item w d =
     (if \<not> pr_offer_expires_at item > now
      then expire_verification L (sv_store sv) item (result_factory_of L sv (pr_topup_command_message_id item)) w d
      else
        let expires = now + 5 * minute;
            expires = (if pr_offer_expires_at item < expires then pr_offer_expires_at item else expires)
        in case codec_sign L (sv_codec sv) w 3 TopupVerifySubject TopupVerifyType (pr_operation_id item)
                  (pr_topup_command_message_id item) (encode_topup_verify (pr_facts item)) expires of
             Inl e \<Rightarrow> (Inl e, d)
           | Inr new_command \<Rightarrow>
               replace_topup_command L (sv_store sv) item (new_command\<lparr>om_kind := ''COMMAND''\<rparr>) w d)"

fun reconcile_items ::
  "lib \<Rightarrow> service \<Rightarrow> instant \<Rightarrow> pending_retry list \<Rightarrow> (nat \<Rightarrow> world) \<Rightarrow> nat \<Rightarrow> sessions_db \<Rightarrow> (error + unit) \<times> sessions_db" where
  "reconcile_items L sv now [] ws n d = (Inr (), d)"
| "reconcile_items L sv now (item # items) ws n d =
     (case reconcile_item L sv now item (ws n) d of
        (Inl e, d') \<Rightarrow> (Inl e, d')
      | (Inr _, d') \<Rightarrow> reconcile_items L sv now items ws (n + 1) d')"

definition reconcile_once :: "lib \<Rightarrow> service \<Rightarrow> (nat \<Rightarrow> world) \<Rightarrow> sessions_db \<Rightarrow> (error + unit) \<times> sessions_db" where
  "reconcile_once L sv ws d =
     (case pending_retries L (sv_store sv) (sv_reconcile_batch sv) (ws 0) d of
        Inl e \<Rightarrow> (Inl e, d)
      | Inr items \<Rightarrow> reconcile_items L sv (go_now (ws 0) 0) items ws 1 d)"

end
