(* ===== verification/Go_Duration.thy ===== *)
theory Go_Duration
  imports Go_Time
begin

text \<open>
  \<open>time.ParseDuration\<close>: the exact grammar, the overflow checks of the 64-bit accumulator included. The
  fraction of a unit is computed with exact arithmetic and rounded down, where Go uses a
  \<open>float64\<close> product.
\<close>

definition unit_nanos :: "bytes \<Rightarrow> nat option" where
  "unit_nanos u =
     (if u = ''ns'' then Some 1
      else if u = ''us'' \<or> u = [CHR 0xC2, CHR 0xB5] @ ''s'' \<or> u = [CHR 0xCE, CHR 0xBC] @ ''s'' then Some 1000
      else if u = ''ms'' then Some 1000000
      else if u = ''s'' then Some 1000000000
      else if u = ''m'' then Some 60000000000
      else if u = ''h'' then Some 3600000000000
      else None)"

definition max_nanos :: nat where "max_nanos = 2 ^ 63"

text \<open>\<open>leadingInt\<close> and \<open>leadingFraction\<close>; the latter ignores the digits after an overflow.\<close>

fun leading_int :: "nat \<Rightarrow> bytes \<Rightarrow> (nat \<times> bytes) option" where
  "leading_int x [] = Some (x, [])"
| "leading_int x (c # s) =
     (if \<not> is_digit c then Some (x, c # s)
      else if x > max_nanos div 10 then None
      else let y = x * 10 + digit_val c in if y > max_nanos then None else leading_int y s)"

fun leading_fraction :: "bool \<Rightarrow> nat \<Rightarrow> nat \<Rightarrow> bytes \<Rightarrow> nat \<times> nat \<times> bytes" where
  "leading_fraction over x scale [] = (x, scale, [])"
| "leading_fraction over x scale (c # s) =
     (if \<not> is_digit c then (x, scale, c # s)
      else if over \<or> x > (max_nanos - 1) div 10 \<or> x * 10 + digit_val c > max_nanos
      then leading_fraction True x scale s
      else leading_fraction False (x * 10 + digit_val c) (scale * 10) s)"

definition unit_byte :: "char \<Rightarrow> bool" where
  "unit_byte c \<longleftrightarrow> c \<noteq> CHR ''.'' \<and> \<not> is_digit c"

definition read_fraction :: "bytes \<Rightarrow> nat \<times> nat \<times> bool \<times> bytes" where
  "read_fraction s =
     (case s of c # r \<Rightarrow>
        if c = CHR ''.''
        then (case leading_fraction False 0 1 r of (f, scale, t) \<Rightarrow> (f, scale, length t \<noteq> length r, t))
        else (0, 1, False, s)
      | [] \<Rightarrow> (0, 1, False, []))"

text \<open>One number with its unit; the amount in nanoseconds and the rest.\<close>

definition duration_part :: "bytes \<Rightarrow> (nat \<times> bytes) option" where
  "duration_part s =
     (if s = [] \<or> \<not> (hd s = CHR ''.'' \<or> is_digit (hd s)) then None
      else case leading_int 0 s of None \<Rightarrow> None | Some (v, s1) \<Rightarrow>
        (case read_fraction s1 of (f, scale, post, s2) \<Rightarrow>
           if length s1 = length s \<and> \<not> post then None
           else
             let u = takeWhile unit_byte s2; s3 = dropWhile unit_byte s2 in
             if u = [] then None
             else case unit_nanos u of None \<Rightarrow> None | Some n \<Rightarrow>
               if v > max_nanos div n then None
               else let total = v * n + (if f > 0 then f * n div scale else 0) in
                 if total > max_nanos then None else Some (total, s3)))"

fun duration_parts :: "nat \<Rightarrow> nat \<Rightarrow> bytes \<Rightarrow> nat option" where
  "duration_parts 0 d s = None"
| "duration_parts (Suc fuel) d s =
     (if s = [] then Some d
      else case duration_part s of None \<Rightarrow> None | Some (v, r) \<Rightarrow>
        if d + v > max_nanos then None else duration_parts fuel (d + v) r)"

text \<open>Every part consumes a byte: the length of the text is fuel enough.\<close>

definition parse_duration :: "bytes \<Rightarrow> duration option" where
  "parse_duration s =
     (let (neg, r) = (case s of c # cs \<Rightarrow> if c = CHR ''-'' then (True, cs) else if c = CHR ''+'' then (False, cs) else (False, s)
                      | [] \<Rightarrow> (False, []))
      in if r = ''0'' then Some 0
         else if r = [] then None
         else case duration_parts (length r + 1) 0 r of None \<Rightarrow> None
           | Some d \<Rightarrow> if neg then Some (- int d) else if d > max_nanos - 1 then None else Some (int d))"

lemma leading_int_rest: "leading_int x s = Some (v, r) \<Longrightarrow> length r \<le> length s"
  by (induction s arbitrary: x) (fastforce simp: Let_def split: if_splits)+

lemma leading_fraction_rest: "leading_fraction b x k s = (f, n, r) \<Longrightarrow> length r \<le> length s"
  by (induction s arbitrary: b x k) (fastforce split: if_splits)+

lemma duration_part_shorter:
  assumes "duration_part s = Some (v, r)"
  shows "length r < length s"
proof -
  from assms obtain v1 s1 f scale post s2 where 1: "leading_int 0 s = Some (v1, s1)"
      and 2: "read_fraction s1 = (f, scale, post, s2)" and u: "takeWhile unit_byte s2 \<noteq> []"
      and r: "r = dropWhile unit_byte s2"
    by (auto simp: duration_part_def Let_def split: if_splits option.splits prod.splits)
  have "length s2 \<le> length s1"
    using 2 by (auto simp: read_fraction_def split: list.splits if_splits prod.splits dest!: leading_fraction_rest)
  moreover have "length s1 \<le> length s" using leading_int_rest [OF 1] .
  moreover have "length r < length s2"
    using u unfolding r by (cases s2) (auto simp: le_imp_less_Suc length_dropWhile_le split: if_splits)
  ultimately show ?thesis by simp
qed

text \<open>More fuel than the length changes nothing, so running out of fuel never is the reason of a failure.\<close>

lemma duration_parts_fuel:
  "length s < n \<Longrightarrow> length s < m \<Longrightarrow> duration_parts n d s = duration_parts m d s"
proof (induction n d s arbitrary: m rule: duration_parts.induct)
  case (2 n d s)
  then obtain m' where m: "m = Suc m'" by (cases m) auto
  show ?case
  proof (cases "duration_part s")
    case (Some p)
    then obtain v r where p: "p = (v, r)" by (cases p)
    have "length r < length s" using duration_part_shorter Some p by simp
    with 2(2,3) m have l: "length r < n" "length r < m'" by simp_all
    then have "s \<noteq> [] \<Longrightarrow> \<not> d + v > max_nanos \<Longrightarrow> duration_parts n (d + v) r = duration_parts m' (d + v) r"
      using 2(1) [OF _ Some p [symmetric] _ l] by simp
    then show ?thesis by (simp add: m Some p)
  qed (simp add: m)
qed simp

end
