(* ===== verification/Config.thy ===== *)
theory Config
  imports Go_Duration Keyring
begin

text \<open>
  src/internal/platform/config/config.go: the configuration, read from the environment and checked. The
  process environment is a list of \<open>NAME=value\<close> entries; \<open>host\<close> also holds what the code asks the
  operating system (the host name, \<open>Lstat\<close> and \<open>ReadFile\<close>) and the parts of a URL the code looks at,
  as \<open>net/url\<close> parses it. A setting that is not given takes its fallback value directly, where the
  code prints the fallback and parses it again.
\<close>

datatype environment = Local | Test | Staging | Prod

record url_parts =
  ur_scheme :: string
  ur_host :: string
  ur_user :: bool
  ur_sslmode :: string

record host =
  environ :: "string list"
  host_name :: "error + string"
  lstat :: "string \<Rightarrow> error + file_info"
  file_contents :: "string \<Rightarrow> error + bytes"
  url_parse :: "string \<Rightarrow> url_parts option"

definition BotService :: string where "BotService = ''rw-bot''"
definition ActiveSessions :: string where "ActiveSessions = ''rw-active-sessions''"
definition ClockSkew :: duration where "ClockSkew = 2 * minute"
definition MessageMaxBytes :: int where "MessageMaxBytes = 262144"

definition schema_version :: "string \<Rightarrow> int" where
  "schema_version service_id = (if service_id = BotService then 3 else 2)"

record database_config =
  dc_url :: string
  dc_pool_max :: int
  dc_pool_min :: int
  dc_statement_timeout :: duration
  dc_lock_timeout :: duration
  dc_idle_tx_timeout :: duration

record nats_config =
  nc_urls :: "string list"
  nc_credentials_file :: string
  nc_tls_ca_file :: string
  nc_tls_server_name :: string
  nc_connect_timeout :: duration
  nc_reconnect_wait :: duration
  nc_max_reconnects :: int
  nc_reconnect_buffer :: int
  nc_pending_messages :: int
  nc_pending_bytes :: int

record messaging =
  mg_outbox_batch :: int
  mg_outbox_concurrency :: int
  mg_retry_initial :: duration
  mg_retry_max :: duration
  mg_reconcile_interval :: duration
  mg_reconcile_batch :: int

record security_config =
  sc_signing_key_id :: string
  sc_signing_private_key_file :: string
  sc_signing_private_key :: string
  sc_trusted_keys_file :: string
  sc_data_keyring_file :: string
  sc_fingerprint_key_file :: string

record bot_config =
  bc_telegram_mode :: string
  bc_telegram_bot_id :: int
  bc_telegram_bot_username :: string
  bc_telegram_token_file :: string
  bc_telegram_token :: string
  bc_webhook_public_url :: string
  bc_webhook_secret_file :: string
  bc_poll_timeout :: duration
  bc_invite_ttl :: duration
  bc_usdt_network :: string
  bc_usdt_scale :: int
  bc_activation_amount_min :: int
  bc_activation_amount_max :: int

record sessions_config =
  se_usdt_network :: string
  se_page_size :: int

record config =
  cf_service :: string
  cf_environment :: environment
  cf_instance_id :: string
  cf_log_level :: string
  cf_http_addr :: string
  cf_metrics_addr :: string
  cf_shutdown :: duration
  cf_database :: database_config
  cf_nats :: nats_config
  cf_messaging :: messaging
  cf_security :: security_config
  cf_bot :: "bot_config option"
  cf_sessions :: "sessions_config option"

section \<open>Reading the environment\<close>

definition allowed_names :: "string list" where
  "allowed_names =
     [''RW_ENVIRONMENT'', ''RW_INSTANCE_ID'', ''RW_LOG_LEVEL'', ''RW_HTTP_ADDR'', ''RW_METRICS_ADDR'',
      ''RW_SHUTDOWN_TIMEOUT'', ''RW_OTEL_EXPORTER_OTLP_ENDPOINT'', ''RW_OTEL_SAMPLE_RATIO'',
      ''RW_DATABASE_URL_FILE'', ''RW_DATABASE_URL'', ''RW_DB_POOL_MAX'', ''RW_DB_POOL_MIN'',
      ''RW_DB_STATEMENT_TIMEOUT'', ''RW_DB_LOCK_TIMEOUT'', ''RW_DB_IDLE_TX_TIMEOUT'', ''RW_NATS_URLS'',
      ''RW_NATS_CREDS_FILE'', ''RW_NATS_TLS_CA_FILE'', ''RW_NATS_TLS_SERVER_NAME'',
      ''RW_NATS_CONNECT_TIMEOUT'', ''RW_NATS_RECONNECT_WAIT'', ''RW_NATS_MAX_RECONNECTS'',
      ''RW_NATS_RECONNECT_BUFFER'', ''RW_NATS_PENDING_MESSAGES'', ''RW_NATS_PENDING_BYTES'',
      ''RW_SIGNING_KEY_ID'', ''RW_SIGNING_PRIVATE_KEY_FILE'', ''RW_SIGNING_PRIVATE_KEY_BASE64'',
      ''RW_TRUSTED_KEYS_FILE'', ''RW_DATA_KEYRING_FILE'', ''RW_FINGERPRINT_KEY_FILE'', ''RW_CLOCK_SKEW'',
      ''RW_MESSAGE_MAX_BYTES'', ''RW_TELEGRAM_MODE'', ''RW_TELEGRAM_BOT_ID'',
      ''RW_TELEGRAM_BOT_USERNAME'', ''RW_TELEGRAM_TOKEN_FILE'', ''RW_TELEGRAM_TOKEN'',
      ''RW_TELEGRAM_WEBHOOK_PUBLIC_URL'', ''RW_TELEGRAM_WEBHOOK_SECRET_FILE'',
      ''RW_TELEGRAM_POLL_TIMEOUT'', ''RW_INVITE_TTL'', ''RW_INVITE_TTL_MIN'', ''RW_INVITE_TTL_MAX'',
      ''RW_USDT_NETWORK'', ''RW_USDT_SCALE'', ''RW_ACTIVATION_AMOUNT_MIN_MINOR'',
      ''RW_ACTIVATION_AMOUNT_MAX_MINOR'', ''RW_ACTIVATION_OFFER_MIN'', ''RW_ACTIVATION_OFFER_MAX'',
      ''RW_OUTBOX_BATCH_SIZE'', ''RW_OUTBOX_CONCURRENCY'', ''RW_OUTBOX_RETRY_INITIAL'',
      ''RW_OUTBOX_RETRY_MAX'', ''RW_RECONCILE_INTERVAL'', ''RW_RECONCILE_BATCH_SIZE'',
      ''RW_RETENTION_INTERVAL'', ''RW_RETENTION_BATCH_SIZE'', ''RW_TELEGRAM_RATE_PER_MINUTE'',
      ''RW_TELEGRAM_RATE_BURST'', ''RW_INVALID_INVITE_LIMIT'', ''RW_INVALID_INVITE_WINDOW'',
      ''RW_INVALID_INVITE_BLOCK'', ''RW_ACTIVATION_RATE_IDENTITY_HOURLY'',
      ''RW_ACTIVATION_RATE_BALANCE_HOURLY'', ''RW_SESSION_LIST_PAGE_SIZE'', ''RW_SESSION_LIST_PAGE_MAX'',
      ''RW_VERIFICATION_DEADLINE_MAX'']"

definition reject_unknown :: "host \<Rightarrow> error + unit" where
  "reject_unknown H =
     (case find (\<lambda>item. let name = fst (go_cut CHR ''='' item) in starts_with ''RW_'' name \<and> name \<notin> set allowed_names) (environ H) of
        None \<Rightarrow> Inr ()
      | Some item \<Rightarrow> Inl (Errorf (''unknown configuration variable '' @ fst (go_cut CHR ''='' item))))"

text \<open>\<open>os.Getenv\<close>: the first entry with the name, and the empty string where there is none.\<close>

definition getenv :: "host \<Rightarrow> string \<Rightarrow> string" where
  "getenv H name =
     (case find (\<lambda>item. CHR ''='' \<in> set item \<and> fst (go_cut CHR ''='' item) = name) (environ H) of
        None \<Rightarrow> '''' | Some item \<Rightarrow> fst (snd (go_cut CHR ''='' item)))"

definition env_fixed :: "host \<Rightarrow> string \<Rightarrow> string \<Rightarrow> error + unit" where
  "env_fixed H name expected =
     (let actual = trim_space (getenv H name) in
      if actual \<noteq> '''' \<and> actual \<noteq> expected then Inl (Errorf (name @ '' is fixed to '' @ expected)) else Inr ())"

definition env_value :: "host \<Rightarrow> string \<Rightarrow> string \<Rightarrow> string" where
  "env_value H name fallback = (let v = trim_space (getenv H name) in if v \<noteq> '''' then v else fallback)"

definition hostname :: "host \<Rightarrow> string" where
  "hostname H = (case host_name H of Inl _ \<Rightarrow> ''localhost'' | Inr h \<Rightarrow> if h = '''' then ''localhost'' else h)"

definition env_split :: "string \<Rightarrow> string list" where
  "env_split raw = filter (\<lambda>v. v \<noteq> '''') (map trim_space (go_split CHR '','' raw))"

definition env_duration :: "host \<Rightarrow> string \<Rightarrow> duration \<Rightarrow> error + duration" where
  "env_duration H name fallback =
     (let raw = trim_space (getenv H name) in
      case (if raw = '''' then Some fallback else parse_duration raw) of
        None \<Rightarrow> Inl (Errorf (name @ '' must be a positive duration''))
      | Some v \<Rightarrow> if v \<le> 0 then Inl (Errorf (name @ '' must be a positive duration'')) else Inr v)"

definition env_integer :: "host \<Rightarrow> string \<Rightarrow> int \<Rightarrow> error + int" where
  "env_integer H name fallback =
     (let raw = trim_space (getenv H name) in
      case (if raw = '''' then Some fallback else parse_int64 raw) of
        None \<Rightarrow> Inl (Errorf (name @ '' must be an integer'')) | Some v \<Rightarrow> Inr v)"

definition env_integer_required :: "host \<Rightarrow> string \<Rightarrow> error + int" where
  "env_integer_required H name =
     (let raw = getenv H name in
      if raw = '''' then Inl (Errorf (name @ '' is required''))
      else case parse_int64 raw of
        None \<Rightarrow> Inl (Errorf (name @ '' must be a non-negative integer''))
      | Some v \<Rightarrow> if v < 0 then Inl (Errorf (name @ '' must be a non-negative integer'')) else Inr v)"

definition env_int64_required :: "host \<Rightarrow> string \<Rightarrow> error + int" where
  "env_int64_required H name =
     (let raw = getenv H name in
      if raw = '''' then Inl (Errorf (name @ '' is required''))
      else case parse_int64 raw of None \<Rightarrow> Inl (Errorf (name @ '' must be an integer'')) | Some v \<Rightarrow> Inr v)"

definition env_int32 :: "host \<Rightarrow> string \<Rightarrow> int \<Rightarrow> error + int" where
  "env_int32 H name fallback =
     (case env_integer H name fallback of
        Inl _ \<Rightarrow> Inl (Errorf (name @ '' must be a valid non-negative int32''))
      | Inr v \<Rightarrow> if v < 0 \<or> v > 2147483647 then Inl (Errorf (name @ '' must be a valid non-negative int32'')) else Inr v)"

definition ends_with :: "bytes \<Rightarrow> bytes \<Rightarrow> bool" where
  "ends_with suffix s \<longleftrightarrow> starts_with (rev suffix) (rev s)"

text \<open>The product of two 64-bit integers, as Go wraps it.\<close>

definition int64_mult :: "int \<Rightarrow> int \<Rightarrow> int" where
  "int64_mult a b = sint (word_of_int (a * b) :: 64 word)"

definition scaled_bytes :: "string \<Rightarrow> string \<Rightarrow> string \<Rightarrow> int \<Rightarrow> error + int" where
  "scaled_bytes name raw suffix multiplier =
     (case parse_int64 (take (length raw - length suffix) raw) of
        None \<Rightarrow> Inl (Errorf (name @ '' must be bytes, KiB or MiB''))
      | Some n \<Rightarrow> if n < 0 then Inl (Errorf (name @ '' must be bytes, KiB or MiB'')) else Inr (int64_mult n multiplier))"

definition env_bytes :: "host \<Rightarrow> string \<Rightarrow> int \<Rightarrow> error + int" where
  "env_bytes H name fallback =
     (let raw = trim_space (getenv H name) in
      if raw = '''' then Inr fallback
      else if ends_with ''KiB'' raw then scaled_bytes name raw ''KiB'' 1024
      else if ends_with ''MiB'' raw then scaled_bytes name raw ''MiB'' 1048576
      else case parse_int64 raw of
        None \<Rightarrow> Inl (Errorf (name @ '' must be bytes, KiB or MiB''))
      | Some v \<Rightarrow> if v < 0 then Inl (Errorf (name @ '' must be bytes, KiB or MiB'')) else Inr v)"

definition deployed :: "environment \<Rightarrow> bool" where
  "deployed e \<longleftrightarrow> e = Staging \<or> e = Prod"

definition validate_secret_file :: "host \<Rightarrow> string \<Rightarrow> error + unit" where
  "validate_secret_file H path =
     (case lstat H path of Inl e \<Rightarrow> Inl (Wrap ''inspect secret file'' e)
      | Inr info \<Rightarrow>
          if fi_symlink info \<or> \<not> fi_regular info
          then Inl (Errorf ''secret path must be a regular non-symlink file'')
          else if fi_perm info AND 0b010010 \<noteq> 0
          then Inl (Errorf ''secret file must not be group/world-writable'')
          else Inr ())"

definition secret_value :: "host \<Rightarrow> string \<Rightarrow> string \<Rightarrow> environment \<Rightarrow> bool \<Rightarrow> error + string" where
  "secret_value H value_name file_name env required =
     (let direct = trim_space (getenv H value_name); path = trim_space (getenv H file_name) in
      if direct \<noteq> '''' \<and> path \<noteq> '''' then Inl (Errorf (''configure only one of '' @ value_name @ '' and '' @ file_name))
      else if deployed env \<and> direct \<noteq> '''' then Inl (Errorf (value_name @ '' is forbidden in staging/prod''))
      else if path \<noteq> '''' then
        (case validate_secret_file H path of Inl e \<Rightarrow> Inl (Wrap (''validate '' @ file_name) e)
         | Inr _ \<Rightarrow>
             (case file_contents H path of Inl e \<Rightarrow> Inl (Wrap (''read '' @ file_name) e)
              | Inr data \<Rightarrow> Inr (trim_space data)))
      else if required \<and> direct = '''' then Inl (Errorf (value_name @ '' or '' @ file_name @ '' is required''))
      else Inr direct)"

section \<open>The parts of the configuration\<close>

definition validate_database_policy :: "host \<Rightarrow> string \<Rightarrow> environment \<Rightarrow> error + unit" where
  "validate_database_policy H raw env =
     (if \<not> deployed env then Inr ()
      else case url_parse H raw of
        None \<Rightarrow> Inl (Errorf ''production database URL must use postgres:// or postgresql://'')
      | Some u \<Rightarrow>
          if (ur_scheme u \<noteq> ''postgres'' \<and> ur_scheme u \<noteq> ''postgresql'') \<or> ur_host u = ''''
          then Inl (Errorf ''production database URL must use postgres:// or postgresql://'')
          else if ur_sslmode u \<noteq> ''verify-full'' then Inl (Errorf ''production database URL must use sslmode=verify-full'')
          else Inr ())"

definition load_messaging :: "host \<Rightarrow> error + messaging" where
  "load_messaging H =
     (case env_integer H ''RW_OUTBOX_BATCH_SIZE'' 100 of Inl e \<Rightarrow> Inl e | Inr batch \<Rightarrow>
      case env_integer H ''RW_OUTBOX_CONCURRENCY'' 8 of Inl e \<Rightarrow> Inl e | Inr concurrency \<Rightarrow>
      case env_duration H ''RW_OUTBOX_RETRY_INITIAL'' (250 * millisecond) of Inl e \<Rightarrow> Inl e | Inr initial \<Rightarrow>
      case env_duration H ''RW_OUTBOX_RETRY_MAX'' (30 * second) of Inl e \<Rightarrow> Inl e | Inr maximum \<Rightarrow>
      case env_duration H ''RW_RECONCILE_INTERVAL'' (30 * second) of Inl e \<Rightarrow> Inl e | Inr interval \<Rightarrow>
      case env_integer H ''RW_RECONCILE_BATCH_SIZE'' 100 of Inl e \<Rightarrow> Inl e | Inr reconcile \<Rightarrow>
      if batch < 1 \<or> batch > 1000 \<or> concurrency < 1 \<or> concurrency > 64 \<or> reconcile < 1 \<or> reconcile > 1000
      then Inl (Errorf ''messaging batch and concurrency values are outside allowed range'')
      else if initial > maximum then Inl (Errorf ''RW_OUTBOX_RETRY_INITIAL must not exceed RW_OUTBOX_RETRY_MAX'')
      else Inr \<lparr>mg_outbox_batch = batch, mg_outbox_concurrency = concurrency, mg_retry_initial = initial,
                mg_retry_max = maximum, mg_reconcile_interval = interval, mg_reconcile_batch = reconcile\<rparr>)"

definition load_database :: "host \<Rightarrow> string \<Rightarrow> error + database_config" where
  "load_database H database_url =
     (case env_int32 H ''RW_DB_POOL_MAX'' 20 of Inl e \<Rightarrow> Inl e | Inr pool_max \<Rightarrow>
      case env_int32 H ''RW_DB_POOL_MIN'' 2 of Inl e \<Rightarrow> Inl e | Inr pool_min \<Rightarrow>
      case env_duration H ''RW_DB_STATEMENT_TIMEOUT'' (5 * second) of Inl e \<Rightarrow> Inl e | Inr statement_timeout \<Rightarrow>
      case env_duration H ''RW_DB_LOCK_TIMEOUT'' second of Inl e \<Rightarrow> Inl e | Inr lock_timeout \<Rightarrow>
      case env_duration H ''RW_DB_IDLE_TX_TIMEOUT'' (10 * second) of Inl e \<Rightarrow> Inl e | Inr idle_timeout \<Rightarrow>
      if pool_min < 0 \<or> pool_max < 1 \<or> pool_min > pool_max then Inl (Errorf ''database pool sizes are invalid'')
      else Inr \<lparr>dc_url = database_url, dc_pool_max = pool_max, dc_pool_min = pool_min,
                dc_statement_timeout = statement_timeout, dc_lock_timeout = lock_timeout, dc_idle_tx_timeout = idle_timeout\<rparr>)"

definition check_nats_url :: "host \<Rightarrow> environment \<Rightarrow> string \<Rightarrow> error + unit" where
  "check_nats_url H env raw =
     (case url_parse H raw of None \<Rightarrow> Inl (Errorf ''invalid NATS URL'')
      | Some u \<Rightarrow>
          if (ur_scheme u \<noteq> ''nats'' \<and> ur_scheme u \<noteq> ''tls'') \<or> ur_host u = '''' then Inl (Errorf ''invalid NATS URL'')
          else if ur_user u then Inl (Errorf ''NATS credentials must not be embedded in URLs'')
          else if deployed env \<and> ur_scheme u \<noteq> ''tls'' then Inl (Errorf ''NATS URLs must use tls:// in staging/prod'')
          else Inr ())"

text \<open>A loop whose body returns on the first error.\<close>

fun each_ok :: "('a \<Rightarrow> error + unit) \<Rightarrow> 'a list \<Rightarrow> error + unit" where
  "each_ok f [] = Inr ()"
| "each_ok f (x # xs) = (case f x of Inl e \<Rightarrow> Inl e | Inr _ \<Rightarrow> each_ok f xs)"

definition load_nats :: "host \<Rightarrow> environment \<Rightarrow> error + nats_config" where
  "load_nats H env =
     (let urls = env_split (getenv H ''RW_NATS_URLS''); credentials = getenv H ''RW_NATS_CREDS_FILE'';
          ca = getenv H ''RW_NATS_TLS_CA_FILE''; server = getenv H ''RW_NATS_TLS_SERVER_NAME'' in
      if urls = [] then Inl (Errorf ''RW_NATS_URLS is required'')
      else case each_ok (check_nats_url H env) urls of Inl e \<Rightarrow> Inl e | Inr _ \<Rightarrow>
      if deployed env \<and> (credentials = '''' \<or> ca = '''' \<or> server = '''')
      then Inl (Errorf ''NATS credentials and TLS settings are required in staging/prod'')
      else case each_ok (validate_secret_file H) (filter (\<lambda>p. p \<noteq> '''') [credentials, ca]) of Inl e \<Rightarrow> Inl e | Inr _ \<Rightarrow>
      case env_duration H ''RW_NATS_CONNECT_TIMEOUT'' (3 * second) of Inl e \<Rightarrow> Inl e | Inr connect_timeout \<Rightarrow>
      case env_duration H ''RW_NATS_RECONNECT_WAIT'' second of Inl e \<Rightarrow> Inl e | Inr reconnect_wait \<Rightarrow>
      case env_integer H ''RW_NATS_MAX_RECONNECTS'' (- 1) of Inl e \<Rightarrow> Inl e | Inr max_reconnects \<Rightarrow>
      case env_bytes H ''RW_NATS_RECONNECT_BUFFER'' 8388608 of Inl e \<Rightarrow> Inl e | Inr reconnect_buffer \<Rightarrow>
      case env_integer H ''RW_NATS_PENDING_MESSAGES'' 4096 of Inl e \<Rightarrow> Inl e | Inr pending_messages \<Rightarrow>
      case env_bytes H ''RW_NATS_PENDING_BYTES'' 16777216 of Inl e \<Rightarrow> Inl e | Inr pending_bytes \<Rightarrow>
      Inr \<lparr>nc_urls = urls, nc_credentials_file = credentials, nc_tls_ca_file = ca, nc_tls_server_name = server,
           nc_connect_timeout = connect_timeout, nc_reconnect_wait = reconnect_wait, nc_max_reconnects = max_reconnects,
           nc_reconnect_buffer = reconnect_buffer, nc_pending_messages = pending_messages, nc_pending_bytes = pending_bytes\<rparr>)"

definition load_security :: "host \<Rightarrow> environment \<Rightarrow> error + security_config" where
  "load_security H env =
     (let cfg = \<lparr>sc_signing_key_id = getenv H ''RW_SIGNING_KEY_ID'',
            sc_signing_private_key_file = getenv H ''RW_SIGNING_PRIVATE_KEY_FILE'',
            sc_signing_private_key = getenv H ''RW_SIGNING_PRIVATE_KEY_BASE64'',
            sc_trusted_keys_file = getenv H ''RW_TRUSTED_KEYS_FILE'', sc_data_keyring_file = getenv H ''RW_DATA_KEYRING_FILE'',
            sc_fingerprint_key_file = getenv H ''RW_FINGERPRINT_KEY_FILE''\<rparr> in
      if sc_signing_key_id cfg = '''' \<or> sc_trusted_keys_file cfg = '''' \<or> sc_data_keyring_file cfg = '''' \<or>
         sc_fingerprint_key_file cfg = ''''
      then Inl (Errorf ''signing key ID and security manifests are required'')
      else if sc_signing_private_key_file cfg \<noteq> '''' \<and> sc_signing_private_key cfg \<noteq> ''''
      then Inl (Errorf ''configure only one signing private key source'')
      else if deployed env \<and> (sc_signing_private_key_file cfg = '''' \<or> sc_signing_private_key cfg \<noteq> '''')
      then Inl (Errorf ''signing private key file is required in staging/prod'')
      else if \<not> deployed env \<and> sc_signing_private_key_file cfg = '''' \<and> sc_signing_private_key cfg = ''''
      then Inl (Errorf ''signing private key is required'')
      else Inr cfg)"

definition load_sessions :: "host \<Rightarrow> error + sessions_config" where
  "load_sessions H =
     (let network = getenv H ''RW_USDT_NETWORK'' in
      case env_integer H ''RW_SESSION_LIST_PAGE_SIZE'' 20 of Inl e \<Rightarrow> Inl e | Inr page_size \<Rightarrow>
      if network = '''' then Inl (Errorf ''RW_USDT_NETWORK is required'')
      else if page_size < 1 \<or> page_size > 100 then Inl (Errorf ''RW_SESSION_LIST_PAGE_SIZE must be between 1 and 100'')
      else case env_fixed H ''RW_SESSION_LIST_PAGE_MAX'' ''100'' of Inl e \<Rightarrow> Inl e | Inr _ \<Rightarrow>
      case env_fixed H ''RW_VERIFICATION_DEADLINE_MAX'' ''2h'' of Inl e \<Rightarrow> Inl e | Inr _ \<Rightarrow>
      Inr \<lparr>se_usdt_network = network, se_page_size = page_size\<rparr>)"

text \<open>The settings of the bot that every mode needs, and then those of each mode.\<close>

definition load_bot_common :: "host \<Rightarrow> error + bot_config" where
  "load_bot_common H =
     (case env_integer H ''RW_TELEGRAM_BOT_ID'' 0 of Inl e \<Rightarrow> Inl e | Inr bot_id \<Rightarrow>
      case env_duration H ''RW_TELEGRAM_POLL_TIMEOUT'' (30 * second) of Inl e \<Rightarrow> Inl e | Inr poll_timeout \<Rightarrow>
      case env_duration H ''RW_INVITE_TTL'' (24 * hour) of Inl e \<Rightarrow> Inl e | Inr ttl \<Rightarrow>
      case env_integer_required H ''RW_USDT_SCALE'' of Inl e \<Rightarrow> Inl e | Inr scale \<Rightarrow>
      case env_int64_required H ''RW_ACTIVATION_AMOUNT_MIN_MINOR'' of Inl e \<Rightarrow> Inl e | Inr amount_min \<Rightarrow>
      case env_int64_required H ''RW_ACTIVATION_AMOUNT_MAX_MINOR'' of Inl e \<Rightarrow> Inl e | Inr amount_max \<Rightarrow>
      if getenv H ''RW_USDT_NETWORK'' = '''' then Inl (Errorf ''RW_USDT_NETWORK is required'')
      else if scale < 0 \<or> scale > 18 then Inl (Errorf ''RW_USDT_SCALE must be between 0 and 18'')
      else if ttl < 5 * minute \<or> ttl > 168 * hour then Inl (Errorf ''RW_INVITE_TTL must be between 5m and 168h'')
      else if amount_min < 0 \<or> amount_max < amount_min \<or> amount_max - amount_min < 999
      then Inl (Errorf ''activation amount range must contain at least 1000 values'')
      else case each_ok (\<lambda>(name, expected). env_fixed H name expected)
          [(''RW_INVITE_TTL_MIN'', ''5m''), (''RW_INVITE_TTL_MAX'', ''168h''), (''RW_ACTIVATION_OFFER_MIN'', ''1m''),
           (''RW_ACTIVATION_OFFER_MAX'', ''60m'')] of Inl e \<Rightarrow> Inl e | Inr _ \<Rightarrow>
      Inr \<lparr>bc_telegram_mode = getenv H ''RW_TELEGRAM_MODE'', bc_telegram_bot_id = bot_id,
           bc_telegram_bot_username = getenv H ''RW_TELEGRAM_BOT_USERNAME'',
           bc_telegram_token_file = getenv H ''RW_TELEGRAM_TOKEN_FILE'', bc_telegram_token = getenv H ''RW_TELEGRAM_TOKEN'',
           bc_webhook_public_url = getenv H ''RW_TELEGRAM_WEBHOOK_PUBLIC_URL'',
           bc_webhook_secret_file = getenv H ''RW_TELEGRAM_WEBHOOK_SECRET_FILE'', bc_poll_timeout = poll_timeout,
           bc_invite_ttl = ttl, bc_usdt_network = getenv H ''RW_USDT_NETWORK'', bc_usdt_scale = scale,
           bc_activation_amount_min = amount_min, bc_activation_amount_max = amount_max\<rparr>)"

definition load_bot_mode :: "host \<Rightarrow> environment \<Rightarrow> bot_config \<Rightarrow> error + bot_config" where
  "load_bot_mode H env cfg =
     (let credentials = (bc_telegram_token cfg \<noteq> '''' \<or> bc_telegram_token_file cfg \<noteq> '''' \<or>
            bc_webhook_public_url cfg \<noteq> '''' \<or> bc_webhook_secret_file cfg \<noteq> '''') in
      if bc_telegram_mode cfg = ''disabled'' then
        (if env \<noteq> Local \<and> env \<noteq> Test then Inl (Errorf ''disabled Telegram mode is allowed only in local/test'')
         else if credentials
         then Inl (Errorf ''telegram credentials and webhook settings are forbidden in disabled mode'')
         else Inr cfg)
      else if bc_telegram_mode cfg = ''natsproxy'' then
        (if credentials
         then Inl (Errorf ''telegram credentials and webhook settings are forbidden in natsproxy mode'')
         else Inr cfg)
      else if bc_telegram_mode cfg = ''direct_polling'' then
        (case secret_value H ''RW_TELEGRAM_TOKEN'' ''RW_TELEGRAM_TOKEN_FILE'' env True of Inl e \<Rightarrow> Inl e | Inr token \<Rightarrow>
         if bc_webhook_public_url cfg \<noteq> '''' \<or> bc_webhook_secret_file cfg \<noteq> ''''
         then Inl (Errorf ''webhook settings are forbidden in polling mode'')
         else Inr (cfg\<lparr>bc_telegram_token := token\<rparr>))
      else if bc_telegram_mode cfg = ''direct_webhook'' then
        (case secret_value H ''RW_TELEGRAM_TOKEN'' ''RW_TELEGRAM_TOKEN_FILE'' env True of Inl e \<Rightarrow> Inl e | Inr token \<Rightarrow>
         case url_parse H (bc_webhook_public_url cfg) of
           None \<Rightarrow> Inl (Errorf ''valid HTTPS webhook URL and secret file are required'')
         | Some u \<Rightarrow>
             if ur_scheme u \<noteq> ''https'' \<or> ur_host u = '''' \<or> bc_webhook_secret_file cfg = ''''
             then Inl (Errorf ''valid HTTPS webhook URL and secret file are required'')
             else Inr (cfg\<lparr>bc_telegram_token := token\<rparr>))
      else Inl (Errorf ''RW_TELEGRAM_MODE must be disabled, direct_polling, direct_webhook or natsproxy''))"

definition load_bot :: "host \<Rightarrow> environment \<Rightarrow> error + bot_config" where
  "load_bot H env =
     (case load_bot_common H of Inl e \<Rightarrow> Inl e | Inr common \<Rightarrow>
      case load_bot_mode H env common of Inl e \<Rightarrow> Inl e | Inr cfg \<Rightarrow>
      if bc_telegram_mode cfg \<noteq> ''disabled'' \<and>
         (env = Staging \<or> env = Prod \<or> bc_telegram_mode cfg \<noteq> ''direct_polling'') \<and>
         (bc_telegram_bot_id cfg \<le> 0 \<or> bc_telegram_bot_username cfg = '''')
      then Inl (Errorf ''telegram bot ID and username are required for this environment and mode'')
      else Inr cfg)"

definition environment_of :: "string \<Rightarrow> environment option" where
  "environment_of s =
     (if s = ''local'' then Some Local else if s = ''test'' then Some Test
      else if s = ''staging'' then Some Staging else if s = ''prod'' then Some Prod else None)"

definition load_start :: "host \<Rightarrow> error + environment \<times> string" where
  "load_start H =
     (case reject_unknown H of Inl e \<Rightarrow> Inl e | Inr _ \<Rightarrow>
      case environment_of (getenv H ''RW_ENVIRONMENT'') of
        None \<Rightarrow> Inl (Errorf ''RW_ENVIRONMENT must be local, test, staging or prod'') | Some env \<Rightarrow>
      case env_fixed H ''RW_CLOCK_SKEW'' ''2m'' of Inl e \<Rightarrow> Inl e | Inr _ \<Rightarrow>
      case env_fixed H ''RW_MESSAGE_MAX_BYTES'' ''262144'' of Inl e \<Rightarrow> Inl e | Inr _ \<Rightarrow>
      case secret_value H ''RW_DATABASE_URL'' ''RW_DATABASE_URL_FILE'' env True of Inl e \<Rightarrow> Inl e | Inr database_url \<Rightarrow>
      case validate_database_policy H database_url env of Inl e \<Rightarrow> Inl e | Inr _ \<Rightarrow>
      Inr (env, database_url))"

definition load_parts :: "string \<Rightarrow> host \<Rightarrow> environment \<Rightarrow> string \<Rightarrow> error + config" where
  "load_parts service_id H env database_url =
     (case env_duration H ''RW_SHUTDOWN_TIMEOUT'' (30 * second) of Inl e \<Rightarrow> Inl e | Inr shutdown \<Rightarrow>
      case load_database H database_url of Inl e \<Rightarrow> Inl e | Inr database \<Rightarrow>
      case load_nats H env of Inl e \<Rightarrow> Inl e | Inr nats \<Rightarrow>
      case load_messaging H of Inl e \<Rightarrow> Inl e | Inr msg \<Rightarrow>
      case load_security H env of Inl e \<Rightarrow> Inl e | Inr security \<Rightarrow>
      Inr \<lparr>cf_service = service_id, cf_environment = env,
           cf_instance_id = env_value H ''RW_INSTANCE_ID'' (hostname H),
           cf_log_level = env_value H ''RW_LOG_LEVEL'' ''info'', cf_http_addr = env_value H ''RW_HTTP_ADDR'' '':8080'',
           cf_metrics_addr = env_value H ''RW_METRICS_ADDR'' '':9090'', cf_shutdown = shutdown,
           cf_database = database, cf_nats = nats, cf_messaging = msg, cf_security = security, cf_bot = None,
           cf_sessions = None\<rparr>)"

definition check_parts :: "host \<Rightarrow> config \<Rightarrow> error + unit" where
  "check_parts H cfg =
     (if cf_log_level cfg \<notin> {''debug'', ''info'', ''warn'', ''error''}
      then Inl (Errorf ''RW_LOG_LEVEL must be debug, info, warn or error'')
      else if cf_environment cfg = Prod \<and> trim_space (getenv H ''RW_INSTANCE_ID'') = ''''
      then Inl (Errorf ''RW_INSTANCE_ID is required in prod'')
      else if cf_http_addr cfg = cf_metrics_addr cfg then Inl (Errorf ''RW_HTTP_ADDR and RW_METRICS_ADDR must differ'')
      else Inr ())"

definition load_config :: "string \<Rightarrow> host \<Rightarrow> error + config" where
  "load_config service_id H =
     (if service_id \<noteq> BotService \<and> service_id \<noteq> ActiveSessions then Inl (Errorf ''unsupported service'')
      else case load_start H of Inl e \<Rightarrow> Inl e | Inr (env, database_url) \<Rightarrow>
      case load_parts service_id H env database_url of Inl e \<Rightarrow> Inl e | Inr cfg \<Rightarrow>
      case check_parts H cfg of Inl e \<Rightarrow> Inl e | Inr _ \<Rightarrow>
      if service_id = BotService
      then (case load_bot H env of Inl e \<Rightarrow> Inl e | Inr b \<Rightarrow> Inr (cfg\<lparr>cf_bot := Some b\<rparr>))
      else (case load_sessions H of Inl e \<Rightarrow> Inl e | Inr s \<Rightarrow> Inr (cfg\<lparr>cf_sessions := Some s\<rparr>)))"

end
