(* ===== verification/Outbox.thy ===== *)
theory Outbox
  imports Message_Store Config "HOL-Library.Product_Lexorder"
begin

text \<open>
  src/internal/platform/message/outbox.go: the publisher. One batch is a statement that expires, one
  that claims, and then one publication per claimed message; the goroutines of a batch touch
  different rows and are modelled one after the other. \<open>nats_ok i\<close> says whether publishing and flushing
  the \<open>i\<close>-th message succeeds, \<open>ws i\<close> is the world of its statement. The exponential backoff is
  computed exactly: the code's \<open>float64\<close> product is exact below 2^53 and only compared above; its
  jitter is the fraction \<open>j / 2^53\<close> that \<open>rand.Float64\<close> draws, without the rounding of the product.
\<close>

record publisher =
  pb_config :: messaging
  pb_keyring :: data_keyring
  pb_service :: string

record claimed_message =
  cm_id :: uuid
  cm_subject :: string
  cm_envelope :: bytes
  cm_attempts :: int

definition base_delay :: "messaging \<Rightarrow> int \<Rightarrow> duration" where
  "base_delay cfg attempt =
     (let delay = mg_retry_initial cfg * 2 ^ nat (max (attempt - 1) 0)
      in if delay > mg_retry_max cfg \<or> delay < 0 then mg_retry_max cfg else delay)"

definition retry_delay :: "messaging \<Rightarrow> int \<Rightarrow> nat \<Rightarrow> duration" where
  "retry_delay cfg attempt j = base_delay cfg attempt * (4 * 2 ^ 53 + 2 * int j) div (5 * 2 ^ 53)"

text \<open>\<open>%f seconds\<close> has six decimals: an interval of whole microseconds.\<close>

definition interval_literal :: "duration \<Rightarrow> duration" where
  "interval_literal d = (d + 500) div 1000 * 1000"

section \<open>Statements\<close>

definition open_status :: "outbox_row \<Rightarrow> bool" where
  "open_status r \<longleftrightarrow> ob_status r \<notin> {CONFIRMED, DEAD}"

definition expire_outbox :: "('a msgdb_scheme \<Rightarrow> bool) \<Rightarrow> ('a msgdb_scheme, unit) tx" where
  "expire_outbox ok =
     tx_exec ok ''expire outbox messages'' (\<lambda>w d.
       ((), update_outbox (\<lambda>r. open_status r \<and> ob_expires_at r \<le> db_now w)
              (\<lambda>r. r\<lparr>ob_status := DEAD, ob_lease_until := None, ob_last_error_code := Some ''EXPIRED''\<rparr>) d))"

definition due :: "instant \<Rightarrow> outbox_row \<Rightarrow> bool" where
  "due now r \<longleftrightarrow>
     ((ob_status r = PENDING \<and> ob_next_attempt_at r \<le> now) \<or>
      (ob_status r = PUBLISHED \<and> ob_kind r = ''COMMAND'' \<and> ob_next_attempt_at r \<le> now) \<or>
      (ob_status r = PUBLISHING \<and> (case ob_lease_until r of None \<Rightarrow> False | Some l \<Rightarrow> l \<le> now))) \<and>
     ob_expires_at r > now"

definition due_ids :: "int \<Rightarrow> instant \<Rightarrow> 'a msgdb_scheme \<Rightarrow> uuid list" where
  "due_ids batch now d =
     map ob_message_id
       (take (nat batch) (sort_key (\<lambda>r. (ob_next_attempt_at r, ob_created_at r)) (filter (due now) (outbox d))))"

definition claimed_of :: "outbox_row \<Rightarrow> claimed_message" where
  "claimed_of r = \<lparr>cm_id = ob_message_id r, cm_subject = ob_subject r, cm_envelope = ob_envelope r,
                   cm_attempts = ob_attempts r\<rparr>"

definition claim :: "('a msgdb_scheme \<Rightarrow> bool) \<Rightarrow> int \<Rightarrow> ('a msgdb_scheme, claimed_message list) tx" where
  "claim ok batch =
     tx_exec ok ''claim outbox messages'' (\<lambda>w d.
       let ids = due_ids batch (db_now w) d in
       (map claimed_of (filter (\<lambda>r. ob_message_id r \<in> set ids) (outbox d)),
        update_outbox (\<lambda>r. ob_message_id r \<in> set ids)
          (\<lambda>r. r\<lparr>ob_status := PUBLISHING, ob_lease_until := Some (db_now w + 30 * second)\<rparr>) d))"

definition is_publishing :: "uuid \<Rightarrow> outbox_row \<Rightarrow> bool" where
  "is_publishing mid r \<longleftrightarrow> ob_message_id r = mid \<and> ob_status r = PUBLISHING"

definition mark_retry ::
  "('a msgdb_scheme \<Rightarrow> bool) \<Rightarrow> messaging \<Rightarrow> nat \<Rightarrow> claimed_message \<Rightarrow> string \<Rightarrow> ('a msgdb_scheme, unit) tx" where
  "mark_retry ok cfg j item code =
     tx_exec ok ''mark retry'' (\<lambda>w d.
       ((), update_outbox (is_publishing (cm_id item))
              (\<lambda>r. r\<lparr>ob_status := PENDING, ob_attempts := ob_attempts r + 1,
                     ob_next_attempt_at := db_now w + interval_literal (retry_delay cfg (cm_attempts item + 1) j),
                     ob_lease_until := None, ob_last_error_code := Some code\<rparr>) d))"

definition mark_published ::
  "('a msgdb_scheme \<Rightarrow> bool) \<Rightarrow> messaging \<Rightarrow> nat \<Rightarrow> claimed_message \<Rightarrow> ('a msgdb_scheme, unit) tx" where
  "mark_published ok cfg j item =
     tx_exec ok ''mark published'' (\<lambda>w d.
       ((), update_outbox (is_publishing (cm_id item))
              (\<lambda>r. r\<lparr>ob_status := PUBLISHED, ob_attempts := ob_attempts r + 1, ob_published_at := Some (db_now w),
                     ob_next_attempt_at := db_now w + interval_literal (retry_delay cfg (cm_attempts item + 1) j),
                     ob_lease_until := None, ob_last_error_code := None\<rparr>) d))"

section \<open>A batch\<close>

text \<open>What \<open>publishOne\<close> hands to NATS (subject and bytes), and the database after it.\<close>

definition publish_one ::
  "('a msgdb_scheme \<Rightarrow> bool) \<Rightarrow> lib \<Rightarrow> publisher \<Rightarrow> claimed_message \<Rightarrow> bool \<Rightarrow> nat \<Rightarrow> world \<Rightarrow> 'a msgdb_scheme \<Rightarrow>
    (string \<times> bytes) option \<times> 'a msgdb_scheme" where
  "publish_one ok L pb item nats_ok j w d =
     (case open_outbox L (pb_keyring pb) (pb_service pb)
             \<lparr>om_message_id = cm_id item, om_subject = cm_subject item, om_envelope = cm_envelope item,
              om_kind = '''', om_expires_at = zero_time\<rparr> of
        Inl _ \<Rightarrow> (None, snd (run_tx w (mark_retry ok (pb_config pb) j item ''OUTBOX_DECRYPT_FAILED'') d))
      | Inr opened \<Rightarrow>
          (Some (cm_subject item, om_envelope opened),
           if nats_ok then snd (run_tx w (mark_published ok (pb_config pb) j item) d)
           else snd (run_tx w (mark_retry ok (pb_config pb) j item ''NATS_PUBLISH_FAILED'') d)))"

fun publish_items ::
  "('a msgdb_scheme \<Rightarrow> bool) \<Rightarrow> lib \<Rightarrow> publisher \<Rightarrow> (nat \<Rightarrow> bool) \<Rightarrow> (nat \<Rightarrow> nat) \<Rightarrow> (nat \<Rightarrow> world) \<Rightarrow> nat \<Rightarrow>
    claimed_message list \<Rightarrow> 'a msgdb_scheme \<Rightarrow> (string \<times> bytes) list \<times> 'a msgdb_scheme" where
  "publish_items ok L pb nats js ws n [] d = ([], d)"
| "publish_items ok L pb nats js ws n (item # items) d =
     (let (sent, d1) = publish_one ok L pb item (nats n) (js n) (ws n) d;
          (rest, d2) = publish_items ok L pb nats js ws (n + 1) items d1
      in ((case sent of None \<Rightarrow> rest | Some m \<Rightarrow> m # rest), d2))"

definition publish_batch ::
  "('a msgdb_scheme \<Rightarrow> bool) \<Rightarrow> lib \<Rightarrow> publisher \<Rightarrow> (nat \<Rightarrow> bool) \<Rightarrow> (nat \<Rightarrow> nat) \<Rightarrow> (nat \<Rightarrow> world) \<Rightarrow> 'a msgdb_scheme \<Rightarrow>
    ((error + unit) \<times> (string \<times> bytes) list) \<times> 'a msgdb_scheme" where
  "publish_batch ok L pb nats js ws d =
     (case run_tx (ws 0) (expire_outbox ok) d of
        (Inl e, d1) \<Rightarrow> ((Inl e, []), d1)
      | (Inr _, d1) \<Rightarrow>
          (case run_tx (ws 1) (claim ok (mg_outbox_batch (pb_config pb))) d1 of
             (Inl e, d2) \<Rightarrow> ((Inl e, []), d2)
           | (Inr items, d2) \<Rightarrow>
               if items = [] then ((Inr (), []), d2)
               else let (sent, d3) = publish_items ok L pb nats js ws 2 items d2 in ((Inr (), sent), d3)))"

section \<open>What a batch keeps\<close>

lemma expire_outbox_keeps [keeps_intros]: "keeps msg_le (expire_outbox ok)"
  unfolding expire_outbox_def
  by (intro keeps_exec) (auto intro!: msg_le_update_outbox simp: outbox_le_def open_status_def)

lemma due_open: "due now r \<Longrightarrow> open_status r"
  by (auto simp: due_def open_status_def)

lemma due_ids_due:
  assumes "i \<in> set (due_ids batch now d)"
  shows "\<exists>r\<in>set (outbox d). ob_message_id r = i \<and> due now r"
  using assms by (auto simp: due_ids_def dest!: in_set_takeD)

lemma claim_rows_due:
  assumes "distinct (map ob_message_id (outbox d))" "r \<in> set (outbox d)" "ob_message_id r \<in> set (due_ids batch now d)"
  shows "due now r"
proof -
  obtain r' where r': "r' \<in> set (outbox d)" "ob_message_id r' = ob_message_id r" "due now r'"
    using due_ids_due [OF assms(3)] by auto
  with assms(1,2) have "r' = r"
    by (metis distinct_map inj_on_def)
  with r'(3) show ?thesis by simp
qed

lemma mark_keeps [keeps_intros]:
  "keeps msg_le (mark_retry ok cfg j item code)" "keeps msg_le (mark_published ok cfg j item)"
  unfolding mark_retry_def mark_published_def
  by (intro keeps_exec; auto intro!: msg_le_update_outbox simp: outbox_le_def is_publishing_def)+

text \<open>A message as it is sent, and the row it was sealed in.\<close>

definition sealed_row :: "lib \<Rightarrow> publisher \<Rightarrow> instant \<Rightarrow> string \<times> bytes \<Rightarrow> outbox_row \<Rightarrow> bool" where
  "sealed_row L pb now m r \<longleftrightarrow>
     ob_subject r = fst m \<and> open_status r \<and> now < ob_expires_at r \<and>
     (\<exists>opened. open_outbox L (pb_keyring pb) (pb_service pb)
        \<lparr>om_message_id = ob_message_id r, om_subject = ob_subject r, om_envelope = ob_envelope r, om_kind = [],
         om_expires_at = zero_time\<rparr> = Inr opened \<and> om_envelope opened = snd m)"

text \<open>
  The contract between the message tables and the database of a service: the schema the service
  checks its statements with keeps the two primary keys. Under it the publisher claims only rows
  that are due, keeps final rows final, and publishes only what an unexpired row seals.
\<close>

locale message_schema =
  fixes ok :: "'a msgdb_scheme \<Rightarrow> bool"
  assumes outbox_key: "ok d \<Longrightarrow> distinct (map ob_message_id (outbox d))"
    and inbox_key: "ok d \<Longrightarrow> distinct (map ib_message_id (inbox d))"
begin

lemma claim_keeps: "keeps msg_le (claim ok batch)"
proof -
  have "msg_le d (update_outbox (\<lambda>r. ob_message_id r \<in> set (due_ids batch (db_now w) d))
          (\<lambda>r. r\<lparr>ob_status := PUBLISHING, ob_lease_until := Some (db_now w + 30 * second)\<rparr>) d)"
    if "ok (update_outbox (\<lambda>r. ob_message_id r \<in> set (due_ids batch (db_now w) d))
          (\<lambda>r. r\<lparr>ob_status := PUBLISHING, ob_lease_until := Some (db_now w + 30 * second)\<rparr>) d)" for w and d :: "'a msgdb_scheme"
  proof -
    have key: "distinct (map ob_message_id (outbox d))"
      using outbox_key [OF that] by (simp add: update_outbox_def comp_def if_distrib cong: if_cong)
    have "rows_grow outbox_le (outbox d) (map (\<lambda>r. if ob_message_id r \<in> set (due_ids batch (db_now w) d)
        then r\<lparr>ob_status := PUBLISHING, ob_lease_until := Some (db_now w + 30 * second)\<rparr> else r) (outbox d))"
      using due_open [OF claim_rows_due [OF key]] by (intro rows_grow_map) (auto simp: outbox_le_def open_status_def)
    then show ?thesis
      by (simp add: msg_le_def update_outbox_def rows_grow_refl)
  qed
  then show ?thesis
    unfolding claim_def Let_def by (intro keeps_exec) simp
qed

lemma publish_one_monotone: "msg_le d (snd (publish_one ok L pb item b j w d))"
  by (auto simp: publish_one_def split: sum.split
      intro: run_tx_keeps [OF msg_le_reflp mark_keeps(1)] run_tx_keeps [OF msg_le_reflp mark_keeps(2)])

lemma publish_items_monotone: "msg_le d (snd (publish_items ok L pb nats js ws n items d))"
proof (induction items arbitrary: n d)
  case (Cons item items)
  let ?d1 = "snd (publish_one ok L pb item (nats n) (js n) (ws n) d)"
  have "msg_le d ?d1" by (rule publish_one_monotone)
  moreover have "msg_le ?d1 (snd (publish_items ok L pb nats js ws (n + 1) items ?d1))" by (rule Cons.IH)
  ultimately have "msg_le d (snd (publish_items ok L pb nats js ws (n + 1) items ?d1))"
    using msg_le_transp by (blast dest: transpD)
  then show ?case
    by (simp add: split_beta Let_def)
qed (simp add: reflpD [OF msg_le_reflp])

lemma publish_batch_monotone: "msg_le d (snd (publish_batch ok L pb nats js ws d))"
proof -
  let ?e = "run_tx (ws 0) (expire_outbox ok) d"
  let ?c = "run_tx (ws 1) (claim ok (mg_outbox_batch (pb_config pb))) (snd ?e)"
  have 1: "msg_le d (snd ?e)" by (rule run_tx_keeps [OF msg_le_reflp expire_outbox_keeps])
  have 2: "msg_le (snd ?e) (snd ?c)" by (rule run_tx_keeps [OF msg_le_reflp claim_keeps])
  note trans = transpD [OF msg_le_transp]
  show ?thesis
    using 1 trans [OF 1 2] trans [OF trans [OF 1 2] publish_items_monotone]
    by (auto simp: publish_batch_def split_beta split: sum.split prod.split)
qed

lemma publish_items_sent:
  assumes "m \<in> set (fst (publish_items ok L pb nats js ws n items d))"
  shows "\<exists>item\<in>set items. cm_subject item = fst m \<and> (\<exists>opened. open_outbox L (pb_keyring pb) (pb_service pb)
      \<lparr>om_message_id = cm_id item, om_subject = cm_subject item, om_envelope = cm_envelope item, om_kind = [],
       om_expires_at = zero_time\<rparr> = Inr opened \<and> om_envelope opened = snd m)"
  using assms
proof (induction items arbitrary: n d)
  case (Cons item items)
  let ?p = "publish_one ok L pb item (nats n) (js n) (ws n) d"
  from Cons.prems have "fst ?p = Some m \<or> m \<in> set (fst (publish_items ok L pb nats js ws (n + 1) items (snd ?p)))"
    by (auto simp: split_beta Let_def split: option.splits)
  then show ?case
  proof
    assume "fst ?p = Some m"
    then show ?thesis
      by (auto simp: publish_one_def split: sum.splits intro!: bexI [of _ item])
  qed (use Cons.IH in auto)
qed simp

lemma publish_batch_sent:
  assumes "ok d" "m \<in> set (snd (fst (publish_batch ok L pb nats js ws d)))"
  shows "\<exists>d1. fst (run_tx (ws 0) (expire_outbox ok) d) = Inr () \<and> d1 = snd (run_tx (ws 0) (expire_outbox ok) d) \<and>
    (\<exists>r\<in>set (outbox d1). sealed_row L pb (db_now (ws 1)) m r)"
proof -
  let ?e = "run_tx (ws 0) (expire_outbox ok) d"
  let ?c = "run_tx (ws 1) (claim ok (mg_outbox_batch (pb_config pb))) (snd ?e)"
  from assms(2) obtain items where e: "fst ?e = Inr ()" and c: "fst ?c = Inr items"
      and m: "m \<in> set (fst (publish_items ok L pb nats js ws 2 items (snd ?c)))"
    by (auto simp: publish_batch_def split_beta split: sum.splits prod.splits if_splits)
  obtain item where item: "item \<in> set items" "cm_subject item = fst m"
      "\<exists>opened. open_outbox L (pb_keyring pb) (pb_service pb)
      \<lparr>om_message_id = cm_id item, om_subject = cm_subject item, om_envelope = cm_envelope item, om_kind = [],
       om_expires_at = zero_time\<rparr> = Inr opened \<and> om_envelope opened = snd m"
    using publish_items_sent [OF m] by auto
  have "?c = (Inr items, snd ?c)" using c by (cases ?c) simp
  then obtain n where "claim ok (mg_outbox_batch (pb_config pb)) (ws 1) (snd ?e, 0) = Inr (items, (snd ?c, n))"
    unfolding run_tx_Inr by blast
  then have its: "items = map claimed_of (filter (\<lambda>r. ob_message_id r \<in>
        set (due_ids (mg_outbox_batch (pb_config pb)) (db_now (ws 1)) (snd ?e))) (outbox (snd ?e)))"
    and okc: "ok (snd ?c)" and upd: "outbox (snd ?c) = map (\<lambda>r. if ob_message_id r \<in> set (due_ids (mg_outbox_batch (pb_config pb)) (db_now (ws 1)) (snd ?e))
        then r\<lparr>ob_status := PUBLISHING, ob_lease_until := Some (db_now (ws 1) + 30 * second)\<rparr> else r) (outbox (snd ?e))"
    by (auto simp: claim_def tx_exec_ok Let_def update_outbox_def)
  have key: "distinct (map ob_message_id (outbox (snd ?e)))"
    using outbox_key [OF okc] unfolding upd by (simp add: comp_def if_distrib cong: if_cong)
  from item(1) obtain r where r: "r \<in> set (outbox (snd ?e))" "item = claimed_of r"
      "ob_message_id r \<in> set (due_ids (mg_outbox_batch (pb_config pb)) (db_now (ws 1)) (snd ?e))"
    by (auto simp: its)
  have "due (db_now (ws 1)) r" by (rule claim_rows_due [OF key r(1,3)])
  then have "open_status r" "db_now (ws 1) < ob_expires_at r"
    by (simp_all add: due_open) (simp add: due_def)
  with r item e show ?thesis
    by (auto simp: sealed_row_def claimed_of_def)
qed

lemma claim_bounded:
  assumes "run_tx w (claim ok batch) d = (Inr items, d')"
  shows "length items \<le> nat batch"
proof -
  from assms obtain n where "claim ok batch w (d, 0) = Inr (items, (d', n))"
    unfolding run_tx_Inr by blast
  then have its: "items = map claimed_of (filter (\<lambda>r. ob_message_id r \<in> set (due_ids batch (db_now w) d)) (outbox d))"
    and okc: "ok d'" and upd: "outbox d' = map (\<lambda>r. if ob_message_id r \<in> set (due_ids batch (db_now w) d)
        then r\<lparr>ob_status := PUBLISHING, ob_lease_until := Some (db_now w + 30 * second)\<rparr> else r) (outbox d)"
    by (auto simp: claim_def tx_exec_ok Let_def update_outbox_def)
  have key: "distinct (map ob_message_id (outbox d))"
    using outbox_key [OF okc] by (simp add: upd comp_def if_distrib cong: if_cong)
  let ?F = "filter (\<lambda>r. ob_message_id r \<in> set (due_ids batch (db_now w) d)) (outbox d)"
  have "distinct (map ob_message_id ?F)"
    using key by (simp add: distinct_map_filter)
  then have "length ?F = card (ob_message_id ` set ?F)"
    by (metis distinct_card length_map list.set_map)
  also have "\<dots> \<le> card (set (due_ids batch (db_now w) d))"
    by (intro card_mono) auto
  also have "\<dots> \<le> nat batch"
    using card_length [of "due_ids batch (db_now w) d"] by (simp add: due_ids_def)
  finally show ?thesis by (simp add: its)
qed

end

end
