(* ===== verification/Sessions_History.thy ===== *)
theory Sessions_History
  imports Sessions_Service Outbox
begin

text \<open>
  What no operation of the sessions service ever takes back, in any world: message rows only move
  forward, identities and events are only added, a session keeps its owner and only gains
  versions, a verification keeps its facts and is settled at most once. Each transaction body
  \<open>keeps\<close> this order of databases, one lemma per body.
\<close>

interpretation sessions_messages: message_schema "sessions_ok :: sessions_db \<Rightarrow> bool"
  by unfold_locales (simp_all add: sessions_ok_def msgdb_ok_def)

definition vr_le :: "verification_row \<Rightarrow> verification_row \<Rightarrow> bool" where
  "vr_le r r' \<longleftrightarrow>
     r' = r\<lparr>vr_topup_command_message_id := vr_topup_command_message_id r', vr_status := vr_status r',
            vr_failure_code := vr_failure_code r', vr_updated_at := vr_updated_at r',
            vr_completed_at := vr_completed_at r', vr_version := vr_version r'\<rparr> \<and>
     vr_version r \<le> vr_version r' \<and> (vr_status r \<noteq> V_PENDING \<longrightarrow> r' = r)"

definition sn_le :: "session_row \<Rightarrow> session_row \<Rightarrow> bool" where
  "sn_le r r' \<longleftrightarrow>
     r' = r\<lparr>sn_telegram_chat_id := sn_telegram_chat_id r', sn_activation_network := sn_activation_network r',
            sn_activation_transaction_id := sn_activation_transaction_id r',
            sn_last_activated_at := sn_last_activated_at r', sn_version := sn_version r'\<rparr> \<and>
     sn_version r \<le> sn_version r' \<and> (sn_version r = sn_version r' \<longrightarrow> r' = r)"

definition sessions_le :: "sessions_db \<Rightarrow> sessions_db \<Rightarrow> bool" where
  "sessions_le d d' \<longleftrightarrow>
     rows_grow inbox_le (inbox d) (inbox d') \<and> rows_grow outbox_le (outbox d) (outbox d') \<and>
     rows_grow (=) (identities d) (identities d') \<and> rows_grow sn_le (sessions d) (sessions d') \<and>
     rows_grow vr_le (verifications d) (verifications d') \<and> rows_grow (=) (events d) (events d')"

lemma vr_le_refl [simp]: "vr_le r r"
  by (simp add: vr_le_def)

lemma vr_le_trans: "vr_le a b \<Longrightarrow> vr_le b c \<Longrightarrow> vr_le a c"
  by (cases a; cases b; cases c) (auto simp: vr_le_def)

lemma sn_le_refl [simp]: "sn_le r r"
  by (simp add: sn_le_def)

lemma sn_le_trans: "sn_le a b \<Longrightarrow> sn_le b c \<Longrightarrow> sn_le a c"
  by (cases a; cases b; cases c) (auto simp: sn_le_def)

lemma sessions_le_refl [simp]: "sessions_le d d"
  by (simp add: sessions_le_def rows_grow_refl)

lemma sessions_le_reflp [simp, intro]: "reflp sessions_le"
  by (simp add: reflp_def)

lemma sessions_le_transp [simp, intro]: "transp sessions_le"
proof (rule transpI)
  fix a b c
  assume 1: "sessions_le a b" and 2: "sessions_le b c"
  have t: "rows_grow inbox_le xs ys \<Longrightarrow> rows_grow inbox_le ys zs \<Longrightarrow> rows_grow inbox_le xs zs"
    "rows_grow outbox_le us vs \<Longrightarrow> rows_grow outbox_le vs ws \<Longrightarrow> rows_grow outbox_le us ws"
    "rows_grow sn_le as bs \<Longrightarrow> rows_grow sn_le bs cs \<Longrightarrow> rows_grow sn_le as cs"
    "rows_grow vr_le fs gs \<Longrightarrow> rows_grow vr_le gs hs \<Longrightarrow> rows_grow vr_le fs hs"
    for xs ys zs us vs ws as bs cs fs gs hs
    by (metis rows_grow_trans inbox_le_trans, metis rows_grow_trans outbox_le_trans,
        metis rows_grow_trans sn_le_trans, metis rows_grow_trans vr_le_trans)
  have e: "rows_grow (=) xs ys \<Longrightarrow> rows_grow (=) ys zs \<Longrightarrow> rows_grow (=) xs zs" for xs ys zs :: "'r list"
    by (rule rows_grow_trans [of "(=)"]) simp_all
  show "sessions_le a c"
    unfolding sessions_le_def
    using 1 [unfolded sessions_le_def] 2 [unfolded sessions_le_def] t e
    by (metis (no_types, lifting))
qed

lemma same_more_tables:
  fixes d d' :: sessions_db
  assumes "msgdb.more d' = msgdb.more d"
  shows "identities d' = identities d" "sessions d' = sessions d" "verifications d' = verifications d" "events d' = events d"
proof -
  have *: "d' = d\<lparr>inbox := inbox d', outbox := outbox d'\<rparr>"
    by (rule msgdb.equality) (simp_all add: assms)
  have "identities d' = identities (d\<lparr>inbox := inbox d', outbox := outbox d'\<rparr>)"
    by (rule arg_cong [OF *])
  then show "identities d' = identities d" by simp
  have "sessions d' = sessions (d\<lparr>inbox := inbox d', outbox := outbox d'\<rparr>)"
    by (rule arg_cong [OF *])
  then show "sessions d' = sessions d" by simp
  have "verifications d' = verifications (d\<lparr>inbox := inbox d', outbox := outbox d'\<rparr>)"
    by (rule arg_cong [OF *])
  then show "verifications d' = verifications d" by simp
  have "events d' = events (d\<lparr>inbox := inbox d', outbox := outbox d'\<rparr>)"
    by (rule arg_cong [OF *])
  then show "events d' = events d" by simp
qed

lemma msg_le_sessions_le: "msg_le d d' \<Longrightarrow> sessions_le d d'"
  using same_more_tables [of d' d] by (simp add: msg_le_def sessions_le_def rows_grow_refl)

lemma msg_keeps: "keeps msg_le m \<Longrightarrow> keeps sessions_le m"
  unfolding keeps_def by (blast intro: msg_le_sessions_le)

lemmas sessions_keeps = keeps_bind [OF sessions_le_transp] keeps_return [OF sessions_le_reflp]
  keeps_lift [OF sessions_le_reflp] keeps_query [OF sessions_le_reflp] keeps_fail keeps_if keeps_option keeps_prod
  register_inbox_keeps [THEN msg_keeps] inbox_updates_keep [THEN msg_keeps] outbox_updates_keep [THEN msg_keeps]

lemma verification_update_le:
  "(\<And>r. P r \<Longrightarrow> vr_le r (f r)) \<Longrightarrow> sessions_le d (update_verifications P f d)"
  by (simp add: sessions_le_def update_verifications_def rows_grow_map rows_grow_refl)

lemma insert_outbox_le: "keeps sessions_le (st_insert_outbox L st i item)"
  unfolding st_insert_outbox_def by (intro sessions_keeps)

lemma lock_verification_le: "keeps sessions_le (lock_verification operation_id)"
  unfolding lock_verification_def by (intro sessions_keeps)

lemma finish_verification_le: "keeps sessions_le (finish_verification row status code)"
  unfolding finish_verification_def
  by (intro keeps_exec) (auto intro!: verification_update_le simp: vr_le_def)

lemma settle_verification_le: "keeps sessions_le (settle_verification L st i row status code completion factory)"
  unfolding settle_verification_def by (intro sessions_keeps insert_outbox_le finish_verification_le)

lemma complete_rejected_le: "keeps sessions_le (complete_rejected L st i row completion factory)"
  unfolding complete_rejected_def by (rule settle_verification_le)

lemma ensure_identity_le: "keeps sessions_le (ensure_identity L st row b s)"
  unfolding ensure_identity_def
  by (intro sessions_keeps keeps_exec) (auto simp: sessions_le_def rows_grow_refl rows_grow_append)

lemma insert_event_le: "keeps sessions_le (insert_event row t v now)"
  unfolding insert_event_def
  by (intro sessions_keeps keeps_exec) (auto simp: sessions_le_def rows_grow_refl rows_grow_append)

lemma insert_session_le: "keeps sessions_le (insert_session row i now)"
  unfolding insert_session_def
  by (intro keeps_exec) (auto simp: sessions_le_def rows_grow_refl rows_grow_append)

text \<open>A session is only updated to the version after the one that was read.\<close>

lemma update_session_le:
  assumes "update_session row now (sn_version r + 1) w s = Inr (x, s')"
    and "find (\<lambda>r. sn_id r = vr_session_id row) (sessions (fst s)) = Some r"
  shows "sessions_le (fst s) (fst s')"
proof -
  let ?f = "\<lambda>q. if sn_id q = vr_session_id row
          then q\<lparr>sn_telegram_chat_id := vr_telegram_chat_id row, sn_activation_network := vr_network row,
                 sn_activation_transaction_id := vr_transaction_id row, sn_last_activated_at := pg_time now,
                 sn_version := sn_version r + 1\<rparr>
          else q"
  from assms(1) have ok: "sessions_ok (fst s')" and s': "fst s' = (fst s)\<lparr>sessions := map ?f (sessions (fst s))\<rparr>"
    unfolding update_session_def tx_exec_ok by auto
  have "distinct (map sn_id (sessions (fst s')))"
    using ok by (simp add: sessions_ok_def sessions_keys_ok_def)
  then have key: "distinct (map sn_id (sessions (fst s)))"
    unfolding s' by (simp add: comp_def if_distrib cong: if_cong)
  have r: "r \<in> set (sessions (fst s))" "sn_id r = vr_session_id row"
    using find_Some_iff_first [OF assms(2)] by auto
  have "rows_grow sn_le (sessions (fst s)) (map ?f (sessions (fst s)))"
  proof (rule rows_grow_map)
    fix q
    assume q: "q \<in> set (sessions (fst s))"
    show "sn_le q (?f q)"
    proof (cases "sn_id q = vr_session_id row")
      case True
      with q r key have "q = r" by (metis distinct_map inj_on_def)
      with True show ?thesis by (simp add: sn_le_def)
    qed simp
  qed
  then show ?thesis
    unfolding s' by (simp add: sessions_le_def rows_grow_refl)
qed

lemma activate_session_le: "keeps sessions_le (activate_session row i now)"
proof -
  have new: "keeps sessions_le (tx_bind (insert_session row i now) (\<lambda>_.
       tx_bind (insert_event row ACTIVATED 1 now) (\<lambda>v. tx_return (Some v))))"
    by (intro sessions_keeps insert_session_le insert_event_le)
  have event: "keeps sessions_le (tx_bind (insert_event row REACTIVATED v now) (\<lambda>v. tx_return (Some v)))" for v
    by (intro sessions_keeps insert_event_le)
  show ?thesis
    unfolding keeps_def
  proof (intro allI impI)
    fix w s x s'
    assume a: "activate_session row i now w s = Inr (x, s')"
    show "sessions_le (fst s) (fst s')"
    proof (cases "find (conflicting row) (sessions (fst s)) = None \<and>
        find (\<lambda>r. sn_id r = vr_session_id row) (sessions (fst s)) \<noteq> None")
      case True
      then obtain r where r: "find (\<lambda>r. sn_id r = vr_session_id row) (sessions (fst s)) = Some r" by auto
      show ?thesis
      proof (cases "sn_identity_id r \<noteq> i \<or> sn_status r \<noteq> ACTIVE")
        case True
        with a r \<open>_ \<and> _\<close> show ?thesis
          by (auto simp: activate_session_def tx_ok split: if_splits)
      next
        case False
        with a r \<open>_ \<and> _\<close> obtain n s1 where u: "update_session row now (sn_version r + 1) w (fst s, n) = Inr ((), s1)"
          and e: "tx_bind (insert_event row REACTIVATED (sn_version r + 1) now) (\<lambda>v. tx_return (Some v)) w s1 = Inr (x, s')"
          by (auto simp: activate_session_def tx_ok split: if_splits)
        have "sessions_le (fst s) (fst s1)"
          using update_session_le [OF u] r by simp
        moreover have "sessions_le (fst s1) (fst s')"
          by (rule keepsD [OF event e])
        ultimately show ?thesis
          using sessions_le_transp by (blast dest: transpD)
      qed
    next
      case False
      with a have "fst s' = fst s \<or> tx_bind (insert_session row i now) (\<lambda>_.
         tx_bind (insert_event row ACTIVATED 1 now) (\<lambda>v. tx_return (Some v))) w (fst s, snd s + 1 + 1 + 1 + 1) = Inr (x, s')"
        by (auto simp: activate_session_def tx_bind_ok tx_query_ok tx_return_ok split: if_splits)
      then show ?thesis
        using keepsD [OF new] by fastforce
    qed
  qed
qed

lemma apply_verified_body_le: "keeps sessions_le (apply_verified_body L st inc verified op factory)"
  unfolding apply_verified_body_def
  by (intro sessions_keeps lock_verification_le complete_rejected_le settle_verification_le ensure_identity_le
      activate_session_le)

lemma apply_rejected_body_le: "keeps sessions_le (apply_rejected_body L st inc rej op factory)"
  unfolding apply_rejected_body_def
  by (intro sessions_keeps lock_verification_le complete_rejected_le)

lemma deduplicated_le: "keeps sessions_le body \<Longrightarrow> keeps sessions_le (deduplicated L inc body)"
  unfolding deduplicated_def by (intro sessions_keeps)

lemmas run_le = run_tx_keeps [OF sessions_le_reflp]

lemma accept_verification_le: "sessions_le d (snd (accept_verification L st inc command topup w d))"
proof -
  have "keeps sessions_le (tx_exec sessions_ok m (\<lambda>w d. ((), d\<lparr>verifications := verifications d @ [f w]\<rparr>)))" for m f
    by (rule keeps_exec) (simp add: sessions_le_def rows_grow_refl rows_grow_append)
  then show ?thesis
    unfolding accept_verification_def
    by (auto split: sum.split intro!: run_le deduplicated_le sessions_keeps insert_outbox_le)
qed

lemma apply_topup_verified_le: "sessions_le d (snd (apply_topup_verified L st inc verified factory w d))"
  unfolding apply_topup_verified_def
  by (auto split: option.split intro!: run_le deduplicated_le apply_verified_body_le)

lemma apply_topup_rejected_le: "sessions_le d (snd (apply_topup_rejected L st inc rej factory w d))"
  unfolding apply_topup_rejected_def
  by (auto split: option.split intro!: run_le deduplicated_le apply_rejected_body_le)

lemma current_command_le: "keeps sessions_le (current_command item)"
  unfolding current_command_def by (intro sessions_keeps)

text \<open>
  Reconciliation changes the verification it read, which it found \<open>PENDING\<close> and with the command it
  expected; a change of one row by its identifier.
\<close>

lemma update_one_verification_le:
  assumes "sessions_ok (update_verifications (\<lambda>r. vr_id r = i) f d)" "\<And>r. vr_id (f r) = vr_id r"
    and "find_verification (\<lambda>r. vr_id r = i) d = Some row" "vr_le row (f row)"
  shows "sessions_le d (update_verifications (\<lambda>r. vr_id r = i) f d)"
proof -
  have "distinct (map vr_id (map (\<lambda>r. if vr_id r = i then f r else r) (verifications d)))"
    using assms(1) unfolding sessions_ok_def sessions_keys_ok_def update_verifications_def by simp
  then have key: "distinct (map vr_id (verifications d))"
    using assms(2) by (simp add: comp_def if_distrib cong: if_cong)
  have row: "row \<in> set (verifications d)" "vr_id row = i"
    using find_Some_iff_first [OF assms(3) [unfolded find_verification_def]] by auto
  have "r = row" if "r \<in> set (verifications d)" "vr_id r = i" for r
    using that row key by (metis distinct_map inj_on_def)
  then have "rows_grow vr_le (verifications d) (map (\<lambda>r. if vr_id r = i then f r else r) (verifications d))"
    using assms(4) by (intro rows_grow_map) auto
  then show ?thesis
    by (simp add: sessions_le_def update_verifications_def rows_grow_refl)
qed

lemma current_command_ok:
  "current_command item w s = Inr (row, s') \<longleftrightarrow>
     \<not> stmt_fails w (snd s) \<and> find_verification (\<lambda>r. vr_id r = pr_verification_id item) (fst s) = Some row \<and>
     s' = (fst s, snd s + 1)"
  by (auto simp: current_command_def tx_bind_ok tx_query_ok tx_return_ok tx_fail_ok split: option.splits)

lemma st_insert_outbox_same:
  assumes "st_insert_outbox L st i item w s = Inr (x, s')"
  shows "verifications (fst s') = verifications (fst s)"
  using assms by (auto simp: st_insert_outbox_def tx_bind_ok tx_lift_ok insert_outbox_def tx_exec_ok)

lemma replace_topup_command_le: "sessions_le d (snd (replace_topup_command L st item new w d))"
  unfolding replace_topup_command_def
proof (intro run_le, unfold keeps_def, intro allI impI)
  fix w s x s'
  let ?f = "\<lambda>w r. r\<lparr>vr_topup_command_message_id := om_message_id new, vr_updated_at := db_now w,
                        vr_version := vr_version r + 1\<rparr>"
  assume a: "tx_bind (current_command item) (\<lambda>row.
        if vr_status row \<noteq> V_PENDING \<or> vr_topup_command_message_id row \<noteq> pr_topup_command_message_id item
        then tx_return ()
        else
        tx_bind (st_insert_outbox L st 3 new) (\<lambda>_.
        tx_exec sessions_ok ''replace top-up verification command'' (\<lambda>w d.
          ((), update_verifications (\<lambda>r. vr_id r = pr_verification_id item) (?f w) d)))) w s = Inr (x, s')"
  from a obtain row where row: "find_verification (\<lambda>r. vr_id r = pr_verification_id item) (fst s) = Some row"
    by (auto simp: tx_bind_ok current_command_ok)
  show "sessions_le (fst s) (fst s')"
  proof (cases "vr_status row \<noteq> V_PENDING \<or> vr_topup_command_message_id row \<noteq> pr_topup_command_message_id item")
    case True
    with a row show ?thesis by (auto simp: tx_bind_ok current_command_ok tx_return_ok)
  next
    case False
    then have pending: "vr_status row = V_PENDING" by simp
    from False a row obtain s1 where 1: "st_insert_outbox L st 3 new w (fst s, snd s + 1) = Inr ((), s1)"
      and ok: "sessions_ok (update_verifications (\<lambda>r. vr_id r = pr_verification_id item) (?f w) (fst s1))"
      and s': "fst s' = update_verifications (\<lambda>r. vr_id r = pr_verification_id item) (?f w) (fst s1)"
      by (auto simp: tx_bind_ok current_command_ok tx_exec_ok)
    have "find_verification (\<lambda>r. vr_id r = pr_verification_id item) (fst s1) = Some row"
      using row st_insert_outbox_same [OF 1] by (simp add: find_verification_def)
    moreover have "vr_le row (?f w row)"
      unfolding vr_le_def using pending by (cases row) simp
    ultimately have "sessions_le (fst s1) (fst s')"
      unfolding s' by (intro update_one_verification_le [OF ok]) simp_all
    moreover have "sessions_le (fst s) (fst s1)"
      using keepsD [OF insert_outbox_le 1] by simp
    ultimately show ?thesis
      using sessions_le_transp by (blast dest: transpD)
  qed
qed

lemma expire_verification_le: "sessions_le d (snd (expire_verification L st item factory w d))"
  unfolding expire_verification_def
proof (intro run_le, unfold keeps_def, intro allI impI)
  fix w s x s'
  let ?f = "\<lambda>w r. r\<lparr>vr_status := V_EXPIRED, vr_failure_code := Some ''EXPIRED'',
                          vr_completed_at := Some (db_now w), vr_updated_at := db_now w,
                          vr_version := vr_version r + 1\<rparr>"
  let ?c = "\<lambda>now again. \<lparr>co_operation_id = pr_operation_id item, co_session_id = vr_session_id again,
            co_balance_id = pr_balance_id item, co_activated = False, co_authority_version = 0,
            co_code = ''EXPIRED'', co_retryable = False, co_occurred_at = now\<rparr>"
  let ?tail = "\<lambda>row result. tx_bind (complete_inbox sessions_ok (pr_command_message_id item) (om_message_id result)) (\<lambda>_.
        confirm_outbox sessions_ok (vr_topup_command_message_id row))"
  assume a: "tx_bind (current_command item) (\<lambda>row.
        if vr_status row \<noteq> V_PENDING \<or> vr_topup_command_message_id row \<noteq> pr_topup_command_message_id item
        then tx_return ()
        else
        tx_bind (tx_lift (\<lambda>w. Inr (go_now w 1))) (\<lambda>now.
        tx_bind (current_command item) (\<lambda>again.
        tx_bind (tx_lift (factory (?c now again))) (\<lambda>result.
        tx_bind (st_insert_outbox L st 8 (result\<lparr>om_kind := ''RESULT''\<rparr>)) (\<lambda>_.
        tx_bind (tx_exec sessions_ok ''expire verification'' (\<lambda>w d.
            ((), update_verifications (\<lambda>r. vr_id r = pr_verification_id item) (?f w) d))) (\<lambda>_.
        ?tail row result)))))) w s = Inr (x, s')"
  have tail: "keeps sessions_le (?tail row result)" for row result
    by (intro sessions_keeps)
  from a obtain row where row: "find_verification (\<lambda>r. vr_id r = pr_verification_id item) (fst s) = Some row"
    by (auto simp: tx_bind_ok current_command_ok)
  show "sessions_le (fst s) (fst s')"
  proof (cases "vr_status row \<noteq> V_PENDING \<or> vr_topup_command_message_id row \<noteq> pr_topup_command_message_id item")
    case True
    with a row show ?thesis by (auto simp: tx_bind_ok current_command_ok tx_return_ok)
  next
    case False
    then have pending: "vr_status row = V_PENDING" by simp
    from False a row obtain result s1 s2 where 1: "st_insert_outbox L st 8 (result\<lparr>om_kind := ''RESULT''\<rparr>) w (fst s, snd s + 1 + 1) = Inr ((), s1)"
      and ok: "sessions_ok (update_verifications (\<lambda>r. vr_id r = pr_verification_id item) (?f w) (fst s1))"
      and s2: "fst s2 = update_verifications (\<lambda>r. vr_id r = pr_verification_id item) (?f w) (fst s1)"
      and t: "?tail row result w s2 = Inr (x, s')"
      unfolding tx_bind_ok [of "current_command item"] current_command_ok
      by (auto simp: tx_bind_ok [of "tx_lift _"] tx_bind_ok [of "current_command item"] current_command_ok
          tx_lift_ok tx_bind_ok [of "st_insert_outbox _ _ _ _"] tx_bind_ok [of "tx_exec _ _ _"] tx_exec_ok)
    have "find_verification (\<lambda>r. vr_id r = pr_verification_id item) (fst s1) = Some row"
      using row st_insert_outbox_same [OF 1] by (simp add: find_verification_def)
    moreover have "vr_le row (?f w row)"
      unfolding vr_le_def using pending by (cases row) simp
    ultimately have "sessions_le (fst s1) (fst s2)"
      unfolding s2 by (intro update_one_verification_le [OF ok]) simp_all
    moreover have "sessions_le (fst s) (fst s1)"
      using keepsD [OF insert_outbox_le 1] by simp
    moreover have "sessions_le (fst s2) (fst s')"
      by (rule keepsD [OF tail t])
    ultimately show ?thesis
      using sessions_le_transp by (blast dest: transpD)
  qed
qed

section \<open>Handlers\<close>

lemma handle_activation_verify_le: "sessions_le d (snd (handle_activation_verify L sv subj data w d))"
  unfolding handle_activation_verify_def Let_def
  by (auto split: sum.split intro: accept_verification_le)

lemma handle_topup_verified_le: "sessions_le d (snd (handle_topup_verified L sv subj data w d))"
  unfolding handle_topup_verified_def by (auto split: sum.split intro: apply_topup_verified_le)

lemma handle_topup_rejected_le: "sessions_le d (snd (handle_topup_rejected L sv subj data w d))"
  unfolding handle_topup_rejected_def by (auto split: sum.split intro: apply_topup_rejected_le)

lemma reconcile_item_le: "sessions_le d (snd (reconcile_item L sv now item w d))"
  unfolding reconcile_item_def Let_def
  by (auto split: sum.split intro: expire_verification_le replace_topup_command_le)

lemma reconcile_items_le: "sessions_le d (snd (reconcile_items L sv now items ws n d))"
proof (induction items arbitrary: n d)
  case (Cons item items)
  have 1: "sessions_le d (snd (reconcile_item L sv now item (ws n) d))" by (rule reconcile_item_le)
  moreover have "sessions_le (snd (reconcile_item L sv now item (ws n) d))
      (snd (reconcile_items L sv now items ws (n + 1) (snd (reconcile_item L sv now item (ws n) d))))"
    by (rule Cons.IH)
  ultimately have "sessions_le d (snd (reconcile_items L sv now items ws (n + 1) (snd (reconcile_item L sv now item (ws n) d))))"
    by (rule transpD [OF sessions_le_transp])
  with 1 show ?case
    by (cases "reconcile_item L sv now item (ws n) d") (simp split: sum.split)
qed simp

lemma reconcile_once_le: "sessions_le d (snd (reconcile_once L sv ws d))"
  unfolding reconcile_once_def by (auto split: sum.split intro: reconcile_items_le)

text \<open>
  The steps of the service, each in any world: a handler on any bytes, one item of the reconciliation
  or a publisher's batch. Reconciliation works on items it listed before: other steps may have moved
  the row on since then, from \<open>r0\<close> to \<open>r\<close>.
\<close>

inductive sessions_step :: "lib \<Rightarrow> service \<Rightarrow> publisher \<Rightarrow> sessions_db \<Rightarrow> sessions_db \<Rightarrow> bool" for L sv pb where
  activation_verify: "sessions_step L sv pb d (snd (handle_activation_verify L sv subj data w d))"
| topup_verified: "sessions_step L sv pb d (snd (handle_topup_verified L sv subj data w d))"
| topup_rejected: "sessions_step L sv pb d (snd (handle_topup_rejected L sv subj data w d))"
| reconcile: "retry_of L (sv_store sv) r0 = Inr item \<Longrightarrow> r \<in> set (verifications d) \<Longrightarrow> vr_le r0 r \<Longrightarrow>
    sessions_step L sv pb d (snd (reconcile_item L sv now item w d))"
| publish: "sessions_step L sv pb d (snd (publish_batch sessions_ok L pb nats js ws d))"

lemma sessions_step_le: "sessions_step L sv pb d d' \<Longrightarrow> sessions_le d d'"
  by (induction rule: sessions_step.induct)
    (auto intro: handle_activation_verify_le handle_topup_verified_le handle_topup_rejected_le reconcile_item_le
      msg_le_sessions_le sessions_messages.publish_batch_monotone)

lemma sessions_steps_le: "(sessions_step L sv pb)\<^sup>*\<^sup>* d d' \<Longrightarrow> sessions_le d d'"
proof (induction rule: rtranclp_induct)
  case (step b c)
  then show ?case using sessions_step_le transpD [OF sessions_le_transp] by blast
qed simp

text \<open>\<open>reconcileOnce\<close> is a sequence of these steps: the rows it listed are still there, moved on.\<close>

lemma collect_member: "collect f xs = Inr ys \<Longrightarrow> y \<in> set ys \<Longrightarrow> \<exists>x\<in>set xs. f x = Inr y"
  by (induction xs arbitrary: ys) (auto split: sum.splits)

lemma reconcile_items_steps:
  assumes "\<forall>item\<in>set items. \<exists>r0\<in>set (verifications d0). retry_of L (sv_store sv) r0 = Inr item" "sessions_le d0 d"
  shows "(sessions_step L sv pb)\<^sup>*\<^sup>* d (snd (reconcile_items L sv now items ws n d))"
  using assms
proof (induction items arbitrary: n d)
  case (Cons item items)
  from Cons.prems obtain r0 where r0: "r0 \<in> set (verifications d0)" "retry_of L (sv_store sv) r0 = Inr item"
    by auto
  then obtain r where r: "r \<in> set (verifications d)" "vr_le r0 r"
    using Cons.prems(2) by (auto simp: sessions_le_def elim: rows_grow_member)
  let ?d1 = "snd (reconcile_item L sv now item (ws n) d)"
  have 1: "sessions_step L sv pb d ?d1"
    by (rule sessions_step.reconcile [OF r0(2) r])
  have "sessions_le d0 ?d1"
    using Cons.prems(2) reconcile_item_le transpD [OF sessions_le_transp] by blast
  then have "(sessions_step L sv pb)\<^sup>*\<^sup>* ?d1 (snd (reconcile_items L sv now items ws (n + 1) ?d1))"
    using Cons.prems(1) by (intro Cons.IH) simp_all
  with 1 show ?case
    by (auto split: prod.split sum.split intro: converse_rtranclp_into_rtranclp)
qed simp

lemma reconcile_once_steps: "(sessions_step L sv pb)\<^sup>*\<^sup>* d (snd (reconcile_once L sv ws d))"
proof (cases "pending_retries L (sv_store sv) (sv_reconcile_batch sv) (ws 0) d")
  case (Inr items)
  then have "\<forall>item\<in>set items. \<exists>r0\<in>set (verifications d). retry_of L (sv_store sv) r0 = Inr item"
    by (fastforce simp: pending_retries_def dest: collect_member in_set_takeD split: if_splits)
  then show ?thesis
    using Inr reconcile_items_steps [of items d L sv d] by (simp add: reconcile_once_def)
qed (simp add: reconcile_once_def)

end
