(* ===== verification/Message_Effects.thy ===== *)
theory Message_Effects
  imports Outbox
begin

text \<open>
  What the operations of \<^verbatim>\<open>Message_Store\<close> do to the tables when they succeed, one rule per
  operation in the collection \<open>tx_ok\<close>, and the properties of the store by itself: registration of a
  message, and the encryption of what the outbox holds.
\<close>

lemma register_inbox_ok [tx_ok]:
  "register_inbox ok mid subj sender dig e w s = Inr (r, s') \<longleftrightarrow>
     \<not> stmt_fails w (snd s) \<and>
     (case find_inbox mid (fst s) of
        None \<Rightarrow>
          r = \<lparr>ir_accepted = True, ir_completed = False, ir_result_message_id = None\<rparr> \<and> ok (fst s') \<and>
          s' = ((fst s)\<lparr>inbox := inbox (fst s) @ [\<lparr>ib_message_id = mid, ib_subject = subj, ib_producer = sender,
                  ib_payload_digest = dig, ib_status = PROCESSING, ib_result_message_id = None,
                  ib_completed_at = None, ib_expires_at = pg_time e\<rparr>]\<rparr>, snd s + 1)
      | Some q \<Rightarrow>
          ok (fst s) \<and> \<not> stmt_fails w (snd s + 1) \<and> ib_payload_digest q = dig \<and>
          r = \<lparr>ir_accepted = False, ir_completed = (ib_status q = COMPLETED),
               ir_result_message_id = ib_result_message_id q\<rparr> \<and>
          s' = (fst s, snd s + 1 + 1))"
proof (cases "find_inbox mid (fst s)")
  case None
  then show ?thesis
    by (auto simp: register_inbox_def tx_bind_ok tx_exec_ok tx_return_ok)
next
  case (Some q)
  then show ?thesis
    by (auto simp: register_inbox_def tx_bind_ok tx_exec_ok tx_query_ok tx_return_ok tx_fail_ok split: if_splits)
qed

lemma complete_inbox_ok [tx_ok]:
  "complete_inbox ok mid result w s = Inr (x, s') \<longleftrightarrow>
     \<not> stmt_fails w (snd s) \<and> ok (fst s') \<and> length (filter (is_processing mid) (inbox (fst s))) = 1 \<and>
     s' = ((fst s)\<lparr>inbox := map (\<lambda>r. if is_processing mid r
              then r\<lparr>ib_status := COMPLETED, ib_result_message_id := Some result, ib_completed_at := Some (db_now w)\<rparr>
              else r) (inbox (fst s))\<rparr>, snd s + 1)"
  by (auto simp: complete_inbox_def tx_bind_ok tx_exec_ok tx_return_ok tx_fail_ok update_inbox_def split: if_splits)

lemma acknowledge_inbox_ok [tx_ok]:
  "acknowledge_inbox ok mid w s = Inr (x, s') \<longleftrightarrow>
     \<not> stmt_fails w (snd s) \<and> ok (fst s') \<and> length (filter (is_processing mid) (inbox (fst s))) = 1 \<and>
     s' = ((fst s)\<lparr>inbox := map (\<lambda>r. if is_processing mid r
              then r\<lparr>ib_status := APPLIED, ib_completed_at := Some (db_now w)\<rparr> else r) (inbox (fst s))\<rparr>, snd s + 1)"
  by (auto simp: acknowledge_inbox_def tx_bind_ok tx_exec_ok tx_return_ok tx_fail_ok update_inbox_def split: if_splits)

lemma reject_inbox_ok [tx_ok]:
  "reject_inbox ok mid w s = Inr (x, s') \<longleftrightarrow>
     \<not> stmt_fails w (snd s) \<and> ok (fst s') \<and>
     s' = ((fst s)\<lparr>inbox := map (\<lambda>r. if is_processing mid r
              then r\<lparr>ib_status := REJECTED, ib_completed_at := Some (db_now w)\<rparr> else r) (inbox (fst s))\<rparr>, snd s + 1)"
  by (auto simp: reject_inbox_def tx_bind_ok tx_exec_ok tx_return_ok update_inbox_def)

lemma insert_outbox_ok [tx_ok]:
  "insert_outbox ok item w s = Inr (x, s') \<longleftrightarrow>
     \<not> stmt_fails w (snd s) \<and> ok (fst s') \<and>
     s' = (if find_outbox (om_message_id item) (fst s) \<noteq> None then fst s
           else (fst s)\<lparr>outbox := outbox (fst s) @ [new_outbox_row item (db_now w)]\<rparr>, snd s + 1)"
  by (auto simp: insert_outbox_def tx_exec_ok)

lemma requeue_outbox_ok [tx_ok]:
  "requeue_outbox ok mid w s = Inr (x, s') \<longleftrightarrow>
     \<not> stmt_fails w (snd s) \<and> ok (fst s') \<and>
     s' = (update_outbox (\<lambda>r. ob_message_id r = mid \<and> ob_status r \<notin> {CONFIRMED, DEAD})
              (\<lambda>r. r\<lparr>ob_status := PENDING, ob_next_attempt_at := db_now w, ob_lease_until := None\<rparr>) (fst s), snd s + 1)"
  by (auto simp: requeue_outbox_def tx_exec_ok)

lemma confirm_outbox_ok [tx_ok]:
  "confirm_outbox ok mid w s = Inr (x, s') \<longleftrightarrow>
     \<not> stmt_fails w (snd s) \<and> ok (fst s') \<and>
     s' = (update_outbox (\<lambda>r. ob_message_id r = mid \<and> ob_status r \<noteq> DEAD)
              (\<lambda>r. r\<lparr>ob_status := CONFIRMED, ob_confirmed_at := Some (db_now w), ob_lease_until := None\<rparr>) (fst s), snd s + 1)"
  by (auto simp: confirm_outbox_def tx_exec_ok)

text \<open>The identifiers in the two tables, which is all that references to them need.\<close>

definition inbox_ids :: "'a msgdb_scheme \<Rightarrow> uuid set" where
  "inbox_ids d = ib_message_id ` set (inbox d)"

definition outbox_ids :: "'a msgdb_scheme \<Rightarrow> uuid set" where
  "outbox_ids d = ob_message_id ` set (outbox d)"

lemma find_inbox_None: "find_inbox mid d = None \<longleftrightarrow> mid \<notin> inbox_ids d"
  by (auto simp: find_inbox_def inbox_ids_def find_None_iff)

lemma find_outbox_None: "find_outbox mid d = None \<longleftrightarrow> mid \<notin> outbox_ids d"
  by (auto simp: find_outbox_def outbox_ids_def find_None_iff)

lemma update_outbox_ids [simp]:
  "(\<And>r. ob_message_id (f r) = ob_message_id r) \<Longrightarrow> outbox_ids (update_outbox P f d) = outbox_ids d"
proof -
  assume f: "\<And>r. ob_message_id (f r) = ob_message_id r"
  then have "map ob_message_id (outbox (update_outbox P f d)) = map ob_message_id (outbox d)"
    by (simp add: update_outbox_def)
  then show ?thesis
    unfolding outbox_ids_def by (metis list.set_map)
qed

lemma update_outbox_fields [simp]:
  "inbox (update_outbox P f d) = inbox d" "msgdb.more (update_outbox P f d) = msgdb.more d"
  by (simp_all add: update_outbox_def)

text \<open>
  A batch of the publisher keeps what its four statements keep, and these keep the inbox, the
  identifiers of the outbox, the tables of the service and the schema.
\<close>

lemma publish_items_keeps:
  assumes "reflp R" "transp R" "\<And>item j code. keeps R (mark_retry ok (pb_config pb) j item code)"
    and "\<And>item j. keeps R (mark_published ok (pb_config pb) j item)"
  shows "R d (snd (publish_items ok L pb nats js ws n items d))"
proof (induction items arbitrary: n d)
  case (Cons item items)
  let ?d1 = "snd (publish_one ok L pb item (nats n) (js n) (ws n) d)"
  have "R d ?d1"
    using run_tx_keeps [OF assms(1) assms(3)] run_tx_keeps [OF assms(1) assms(4)]
    by (auto simp: publish_one_def split: sum.split)
  then have "R d (snd (publish_items ok L pb nats js ws (n + 1) items ?d1))"
    using Cons.IH transpD [OF assms(2)] by blast
  then show ?case
    by (simp add: split_beta Let_def)
qed (simp add: reflpD [OF assms(1)])

lemma publish_batch_keeps:
  assumes "reflp R" "transp R" "keeps R (expire_outbox ok)" "\<And>batch. keeps R (claim ok batch)"
    and "\<And>item j code. keeps R (mark_retry ok (pb_config pb) j item code)"
    and "\<And>item j. keeps R (mark_published ok (pb_config pb) j item)"
  shows "R d (snd (publish_batch ok L pb nats js ws d))"
proof -
  let ?e = "run_tx (ws 0) (expire_outbox ok) d"
  let ?c = "run_tx (ws 1) (claim ok (mg_outbox_batch (pb_config pb))) (snd ?e)"
  have 1: "R d (snd ?e)" by (rule run_tx_keeps [OF assms(1,3)])
  have 2: "R (snd ?e) (snd ?c)" by (rule run_tx_keeps [OF assms(1,4)])
  note trans = transpD [OF assms(2)]
  show ?thesis
    using 1 trans [OF 1 2] trans [OF trans [OF 1 2] publish_items_keeps [where ok = ok, OF assms(1,2,5,6)]]
    by (auto simp: publish_batch_def split_beta split: sum.split prod.split)
qed

definition sends_only :: "('a msgdb_scheme \<Rightarrow> bool) \<Rightarrow> 'a msgdb_scheme \<Rightarrow> 'a msgdb_scheme \<Rightarrow> bool" where
  "sends_only ok d d' \<longleftrightarrow>
     inbox d' = inbox d \<and> outbox_ids d' = outbox_ids d \<and> msgdb.more d' = msgdb.more d \<and> (ok d \<longrightarrow> ok d')"

lemma publish_batch_sends_only: "sends_only ok d (snd (publish_batch ok L pb nats js ws d))"
proof (rule publish_batch_keeps)
  show "reflp (sends_only ok)" "transp (sends_only ok)"
    by (auto simp: sends_only_def reflp_def transp_def)
  show "keeps (sends_only ok) (expire_outbox ok)" "keeps (sends_only ok) (claim ok batch)"
      "keeps (sends_only ok) (mark_retry ok (pb_config pb) j item code)"
      "keeps (sends_only ok) (mark_published ok (pb_config pb) j item)" for batch j item code
    unfolding expire_outbox_def claim_def mark_retry_def mark_published_def Let_def
    by (intro keeps_exec; simp add: sends_only_def)+
qed

section \<open>Sealed messages\<close>

lemma std_encode_utf8: "utf8_valid (std_encode s)"
  by (simp add: utf8_valid_visible std_encode_ascii)

lemma ciphertext_round_trip:
  assumes "keyring_ok k" "utf8_valid (kr_active k)" "encrypt L k w i p a = Inr c"
  shows "unmarshal strict ciphertext_spec (marshal html ciphertext_spec (ciphertext_vals c)) = Some (ciphertext_vals c)"
proof (rule ct.unmarshal_vals)
  obtain key :: data_key where "encrypt L k w i p a = Inr \<lparr>ct_key_id = kr_active k, ct_nonce = std_encode (rand_bytes w i NonceSize),
      ct_value = std_encode (aes_gcm_seal L (dk_key key) (rand_bytes w i NonceSize) p a)\<rparr>"
    by (rule encrypt_ok [OF assms(1), of L w i p a]) blast
  with assms show "list_all printable (ciphertext_vals c)"
    by (auto simp: ciphertext_vals_def std_encode_utf8)
qed

lemma decrypt_encrypt:
  assumes "aead_laws L" "keyring_ok k" "encrypt L k w i p a = Inr c"
  shows "decrypt L k c a = Inr p"
proof -
  obtain key where "kr_keys k (kr_active k) = Some key" "length (dk_key key) = 32"
    and "encrypt L k w i p a = Inr \<lparr>ct_key_id = kr_active k, ct_nonce = std_encode (rand_bytes w i NonceSize),
      ct_value = std_encode (aes_gcm_seal L (dk_key key) (rand_bytes w i NonceSize) p a)\<rparr>"
    by (rule encrypt_ok [OF assms(2), of L w i p a])
  with assms show ?thesis
    using decrypt_sealed [OF assms(1)] by auto
qed

lemma encrypt_total: "keyring_ok k \<Longrightarrow> \<exists>c. encrypt L k w i p a = Inr c"
  by (metis encrypt_ok)

lemma open_sealed:
  assumes "aead_laws L" "keyring_ok k" "utf8_valid (kr_active k)" "seal_outbox L k w i service item = Inr sealed"
  shows "om_message_id sealed = om_message_id item" "om_subject sealed = om_subject item"
    and "om_kind sealed = om_kind item" "om_expires_at sealed = om_expires_at item"
    and "open_outbox L k service sealed = Inr item"
proof -
  let ?a = "outbox_aad L service (om_message_id item) (om_subject item)"
  from assms(4) obtain c where c: "encrypt L k w i (om_envelope item) ?a = Inr c"
    and s: "sealed = item\<lparr>om_envelope := marshal True ciphertext_spec (ciphertext_vals c)\<rparr>"
    unfolding seal_outbox_def go_ok by auto
  then show "om_message_id sealed = om_message_id item" "om_subject sealed = om_subject item"
    "om_kind sealed = om_kind item" "om_expires_at sealed = om_expires_at item"
    by simp_all
  show "open_outbox L k service sealed = Inr item"
    using ciphertext_round_trip [OF assms(2,3) c] decrypt_encrypt [OF assms(1,2) c]
    by (simp add: open_outbox_def s ct.read_back)
qed

text \<open>
  The associated data of a sealed row names the row: two rows of the tables share it only if they
  are the same row and column. The names have no NUL byte, which the code writes between them.
\<close>

lemma nul_split:
  assumes "xs @ CHR 0x00 # us = ys @ CHR 0x00 # vs" "CHR 0x00 \<notin> set xs" "CHR 0x00 \<notin> set ys"
  shows "xs = ys \<and> us = vs"
  using map_key_inj [of xs us ys vs] assms by (auto simp: map_key_def)

lemma uuid_string_no_nul: "uuid_laws L \<Longrightarrow> length u = 16 \<Longrightarrow> CHR 0x00 \<notin> set (uuid_string L u)"
proof
  assume "uuid_laws L" "length u = 16" "CHR 0x00 \<in> set (uuid_string L u)"
  then have "of_char CHR 0x00 \<in> {33..126::nat}"
    unfolding uuid_laws_def list_all_iff by blast
  then show False by simp
qed

lemma uuid_string_inj:
  "uuid_laws L \<Longrightarrow> length u = 16 \<Longrightarrow> length v = 16 \<Longrightarrow> uuid_string L u = uuid_string L v \<Longrightarrow> u = v"
  by (metis option.inject uuid_parse_string)

end
