(* ===== verification/Sessions_Answers.thy ===== *)
theory Sessions_Answers
  imports Sessions_History Message_Effects
begin

text \<open>
  Every activation command the sessions service accepts gets one answer: as long as its verification
  is \<open>PENDING\<close> the command is \<open>PROCESSING\<close> in the inbox, and once it is settled the command is
  \<open>COMPLETED\<close> with a result message that is in the outbox. The invariant \<open>answered\<close> says so, and each
  step of the service keeps it.
\<close>

definition answer_ok :: "inbox_row list \<Rightarrow> uuid set \<Rightarrow> verification_row \<Rightarrow> bool" where
  "answer_ok ib obs v \<longleftrightarrow>
     (case find (\<lambda>r. ib_message_id r = vr_command_message_id v) ib of
        None \<Rightarrow> False
      | Some r \<Rightarrow>
          if vr_status v = V_PENDING then ib_status r = PROCESSING
          else ib_status r = COMPLETED \<and>
               (case ib_result_message_id r of None \<Rightarrow> False | Some m \<Rightarrow> m \<in> obs))"

definition answered :: "sessions_db \<Rightarrow> bool" where
  "answered d \<longleftrightarrow> (\<forall>v\<in>set (verifications d). answer_ok (inbox d) (outbox_ids d) v)"

definition completed :: "uuid \<Rightarrow> uuid \<Rightarrow> instant \<Rightarrow> inbox_row \<Rightarrow> inbox_row" where
  "completed mid result now r =
     (if is_processing mid r
      then r\<lparr>ib_status := COMPLETED, ib_result_message_id := Some result, ib_completed_at := Some now\<rparr> else r)"

definition finished :: "verification_row \<Rightarrow> verification_status \<Rightarrow> string option \<Rightarrow> instant \<Rightarrow> verification_row \<Rightarrow> verification_row" where
  "finished row status code now r =
     (if vr_id r = vr_id row \<and> vr_status r = V_PENDING
      then r\<lparr>vr_status := status, vr_failure_code := code, vr_completed_at := Some now, vr_updated_at := now,
             vr_version := vr_version r + 1\<rparr>
      else r)"

lemma completed_id [simp]: "ib_message_id (completed mid result now r) = ib_message_id r"
  by (simp add: completed_def)

lemma completed_other: "ib_message_id r \<noteq> mid \<Longrightarrow> completed mid result now r = r"
  by (simp add: completed_def is_processing_def)

lemma answer_ok_mono: "answer_ok ib obs v \<Longrightarrow> obs \<subseteq> obs' \<Longrightarrow> answer_ok (ib @ rs) obs' v"
  by (auto simp: answer_ok_def split: option.splits if_splits)

lemma answer_ok_other:
  assumes "answer_ok ib obs v" "\<And>r. ib_message_id (f r) = ib_message_id r"
    and "\<And>r. ib_message_id r = vr_command_message_id v \<Longrightarrow> f r = r"
  shows "answer_ok (map f ib) obs v"
proof -
  have "find (\<lambda>r. ib_message_id r = vr_command_message_id v) (map f ib) =
      map_option f (find (\<lambda>r. ib_message_id r = vr_command_message_id v) ib)"
    using assms(2) by (intro find_map_keep) simp
  moreover obtain r where r: "find (\<lambda>r. ib_message_id r = vr_command_message_id v) ib = Some r"
    using assms(1) by (auto simp: answer_ok_def split: option.splits)
  moreover have "f r = r"
    using find_Some_iff_first [OF r] assms(3) by simp
  ultimately show ?thesis
    using assms(1) by (simp add: answer_ok_def)
qed

lemma answer_ok_settled:
  assumes "answer_ok ib obs v" "vr_status v = V_PENDING" "mid = vr_command_message_id v"
    and "vr_status v' \<noteq> V_PENDING" "vr_command_message_id v' = vr_command_message_id v" "result \<in> obs"
  shows "answer_ok (map (completed mid result now) ib) obs v'"
proof -
  obtain r where r: "find (\<lambda>r. ib_message_id r = vr_command_message_id v) ib = Some r" "ib_status r = PROCESSING"
    using assms(1,2) by (auto simp: answer_ok_def split: option.splits)
  have "find (\<lambda>r. ib_message_id r = vr_command_message_id v) (map (completed mid result now) ib) =
      map_option (completed mid result now) (find (\<lambda>r. ib_message_id r = vr_command_message_id v) ib)"
    by (intro find_map_keep) simp
  moreover have "ib_message_id r = mid" using find_Some_iff_first [OF r(1)] assms(3) by simp
  ultimately show ?thesis
    using r assms(4-6) by (simp add: answer_ok_def completed_def is_processing_def)
qed

section \<open>Settling\<close>

lemma outbox_ids_insert [simp]:
  "outbox_ids (d\<lparr>outbox := outbox d @ [new_outbox_row item now]\<rparr>) = insert (om_message_id item) (outbox_ids d)"
  by (auto simp: outbox_ids_def new_outbox_row_def)

lemma seal_outbox_id: "seal_outbox L k w i service item = Inr sealed \<Longrightarrow> om_message_id sealed = om_message_id item"
  unfolding seal_outbox_def go_ok by auto

text \<open>What storing a message does: its identifier is in the outbox, the other tables stay.\<close>

lemma st_insert_outbox_effect:
  assumes "st_insert_outbox L st i item w s = Inr (x, s')"
  shows "outbox_ids (fst s') = insert (om_message_id item) (outbox_ids (fst s))" "inbox (fst s') = inbox (fst s)"
    and "msgdb.more (fst s') = msgdb.more (fst s)"
proof -
  obtain sealed where s: "om_message_id sealed = om_message_id item"
    and s': "fst s' = (if find_outbox (om_message_id sealed) (fst s) \<noteq> None then fst s
           else (fst s)\<lparr>outbox := outbox (fst s) @ [new_outbox_row sealed (db_now w)]\<rparr>)"
    using assms unfolding st_insert_outbox_def tx_ok by (auto dest: seal_outbox_id)
  show "outbox_ids (fst s') = insert (om_message_id item) (outbox_ids (fst s))"
    unfolding s' using s by (simp add: find_outbox_None insert_absorb)
  show "inbox (fst s') = inbox (fst s)" "msgdb.more (fst s') = msgdb.more (fst s)"
    unfolding s' by simp_all
qed

lemma finish_verification_effect:
  assumes "finish_verification row status code w s = Inr (x, s')"
  shows "fst s' = (fst s)\<lparr>verifications := map (finished row status (nullif_empty code) (db_now w)) (verifications (fst s))\<rparr>"
  using assms unfolding finish_verification_def tx_ok update_verifications_def
  by (auto simp: finished_def [abs_def])

lemma settle_verification_effect:
  assumes "settle_verification L st mid row status code completion factory w s = Inr (x, s')"
  shows "\<exists>result. factory completion w = Inr result \<and>
    outbox_ids (fst s') = insert (om_message_id result) (outbox_ids (fst s)) \<and>
    inbox (fst s') = map (completed mid (om_message_id result) (db_now w))
       (map (completed (vr_command_message_id row) (om_message_id result) (db_now w)) (inbox (fst s))) \<and>
    verifications (fst s') = map (finished row status (nullif_empty code) (db_now w)) (verifications (fst s)) \<and>
    identities (fst s') = identities (fst s) \<and> sessions (fst s') = sessions (fst s) \<and> events (fst s') = events (fst s)"
proof -
  from assms obtain result s1 s2 n3 n4 x1 x2 where f: "factory completion w = Inr result"
    and 1: "st_insert_outbox L st 8 (result\<lparr>om_kind := ''RESULT''\<rparr>) w s = Inr (x1, s1)"
    and 2: "finish_verification row status code w s1 = Inr (x2, s2)"
    and 3: "complete_inbox sessions_ok (vr_command_message_id row) (om_message_id result) w s2 = Inr ((), n3)"
    and 4: "complete_inbox sessions_ok mid (om_message_id result) w n3 = Inr ((), n4)"
    and 5: "confirm_outbox sessions_ok (vr_topup_command_message_id row) w n4 = Inr (x, s')"
    unfolding settle_verification_def tx_bind_ok tx_lift_ok by auto
  note e1 = st_insert_outbox_effect [OF 1] and e2 = finish_verification_effect [OF 2]
  have s': "fst s' = update_outbox (\<lambda>r. ob_message_id r = vr_topup_command_message_id row \<and> ob_status r \<noteq> DEAD)
        (\<lambda>r. r\<lparr>ob_status := CONFIRMED, ob_confirmed_at := Some (db_now w), ob_lease_until := None\<rparr>)
        ((fst s2)\<lparr>inbox := map (completed mid (om_message_id result) (db_now w))
           (map (completed (vr_command_message_id row) (om_message_id result) (db_now w)) (inbox (fst s2)))\<rparr>)"
    using 3 4 5 unfolding tx_ok by (simp add: completed_def [abs_def])
  have more: "msgdb.more (fst s') = msgdb.more (fst s2)"
    unfolding s' by simp
  have obs: "outbox_ids (fst s') = outbox_ids (fst s1)"
    unfolding s' by (subst update_outbox_ids) (simp_all add: e2 outbox_ids_def)
  have ib: "inbox (fst s') = map (completed mid (om_message_id result) (db_now w))
       (map (completed (vr_command_message_id row) (om_message_id result) (db_now w)) (inbox (fst s)))"
    unfolding s' by (simp add: e2 e1(2))
  note t = same_more_tables [OF more] same_more_tables [OF e1(3)]
  show ?thesis
    using f obs ib e1(1) t by (intro exI [of _ result]) (simp add: e2)
qed

definition unclaimed :: "uuid \<Rightarrow> sessions_db \<Rightarrow> bool" where
  "unclaimed mid d \<longleftrightarrow> (\<forall>v\<in>set (verifications d). vr_command_message_id v \<noteq> mid)"

lemma verification_keys:
  assumes "sessions_ok d" "v \<in> set (verifications d)" "u \<in> set (verifications d)"
  shows "vr_id v = vr_id u \<Longrightarrow> v = u" "vr_command_message_id v = vr_command_message_id u \<Longrightarrow> v = u"
    and "vr_operation_id v = vr_operation_id u \<Longrightarrow> v = u"
proof -
  have "distinct (map vr_id (verifications d))" "distinct (map vr_command_message_id (verifications d))"
      "distinct (map vr_operation_id (verifications d))"
    using assms(1) by (simp_all add: sessions_ok_def sessions_keys_ok_def)
  with assms(2,3) show "vr_id v = vr_id u \<Longrightarrow> v = u" "vr_command_message_id v = vr_command_message_id u \<Longrightarrow> v = u"
      "vr_operation_id v = vr_operation_id u \<Longrightarrow> v = u"
    by (metis distinct_map inj_on_def)+
qed

text \<open>Settling one verification answers it and leaves the others as they were.\<close>

lemma settled_row_answered:
  assumes "answered d" "sessions_ok d" "row \<in> set (verifications d)" "vr_status row = V_PENDING" "status \<noteq> V_PENDING"
    and "inbox d' = map (completed (vr_command_message_id row) result now) (inbox d)"
    and "outbox_ids d' = insert result (outbox_ids d)"
    and "verifications d' = map (finished row status code now) (verifications d)"
  shows "answered d'"
  unfolding answered_def
proof
  fix v'
  assume "v' \<in> set (verifications d')"
  then obtain v where v: "v \<in> set (verifications d)" "v' = finished row status code now v"
    unfolding assms(8) by auto
  have "answer_ok (inbox d) (outbox_ids d') v"
    using assms(1,7) v(1) answer_ok_mono [of "inbox d" "outbox_ids d" v "outbox_ids d'" "[]"]
    by (auto simp: answered_def)
  then have "answer_ok (map (completed (vr_command_message_id row) result now) (inbox d)) (outbox_ids d') v'"
  proof (cases "v = row")
    case True
    with v assms(4,5,7) \<open>answer_ok _ _ v\<close> show ?thesis
      by (intro answer_ok_settled [of _ _ v]) (auto simp: finished_def)
  next
    case False
    then have "vr_id v \<noteq> vr_id row" "vr_command_message_id v \<noteq> vr_command_message_id row"
      using verification_keys [OF assms(2) v(1) assms(3)] by auto
    with v \<open>answer_ok _ _ v\<close> show ?thesis
      by (intro answer_ok_other) (auto simp: finished_def completed_other)
  qed
  then show "answer_ok (inbox d') (outbox_ids d') v'"
    by (simp only: assms(6))
qed

lemma unclaimed_answered:
  assumes "answered d" "unclaimed mid d" "verifications d' = verifications d" "outbox_ids d' = outbox_ids d"
    and "inbox d' = map f (inbox d)" "\<And>r. ib_message_id (f r) = ib_message_id r" "\<And>r. ib_message_id r \<noteq> mid \<Longrightarrow> f r = r"
  shows "answered d'"
  using assms(1,2) unfolding answered_def unclaimed_def assms(3-5)
  by (auto intro!: answer_ok_other assms(6,7))

lemma settled_rows_answered:
  assumes "answered d" "sessions_ok d" "row \<in> set (verifications d)" "vr_status row = V_PENDING"
    and "status \<noteq> V_PENDING" "unclaimed mid d"
    and "inbox d' = map (completed mid result now) (map (completed (vr_command_message_id row) result now) (inbox d))"
    and "outbox_ids d' = insert result (outbox_ids d)"
    and "verifications d' = map (finished row status code now) (verifications d)"
  shows "answered d'"
proof (rule unclaimed_answered [where mid = mid and f = "completed mid result now"
      and d = "d'\<lparr>inbox := map (completed (vr_command_message_id row) result now) (inbox d)\<rparr>"])
  show "answered (d'\<lparr>inbox := map (completed (vr_command_message_id row) result now) (inbox d)\<rparr>)"
    using assms(8,9) by (intro settled_row_answered [OF assms(1-5), where now = now and code = code and result = result])
      (simp_all add: outbox_ids_def)
  show "unclaimed mid (d'\<lparr>inbox := map (completed (vr_command_message_id row) result now) (inbox d)\<rparr>)"
    using assms(6,9) by (auto simp: unclaimed_def finished_def)
qed (simp_all add: assms(7) completed_other outbox_ids_def)

lemma settle_verification_answered:
  assumes "settle_verification L st mid row status code completion factory w s = Inr (x, s')"
    and "answered (fst s)" "sessions_ok (fst s)" "row \<in> set (verifications (fst s))" "vr_status row = V_PENDING"
    and "status \<noteq> V_PENDING" "unclaimed mid (fst s)"
  shows "answered (fst s')"
  using settle_verification_effect [OF assms(1)] settled_rows_answered [OF assms(2-7)] by blast

text \<open>The bodies between registration and settlement touch only their own tables.\<close>

definition frame_rest :: "sessions_db \<Rightarrow> sessions_db \<Rightarrow> bool" where
  "frame_rest d d' \<longleftrightarrow>
     inbox d' = inbox d \<and> outbox d' = outbox d \<and> verifications d' = verifications d \<and>
     (sessions_ok d \<longrightarrow> sessions_ok d')"

lemma frame_rest_pre [simp, intro]: "reflp frame_rest" "transp frame_rest"
  by (auto simp: frame_rest_def reflp_def transp_def)

lemmas frame_keeps = keeps_bind [OF frame_rest_pre(2)] keeps_return [OF frame_rest_pre(1)]
  keeps_lift [OF frame_rest_pre(1)] keeps_query [OF frame_rest_pre(1)] keeps_fail keeps_if keeps_option keeps_prod

lemma lock_verification_ok:
  "lock_verification op w s = Inr (row, s') \<longleftrightarrow>
     \<not> stmt_fails w (snd s) \<and> find_verification (\<lambda>r. vr_operation_id r = op) (fst s) = Some row \<and> s' = (fst s, snd s + 1)"
  by (auto simp: lock_verification_def tx_ok split: option.splits)

lemma ensure_identity_frame: "keeps frame_rest (ensure_identity L st row b s)"
  unfolding ensure_identity_def by (intro frame_keeps keeps_exec) (auto simp: frame_rest_def)

lemma activate_session_frame: "keeps frame_rest (activate_session row i now)"
  unfolding activate_session_def insert_session_def update_session_def insert_event_def
  by (intro frame_keeps keeps_exec) (auto simp: frame_rest_def)

lemma find_verification_mem:
  "find_verification P d = Some row \<Longrightarrow> row \<in> set (verifications d) \<and> P row"
  by (auto simp: find_verification_def dest: find_Some_iff_first)

lemma reject_inbox_answered:
  assumes "reject_inbox sessions_ok mid w s = Inr (x, s')" "answered (fst s)" "unclaimed mid (fst s)"
  shows "answered (fst s')"
proof -
  have s': "fst s' = (fst s)\<lparr>inbox := map (\<lambda>r. if is_processing mid r
              then r\<lparr>ib_status := REJECTED, ib_completed_at := Some (db_now w)\<rparr> else r) (inbox (fst s))\<rparr>"
    using assms(1) unfolding tx_ok by simp
  show ?thesis
    by (rule unclaimed_answered [OF assms(2,3), where f = "\<lambda>r. if is_processing mid r
              then r\<lparr>ib_status := REJECTED, ib_completed_at := Some (db_now w)\<rparr> else r"])
      (simp_all add: s' is_processing_def outbox_ids_def)
qed

lemma answered_frame: "frame_rest d d' \<Longrightarrow> answered d \<Longrightarrow> answered d'"
  by (simp add: frame_rest_def answered_def outbox_ids_def)

lemma complete_rejected_answered:
  assumes "complete_rejected L st mid row completion factory w s = Inr (x, s')"
    and "answered (fst s)" "sessions_ok (fst s)" "row \<in> set (verifications (fst s))" "vr_status row = V_PENDING"
    and "unclaimed mid (fst s)"
  shows "answered (fst s')"
  using settle_verification_answered [OF assms(1) [unfolded complete_rejected_def] assms(2-5) _ assms(6)] by simp

lemma new_completion_fields [simp]:
  "co_occurred_at (new_completion op row now) = now" "co_activated (new_completion op row now) = False"
  by (simp_all add: new_completion_def)

text \<open>The ways through \<open>ApplyTopupVerified\<close> after the registration, and what each has found.\<close>

lemma apply_verified_body_cases:
  assumes "apply_verified_body L st inc verified op factory w s = Inr (x, s')"
  obtains (late) row where "find_verification (\<lambda>r. vr_operation_id r = op) (fst s) = Some row" "vr_status row \<noteq> V_PENDING"
      "reject_inbox sessions_ok (in_message_id inc) w (fst s, snd s + 1) = Inr (x, s')"
  | (violation) row expected c n where "find_verification (\<lambda>r. vr_operation_id r = op) (fst s) = Some row"
      "vr_status row = V_PENDING" "expected_facts L st row = Inr expected"
      "\<not> same_facts verified expected \<or> \<not> finalized_in_time verified row (go_now w 2)"
      "co_code c = ''CONTRACT_VIOLATION''" "co_activated c = False"
      "complete_rejected L st (in_message_id inc) row c factory w (fst s, n) = Inr (x, s')"
  | (mismatch) row expected balance wallet i s1 c n where "find_verification (\<lambda>r. vr_operation_id r = op) (fst s) = Some row"
      "vr_status row = V_PENDING" "expected_facts L st row = Inr expected" "same_facts verified expected"
      "finalized_in_time verified row (go_now w 2)"
      "ensure_identity L st row balance wallet w (fst s, n) = Inr ((i, False), s1)"
      "co_code c = ''WALLET_MISMATCH''" "co_activated c = False"
      "complete_rejected L st (in_message_id inc) row c factory w s1 = Inr (x, s')"
  | (conflict) row expected balance wallet i s1 s2 c n where "find_verification (\<lambda>r. vr_operation_id r = op) (fst s) = Some row"
      "vr_status row = V_PENDING" "expected_facts L st row = Inr expected" "same_facts verified expected"
      "finalized_in_time verified row (go_now w 2)"
      "ensure_identity L st row balance wallet w (fst s, n) = Inr ((i, True), s1)"
      "activate_session row i (go_now w 1) w s1 = Inr (None, s2)"
      "co_code c = ''CONFLICT''" "co_activated c = False"
      "complete_rejected L st (in_message_id inc) row c factory w s2 = Inr (x, s')"
  | (activated) row expected balance wallet i s1 v s2 n where
      "find_verification (\<lambda>r. vr_operation_id r = op) (fst s) = Some row"
      "vr_status row = V_PENDING" "expected_facts L st row = Inr expected" "same_facts verified expected"
      "finalized_in_time verified row (go_now w 2)"
      "st_decrypt L st ''activation_verifications'' (vr_id row) ''balance_id'' (vr_balance_ciphertext row) = Inr balance"
      "ensure_identity L st row balance wallet w (fst s, n) = Inr ((i, True), s1)"
      "activate_session row i (go_now w 1) w s1 = Inr (Some v, s2)"
      "settle_verification L st (in_message_id inc) row V_VERIFIED ''''
         ((new_completion op row (go_now w 1))\<lparr>co_balance_id := balance, co_activated := True, co_authority_version := v\<rparr>)
         factory w s2 = Inr (x, s')"
proof -
  let ?c = "\<lambda>row. new_completion op row (go_now w 1)"
  let ?mid = "in_message_id inc"
  let ?act = "\<lambda>row balance. (\<lambda>version. case version of
       None \<Rightarrow> complete_rejected L st ?mid row ((?c row)\<lparr>co_balance_id := balance, co_code := ''CONFLICT''\<rparr>) factory
     | Some v \<Rightarrow> settle_verification L st ?mid row V_VERIFIED ''''
         ((?c row)\<lparr>co_balance_id := balance, co_activated := True, co_authority_version := v\<rparr>) factory)"
  let ?ident = "\<lambda>row balance (i, b). if \<not> b
     then complete_rejected L st ?mid row ((?c row)\<lparr>co_balance_id := balance, co_code := ''WALLET_MISMATCH''\<rparr>) factory
     else tx_bind (activate_session row i (co_occurred_at (?c row))) (?act row balance)"
  from assms obtain row where row: "find_verification (\<lambda>r. vr_operation_id r = op) (fst s) = Some row"
    by (auto simp: apply_verified_body_def tx_bind_ok [of "lock_verification op"] lock_verification_ok)
  show thesis
  proof (cases "vr_status row = V_PENDING")
    case False
    with assms row show thesis
      by (intro late)
        (simp_all add: apply_verified_body_def tx_bind_ok [of "lock_verification op"] lock_verification_ok)
  next
    case pending: True
    from assms row pending obtain expected where e: "expected_facts L st row = Inr expected"
      by (auto simp: apply_verified_body_def tx_bind_ok [of "lock_verification op"] lock_verification_ok
          tx_bind_ok [of "tx_lift _"] tx_lift_ok)
    show thesis
    proof (cases "same_facts verified expected \<and> finalized_in_time verified row (go_now w 2)")
      case False
      with assms row pending e show thesis
        by (intro violation [of row expected "(?c row)\<lparr>co_code := ''CONTRACT_VIOLATION''\<rparr>" "snd s + 1"])
          (auto simp: apply_verified_body_def tx_bind_ok [of "lock_verification op"] lock_verification_ok
            tx_bind_ok [of "tx_lift _"] tx_lift_ok)
    next
      case facts: True
      with assms row pending e obtain balance wallet i b s1 where
        d: "st_decrypt L st ''activation_verifications'' (vr_id row) ''balance_id'' (vr_balance_ciphertext row) = Inr balance"
        and i: "ensure_identity L st row balance wallet w (fst s, snd s + 1) = Inr ((i, b), s1)"
        and rest: "?ident row balance (i, b) w s1 = Inr (x, s')"
        by (simp add: apply_verified_body_def tx_bind_ok [of "lock_verification op"] lock_verification_ok
            tx_bind_ok [of "tx_lift _"] tx_bind_ok [of "ensure_identity _ _ _ _ _"] tx_lift_ok)
          (elim exE conjE, rule that, assumption, simp, simp split: if_splits)
      show thesis
      proof (cases b)
        case False
        with rest i row pending e facts show thesis
          by (intro mismatch [of row expected balance wallet "snd s + 1" i s1
                "(?c row)\<lparr>co_balance_id := balance, co_code := ''WALLET_MISMATCH''\<rparr>"]) auto
      next
        case True
        with rest obtain v s2 where a: "activate_session row i (go_now w 1) w s1 = Inr (v, s2)"
          and rest4: "?act row balance v w s2 = Inr (x, s')"
          by (auto simp: tx_bind_ok [of "activate_session _ _ _"] simp del: One_nat_def)
        show thesis
        proof (cases v)
          case None
          with True rest4 a i row pending e facts show thesis
            by (intro conflict [of row expected balance wallet "snd s + 1" i s1 s2
                  "(?c row)\<lparr>co_balance_id := balance, co_code := ''CONFLICT''\<rparr>"]) auto
        next
          case (Some u)
          with True rest4 a i row pending e facts d show thesis
            by (intro activated [of row expected balance wallet "snd s + 1" i s1 u s2]) auto
        qed
      qed
    qed
  qed
qed

lemma found_pending:
  "find_verification P d = Some row \<Longrightarrow> frame_rest d d' \<Longrightarrow> row \<in> set (verifications d')"
  by (auto simp: frame_rest_def dest: find_verification_mem)

lemma apply_verified_body_answered:
  assumes "apply_verified_body L st inc verified op factory w s = Inr (x, s')"
    and "answered (fst s)" "sessions_ok (fst s)" "unclaimed (in_message_id inc) (fst s)"
  shows "answered (fst s')"
proof -
  have settle: "answered (fst s')" if "frame_rest (fst s) (fst s1)" "status \<noteq> V_PENDING"
    "find_verification (\<lambda>r. vr_operation_id r = op) (fst s) = Some row" "vr_status row = V_PENDING"
    "settle_verification L st (in_message_id inc) row status code c factory w s1 = Inr (x, s')" for s1 row status code c
    by (rule settle_verification_answered [OF that(5)])
      (use that assms answered_frame [OF that(1)] found_pending [OF that(3,1)] in \<open>auto simp: frame_rest_def unclaimed_def\<close>)
  note e = keepsD [OF ensure_identity_frame] and a = keepsD [OF activate_session_frame]
  from assms(1) show ?thesis
  proof (cases rule: apply_verified_body_cases)
    case (late row)
    show ?thesis
      by (rule reject_inbox_answered [OF late(3)]) (use assms in simp_all)
  next
    case (violation row expected c n)
    show ?thesis
      by (rule settle [OF _ _ violation(1,2) violation(7) [unfolded complete_rejected_def]]) (simp_all add: frame_rest_def)
  next
    case (mismatch row expected balance wallet i s1 c n)
    show ?thesis
      by (rule settle [OF e [OF mismatch(6), simplified] _ mismatch(1,2) mismatch(9) [unfolded complete_rejected_def]]) simp
  next
    case (conflict row expected balance wallet i s1 s2 c n)
    show ?thesis
      by (rule settle [OF transpD [OF frame_rest_pre(2) e [OF conflict(6), simplified] a [OF conflict(7)]] _ conflict(1,2)
            conflict(10) [unfolded complete_rejected_def]]) simp
  next
    case (activated row expected balance wallet i s1 v s2 n)
    show ?thesis
      by (rule settle [OF transpD [OF frame_rest_pre(2) e [OF activated(7), simplified] a [OF activated(8)]] _ activated(1,2)
            activated(9)]) simp
  qed
qed

lemma apply_rejected_body_answered:
  assumes "apply_rejected_body L st inc rej op factory w s = Inr (x, s')"
    and "answered (fst s)" "sessions_ok (fst s)" "unclaimed (in_message_id inc) (fst s)"
  shows "answered (fst s')"
proof -
  from assms(1) obtain row where row: "find_verification (\<lambda>r. vr_operation_id r = op) (fst s) = Some row"
    by (auto simp: apply_rejected_body_def tx_bind_ok lock_verification_ok)
  then have mem: "row \<in> set (verifications (fst s))"
    by (auto dest: find_verification_mem)
  show ?thesis
  proof (cases "vr_status row = V_PENDING")
    case False
    with assms(1) row have "reject_inbox sessions_ok (in_message_id inc) w (fst s, snd s + 1) = Inr (x, s')"
      by (simp add: apply_rejected_body_def tx_bind_ok lock_verification_ok)
    then show ?thesis
      by (rule reject_inbox_answered) (use assms in simp_all)
  next
    case True
    with assms(1) row obtain c where
      "complete_rejected L st (in_message_id inc) row c factory w (fst s, snd s + 1) = Inr (x, s')"
      by (auto simp: apply_rejected_body_def tx_bind_ok lock_verification_ok tx_lift_ok)
    then show ?thesis
      by (rule complete_rejected_answered) (use assms mem True in simp_all)
  qed
qed

section \<open>Registration\<close>

text \<open>The state in which the body of a handler runs: its message is new, and \<open>PROCESSING\<close>.\<close>

definition registered :: "uuid \<Rightarrow> sessions_db \<Rightarrow> bool" where
  "registered mid d \<longleftrightarrow>
     answered d \<and> sessions_ok d \<and> unclaimed mid d \<and>
     (\<exists>r. find (\<lambda>r. ib_message_id r = mid) (inbox d) = Some r \<and> ib_status r = PROCESSING)"

lemma deduplicated_cases:
  assumes "deduplicated L inc body w s = Inr (x, s')"
  obtains (new) r s1 where "in_message_id inc \<notin> inbox_ids (fst s)" "ib_message_id r = in_message_id inc"
      "ib_status r = PROCESSING" "fst s1 = (fst s)\<lparr>inbox := inbox (fst s) @ [r]\<rparr>" "sessions_ok (fst s1)"
      "body w s1 = Inr (x, s')"
  | (repeated) q where "find_inbox (in_message_id inc) (fst s) = Some q"
      "fst s' = fst s \<or> (ib_status q = COMPLETED \<and> sessions_ok (fst s') \<and> (\<exists>mid. ib_result_message_id q = Some mid \<and>
        fst s' = update_outbox (\<lambda>r. ob_message_id r = mid \<and> ob_status r \<notin> {CONFIRMED, DEAD})
              (\<lambda>r. r\<lparr>ob_status := PENDING, ob_next_attempt_at := db_now w, ob_lease_until := None\<rparr>) (fst s)))"
proof (cases "find_inbox (in_message_id inc) (fst s)")
  case None
  with assms show thesis
    by (intro new) (auto simp: deduplicated_def tx_bind_ok register_inbox_ok find_inbox_None)
next
  case (Some q)
  with assms show thesis
    by (intro repeated [OF Some])
      (auto simp: deduplicated_def tx_bind_ok register_inbox_ok requeue_outbox_ok tx_return_ok split: if_splits)
qed

lemma update_outbox_answered:
  fixes d :: sessions_db
  assumes "\<And>r. ob_message_id (f r) = ob_message_id r"
  shows "answered (update_outbox P f d) = answered d"
  using same_more_tables(3) [of "update_outbox P f d" d] update_outbox_ids [of f P d] assms
  by (simp add: answered_def)

lemma command_in_inbox: "sessions_ok d \<Longrightarrow> v \<in> set (verifications d) \<Longrightarrow> vr_command_message_id v \<in> inbox_ids d"
  by (simp add: sessions_ok_def sessions_refs_ok_def list_all_iff inbox_ids_def)

lemma deduplicated_answered:
  assumes "deduplicated L inc body w s = Inr (x, s')" "answered (fst s)" "sessions_ok (fst s)"
    and "\<And>s x s'. body w s = Inr (x, s') \<Longrightarrow> registered (in_message_id inc) (fst s) \<Longrightarrow> answered (fst s')"
  shows "answered (fst s')"
  using assms(1)
proof (cases rule: deduplicated_cases)
  case (new r s1)
  have "registered (in_message_id inc) (fst s1)"
    unfolding registered_def
  proof (intro conjI)
    show "answered (fst s1)"
      using assms(2) answer_ok_mono [of "inbox (fst s)" "outbox_ids (fst s)"]
      by (simp add: answered_def new(4) outbox_ids_def)
    show "unclaimed (in_message_id inc) (fst s1)"
      using command_in_inbox [OF assms(3)] new(1) unfolding unclaimed_def new(4) by fastforce
    have "find (\<lambda>r. ib_message_id r = in_message_id inc) (inbox (fst s)) = None"
      using new(1) unfolding find_inbox_None [symmetric, unfolded find_inbox_def] .
    then have "find (\<lambda>r. ib_message_id r = in_message_id inc) (inbox (fst s1)) = Some r"
      using new(2) by (simp add: new(4))
    then show "\<exists>r. find (\<lambda>r. ib_message_id r = in_message_id inc) (inbox (fst s1)) = Some r \<and> ib_status r = PROCESSING"
      using new(3) by blast
  qed (rule new(5))
  with new(6) show ?thesis by (rule assms(4))
next
  case (repeated q)
  then show ?thesis
    using assms(2) by (auto simp: update_outbox_answered)
qed

text \<open>A new verification is \<open>PENDING\<close>, and its command \<open>PROCESSING\<close>.\<close>

lemma accept_verification_answered:
  assumes "answered d" "sessions_ok d"
  shows "answered (snd (accept_verification L st inc command topup w d))"
proof -
  have body: "answered (fst s')"
    if m: "tx_bind (st_insert_outbox L st 3 topup) (\<lambda>_. tx_exec sessions_ok m (\<lambda>w d.
           ((), d\<lparr>verifications := verifications d @ [accepted_row L st (db_now w) vid inc command topup b1 b2 b3]\<rparr>)))
         w s = Inr (x, s')" and r: "registered (in_message_id inc) (fst s)" for m vid b1 b2 b3 s x s'
  proof -
    let ?row = "accepted_row L st (db_now w) vid inc command topup b1 b2 b3"
    from m obtain s1 where 1: "st_insert_outbox L st 3 topup w s = Inr ((), s1)"
      and s': "fst s' = (fst s1)\<lparr>verifications := verifications (fst s1) @ [?row]\<rparr>"
      by (auto simp: tx_bind_ok tx_exec_ok)
    note e = st_insert_outbox_effect [OF 1]
    from r obtain q where a: "answered (fst s)" and q: "find (\<lambda>r. ib_message_id r = in_message_id inc) (inbox (fst s)) = Some q"
      "ib_status q = PROCESSING" by (auto simp: registered_def)
    have obs: "outbox_ids (fst s') = insert (om_message_id topup) (outbox_ids (fst s))"
      using e(1) by (simp add: s' outbox_ids_def)
    have "answer_ok (inbox (fst s')) (outbox_ids (fst s')) v" if "v \<in> set (verifications (fst s))" for v
    proof -
      have "answer_ok (inbox (fst s)) (outbox_ids (fst s)) v"
        using a that by (simp add: answered_def)
      then have "answer_ok (inbox (fst s) @ []) (outbox_ids (fst s')) v"
        by (rule answer_ok_mono) (auto simp: obs)
      then show ?thesis
        by (simp add: s' e(2))
    qed
    moreover have "answer_ok (inbox (fst s')) (outbox_ids (fst s')) ?row"
      using q e(2) by (simp add: answer_ok_def s' accepted_row_def)
    ultimately show ?thesis
      using same_more_tables(3) [OF e(3)] by (simp add: answered_def s' ball_Un)
  qed
  show ?thesis
    unfolding accept_verification_def
    using assms by (auto split: sum.split intro!: run_tx_invariant [where P = answered] elim!: deduplicated_answered body
        dest!: deduplicated_answered [OF _ _ _ body])
qed

section \<open>Reconciliation\<close>

lemma replace_topup_command_answered:
  assumes "answered d"
  shows "answered (snd (replace_topup_command L st item new w d))"
  unfolding replace_topup_command_def
proof (rule run_tx_invariant [where P = answered, OF assms])
  fix x d' n
  let ?f = "\<lambda>r. r\<lparr>vr_topup_command_message_id := om_message_id new, vr_updated_at := db_now w, vr_version := vr_version r + 1\<rparr>"
  assume a: "tx_bind (current_command item) (\<lambda>row.
        if vr_status row \<noteq> V_PENDING \<or> vr_topup_command_message_id row \<noteq> pr_topup_command_message_id item
        then tx_return ()
        else
        tx_bind (st_insert_outbox L st 3 new) (\<lambda>_.
        tx_exec sessions_ok ''replace top-up verification command'' (\<lambda>w d.
          ((), update_verifications (\<lambda>r. vr_id r = pr_verification_id item)
                 (\<lambda>r. r\<lparr>vr_topup_command_message_id := om_message_id new, vr_updated_at := db_now w,
                        vr_version := vr_version r + 1\<rparr>) d)))) w (d, 0) = Inr (x, d', n)"
  then consider "d' = d" | s1 where "st_insert_outbox L st 3 new w (d, 1) = Inr ((), s1)"
      "d' = update_verifications (\<lambda>r. vr_id r = pr_verification_id item) ?f (fst s1)"
    by (auto simp: tx_bind_ok current_command_ok tx_exec_ok tx_return_ok split: if_splits)
  then show "answered d'"
  proof cases
    case 2
    note e = st_insert_outbox_effect [OF 2(1)]
    have "answer_ok (inbox d') (outbox_ids d') v'" if v': "v' \<in> set (verifications d')" for v'
    proof -
      obtain v where v: "v \<in> set (verifications d)" "vr_status v' = vr_status v"
          "vr_command_message_id v' = vr_command_message_id v"
        using v' same_more_tables(3) [OF e(3)] by (auto simp: 2(2) update_verifications_def split: if_splits)
      have "answer_ok (inbox d @ []) (outbox_ids d') v"
        using v(1) assms e(1)
        by (intro answer_ok_mono [of _ "outbox_ids d"]) (auto simp: answered_def 2(2) update_verifications_def outbox_ids_def)
      moreover have "inbox d' = inbox d"
        using e(2) by (simp add: 2(2) update_verifications_def)
      ultimately show ?thesis
        by (simp only: answer_ok_def v(2,3) append_Nil2)
    qed
    then show ?thesis by (simp add: answered_def)
  qed (simp add: assms)
qed

lemma retry_of_fields:
  "retry_of L st r = Inr item \<Longrightarrow> pr_verification_id item = vr_id r \<and> pr_command_message_id item = vr_command_message_id r \<and>
     pr_operation_id item = vr_operation_id r"
  by (auto simp: retry_of_def split: sum.splits)

text \<open>Expiry either does nothing or settles the verification of the item.\<close>

definition expired :: "verification_row \<Rightarrow> instant \<Rightarrow> sessions_db \<Rightarrow> sessions_db \<Rightarrow> bool" where
  "expired row now d d' \<longleftrightarrow>
     (\<exists>result. vr_status row = V_PENDING \<and>
        inbox d' = map (completed (vr_command_message_id row) result now) (inbox d) \<and>
        outbox_ids d' = insert result (outbox_ids d) \<and>
        verifications d' = map (finished row V_EXPIRED (Some ''EXPIRED'') now) (verifications d) \<and> sessions d' = sessions d)"

lemma expire_verification_cases:
  assumes "sessions_ok d" "row \<in> set (verifications d)" "pr_verification_id item = vr_id row"
    and "pr_command_message_id item = vr_command_message_id row"
  shows "snd (expire_verification L st item factory w d) = d \<or>
    expired row (db_now w) d (snd (expire_verification L st item factory w d))"
  unfolding expire_verification_def
proof (rule run_tx_invariant [where P = "\<lambda>d'. d' = d \<or> expired row (db_now w) d d'"])
  fix x d' n
  let ?f = "\<lambda>w r. r\<lparr>vr_status := V_EXPIRED, vr_failure_code := Some ''EXPIRED'',
                          vr_completed_at := Some (db_now w), vr_updated_at := db_now w,
                          vr_version := vr_version r + 1\<rparr>"
  let ?c = "\<lambda>now again. \<lparr>co_operation_id = pr_operation_id item, co_session_id = vr_session_id again,
            co_balance_id = pr_balance_id item, co_activated = False, co_authority_version = 0,
            co_code = ''EXPIRED'', co_retryable = False, co_occurred_at = now\<rparr>"
  assume a: "tx_bind (current_command item) (\<lambda>row.
        if vr_status row \<noteq> V_PENDING \<or> vr_topup_command_message_id row \<noteq> pr_topup_command_message_id item
        then tx_return ()
        else
        tx_bind (tx_lift (\<lambda>w. Inr (go_now w 1))) (\<lambda>now.
        tx_bind (current_command item) (\<lambda>again.
        tx_bind (tx_lift (factory (?c now again))) (\<lambda>result.
        tx_bind (st_insert_outbox L st 8 (result\<lparr>om_kind := ''RESULT''\<rparr>)) (\<lambda>_.
        tx_bind (tx_exec sessions_ok ''expire verification'' (\<lambda>w d.
            ((), update_verifications (\<lambda>r. vr_id r = pr_verification_id item) (?f w) d))) (\<lambda>_.
        tx_bind (complete_inbox sessions_ok (pr_command_message_id item) (om_message_id result)) (\<lambda>_.
        confirm_outbox sessions_ok (vr_topup_command_message_id row)))))))) w (d, 0) = Inr (x, d', n)"
  have "find_verification (\<lambda>r. vr_id r = vr_id row) d = Some row"
    using find_unique [of vr_id "verifications d" row "vr_id row"] assms(1,2)
    by (simp add: find_verification_def sessions_ok_def sessions_keys_ok_def sorted_wrt_distinct_keys)
  with a assms(3) consider "d' = d" | result s1 where "vr_status row = V_PENDING"
      "st_insert_outbox L st 8 (result\<lparr>om_kind := ''RESULT''\<rparr>) w (d, Suc (Suc 0)) = Inr ((), s1)"
      "d' = update_outbox (\<lambda>r. ob_message_id r = vr_topup_command_message_id row \<and> ob_status r \<noteq> DEAD)
              (\<lambda>r. r\<lparr>ob_status := CONFIRMED, ob_confirmed_at := Some (db_now w), ob_lease_until := None\<rparr>)
              ((update_verifications (\<lambda>r. vr_id r = vr_id row) (?f w) (fst s1))\<lparr>inbox :=
                 map (completed (vr_command_message_id row) (om_message_id result) (db_now w)) (inbox (fst s1))\<rparr>)"
    by (auto simp: tx_bind_ok current_command_ok tx_exec_ok tx_return_ok tx_lift_ok complete_inbox_ok confirm_outbox_ok
        assms(4) update_verifications_def completed_def [abs_def] split: if_splits)
  then show "d' = d \<or> expired row (db_now w) d d'"
  proof cases
    case 2
    note e = st_insert_outbox_effect [OF 2(2)]
    have rows: "verifications (fst s1) = verifications d" "sessions (fst s1) = sessions d"
      using same_more_tables [OF e(3)] by simp_all
    have "(if vr_id v = vr_id row then ?f w v else v) = finished row V_EXPIRED (Some ''EXPIRED'') (db_now w) v"
      if "v \<in> set (verifications d)" for v
      using verification_keys(1) [OF assms(1) that assms(2)] 2(1) by (auto simp: finished_def)
    then have "map (\<lambda>v. if vr_id v = vr_id row then ?f w v else v) (verifications (fst s1)) =
        map (finished row V_EXPIRED (Some ''EXPIRED'') (db_now w)) (verifications d)"
      unfolding rows by (rule map_cong [OF refl])
    moreover have "verifications d' = map (\<lambda>v. if vr_id v = vr_id row then ?f w v else v) (verifications (fst s1))"
      by (simp add: 2(3) update_outbox_def update_verifications_def)
    ultimately have vs: "verifications d' = map (finished row V_EXPIRED (Some ''EXPIRED'') (db_now w)) (verifications d)"
      by simp
    have obs: "outbox_ids d' = insert (om_message_id result) (outbox_ids d)"
      unfolding 2(3) by (subst update_outbox_ids) (use e(1) in \<open>simp_all add: outbox_ids_def update_verifications_def\<close>)
    have "inbox d' = map (completed (vr_command_message_id row) (om_message_id result) (db_now w)) (inbox d)"
      using e(2) by (simp add: 2(3))
    moreover have "sessions d' = sessions d"
      using rows by (simp add: 2(3) update_outbox_def update_verifications_def)
    ultimately show ?thesis
      using 2(1) obs vs unfolding expired_def by blast
  qed simp
qed simp

lemma expire_verification_answered:
  assumes "answered d" "sessions_ok d" "row \<in> set (verifications d)" "pr_verification_id item = vr_id row"
    and "pr_command_message_id item = vr_command_message_id row"
  shows "answered (snd (expire_verification L st item factory w d))"
  using expire_verification_cases [OF assms(2-5), of L st factory w]
proof
  assume "expired row (db_now w) d (snd (expire_verification L st item factory w d))"
  then show ?thesis
    unfolding expired_def using settled_row_answered [OF assms(1-3), where status = V_EXPIRED] by blast
qed (simp add: assms(1))

section \<open>Every step\<close>

text \<open>The schema holds after every transaction that started with it.\<close>

lemma bodies_keep_schema:
  "keeps (schema_kept sessions_ok) (settle_verification L st mid row status code completion factory)"
  "keeps (schema_kept sessions_ok) (ensure_identity L st row b s)"
  "keeps (schema_kept sessions_ok) (activate_session row i now)"
  "keeps (schema_kept sessions_ok) (lock_verification op)" "keeps (schema_kept sessions_ok) (current_command item)"
  "keeps (schema_kept sessions_ok) (st_insert_outbox L st n m)" "keeps (schema_kept sessions_ok) (reject_inbox sessions_ok mid)"
  "keeps (schema_kept sessions_ok) (complete_inbox sessions_ok mid result)"
  "keeps (schema_kept sessions_ok) (confirm_outbox sessions_ok mid)"
  "keeps (schema_kept sessions_ok) (register_inbox sessions_ok mid subj sender digest expires)"
  "keeps (schema_kept sessions_ok) (requeue_outbox sessions_ok mid)"
  unfolding settle_verification_def ensure_identity_def activate_session_def lock_verification_def current_command_def
    st_insert_outbox_def reject_inbox_def insert_outbox_def finish_verification_def complete_inbox_def confirm_outbox_def
    insert_session_def update_session_def insert_event_def register_inbox_def requeue_outbox_def
  by (intro schema_keeps)+

lemma deduplicated_keeps_schema:
  "keeps (schema_kept sessions_ok) body \<Longrightarrow> keeps (schema_kept sessions_ok) (deduplicated L inc body)"
  unfolding deduplicated_def by (intro schema_keeps bodies_keep_schema)

lemma run_schema: "keeps (schema_kept sessions_ok) body \<Longrightarrow> sessions_ok d \<Longrightarrow> sessions_ok (snd (run_tx w body d))"
  using run_tx_keeps [OF schema_kept_pre(1), of sessions_ok body d w] by (simp add: schema_kept_def)

lemma accept_verification_ok: "sessions_ok d \<Longrightarrow> sessions_ok (snd (accept_verification L st inc command topup w d))"
  unfolding accept_verification_def
  by (auto split: sum.split intro!: run_schema deduplicated_keeps_schema schema_keeps bodies_keep_schema)

lemma apply_bodies_keep_schema:
  "keeps (schema_kept sessions_ok) (apply_verified_body L st inc verified op factory)"
  "keeps (schema_kept sessions_ok) (apply_rejected_body L st inc rej op factory)"
  unfolding apply_verified_body_def apply_rejected_body_def complete_rejected_def
  by (intro schema_keeps bodies_keep_schema)+

lemma apply_topup_verified_ok: "sessions_ok d \<Longrightarrow> sessions_ok (snd (apply_topup_verified L st inc verified factory w d))"
  unfolding apply_topup_verified_def
  by (auto split: option.split intro!: run_schema deduplicated_keeps_schema apply_bodies_keep_schema)

lemma apply_topup_rejected_ok: "sessions_ok d \<Longrightarrow> sessions_ok (snd (apply_topup_rejected L st inc rej factory w d))"
  unfolding apply_topup_rejected_def
  by (auto split: option.split intro!: run_schema deduplicated_keeps_schema apply_bodies_keep_schema)

lemma reconcile_ok:
  "sessions_ok d \<Longrightarrow> sessions_ok (snd (expire_verification L st item factory w d))"
  "sessions_ok d \<Longrightarrow> sessions_ok (snd (replace_topup_command L st item new w d))"
  unfolding expire_verification_def replace_topup_command_def
  by (rule run_schema, intro schema_keeps bodies_keep_schema, assumption)+

lemma apply_topup_verified_answered:
  assumes "answered d" "sessions_ok d"
  shows "answered (snd (apply_topup_verified L st inc verified factory w d))"
proof -
  have "answered (fst s')" if "apply_verified_body L st inc verified op factory w s = Inr (x, s')"
    and "registered (in_message_id inc) (fst s)" for op s x s'
    using apply_verified_body_answered [OF that(1)] that(2) by (simp add: registered_def)
  note deduplicated_answered [OF _ _ _ this]
  from this [where s = "(d, 0)"] show ?thesis
    unfolding apply_topup_verified_def using assms
    by (auto split: option.split intro!: run_tx_invariant [where P = answered])
qed

lemma apply_topup_rejected_answered:
  assumes "answered d" "sessions_ok d"
  shows "answered (snd (apply_topup_rejected L st inc rej factory w d))"
proof -
  have "answered (fst s')" if "apply_rejected_body L st inc rej op factory w s = Inr (x, s')"
    and "registered (in_message_id inc) (fst s)" for op s x s'
    using apply_rejected_body_answered [OF that(1)] that(2) by (simp add: registered_def)
  note deduplicated_answered [OF _ _ _ this]
  from this [where s = "(d, 0)"] show ?thesis
    unfolding apply_topup_rejected_def using assms
    by (auto split: option.split intro!: run_tx_invariant [where P = answered])
qed

lemma sessions_step_answered:
  "sessions_step L sv pb d d' \<Longrightarrow> answered d \<and> sessions_ok d \<Longrightarrow> answered d' \<and> sessions_ok d'"
proof (induction rule: sessions_step.induct)
  case (activation_verify d subj data w)
  then show ?case
    by (auto simp: handle_activation_verify_def Let_def split: sum.split
        intro: accept_verification_ok accept_verification_answered)
next
  case (topup_verified d subj data w)
  then show ?case
    by (auto simp: handle_topup_verified_def split: sum.split
        intro: apply_topup_verified_ok apply_topup_verified_answered)
next
  case (topup_rejected d subj data w)
  then show ?case
    by (auto simp: handle_topup_rejected_def split: sum.split
        intro: apply_topup_rejected_ok apply_topup_rejected_answered)
next
  case (reconcile r0 item r d now w)
  have "pr_verification_id item = vr_id r \<and> pr_command_message_id item = vr_command_message_id r"
    using retry_of_fields [OF reconcile(1)] reconcile(3) by (cases r) (simp add: vr_le_def)
  then show ?case
    using reconcile by (auto simp: reconcile_item_def Let_def split: sum.split
        intro: reconcile_ok expire_verification_answered replace_topup_command_answered)
next
  case (publish d nats js ws)
  note p = publish_batch_sends_only [of sessions_ok d L pb nats js ws, unfolded sends_only_def]
  then show ?case
    using publish same_more_tables(3) [of "snd (publish_batch sessions_ok L pb nats js ws d)" d]
    by (simp add: answered_def)
qed

definition empty_sessions :: sessions_db where
  "empty_sessions = \<lparr>inbox = [], outbox = [], identities = [], sessions = [], verifications = [], events = []\<rparr>"

lemma reachable_answered:
  assumes "(sessions_step L sv pb)\<^sup>*\<^sup>* empty_sessions d"
  shows "answered d \<and> sessions_ok d"
  using assms
proof (induction rule: rtranclp_induct)
  case base
  show ?case
    by (simp add: empty_sessions_def answered_def sessions_ok_def msgdb_ok_def sessions_keys_ok_def
        sessions_refs_ok_def active_rows_def)
qed (rule sessions_step_answered)

end
