(* ===== verification/Sessions_Authority.thy ===== *)
theory Sessions_Authority
  imports Sessions_Answers
begin

text \<open>
  The authority over a session: its events are numbered without a gap, each of them stands for one
  verified verification of the same transaction, and every verified verification has its event. All
  steps but one leave the sessions and their events alone and verify nothing (\<open>quiet\<close>); the one is
  \<open>activate_session\<close> followed by the settlement.
\<close>

definition session_events :: "'a sessions_db_scheme \<Rightarrow> uuid \<Rightarrow> event_row list" where
  "session_events d sid = filter (\<lambda>e. ev_session_id e = sid) (events d)"

definition backed :: "'a sessions_db_scheme \<Rightarrow> event_row \<Rightarrow> bool" where
  "backed d e \<longleftrightarrow>
     (\<exists>v\<in>set (verifications d). vr_status v = V_VERIFIED \<and> vr_operation_id v = ev_operation_id e \<and>
        vr_session_id v = ev_session_id e \<and> vr_network v = ev_network e \<and> vr_transaction_id v = ev_transaction_id e)"

definition verified_operations :: "'a sessions_db_scheme \<Rightarrow> uuid set" where
  "verified_operations d = vr_operation_id ` {v \<in> set (verifications d). vr_status v = V_VERIFIED}"

definition numbered :: "session_row \<Rightarrow> event_row list \<Rightarrow> bool" where
  "numbered s es \<longleftrightarrow>
     map ev_authority_version es = [1..sn_version s] \<and>
     list_all (\<lambda>e. ev_type e = (if ev_authority_version e = 1 then ACTIVATED else REACTIVATED)) es"

definition authority :: "'a sessions_db_scheme \<Rightarrow> bool" where
  "authority d \<longleftrightarrow>
     (\<forall>s\<in>set (sessions d). sn_status s = ACTIVE \<and> numbered s (session_events d (sn_id s))) \<and>
     (\<forall>e\<in>set (events d). backed d e) \<and> verified_operations d \<subseteq> ev_operation_id ` set (events d)"

definition quiet :: "sessions_db \<Rightarrow> sessions_db \<Rightarrow> bool" where
  "quiet d d' \<longleftrightarrow>
     sessions d' = sessions d \<and> events d' = events d \<and> verified_operations d' \<subseteq> verified_operations d"

lemma quiet_pre [simp, intro]: "reflp quiet" "transp quiet"
  by (auto simp: quiet_def reflp_def transp_def)

lemma quiet_same:
  "msgdb.more d' = msgdb.more (d :: sessions_db) \<Longrightarrow> quiet d d'"
  using same_more_tables [of d' d] by (simp add: quiet_def verified_operations_def)

lemma quiet_authority: "quiet d d' \<Longrightarrow> sessions_le d d' \<Longrightarrow> authority d \<Longrightarrow> authority d'"
proof -
  assume q: "quiet d d'" and le: "sessions_le d d'" and a: "authority d"
  have "backed d' e" if "backed d e" for e
  proof -
    from that obtain v where v: "v \<in> set (verifications d)" "vr_status v = V_VERIFIED" "vr_operation_id v = ev_operation_id e"
        "vr_session_id v = ev_session_id e" "vr_network v = ev_network e" "vr_transaction_id v = ev_transaction_id e"
      unfolding backed_def by blast
    have "rows_grow vr_le (verifications d) (verifications d')"
      using le by (simp add: sessions_le_def)
    then obtain v' where "v' \<in> set (verifications d')" "vr_le v v'"
      using v(1) by (rule rows_grow_member)
    with v have "v \<in> set (verifications d')"
      by (simp add: vr_le_def)
    with v show ?thesis unfolding backed_def by blast
  qed
  moreover have "sessions d' = sessions d" "events d' = events d" "verified_operations d' \<subseteq> verified_operations d"
    using q by (simp_all add: quiet_def)
  ultimately show ?thesis
    using a unfolding authority_def session_events_def by simp blast
qed

section \<open>Quiet operations\<close>

lemmas quiet_intros = keeps_bind [OF quiet_pre(2)] keeps_return [OF quiet_pre(1)] keeps_lift [OF quiet_pre(1)]
  keeps_query [OF quiet_pre(1)] keeps_fail keeps_if keeps_option keeps_sum keeps_prod

lemma quiet_messages:
  "keeps quiet (register_inbox sessions_ok mid subj sender dig e)" "keeps quiet (complete_inbox sessions_ok mid result)"
  "keeps quiet (reject_inbox sessions_ok mid)" "keeps quiet (requeue_outbox sessions_ok mid)"
  "keeps quiet (confirm_outbox sessions_ok mid)" "keeps quiet (insert_outbox sessions_ok item)"
  unfolding register_inbox_def complete_inbox_def reject_inbox_def requeue_outbox_def confirm_outbox_def insert_outbox_def
  by (intro quiet_intros keeps_exec quiet_same; simp add: update_inbox_def update_outbox_def)+

lemma quiet_updates:
  "keeps quiet (tx_exec ok m (\<lambda>w d. ((), update_verifications (P w) (\<lambda>r. f w r) d)))"
  if "\<And>w r. vr_status (f w r) = V_VERIFIED \<Longrightarrow> vr_status r = V_VERIFIED \<and> vr_operation_id (f w r) = vr_operation_id r"
  using that by (intro keeps_exec) (auto simp: quiet_def update_verifications_def verified_operations_def)

lemma quiet_settle:
  "status \<noteq> V_VERIFIED \<Longrightarrow> keeps quiet (settle_verification L st mid row status code completion factory)"
  unfolding settle_verification_def st_insert_outbox_def finish_verification_def
  by (intro quiet_intros quiet_messages quiet_updates) simp_all

lemma quiet_parts:
  "keeps quiet (lock_verification op)" "keeps quiet (current_command item)" "keeps quiet (st_insert_outbox L st n m)"
  "keeps quiet (complete_rejected L st mid row completion factory)"
  unfolding lock_verification_def current_command_def st_insert_outbox_def complete_rejected_def
  by (intro quiet_intros quiet_messages quiet_settle; simp)+

lemma quiet_ensure_identity: "keeps quiet (ensure_identity L st row b s)"
  unfolding ensure_identity_def
  by (intro quiet_intros keeps_exec) (simp add: quiet_def verified_operations_def)

lemma quiet_deduplicated: "keeps quiet body \<Longrightarrow> keeps quiet (deduplicated L inc body)"
  unfolding deduplicated_def by (intro quiet_intros quiet_messages)

lemma quiet_run: "keeps quiet body \<Longrightarrow> quiet d (snd (run_tx w body d))"
  by (rule run_tx_keeps [OF quiet_pre(1)])

lemma quiet_accept: "quiet d (snd (accept_verification L st inc command topup w d))"
proof -
  have "keeps quiet (tx_bind (st_insert_outbox L st 3 topup) (\<lambda>_. tx_exec sessions_ok m (\<lambda>w d.
           ((), d\<lparr>verifications := verifications d @ [accepted_row L st (db_now w) vid inc command topup b1 b2 b3]\<rparr>))))"
    for m vid b1 b2 b3
    by (intro quiet_intros quiet_parts keeps_exec) (auto simp: quiet_def verified_operations_def accepted_row_def)
  from quiet_run [OF quiet_deduplicated [OF this]] show ?thesis
    by (simp add: accept_verification_def quiet_pre(1) [unfolded reflp_def] split: sum.split)
qed

lemma quiet_rejected: "quiet d (snd (apply_topup_rejected L st inc rej factory w d))"
proof -
  have "keeps quiet (apply_rejected_body L st inc rej op factory)" for op
    unfolding apply_rejected_body_def by (intro quiet_intros quiet_parts quiet_messages)
  from quiet_run [OF quiet_deduplicated [OF this]] show ?thesis
    by (simp add: apply_topup_rejected_def quiet_pre(1) [unfolded reflp_def] split: option.split)
qed

lemma quiet_reconcile: "quiet d (snd (reconcile_item L sv now item w d))"
proof -
  have "quiet d (snd (replace_topup_command L st item new w d))" for st new
    unfolding replace_topup_command_def
    by (intro quiet_run quiet_intros quiet_parts quiet_updates) simp_all
  moreover have "quiet d (snd (expire_verification L st item factory w d))" for st factory
    unfolding expire_verification_def
    by (intro quiet_run quiet_intros quiet_parts quiet_messages quiet_updates) simp_all
  ultimately show ?thesis
    by (simp add: reconcile_item_def Let_def quiet_pre(1) [unfolded reflp_def] split: sum.split)
qed

section \<open>Activation\<close>

lemma ensure_identity_same:
  "ensure_identity L st row b c w s = Inr (r, s') \<Longrightarrow>
     sessions (fst s') = sessions (fst s) \<and> events (fst s') = events (fst s) \<and> verifications (fst s') = verifications (fst s)"
proof -
  let ?R = "\<lambda>d d'. sessions d' = sessions d \<and> events d' = events d \<and> verifications d' = verifications (d :: sessions_db)"
  have R: "reflp ?R" "transp ?R"
    by (auto simp: reflp_def transp_def)
  have "keeps ?R (ensure_identity L st row b c)"
    unfolding ensure_identity_def
    by (intro keeps_bind [OF R(2)] keeps_return [OF R(1)] keeps_lift [OF R(1)] keeps_query [OF R(1)] keeps_if keeps_option
        keeps_exec) simp
  from keepsD [OF this] show "ensure_identity L st row b c w s = Inr (r, s') \<Longrightarrow> ?thesis" .
qed

lemma activate_session_None: "activate_session row i now w s = Inr (None, s') \<Longrightarrow> fst s' = fst s"
  unfolding activate_session_def by (auto simp: tx_bind_ok tx_query_ok tx_return_ok split: if_splits option.splits)

text \<open>The event that an activation writes, and the two forms of the session.\<close>

definition activation_event :: "verification_row \<Rightarrow> sessions_db \<Rightarrow> uuid \<Rightarrow> int \<Rightarrow> instant \<Rightarrow> event_row" where
  "activation_event row d event_id version now =
     \<lparr>ev_id = event_id, ev_session_id = vr_session_id row, ev_operation_id = operation_of (vr_id row) d,
      ev_type = (if version = 1 then ACTIVATED else REACTIVATED), ev_authority_version = version,
      ev_occurred_at = pg_time now, ev_network = vr_network row, ev_transaction_id = vr_transaction_id row\<rparr>"

lemma insert_event_effect:
  "insert_event row etype version now w s = Inr (v, s') \<Longrightarrow> \<exists>event_id.
     v = version \<and> fst s' = (fst s)\<lparr>events := events (fst s) @
       [\<lparr>ev_id = event_id, ev_session_id = vr_session_id row, ev_operation_id = operation_of (vr_id row) (fst s),
         ev_type = etype, ev_authority_version = version, ev_occurred_at = pg_time now,
         ev_network = vr_network row, ev_transaction_id = vr_transaction_id row\<rparr>]\<rparr>"
  unfolding insert_event_def by (auto simp: tx_bind_ok tx_exec_ok tx_return_ok tx_lift_ok)

lemma activate_session_Some:
  assumes "activate_session row i now w s = Inr (Some v, s')"
  obtains (first) event_id r where "find (\<lambda>r. sn_id r = vr_session_id row) (sessions (fst s)) = None" "v = 1"
      "sessions (fst s') = sessions (fst s) @ [r]" "sn_id r = vr_session_id row" "sn_version r = 1" "sn_status r = ACTIVE" "sn_identity_id r = i"
      "sn_bot_id r = vr_bot_id row" "sn_telegram_user_id r = vr_telegram_user_id row"
      "sn_activation_network r = vr_network row" "sn_activation_transaction_id r = vr_transaction_id row"
      "events (fst s') = events (fst s) @ [activation_event row (fst s) event_id 1 now]"
      "verifications (fst s') = verifications (fst s)" "identities (fst s') = identities (fst s)"
  | (again) event_id r where "find (\<lambda>r. sn_id r = vr_session_id row) (sessions (fst s)) = Some r"
      "sn_identity_id r = i" "sn_status r = ACTIVE" "v = sn_version r + 1"
      "sessions (fst s') = map (\<lambda>r. if sn_id r = vr_session_id row
          then r\<lparr>sn_telegram_chat_id := vr_telegram_chat_id row, sn_activation_network := vr_network row,
                 sn_activation_transaction_id := vr_transaction_id row, sn_last_activated_at := pg_time now,
                 sn_version := v\<rparr> else r) (sessions (fst s))"
      "v \<noteq> 1 \<Longrightarrow> events (fst s') = events (fst s) @ [activation_event row (fst s) event_id v now]"
      "verifications (fst s') = verifications (fst s)" "identities (fst s') = identities (fst s)"
proof -
  note a = assms [unfolded activate_session_def tx_bind_ok tx_query_ok]
  show thesis
  proof (cases "find (\<lambda>r. sn_id r = vr_session_id row) (sessions (fst s))")
    case None
    with a obtain s1 n where 1: "insert_session row i now w (fst s, n) = Inr ((), s1)"
      and 2: "insert_event row ACTIVATED 1 now w s1 = Inr (v, s')"
      by (auto simp: tx_bind_ok tx_query_ok tx_return_ok split: if_splits)
    have o: "operation_of (vr_id row) (fst s1) = operation_of (vr_id row) (fst s)"
      using 1 by (auto simp: insert_session_def tx_exec_ok operation_of_def find_verification_def)
    from insert_event_effect [OF 2] obtain event_id where e: "v = 1"
        "fst s' = (fst s1)\<lparr>events := events (fst s1) @ [activation_event row (fst s) event_id 1 now]\<rparr>"
      by (auto simp: activation_event_def o)
    show thesis
      by (rule first [OF None, of _ event_id]) (use 1 e in \<open>auto simp: insert_session_def tx_exec_ok\<close>)
  next
    case (Some r)
    with a obtain s1 n where r: "sn_identity_id r = i" "sn_status r = ACTIVE"
      and 1: "update_session row now (sn_version r + 1) w (fst s, n) = Inr ((), s1)"
      and 2: "insert_event row REACTIVATED (sn_version r + 1) now w s1 = Inr (v, s')"
      by (auto simp: tx_bind_ok tx_query_ok tx_return_ok split: if_splits)
    have o: "operation_of (vr_id row) (fst s1) = operation_of (vr_id row) (fst s)"
      using 1 by (auto simp: update_session_def tx_exec_ok operation_of_def find_verification_def)
    from insert_event_effect [OF 2] obtain event_id where e: "v = sn_version r + 1"
        "v \<noteq> 1 \<Longrightarrow> fst s' = (fst s1)\<lparr>events := events (fst s1) @ [activation_event row (fst s) event_id v now]\<rparr>"
        "\<exists>es. fst s' = (fst s1)\<lparr>events := es\<rparr>"
      by (auto simp: activation_event_def o)
    show thesis
      by (rule again [OF Some r e(1), of event_id]) (use 1 e in \<open>auto simp: update_session_def tx_exec_ok\<close>)
  qed
qed

lemma settled_rows:
  assumes "authority d" "sessions_ok d" "row \<in> set (verifications d)" "vr_status row = V_PENDING"
    and "verifications d' = map (finished row V_VERIFIED code now) (verifications d)"
  shows "backed d e \<Longrightarrow> backed d' e" "verified_operations d' = insert (vr_operation_id row) (verified_operations d)"
    and "vr_operation_id row = ev_operation_id e \<Longrightarrow> vr_session_id row = ev_session_id e \<Longrightarrow> vr_network row = ev_network e \<Longrightarrow>
      vr_transaction_id row = ev_transaction_id e \<Longrightarrow> backed d' e"
proof -
  let ?g = "finished row V_VERIFIED code now"
  have keep: "?g v = v" if "vr_status v \<noteq> V_PENDING" for v
    using that by (simp add: finished_def)
  have other: "?g v = v" if "v \<in> set (verifications d)" "v \<noteq> row" for v
    using verification_keys(1) [OF assms(2) that(1) assms(3)] that by (auto simp: finished_def)
  have row: "vr_status (?g row) = V_VERIFIED" "vr_operation_id (?g row) = vr_operation_id row"
      "vr_session_id (?g row) = vr_session_id row" "vr_network (?g row) = vr_network row"
      "vr_transaction_id (?g row) = vr_transaction_id row"
    using assms(4) by (simp_all add: finished_def)
  have mem: "?g row \<in> set (verifications d')"
    using assms(3,5) by simp
  show "backed d e \<Longrightarrow> backed d' e"
  proof -
    assume "backed d e"
    then obtain v where v: "v \<in> set (verifications d)" "vr_status v = V_VERIFIED" "vr_operation_id v = ev_operation_id e"
        "vr_session_id v = ev_session_id e" "vr_network v = ev_network e" "vr_transaction_id v = ev_transaction_id e"
      unfolding backed_def by blast
    then have "v \<in> set (verifications d')"
      using keep [of v] assms(5) by (metis image_eqI list.set_map verification_status.distinct(1))
    with v show ?thesis unfolding backed_def by blast
  qed
  show "backed d' e" if "vr_operation_id row = ev_operation_id e" "vr_session_id row = ev_session_id e"
      "vr_network row = ev_network e" "vr_transaction_id row = ev_transaction_id e"
    unfolding backed_def using row mem that by (intro bexI [of _ "?g row"]) auto
  have "set (verifications d') = insert (?g row) (set (verifications d) - {row})"
  proof -
    have "?g ` (set (verifications d) - {row}) = set (verifications d) - {row}"
      using other by force
    moreover have "set (verifications d) = insert row (set (verifications d) - {row})"
      using assms(3) by blast
    ultimately show ?thesis
      unfolding assms(5) list.set_map by (metis image_insert)
  qed
  moreover have "{v \<in> insert (?g row) (set (verifications d) - {row}). vr_status v = V_VERIFIED} =
      insert (?g row) {v \<in> set (verifications d). vr_status v = V_VERIFIED}"
    using row(1) assms(4) by auto
  ultimately show "verified_operations d' = insert (vr_operation_id row) (verified_operations d)"
    using row(2) by (simp add: verified_operations_def)
qed

lemma operation_of_row:
  "sessions_ok d \<Longrightarrow> row \<in> set (verifications d) \<Longrightarrow> operation_of (vr_id row) d = vr_operation_id row"
  using find_unique [of vr_id "verifications d" row "vr_id row"]
  by (simp add: operation_of_def find_verification_def sessions_ok_def sessions_keys_ok_def sorted_wrt_distinct_keys)

lemma numbered_next:
  "numbered s es \<Longrightarrow> 0 < sn_version s \<Longrightarrow> ev_authority_version e = sn_version s + 1 \<Longrightarrow> ev_type e = REACTIVATED \<Longrightarrow>
     sn_version s' = sn_version s + 1 \<Longrightarrow> numbered s' (es @ [e])"
  by (simp add: numbered_def upto_rec2 add.commute)

lemma activation_numbered:
  assumes a: "activate_session row i now w s = Inr (Some v, s')" and ok: "sessions_ok (fst s)"
    and old: "\<forall>q\<in>set (sessions (fst s)). sn_status q = ACTIVE \<and> numbered q (session_events (fst s) (sn_id q))"
  obtains event_id where "events (fst s') = events (fst s) @ [activation_event row (fst s) event_id v now]"
    and "\<forall>q\<in>set (sessions (fst s')). sn_status q = ACTIVE \<and> numbered q (session_events (fst s') (sn_id q))"
  using a
proof (cases rule: activate_session_Some)
  case (first event_id r)
  have none: "q \<in> set (sessions (fst s)) \<Longrightarrow> sn_id q \<noteq> vr_session_id row" for q
    using first(1) by (auto simp: find_None_iff)
  have "ev_session_id e \<in> sn_id ` set (sessions (fst s))" if "e \<in> set (events (fst s))" for e
    using ok that by (auto simp: sessions_ok_def sessions_refs_ok_def list_all_iff)
  then have "filter (\<lambda>e. ev_session_id e = vr_session_id row) (events (fst s)) = []"
    using none by (fastforce simp: filter_empty_conv)
  then have "numbered r (session_events (fst s') (sn_id r))"
    using first by (simp add: numbered_def session_events_def activation_event_def)
  moreover have "numbered q (session_events (fst s') (sn_id q))" if "q \<in> set (sessions (fst s))" for q
    using that old none [OF that] first(12) by (auto simp: session_events_def activation_event_def)
  ultimately show thesis
    using first old by (intro that [of event_id]) auto
next
  case (again event_id r)
  from again(1) have r: "r \<in> set (sessions (fst s))" "sn_id r = vr_session_id row"
    by (auto simp: find_Some_iff in_set_conv_nth)
  have one: "q = r" if "q \<in> set (sessions (fst s))" "sn_id q = vr_session_id row" for q
  proof -
    have "distinct (map sn_id (sessions (fst s)))"
      using ok by (simp add: sessions_ok_def sessions_keys_ok_def)
    with that r show ?thesis by (metis distinct_map inj_onD)
  qed
  have pos: "0 < sn_version r"
    using ok r(1) by (auto simp: sessions_ok_def list_all_iff session_row_ok_def bigint_positive_def)
  then have v: "v \<noteq> 1" using again(4) by simp
  note ev = again(6) [OF v]
  let ?g = "\<lambda>q. if sn_id q = vr_session_id row
          then q\<lparr>sn_telegram_chat_id := vr_telegram_chat_id row, sn_activation_network := vr_network row,
                 sn_activation_transaction_id := vr_transaction_id row, sn_last_activated_at := pg_time now,
                 sn_version := v\<rparr> else q"
  have "sn_status (?g q) = ACTIVE \<and> numbered (?g q) (session_events (fst s') (sn_id (?g q)))"
    if q: "q \<in> set (sessions (fst s))" for q
  proof (cases "sn_id q = vr_session_id row")
    case True
    have "numbered r (session_events (fst s) (sn_id r))"
      using old r(1) by blast
    then have "numbered (?g q) (session_events (fst s) (sn_id r) @ [activation_event row (fst s) event_id v now])"
      by (rule numbered_next) (use pos again(4) v True in \<open>simp_all add: activation_event_def\<close>)
    then show ?thesis
      using one [OF q True] r again(3) by (simp add: session_events_def ev activation_event_def)
  next
    case False
    with old q show ?thesis by (simp add: session_events_def ev activation_event_def)
  qed
  then have "\<forall>q\<in>set (sessions (fst s')). sn_status q = ACTIVE \<and> numbered q (session_events (fst s') (sn_id q))"
    unfolding again(5) list.set_map ball_simps by blast
  with ev show thesis by (rule that)
qed

lemma activated_authority:
  assumes a: "authority (fst s)" "sessions_ok (fst s)" "row \<in> set (verifications (fst s))" "vr_status row = V_PENDING"
    and 1: "ensure_identity L st row b wallet w (fst s, n) = Inr ((i, m), s1)"
    and 2: "activate_session row i now w s1 = Inr (Some v, s2)"
    and 3: "settle_verification L st mid row V_VERIFIED code c factory w s2 = Inr (x, s')"
  shows "authority (fst s')"
proof -
  note e1 = ensure_identity_same [OF 1, simplified]
  have ok1: "sessions_ok (fst s1)"
    using keepsD [OF bodies_keep_schema(2) 1] a(2) by (simp add: schema_kept_def)
  have v2: "verifications (fst s2) = verifications (fst s1)"
    using 2 by (cases rule: activate_session_Some) auto
  have "\<forall>q\<in>set (sessions (fst s1)). sn_status q = ACTIVE \<and> numbered q (session_events (fst s1) (sn_id q))"
    using a(1) e1 by (simp add: authority_def session_events_def)
  from activation_numbered [OF 2 ok1 this] obtain event_id
    where ev: "events (fst s2) = events (fst s) @ [activation_event row (fst s1) event_id v now]"
      and nums: "\<forall>q\<in>set (sessions (fst s2)). sn_status q = ACTIVE \<and> numbered q (session_events (fst s2) (sn_id q))"
    using e1 by auto
  from settle_verification_effect [OF 3] have e3: "sessions (fst s') = sessions (fst s2)" "events (fst s') = events (fst s2)"
      "verifications (fst s') = map (finished row V_VERIFIED (nullif_empty code) (db_now w)) (verifications (fst s))"
    using v2 e1 by auto
  note rows = settled_rows [OF a e3(3)]
  have op: "operation_of (vr_id row) (fst s1) = vr_operation_id row"
    using operation_of_row [OF ok1, of row] a(3) e1 by simp
  let ?e = "activation_event row (fst s1) event_id v now"
  have "backed (fst s') ?e"
    by (rule rows(3)) (simp_all add: activation_event_def op)
  moreover have "\<forall>e\<in>set (events (fst s)). backed (fst s') e"
    using a(1) rows(1) unfolding authority_def by blast
  ultimately have "\<forall>e\<in>set (events (fst s')). backed (fst s') e"
    by (simp add: e3(2) ev)
  moreover have "verified_operations (fst s) \<subseteq> ev_operation_id ` set (events (fst s))"
    using a(1) unfolding authority_def by blast
  then have "verified_operations (fst s') \<subseteq> ev_operation_id ` set (events (fst s'))"
    unfolding rows(2) e3(2) ev using op by (auto simp: activation_event_def)
  ultimately show ?thesis
    using nums unfolding authority_def e3(1) session_events_def e3(2) by blast
qed

section \<open>Every step\<close>

definition sessions_sound :: "sessions_db \<Rightarrow> bool" where
  "sessions_sound d \<longleftrightarrow> authority d \<and> sessions_ok d"

lemma same_rows_sound:
  "authority d \<Longrightarrow> sessions d' = sessions d \<Longrightarrow> events d' = events d \<Longrightarrow> verifications d' = verifications (d :: sessions_db) \<Longrightarrow>
     authority d'"
  by (simp add: authority_def backed_def verified_operations_def session_events_def)

lemma deduplicated_authority:
  assumes "deduplicated L inc body w s = Inr (x, s')" "authority (fst s)"
    and "\<And>s x s'. body w s = Inr (x, s') \<Longrightarrow> authority (fst s) \<Longrightarrow> sessions_ok (fst s) \<Longrightarrow> authority (fst s')"
  shows "authority (fst s')"
  using assms(1)
proof (cases rule: deduplicated_cases)
  case (new r s1)
  then show ?thesis
    using assms(2) by (intro assms(3) [OF new(6)] same_rows_sound [OF assms(2)]) auto
next
  case (repeated q)
  then show ?thesis
    using assms(2) same_rows_sound [OF assms(2), of "fst s'"] by (auto simp: update_outbox_def)
qed

lemma quiet_body_authority:
  assumes "keeps quiet m" "keeps sessions_le m" "m w s = Inr (x, s')" "authority (fst s)"
  shows "authority (fst s')"
  by (rule quiet_authority [OF keepsD [OF assms(1,3)] keepsD [OF assms(2,3)] assms(4)])

lemma apply_verified_body_authority:
  assumes "apply_verified_body L st inc verified op factory w s = Inr (x, s')"
    and a: "authority (fst s)" "sessions_ok (fst s)"
  shows "authority (fst s')"
  using assms(1)
proof (cases rule: apply_verified_body_cases)
  case (late row)
  show ?thesis
    using quiet_body_authority [OF quiet_messages(3) msg_keeps [OF inbox_updates_keep(2)] late(3)] a by simp
next
  case (violation row expected c n)
  show ?thesis
    using quiet_body_authority [OF quiet_parts(4) complete_rejected_le violation(7)] a by simp
next
  case (mismatch row expected balance wallet i s1 c n)
  have "authority (fst s1)"
    by (rule same_rows_sound [OF a(1)]) (use ensure_identity_same [OF mismatch(6)] in simp_all)
  then show ?thesis
    by (rule quiet_body_authority [OF quiet_parts(4) complete_rejected_le mismatch(9)])
next
  case (conflict row expected balance wallet i s1 s2 c n)
  have "authority (fst s2)"
    by (rule same_rows_sound [OF a(1)])
      (use ensure_identity_same [OF conflict(6)] activate_session_None [OF conflict(7)] in simp_all)
  then show ?thesis
    by (rule quiet_body_authority [OF quiet_parts(4) complete_rejected_le conflict(10)])
next
  case (activated row expected balance wallet i s1 v s2 n)
  show ?thesis
    by (rule activated_authority [OF a _ activated(2,7,8,9)])
      (use find_verification_mem [OF activated(1)] in simp)
qed

lemma apply_topup_verified_authority:
  assumes "authority d" "sessions_ok d"
  shows "authority (snd (apply_topup_verified L st inc verified factory w d))"
proof -
  have "authority d'"
    if "deduplicated L inc (apply_verified_body L st inc verified op factory) w (d, 0) = Inr (x, (d', n))" for op x d' n
    using deduplicated_authority [OF that] assms apply_verified_body_authority by simp
  then show ?thesis
    unfolding apply_topup_verified_def using assms(1)
    by (auto split: option.split intro!: run_tx_invariant [where P = authority])
qed

lemma sessions_step_sound:
  assumes "sessions_step L sv pb d d'" "sessions_sound d" "answered d"
  shows "sessions_sound d'"
proof -
  have ok: "sessions_ok d'"
    using sessions_step_answered [OF assms(1)] assms(2,3) by (simp add: sessions_sound_def)
  note le = sessions_step_le [OF assms(1)]
  have refl: "quiet d d" by (rule reflpD [OF quiet_pre(1)])
  have "authority d'"
    using assms(1)
  proof cases
    case (activation_verify subj data w)
    have "quiet d d'"
      unfolding activation_verify handle_activation_verify_def Let_def using quiet_accept refl by (auto split: sum.split)
    then show ?thesis using quiet_authority le assms(2) by (simp add: sessions_sound_def)
  next
    case (topup_verified subj data w)
    then show ?thesis
      using assms(2) apply_topup_verified_authority
      by (auto simp: handle_topup_verified_def sessions_sound_def split: sum.split)
  next
    case (topup_rejected subj data w)
    have "quiet d d'"
      unfolding topup_rejected handle_topup_rejected_def using quiet_rejected refl by (auto split: sum.split)
    then show ?thesis using quiet_authority le assms(2) by (simp add: sessions_sound_def)
  next
    case (reconcile r0 item r now w)
    then show ?thesis using quiet_authority [OF quiet_reconcile] le assms(2) by (simp add: sessions_sound_def)
  next
    case (publish nats js ws)
    have "msgdb.more d' = msgdb.more d"
      using publish_batch_sends_only [of sessions_ok d L pb nats js ws] by (simp add: publish sends_only_def)
    then show ?thesis using quiet_authority [OF quiet_same le] assms(2) by (simp add: sessions_sound_def)
  qed
  with ok show ?thesis by (simp add: sessions_sound_def)
qed

lemma reachable_sound:
  assumes "(sessions_step L sv pb)\<^sup>*\<^sup>* empty_sessions d"
  shows "sessions_sound d"
  using assms
proof (induction rule: rtranclp_induct)
  case base
  show ?case
    using reachable_answered [OF rtranclp.rtrancl_refl]
    by (simp add: sessions_sound_def authority_def empty_sessions_def verified_operations_def)
next
  case (step d d')
  show ?case
    using sessions_step_sound [OF step(2,3)] reachable_answered [OF step(1)] by blast
qed

end
