(* ===== verification/Sessions_Liveness.thy ===== *)
theory Sessions_Liveness
  imports Sessions_Authority
begin

text \<open>
  When the sessions service gets its work done: with a database that answers, fresh identifiers and a
  command that passes the checks, \<open>handleActivationVerify\<close> succeeds and leaves a pending verification
  with its top-up command in the outbox. The size of a sealed row is computed here, because the
  outbox takes at most 400000 bytes.
\<close>

section \<open>Sizes\<close>

definition aead_sizes :: "lib \<Rightarrow> bool" where
  "aead_sizes L \<longleftrightarrow> (\<forall>k n p a. length (aes_gcm_seal L k n p a) = length p + 16)"

definition hash_sizes :: "lib \<Rightarrow> bool" where
  "hash_sizes L \<longleftrightarrow> (\<forall>s. length (sha256 L s) = 32) \<and> (\<forall>k s. length (hmac_sha256 L k s) = 32)"

definition json_plain :: "char \<Rightarrow> bool" where
  "json_plain c \<longleftrightarrow> 32 \<le> byte c \<and> byte c < 128 \<and> byte c \<notin> {34, 38, 60, 62, 92}"

lemma quote_body_plain: "list_all json_plain s \<Longrightarrow> quote_body html s = s"
  by (induction s) (simp_all add: quote_body.simps(2) json_plain_def escape_byte_def Let_def)

lemma length_quote_plain: "list_all json_plain s \<Longrightarrow> length (quote html s) = length s + 2"
  by (simp add: quote_def quote_body_plain)

lemma std_encode_plain: "list_all json_plain (std_encode s)"
proof -
  have "list_all json_plain std_alphabet"
    by (simp add: std_alphabet_def json_plain_def byte_def)
  then have "json_plain (std_alphabet ! v)" if "v < 64" for v
    using that by (simp add: list_all_length)
  with sextets_bound [of s] show ?thesis
    by (auto simp: std_encode_def list_all_iff) (simp_all add: json_plain_def byte_def)
qed

lemma length_sealed:
  assumes "aead_sizes L" "keyring_ok k" "length (kr_active k) \<le> 256" "encrypt L k w i p a = Inr c"
  shows "0 < length (marshal True ciphertext_spec (ciphertext_vals c))"
    and "length (marshal True ciphertext_spec (ciphertext_vals c)) \<le> 4 * ((length p + 18) div 3) + 2000"
proof -
  obtain key :: data_key where c: "c = \<lparr>ct_key_id = kr_active k, ct_nonce = std_encode (rand_bytes w i NonceSize),
      ct_value = std_encode (aes_gcm_seal L (dk_key key) (rand_bytes w i NonceSize) p a)\<rparr>"
    using encrypt_ok [OF assms(2), of L w i p a] assms(4) by auto
  have q: "length (quote True (kr_active k)) \<le> 1538"
    using length_print_fval [of True "FStr (kr_active k)"] assms(3) by simp
  have n: "list_all json_plain ''key_id''" "list_all json_plain ''nonce_base64''" "list_all json_plain ''ciphertext_base64''"
    by (simp_all add: json_plain_def byte_def)
  have v: "length (aes_gcm_seal L k n p a) = length p + 16" for k n p a
    using assms(1) by (simp add: aead_sizes_def)
  show "0 < length (marshal True ciphertext_spec (ciphertext_vals c))"
    by (simp add: marshal_def)
  show "length (marshal True ciphertext_spec (ciphertext_vals c)) \<le> 4 * ((length p + 18) div 3) + 2000"
    using q n by (simp add: marshal_def ciphertext_spec_def ciphertext_vals_def c length_quote_plain std_encode_plain
        length_std_encode v NonceSize_def)
qed

section \<open>Adding rows\<close>

lemma sessions_ok_inbox:
  "sessions_ok d \<Longrightarrow> ib_message_id r \<notin> inbox_ids d \<Longrightarrow> inbox_row_ok {PROCESSING, COMPLETED, REJECTED} r \<Longrightarrow>
     sessions_ok (d\<lparr>inbox := inbox d @ [r]\<rparr>)"
  by (auto simp: sessions_ok_def msgdb_ok_def sessions_keys_ok_def sessions_refs_ok_def inbox_ids_def list_all_iff)

lemma sessions_ok_outbox:
  "sessions_ok d \<Longrightarrow> ob_message_id r \<notin> outbox_ids d \<Longrightarrow> outbox_row_ok r \<Longrightarrow> sessions_ok (d\<lparr>outbox := outbox d @ [r]\<rparr>)"
  by (auto simp: sessions_ok_def msgdb_ok_def sessions_keys_ok_def sessions_refs_ok_def outbox_ids_def list_all_iff)

definition fresh_verification :: "verification_row \<Rightarrow> 'a sessions_db_scheme \<Rightarrow> bool" where
  "fresh_verification r d \<longleftrightarrow>
     (\<forall>v\<in>set (verifications d). vr_id v \<noteq> vr_id r \<and> vr_operation_id v \<noteq> vr_operation_id r \<and>
        vr_command_message_id v \<noteq> vr_command_message_id r \<and> vr_topup_command_message_id v \<noteq> vr_topup_command_message_id r)"

lemma sessions_ok_verification:
  "sessions_ok d \<Longrightarrow> fresh_verification r d \<Longrightarrow> verification_row_ok r \<Longrightarrow> vr_command_message_id r \<in> inbox_ids d \<Longrightarrow>
     vr_topup_command_message_id r \<in> outbox_ids d \<Longrightarrow> sessions_ok (d\<lparr>verifications := verifications d @ [r]\<rparr>)"
  by (auto simp: sessions_ok_def msgdb_ok_def sessions_keys_ok_def sessions_refs_ok_def inbox_ids_def outbox_ids_def
      fresh_verification_def list_all_iff)

section \<open>Accepting a command\<close>

definition healthy :: "world \<Rightarrow> bool" where
  "healthy w \<longleftrightarrow> tx_begins w \<and> (\<forall>n. \<not> stmt_fails w n) \<and> tx_commits w = Committed"

text \<open>A store that can encrypt, and what the text and integer columns of PostgreSQL take of a command.\<close>

definition store_ready :: "store \<Rightarrow> bool" where
  "store_ready st \<longleftrightarrow> keyring_ok (st_keyring st) \<and> length (kr_active (st_keyring st)) \<le> 256"

definition storable :: "activation_verify \<Rightarrow> bool" where
  "storable c \<longleftrightarrow>
     pg_text (av_amount c) \<and> pg_text (av_network c) \<and> pg_text (av_transaction_id c) \<and>
     pg_text (av_external_reservation_id c) \<and> pg_text (av_display_label c) \<and>
     av_bot_id c < 2 ^ 63 \<and> av_telegram_user_id c < 2 ^ 63 \<and> av_telegram_chat_id c < 2 ^ 63"

lemma label_ok_nullif:
  assumes "pg_text s" "length s \<le> 128"
  shows "label_ok (nullif_empty s)"
proof (cases s)
  case (Cons c r)
  have "utf8_len (c # r) \<noteq> 0"
    using assms(1) Cons utf8_valid.simps [of "c # r"] by (auto simp: pg_text_def simp del: utf8_len.simps split: if_splits)
  then have "\<not> cont c"
    by (auto simp: cont_def split: if_splits)
  with Cons assms show ?thesis
    by (auto simp: label_ok_def nullif_empty_def pg_length_def intro: le_trans [OF length_filter_le])
qed (simp add: label_ok_def nullif_empty_def)

lemma st_encrypt_total: "store_ready st \<Longrightarrow> \<exists>c. st_encrypt L st i table row_id column plain w = Inr c"
  using encrypt_total [of "st_keyring st" L w i plain "row_aad L service_name table row_id column"]
  by (auto simp: st_encrypt_def store_ready_def)

lemma pg_text_visible: "list_all visible s \<Longrightarrow> pg_text s"
proof -
  assume "list_all visible s"
  moreover from this have "CHR 0x00 \<notin> set s"
    by (auto simp: list_all_iff visible_def byte_def)
  ultimately show ?thesis by (simp add: pg_text_def utf8_valid_visible)
qed

text \<open>Inserting an outbox message of at most the size of an envelope.\<close>

lemma st_insert_outbox_succeeds:
  assumes "aead_sizes L" "store_ready st" "healthy w" "sessions_ok (fst s)" "om_message_id item \<notin> outbox_ids (fst s)"
    and "pg_text (om_subject item)" "om_kind item \<in> {''COMMAND'', ''RESULT'', ''EVENT''}" "length (om_envelope item) \<le> MaxBytes"
    and "db_now w < pg_time (om_expires_at item)"
  obtains r n where "st_insert_outbox L st i item w s = Inr ((), ((fst s)\<lparr>outbox := outbox (fst s) @ [r]\<rparr>, n))"
    and "ob_message_id r = om_message_id item" "ob_subject r = om_subject item" "ob_kind r = om_kind item"
    and "ob_status r = PENDING" "ob_next_attempt_at r = db_now w" "ob_expires_at r = pg_time (om_expires_at item)"
    and "sessions_ok ((fst s)\<lparr>outbox := outbox (fst s) @ [r]\<rparr>)"
proof -
  let ?a = "outbox_aad L service_name (om_message_id item) (om_subject item)"
  have k: "keyring_ok (st_keyring st)" "length (kr_active (st_keyring st)) \<le> 256"
    using assms(2) by (simp_all add: store_ready_def)
  obtain c where c: "encrypt L (st_keyring st) w i (om_envelope item) ?a = Inr c"
    using encrypt_total [OF k(1)] by blast
  define e where "e = marshal True ciphertext_spec (ciphertext_vals c)"
  let ?r = "new_outbox_row (item\<lparr>om_envelope := e\<rparr>) (db_now w)"
  have e: "1 \<le> length e" "length e \<le> 400000"
    using length_sealed [OF assms(1) k c] assms(8) by (simp_all add: e_def MaxBytes_def Suc_le_eq)
  have row: "outbox_row_ok ?r"
    using e assms(6,7,9) by (simp add: outbox_row_ok_def new_outbox_row_def)
  have ok: "sessions_ok ((fst s)\<lparr>outbox := outbox (fst s) @ [?r]\<rparr>)"
    by (rule sessions_ok_outbox [OF assms(4) _ row]) (use assms(5) in \<open>simp add: new_outbox_row_def\<close>)
  have new: "find_outbox (om_message_id item) (fst s) = None"
    using assms(5) by (simp add: find_outbox_None)
  have "seal_outbox L (st_keyring st) w i service_name item = Inr (item\<lparr>om_envelope := e\<rparr>)"
    by (simp add: seal_outbox_def c e_def)
  then have "st_insert_outbox L st i item w s = Inr ((), ((fst s)\<lparr>outbox := outbox (fst s) @ [?r]\<rparr>, snd s + 1))"
    using assms(3) ok new by (simp add: st_insert_outbox_def tx_bind_ok tx_lift_ok insert_outbox_ok healthy_def)
  then show thesis
    by (rule that) (use ok in \<open>simp_all add: new_outbox_row_def\<close>)
qed

text \<open>The row of a command: its fields, and the three encrypted columns.\<close>

definition recorded :: "lib \<Rightarrow> store \<Rightarrow> world \<Rightarrow> uuid \<Rightarrow> incoming \<Rightarrow> activation_verify \<Rightarrow> outbox_message \<Rightarrow> verification_row \<Rightarrow> bool" where
  "recorded L st w vid inc command topup row \<longleftrightarrow>
     (\<exists>b1 b2 b3. row = accepted_row L st (db_now w) vid inc command topup b1 b2 b3 \<and>
        st_encrypt L st 0 ''activation_verifications'' vid ''balance_id'' (av_balance_id command) w = Inr b1 \<and>
        st_encrypt L st 1 ''activation_verifications'' vid ''sender_wallet'' (av_sender_wallet command) w = Inr b2 \<and>
        st_encrypt L st 2 ''activation_verifications'' vid ''receiver_wallet'' (av_receiver_wallet command) w = Inr b3)"

lemma accept_verification_succeeds:
  assumes "aead_sizes L" "hash_sizes L" "store_ready st" "healthy w" "new_v7 w 4 = Inr vid" "sessions_ok d"
    and "in_message_id inc \<notin> inbox_ids d" "om_message_id topup \<notin> outbox_ids d"
    and "\<forall>v\<in>set (verifications d). vr_id v \<noteq> vid \<and> vr_operation_id v \<noteq> parse_or_nil L (av_operation_id command)"
    and "pg_text (in_subject inc)" "pg_text (in_producer inc)"
    and "pg_text (om_subject topup)" "om_kind topup = ''COMMAND''" "length (om_envelope topup) \<le> MaxBytes"
    and "db_now w < pg_time (om_expires_at topup)"
    and "storable command" "0 < av_bot_id command" "0 < av_telegram_user_id command" "0 < av_telegram_chat_id command"
    and "length (av_display_label command) \<le> 128"
  obtains d' ib ob row where "accept_verification L st inc command topup w d = (Inr (), d')"
    and "inbox d' = inbox d @ [ib]" "ib_message_id ib = in_message_id inc" "ib_status ib = PROCESSING"
    and "outbox d' = outbox d @ [ob]" "ob_message_id ob = om_message_id topup" "ob_subject ob = om_subject topup"
      "ob_kind ob = ''COMMAND''" "ob_status ob = PENDING"
    and "verifications d' = verifications d @ [row]" "vr_status row = V_PENDING"
      "vr_operation_id row = parse_or_nil L (av_operation_id command)" "vr_command_message_id row = in_message_id inc"
      "vr_topup_command_message_id row = om_message_id topup" "vr_transaction_id row = av_transaction_id command"
    and "sessions d' = sessions d" "events d' = events d" "identities d' = identities d" "sessions_ok d'"
    and "recorded L st w vid inc command topup row"
proof -
  obtain b1 b2 b3 where e: "st_encrypt L st 0 ''activation_verifications'' vid ''balance_id'' (av_balance_id command) w = Inr b1"
      "st_encrypt L st 1 ''activation_verifications'' vid ''sender_wallet'' (av_sender_wallet command) w = Inr b2"
      "st_encrypt L st 2 ''activation_verifications'' vid ''receiver_wallet'' (av_receiver_wallet command) w = Inr b3"
    using st_encrypt_total [OF assms(3)] by metis
  define ib where "ib = \<lparr>ib_message_id = in_message_id inc, ib_subject = in_subject inc, ib_producer = in_producer inc,
      ib_payload_digest = sha256 L (in_payload inc), ib_status = PROCESSING, ib_result_message_id = None,
      ib_completed_at = None, ib_expires_at = pg_time (in_expires_at inc)\<rparr>"
  let ?d1 = "d\<lparr>inbox := inbox d @ [ib]\<rparr>"
  have ok1: "sessions_ok ?d1"
    by (rule sessions_ok_inbox [OF assms(6)]) (use assms(2,7,10,11) in \<open>simp_all add: ib_def inbox_row_ok_def hash_sizes_def\<close>)
  have t1: "om_message_id topup \<notin> outbox_ids (fst (?d1, 1))"
    using assms(8) by (simp add: outbox_ids_def)
  have k1: "om_kind topup \<in> {''COMMAND'', ''RESULT'', ''EVENT''}"
    using assms(13) by simp
  obtain ob n where ob: "st_insert_outbox L st 3 topup w (?d1, 1) = Inr ((), (?d1\<lparr>outbox := outbox d @ [ob]\<rparr>, n))"
      "ob_message_id ob = om_message_id topup" "ob_subject ob = om_subject topup" "ob_kind ob = om_kind topup"
      "ob_status ob = PENDING" "sessions_ok (?d1\<lparr>outbox := outbox d @ [ob]\<rparr>)"
    by (rule st_insert_outbox_succeeds [OF assms(1,3,4) _ t1 assms(12) k1 assms(14,15), of 3]) (auto simp: ok1 intro: that)
  let ?d2 = "?d1\<lparr>outbox := outbox d @ [ob]\<rparr>"
  define row where "row = accepted_row L st (db_now w) vid inc command topup b1 b2 b3"
  have fields: "vr_status row = V_PENDING" "vr_operation_id row = parse_or_nil L (av_operation_id command)"
      "vr_command_message_id row = in_message_id inc" "vr_topup_command_message_id row = om_message_id topup"
      "vr_transaction_id row = av_transaction_id command" "ib_message_id ib = in_message_id inc" "ib_status ib = PROCESSING"
    by (simp_all add: row_def accepted_row_def ib_def)
  let ?d' = "?d2\<lparr>verifications := verifications d @ [row]\<rparr>"
  have refs: "vr_command_message_id v \<in> inbox_ids d \<and> vr_topup_command_message_id v \<in> outbox_ids d"
    if "v \<in> set (verifications d)" for v
    using assms(6) that by (auto simp: sessions_ok_def sessions_refs_ok_def list_all_iff inbox_ids_def outbox_ids_def)
  have "fresh_verification row ?d2"
    using refs assms(7,8,9) by (fastforce simp: fresh_verification_def row_def accepted_row_def)
  moreover have "verification_row_ok row"
    using assms(2,16-20) label_ok_nullif
    by (simp add: verification_row_ok_def row_def accepted_row_def storable_def hash_sizes_def bigint_positive_def
        st_fingerprint_def fingerprint_def)
  ultimately have ok': "sessions_ok ?d'"
    using sessions_ok_verification [OF ob(6), of row] ob(2)
    by (simp add: row_def accepted_row_def inbox_ids_def outbox_ids_def ib_def)
  have new: "find_inbox (in_message_id inc) d = None"
    using assms(7) by (simp add: find_inbox_None)
  have rec: "recorded L st w vid inc command topup row"
    using e by (auto simp: recorded_def row_def)
  have "accept_verification L st inc command topup w d = (Inr (), ?d')"
    using assms(4) ob(1) ok1 ok' new
    by (simp add: accept_verification_def assms(5) e run_tx_Inr healthy_def deduplicated_def tx_bind_ok register_inbox_ok
        tx_exec_ok ib_def row_def del: One_nat_def)
  then show thesis
    by (rule that) (use ob ok' assms(13) fields rec in simp_all)
qed

section \<open>The handler\<close>

lemma validate_activation_bounds:
  assumes "validate_activation L command net now = Inr ()"
  shows "uuid_v7 L (av_operation_id command)" "0 < av_bot_id command" "0 < av_telegram_user_id command"
    "0 < av_telegram_chat_id command" "av_asset command = ''USDT''" "av_network command = net"
    "length (av_sender_wallet command) \<le> 128" "length (av_receiver_wallet command) \<le> 128"
    "length (av_transaction_id command) \<le> 256" "length (av_external_reservation_id command) \<le> 256"
    "length (av_amount command) \<le> 64" "length (av_display_label command) \<le> 128"
  using assms unfolding validate_activation_def
  by (auto simp: valid_wallet_def valid_external_id_def valid_amount_def not_le split: if_splits)

lemma topup_payload_fits:
  assumes "validate_activation L command net now = Inr ()" "length net \<le> 64" "uuid_laws L"
  shows "length (encode_topup_verify (topup_payload command)) \<le> 20000"
proof -
  obtain u where "uuid_parse L (av_operation_id command) = Some u" "uuid_string L u = av_operation_id command"
    using validate_activation_bounds(1) [OF assms(1)] by (auto simp: uuid_v7_def split: option.splits)
  then have "length (av_operation_id command) = 36"
    using assms(3) by (metis uuid_laws_def)
  then have "struct_size topup_verify_spec (topup_verify_vals (topup_payload command)) \<le> 20000"
    using validate_activation_bounds [OF assms(1)] assms(2)
    by (simp add: struct_size_def topup_verify_spec_def topup_verify_vals_def topup_payload_def)
  then show ?thesis
    using length_marshal [of True topup_verify_spec "topup_verify_vals (topup_payload command)"]
    by (simp add: encode_topup_verify_def encode_payload_def)
qed

lemma codec_sign_fits: "codec_sign L c w i subj mtype correlation causation raw expires = Inr item \<Longrightarrow> length (om_envelope item) \<le> MaxBytes"
  unfolding codec_sign_ok by (auto simp: encode_def Let_def go_ok split: if_splits)

lemma verified_id_v7: "uuid_laws L \<Longrightarrow> codec_verify L c w data subj mtype allowed = Inr v \<Longrightarrow> is_v7 L (vf_id v)"
  unfolding codec_verify_ok verify_iff
  by (auto simp: validate_fields_ok uuid_v7_def is_v7_def uuid_laws_def split: option.splits)

lemma verified_producer: "codec_verify L c w data subj mtype allowed = Inr v \<Longrightarrow> producer (vf_envelope v) \<in> set allowed"
  unfolding codec_verify_ok verify_iff by (auto simp: codec_policy_def)

lemma parse_or_nil_v7: "uuid_laws L \<Longrightarrow> uuid_v7 L s \<Longrightarrow> is_v7 L (parse_or_nil L s)"
  by (auto simp: uuid_v7_def is_v7_def parse_or_nil_def uuid_laws_def split: option.splits)

lemma topup_names: "short_name TopupVerifySubject" "short_name TopupVerifyType" "pg_text TopupVerifySubject" "pg_text ''rw-bot''"
proof -
  have v: "list_all visible TopupVerifySubject" "list_all visible TopupVerifyType" "list_all visible ''rw-bot''"
    by (simp_all add: TopupVerifySubject_def TopupVerifyType_def visible_def byte_def)
  then show "short_name TopupVerifySubject" "short_name TopupVerifyType"
    by (auto intro!: short_name_visible simp: TopupVerifySubject_def TopupVerifyType_def)
  have "CHR 0x00 \<notin> set s" if "list_all visible s" for s
    using that by (auto simp: list_all_iff visible_def byte_def)
  with v show "pg_text TopupVerifySubject" "pg_text ''rw-bot''"
    by (simp_all add: pg_text_def utf8_valid_visible)
qed

text \<open>The expiry that the handler gives to the top-up command.\<close>

definition topup_expiry :: "verified \<Rightarrow> world \<Rightarrow> instant" where
  "topup_expiry v w = (if vf_expires v < go_now w 2 + 5 * minute then vf_expires v else go_now w 2 + 5 * minute)"

lemma command_recorded:
  assumes "uuid_laws L" "signature_laws L" "aead_sizes L" "hash_sizes L" "store_ready (sv_store sv)" "codec_ready (sv_codec sv)"
    and "length (sv_usdt_network sv) \<le> 64"
    and "healthy w" "new_v7 w 3 = Inr tid" "is_v7 L tid" "new_v7 w 4 = Inr vid" "rfc3339_years (go_now w 3)"
    and "rfc3339_years (topup_expiry v w)" "go_now w 3 < topup_expiry v w" "db_now w < pg_time (topup_expiry v w)"
    and "codec_verify L (sv_codec sv) w data subj ActivationVerifyType [''rw-bot''] = Inr v"
    and "decode_activation_verify (vf_payload v) = Inr command"
    and "validate_activation L command (sv_usdt_network sv) (go_now w 1) = Inr ()" "storable command" "pg_text subj"
    and "sessions_ok d" "vf_id v \<notin> inbox_ids d" "tid \<notin> outbox_ids d"
    and "\<forall>u\<in>set (verifications d). vr_id u \<noteq> vid \<and> vr_operation_id u \<noteq> parse_or_nil L (av_operation_id command)"
  obtains d' ib ob row where "handle_activation_verify L sv subj data w d = (Inr (), d')"
    and "inbox d' = inbox d @ [ib]" "ib_message_id ib = vf_id v" "ib_status ib = PROCESSING"
    and "outbox d' = outbox d @ [ob]" "ob_message_id ob = tid" "ob_subject ob = TopupVerifySubject" "ob_kind ob = ''COMMAND''"
      "ob_status ob = PENDING"
    and "verifications d' = verifications d @ [row]" "vr_status row = V_PENDING"
      "vr_operation_id row = parse_or_nil L (av_operation_id command)" "vr_command_message_id row = vf_id v"
      "vr_topup_command_message_id row = tid" "vr_transaction_id row = av_transaction_id command"
    and "sessions d' = sessions d" "events d' = events d" "identities d' = identities d" "sessions_ok d'"
    and "\<exists>topup. recorded L (sv_store sv) w vid (incoming_of v subj) command topup row"
proof -
  note b = validate_activation_bounds [OF assms(18)]
  obtain item where sg: "codec_sign L (sv_codec sv) w 3 TopupVerifySubject TopupVerifyType (parse_or_nil L (av_operation_id command))
        (vf_id v) (encode_topup_verify (topup_payload command)) (topup_expiry v w) = Inr item"
      and item: "om_message_id item = tid" "om_subject item = TopupVerifySubject" "om_expires_at item = topup_expiry v w"
    by (rule codec_sign_succeeds [OF assms(1,2,6,9,10) parse_or_nil_v7 [OF assms(1) b(1)] _ topup_names(1,2)
          topup_payload_fits [OF assms(18,7,1)] assms(12,13,14), of "vf_id v"])
      (use verified_id_v7 [OF assms(1,16)] in auto)
  have handle: "handle_activation_verify L sv subj data w d =
      accept_verification L (sv_store sv) (incoming_of v subj) command (item\<lparr>om_kind := ''COMMAND''\<rparr>) w d"
    using sg by (simp add: handle_activation_verify_def assms(16-18) topup_expiry_def Let_def del: One_nat_def)
  have inc: "in_message_id (incoming_of v subj) = vf_id v" "in_subject (incoming_of v subj) = subj"
      "in_producer (incoming_of v subj) = ''rw-bot''"
    using verified_producer [OF assms(16)] by (simp_all add: incoming_of_def)
  show thesis
    by (rule accept_verification_succeeds [OF assms(3,4,5,8,11,21), of "incoming_of v subj" "item\<lparr>om_kind := ''COMMAND''\<rparr>" command])
      (use handle item inc assms b topup_names codec_sign_fits [OF sg] in \<open>auto intro: that\<close>)
qed

text \<open>
  C31. A valid command is recorded: with a database that answers, fresh identifiers and working clocks,
  \<open>handleActivationVerify\<close> returns no error for a message of the bot whose command passes the checks, and
  afterwards the command is registered, a verification of its operation is pending, and the command to
  the top-up service waits in the outbox.
\<close>

theorem valid_command_recorded:
  assumes "uuid_laws L" "signature_laws L" "aead_sizes L" "hash_sizes L" "store_ready (sv_store sv)" "codec_ready (sv_codec sv)"
    and "length (sv_usdt_network sv) \<le> 64"
    and "healthy w" "new_v7 w 3 = Inr tid" "is_v7 L tid" "new_v7 w 4 = Inr vid" "rfc3339_years (go_now w 3)"
    and "rfc3339_years (topup_expiry v w)" "go_now w 3 < topup_expiry v w" "db_now w < pg_time (topup_expiry v w)"
    and "codec_verify L (sv_codec sv) w data subj ActivationVerifyType [''rw-bot''] = Inr v"
    and "decode_activation_verify (vf_payload v) = Inr command"
    and "validate_activation L command (sv_usdt_network sv) (go_now w 1) = Inr ()" "storable command" "pg_text subj"
    and "sessions_ok d" "vf_id v \<notin> inbox_ids d" "tid \<notin> outbox_ids d"
    and "\<forall>u\<in>set (verifications d). vr_id u \<noteq> vid \<and> vr_operation_id u \<noteq> parse_or_nil L (av_operation_id command)"
  shows "\<exists>d'. handle_activation_verify L sv subj data w d = (Inr (), d') \<and> vf_id v \<in> inbox_ids d' \<and>
    (\<exists>row\<in>set (verifications d'). vr_operation_id row = parse_or_nil L (av_operation_id command) \<and>
       vr_status row = V_PENDING \<and> vr_command_message_id row = vf_id v \<and>
       (\<exists>ob\<in>set (outbox d'). ob_message_id ob = vr_topup_command_message_id row \<and> ob_subject ob = TopupVerifySubject \<and>
          ob_kind ob = ''COMMAND'' \<and> ob_status ob = PENDING))"
  by (rule command_recorded [OF assms]) (force simp: inbox_ids_def)

end
