(* ===== verification/Sample_Sessions.thy ===== *)
theory Sample_Sessions
  imports Sessions_Liveness Sample_Lib
begin

text \<open>
  A concrete sessions service, a command of the bot, and the state after it: the instances of the
  properties of the service start from here.
\<close>

definition sample_sessions_codec :: codec where
  "sample_sessions_codec = sample_codec\<lparr>cd_producer := ''rw-active-sessions'',
     cd_trusted := (cd_trusted sample_codec)(map_key ''rw-topup'' ''topup-1'' \<mapsto>
       \<lparr>tk_producer = ''rw-topup'', tk_key_id = ''topup-1'', tk_public_key = replicate 32 CHR ''k'',
        tk_valid_from = 1600000000000000000, tk_valid_until = 2000000000000000000\<rparr>)\<rparr>"

definition sample_topup_codec :: codec where
  "sample_topup_codec = sample_codec\<lparr>cd_producer := ''rw-topup'', cd_key_id := ''topup-1''\<rparr>"

definition sample_service :: service where
  "sample_service =
     \<lparr>sv_store = \<lparr>st_keyring = sample_keyring, st_fingerprint_key = replicate 32 CHR ''f''\<rparr>,
      sv_codec = sample_sessions_codec, sv_usdt_network = ''tron'', sv_reconcile_batch = 10\<rparr>"

definition sample_publisher :: publisher where
  "sample_publisher =
     \<lparr>pb_config = \<lparr>mg_outbox_batch = 10, mg_outbox_concurrency = 2, mg_retry_initial = second, mg_retry_max = minute,
        mg_reconcile_interval = minute, mg_reconcile_batch = 10\<rparr>,
      pb_keyring = sample_keyring, pb_service = service_name\<rparr>"

definition sample_command :: activation_verify where
  "sample_command =
     \<lparr>av_operation_id = sample_id 100, av_session_id = sample_id 101, av_balance_id = ''balance'', av_bot_id = 1,
      av_telegram_user_id = 2, av_telegram_chat_id = 3, av_sender_wallet = ''0x1111111111111111'',
      av_receiver_wallet = ''0x2222222222222222'', av_amount = ''15'', av_asset = ''USDT'', av_network = ''tron'',
      av_transaction_id = ''tx'', av_external_reservation_id = ''res'',
      av_offer_valid_from = format_rfc3339nano 1700000000000000000,
      av_offer_expires_at = format_rfc3339nano 1700000600000000000, av_display_label = ''label''\<rparr>"

lemma sample_parse:
  "parse_instant (format_rfc3339nano 1700000000000000000) = Some 1700000000000000000"
  "parse_instant (format_rfc3339nano 1700000600000000000) = Some 1700000600000000000"
  using sample_years by (simp_all add: parse_instant_format rfc3339_years_def)

lemma sample_visible:
  "list_all visible ''balance''" "list_all visible ''0x1111111111111111''" "list_all visible ''0x2222222222222222''"
  "list_all visible ''15''" "list_all visible ''USDT''" "list_all visible ''tron''" "list_all visible ''tx''"
  "list_all visible ''res''" "list_all visible ''label''"
  by (simp_all add: visible_def byte_def)

lemma sample_command_valid: "validate_activation sample_lib sample_command ''tron'' 1700000000000000000 = Inr ()"
  using sample_visible
  by (simp add: validate_activation_def sample_command_def sample_parse valid_wallet_def valid_external_id_def trim_space_visible
      utf8_valid_visible duration_defs time_sub_def valid_amount_def) (simp add: byte_def parse_uint64_def is_digit_def digits_val_def digit_val_def)

lemma sample_id_visible: "list_all visible (sample_id n)"
  by (simp add: sample_id_def sample_uuid_string_def hex_visible) (simp add: visible_def byte_def)

lemma sample_command_printable: "list_all printable (activation_verify_vals sample_command)"
  using sample_visible sample_id_visible
  by (simp add: activation_verify_vals_def sample_command_def utf8_valid_visible canonical_time_visible [unfolded canonical_time_def])

text \<open>The bytes of a message that a codec signs, and that the service accepts them.\<close>

definition sample_bytes :: "codec \<Rightarrow> nat \<Rightarrow> string \<Rightarrow> string \<Rightarrow> bytes \<Rightarrow> bytes" where
  "sample_bytes c i subj mtype raw =
     (case codec_sign sample_lib c sample_world i subj mtype (sample_uuid 100) nil_uuid raw 1700000600000000000 of
        Inl _ \<Rightarrow> [] | Inr item \<Rightarrow> om_envelope item)"

lemma sample_codecs_ready: "codec_ready sample_sessions_codec" "codec_ready sample_topup_codec"
proof -
  have "short_name ''rw-active-sessions''" "short_name ''rw-topup''" "short_name ''topup-1''"
    by (rule short_name_visible; simp add: visible_def byte_def)+
  then show "codec_ready sample_sessions_codec" "codec_ready sample_topup_codec"
    using sample_codec_ready by (simp_all add: codec_ready_def sample_sessions_codec_def sample_topup_codec_def)
qed

lemma sample_bytes_verified:
  assumes "codec_ready c" "cd_clock_skew r = 2 * minute" "short_name subj" "short_name mtype" "length raw \<le> 20000"
    and key: "lookup_key (cd_trusted r) (cd_producer c) (cd_key_id c) 1700000000000000000 = Inr (ed25519_public sample_lib (cd_private_key c))"
  obtains v where "codec_verify sample_lib r sample_world (sample_bytes c i subj mtype raw) subj mtype [cd_producer c] = Inr v"
    and "vf_payload v = raw" "vf_id v = sample_uuid i" "vf_expires v = 1700000600000000000"
proof -
  have w: "new_v7 sample_world n = Inr (sample_uuid n)" "go_now sample_world n = 1700000000000000000" for n
    by (simp_all add: sample_world_def)
  obtain item where item: "codec_sign sample_lib c sample_world i subj mtype (sample_uuid 100) nil_uuid raw 1700000600000000000 = Inr item"
      "om_message_id item = sample_uuid i"
    using codec_sign_succeeds [where correlation = "sample_uuid 100" and causation = nil_uuid and subj = subj and mtype = mtype and
        raw = raw and expires = 1700000600000000000, OF sample_uuid_laws sample_signature_laws assms(1) w(1)] assms sample_years by (auto simp: w)
  have "\<exists>env. codec_verify sample_lib r sample_world (om_envelope item) subj mtype [cd_producer c] =
      Inr \<lparr>vf_envelope = env, vf_payload = raw, vf_id = om_message_id item, vf_expires = 1700000600000000000\<rparr> \<and>
      producer env = cd_producer c"
    using assms sample_years key
    by (intro signed_item_verifies [OF sample_uuid_laws sample_signature_laws item(1)])
      (simp_all add: w item(2) codec_ready_def short_name_def timely_def duration_defs EventMaxAge_def)
  with item that show thesis by (auto simp: sample_bytes_def)
qed

lemma sample_bytes_accepted:
  assumes "c = sample_codec \<or> c = sample_topup_codec" "short_name subj" "short_name mtype" "length raw \<le> 20000"
  obtains v where "codec_verify sample_lib sample_sessions_codec sample_world (sample_bytes c i subj mtype raw) subj mtype
      [cd_producer c] = Inr v"
    and "vf_payload v = raw" "vf_id v = sample_uuid i" "vf_expires v = 1700000600000000000"
proof (rule sample_bytes_verified [where c = c and r = sample_sessions_codec and i = i, OF _ _ assms(2-4)])
  show "codec_ready c"
    using assms(1) sample_codec_ready sample_codecs_ready by blast
  show "cd_clock_skew sample_sessions_codec = 2 * minute"
    by (simp add: sample_sessions_codec_def sample_codec_def)
  show "lookup_key (cd_trusted sample_sessions_codec) (cd_producer c) (cd_key_id c) 1700000000000000000 =
      Inr (ed25519_public sample_lib (cd_private_key c))"
    using assms(1) by (auto simp: lookup_key_def sample_codec_def sample_topup_codec_def sample_sessions_codec_def sample_lib_def map_key_def)
qed (rule that)

lemma sample_command_fits: "length (encode_activation_verify sample_command) \<le> 20000"
proof -
  have t: "length (format_rfc3339nano 1700000000000000000) \<le> 30" "length (format_rfc3339nano 1700000600000000000) \<le> 30"
    using sample_years by (simp_all add: rfc3339_years_def length_format_time)
  have i: "length (sample_id n) = 36" for n
    by (simp add: sample_id_def length_sample_string)
  have "struct_size activation_verify_spec (activation_verify_vals sample_command) \<le> 20000"
    using t by (simp add: struct_size_def activation_verify_spec_def activation_verify_vals_def sample_command_def i format_int_def
        nat_digits.simps)
  then show ?thesis
    using length_marshal [of True activation_verify_spec "activation_verify_vals sample_command"]
    by (simp add: encode_activation_verify_def encode_payload_def)
qed

lemma sample_ready:
  "aead_sizes sample_lib" "hash_sizes sample_lib" "store_ready (sv_store sample_service)" "codec_ready (sv_codec sample_service)"
  "healthy sample_world"
proof -
  show "aead_sizes sample_lib" "hash_sizes sample_lib" "healthy sample_world"
    by (auto simp: min_def aead_sizes_def hash_sizes_def healthy_def sample_lib_def sample_world_def)
  show "store_ready (sv_store sample_service)"
    by (simp add: store_ready_def sample_service_def sample_keyring_def keyring_ok_def ran_def)
  show "codec_ready (sv_codec sample_service)"
    using sample_codecs_ready(1) by (simp add: sample_service_def)
qed

lemma sample_storable: "storable sample_command"
  using sample_visible by (simp add: storable_def sample_command_def pg_text_visible)

text \<open>The bytes of the command, and the database after it.\<close>

definition sample_data :: bytes where
  "sample_data = sample_bytes sample_codec 0 ActivationVerifySubject ActivationVerifyType (encode_activation_verify sample_command)"

definition sample_pending :: sessions_db where
  "sample_pending = snd (handle_activation_verify sample_lib sample_service ActivationVerifySubject sample_data sample_world empty_sessions)"

lemma empty_sessions_ok: "sessions_ok empty_sessions" "inbox_ids empty_sessions = {}" "outbox_ids empty_sessions = {}"
  "verifications empty_sessions = []"
  by (simp_all add: empty_sessions_def sessions_ok_def msgdb_ok_def sessions_keys_ok_def sessions_refs_ok_def active_rows_def
      inbox_ids_def outbox_ids_def)

lemma sample_verified:
  obtains v where "codec_verify sample_lib (sv_codec sample_service) sample_world sample_data ActivationVerifySubject
      ActivationVerifyType [''rw-bot''] = Inr v"
    and "decode_activation_verify (vf_payload v) = Inr sample_command" "vf_id v = sample_uuid 0" "topup_expiry v sample_world = 1700000300000000000"
proof -
  have names: "short_name ActivationVerifySubject" "short_name ActivationVerifyType"
    by (auto intro!: short_name_visible simp: ActivationVerifySubject_def ActivationVerifyType_def visible_def byte_def)
  obtain v where v: "codec_verify sample_lib sample_sessions_codec sample_world sample_data ActivationVerifySubject
      ActivationVerifyType [cd_producer sample_codec] = Inr v"
    "vf_payload v = encode_activation_verify sample_command" "vf_id v = sample_uuid 0" "vf_expires v = 1700000600000000000"
    by (rule sample_bytes_accepted [where c = sample_codec and i = 0, OF _ names sample_command_fits]) (auto simp: sample_data_def)
  have "cd_producer sample_codec = ''rw-bot''"
    by (simp add: sample_codec_def)
  then show thesis
    by (intro that [of v])
      (use v activation_verify.decode_encode [OF sample_command_printable] in
        \<open>simp_all add: sample_service_def decode_activation_verify_def encode_activation_verify_def topup_expiry_def
           sample_world_def duration_defs\<close>)
qed

lemma sample_300_years: "rfc3339_years 1700000300000000000"
proof -
  have "year_of 1700000300000000000 = 2023"
    by code_simp
  then show ?thesis by (simp add: rfc3339_years_def)
qed

lemma sample_pending_state:
  obtains row ib ob inc topup where "handle_activation_verify sample_lib sample_service ActivationVerifySubject sample_data sample_world
      empty_sessions = (Inr (), sample_pending)"
    and "verifications sample_pending = [row]" "vr_status row = V_PENDING" "vr_operation_id row = sample_uuid 100"
      "vr_command_message_id row = sample_uuid 0" "vr_topup_command_message_id row = sample_uuid 3" "vr_transaction_id row = ''tx''"
    and "inbox sample_pending = [ib]" "ib_message_id ib = sample_uuid 0" "ib_status ib = PROCESSING"
    and "outbox sample_pending = [ob]" "ob_message_id ob = sample_uuid 3" "ob_status ob = PENDING"
    and "sessions sample_pending = []" "events sample_pending = []" "identities sample_pending = []" "sessions_ok sample_pending"
    and "recorded sample_lib (sv_store sample_service) sample_world (sample_uuid 4) inc sample_command topup row"
proof (rule sample_verified)
  fix v
  assume v: "codec_verify sample_lib (sv_codec sample_service) sample_world sample_data ActivationVerifySubject
      ActivationVerifyType [''rw-bot''] = Inr v" "decode_activation_verify (vf_payload v) = Inr sample_command"
    "vf_id v = sample_uuid 0" "topup_expiry v sample_world = 1700000300000000000"
  have w: "new_v7 sample_world n = Inr (sample_uuid n)" "go_now sample_world n = 1700000000000000000"
      "db_now sample_world = 1700000000000000000" for n
    by (simp_all add: sample_world_def)
  have net: "sv_usdt_network sample_service = ''tron''"
    by (simp add: sample_service_def)
  have subj: "pg_text ActivationVerifySubject"
    by (rule pg_text_visible) (simp add: ActivationVerifySubject_def visible_def byte_def)
  have e: "inbox empty_sessions = []" "outbox empty_sessions = []" "sessions empty_sessions = []" "events empty_sessions = []"
      "identities empty_sessions = []"
    by (simp_all add: empty_sessions_def)
  have op: "parse_or_nil sample_lib (av_operation_id sample_command) = sample_uuid 100" "av_transaction_id sample_command = ''tx''"
    by (simp_all add: sample_command_def parse_or_nil_def)
  show thesis
  proof (rule command_recorded [OF sample_uuid_laws sample_signature_laws sample_ready(1-4) _ sample_ready(5) w(1) sample_v7 w(1) _ _ _ _
        v(1,2) _ sample_storable subj empty_sessions_ok(1)])
  qed (use v net w sample_years sample_300_years sample_command_valid empty_sessions_ok e op that in
      \<open>auto simp: pg_time_def sample_pending_def\<close>)
qed

lemma sample_pending_reachable: "(sessions_step sample_lib sample_service sample_publisher)\<^sup>*\<^sup>* empty_sessions sample_pending"
  unfolding sample_pending_def by (rule r_into_rtranclp) (rule sessions_step.activation_verify)

lemma valid_command_recorded_witness:
  "\<exists>d'. handle_activation_verify sample_lib sample_service ActivationVerifySubject sample_data sample_world empty_sessions = (Inr (), d') \<and>
     (\<exists>row\<in>set (verifications d'). vr_status row = V_PENDING)"
proof (rule sample_verified)
  fix v
  assume v: "codec_verify sample_lib (sv_codec sample_service) sample_world sample_data ActivationVerifySubject
      ActivationVerifyType [''rw-bot''] = Inr v" "decode_activation_verify (vf_payload v) = Inr sample_command"
    "vf_id v = sample_uuid 0" "topup_expiry v sample_world = 1700000300000000000"
  have w: "new_v7 sample_world n = Inr (sample_uuid n)" "go_now sample_world n = 1700000000000000000"
      "db_now sample_world = 1700000000000000000" for n
    by (simp_all add: sample_world_def)
  have net: "sv_usdt_network sample_service = ''tron''"
    by (simp add: sample_service_def)
  have subj: "pg_text ActivationVerifySubject"
    by (rule pg_text_visible) (simp add: ActivationVerifySubject_def visible_def byte_def)
  have "\<exists>d'. handle_activation_verify sample_lib sample_service ActivationVerifySubject sample_data sample_world empty_sessions = (Inr (), d') \<and>
      vf_id v \<in> inbox_ids d' \<and>
      (\<exists>row\<in>set (verifications d'). vr_operation_id row = parse_or_nil sample_lib (av_operation_id sample_command) \<and>
         vr_status row = V_PENDING \<and> vr_command_message_id row = vf_id v \<and>
         (\<exists>ob\<in>set (outbox d'). ob_message_id ob = vr_topup_command_message_id row \<and> ob_subject ob = TopupVerifySubject \<and>
            ob_kind ob = ''COMMAND'' \<and> ob_status ob = PENDING))"
    by (rule valid_command_recorded [OF sample_uuid_laws sample_signature_laws sample_ready(1-4) _ sample_ready(5) w(1) sample_v7 w(1) _ _ _ _
        v(1,2) _ sample_storable subj empty_sessions_ok(1)])
      (use v net w sample_years sample_300_years sample_command_valid empty_sessions_ok in \<open>auto simp: pg_time_def\<close>)
  then show ?thesis by blast
qed

end
