(* ===== verification/Sessions_Activation.thy ===== *)
theory Sessions_Activation
  imports Sessions_Liveness
begin

text \<open>
  A verified payment becomes an active session: when the facts of the pending verification, the time
  and the wallet agree, the database answers and the identifiers are fresh, \<open>handleTopupVerified\<close>
  returns no error, the session is active and its result waits in the outbox. Each statement of the
  transaction is shown to keep the schema.
\<close>

section \<open>Settling\<close>

lemma finished_fields [simp]:
  "vr_id (finished row status code now r) = vr_id r" "vr_operation_id (finished row status code now r) = vr_operation_id r"
  "vr_command_message_id (finished row status code now r) = vr_command_message_id r"
  "vr_topup_command_message_id (finished row status code now r) = vr_topup_command_message_id r"
  by (simp_all add: finished_def)

lemma sessions_ok_finished:
  assumes "sessions_ok d" "status \<noteq> V_PENDING" "case code of None \<Rightarrow> True | Some c \<Rightarrow> pg_text c"
    and "row \<in> set (verifications d)" "vr_version row + 1 < 2 ^ 63"
  shows "sessions_ok (d\<lparr>verifications := map (finished row status code now) (verifications d)\<rparr>)"
proof -
  have "verification_row_ok (finished row status code now r)" if "r \<in> set (verifications d)" for r
  proof -
    have "vr_id r = vr_id row \<Longrightarrow> r = row"
      using verification_keys(1) [OF assms(1) that assms(4)] .
    moreover have "verification_row_ok r"
      using assms(1) that by (simp add: sessions_ok_def list_all_iff)
    ultimately show ?thesis
      using assms(2,3,5) by (auto simp: finished_def verification_row_ok_def bigint_positive_def)
  qed
  with assms(1) show ?thesis
    by (auto simp: sessions_ok_def sessions_keys_ok_def sessions_refs_ok_def msgdb_ok_def list_all_iff comp_def)
qed

lemma sessions_ok_completed:
  assumes "sessions_ok d"
  shows "sessions_ok (d\<lparr>inbox := map (completed mid m now) (inbox d)\<rparr>)"
proof -
  have "inbox_row_ok {PROCESSING, COMPLETED, REJECTED} (completed mid m now r)" if "r \<in> set (inbox d)" for r
    using assms that by (auto simp: sessions_ok_def msgdb_ok_def list_all_iff completed_def inbox_row_ok_def)
  moreover have "ib_message_id ` completed mid m now ` set (inbox d) = ib_message_id ` set (inbox d)"
    by (simp add: image_image)
  ultimately show ?thesis
    using assms by (simp add: sessions_ok_def sessions_keys_ok_def sessions_refs_ok_def msgdb_ok_def list_all_iff comp_def)
qed

definition confirmed :: "uuid \<Rightarrow> instant \<Rightarrow> outbox_row \<Rightarrow> outbox_row" where
  "confirmed mid now r =
     (if ob_message_id r = mid \<and> ob_status r \<noteq> DEAD
      then r\<lparr>ob_status := CONFIRMED, ob_confirmed_at := Some now, ob_lease_until := None\<rparr> else r)"

lemma confirmed_id [simp]: "ob_message_id (confirmed mid now r) = ob_message_id r"
  by (simp add: confirmed_def)

lemma sessions_ok_confirmed:
  assumes "sessions_ok d"
  shows "sessions_ok (d\<lparr>outbox := map (confirmed mid now) (outbox d)\<rparr>)"
proof -
  have "outbox_row_ok (confirmed mid now r)" if "r \<in> set (outbox d)" for r
    using assms that by (auto simp: sessions_ok_def msgdb_ok_def list_all_iff confirmed_def outbox_row_ok_def)
  moreover have "ob_message_id ` confirmed mid now ` set (outbox d) = ob_message_id ` set (outbox d)"
    by (simp add: image_image)
  ultimately show ?thesis
    using assms by (simp add: sessions_ok_def sessions_keys_ok_def sessions_refs_ok_def msgdb_ok_def list_all_iff comp_def)
qed

lemma one_processing:
  "distinct (map ib_message_id rs) \<Longrightarrow> r \<in> set rs \<Longrightarrow> is_processing mid r \<Longrightarrow> length (filter (is_processing mid) rs) = 1"
proof (induction rs)
  case (Cons q rs)
  then show ?case
  proof (cases "q = r")
    case True
    then have "\<not> is_processing mid p" if "p \<in> set rs" for p
      using Cons.prems that by (auto simp: is_processing_def) (metis imageI)
    then have "filter (is_processing mid) rs = []" by (simp add: filter_empty_conv)
    with True Cons.prems show ?thesis by simp
  next
    case False
    then have "\<not> is_processing mid q"
      using Cons.prems by (auto simp: is_processing_def)
    with False Cons show ?thesis by simp
  qed
qed simp

lemma settle_succeeds:
  assumes "aead_sizes L" "store_ready st" "healthy w" "sessions_ok d"
    and "row \<in> set (verifications d)" "vr_version row + 1 < 2 ^ 63" "status \<noteq> V_PENDING" "code = '''' \<or> pg_text code"
    and "r1 \<in> set (inbox d)" "is_processing (vr_command_message_id row) r1"
    and "r2 \<in> set (inbox d)" "is_processing mid r2" "mid \<noteq> vr_command_message_id row"
    and "factory completion w = Inr result" "om_message_id result \<notin> outbox_ids d" "pg_text (om_subject result)"
    and "length (om_envelope result) \<le> MaxBytes" "db_now w < pg_time (om_expires_at result)"
  obtains d' n where "settle_verification L st mid row status code completion factory w (d, k) = Inr ((), (d', n))"
    and "sessions_ok d'" "\<exists>ob\<in>set (outbox d'). ob_message_id ob = om_message_id result \<and> ob_subject ob = om_subject result \<and>
      ob_kind ob = ''RESULT'' \<and> ob_status ob = PENDING"
proof -
  let ?item = "result\<lparr>om_kind := ''RESULT''\<rparr>"
  have i: "om_message_id ?item \<notin> outbox_ids (fst (d, k))" "sessions_ok (fst (d, k))" "pg_text (om_subject ?item)"
      "om_kind ?item \<in> {''COMMAND'', ''RESULT'', ''EVENT''}" "length (om_envelope ?item) \<le> MaxBytes"
      "db_now w < pg_time (om_expires_at ?item)"
    using assms(4,15-18) by simp_all
  obtain ob n where ob: "st_insert_outbox L st 8 ?item w (d, k) = Inr ((), (d\<lparr>outbox := outbox d @ [ob]\<rparr>, n))"
      "ob_message_id ob = om_message_id result" "ob_subject ob = om_subject result" "ob_kind ob = ''RESULT''" "ob_status ob = PENDING"
      "sessions_ok (d\<lparr>outbox := outbox d @ [ob]\<rparr>)"
    by (rule st_insert_outbox_succeeds [OF assms(1-3) i(2,1,3-6), of 8]) (use that in simp)
  let ?d1 = "d\<lparr>outbox := outbox d @ [ob]\<rparr>"
  let ?d2 = "?d1\<lparr>verifications := map (finished row status (nullif_empty code) (db_now w)) (verifications d)\<rparr>"
  let ?c1 = "completed (vr_command_message_id row) (om_message_id result) (db_now w)"
  let ?c2 = "completed mid (om_message_id result) (db_now w)"
  let ?d3 = "?d2\<lparr>inbox := map ?c1 (inbox d)\<rparr>"
  let ?d4 = "?d3\<lparr>inbox := map ?c2 (map ?c1 (inbox d))\<rparr>"
  let ?d5 = "?d4\<lparr>outbox := map (confirmed (vr_topup_command_message_id row) (db_now w)) (outbox d @ [ob])\<rparr>"
  have ok2: "sessions_ok ?d2"
    using sessions_ok_finished [OF ob(6) assms(7), of "nullif_empty code" row "db_now w"] assms(5,6,8)
    by (auto simp: nullif_empty_def split: option.splits)
  have ok3: "sessions_ok ?d3"
    using sessions_ok_completed [OF ok2, of "vr_command_message_id row" "om_message_id result" "db_now w"] by simp
  have ok4: "sessions_ok ?d4"
    using sessions_ok_completed [OF ok3, of mid "om_message_id result" "db_now w"] by simp
  have ok5: "sessions_ok ?d5"
    using sessions_ok_confirmed [OF ok4, of "vr_topup_command_message_id row" "db_now w"] by simp
  have dist: "distinct (map ib_message_id (inbox d))" "distinct (map ib_message_id (map ?c1 (inbox d)))"
    using assms(4) by (simp_all add: sessions_ok_def msgdb_ok_def comp_def)
  have n1: "length (filter (is_processing (vr_command_message_id row)) (inbox d)) = 1"
    by (rule one_processing [OF dist(1) assms(9,10)])
  have "?c1 r2 = r2"
    using assms(12,13) by (intro completed_other) (simp add: is_processing_def)
  then have "r2 \<in> set (map ?c1 (inbox d))"
    using assms(11) by (metis image_eqI list.set_map)
  note n2 = one_processing [OF dist(2) this assms(12)]
  have up: "update_outbox (\<lambda>r. ob_message_id r = vr_topup_command_message_id row \<and> ob_status r \<noteq> DEAD)
      (\<lambda>r. r\<lparr>ob_status := CONFIRMED, ob_confirmed_at := Some (db_now w), ob_lease_until := None\<rparr>) ?d4 = ?d5"
    by (simp add: update_outbox_def confirmed_def [abs_def])
  have "settle_verification L st mid row status code completion factory w (d, k) = Inr ((), (?d5, n + 4))"
    unfolding settle_verification_def tx_bind_ok
    using assms(3,14) ob(1) ok2 ok3 ok4 ok5 n1 n2 up
    by (simp add: tx_lift_ok finish_verification_def tx_exec_ok complete_inbox_ok confirm_outbox_ok healthy_def update_verifications_def
        finished_def [abs_def] completed_def [abs_def])
  moreover have "vr_topup_command_message_id row \<in> outbox_ids d"
    using assms(4,5) by (auto simp: sessions_ok_def sessions_refs_ok_def list_all_iff outbox_ids_def)
  then have "confirmed (vr_topup_command_message_id row) (db_now w) ob = ob"
    using assms(15) ob(2) by (auto simp: confirmed_def)
  then have "\<exists>q\<in>set (outbox ?d5). ob_message_id q = om_message_id result \<and> ob_subject q = om_subject result \<and>
      ob_kind q = ''RESULT'' \<and> ob_status q = PENDING"
    using ob(2-5) by (intro bexI [of _ ob]) simp_all
  ultimately show thesis
    using that ok5 by blast
qed

section \<open>The first activation of a session\<close>

text \<open>
  What the tables take of a row that becomes a session: the columns of \<open>active_sessions\<close> and
  \<open>balance_identities\<close> are narrower than those of \<open>activation_verifications\<close>.
\<close>

definition fits :: "verification_row \<Rightarrow> bool" where
  "fits row \<longleftrightarrow>
     1 \<le> pg_length (vr_network row) \<and> pg_length (vr_network row) \<le> 64 \<and>
     1 \<le> pg_length (vr_transaction_id row) \<and> pg_length (vr_transaction_id row) \<le> 256 \<and>
     vr_operation_id row \<noteq> [] \<and> vr_version row + 1 < 2 ^ 63"

text \<open>A session of the row that does not exist yet, for a balance that no identity has, without conflicts.\<close>

definition first_activation :: "verification_row \<Rightarrow> sessions_db \<Rightarrow> bool" where
  "first_activation row d \<longleftrightarrow>
     (\<forall>i\<in>set (identities d). bi_balance_fingerprint i \<noteq> vr_balance_fingerprint row) \<and>
     (\<forall>s\<in>set (sessions d). sn_id s \<noteq> vr_session_id row \<and> \<not> conflicting row s) \<and>
     (\<forall>e\<in>set (events d). ev_operation_id e \<noteq> vr_operation_id row)"

lemma row_ok: "sessions_ok d \<Longrightarrow> row \<in> set (verifications d) \<Longrightarrow> verification_row_ok row"
  by (simp add: sessions_ok_def list_all_iff)

lemma ensure_identity_new:
  assumes "store_ready st" "healthy w" "sessions_ok d" "row \<in> set (verifications d)" "fits row"
    and "\<forall>i\<in>set (identities d). bi_balance_fingerprint i \<noteq> vr_balance_fingerprint row"
    and "new_v7 w 5 = Inr iid" "\<forall>i\<in>set (identities d). bi_id i \<noteq> iid"
  obtains i where "ensure_identity L st row balance sender w (d, k) = Inr ((iid, True), (d\<lparr>identities := identities d @ [i]\<rparr>, k + 3))"
    and "bi_id i = iid" "sessions_ok (d\<lparr>identities := identities d @ [i]\<rparr>)"
proof -
  obtain b1 b2 where e: "st_encrypt L st 4 ''balance_identities'' iid ''balance_id'' balance w = Inr b1"
      "st_encrypt L st 5 ''balance_identities'' iid ''sender_wallet'' sender w = Inr b2"
    using st_encrypt_total [OF assms(1)] by metis
  define i where "i = \<lparr>bi_id = iid, bi_balance_ciphertext = b1, bi_balance_fingerprint = vr_balance_fingerprint row,
      bi_sender_ciphertext = b2, bi_sender_fingerprint = vr_sender_fingerprint row, bi_network = vr_network row\<rparr>"
  have "identity_row_ok i"
    using row_ok [OF assms(3,4)] assms(5) by (simp add: i_def identity_row_ok_def verification_row_ok_def fits_def)
  then have ok: "sessions_ok (d\<lparr>identities := identities d @ [i]\<rparr>)"
    using assms(3,6,8) by (auto simp: sessions_ok_def msgdb_ok_def sessions_keys_ok_def sessions_refs_ok_def list_all_iff i_def)
  have "find (\<lambda>r. bi_balance_fingerprint r = vr_balance_fingerprint row) (identities d) = None"
    using assms(6) by (simp add: find_None_iff)
  then have "ensure_identity L st row balance sender w (d, k) = Inr ((iid, True), (d\<lparr>identities := identities d @ [i]\<rparr>, k + 3))"
    using assms(2,7) e ok
    by (simp add: ensure_identity_def tx_bind_ok tx_query_ok tx_lift_ok tx_exec_ok tx_return_ok healthy_def i_def)
  then show thesis
    by (rule that) (use ok in \<open>simp_all add: i_def\<close>)
qed

lemma activate_session_new:
  assumes "healthy w" "sessions_ok d" "row \<in> set (verifications d)" "fits row"
    and "\<forall>s\<in>set (sessions d). sn_id s \<noteq> vr_session_id row \<and> \<not> conflicting row s"
    and "\<forall>e\<in>set (events d). ev_operation_id e \<noteq> vr_operation_id row"
    and "iid \<in> bi_id ` set (identities d)" "new_v7 w 6 = Inr eid" "\<forall>e\<in>set (events d). ev_id e \<noteq> eid"
  obtains s e where "activate_session row iid now w (d, k) =
      Inr (Some 1, (d\<lparr>sessions := sessions d @ [s], events := events d @ [e]\<rparr>, k + 6))"
    and "sn_id s = vr_session_id row" "sn_status s = ACTIVE" "sn_bot_id s = vr_bot_id row"
      "sn_telegram_user_id s = vr_telegram_user_id row" "sn_version s = 1"
    and "sessions_ok (d\<lparr>sessions := sessions d @ [s], events := events d @ [e]\<rparr>)"
proof -
  define s where "s = \<lparr>sn_id = vr_session_id row, sn_identity_id = iid, sn_bot_id = vr_bot_id row,
      sn_telegram_user_id = vr_telegram_user_id row, sn_telegram_chat_id = vr_telegram_chat_id row,
      sn_display_label = vr_display_label row, sn_status = ACTIVE, sn_activation_network = vr_network row,
      sn_activation_transaction_id = vr_transaction_id row, sn_first_activated_at = pg_time now,
      sn_last_activated_at = pg_time now, sn_revoked_at = None, sn_version = 1\<rparr>"
  define e where "e = \<lparr>ev_id = eid, ev_session_id = vr_session_id row, ev_operation_id = vr_operation_id row,
      ev_type = ACTIVATED, ev_authority_version = 1, ev_occurred_at = pg_time now,
      ev_network = vr_network row, ev_transaction_id = vr_transaction_id row\<rparr>"
  have "session_row_ok s"
    using row_ok [OF assms(2,3)] assms(4)
    by (simp add: s_def session_row_ok_def verification_row_ok_def fits_def bigint_positive_def)
  then have ok1: "sessions_ok (d\<lparr>sessions := sessions d @ [s]\<rparr>)"
    using assms(2,5,7)
    by (auto simp: sessions_ok_def msgdb_ok_def sessions_keys_ok_def sessions_refs_ok_def list_all_iff s_def conflicting_def active_rows_def)
  have "event_row_ok e"
    using assms(4) by (simp add: e_def event_row_ok_def fits_def bigint_positive_def)
  then have ok2: "sessions_ok (d\<lparr>sessions := sessions d @ [s], events := events d @ [e]\<rparr>)"
    using ok1 assms(6,9)
    by (auto simp: sessions_ok_def msgdb_ok_def sessions_keys_ok_def sessions_refs_ok_def list_all_iff e_def s_def)
  have op: "operation_of (vr_id row) d' = vr_operation_id row" if "verifications d' = verifications d" for d' :: sessions_db
  proof -
    obtain r where r: "find (\<lambda>r. vr_id r = vr_id row) (verifications d) = Some r"
      using assms(3) by (metis (mono_tags) find_None_iff not_None_eq)
    then have "r \<in> set (verifications d)" "vr_id r = vr_id row"
      using find_Some_iff_first [OF r] by auto
    then have "r = row"
      using verification_keys(1) [OF assms(2) _ assms(3)] by blast
    with r that show ?thesis by (simp add: operation_of_def find_verification_def)
  qed
  have f: "find (conflicting row) (sessions d) = None" "find (\<lambda>r. sn_id r = vr_session_id row) (sessions d) = None"
    using assms(5) by (simp_all add: find_None_iff)
  have "activate_session row iid now w (d, k) =
      Inr (Some 1, (d\<lparr>sessions := sessions d @ [s], events := events d @ [e]\<rparr>, k + 6))"
    using assms(1,8) f ok1 ok2 op
    by (simp add: activate_session_def insert_session_def insert_event_def tx_bind_ok tx_query_ok tx_lift_ok tx_exec_ok tx_return_ok
        healthy_def s_def e_def)
  then show thesis
    by (rule that) (use ok2 in \<open>simp_all add: s_def\<close>)
qed

section \<open>The handler\<close>

text \<open>The result that the handler signs, and the completion it describes.\<close>

definition activation_completion :: "verification_row \<Rightarrow> string \<Rightarrow> instant \<Rightarrow> completion" where
  "activation_completion row balance now =
     (new_completion (vr_operation_id row) row now)\<lparr>co_balance_id := balance, co_activated := True, co_authority_version := 1\<rparr>"

lemma activation_result_signed:
  assumes "uuid_laws L" "signature_laws L" "codec_ready (sv_codec sv)" "is_v7 L (vr_operation_id row)"
    and "length (vr_session_id row) = 16" "length balance \<le> 256" "causation = nil_uuid \<or> is_v7 L causation"
    and "new_v7 w 7 = Inr rid" "is_v7 L rid" "rfc3339_years now" "rfc3339_years (go_now w 7)" "rfc3339_years (now + 24 * hour)"
    and "go_now w 7 < now + 24 * hour"
  obtains item where "result_factory_of L sv causation (activation_completion row balance now) w = Inr item"
    and "om_message_id item = rid" "om_subject item = ActivationActivated" "om_expires_at item = now + 24 * hour"
      "length (om_envelope item) \<le> MaxBytes"
proof -
  let ?raw = "encode_activated \<lparr>ac_operation_id = uuid_string L (vr_operation_id row),
             ac_session_id = uuid_string L (vr_session_id row), ac_balance_id = balance,
             ac_status = ''ACTIVE'', ac_authority_version = 1, ac_activated_at = format_rfc3339nano now\<rparr>"
  have n: "short_name ActivationActivated" "short_name ActivationActivatedType"
    by (auto intro!: short_name_visible simp: ActivationActivated_def ActivationActivatedType_def visible_def byte_def)
  have "length (uuid_string L (vr_operation_id row)) = 36" "length (uuid_string L (vr_session_id row)) = 36"
    using assms(1,4,5) by (simp_all add: uuid_string_length is_v7_def)
  moreover have "length (format_rfc3339nano now) \<le> 30"
    using assms(10) by (simp add: rfc3339_years_def length_format_time)
  ultimately have "length ?raw \<le> 20000"
    using assms(6) length_marshal [of True activated_spec]
    by (simp add: encode_activated_def encode_payload_def)
      (rule order_trans [OF length_marshal], simp add: struct_size_def activated_spec_def activated_vals_def format_int_def nat_digits.simps)
  then obtain item where item: "codec_sign L (sv_codec sv) w 7 ActivationActivated ActivationActivatedType (vr_operation_id row) causation
        ?raw (now + 24 * hour) = Inr item"
      "om_message_id item = rid" "om_subject item = ActivationActivated" "om_expires_at item = now + 24 * hour"
    using codec_sign_succeeds [OF assms(1,2,3,8,9,4,7) n _ assms(11,12,13), of ?raw] by blast
  show thesis
    by (rule that [OF _ item(2-4)])
      (use item codec_sign_fits [OF item(1)] in
        \<open>simp_all add: result_factory_of_def activation_completion_def new_completion_def Let_def\<close>)
qed

lemma register_new:
  assumes "hash_sizes L" "healthy w" "sessions_ok d" "in_message_id inc \<notin> inbox_ids d" "pg_text (in_subject inc)" "pg_text (in_producer inc)"
  obtains ib where "\<And>body. deduplicated L inc body w (d, 0) = body w (d\<lparr>inbox := inbox d @ [ib]\<rparr>, 1)"
    and "is_processing (in_message_id inc) ib" "sessions_ok (d\<lparr>inbox := inbox d @ [ib]\<rparr>)"
proof -
  define ib where "ib = \<lparr>ib_message_id = in_message_id inc, ib_subject = in_subject inc, ib_producer = in_producer inc,
      ib_payload_digest = sha256 L (in_payload inc), ib_status = PROCESSING, ib_result_message_id = None,
      ib_completed_at = None, ib_expires_at = pg_time (in_expires_at inc)\<rparr>"
  have ok: "sessions_ok (d\<lparr>inbox := inbox d @ [ib]\<rparr>)"
    by (rule sessions_ok_inbox [OF assms(3)]) (use assms(1,4-6) in \<open>simp_all add: ib_def inbox_row_ok_def hash_sizes_def\<close>)
  have "find_inbox (in_message_id inc) d = None"
    using assms(4) by (simp add: find_inbox_None)
  then have "register_inbox sessions_ok (in_message_id inc) (in_subject inc) (in_producer inc) (sha256 L (in_payload inc))
      (in_expires_at inc) w (d, 0) =
      Inr (\<lparr>ir_accepted = True, ir_completed = False, ir_result_message_id = None\<rparr>, (d\<lparr>inbox := inbox d @ [ib]\<rparr>, 1))"
    using assms(2) ok by (simp add: register_inbox_ok healthy_def ib_def)
  then have "deduplicated L inc body w (d, 0) = body w (d\<lparr>inbox := inbox d @ [ib]\<rparr>, 1)" for body
    by (simp add: deduplicated_def tx_bind_def)
  then show thesis
    by (rule that) (use ok in \<open>simp_all add: ib_def is_processing_def\<close>)
qed

lemma lock_verification_found:
  assumes "healthy w" "sessions_ok d" "row \<in> set (verifications d)"
  shows "lock_verification (vr_operation_id row) w (d, k) = Inr (row, (d, k + 1))"
proof -
  obtain r where r: "find (\<lambda>r. vr_operation_id r = vr_operation_id row) (verifications d) = Some r"
    using assms(3) by (metis (mono_tags) find_None_iff not_None_eq)
  then have "r \<in> set (verifications d)" "vr_operation_id r = vr_operation_id row"
    using find_Some_iff_first [OF r] by auto
  then have "r = row"
    using verification_keys(3) [OF assms(2) _ assms(3)] by blast
  with r assms(1) show ?thesis
    by (simp add: lock_verification_def find_verification_def tx_bind_ok tx_query_ok tx_return_ok healthy_def)
qed

lemma expected_facts_sender:
  "expected_facts L st row = Inr expected \<Longrightarrow>
     \<exists>sender. st_decrypt L st ''activation_verifications'' (vr_id row) ''sender_wallet'' (vr_sender_ciphertext row) = Inr sender"
  by (auto simp: expected_facts_def split: sum.splits)

lemma apply_verified_succeeds:
  assumes "aead_sizes L" "hash_sizes L" "store_ready st" "healthy w" "sessions_ok d"
    and "in_message_id inc \<notin> inbox_ids d" "pg_text (in_subject inc)" "pg_text (in_producer inc)"
    and "row \<in> set (verifications d)" "vr_status row = V_PENDING" "fits row" "first_activation row d"
    and "cr \<in> set (inbox d)" "is_processing (vr_command_message_id row) cr"
    and "expected_facts L st row = Inr expected" "same_facts p expected" "finalized_in_time p row (go_now w 2)"
    and "st_decrypt L st ''activation_verifications'' (vr_id row) ''balance_id'' (vr_balance_ciphertext row) = Inr balance"
    and "new_v7 w 5 = Inr iid" "\<forall>i\<in>set (identities d). bi_id i \<noteq> iid"
    and "new_v7 w 6 = Inr eid" "\<forall>e\<in>set (events d). ev_id e \<noteq> eid"
    and "uuid_parse L (td_operation_id p) = Some (vr_operation_id row)"
    and "factory (activation_completion row balance (go_now w 1)) w = Inr result"
    and "om_message_id result \<notin> outbox_ids d" "pg_text (om_subject result)" "length (om_envelope result) \<le> MaxBytes"
      "db_now w < pg_time (om_expires_at result)"
  obtains d' where "apply_topup_verified L st inc p factory w d = (Inr (), d')" "sessions_ok d'"
    and "\<exists>s\<in>set (sessions d'). sn_id s = vr_session_id row \<and> sn_status s = ACTIVE \<and> sn_bot_id s = vr_bot_id row \<and>
      sn_telegram_user_id s = vr_telegram_user_id row \<and> sn_version s = 1"
    and "\<exists>u\<in>set (verifications d'). vr_id u = vr_id row \<and> vr_status u = V_VERIFIED"
    and "\<exists>ob\<in>set (outbox d'). ob_message_id ob = om_message_id result \<and> ob_subject ob = om_subject result \<and>
      ob_kind ob = ''RESULT'' \<and> ob_status ob = PENDING"
    and "\<exists>e. events d' = events d @ [e]"
proof -
  obtain ib where reg: "\<And>body. deduplicated L inc body w (d, 0) = body w (d\<lparr>inbox := inbox d @ [ib]\<rparr>, 1)"
      "is_processing (in_message_id inc) ib" "sessions_ok (d\<lparr>inbox := inbox d @ [ib]\<rparr>)"
    using register_new [OF assms(2,4,5,6,7,8)] by blast
  let ?d1 = "d\<lparr>inbox := inbox d @ [ib]\<rparr>"
  note first = assms(12) [unfolded first_activation_def]
  obtain sender where sender:
      "st_decrypt L st ''activation_verifications'' (vr_id row) ''sender_wallet'' (vr_sender_ciphertext row) = Inr sender"
    using expected_facts_sender [OF assms(15)] by blast
  obtain i where i: "ensure_identity L st row balance sender w (?d1, 2) =
        Inr ((iid, True), (?d1\<lparr>identities := identities d @ [i]\<rparr>, 2 + 3))"
      "bi_id i = iid" "sessions_ok (?d1\<lparr>identities := identities d @ [i]\<rparr>)"
    by (rule ensure_identity_new [where balance = balance and sender = sender and k = 2 and L = L, OF assms(3,4) reg(3) _ assms(11) _ assms(19)])
      (use assms(9,20) first that in auto)
  let ?d2 = "?d1\<lparr>identities := identities d @ [i]\<rparr>"
  obtain s e where se: "activate_session row iid (go_now w 1) w (?d2, 5) =
        Inr (Some 1, (?d2\<lparr>sessions := sessions d @ [s], events := events d @ [e]\<rparr>, 5 + 6))"
      "sn_id s = vr_session_id row" "sn_status s = ACTIVE" "sn_bot_id s = vr_bot_id row"
      "sn_telegram_user_id s = vr_telegram_user_id row" "sn_version s = 1"
      "sessions_ok (?d2\<lparr>sessions := sessions d @ [s], events := events d @ [e]\<rparr>)"
    by (rule activate_session_new [where iid = iid and now = "go_now w 1" and k = 5, OF assms(4) i(3) _ assms(11) _ _ _ assms(21)])
      (use assms(9,22) first i(2) that in auto)
  let ?d3 = "?d2\<lparr>sessions := sessions d @ [s], events := events d @ [e]\<rparr>"
  have ids: "in_message_id inc \<noteq> vr_command_message_id row"
    using assms(6,13,14) unfolding inbox_ids_def is_processing_def by (metis imageI)
  obtain d' n where d': "settle_verification L st (in_message_id inc) row V_VERIFIED '''' (activation_completion row balance (go_now w 1))
        factory w (?d3, 11) = Inr ((), (d', n))" "sessions_ok d'"
      "\<exists>ob\<in>set (outbox d'). ob_message_id ob = om_message_id result \<and> ob_subject ob = om_subject result \<and>
        ob_kind ob = ''RESULT'' \<and> ob_status ob = PENDING"
    by (rule settle_succeeds [where row = row and status = V_VERIFIED and code = "''''" and ?r1.0 = cr and ?r2.0 = ib and
          mid = "in_message_id inc" and factory = factory and completion = "activation_completion row balance (go_now w 1)" and
          result = result and k = 11, OF assms(1,3,4) se(7)])
      (use assms(9,11,13,14,24-28) reg(2) ids that in \<open>auto simp: fits_def outbox_ids_def\<close>)
  obtain result' where st: "verifications d' = map (finished row V_VERIFIED (nullif_empty '''') (db_now w)) (verifications d)"
      "sessions d' = sessions d @ [s]" "events d' = events d @ [e]"
    using settle_verification_effect [OF d'(1)] by auto
  have body: "apply_verified_body L st inc p (vr_operation_id row) factory w (?d1, 1) = Inr ((), (d', n))"
    using assms(4,10,15-18) sender i(1) se(1) d'(1) lock_verification_found [OF assms(4) reg(3), of row 1] assms(9)
    by (simp add: apply_verified_body_def tx_bind_def tx_lift_def activation_completion_def new_completion_def
        del: One_nat_def)
  have "apply_topup_verified L st inc p factory w d = (Inr (), d')"
    using assms(4,23) body reg(1) by (auto simp: apply_topup_verified_def run_tx_Inr healthy_def)
  moreover have "\<exists>u\<in>set (verifications d'). vr_id u = vr_id row \<and> vr_status u = V_VERIFIED"
    using assms(9,10) st(1) by (intro bexI [of _ "finished row V_VERIFIED (nullif_empty '''') (db_now w) row"])
      (auto simp: finished_def)
  ultimately show thesis
    using that d'(2,3) st(2,3) se by simp
qed

lemma payment_activates:
  assumes "uuid_laws L" "signature_laws L" "aead_sizes L" "hash_sizes L" "store_ready (sv_store sv)" "codec_ready (sv_codec sv)"
    and "healthy w" "(sessions_step L sv pb)\<^sup>*\<^sup>* empty_sessions d"
    and "row \<in> set (verifications d)" "vr_status row = V_PENDING" "fits row" "first_activation row d"
    and "is_v7 L (vr_operation_id row)" "length (vr_session_id row) = 16"
    and "expected_facts L (sv_store sv) row = Inr expected" "length balance \<le> 256"
    and "st_decrypt L (sv_store sv) ''activation_verifications'' (vr_id row) ''balance_id'' (vr_balance_ciphertext row) = Inr balance"
    and "codec_verify L (sv_codec sv) w data subj TopupVerifiedType [''rw-topup''] = Inr v"
    and "decode_topup_verified (vf_payload v) = Inr p" "uuid_parse L (td_operation_id p) = Some (vr_operation_id row)"
    and "same_facts p expected" "finalized_in_time p row (go_now w 2)" "vf_id v \<notin> inbox_ids d" "pg_text subj"
    and "new_v7 w 5 = Inr iid" "\<forall>i\<in>set (identities d). bi_id i \<noteq> iid"
    and "new_v7 w 6 = Inr eid" "\<forall>e\<in>set (events d). ev_id e \<noteq> eid"
    and "new_v7 w 7 = Inr rid" "is_v7 L rid" "rid \<notin> outbox_ids d"
    and "rfc3339_years (go_now w 1)" "rfc3339_years (go_now w 7)" "rfc3339_years (go_now w 1 + 24 * hour)"
    and "go_now w 7 < go_now w 1 + 24 * hour" "db_now w < pg_time (go_now w 1 + 24 * hour)"
  obtains d' where "handle_topup_verified L sv subj data w d = (Inr (), d')"
    and "\<exists>s\<in>set (sessions d'). sn_id s = vr_session_id row \<and> sn_status s = ACTIVE \<and> sn_bot_id s = vr_bot_id row \<and>
      sn_telegram_user_id s = vr_telegram_user_id row \<and> sn_version s = 1"
    and "\<exists>u\<in>set (verifications d'). vr_id u = vr_id row \<and> vr_status u = V_VERIFIED"
    and "\<exists>ob\<in>set (outbox d'). ob_subject ob = ActivationActivated \<and> ob_kind ob = ''RESULT'' \<and> ob_status ob = PENDING"
    and "\<exists>e. events d' = events d @ [e]"
proof -
  have ok: "sessions_ok d"
    using reachable_sound [OF assms(8)] by (simp add: sessions_sound_def)
  have "answer_ok (inbox d) (outbox_ids d) row"
    using reachable_answered [OF assms(8)] assms(9) by (simp add: answered_def)
  then obtain cr where "find (\<lambda>r. ib_message_id r = vr_command_message_id row) (inbox d) = Some cr" "ib_status cr = PROCESSING"
    using assms(10) by (auto simp: answer_ok_def split: option.splits)
  then have cr: "cr \<in> set (inbox d)" "is_processing (vr_command_message_id row) cr"
    using find_Some_iff_first [of _ "inbox d" cr] by (auto simp: is_processing_def)
  obtain item where item: "result_factory_of L sv (vf_id v) (activation_completion row balance (go_now w 1)) w = Inr item"
      "om_message_id item = rid" "om_subject item = ActivationActivated" "om_expires_at item = go_now w 1 + 24 * hour"
      "length (om_envelope item) \<le> MaxBytes"
    using activation_result_signed [OF assms(1,2,6,13,14,16) _ assms(29,30,32,33,34,35), of "vf_id v"]
      verified_id_v7 [OF assms(1,18)] by blast
  have names: "pg_text ''rw-topup''" "pg_text ActivationActivated"
    by (auto intro!: pg_text_visible simp: ActivationActivated_def visible_def byte_def)
  obtain d' where d': "apply_topup_verified L (sv_store sv) (incoming_of v subj) p (result_factory_of L sv (vf_id v)) w d = (Inr (), d')"
    "\<exists>s\<in>set (sessions d'). sn_id s = vr_session_id row \<and> sn_status s = ACTIVE \<and> sn_bot_id s = vr_bot_id row \<and>
      sn_telegram_user_id s = vr_telegram_user_id row \<and> sn_version s = 1"
    "\<exists>u\<in>set (verifications d'). vr_id u = vr_id row \<and> vr_status u = V_VERIFIED"
    "\<exists>ob\<in>set (outbox d'). ob_message_id ob = om_message_id item \<and> ob_subject ob = om_subject item \<and>
      ob_kind ob = ''RESULT'' \<and> ob_status ob = PENDING"
    "\<exists>e. events d' = events d @ [e]"
    by (rule apply_verified_succeeds [where inc = "incoming_of v subj" and row = row and cr = cr and p = p and
          factory = "result_factory_of L sv (vf_id v)" and result = item, OF assms(3,4,5,7) ok])
      (use assms item cr names verified_producer [OF assms(18)] that in \<open>auto simp: incoming_of_def\<close>)
  moreover have "handle_topup_verified L sv subj data w d = (Inr (), d')"
    using d'(1) assms(18,19) by (simp add: handle_topup_verified_def)
  ultimately show thesis
    using item(3) by (intro that) auto
qed

lemma same_facts_right: "validate_topup_result p (expected\<lparr>tv_operation_id := td_operation_id p\<rparr>) = Inr () \<Longrightarrow> same_facts p expected"
  by (simp add: validate_topup_result_def same_facts_def split: if_splits)

lemma expected_asset: "expected_facts L st row = Inr expected \<Longrightarrow> tv_asset expected = ''USDT''"
  by (auto simp: expected_facts_def split: sum.splits)

text \<open>
  C10. A right payment activates: in a reachable state with a pending verification, for a payment whose facts, the asset
  included, are the expected ones (\<open>ValidateTopupResult\<close> of the domain accepts it), in time, for a balance and a session that
  are new and without conflict, \<open>handleTopupVerified\<close> returns no error when the database answers and the identifiers are fresh; then
  the session is active in version 1, the verification is verified, and the activation result waits in
  the outbox.
\<close>

theorem verified_payment_activates:
  assumes "uuid_laws L" "signature_laws L" "aead_sizes L" "hash_sizes L" "store_ready (sv_store sv)" "codec_ready (sv_codec sv)"
    and "healthy w" "(sessions_step L sv pb)\<^sup>*\<^sup>* empty_sessions d"
    and "row \<in> set (verifications d)" "vr_status row = V_PENDING" "fits row" "first_activation row d"
    and "is_v7 L (vr_operation_id row)" "length (vr_session_id row) = 16"
    and "expected_facts L (sv_store sv) row = Inr expected" "length balance \<le> 256"
    and "st_decrypt L (sv_store sv) ''activation_verifications'' (vr_id row) ''balance_id'' (vr_balance_ciphertext row) = Inr balance"
    and "codec_verify L (sv_codec sv) w data subj TopupVerifiedType [''rw-topup''] = Inr v"
    and "decode_topup_verified (vf_payload v) = Inr p" "uuid_parse L (td_operation_id p) = Some (vr_operation_id row)"
    and "validate_topup_result p (expected\<lparr>tv_operation_id := td_operation_id p\<rparr>) = Inr ()" "finalized_in_time p row (go_now w 2)" "vf_id v \<notin> inbox_ids d" "pg_text subj"
    and "new_v7 w 5 = Inr iid" "\<forall>i\<in>set (identities d). bi_id i \<noteq> iid"
    and "new_v7 w 6 = Inr eid" "\<forall>e\<in>set (events d). ev_id e \<noteq> eid"
    and "new_v7 w 7 = Inr rid" "is_v7 L rid" "rid \<notin> outbox_ids d"
    and "rfc3339_years (go_now w 1)" "rfc3339_years (go_now w 7)" "rfc3339_years (go_now w 1 + 24 * hour)"
    and "go_now w 7 < go_now w 1 + 24 * hour" "db_now w < pg_time (go_now w 1 + 24 * hour)"
  shows "\<exists>d'. handle_topup_verified L sv subj data w d = (Inr (), d') \<and>
    (\<exists>s\<in>set (sessions d'). sn_id s = vr_session_id row \<and> sn_status s = ACTIVE \<and> sn_bot_id s = vr_bot_id row \<and>
       sn_telegram_user_id s = vr_telegram_user_id row \<and> sn_version s = 1) \<and>
    (\<exists>u\<in>set (verifications d'). vr_id u = vr_id row \<and> vr_status u = V_VERIFIED) \<and>
    (\<exists>ob\<in>set (outbox d'). ob_subject ob = ActivationActivated \<and> ob_kind ob = ''RESULT'' \<and> ob_status ob = PENDING) \<and>
    (\<exists>e. events d' = events d @ [e])"
  by (rule payment_activates [OF assms(1-20) same_facts_right [OF assms(21)] assms(22-36)]) blast

text \<open>
  C11. A payment in another asset activates as well: the specification (docs/project/technical-decisions.md, section 6) asks for USDT and the check of the
  domain refuses the payment, but the store does not compare the asset, and in the same conditions the session becomes active.
\<close>

theorem foreign_asset_activates:
  assumes "uuid_laws L" "signature_laws L" "aead_sizes L" "hash_sizes L" "store_ready (sv_store sv)" "codec_ready (sv_codec sv)"
    and "healthy w" "(sessions_step L sv pb)\<^sup>*\<^sup>* empty_sessions d"
    and "row \<in> set (verifications d)" "vr_status row = V_PENDING" "fits row" "first_activation row d"
    and "is_v7 L (vr_operation_id row)" "length (vr_session_id row) = 16"
    and "expected_facts L (sv_store sv) row = Inr expected" "length balance \<le> 256"
    and "st_decrypt L (sv_store sv) ''activation_verifications'' (vr_id row) ''balance_id'' (vr_balance_ciphertext row) = Inr balance"
    and "codec_verify L (sv_codec sv) w data subj TopupVerifiedType [''rw-topup''] = Inr v"
    and "decode_topup_verified (vf_payload v) = Inr p" "uuid_parse L (td_operation_id p) = Some (vr_operation_id row)"
    and "same_facts p expected" "td_asset p \<noteq> ''USDT''" "finalized_in_time p row (go_now w 2)" "vf_id v \<notin> inbox_ids d" "pg_text subj"
    and "new_v7 w 5 = Inr iid" "\<forall>i\<in>set (identities d). bi_id i \<noteq> iid"
    and "new_v7 w 6 = Inr eid" "\<forall>e\<in>set (events d). ev_id e \<noteq> eid"
    and "new_v7 w 7 = Inr rid" "is_v7 L rid" "rid \<notin> outbox_ids d"
    and "rfc3339_years (go_now w 1)" "rfc3339_years (go_now w 7)" "rfc3339_years (go_now w 1 + 24 * hour)"
    and "go_now w 7 < go_now w 1 + 24 * hour" "db_now w < pg_time (go_now w 1 + 24 * hour)"
  shows "is_err (validate_topup_result p (expected\<lparr>tv_operation_id := td_operation_id p\<rparr>)) \<and>
    (\<exists>d'. handle_topup_verified L sv subj data w d = (Inr (), d') \<and>
    (\<exists>s\<in>set (sessions d'). sn_id s = vr_session_id row \<and> sn_status s = ACTIVE \<and> sn_bot_id s = vr_bot_id row \<and>
       sn_telegram_user_id s = vr_telegram_user_id row \<and> sn_version s = 1) \<and>
    (\<exists>u\<in>set (verifications d'). vr_id u = vr_id row \<and> vr_status u = V_VERIFIED) \<and>
    (\<exists>ob\<in>set (outbox d'). ob_subject ob = ActivationActivated \<and> ob_kind ob = ''RESULT'' \<and> ob_status ob = PENDING) \<and>
    (\<exists>e. events d' = events d @ [e]))"
proof -
  have "is_err (validate_topup_result p (expected\<lparr>tv_operation_id := td_operation_id p\<rparr>))"
    using assms(22) expected_asset [OF assms(15)] by (simp add: validate_topup_result_def)
  moreover note payment_activates [OF assms(1-21) assms(23-37)]
  ultimately show ?thesis by blast
qed

end
