(* ===== verification/Sample_Activation.thy ===== *)
theory Sample_Activation
  imports Sample_Sessions Sessions_Activation
begin

text \<open>
  The payment of the sample command and the state after it: the instance of the activation theorem.
\<close>

lemma st_decrypt_encrypt:
  assumes "aead_laws L" "keyring_ok (st_keyring st)" "utf8_valid (kr_active (st_keyring st))"
    and "st_encrypt L st i table row_id column plain w = Inr c"
  shows "st_decrypt L st table row_id column c = Inr plain"
proof -
  obtain sealed where s: "encrypt L (st_keyring st) w i plain (row_aad L service_name table row_id column) = Inr sealed"
      "c = marshal True ciphertext_spec (ciphertext_vals sealed)"
    using assms(4) by (auto simp: st_encrypt_def split: sum.splits)
  then show ?thesis
    using ciphertext_round_trip [OF assms(2,3) s(1)] decrypt_encrypt [OF assms(1,2) s(1)]
    by (simp add: st_decrypt_def ct.read_back)
qed

definition sample_row :: verification_row where
  "sample_row = hd (verifications sample_pending)"

definition sample_payment_in :: "string \<Rightarrow> topup_verified" where
  "sample_payment_in asset =
     \<lparr>td_operation_id = sample_id 100, td_transaction_id = ''tx'', td_external_reservation_id = ''res'',
      td_sender_wallet = ''0x1111111111111111'', td_receiver_wallet = ''0x2222222222222222'', td_amount = ''15'',
      td_asset = asset, td_network = ''tron'', td_finalized_at = format_rfc3339nano 1700000000000000000\<rparr>"

definition sample_paid_in :: "string \<Rightarrow> bytes" where
  "sample_paid_in asset =
     sample_bytes sample_topup_codec 20 TopupVerifiedSubject TopupVerifiedType (encode_topup_verified (sample_payment_in asset))"

abbreviation sample_payment :: topup_verified where
  "sample_payment \<equiv> sample_payment_in ''USDT''"

abbreviation sample_paid :: bytes where
  "sample_paid \<equiv> sample_paid_in ''USDT''"

definition sample_active :: sessions_db where
  "sample_active = snd (handle_topup_verified sample_lib sample_service TopupVerifiedSubject sample_paid sample_world sample_pending)"

lemma sample_payment_verified:
  assumes "list_all visible asset" "length asset \<le> 16"
  obtains v where "codec_verify sample_lib (sv_codec sample_service) sample_world (sample_paid_in asset) TopupVerifiedSubject TopupVerifiedType
      [''rw-topup''] = Inr v"
    and "decode_topup_verified (vf_payload v) = Inr (sample_payment_in asset)" "vf_id v = sample_uuid 20"
proof -
  have names: "short_name TopupVerifiedSubject" "short_name TopupVerifiedType"
    by (auto intro!: short_name_visible simp: TopupVerifiedSubject_def TopupVerifiedType_def visible_def byte_def)
  have i: "length (sample_id n) = 36" for n
    by (simp add: sample_id_def length_sample_string)
  have "length (format_rfc3339nano 1700000000000000000) \<le> 30"
    using sample_years by (simp add: rfc3339_years_def length_format_time)
  then have "struct_size topup_verified_spec (topup_verified_vals (sample_payment_in asset)) \<le> 20000"
    using assms(2) by (simp add: struct_size_def topup_verified_spec_def topup_verified_vals_def sample_payment_in_def i)
  then have fits: "length (encode_topup_verified (sample_payment_in asset)) \<le> 20000"
    using length_marshal [of True topup_verified_spec "topup_verified_vals (sample_payment_in asset)"]
    by (simp add: encode_topup_verified_def encode_payload_def)
  have printable: "list_all printable (topup_verified_vals (sample_payment_in asset))"
    using sample_visible sample_id_visible assms(1)
    by (simp add: topup_verified_vals_def sample_payment_in_def utf8_valid_visible canonical_time_visible [unfolded canonical_time_def])
  obtain v where v: "codec_verify sample_lib sample_sessions_codec sample_world (sample_paid_in asset) TopupVerifiedSubject TopupVerifiedType
      [cd_producer sample_topup_codec] = Inr v" "vf_payload v = encode_topup_verified (sample_payment_in asset)" "vf_id v = sample_uuid 20"
    by (rule sample_bytes_accepted [where c = sample_topup_codec and i = 20, OF _ names fits]) (auto simp: sample_paid_in_def)
  have "cd_producer sample_topup_codec = ''rw-topup''"
    by (simp add: sample_topup_codec_def)
  then show thesis
    by (intro that [of v])
      (use v topup_verified.decode_encode [OF printable] in
        \<open>simp_all add: sample_service_def decode_topup_verified_def encode_topup_verified_def\<close>)
qed

lemma sample_row_facts:
  "verifications sample_pending = [sample_row]" "vr_status sample_row = V_PENDING" "vr_operation_id sample_row = sample_uuid 100"
  "vr_session_id sample_row = sample_uuid 101" "fits sample_row" "first_activation sample_row sample_pending"
  "vr_offer_expires_at sample_row = 1700000600000000000"
  "expected_facts sample_lib (sv_store sample_service) sample_row =
     Inr \<lparr>tv_operation_id = '''', tv_transaction_id = ''tx'', tv_external_reservation_id = ''res'',
          tv_sender_wallet = ''0x1111111111111111'', tv_receiver_wallet = ''0x2222222222222222'', tv_amount = ''15'',
          tv_asset = ''USDT'', tv_network = ''tron''\<rparr>"
  "st_decrypt sample_lib (sv_store sample_service) ''activation_verifications'' (vr_id sample_row) ''balance_id''
     (vr_balance_ciphertext sample_row) = Inr ''balance''"
  "inbox_ids sample_pending = {sample_uuid 0}" "outbox_ids sample_pending = {sample_uuid 3}"
  "identities sample_pending = []" "events sample_pending = []" "sessions sample_pending = []"
proof -
  have k: "keyring_ok (st_keyring (sv_store sample_service))" "utf8_valid (kr_active (st_keyring (sv_store sample_service)))"
    using sample_ready(3)
    by (simp_all add: store_ready_def sample_service_def sample_keyring_def utf8_valid_visible visible_def byte_def)
  note dec = st_decrypt_encrypt [OF sample_aead_laws k]
  obtain row ib ob inc topup where p: "verifications sample_pending = [row]" "vr_status row = V_PENDING"
      "vr_operation_id row = sample_uuid 100" "inbox sample_pending = [ib]" "ib_message_id ib = sample_uuid 0"
      "outbox sample_pending = [ob]" "ob_message_id ob = sample_uuid 3" "sessions sample_pending = []"
      "events sample_pending = []" "identities sample_pending = []"
    and r: "recorded sample_lib (sv_store sample_service) sample_world (sample_uuid 4) inc sample_command topup row"
    by (rule sample_pending_state) blast
  have row: "sample_row = row"
    using p(1) by (simp add: sample_row_def)
  obtain b1 b2 b3 where a: "row = accepted_row sample_lib (sv_store sample_service) (db_now sample_world) (sample_uuid 4) inc sample_command
        topup b1 b2 b3"
    and b: "st_encrypt sample_lib (sv_store sample_service) 0 ''activation_verifications'' (sample_uuid 4) ''balance_id'' ''balance''
        sample_world = Inr b1"
      "st_encrypt sample_lib (sv_store sample_service) 1 ''activation_verifications'' (sample_uuid 4) ''sender_wallet''
        ''0x1111111111111111'' sample_world = Inr b2"
      "st_encrypt sample_lib (sv_store sample_service) 2 ''activation_verifications'' (sample_uuid 4) ''receiver_wallet''
        ''0x2222222222222222'' sample_world = Inr b3"
    using r by (auto simp: recorded_def sample_command_def)
  have fields: "vr_id row = sample_uuid 4" "vr_session_id row = sample_uuid 101" "vr_network row = ''tron''"
      "vr_transaction_id row = ''tx''" "vr_version row = 1" "vr_external_reservation_id row = ''res''" "vr_amount row = ''15''"
      "vr_offer_expires_at row = 1700000600000000000"
      "vr_balance_ciphertext row = b1" "vr_sender_ciphertext row = b2" "vr_receiver_ciphertext row = b3"
    by (simp_all add: a accepted_row_def sample_command_def parse_or_nil_def sample_parse pg_time_def)
  show "verifications sample_pending = [sample_row]" "vr_status sample_row = V_PENDING" "vr_operation_id sample_row = sample_uuid 100"
      "vr_session_id sample_row = sample_uuid 101" "vr_offer_expires_at sample_row = 1700000600000000000"
      "inbox_ids sample_pending = {sample_uuid 0}" "outbox_ids sample_pending = {sample_uuid 3}"
      "identities sample_pending = []" "events sample_pending = []" "sessions sample_pending = []"
    using p row fields by (simp_all add: inbox_ids_def outbox_ids_def)
  show "fits sample_row"
    using p(3) fields by (simp add: row fits_def pg_length_def) (simp add: cont_def byte_def sample_uuid_def)
  show "first_activation sample_row sample_pending"
    using p(8-10) by (simp add: first_activation_def)
  show "expected_facts sample_lib (sv_store sample_service) sample_row =
     Inr \<lparr>tv_operation_id = '''', tv_transaction_id = ''tx'', tv_external_reservation_id = ''res'',
          tv_sender_wallet = ''0x1111111111111111'', tv_receiver_wallet = ''0x2222222222222222'', tv_amount = ''15'',
          tv_asset = ''USDT'', tv_network = ''tron''\<rparr>"
    "st_decrypt sample_lib (sv_store sample_service) ''activation_verifications'' (vr_id sample_row) ''balance_id''
       (vr_balance_ciphertext sample_row) = Inr ''balance''"
    using dec [OF b(1)] dec [OF b(2)] dec [OF b(3)] by (simp_all add: row fields expected_facts_def)
qed

lemma sample_uuid_eq [simp]: "m < 256 \<Longrightarrow> n < 256 \<Longrightarrow> m \<noteq> n \<Longrightarrow> sample_uuid m \<noteq> sample_uuid n"
proof
  assume "m < 256" "n < 256" "m \<noteq> n" "sample_uuid m = sample_uuid n"
  then have "(char_of (m + 1) :: char) = char_of (n + 1)"
    by (simp add: sample_uuid_def)
  then have "(m + 1) mod 256 = (n + 1) mod 256"
    by (metis of_char_of)
  with \<open>m < 256\<close> \<open>n < 256\<close> \<open>m \<noteq> n\<close> show False
    by (cases "m = 255"; cases "n = 255") auto
qed

text \<open>The conditions of the activation theorem at the sample state.\<close>

lemma sample_world_facts:
  "new_v7 sample_world n = Inr (sample_uuid n)" "go_now sample_world n = 1700000000000000000"
  "db_now sample_world = 1700000000000000000" "rfc3339_years (1700000000000000000 + 24 * hour)"
proof -
  have "year_of 1700086400000000000 = 2023"
    by code_simp
  then show "rfc3339_years (1700000000000000000 + 24 * hour)"
    by (simp add: rfc3339_years_def duration_defs)
qed (simp_all add: sample_world_def)

lemma sample_payment_facts:
  "pg_text TopupVerifiedSubject"
  "same_facts (sample_payment_in asset) \<lparr>tv_operation_id = '''', tv_transaction_id = ''tx'', tv_external_reservation_id = ''res'',
     tv_sender_wallet = ''0x1111111111111111'', tv_receiver_wallet = ''0x2222222222222222'', tv_amount = ''15'',
     tv_asset = ''USDT'', tv_network = ''tron''\<rparr>"
  "finalized_in_time (sample_payment_in asset) sample_row 1700000000000000000"
  "uuid_parse sample_lib (td_operation_id (sample_payment_in asset)) = Some (sample_uuid 100)"
proof -
  show "pg_text TopupVerifiedSubject"
    by (rule pg_text_visible) (simp add: TopupVerifiedSubject_def visible_def byte_def)
qed (simp_all add: same_facts_def sample_payment_in_def finalized_in_time_def sample_parse sample_row_facts duration_defs)

lemmas sample_paid_verified = sample_payment_verified [OF sample_visible(5)]

lemma sample_active_state:
  "handle_topup_verified sample_lib sample_service TopupVerifiedSubject sample_paid sample_world sample_pending = (Inr (), sample_active)"
  "events sample_active \<noteq> []" "\<exists>s\<in>set (sessions sample_active). sn_status s = ACTIVE"
  "\<exists>u\<in>set (verifications sample_active). vr_status u = V_VERIFIED"
proof -
  note row = sample_row_facts
  obtain v where v: "codec_verify sample_lib (sv_codec sample_service) sample_world sample_paid TopupVerifiedSubject TopupVerifiedType
      [''rw-topup''] = Inr v" "decode_topup_verified (vf_payload v) = Inr sample_payment" "vf_id v = sample_uuid 20"
    by (rule sample_paid_verified) simp_all
  obtain d' where d': "handle_topup_verified sample_lib sample_service TopupVerifiedSubject sample_paid sample_world sample_pending = (Inr (), d')"
      "\<exists>s\<in>set (sessions d'). sn_id s = vr_session_id sample_row \<and> sn_status s = ACTIVE \<and> sn_bot_id s = vr_bot_id sample_row \<and>
        sn_telegram_user_id s = vr_telegram_user_id sample_row \<and> sn_version s = 1"
      "\<exists>u\<in>set (verifications d'). vr_id u = vr_id sample_row \<and> vr_status u = V_VERIFIED" "\<exists>e. events d' = events sample_pending @ [e]"
    by (rule payment_activates [where row = sample_row and p = sample_payment and iid = "sample_uuid 5" and eid = "sample_uuid 6" and
        rid = "sample_uuid 7" and balance = "''balance''" and subj = TopupVerifiedSubject and data = sample_paid,
        OF sample_uuid_laws sample_signature_laws sample_ready sample_pending_reachable _ row(2,5,6) _ _ row(8) _ row(9) v(1,2)])
      (use sample_payment_facts(1) sample_payment_facts(2-4) [of "''USDT''"] sample_world_facts v(3) that in \<open>simp_all add: row sample_years pg_time_def duration_defs\<close>)
  have "sample_active = d'"
    using d'(1) by (simp add: sample_active_def)
  then show "handle_topup_verified sample_lib sample_service TopupVerifiedSubject sample_paid sample_world sample_pending =
      (Inr (), sample_active)" "events sample_active \<noteq> []" "\<exists>s\<in>set (sessions sample_active). sn_status s = ACTIVE"
      "\<exists>u\<in>set (verifications sample_active). vr_status u = V_VERIFIED"
    using d' by auto
qed

lemma sample_active_reachable: "(sessions_step sample_lib sample_service sample_publisher)\<^sup>*\<^sup>* empty_sessions sample_active"
  unfolding sample_active_def
  by (rule rtranclp.rtrancl_into_rtrancl [OF sample_pending_reachable]) (rule sessions_step.topup_verified)

lemma verified_payment_activates_witness:
  "\<exists>d'. handle_topup_verified sample_lib sample_service TopupVerifiedSubject sample_paid sample_world sample_pending = (Inr (), d') \<and>
     (\<exists>s\<in>set (sessions d'). sn_id s = sample_uuid 101 \<and> sn_status s = ACTIVE \<and> sn_bot_id s = vr_bot_id sample_row \<and>
        sn_telegram_user_id s = vr_telegram_user_id sample_row \<and> sn_version s = 1) \<and>
     (\<exists>u\<in>set (verifications d'). vr_id u = vr_id sample_row \<and> vr_status u = V_VERIFIED) \<and>
     (\<exists>ob\<in>set (outbox d'). ob_subject ob = ActivationActivated \<and> ob_kind ob = ''RESULT'' \<and> ob_status ob = PENDING) \<and>
     (\<exists>e. events d' = events sample_pending @ [e])"
proof -
  obtain v where v: "codec_verify sample_lib (sv_codec sample_service) sample_world sample_paid TopupVerifiedSubject TopupVerifiedType
      [''rw-topup''] = Inr v" "decode_topup_verified (vf_payload v) = Inr sample_payment" "vf_id v = sample_uuid 20"
    by (rule sample_paid_verified) simp_all
  note row = sample_row_facts
  have right: "validate_topup_result sample_payment (\<lparr>tv_operation_id = '''', tv_transaction_id = ''tx'', tv_external_reservation_id = ''res'',
      tv_sender_wallet = ''0x1111111111111111'', tv_receiver_wallet = ''0x2222222222222222'', tv_amount = ''15'',
      tv_asset = ''USDT'', tv_network = ''tron''\<rparr>\<lparr>tv_operation_id := td_operation_id sample_payment\<rparr>) = Inr ()"
    by (simp add: validate_topup_result_def sample_payment_in_def sample_parse)
  show ?thesis
    using verified_payment_activates [where row = sample_row and p = sample_payment and iid = "sample_uuid 5" and eid = "sample_uuid 6" and
        rid = "sample_uuid 7" and balance = "''balance''" and subj = TopupVerifiedSubject and data = sample_paid,
        OF sample_uuid_laws sample_signature_laws sample_ready sample_pending_reachable _ row(2,5,6) _ _ row(8) _ row(9) v(1,2)]
      right sample_payment_facts(1) sample_payment_facts(2-4) [of "''USDT''"] sample_world_facts v(3)
    by (simp add: row sample_years pg_time_def duration_defs)
qed

lemma sample_asset: "td_asset (sample_payment_in ''TRX'') \<noteq> ''USDT''"
  by (simp add: sample_payment_in_def)

lemma foreign_asset_activates_witness:
  "\<exists>d'. handle_topup_verified sample_lib sample_service TopupVerifiedSubject (sample_paid_in ''TRX'') sample_world sample_pending = (Inr (), d') \<and>
     (\<exists>s\<in>set (sessions d'). sn_id s = sample_uuid 101 \<and> sn_status s = ACTIVE \<and> sn_bot_id s = vr_bot_id sample_row \<and>
        sn_telegram_user_id s = vr_telegram_user_id sample_row \<and> sn_version s = 1) \<and>
     (\<exists>u\<in>set (verifications d'). vr_id u = vr_id sample_row \<and> vr_status u = V_VERIFIED) \<and>
     (\<exists>ob\<in>set (outbox d'). ob_subject ob = ActivationActivated \<and> ob_kind ob = ''RESULT'' \<and> ob_status ob = PENDING) \<and>
     (\<exists>e. events d' = events sample_pending @ [e])"
proof -
  obtain v where v: "codec_verify sample_lib (sv_codec sample_service) sample_world (sample_paid_in ''TRX'') TopupVerifiedSubject TopupVerifiedType
      [''rw-topup''] = Inr v" "decode_topup_verified (vf_payload v) = Inr (sample_payment_in ''TRX'')" "vf_id v = sample_uuid 20"
    by (rule sample_payment_verified [of "''TRX''"]) (simp_all add: visible_def byte_def)
  note row = sample_row_facts
  show ?thesis
    using foreign_asset_activates [where row = sample_row and p = "sample_payment_in ''TRX''" and iid = "sample_uuid 5" and eid = "sample_uuid 6" and
        rid = "sample_uuid 7" and balance = "''balance''" and subj = TopupVerifiedSubject and data = "sample_paid_in ''TRX''",
        OF sample_uuid_laws sample_signature_laws sample_ready sample_pending_reachable _ row(2,5,6) _ _ row(8) _ row(9) v(1,2)]
      sample_payment_facts(1) sample_payment_facts(2-4) [of "''TRX''"] sample_asset sample_world_facts v(3)
    by (simp add: row sample_years pg_time_def duration_defs)
qed

end
