(* ===== verification/Simulation.thy ===== *)
theory Simulation
  imports Main
begin

text \<open>
  Tables read as maps, and simulation of a step relation by an abstract machine: an invariant of the concrete states under
  which each concrete step is an abstract step of the abstracted states. The services interpret it
  on their step relations; runs, and what the abstract machine never does, carry over.
\<close>

section \<open>Tables as maps\<close>

lemma map_of_append_new:
  "k x \<notin> k ` set xs \<Longrightarrow> map_of (map (\<lambda>y. (k y, v y)) (xs @ [x])) = (map_of (map (\<lambda>y. (k y, v y)) xs))(k x \<mapsto> v x)"
  by (induction xs) (auto simp: fun_eq_iff)

lemma map_of_row: "distinct (map k xs) \<Longrightarrow> x \<in> set xs \<Longrightarrow> map_of (map (\<lambda>y. (k y, v y)) xs) (k x) = Some (v x)"
  by (rule map_of_is_SomeI) (simp_all add: comp_def)

lemma map_of_update:
  assumes "distinct (map k xs)" "x \<in> set xs" "\<And>y. y \<in> set xs \<Longrightarrow> k (f y) = k y"
    and "\<And>y. y \<in> set xs \<Longrightarrow> k y \<noteq> k x \<Longrightarrow> v (f y) = v y"
  shows "map_of (map (\<lambda>y. (k y, v y)) (map f xs)) = (map_of (map (\<lambda>y. (k y, v y)) xs))(k x \<mapsto> v (f x))"
proof
  fix key
  have keys: "map k (map f xs) = map k xs"
    using assms(3) by simp
  show "map_of (map (\<lambda>y. (k y, v y)) (map f xs)) key = ((map_of (map (\<lambda>y. (k y, v y)) xs))(k x \<mapsto> v (f x))) key"
  proof (cases "key = k x")
    case True
    have "distinct (map k (map f xs))" "f x \<in> set (map f xs)"
      using assms(1,2) unfolding keys by simp_all
    from map_of_row [OF this, of v] show ?thesis
      using True assms(2,3) by simp
  next
    case False
    have "map_of (map (\<lambda>y. (k y, v y)) (map f ys)) key = map_of (map (\<lambda>y. (k y, v y)) ys) key" if "set ys \<subseteq> set xs" for ys
      using that False assms(3,4) by (induction ys) auto
    from this [of xs] show ?thesis
      using False by simp
  qed
qed

section \<open>Simulation\<close>

locale simulates =
  fixes step :: "'c \<Rightarrow> 'c \<Rightarrow> bool" and spec :: "'a \<Rightarrow> 'a \<Rightarrow> bool"
    and abstraction :: "'c \<Rightarrow> 'a" and inv :: "'c \<Rightarrow> bool"
  assumes step_inv: "inv c \<Longrightarrow> step c c' \<Longrightarrow> inv c'"
    and step_spec: "inv c \<Longrightarrow> step c c' \<Longrightarrow> spec (abstraction c) (abstraction c')"
begin

lemma steps_inv: "step\<^sup>*\<^sup>* c c' \<Longrightarrow> inv c \<Longrightarrow> inv c'"
  by (induction rule: rtranclp_induct) (auto intro: step_inv)

lemma steps_spec: "step\<^sup>*\<^sup>* c c' \<Longrightarrow> inv c \<Longrightarrow> spec\<^sup>*\<^sup>* (abstraction c) (abstraction c')"
proof (induction rule: rtranclp_induct)
  case (step b c')
  then show ?case
    using steps_inv [OF step(1)] step_spec [of b c'] by (meson rtranclp.rtrancl_into_rtrancl)
qed simp

text \<open>A relation that the abstract machine keeps from step to step holds between the ends of a run.\<close>

lemma steps_related:
  assumes "step\<^sup>*\<^sup>* c c'" "inv c" "reflp R" "transp R" "\<And>a a'. spec a a' \<Longrightarrow> R a a'"
  shows "R (abstraction c) (abstraction c')"
  using steps_spec [OF assms(1,2)]
proof (induction rule: rtranclp_induct)
  case base
  show ?case using assms(3) by (rule reflpD)
next
  case (step b b')
  then show ?case using assms(4,5) by (meson transpD)
qed

end

end
