(* ===== verification/Sessions_Refinement.thy ===== *)
theory Sessions_Refinement
  imports Sessions_Authority Simulation
begin

text \<open>
  The contract of the sessions service towards the bot, as a small state machine: an operation is
  unknown, pending, or settled for good, and only the activation of a pending operation raises the
  version of one session, by one. Every step of the service on its database is a step of this machine.
\<close>

record ledger =
  phase :: "uuid \<Rightarrow> verification_status option"
  authority_version :: "uuid \<Rightarrow> int option"

definition next_version :: "int option \<Rightarrow> int" where
  "next_version v = (case v of None \<Rightarrow> 1 | Some n \<Rightarrow> n + 1)"

inductive ledger_step :: "ledger \<Rightarrow> ledger \<Rightarrow> bool" where
  stay: "ledger_step a a"
| accept: "phase a op = None \<Longrightarrow> ledger_step a (a\<lparr>phase := (phase a)(op \<mapsto> V_PENDING)\<rparr>)"
| close: "phase a op = Some V_PENDING \<Longrightarrow> status \<in> {V_REJECTED, V_EXPIRED} \<Longrightarrow>
    ledger_step a (a\<lparr>phase := (phase a)(op \<mapsto> status)\<rparr>)"
| activate: "phase a op = Some V_PENDING \<Longrightarrow>
    ledger_step a (a\<lparr>phase := (phase a)(op \<mapsto> V_VERIFIED),
      authority_version := (authority_version a)(sid \<mapsto> next_version (authority_version a sid))\<rparr>)"

inductive_cases ledger_stepE: "ledger_step a b"

section \<open>The ledger of a database\<close>

definition ledger_of :: "sessions_db \<Rightarrow> ledger" where
  "ledger_of d =
     \<lparr>phase = map_of (map (\<lambda>r. (vr_operation_id r, vr_status r)) (verifications d)),
      authority_version = map_of (map (\<lambda>r. (sn_id r, sn_version r)) (sessions d))\<rparr>"

lemma ledger_same:
  "verifications d' = verifications d \<Longrightarrow> sessions d' = sessions d \<Longrightarrow> ledger_of d' = ledger_of d"
  by (simp add: ledger_of_def)

lemma ledger_more: "msgdb.more d' = msgdb.more d \<Longrightarrow> ledger_of d' = ledger_of d"
  by (intro ledger_same same_more_tables)

lemma sessions_keys:
  assumes "sessions_ok d"
  shows "distinct (map vr_operation_id (verifications d))" "distinct (map sn_id (sessions d))"
  using assms by (simp_all add: sessions_ok_def sessions_keys_ok_def)

lemma phase_row:
  "sessions_ok d \<Longrightarrow> row \<in> set (verifications d) \<Longrightarrow> phase (ledger_of d) (vr_operation_id row) = Some (vr_status row)"
  using map_of_row [OF sessions_keys(1)] by (simp add: ledger_of_def)

lemma phase_None: "op \<notin> vr_operation_id ` set (verifications d) \<Longrightarrow> phase (ledger_of d) op = None"
  by (force simp: ledger_of_def map_of_eq_None_iff)

lemma ledger_settled:
  assumes "sessions_ok d" "row \<in> set (verifications d)" "vr_status row = V_PENDING"
    and "verifications d' = map (finished row status code now) (verifications d)"
  shows "phase (ledger_of d') = (phase (ledger_of d))(vr_operation_id row \<mapsto> status)"
proof -
  have "vr_status (finished row status code now row) = status"
    using assms(3) by (simp add: finished_def)
  moreover have "map_of (map (\<lambda>r. (vr_operation_id r, vr_status r)) (map (finished row status code now) (verifications d))) =
      (map_of (map (\<lambda>r. (vr_operation_id r, vr_status r)) (verifications d)))
        (vr_operation_id row \<mapsto> vr_status (finished row status code now row))"
    by (rule map_of_update [OF sessions_keys(1) [OF assms(1)] assms(2)])
      (use verification_keys(1) [OF assms(1) _ assms(2)] in \<open>auto simp: finished_def\<close>)
  ultimately show ?thesis
    by (simp add: ledger_of_def assms(4))
qed

lemma ledger_closed:
  assumes "sessions_ok d" "row \<in> set (verifications d)" "vr_status row = V_PENDING" "status \<in> {V_REJECTED, V_EXPIRED}"
    and "verifications d' = map (finished row status code now) (verifications d)" "sessions d' = sessions d"
  shows "ledger_step (ledger_of d) (ledger_of d')"
proof -
  have "ledger_of d' = (ledger_of d)\<lparr>phase := (phase (ledger_of d))(vr_operation_id row \<mapsto> status)\<rparr>"
    using ledger_settled [OF assms(1-3,5)] assms(6) by (simp add: ledger_of_def)
  with close [of "ledger_of d" "vr_operation_id row" status] phase_row [OF assms(1,2)] assms(3,4) show ?thesis
    by simp
qed

lemma ledger_accepted:
  assumes "verifications d' = verifications d @ [row]" "vr_status row = V_PENDING" "sessions d' = sessions d"
    and "vr_operation_id row \<notin> vr_operation_id ` set (verifications d)"
  shows "ledger_step (ledger_of d) (ledger_of d')"
proof -
  have "ledger_of d' = (ledger_of d)\<lparr>phase := (phase (ledger_of d))(vr_operation_id row \<mapsto> V_PENDING)\<rparr>"
    using map_of_append_new [OF assms(4), of vr_status] assms(1-3) by (simp add: ledger_of_def)
  with accept [OF phase_None [OF assms(4)]] show ?thesis
    by simp
qed

text \<open>An activation raises the version of its session by one.\<close>

lemma ledger_version:
  assumes "activate_session row i now w s = Inr (Some v, s')" "sessions_ok (fst s)"
  shows "authority_version (ledger_of (fst s')) = (authority_version (ledger_of (fst s)))
    (vr_session_id row \<mapsto> next_version (authority_version (ledger_of (fst s)) (vr_session_id row)))"
  using assms(1)
proof (cases rule: activate_session_Some)
  case (first event_id r)
  have new: "sn_id r \<notin> sn_id ` set (sessions (fst s))"
    using first(1,4) by (auto simp: find_None_iff)
  then have "map_of (map (\<lambda>r. (sn_id r, sn_version r)) (sessions (fst s))) (vr_session_id row) = None"
    using first(4) by (force simp: map_of_eq_None_iff)
  then show ?thesis
    using map_of_append_new [OF new, of sn_version] first(3,4,5) by (simp add: ledger_of_def next_version_def)
next
  case (again event_id r)
  have r: "r \<in> set (sessions (fst s))" "sn_id r = vr_session_id row"
    using find_Some_iff_first [OF again(1)] by auto
  let ?f = "\<lambda>r. if sn_id r = vr_session_id row
      then r\<lparr>sn_telegram_chat_id := vr_telegram_chat_id row, sn_activation_network := vr_network row,
             sn_activation_transaction_id := vr_transaction_id row, sn_last_activated_at := pg_time now, sn_version := v\<rparr> else r"
  have "map_of (map (\<lambda>r. (sn_id r, sn_version r)) (map ?f (sessions (fst s)))) =
      (map_of (map (\<lambda>r. (sn_id r, sn_version r)) (sessions (fst s))))(sn_id r \<mapsto> sn_version (?f r))"
    by (rule map_of_update [OF sessions_keys(2) [OF assms(2)] r(1)]) (auto simp: r(2))
  moreover have "map_of (map (\<lambda>r. (sn_id r, sn_version r)) (sessions (fst s))) (sn_id r) = Some (sn_version r)"
    by (rule map_of_row [OF sessions_keys(2) [OF assms(2)] r(1)])
  ultimately show ?thesis
    using again(4,5) r(2) by (simp add: ledger_of_def next_version_def)
qed

section \<open>Each transaction is a step of the ledger\<close>

lemma settled_step:
  assumes "complete_rejected L st mid row c factory w s = Inr (x, s')" "sessions_ok (fst s)"
    and "row \<in> set (verifications (fst s))" "vr_status row = V_PENDING"
  shows "ledger_step (ledger_of (fst s)) (ledger_of (fst s'))"
  using settle_verification_effect [OF assms(1) [unfolded complete_rejected_def]]
  by (auto intro!: ledger_closed [OF assms(2-4), of V_REJECTED])

lemma rejected_inbox_ledger: "reject_inbox sessions_ok mid w s = Inr (x, s') \<Longrightarrow> ledger_of (fst s') = ledger_of (fst s)"
  by (rule ledger_more) (auto simp: reject_inbox_ok)

lemma identity_schema: "ensure_identity L st row b c w s = Inr (r, s') \<Longrightarrow> sessions_ok (fst s) \<Longrightarrow> sessions_ok (fst s')"
  using keepsD [OF bodies_keep_schema(2)] by (fastforce simp: schema_kept_def)

lemma activated_step:
  assumes "row \<in> set (verifications (fst s))" "vr_status row = V_PENDING" "sessions_ok (fst s)"
    and "activate_session row i now w s = Inr (Some v, s2)"
    and "settle_verification L st mid row V_VERIFIED code c factory w s2 = Inr (x, s')"
  shows "ledger_step (ledger_of (fst s)) (ledger_of (fst s'))"
proof -
  let ?a = "ledger_of (fst s)"
  have v2: "verifications (fst s2) = verifications (fst s)"
    using assms(4) by (cases rule: activate_session_Some) simp_all
  have ok2: "sessions_ok (fst s2)"
    using keepsD [OF bodies_keep_schema(3) assms(4)] assms(3) by (simp add: schema_kept_def)
  obtain now' where st: "verifications (fst s') = map (finished row V_VERIFIED (nullif_empty code) now') (verifications (fst s2))"
      "sessions (fst s') = sessions (fst s2)"
    using settle_verification_effect [OF assms(5)] by blast
  have "phase (ledger_of (fst s')) = (phase ?a)(vr_operation_id row \<mapsto> V_VERIFIED)"
    using ledger_settled [OF ok2 _ assms(2) st(1)] assms(1) v2 by (simp add: ledger_of_def)
  moreover have "authority_version (ledger_of (fst s')) = authority_version (ledger_of (fst s2))"
    using st(2) by (simp add: ledger_of_def)
  ultimately have "ledger_of (fst s') = ?a\<lparr>phase := (phase ?a)(vr_operation_id row \<mapsto> V_VERIFIED),
      authority_version := (authority_version ?a)(vr_session_id row \<mapsto> next_version (authority_version ?a (vr_session_id row)))\<rparr>"
    using ledger_version [OF assms(4,3)] by simp
  with activate [of ?a "vr_operation_id row" "vr_session_id row"] phase_row [OF assms(3,1)] assms(2) show ?thesis
    by simp
qed

lemma verified_body_step:
  assumes "apply_verified_body L st inc verified op factory w s = Inr (x, s')" and ok: "sessions_ok (fst s)"
  shows "ledger_step (ledger_of (fst s)) (ledger_of (fst s'))"
  using assms(1)
proof (cases rule: apply_verified_body_cases)
  case (late row)
  with rejected_inbox_ledger [OF late(3)] show ?thesis by (simp add: stay)
next
  case (violation row expected c n)
  show ?thesis
    using settled_step [OF violation(7)] ok find_verification_mem [OF violation(1)] violation(2) by simp
next
  case (mismatch row expected balance wallet i s1 c n)
  note same = ensure_identity_same [OF mismatch(6)]
  have "ledger_of (fst s1) = ledger_of (fst s)"
    by (rule ledger_same) (use same in simp_all)
  then show ?thesis
    using settled_step [OF mismatch(9)] identity_schema [OF mismatch(6)] ok same find_verification_mem [OF mismatch(1)] mismatch(2)
    by simp
next
  case (conflict row expected balance wallet i s1 s2 c n)
  note same = ensure_identity_same [OF conflict(6)] activate_session_None [OF conflict(7)]
  have "ledger_of (fst s2) = ledger_of (fst s)"
    by (rule ledger_same) (use same in simp_all)
  then show ?thesis
    using settled_step [OF conflict(10)] identity_schema [OF conflict(6)] ok same find_verification_mem [OF conflict(1)] conflict(2)
    by simp
next
  case (activated row expected balance wallet i s1 v s2 n)
  note same = ensure_identity_same [OF activated(7)]
  have "ledger_of (fst s1) = ledger_of (fst s)"
    by (rule ledger_same) (use same in simp_all)
  then show ?thesis
    using activated_step [OF _ activated(2) _ activated(8,9)] identity_schema [OF activated(7)] ok same
      find_verification_mem [OF activated(1)]
    by simp
qed

lemma rejected_body_step:
  assumes "apply_rejected_body L st inc rej op factory w s = Inr (x, s')" "sessions_ok (fst s)"
  shows "ledger_step (ledger_of (fst s)) (ledger_of (fst s'))"
proof -
  from assms(1) obtain row where row: "find_verification (\<lambda>r. vr_operation_id r = op) (fst s) = Some row"
    by (auto simp: apply_rejected_body_def tx_bind_ok lock_verification_ok)
  show ?thesis
  proof (cases "vr_status row = V_PENDING")
    case False
    with assms(1) row have "reject_inbox sessions_ok (in_message_id inc) w (fst s, snd s + 1) = Inr (x, s')"
      by (simp add: apply_rejected_body_def tx_bind_ok lock_verification_ok)
    from rejected_inbox_ledger [OF this] show ?thesis by (simp add: stay)
  next
    case True
    with assms(1) row obtain c where
      "complete_rejected L st (in_message_id inc) row c factory w (fst s, snd s + 1) = Inr (x, s')"
      by (auto simp: apply_rejected_body_def tx_bind_ok lock_verification_ok tx_lift_ok)
    from settled_step [OF this] show ?thesis
      using assms(2) find_verification_mem [OF row] True by simp
  qed
qed

text \<open>A deduplicated body is a step when the body is.\<close>

lemma deduplicated_step:
  assumes "sessions_ok d"
    and "\<And>s x s'. body w s = Inr (x, s') \<Longrightarrow> sessions_ok (fst s) \<Longrightarrow> ledger_step (ledger_of (fst s)) (ledger_of (fst s'))"
  shows "ledger_step (ledger_of d) (ledger_of (snd (run_tx w (deduplicated L inc body) d)))"
proof (rule run_tx_invariant)
  fix x d' n
  assume "deduplicated L inc body w (d, 0) = Inr (x, (d', n))"
  then show "ledger_step (ledger_of d) (ledger_of d')"
  proof (cases rule: deduplicated_cases)
    case (new r s1)
    have "ledger_of (fst s1) = ledger_of d"
      by (rule ledger_same) (use new(4) in simp_all)
    with assms(2) [OF new(6,5)] show ?thesis by simp
  next
    case (repeated q)
    then have "ledger_of d' = ledger_of d"
      by (intro ledger_more) auto
    then show ?thesis by (simp add: stay)
  qed
qed (simp add: stay)

lemma accept_step:
  assumes "sessions_ok d"
  shows "ledger_step (ledger_of d) (ledger_of (snd (accept_verification L st inc command topup w d)))"
proof -
  have "ledger_step (ledger_of (fst s)) (ledger_of (fst s'))"
    if m: "tx_bind (st_insert_outbox L st 3 topup) (\<lambda>_. tx_exec sessions_ok m (\<lambda>w d.
           ((), d\<lparr>verifications := verifications d @ [accepted_row L st (db_now w) vid inc command topup b1 b2 b3]\<rparr>)))
         w s = Inr (x, s')" for m vid b1 b2 b3 s x s'
  proof -
    let ?row = "accepted_row L st (db_now w) vid inc command topup b1 b2 b3"
    from m obtain s1 where 1: "st_insert_outbox L st 3 topup w s = Inr ((), s1)" and ok: "sessions_ok (fst s')"
      and s': "fst s' = (fst s1)\<lparr>verifications := verifications (fst s1) @ [?row]\<rparr>"
      by (auto simp: tx_bind_ok tx_exec_ok)
    note rows = same_more_tables [OF st_insert_outbox_effect(3) [OF 1]]
    have "vr_operation_id ?row \<notin> vr_operation_id ` set (verifications (fst s))"
      using sessions_keys(1) [OF ok] by (simp add: s' rows)
    then show ?thesis
      by (intro ledger_accepted [of _ _ ?row]) (simp_all add: s' rows, simp add: accepted_row_def)
  qed
  then show ?thesis
    unfolding accept_verification_def by (auto split: sum.split intro!: stay deduplicated_step [OF assms])
qed

lemma replace_step: "ledger_of (snd (replace_topup_command L st item new w d)) = ledger_of d"
  unfolding replace_topup_command_def
proof (rule run_tx_invariant [where P = "\<lambda>d'. ledger_of d' = ledger_of d"])
  fix x d' n
  let ?f = "\<lambda>r. r\<lparr>vr_topup_command_message_id := om_message_id new, vr_updated_at := db_now w, vr_version := vr_version r + 1\<rparr>"
  assume "tx_bind (current_command item) (\<lambda>row.
        if vr_status row \<noteq> V_PENDING \<or> vr_topup_command_message_id row \<noteq> pr_topup_command_message_id item
        then tx_return ()
        else
        tx_bind (st_insert_outbox L st 3 new) (\<lambda>_.
        tx_exec sessions_ok ''replace top-up verification command'' (\<lambda>w d.
          ((), update_verifications (\<lambda>r. vr_id r = pr_verification_id item)
                 (\<lambda>r. r\<lparr>vr_topup_command_message_id := om_message_id new, vr_updated_at := db_now w,
                        vr_version := vr_version r + 1\<rparr>) d)))) w (d, 0) = Inr (x, d', n)"
  then consider "d' = d" | s1 where "st_insert_outbox L st 3 new w (d, 1) = Inr ((), s1)"
      "d' = update_verifications (\<lambda>r. vr_id r = pr_verification_id item) ?f (fst s1)"
    by (auto simp: tx_bind_ok current_command_ok tx_exec_ok tx_return_ok split: if_splits)
  then show "ledger_of d' = ledger_of d"
  proof cases
    case 2
    note rows = same_more_tables [OF st_insert_outbox_effect(3) [OF 2(1)]]
    have "map (\<lambda>r. (vr_operation_id r, vr_status r)) (verifications d') = map (\<lambda>r. (vr_operation_id r, vr_status r)) (verifications d)"
      by (simp add: 2(2) update_verifications_def rows)
    moreover have "sessions d' = sessions d"
      by (simp add: 2(2) update_verifications_def rows)
    ultimately show ?thesis by (simp add: ledger_of_def)
  qed simp
qed simp

lemma expire_step:
  assumes "sessions_ok d" "row \<in> set (verifications d)" "pr_verification_id item = vr_id row"
    and "pr_command_message_id item = vr_command_message_id row"
  shows "ledger_step (ledger_of d) (ledger_of (snd (expire_verification L st item factory w d)))"
  using expire_verification_cases [OF assms, of L st factory w]
proof
  assume "expired row (db_now w) d (snd (expire_verification L st item factory w d))"
  then show ?thesis
    unfolding expired_def by (auto intro!: ledger_closed [OF assms(1,2), of V_EXPIRED])
qed (simp add: stay)

lemma sessions_step_ledger:
  assumes "sessions_step L sv pb d d'" "sessions_ok d"
  shows "ledger_step (ledger_of d) (ledger_of d')"
  using assms
proof (induction rule: sessions_step.induct)
  case (activation_verify d subj data w)
  then show ?case
    by (auto simp: handle_activation_verify_def Let_def stay split: sum.split intro: accept_step)
next
  case (topup_verified d subj data w)
  then show ?case
    by (auto simp: handle_topup_verified_def apply_topup_verified_def stay split: sum.split option.split
        intro!: deduplicated_step elim: verified_body_step)
next
  case (topup_rejected d subj data w)
  then show ?case
    by (auto simp: handle_topup_rejected_def apply_topup_rejected_def stay split: sum.split option.split
        intro!: deduplicated_step elim: rejected_body_step)
next
  case (reconcile r0 item r d now w)
  have "pr_verification_id item = vr_id r" "pr_command_message_id item = vr_command_message_id r"
    using retry_of_fields [OF reconcile(1)] reconcile(3) by (cases r; simp add: vr_le_def)+
  from expire_step [OF reconcile(4,2) this] show ?case
    by (auto simp: reconcile_item_def Let_def replace_step stay split: sum.split)
next
  case (publish d nats js ws)
  have "msgdb.more (snd (publish_batch sessions_ok L pb nats js ws d)) = msgdb.more d"
    using publish_batch_sends_only [of sessions_ok d L pb nats js ws] unfolding sends_only_def by blast
  from ledger_more [OF this] show ?case by (simp add: stay)
qed

section \<open>Refinement\<close>

interpretation sessions_ledger: simulates "sessions_step L sv pb" ledger_step ledger_of "\<lambda>d. answered d \<and> sessions_ok d"
  for L sv pb
  by unfold_locales (erule (1) sessions_step_answered, simp add: sessions_step_ledger)

lemma empty_ledger: "ledger_of empty_sessions = \<lparr>phase = Map.empty, authority_version = Map.empty\<rparr>"
    "answered empty_sessions \<and> sessions_ok empty_sessions"
  using reachable_answered [OF rtranclp.rtrancl_refl] by (simp_all add: ledger_of_def empty_sessions_def)

end
