(* ===== verification/Sessions_Properties.thy ===== *)
theory Sessions_Properties
  imports Sample_Activation Sessions_Refinement
begin

text \<open>
  The properties of the sessions service, over the steps of \<^verbatim>\<open>Sessions_History\<close>: every command has one
  answer, the authority over a session, what never changes, what an activation requires, and what
  repeated, clashing and failed messages do.
\<close>

section \<open>Reachable states\<close>

text \<open>
  C3. One answer: in every state the service can reach, the command of a pending verification is still
  being processed, and the command of a settled one is completed with exactly one result message, which
  is in the outbox.
\<close>

theorem every_command_answered:
  assumes "(sessions_step L sv pb)\<^sup>*\<^sup>* empty_sessions d" "v \<in> set (verifications d)"
  shows "\<exists>r. find_inbox (vr_command_message_id v) d = Some r \<and>
    (if vr_status v = V_PENDING then ib_status r = PROCESSING
     else ib_status r = COMPLETED \<and> (\<exists>m. ib_result_message_id r = Some m \<and> m \<in> outbox_ids d))"
proof -
  have "answer_ok (inbox d) (outbox_ids d) v"
    using reachable_answered [OF assms(1)] assms(2) by (simp add: answered_def)
  then show ?thesis
    by (cases "find_inbox (vr_command_message_id v) d")
      (auto simp: answer_ok_def find_inbox_def split: option.splits if_splits)
qed

lemma every_command_answered_witness:
  "\<exists>v\<in>set (verifications sample_pending). \<exists>r. find_inbox (vr_command_message_id v) sample_pending = Some r \<and>
    (if vr_status v = V_PENDING then ib_status r = PROCESSING
     else ib_status r = COMPLETED \<and> (\<exists>m. ib_result_message_id r = Some m \<and> m \<in> outbox_ids sample_pending))"
proof (rule sample_pending_state)
  fix row
  assume "verifications sample_pending = [row]"
  then have "row \<in> set (verifications sample_pending)" by simp
  from this every_command_answered [OF sample_pending_reachable this] show ?thesis by (rule bexI [rotated])
qed

text \<open>
  C9. The authority over sessions: in every reachable state a session is active, its events are
  numbered 1, 2, ... up to its version, the first an activation and the others reactivations; every
  event belongs to a verified verification of the same session and transaction, and every verified
  verification has its event.
\<close>

theorem authority_is_numbered:
  assumes "(sessions_step L sv pb)\<^sup>*\<^sup>* empty_sessions d"
  shows "(\<forall>s\<in>set (sessions d). sn_status s = ACTIVE \<and> map ev_authority_version (session_events d (sn_id s)) = [1..sn_version s]) \<and>
    (\<forall>e\<in>set (events d). ev_type e = (if ev_authority_version e = 1 then ACTIVATED else REACTIVATED) \<and> backed d e) \<and>
    verified_operations d = ev_operation_id ` set (events d)"
proof (intro conjI)
  have a: "authority d" "sessions_ok d"
    using reachable_sound [OF assms] by (simp_all add: sessions_sound_def)
  then show "\<forall>s\<in>set (sessions d). sn_status s = ACTIVE \<and> map ev_authority_version (session_events d (sn_id s)) = [1..sn_version s]"
    by (simp add: authority_def numbered_def)
  show events: "\<forall>e\<in>set (events d). ev_type e = (if ev_authority_version e = 1 then ACTIVATED else REACTIVATED) \<and> backed d e"
  proof
    fix e
    assume e: "e \<in> set (events d)"
    then have "ev_session_id e \<in> sn_id ` set (sessions d)"
      using a(2) by (simp add: sessions_ok_def sessions_refs_ok_def list_all_iff)
    then obtain s where s: "s \<in> set (sessions d)" "ev_session_id e = sn_id s" by blast
    then have "e \<in> set (session_events d (sn_id s))" "numbered s (session_events d (sn_id s))"
      using e a(1) by (simp_all add: session_events_def authority_def)
    with a(1) e show "ev_type e = (if ev_authority_version e = 1 then ACTIVATED else REACTIVATED) \<and> backed d e"
      by (simp add: numbered_def list_all_iff authority_def)
  qed
  have "ev_operation_id e \<in> verified_operations d" if "e \<in> set (events d)" for e
  proof -
    have "backed d e" using events that by blast
    then obtain v where "v \<in> set (verifications d)" "vr_status v = V_VERIFIED" "vr_operation_id v = ev_operation_id e"
      unfolding backed_def by blast
    then show ?thesis unfolding verified_operations_def by force
  qed
  with a(1) show "verified_operations d = ev_operation_id ` set (events d)"
    unfolding authority_def by blast
qed

lemma authority_is_numbered_witness:
  "verified_operations sample_pending = ev_operation_id ` set (events sample_pending)"
  using authority_is_numbered [OF sample_pending_reachable] by blast

text \<open>
  C13. What never changes: after any further steps a settled verification, an event, an identity, a
  message the inbox has completed and an outbox message that is confirmed or dead are still there as
  they were, and the version of a session has not decreased.
\<close>

theorem history_is_final:
  assumes "(sessions_step L sv pb)\<^sup>*\<^sup>* d d'"
  shows "(\<forall>v\<in>set (verifications d). vr_status v \<noteq> V_PENDING \<longrightarrow> v \<in> set (verifications d')) \<and>
    set (events d) \<subseteq> set (events d') \<and> set (identities d) \<subseteq> set (identities d') \<and>
    (\<forall>r\<in>set (inbox d). ib_status r \<noteq> PROCESSING \<longrightarrow> r \<in> set (inbox d')) \<and>
    (\<forall>r\<in>set (outbox d). ob_status r \<in> {CONFIRMED, DEAD} \<longrightarrow> (\<exists>r'\<in>set (outbox d'). ob_message_id r' = ob_message_id r \<and>
       ob_status r' = ob_status r \<and> ob_envelope r' = ob_envelope r)) \<and>
    (\<forall>s\<in>set (sessions d). \<exists>s'\<in>set (sessions d'). sn_id s' = sn_id s \<and> sn_identity_id s' = sn_identity_id s \<and>
       sn_version s \<le> sn_version s')"
proof -
  have le: "rows_grow inbox_le (inbox d) (inbox d')" "rows_grow outbox_le (outbox d) (outbox d')"
      "rows_grow (=) (identities d) (identities d')" "rows_grow sn_le (sessions d) (sessions d')"
      "rows_grow vr_le (verifications d) (verifications d')" "rows_grow (=) (events d) (events d')"
    using sessions_steps_le [OF assms] by (simp_all add: sessions_le_def)
  have "v \<in> set (verifications d')" if "v \<in> set (verifications d)" "vr_status v \<noteq> V_PENDING" for v
    by (rule rows_grow_member [OF le(5) that(1)]) (use that(2) in \<open>auto simp: vr_le_def\<close>)
  moreover have "r \<in> set (inbox d')" if "r \<in> set (inbox d)" "ib_status r \<noteq> PROCESSING" for r
    by (rule rows_grow_member [OF le(1) that(1)]) (use that(2) in \<open>auto simp: inbox_le_def\<close>)
  moreover have "\<exists>r'\<in>set (outbox d'). ob_message_id r' = ob_message_id r \<and> ob_status r' = ob_status r \<and> ob_envelope r' = ob_envelope r"
    if "r \<in> set (outbox d)" "ob_status r \<in> {CONFIRMED, DEAD}" for r
    by (rule rows_grow_member [OF le(2) that(1)]) (use that(2) in \<open>auto simp: outbox_le_def\<close>)
  moreover have "\<exists>s'\<in>set (sessions d'). sn_id s' = sn_id s \<and> sn_identity_id s' = sn_identity_id s \<and> sn_version s \<le> sn_version s'"
    if s: "s \<in> set (sessions d)" for s
  proof -
    obtain s' where s': "s' \<in> set (sessions d')" "sn_le s s'"
      by (rule rows_grow_member [OF le(4) s])
    moreover from s'(2) have "sn_id s' = sn_id s" "sn_identity_id s' = sn_identity_id s" "sn_version s \<le> sn_version s'"
      by (cases s; cases s'; simp add: sn_le_def)+
    ultimately show ?thesis by blast
  qed
  moreover have "set (events d) \<subseteq> set (events d')" "set (identities d) \<subseteq> set (identities d')"
    using rows_grow_member [OF le(6)] rows_grow_member [OF le(3)] by blast+
  ultimately show ?thesis by blast
qed

lemma history_is_final_witness:
  "set (identities sample_pending) \<subseteq>
     set (identities (snd (publish_batch sessions_ok sample_lib sample_publisher (\<lambda>_. True) (\<lambda>_. 0) (\<lambda>_. sample_world) sample_pending)))"
proof -
  have "(sessions_step sample_lib sample_service sample_publisher)\<^sup>*\<^sup>* sample_pending
      (snd (publish_batch sessions_ok sample_lib sample_publisher (\<lambda>_. True) (\<lambda>_. 0) (\<lambda>_. sample_world) sample_pending))"
    by (rule r_into_rtranclp) (rule sessions_step.publish)
  from history_is_final [OF this] show ?thesis by blast
qed

section \<open>What an activation requires\<close>

lemma ensure_identity_True:
  assumes "ensure_identity L st row b c w s = Inr ((i, True), s')"
  shows "\<exists>r\<in>set (identities (fst s')). bi_id r = i \<and> bi_balance_fingerprint r = vr_balance_fingerprint row \<and>
    bi_sender_fingerprint r = vr_sender_fingerprint row \<and> bi_network r = vr_network row"
  using assms unfolding ensure_identity_def
  by (auto simp: tx_bind_ok tx_query_ok tx_return_ok tx_lift_ok tx_exec_ok find_Some_iff split: option.splits if_splits)

lemma activate_session_event:
  assumes "activate_session row i now w s = Inr (Some v, s')"
  shows "\<exists>e. events (fst s') = events (fst s) @ [e] \<and> ev_session_id e = vr_session_id row \<and>
    ev_transaction_id e = vr_transaction_id row \<and> identities (fst s') = identities (fst s)"
  using assms unfolding activate_session_def
  by (auto simp: tx_bind_ok tx_query_ok tx_return_ok insert_session_def update_session_def tx_exec_ok
      dest!: insert_event_effect split: if_splits option.splits)

text \<open>
  The conditions of one activation: the pending row, the facts that \<open>sameFacts\<close> compares (all but the asset), the time, and
  the wallet of the identity.
\<close>

definition justified ::
  "lib \<Rightarrow> service \<Rightarrow> world \<Rightarrow> topup_verified \<Rightarrow> verification_row \<Rightarrow> sessions_db \<Rightarrow> sessions_db \<Rightarrow> bool" where
  "justified L sv w p row d d' \<longleftrightarrow>
     row \<in> set (verifications d) \<and> vr_status row = V_PENDING \<and> uuid_parse L (td_operation_id p) = Some (vr_operation_id row) \<and>
     (\<exists>expected. expected_facts L (sv_store sv) row = Inr expected \<and> same_facts p expected) \<and>
     finalized_in_time p row (go_now w 2) \<and>
     (\<exists>r\<in>set (identities d'). bi_balance_fingerprint r = vr_balance_fingerprint row \<and>
        bi_sender_fingerprint r = vr_sender_fingerprint row \<and> bi_network r = vr_network row) \<and>
     (\<exists>e. events d' = events d @ [e] \<and> ev_session_id e = vr_session_id row \<and> ev_transaction_id e = vr_transaction_id row)"

lemma activation_justified:
  assumes "apply_topup_verified L (sv_store sv) inc p factory w d = (r, d')" "events d' \<noteq> events d"
  shows "\<exists>row. justified L sv w p row d d'"
proof -
  from assms obtain op n where op: "uuid_parse L (td_operation_id p) = Some op"
    and body: "deduplicated L inc (apply_verified_body L (sv_store sv) inc p op factory) w (d, 0) = Inr ((), (d', n))"
    using run_tx_cases [of w "deduplicated L inc (apply_verified_body L (sv_store sv) inc p (the (uuid_parse L (td_operation_id p))) factory)" d]
    by (auto simp: apply_topup_verified_def split: option.splits)
  from body show ?thesis
  proof (cases rule: deduplicated_cases)
    case (new q s1)
    then have d: "verifications (fst s1) = verifications d" "events (fst s1) = events d" by simp_all
    note quiet = keepsD [where s = s1 and s' = "(d', n)", simplified, unfolded quiet_def d]
    from new(6) show ?thesis
    proof (cases rule: apply_verified_body_cases)
      case (late row)
      then show ?thesis
        using keepsD [OF quiet_messages(3) late(3)] assms(2) d by (simp add: quiet_def)
    next
      case (violation row expected c n')
      then show ?thesis
        using keepsD [OF quiet_parts(4) violation(7)] assms(2) d by (simp add: quiet_def)
    next
      case (mismatch row expected balance wallet i s2 c n')
      then show ?thesis
        using keepsD [OF quiet_parts(4) mismatch(9)] ensure_identity_same [OF mismatch(6)] assms(2) d
        by (simp add: quiet_def)
    next
      case (conflict row expected balance wallet i s2 s3 c n')
      then show ?thesis
        using keepsD [OF quiet_parts(4) conflict(10)] ensure_identity_same [OF conflict(6)]
          activate_session_None [OF conflict(7)] assms(2) d
        by (simp add: quiet_def)
    next
      case (activated row expected balance wallet i s2 v s3 n')
      have row: "row \<in> set (verifications d)" "vr_operation_id row = op"
        using find_verification_mem [OF activated(1)] d by auto
      obtain e where e: "events (fst s3) = events (fst s2) @ [e]" "ev_session_id e = vr_session_id row"
          "ev_transaction_id e = vr_transaction_id row" "identities (fst s3) = identities (fst s2)"
        using activate_session_event [OF activated(8)] by auto
      note st = settle_verification_effect [OF activated(9)]
      have "identities d' = identities (fst s2)" "events d' = events d @ [e]"
        using st e ensure_identity_same [OF activated(7)] d by auto
      with activated row e ensure_identity_True [OF activated(7)] op show ?thesis
        by (intro exI [of _ row]) (auto simp: justified_def)
    qed
  next
    case (repeated q)
    then show ?thesis using assms(2) by (auto simp: update_outbox_def)
  qed
qed

text \<open>
  C1. No activation without a payment: whatever step adds an event to a session, it handled a message
  of the top-up service that verifies, whose payment agrees with a pending verification in the operation, the transaction, the
  reservation, both wallets, the amount and the network, in time, for a balance identity with the wallet and the
  network of the verification; the one event is that of its session and its transaction. The asset is not
  among what \<open>sameFacts\<close> compares: that a payment in another asset activates too is a finding (theory \<open>Sessions_Activation\<close>).
\<close>

theorem activation_requires_payment:
  assumes "sessions_step L sv pb d d'" "events d' \<noteq> events d"
  shows "\<exists>w subj data v p row. codec_verify L (sv_codec sv) w data subj TopupVerifiedType [''rw-topup''] = Inr v \<and>
    decode_topup_verified (vf_payload v) = Inr p \<and> justified L sv w p row d d'"
  using assms
proof (induction rule: sessions_step.induct)
  case (activation_verify d subj data w)
  then show ?case
    using quiet_accept by (auto simp: handle_activation_verify_def quiet_def Let_def split: sum.splits)
next
  case (topup_verified d subj data w)
  then obtain v p where v: "codec_verify L (sv_codec sv) w data subj TopupVerifiedType [''rw-topup''] = Inr v"
      "decode_topup_verified (vf_payload v) = Inr p"
    by (auto simp: handle_topup_verified_def split: sum.splits)
  then have h: "handle_topup_verified L sv subj data w d =
      apply_topup_verified L (sv_store sv) (incoming_of v subj) p (result_factory_of L sv (vf_id v)) w d"
    by (simp add: handle_topup_verified_def)
  obtain r d' where r: "apply_topup_verified L (sv_store sv) (incoming_of v subj) p (result_factory_of L sv (vf_id v)) w d = (r, d')"
    by fastforce
  then have "events d' \<noteq> events d"
    using topup_verified h by simp
  from activation_justified [OF r this] show ?case
    using v h r by (metis snd_conv)
next
  case (topup_rejected d subj data w)
  then show ?case
    using quiet_rejected by (auto simp: handle_topup_rejected_def quiet_def split: sum.splits if_splits)
next
  case (reconcile r0 item r d now w)
  then show ?case
    using quiet_reconcile by (auto simp: quiet_def)
next
  case (publish d nats js ws)
  show ?case
  proof -
    have "sends_only sessions_ok d (snd (publish_batch sessions_ok L pb nats js ws d))"
      by (rule publish_batch_sends_only)
    then have "msgdb.more (snd (publish_batch sessions_ok L pb nats js ws d)) = msgdb.more d"
      unfolding sends_only_def by blast
    with publish same_more_tables(4) [OF this] show ?thesis by simp
  qed
qed

lemma activation_requires_payment_witness:
  "\<exists>w subj data v p row. codec_verify sample_lib (sv_codec sample_service) w data subj TopupVerifiedType [''rw-topup''] = Inr v \<and>
    decode_topup_verified (vf_payload v) = Inr p \<and> justified sample_lib sample_service w p row sample_pending sample_active"
proof (rule activation_requires_payment)
  show "sessions_step sample_lib sample_service sample_publisher sample_pending sample_active"
    unfolding sample_active_def by (rule sessions_step.topup_verified)
  show "events sample_active \<noteq> events sample_pending"
    using sample_active_state(2) sample_row_facts by simp
qed

text \<open>
  C7. One session per user and per payment: in every reachable state two sessions of the same bot and
  Telegram user are the same, and so are two sessions whose current activation is the same
  transaction; every session belongs to an identity, and the sessions of a balance to the same one.
\<close>

theorem one_session_per_user:
  assumes "(sessions_step L sv pb)\<^sup>*\<^sup>* empty_sessions d" "s \<in> set (sessions d)" "t \<in> set (sessions d)"
  shows "(sn_bot_id s = sn_bot_id t \<and> sn_telegram_user_id s = sn_telegram_user_id t \<longrightarrow> s = t) \<and>
    (sn_activation_network s = sn_activation_network t \<and> sn_activation_transaction_id s = sn_activation_transaction_id t \<longrightarrow> s = t) \<and>
    (\<exists>i\<in>set (identities d). bi_id i = sn_identity_id s \<and>
       (\<forall>j\<in>set (identities d). bi_balance_fingerprint j = bi_balance_fingerprint i \<longrightarrow> j = i))"
proof -
  have a: "authority d" "sessions_ok d"
    using reachable_sound [OF assms(1)] by (simp_all add: sessions_sound_def)
  have "sn_status r = ACTIVE" if "r \<in> set (sessions d)" for r
    using a(1) that by (simp add: authority_def numbered_def)
  then have act: "active_rows (sessions d) = sessions d"
    by (simp add: active_rows_def)
  have k: "distinct (map (\<lambda>r. (sn_bot_id r, sn_telegram_user_id r)) (sessions d))"
      "distinct (map (\<lambda>r. (sn_activation_network r, sn_activation_transaction_id r)) (sessions d))"
      "distinct (map bi_balance_fingerprint (identities d))" "sn_identity_id s \<in> bi_id ` set (identities d)"
    using a(2) act assms(2) by (simp_all add: sessions_ok_def sessions_keys_ok_def sessions_refs_ok_def list_all_iff)
  have "\<exists>i\<in>set (identities d). bi_id i = sn_identity_id s \<and>
      (\<forall>j\<in>set (identities d). bi_balance_fingerprint j = bi_balance_fingerprint i \<longrightarrow> j = i)"
    using k(3,4) by (auto simp: distinct_map inj_on_def)
  moreover have "sn_bot_id s = sn_bot_id t \<and> sn_telegram_user_id s = sn_telegram_user_id t \<longrightarrow> s = t"
      "sn_activation_network s = sn_activation_network t \<and> sn_activation_transaction_id s = sn_activation_transaction_id t \<longrightarrow> s = t"
    using k(1,2) assms(2,3) by (auto simp: distinct_map inj_on_def)
  ultimately show ?thesis by blast
qed

lemma one_session_per_user_witness:
  "\<exists>s\<in>set (sessions sample_active). \<exists>i\<in>set (identities sample_active). bi_id i = sn_identity_id s"
proof -
  obtain s where s: "s \<in> set (sessions sample_active)"
    using sample_active_state(3) by blast
  from one_session_per_user [OF sample_active_reachable s s] s show ?thesis by blast
qed

section \<open>Repeated and failed messages\<close>

text \<open>A message of a known identifier: nothing but its result is sent again.\<close>

definition resent_only :: "inbox_row \<Rightarrow> instant \<Rightarrow> sessions_db \<Rightarrow> sessions_db \<Rightarrow> bool" where
  "resent_only q now d d' \<longleftrightarrow>
     d' = d \<or>
     ib_status q = COMPLETED \<and> (\<exists>m. ib_result_message_id q = Some m \<and>
       d' = update_outbox (\<lambda>r. ob_message_id r = m \<and> ob_status r \<notin> {CONFIRMED, DEAD})
              (\<lambda>r. r\<lparr>ob_status := PENDING, ob_next_attempt_at := now, ob_lease_until := None\<rparr>) d)"

lemma deduplicated_known:
  assumes "find_inbox (in_message_id inc) d = Some q"
  shows "resent_only q (db_now w) d (snd (run_tx w (deduplicated L inc body) d))"
    and "ib_payload_digest q \<noteq> sha256 L (in_payload inc) \<Longrightarrow> snd (run_tx w (deduplicated L inc body) d) = d \<and>
      (healthy w \<longrightarrow> sessions_ok d \<longrightarrow> fst (run_tx w (deduplicated L inc body) d) = Inl ErrMessageIDCollision)"
proof -
  show "resent_only q (db_now w) d (snd (run_tx w (deduplicated L inc body) d))"
  proof (rule run_tx_invariant)
    fix x d' n
    assume "deduplicated L inc body w (d, 0) = Inr (x, (d', n))"
    then show "resent_only q (db_now w) d d'"
      by (cases rule: deduplicated_cases) (use assms in \<open>auto simp: resent_only_def find_inbox_None [symmetric]\<close>)
  qed (simp add: resent_only_def)
  assume c: "ib_payload_digest q \<noteq> sha256 L (in_payload inc)"
  then have f: "\<exists>e. deduplicated L inc body w (d, 0) = Inl e"
    using assms by (cases "deduplicated L inc body w (d, 0)") (auto simp: deduplicated_def tx_bind_ok register_inbox_ok)
  have "healthy w \<longrightarrow> sessions_ok d \<longrightarrow> deduplicated L inc body w (d, 0) = Inl ErrMessageIDCollision"
    using c assms by (simp add: deduplicated_def register_inbox_def tx_bind_def tx_exec_def tx_query_def tx_fail_def healthy_def)
  with f show "snd (run_tx w (deduplicated L inc body) d) = d \<and>
      (healthy w \<longrightarrow> sessions_ok d \<longrightarrow> fst (run_tx w (deduplicated L inc body) d) = Inl ErrMessageIDCollision)"
    by (auto simp: run_tx_def healthy_def)
qed

text \<open>The three handlers with the type and the producer of their messages.\<close>

definition sessions_handlers ::
  "((lib \<Rightarrow> service \<Rightarrow> string \<Rightarrow> bytes \<Rightarrow> world \<Rightarrow> sessions_db \<Rightarrow> (error + unit) \<times> sessions_db) \<times> string \<times> string) set" where
  "sessions_handlers =
     {(handle_activation_verify, ActivationVerifyType, ''rw-bot''), (handle_topup_verified, TopupVerifiedType, ''rw-topup''),
      (handle_topup_rejected, TopupRejectedType, ''rw-topup'')}"

text \<open>Each handler either refuses the message before the database or runs one deduplicated transaction.\<close>

definition runs :: "lib \<Rightarrow> incoming \<Rightarrow> world \<Rightarrow> sessions_db \<Rightarrow> (error + unit) \<times> sessions_db \<Rightarrow> bool" where
  "runs L inc w d r \<longleftrightarrow> (\<exists>e. r = (Inl e, d)) \<or> (\<exists>body. r = run_tx w (deduplicated L inc body) d)"

lemma runs_error: "runs L inc w d (Inl e, d)"
  by (auto simp: runs_def)

lemma store_runs:
  "runs L inc w d (accept_verification L st inc command topup w d)" "runs L inc w d (apply_topup_verified L st inc p factory w d)"
  "runs L inc w d (apply_topup_rejected L st inc q factory w d)"
  by (auto simp: runs_def accept_verification_def apply_topup_verified_def apply_topup_rejected_def split: sum.split option.split)

lemma handler_transaction:
  assumes "(h, mtype, sender) \<in> sessions_handlers" "codec_verify L (sv_codec sv) w data subj mtype [sender] = Inr v"
  shows "runs L (incoming_of v subj) w d (h L sv subj data w d)"
  using assms unfolding sessions_handlers_def
  by (auto simp: handle_activation_verify_def handle_topup_verified_def handle_topup_rejected_def Let_def store_runs runs_error
      split: sum.split)

text \<open>
  C24. Redelivery: when a message arrives whose identifier the inbox already has, no handler changes
  anything but that a result recorded for it, if it is neither confirmed nor dead, is made due again; if
  its payload differs from that of the first delivery, nothing changes at all.
\<close>

theorem redelivery_resends_only:
  assumes "(h, mtype, sender) \<in> sessions_handlers" "codec_verify L (sv_codec sv) w data subj mtype [sender] = Inr v"
    and "find_inbox (vf_id v) d = Some q"
  shows "resent_only q (db_now w) d (snd (h L sv subj data w d)) \<and>
    (ib_payload_digest q = sha256 L (vf_payload v) \<or> snd (h L sv subj data w d) = d)"
proof -
  have inc: "in_message_id (incoming_of v subj) = vf_id v" "in_payload (incoming_of v subj) = vf_payload v"
    by (simp_all add: incoming_of_def)
  from handler_transaction [OF assms(1,2), of d, unfolded runs_def] show ?thesis
  proof (elim disjE exE)
    fix e
    assume "h L sv subj data w d = (Inl e, d)"
    then show ?thesis by (simp add: resent_only_def)
  next
    fix body
    assume h: "h L sv subj data w d = run_tx w (deduplicated L (incoming_of v subj) body) d"
    have known: "find_inbox (in_message_id (incoming_of v subj)) d = Some q"
      using assms(3) inc by simp
    show ?thesis
      unfolding h using deduplicated_known(1) [OF known] deduplicated_known(2) [OF known] inc(2) by metis
  qed
qed

lemma redelivery_resends_only_witness:
  "\<exists>q. find_inbox (sample_uuid 0) sample_pending = Some q \<and>
     resent_only q (db_now sample_world) sample_pending
       (snd (handle_activation_verify sample_lib sample_service ActivationVerifySubject sample_data sample_world sample_pending))"
proof (rule sample_verified)
  fix v
  assume v: "codec_verify sample_lib (sv_codec sample_service) sample_world sample_data ActivationVerifySubject
      ActivationVerifyType [''rw-bot''] = Inr v" "vf_id v = sample_uuid 0"
  obtain q where q: "find_inbox (vf_id v) sample_pending = Some q"
    using sample_row_facts(10) find_inbox_None [of "vf_id v" sample_pending] v(2) by auto
  have h: "(handle_activation_verify, ActivationVerifyType, ''rw-bot'') \<in> sessions_handlers"
    by (simp add: sessions_handlers_def)
  from redelivery_resends_only [OF h v(1) q] q v(2) show ?thesis by auto
qed

section \<open>The contract of the service\<close>

text \<open>
  C4. Refinement: the service implements the small machine \<open>ledger_step\<close>, in which an operation becomes
  pending once, a pending operation is settled once and for good, and only the activation of a pending
  operation gives its session the next version. Every reachable database abstracts to a state that this
  machine reaches, and every further step of the service is a step of the machine.
\<close>

theorem sessions_refine_ledger:
  assumes "(sessions_step L sv pb)\<^sup>*\<^sup>* empty_sessions d" "sessions_step L sv pb d d'"
  shows "ledger_step\<^sup>*\<^sup>* \<lparr>phase = Map.empty, authority_version = Map.empty\<rparr> (ledger_of d) \<and>
    ledger_step (ledger_of d) (ledger_of d')"
  using sessions_ledger.steps_spec [OF assms(1)] sessions_ledger.steps_inv [OF assms(1)] empty_ledger
    sessions_ledger.step_spec [OF _ assms(2)] by simp

lemma sessions_refine_ledger_witness:
  "ledger_step (ledger_of sample_pending) (ledger_of sample_active)"
proof -
  have "sessions_step sample_lib sample_service sample_publisher sample_pending sample_active"
    unfolding sample_active_def by (rule sessions_step.topup_verified)
  from sessions_refine_ledger [OF sample_pending_reachable this] show ?thesis by blast
qed

end
