(* ===== verification/Outbox_Properties.thy ===== *)
theory Outbox_Properties
  imports Sample_Activation
begin

text \<open>
  The properties of the outbox: when a message is tried again, what the publisher sends and how much
  of it at a time, and that an encrypted row opens to what was sealed in it and nowhere else.
\<close>

section \<open>Retry\<close>

lemma base_delay_bounds:
  assumes "0 \<le> mg_retry_initial cfg" "mg_retry_initial cfg \<le> mg_retry_max cfg"
  shows "mg_retry_initial cfg \<le> base_delay cfg a" "base_delay cfg a \<le> mg_retry_max cfg"
proof -
  have "1 * mg_retry_initial cfg \<le> 2 ^ nat (max (a - 1) 0) * mg_retry_initial cfg"
    using assms(1) by (intro mult_right_mono) simp_all
  then show "mg_retry_initial cfg \<le> base_delay cfg a" "base_delay cfg a \<le> mg_retry_max cfg"
    using assms by (auto simp: base_delay_def Let_def mult.commute)
qed

lemma base_delay_mono:
  assumes "0 \<le> mg_retry_initial cfg" "mg_retry_initial cfg \<le> mg_retry_max cfg" "a \<le> b"
  shows "base_delay cfg a \<le> base_delay cfg b"
proof -
  have "(2::int) ^ nat (max (a - 1) 0) \<le> 2 ^ nat (max (b - 1) 0)"
    using assms(3) by (intro power_increasing) auto
  then have "mg_retry_initial cfg * 2 ^ nat (max (a - 1) 0) \<le> mg_retry_initial cfg * 2 ^ nat (max (b - 1) 0)"
    using assms(1) by (intro mult_left_mono) simp_all
  moreover have "0 \<le> mg_retry_initial cfg * 2 ^ nat (max (a - 1) 0)"
    using assms(1) by simp
  ultimately show ?thesis
    unfolding base_delay_def Let_def by auto
qed

text \<open>
  C34. The backoff of the outbox: with a configuration that \<open>Load\<close> accepts, the delay before the next
  attempt is between four fifths of the initial delay and six fifths of the maximal one, it stays within
  a fifth of the exponential schedule, and that schedule never decreases with the attempts.
\<close>

theorem retry_delay_bounds:
  assumes "0 \<le> mg_retry_initial cfg" "mg_retry_initial cfg \<le> mg_retry_max cfg" "j < 2 ^ 53"
  shows "4 * mg_retry_initial cfg div 5 \<le> retry_delay cfg a j \<and> 5 * retry_delay cfg a j \<le> 6 * mg_retry_max cfg \<and>
    4 * base_delay cfg a div 5 \<le> retry_delay cfg a j \<and> 5 * retry_delay cfg a j \<le> 6 * base_delay cfg a \<and>
    base_delay cfg a \<le> base_delay cfg (a + 1)"
proof -
  let ?b = "base_delay cfg a" and ?r = "retry_delay cfg a j"
  note b = base_delay_bounds [OF assms(1,2), of a]
  have "0 \<le> ?b" using b assms(1) by linarith
  then have lo: "?b * (4 * 2 ^ 53) \<le> ?b * (4 * 2 ^ 53 + 2 * int j)"
    by (intro mult_left_mono) simp_all
  have "4 * 2 ^ 53 + 2 * int j \<le> 6 * 2 ^ 53"
    using assms(3) by (simp add: less_le_trans)
  with \<open>0 \<le> ?b\<close> have hi: "?b * (4 * 2 ^ 53 + 2 * int j) \<le> ?b * (6 * 2 ^ 53)"
    by (intro mult_left_mono) simp_all
  have "?b * (4 * 2 ^ 53) div (5 * 2 ^ 53) \<le> ?r"
    unfolding retry_delay_def using lo by (intro zdiv_mono1) simp_all
  then have 1: "4 * ?b div 5 \<le> ?r"
    by (simp add: mult.commute)
  have "5 * 2 ^ 53 * ?r \<le> ?b * (4 * 2 ^ 53 + 2 * int j)"
    unfolding retry_delay_def by (metis mult_div_mod_eq le_add_same_cancel1 pos_mod_sign zero_less_power zero_less_mult_iff zero_less_numeral)
  with hi have "2 ^ 53 * (5 * ?r) \<le> 2 ^ 53 * (6 * ?b)"
    by simp
  then have 2: "5 * ?r \<le> 6 * ?b"
    by simp
  have 3: "base_delay cfg a \<le> base_delay cfg (a + 1)"
    by (rule base_delay_mono [OF assms(1,2)]) simp
  have "4 * mg_retry_initial cfg div 5 \<le> 4 * ?b div 5"
    using b(1) by (intro zdiv_mono1) simp_all
  with 1 2 3 b(2) show ?thesis by auto
qed

lemma retry_delay_bounds_witness:
  "4 * second div 5 \<le> retry_delay (pb_config sample_publisher) 7 5 \<and> 5 * retry_delay (pb_config sample_publisher) 7 5 \<le> 6 * minute"
  using retry_delay_bounds [of "pb_config sample_publisher" 5 7] by (simp add: sample_publisher_def duration_defs)

section \<open>What is sent\<close>

lemma sealed_before_expiry:
  assumes "r \<in> set (outbox (snd (run_tx w (expire_outbox ok) d)))" "sealed_row L pb now m r"
  shows "r \<in> set (outbox d)"
proof -
  consider "snd (run_tx w (expire_outbox ok) d) = d"
    | "outbox (snd (run_tx w (expire_outbox ok) d)) = map (\<lambda>r. if open_status r \<and> ob_expires_at r \<le> db_now w
        then r\<lparr>ob_status := DEAD, ob_lease_until := None, ob_last_error_code := Some ''EXPIRED''\<rparr> else r) (outbox d)"
    using run_tx_cases [of w "expire_outbox ok" d] by (auto simp: expire_outbox_def tx_exec_ok update_outbox_def)
  then show ?thesis
  proof cases
    case 2
    with assms show ?thesis by (auto simp: sealed_row_def open_status_def split: if_splits)
  qed (use assms(1) in simp)
qed

text \<open>
  C16. What the publisher sends: a batch of the sessions service sends at most the configured number of
  messages, and each of them is the decrypted envelope of an outbox row of its subject that is neither
  confirmed nor dead and has not expired when the rows are claimed.
\<close>

theorem published_from_outbox:
  fixes d :: sessions_db
  assumes "sessions_ok d" "m \<in> set (snd (fst (publish_batch sessions_ok L pb nats js ws d)))"
  shows "(\<exists>r\<in>set (outbox d). sealed_row L pb (db_now (ws 1)) m r) \<and>
    length (snd (fst (publish_batch sessions_ok L pb nats js ws d))) \<le> nat (mg_outbox_batch (pb_config pb))"
proof -
  from sessions_messages.publish_batch_sent [OF assms] sealed_before_expiry
  have sealed: "\<exists>r\<in>set (outbox d). sealed_row L pb (db_now (ws 1)) m r"
    by blast
  have items: "length (fst (publish_items sessions_ok L pb nats js ws n items d)) \<le> length items" for n items and d :: sessions_db
    by (induction items arbitrary: n d) (auto simp: split_beta Let_def split: option.split intro: le_SucI)
  have bound: "length items \<le> nat (mg_outbox_batch (pb_config pb))"
    if "fst (run_tx (ws 1) (claim sessions_ok (mg_outbox_batch (pb_config pb))) d1) = Inr items" for d1 :: sessions_db and items
    using that sessions_messages.claim_bounded [of "ws 1" "mg_outbox_batch (pb_config pb)" d1 items] by (metis prod.collapse)
  have "length (snd (fst (publish_batch sessions_ok L pb nats js ws d))) \<le> nat (mg_outbox_batch (pb_config pb))"
    by (auto simp: publish_batch_def split_beta simp del: One_nat_def split: sum.split prod.split intro: order_trans [OF items bound])
  with sealed show ?thesis by blast
qed

lemma sessions_ok_outbox_rows:
  assumes "sessions_ok d" "list_all outbox_row_ok rows" "map ob_message_id rows = map ob_message_id (outbox d)"
  shows "sessions_ok (d\<lparr>outbox := rows\<rparr>)"
proof -
  have "ob_message_id ` set rows = ob_message_id ` set (outbox d)"
    using arg_cong [OF assms(3), of set] by simp
  then show ?thesis
    using assms by (simp add: sessions_ok_def msgdb_ok_def sessions_keys_ok_def sessions_refs_ok_def)
qed

lemma outbox_rows_updated:
  assumes "sessions_ok d" "\<And>r. ob_message_id (f r) = ob_message_id r" "\<And>r. r \<in> set (outbox d) \<Longrightarrow> P r \<Longrightarrow> outbox_row_ok (f r)"
  shows "sessions_ok (update_outbox P f d)"
  unfolding update_outbox_def
proof (rule sessions_ok_outbox_rows [OF assms(1)])
  show "list_all outbox_row_ok (map (\<lambda>r. if P r then f r else r) (outbox d))"
    using assms(1,3) by (auto simp: sessions_ok_def msgdb_ok_def list_all_iff)
qed (use assms(2) in simp)

lemma row_in_outbox_ok: "sessions_ok d \<Longrightarrow> r \<in> set (outbox d) \<Longrightarrow> outbox_row_ok r"
  by (simp add: sessions_ok_def msgdb_ok_def list_all_iff)

lemma expire_succeeds:
  fixes d :: sessions_db
  assumes "healthy w" "sessions_ok d"
  obtains d1 where "run_tx w (expire_outbox sessions_ok) d = (Inr (), d1)" "sessions_ok d1"
    and "\<And>r. r \<in> set (outbox d) \<Longrightarrow> \<not> (open_status r \<and> ob_expires_at r \<le> db_now w) \<Longrightarrow> r \<in> set (outbox d1)"
    and "length (filter (due now) (outbox d1)) \<le> length (filter (due now) (outbox d))"
proof -
  let ?P = "\<lambda>r. open_status r \<and> ob_expires_at r \<le> db_now w"
  let ?f = "\<lambda>r. r\<lparr>ob_status := DEAD, ob_lease_until := None, ob_last_error_code := Some ''EXPIRED''\<rparr>"
  let ?d1 = "update_outbox ?P ?f d"
  have ok: "sessions_ok ?d1"
    by (rule outbox_rows_updated [OF assms(2)])
      (use row_in_outbox_ok [OF assms(2)] in \<open>auto simp: outbox_row_ok_def open_status_def\<close>)
  have "run_tx w (expire_outbox sessions_ok) d = (Inr (), ?d1)"
    using assms(1) ok by (simp add: run_tx_Inr healthy_def expire_outbox_def tx_exec_ok)
  moreover have "r \<in> set (outbox ?d1)" if "r \<in> set (outbox d)" "\<not> ?P r" for r
    using that by (force simp: update_outbox_def)
  moreover have "length (filter (due now) (map (\<lambda>r. if ?P r then ?f r else r) rs)) \<le> length (filter (due now) rs)" for rs
    by (induction rs) (auto simp: due_def)
  then have "length (filter (due now) (outbox ?d1)) \<le> length (filter (due now) (outbox d))"
    by (simp add: update_outbox_def)
  ultimately show thesis
    using that ok by blast
qed

lemma claim_succeeds:
  fixes d :: sessions_db
  assumes "healthy w" "sessions_ok d" "r \<in> set (outbox d)" "due (db_now w) r" "length (filter (due (db_now w)) (outbox d)) \<le> nat batch"
  obtains items d1 where "run_tx w (claim sessions_ok batch) d = (Inr items, d1)" "claimed_of r \<in> set items"
proof -
  let ?ids = "due_ids batch (db_now w) d"
  let ?P = "\<lambda>r. ob_message_id r \<in> set ?ids"
  let ?f = "\<lambda>r. r\<lparr>ob_status := PUBLISHING, ob_lease_until := Some (db_now w + 30 * second)\<rparr>"
  have key: "distinct (map ob_message_id (outbox d))"
    by (rule sessions_messages.outbox_key [OF assms(2)])
  have "outbox_row_ok (?f q)" if "q \<in> set (outbox d)" "?P q" for q
    using claim_rows_due [OF key that] row_in_outbox_ok [OF assms(2) that(1)]
    by (auto simp: outbox_row_ok_def due_def split: option.splits)
  then have ok: "sessions_ok (update_outbox ?P ?f d)"
    by (intro outbox_rows_updated [OF assms(2)]) simp_all
  have "ob_message_id r \<in> set ?ids"
    using assms(3-5) by (simp add: due_ids_def)
  with assms(3) have "claimed_of r \<in> set (map claimed_of (filter ?P (outbox d)))"
    by simp
  moreover have "run_tx w (claim sessions_ok batch) d = (Inr (map claimed_of (filter ?P (outbox d))), update_outbox ?P ?f d)"
    using assms(1) ok by (simp add: run_tx_Inr healthy_def claim_def tx_exec_ok Let_def)
  ultimately show thesis
    using that by blast
qed

lemma publish_items_opened:
  assumes "item \<in> set items"
    and "open_outbox L (pb_keyring pb) (pb_service pb) \<lparr>om_message_id = cm_id item, om_subject = cm_subject item,
      om_envelope = cm_envelope item, om_kind = [], om_expires_at = zero_time\<rparr> = Inr opened"
  shows "(cm_subject item, om_envelope opened) \<in> set (fst (publish_items ok L pb nats js ws n items d))"
  using assms(1)
proof (induction items arbitrary: n d)
  case (Cons i items)
  show ?case
  proof (cases "item = i")
    case True
    then show ?thesis
      using assms(2) by (simp add: split_beta Let_def publish_one_def)
  next
    case False
    with Cons show ?thesis
      by (auto simp: split_beta Let_def split: option.split)
  qed
qed simp

text \<open>
  C27. Due messages are sent: when the database answers, the keyring opens the row and no more rows are
  due than one batch takes, the batch hands every due message to NATS, whether or not NATS then takes
  it.
\<close>

theorem due_message_sent:
  fixes d :: sessions_db
  assumes "sessions_ok d" "healthy (ws 0)" "healthy (ws 1)" "db_now (ws 0) \<le> db_now (ws 1)"
    and "r \<in> set (outbox d)" "due (db_now (ws 1)) r"
    and "length (filter (due (db_now (ws 1))) (outbox d)) \<le> nat (mg_outbox_batch (pb_config pb))"
    and "open_outbox L (pb_keyring pb) (pb_service pb) \<lparr>om_message_id = ob_message_id r, om_subject = ob_subject r,
      om_envelope = ob_envelope r, om_kind = '''', om_expires_at = zero_time\<rparr> = Inr opened"
  shows "\<exists>d' sent. publish_batch sessions_ok L pb nats js ws d = ((Inr (), sent), d') \<and> (ob_subject r, om_envelope opened) \<in> set sent"
proof -
  obtain d1 where d1: "run_tx (ws 0) (expire_outbox sessions_ok) d = (Inr (), d1)" "sessions_ok d1" "r \<in> set (outbox d1)"
      "length (filter (due (db_now (ws 1))) (outbox d1)) \<le> length (filter (due (db_now (ws 1))) (outbox d))"
    by (rule expire_succeeds [OF assms(2,1), of "db_now (ws 1)"]) (use assms(4-6) in \<open>auto simp: due_def\<close>)
  have room: "length (filter (due (db_now (ws 1))) (outbox d1)) \<le> nat (mg_outbox_batch (pb_config pb))"
    using d1(4) assms(7) by linarith
  obtain items d2 where c: "run_tx (ws 1) (claim sessions_ok (mg_outbox_batch (pb_config pb))) d1 = (Inr items, d2)"
      "claimed_of r \<in> set items"
    by (rule claim_succeeds [OF assms(3) d1(2,3) assms(6) room])
  obtain sent d3 where p: "publish_items sessions_ok L pb nats js ws 2 items d2 = (sent, d3)"
    by fastforce
  have "(ob_subject r, om_envelope opened) \<in> set sent"
    using publish_items_opened [OF c(2), of L pb opened sessions_ok nats js ws 2 d2] assms(8) p by (simp add: claimed_of_def)
  then show ?thesis
    using d1(1) c p by (auto simp: publish_batch_def)
qed

section \<open>A sample outbox\<close>

definition sample_item :: outbox_message where
  "sample_item = \<lparr>om_message_id = sample_uuid 1, om_subject = TopupVerifySubject, om_envelope = ''{}'', om_kind = ''COMMAND'',
     om_expires_at = 1700000600000000000\<rparr>"

definition sample_outbox :: sessions_db where
  "sample_outbox = empty_sessions\<lparr>outbox :=
     (case seal_outbox sample_lib sample_keyring sample_world 0 service_name sample_item of
        Inl _ \<Rightarrow> [] | Inr sealed \<Rightarrow> [new_outbox_row sealed (db_now sample_world)])\<rparr>"

lemma sample_outbox_row:
  obtains r where "outbox sample_outbox = [r]" "ob_subject r = TopupVerifySubject" "due (db_now sample_world) r" "sessions_ok sample_outbox"
    and "\<exists>opened. open_outbox sample_lib (pb_keyring sample_publisher) (pb_service sample_publisher) \<lparr>om_message_id = ob_message_id r,
      om_subject = ob_subject r, om_envelope = ob_envelope r, om_kind = '''', om_expires_at = zero_time\<rparr> = Inr opened \<and>
      om_envelope opened = ''{}''"
proof -
  have k: "keyring_ok sample_keyring" "utf8_valid (kr_active sample_keyring)" "length (kr_active sample_keyring) \<le> 256"
    using sample_ready(3) by (simp_all add: store_ready_def sample_service_def sample_keyring_def utf8_valid_visible visible_def byte_def)
  let ?a = "outbox_aad sample_lib service_name (om_message_id sample_item) (om_subject sample_item)"
  obtain c where c: "encrypt sample_lib sample_keyring sample_world 0 (om_envelope sample_item) ?a = Inr c"
    using encrypt_total [OF k(1)] by blast
  define e where "e = marshal True ciphertext_spec (ciphertext_vals c)"
  have s: "seal_outbox sample_lib sample_keyring sample_world 0 service_name sample_item = Inr (sample_item\<lparr>om_envelope := e\<rparr>)"
    by (simp add: seal_outbox_def c e_def)
  note o = open_sealed(5) [OF sample_aead_laws k(1,2) s]
  let ?r = "new_outbox_row (sample_item\<lparr>om_envelope := e\<rparr>) (db_now sample_world)"
  have "1 \<le> length e" "length e \<le> 400000"
    using length_sealed [OF sample_ready(1) k(1,3) c] by (simp_all add: e_def sample_item_def Suc_le_eq)
  then have "outbox_row_ok ?r"
    using topup_names(3) by (simp add: outbox_row_ok_def new_outbox_row_def sample_item_def sample_world_def pg_time_def)
  then have ok: "sessions_ok sample_outbox"
    using sessions_ok_outbox [OF empty_sessions_ok(1), of ?r] empty_sessions_ok(3)
    by (simp add: sample_outbox_def s empty_sessions_def)
  have "\<exists>opened. open_outbox sample_lib sample_keyring service_name \<lparr>om_message_id = ob_message_id ?r,
      om_subject = ob_subject ?r, om_envelope = ob_envelope ?r, om_kind = '''', om_expires_at = zero_time\<rparr> = Inr opened \<and>
      om_envelope opened = ''{}''"
    using o by (auto simp: open_outbox_def new_outbox_row_def sample_item_def split: option.splits sum.splits)
  moreover have "due (db_now sample_world) ?r"
    by (simp add: due_def new_outbox_row_def sample_item_def sample_world_def pg_time_def)
  moreover have "ob_subject ?r = TopupVerifySubject"
    by (simp add: new_outbox_row_def sample_item_def)
  ultimately show thesis
    using that [of ?r] ok s by (simp add: sample_outbox_def sample_publisher_def)
qed

lemma due_message_sent_witness:
  "\<exists>d' sent. publish_batch sessions_ok sample_lib sample_publisher (\<lambda>_. True) (\<lambda>_. 0) (\<lambda>_. sample_world) sample_outbox = ((Inr (), sent), d') \<and>
     (TopupVerifySubject, ''{}'') \<in> set sent"
proof (rule sample_outbox_row)
  fix r
  assume r: "outbox sample_outbox = [r]" "ob_subject r = TopupVerifySubject" "due (db_now sample_world) r" "sessions_ok sample_outbox"
  assume "\<exists>opened. open_outbox sample_lib (pb_keyring sample_publisher) (pb_service sample_publisher) \<lparr>om_message_id = ob_message_id r,
      om_subject = ob_subject r, om_envelope = ob_envelope r, om_kind = '''', om_expires_at = zero_time\<rparr> = Inr opened \<and>
      om_envelope opened = ''{}''"
  then obtain opened where o: "open_outbox sample_lib (pb_keyring sample_publisher) (pb_service sample_publisher) \<lparr>om_message_id = ob_message_id r,
      om_subject = ob_subject r, om_envelope = ob_envelope r, om_kind = '''', om_expires_at = zero_time\<rparr> = Inr opened"
      "om_envelope opened = ''{}''"
    by blast
  have "length (filter (due (db_now sample_world)) (outbox sample_outbox)) \<le> nat (mg_outbox_batch (pb_config sample_publisher))"
    using r(1) by (simp add: sample_publisher_def)
  then show ?thesis
    using due_message_sent [of sample_outbox "\<lambda>_. sample_world" r, OF r(4) sample_ready(5) sample_ready(5) _ _ r(3) _ o(1)] r(1,2) o(2)
    by simp
qed

lemma published_from_outbox_witness:
  "\<exists>m. m \<in> set (snd (fst (publish_batch sessions_ok sample_lib sample_publisher (\<lambda>_. True) (\<lambda>_. 0) (\<lambda>_. sample_world) sample_outbox))) \<and>
     (\<exists>r\<in>set (outbox sample_outbox). sealed_row sample_lib sample_publisher (db_now sample_world) m r)"
proof (rule sample_outbox_row)
  fix r
  assume r: "outbox sample_outbox = [r]" "due (db_now sample_world) r" "sessions_ok sample_outbox"
  assume "\<exists>opened. open_outbox sample_lib (pb_keyring sample_publisher) (pb_service sample_publisher) \<lparr>om_message_id = ob_message_id r,
      om_subject = ob_subject r, om_envelope = ob_envelope r, om_kind = '''', om_expires_at = zero_time\<rparr> = Inr opened \<and>
      om_envelope opened = ''{}''"
  then obtain opened where o: "open_outbox sample_lib (pb_keyring sample_publisher) (pb_service sample_publisher) \<lparr>om_message_id = ob_message_id r,
      om_subject = ob_subject r, om_envelope = ob_envelope r, om_kind = '''', om_expires_at = zero_time\<rparr> = Inr opened"
    by blast
  obtain items d1 where d1: "run_tx sample_world (expire_outbox sessions_ok) sample_outbox = (Inr (), d1)" "sessions_ok d1" "r \<in> set (outbox d1)"
      "length (filter (due (db_now sample_world)) (outbox d1)) \<le> 1"
    by (rule expire_succeeds [OF sample_ready(5) r(3), of "db_now sample_world"]) (use r in \<open>auto simp: due_def\<close>)
  then have room: "length (filter (due (db_now sample_world)) (outbox d1)) \<le> nat (mg_outbox_batch (pb_config sample_publisher))"
    by (simp add: sample_publisher_def)
  obtain items d2 where c: "run_tx sample_world (claim sessions_ok (mg_outbox_batch (pb_config sample_publisher))) d1 = (Inr items, d2)"
      "claimed_of r \<in> set items"
    by (rule claim_succeeds [OF sample_ready(5) d1(2,3) r(2) room])
  have m: "(ob_subject r, om_envelope opened) \<in>
      set (snd (fst (publish_batch sessions_ok sample_lib sample_publisher (\<lambda>_. True) (\<lambda>_. 0) (\<lambda>_. sample_world) sample_outbox)))"
    using publish_items_opened [OF c(2), of sample_lib sample_publisher opened] o d1(1) c
    by (auto simp: publish_batch_def claimed_of_def split_beta)
  from published_from_outbox [OF r(3) this] m show ?thesis by blast
qed

section \<open>Encrypted rows\<close>

text \<open>
  C37. Sealed messages open: what \<open>SealOutbox\<close> stores, \<open>OpenOutbox\<close> of the same service gives back with the
  same keyring, its identifier, subject, kind and expiry unchanged.
\<close>

theorem sealed_message_opens:
  assumes "aead_laws L" "keyring_ok k" "utf8_valid (kr_active k)"
  shows "\<exists>sealed. seal_outbox L k w i service item = Inr sealed \<and> open_outbox L k service sealed = Inr item \<and>
    om_message_id sealed = om_message_id item \<and> om_subject sealed = om_subject item"
proof -
  obtain c where "encrypt L k w i (om_envelope item) (outbox_aad L service (om_message_id item) (om_subject item)) = Inr c"
    using encrypt_total [OF assms(2)] by blast
  then obtain sealed where s: "seal_outbox L k w i service item = Inr sealed"
    by (simp add: seal_outbox_def)
  from open_sealed [OF assms s] s show ?thesis by blast
qed

lemma sealed_message_opens_witness:
  "\<exists>sealed. seal_outbox sample_lib sample_keyring sample_world 0 service_name sample_item = Inr sealed \<and>
     open_outbox sample_lib sample_keyring service_name sealed = Inr sample_item"
proof -
  have "keyring_ok sample_keyring" "utf8_valid (kr_active sample_keyring)"
    using sample_ready(3) by (simp_all add: store_ready_def sample_service_def sample_keyring_def utf8_valid_visible visible_def byte_def)
  from sealed_message_opens [OF sample_aead_laws this] show ?thesis by blast
qed

text \<open>
  C38. A ciphertext belongs to its place: the additional data under which outbox envelopes and columns are
  encrypted determine the row and the subject or column, so that a ciphertext moved to another row, table
  or column is authenticated with other data than it was sealed with.
\<close>

theorem ciphertext_bound_to_place:
  assumes "uuid_laws L" "length i = 16" "length j = 16" "CHR 0x00 \<notin> set service" "CHR 0x00 \<notin> set service'"
    and "CHR 0x00 \<notin> set a" "CHR 0x00 \<notin> set b" "CHR 0x00 \<notin> set table" "CHR 0x00 \<notin> set table'"
  shows "(outbox_aad L service i a = outbox_aad L service' j b \<longrightarrow> service = service' \<and> i = j \<and> a = b) \<and>
    (row_aad L service table i a = row_aad L service' table' j b \<longrightarrow> service = service' \<and> table = table' \<and> i = j \<and> a = b)"
proof -
  have u: "CHR 0x00 \<notin> set (uuid_string L i)" "CHR 0x00 \<notin> set (uuid_string L j)"
    using uuid_string_no_nul [OF assms(1)] assms(2,3) by blast+
  have outbox: "service = service' \<and> i = j \<and> a = b" if "outbox_aad L service i a = outbox_aad L service' j b"
  proof -
    have 1: "service @ CHR 0x00 # (''message_outbox'' @ CHR 0x00 # (uuid_string L i @ CHR 0x00 # (a @ CHR 0x00 # ''envelope''))) =
        service' @ CHR 0x00 # (''message_outbox'' @ CHR 0x00 # (uuid_string L j @ CHR 0x00 # (b @ CHR 0x00 # ''envelope'')))"
      using that by (simp add: outbox_aad_def nul_def)
    note 2 = nul_split [OF 1 assms(4,5)]
    then have 3: "uuid_string L i @ CHR 0x00 # (a @ CHR 0x00 # ''envelope'') = uuid_string L j @ CHR 0x00 # (b @ CHR 0x00 # ''envelope'')"
      by simp
    note 4 = nul_split [OF 3 u]
    then have "a = b"
      using nul_split [of a "''envelope''" b "''envelope''"] assms(6,7) by simp
    with 2 4 show ?thesis
      using uuid_string_inj [OF assms(1-3)] by blast
  qed
  have "service = service' \<and> table = table' \<and> i = j \<and> a = b" if "row_aad L service table i a = row_aad L service' table' j b"
  proof -
    have 1: "service @ CHR 0x00 # (table @ CHR 0x00 # (uuid_string L i @ CHR 0x00 # a)) =
        service' @ CHR 0x00 # (table' @ CHR 0x00 # (uuid_string L j @ CHR 0x00 # b))"
      using that by (simp add: row_aad_def nul_def)
    note 2 = nul_split [OF 1 assms(4,5)]
    note 3 = nul_split [OF conjunct2 [OF 2] assms(8,9)]
    note 4 = nul_split [OF conjunct2 [OF 3] u]
    from 2 3 4 show ?thesis
      using uuid_string_inj [OF assms(1-3)] by blast
  qed
  with outbox show ?thesis by blast
qed

lemma ciphertext_bound_to_place_witness:
  "row_aad sample_lib service_name ''balance_identities'' (sample_uuid 1) ''sender_wallet'' \<noteq>
   row_aad sample_lib service_name ''balance_identities'' (sample_uuid 2) ''sender_wallet''"
  using ciphertext_bound_to_place [of sample_lib "sample_uuid 1" "sample_uuid 2" service_name service_name "''sender_wallet''"
      "''sender_wallet''" "''balance_identities''" "''balance_identities''", OF sample_uuid_laws]
    sample_uuid_eq [of 1 2] by (auto simp: service_name_def)

end
