(* ===== verification/Bot_Texts.thy ===== *)
theory Bot_Texts
  imports Go_Base64 Go_Json
begin

text \<open>
  The Russian texts the bot sends: those of src/internal/bot/app/activation.go, of
  src/internal/bot/adapter/postgres/flow.go and of src/internal/bot/presentation/russian.go, as the
  UTF-8 bytes they are in the source. A theory is ASCII, so \<open>ru\<close> writes a Cyrillic letter as a Latin
  stand-in (one letter each, the rest of the string unchanged): the 32 letters from U+0430 on are
  \<open>abwgdevzijklmnoprstufhc~[]_yx{@q\<close> in this order, U+0451 is \<open>#\<close>, and an upper-case letter is the
  upper-case stand-in. A text with \<open>%s\<close> is a function of its arguments.
\<close>

definition lower_letters :: string where
  "lower_letters = ''abwgdevzijklmnoprstufhc~[]_yx{@q''"

definition upper_letters :: string where
  "upper_letters = ''ABWGDEVZIJKLMNOPRSTUFHC''"

definition ru_char :: "char \<Rightarrow> bytes" where
  "ru_char c =
     (if c = CHR ''#'' then rune_bytes 0x451
      else case index_of c lower_letters of Some k \<Rightarrow> rune_bytes (0x430 + k)
      | None \<Rightarrow> (case index_of c upper_letters of Some k \<Rightarrow> rune_bytes (0x410 + k) | None \<Rightarrow> [c]))"

definition ru :: "string \<Rightarrow> bytes" where
  "ru s = concat (map ru_char s)"

definition nl :: bytes where "nl = [CHR 0x0A]"

definition em_dash :: bytes where "em_dash = rune_bytes 0x2014"

section \<open>Texts\<close>

definition text_no_session :: "string" where
  "text_no_session =
     ru ''Ne udalosx opredelitx '' @ ''Telegram-'' @ ru ''sessi@. Poprobujte e]# raz.''"

definition text_help :: "string" where
  "text_help =
     ru ''Komandy:'' @ nl @ ''/start <'' @ ru ''inwajt'' @ ''> '' @ em_dash @ '' '' @
     ru ''priwqzatx sessi@'' @ nl @ ''/status '' @ em_dash @ '' '' @ ru ''proweritx aktiwaci@'' @ nl @
     ''/help '' @ em_dash @ '' '' @ ru ''pokazatx sprawku''"

definition text_unknown_command :: "string" where
  "text_unknown_command =
     ru ''Neizwestnaq komanda. Ispolxzujte '' @ ''/help.''"

definition text_invite_invalid :: "string" where
  "text_invite_invalid =
     ru ''Inwajt nedejstwitelen ili srok ego dejstwiq ist#k.''"

definition text_bound :: "string \<Rightarrow> string" where
  "text_bound network =
     ru ''Sessiq priwqzana.'' @ nl @ nl @ ru ''Dlq aktiwacii otprawxte adres wa[ego ko[elxka '' @
     ''USDT '' @ ru ''w seti '' @ network @ ''. '' @
     ru ''Perewod pri prowerke nuvno budet wypolnitx imenno s nego.''"

definition text_active :: "string" where
  "text_active =
     ru ''Sessiq aktiwna.''"

definition text_bad_wallet :: "string \<Rightarrow> string" where
  "text_bad_wallet network =
     ru ''Nekorrektnyj adres. Otprawxte adres ko[elxka '' @ ''USDT '' @ ru ''w seti '' @ network @
     '' '' @ ru ''bez probelow.''"

definition text_wallet_accepted :: "string" where
  "text_wallet_accepted =
     ru ''Ko[el#k prinqt. Zapra[iwa@ rekwizity dlq prowerki aktiwacii.''"

definition text_send_invite :: "string" where
  "text_send_invite =
     ru ''Dlq na~ala raboty otprawxte inwajt ili otkrojte ssylku wida '' @
     ''https://t.me/<bot>?start=<invite>.''"

definition text_not_bound :: "string" where
  "text_not_bound =
     ru ''Sessiq e]# ne priwqzana. Nuven dejstwu@]ij inwajt.''"

definition text_bound_inactive :: "string \<Rightarrow> string" where
  "text_bound_inactive network =
     ru ''Sessiq priwqzana, no ne aktiwirowana. Otprawxte adres ko[elxka '' @ ''USDT '' @
     ru ''w seti '' @ network @ ''.''"

definition text_reservation :: "string" where
  "text_reservation =
     ru ''Zapra[iwa@tsq rekwizity dlq aktiwacii.''"

definition text_payment :: "string" where
  "text_payment =
     ru ''Ovidaetsq plat#v dlq aktiwacii. Ispolxzujte ranee wydannye rekwizity.''"

definition text_verification :: "string" where
  "text_verification =
     ru ''Plat#v najden, wypolnqetsq okon~atelxnaq prowerka.''"

definition text_unclear :: "string" where
  "text_unclear =
     ru ''Sostoqnie sessii uto~nqetsq. Poprobujte '' @ ''/status '' @ ru ''pozve.''"

definition text_offer :: "string \<Rightarrow> string \<Rightarrow> string \<Rightarrow> string \<Rightarrow> string" where
  "text_offer network amount receiver deadline =
     ru ''Rekwizity dlq aktiwacii:'' @ nl @ ''USDT, '' @ ru ''setx '' @ network @ nl @ ru ''Summa: '' @
     amount @ nl @ ru ''Ko[el#k polu~atelq: '' @ receiver @ nl @ ru ''Oplatitx do: '' @ deadline @ nl @
     nl @ ru ''Perewodite tolxko s ukazannogo ranee ko[elxka.''"

definition text_reserve_rejected :: "string" where
  "text_reserve_rejected =
     ru ''Sej~as newozmovno wydatx rekwizity dlq aktiwacii. Poprobujte e]# raz pozve.''"

definition text_expired :: "string" where
  "text_expired =
     ru ''Wremq aktiwacii isteklo. Otprawxte adres ko[elxka, ~toby na~atx nowu@ popytku.''"

definition text_payment_found :: "string" where
  "text_payment_found =
     ru ''Plat#v najden. Wypolnqetsq okon~atelxnaq prowerka aktiwacii.''"

definition text_failed :: "string" where
  "text_failed =
     ru ''Aktiwaciq ne wypolnena. Poprobujte na~atx zanowo komandoj '' @ ''/start.''"

definition text_activated :: "string" where
  "text_activated =
     ru ''Sessiq uspe[no aktiwirowana.''"

definition text_wallet_mismatch :: "string" where
  "text_wallet_mismatch =
     ru ''Dlq powtornoj aktiwacii nuven ko[el#k, ispolxzowannyj pri perwoj aktiwacii.''"

definition text_start :: "string" where
  "text_start =
     ru ''Bot '' @ ''RealWallet '' @ ru ''na swqzi. Dlq na~ala raboty otprawxte dejstwu@]ij inwajt.''"

definition text_start_invite :: "string" where
  "text_start_invite =
     ru ''Inwajt polu~en. Wypolnqetsq priwqzka sessii.''"

definition text_commands :: "string" where
  "text_commands =
     ru ''Dostupnye komandy:'' @ nl @ ''/start '' @ em_dash @ '' '' @ ru ''na~atx rabotu'' @ nl @
     ''/status '' @ em_dash @ '' '' @ ru ''proweritx sostoqnie bota'' @ nl @ ''/help '' @ em_dash @
     '' '' @ ru ''pokazatx {tu sprawku''"

definition text_status :: "string" where
  "text_status =
     ru ''Bot rabotaet i podkl@~#n k '' @ ''Telegram API.''"

definition text_use_commands :: "string" where
  "text_use_commands =
     ru ''Ispolxzujte '' @ ''/start, /status '' @ ru ''ili '' @ ''/help.''"

definition text_unknown :: "string" where
  "text_unknown =
     ru ''Neizwestnaq komanda. Ispolxzujte '' @ ''/help.''"

section \<open>What every text is\<close>

lemma utf8_len_append: "utf8_len s \<noteq> 0 \<Longrightarrow> utf8_len (s @ t) = utf8_len s"
proof (cases s)
  case (Cons a r)
  then show "utf8_len s \<noteq> 0 \<Longrightarrow> ?thesis"
    by (cases r; cases "tl r"; cases "tl (tl r)") (auto split: if_splits)
qed simp

lemma utf8_valid_append: "utf8_valid s \<Longrightarrow> utf8_valid t \<Longrightarrow> utf8_valid (s @ t)"
proof (induction s rule: utf8_valid.induct)
  case (1 s)
  show ?case
  proof (cases "s = []")
    case False
    with 1(2) have n: "utf8_len s \<noteq> 0" "utf8_valid (drop (utf8_len s) s)"
      by (auto simp: utf8_valid.simps [of s] split: if_splits)
    then have "utf8_valid (drop (utf8_len s) s @ t)"
      using 1(1,3) False by blast
    then show ?thesis
      using n utf8_len_le [of s] by (subst utf8_valid.simps) (simp add: utf8_len_append)
  qed (use 1(3) in simp)
qed

lemma index_of_bound: "index_of c xs = Some k \<Longrightarrow> k < length xs"
  by (induction xs arbitrary: k) (auto split: if_splits)

lemma byte_of [simp]: "n < 256 \<Longrightarrow> byte (char_of n) = n"
  by (simp add: byte_def)

lemma rune_cyrillic_valid: "1040 \<le> r \<Longrightarrow> r < 1152 \<Longrightarrow> utf8_valid (rune_bytes r)"
proof -
  assume r: "1040 \<le> r" "r < 1152"
  then have "r div 64 \<in> {16, 17}" by auto
  moreover have "r mod 64 < 64" by simp
  ultimately have "utf8_len (rune_bytes r) = 2" "length (rune_bytes r) = 2"
    using r by (auto simp: rune_bytes_def cont_def)
  then show ?thesis
    by (subst utf8_valid.simps) auto
qed

lemma stand_in_bounds:
  "index_of c lower_letters = Some k \<Longrightarrow> k < 32" "index_of c upper_letters = Some k \<Longrightarrow> k < 23"
  using index_of_bound [of c lower_letters k] index_of_bound [of c upper_letters k]
  by (simp_all add: lower_letters_def upper_letters_def del: index_of.simps)

lemma ru_char_cases:
  obtains "ru_char c = [c]" | r where "ru_char c = rune_bytes r" "1040 \<le> r" "r < 1152"
proof (cases "c = CHR ''#''")
  case True
  then show thesis by (intro that(2) [of "0x451"]) (simp_all add: ru_char_def)
next
  case False
  show thesis
  proof (cases "index_of c lower_letters")
    case None
    show thesis
    proof (cases "index_of c upper_letters")
      case None
      with False \<open>index_of c lower_letters = None\<close> show thesis by (intro that(1)) (simp add: ru_char_def)
    next
      case (Some k)
      with False None stand_in_bounds(2) [OF Some] show thesis
        by (intro that(2) [of "0x410 + k"]) (simp_all add: ru_char_def)
    qed
  next
    case (Some k)
    with False stand_in_bounds(1) [OF Some] show thesis
      by (intro that(2) [of "0x430 + k"]) (simp_all add: ru_char_def)
  qed
qed

lemma ru_char_valid: "byte c < 128 \<Longrightarrow> utf8_valid (ru_char c)"
  by (rule ru_char_cases [of c]) (simp_all add: utf8_valid_ascii rune_cyrillic_valid)

definition ascii :: "string \<Rightarrow> bool" where
  "ascii s \<longleftrightarrow> list_all (\<lambda>c. byte c < 128) s"

lemma ru_valid: "ascii s \<Longrightarrow> utf8_valid (ru s)"
  by (induction s) (simp_all add: ru_def ascii_def utf8_valid_append ru_char_valid)

lemma ascii_valid: "ascii s \<Longrightarrow> utf8_valid s"
  by (induction s) (simp_all add: ascii_def utf8_valid_ascii)

lemma length_rune_cyrillic: "r < 2048 \<Longrightarrow> length (rune_bytes r) \<le> 2"
  by (simp add: rune_bytes_def)

lemma length_ru: "length (ru s) \<le> 2 * length s"
proof (induction s)
  case (Cons c s)
  have "length (ru_char c) \<le> 2"
    by (rule ru_char_cases [of c]) (simp_all add: length_rune_cyrillic)
  with Cons show ?case by (simp add: ru_def)
qed (simp add: ru_def)

lemma em_dash_valid: "utf8_valid em_dash"
proof -
  have "utf8_len em_dash = 3" "length em_dash = 3"
    by (simp_all add: em_dash_def rune_bytes_def cont_def)
  then show ?thesis
    by (subst utf8_valid.simps) auto
qed

lemma nl_valid: "utf8_valid nl"
  by (simp add: nl_def utf8_valid_ascii byte_def)

end
