(* ===== verification/Bot_Store.thy ===== *)
theory Bot_Store
  imports Message_Effects Bot_Domain Bot_Texts "HOL-Library.Product_Lexorder" "HOL-Library.List_Lexorder"
    "HOL-Library.Char_ord"
begin

text \<open>
  src/internal/bot/adapter/postgres/: the database of the bot with its schema, the transactions of
  flow.go (invites, Telegram sessions before and after activation, activation attempts) and the
  Telegram updates of updates.go. Rows, the message store and the factories are as in
  \<^verbatim>\<open>Sessions_Store\<close>; a \<open>NULL\<close> column is \<open>None\<close>.
\<close>

datatype invite_status = IV_ACTIVE | IV_CONSUMED | IV_EXPIRED

datatype dialog_state =
    AWAITING_WALLET | AWAITING_RESERVATION | AWAITING_PAYMENT | AWAITING_VERIFICATION | DIALOG_REJECTED

datatype attempt_status =
    AT_RESERVATION | AT_PAYMENT | AT_VERIFICATION | AT_ACTIVE | AT_REJECTED | AT_EXPIRED

datatype update_status = UPDATE_PROCESSING | DELIVERED | OUTCOME_UNKNOWN | IGNORED

record invite_row =
  iv_id :: uuid
  iv_operation_id :: uuid
  iv_command_message_id :: uuid
  iv_result_message_id :: uuid
  iv_token_digest :: bytes
  iv_token_ciphertext :: bytes
  iv_balance_ciphertext :: bytes
  iv_balance_fingerprint :: bytes
  iv_status :: invite_status
  iv_expires_at :: instant
  iv_consumed_at :: "instant option"
  iv_consumed_by :: "uuid option"

record inactive_row =
  ns_id :: uuid
  ns_bot_id :: int
  ns_user_id :: int
  ns_chat_id :: int
  ns_balance_ciphertext :: bytes
  ns_balance_fingerprint :: bytes
  ns_display_label :: "string option"
  ns_dialog_state :: dialog_state
  ns_current_attempt_id :: "uuid option"
  ns_expires_at :: instant
  ns_version :: int

record attempt_row =
  at_id :: uuid
  at_operation_id :: uuid
  at_session_id :: uuid
  at_reserve_message_id :: uuid
  at_verify_message_id :: "uuid option"
  at_sender_ciphertext :: bytes
  at_sender_fingerprint :: bytes
  at_receiver_ciphertext :: "bytes option"
  at_receiver_fingerprint :: "bytes option"
  at_amount :: string
  at_asset :: string
  at_network :: string
  at_external_reservation_id :: "string option"
  at_transaction_id :: "string option"
  at_offer_valid_from :: "instant option"
  at_offer_expires_at :: "instant option"
  at_status :: attempt_status
  at_failure_code :: "string option"
  at_created_at :: instant
  at_updated_at :: instant
  at_completed_at :: "instant option"
  at_version :: int

record projection_row =
  pj_session_id :: uuid
  pj_bot_id :: int
  pj_user_id :: int
  pj_chat_id :: int
  pj_balance_fingerprint :: bytes
  pj_display_label :: "string option"
  pj_authority_version :: int
  pj_activated_at :: instant

record update_row =
  tu_transport :: string
  tu_update_id :: int
  tu_status :: update_status
  tu_payload_digest :: bytes
  tu_processed_at :: "instant option"

record bot_db = msgdb +
  invites :: "invite_row list"
  inactive :: "inactive_row list"
  attempts :: "attempt_row list"
  projections :: "projection_row list"
  updates :: "update_row list"

section \<open>The schema\<close>

definition invite_row_ok :: "invite_row \<Rightarrow> bool" where
  "invite_row_ok r \<longleftrightarrow>
     length (iv_token_digest r) = 32 \<and> length (iv_balance_fingerprint r) = 32 \<and>
     (iv_status r = IV_CONSUMED \<longleftrightarrow> iv_consumed_at r \<noteq> None)"

definition inactive_row_ok :: "inactive_row \<Rightarrow> bool" where
  "inactive_row_ok r \<longleftrightarrow>
     bigint_positive (ns_bot_id r) \<and> bigint_positive (ns_user_id r) \<and> bigint_positive (ns_chat_id r) \<and>
     length (ns_balance_fingerprint r) = 32 \<and> label_ok (ns_display_label r) \<and> bigint_positive (ns_version r)"

definition open_attempt :: "attempt_row \<Rightarrow> bool" where
  "open_attempt r \<longleftrightarrow> at_status r \<in> {AT_RESERVATION, AT_PAYMENT, AT_VERIFICATION}"

definition optional :: "('a \<Rightarrow> bool) \<Rightarrow> 'a option \<Rightarrow> bool" where
  "optional P x \<longleftrightarrow> (case x of None \<Rightarrow> True | Some y \<Rightarrow> P y)"

definition attempt_row_ok :: "attempt_row \<Rightarrow> bool" where
  "attempt_row_ok r \<longleftrightarrow>
     length (at_sender_fingerprint r) = 32 \<and> optional (\<lambda>f. length f = 32) (at_receiver_fingerprint r) \<and>
     pg_text (at_amount r) \<and> at_asset r = ''USDT'' \<and>
     pg_text (at_network r) \<and> 1 \<le> pg_length (at_network r) \<and> pg_length (at_network r) \<le> 64 \<and>
     optional pg_text (at_external_reservation_id r) \<and> optional pg_text (at_transaction_id r) \<and>
     optional pg_text (at_failure_code r) \<and> bigint_positive (at_version r) \<and>
     (\<not> open_attempt r \<longleftrightarrow> at_completed_at r \<noteq> None)"

definition projection_row_ok :: "projection_row \<Rightarrow> bool" where
  "projection_row_ok r \<longleftrightarrow>
     bigint_positive (pj_bot_id r) \<and> bigint_positive (pj_user_id r) \<and> bigint_positive (pj_chat_id r) \<and>
     length (pj_balance_fingerprint r) = 32 \<and> label_ok (pj_display_label r) \<and>
     bigint_positive (pj_authority_version r)"

definition update_row_ok :: "update_row \<Rightarrow> bool" where
  "update_row_ok r \<longleftrightarrow>
     tu_transport r \<in> {''direct_polling'', ''direct_webhook'', ''natsproxy''} \<and>
     0 \<le> tu_update_id r \<and> tu_update_id r < 2 ^ 63 \<and> length (tu_payload_digest r) = 32 \<and>
     (tu_status r = UPDATE_PROCESSING \<longleftrightarrow> tu_processed_at r = None)"

text \<open>A unique index leaves \<open>NULL\<close> out.\<close>

definition transaction_key :: "attempt_row \<Rightarrow> (string \<times> string) option" where
  "transaction_key r = map_option (\<lambda>t. (at_network r, t)) (at_transaction_id r)"

definition bot_keys_ok :: "'a bot_db_scheme \<Rightarrow> bool" where
  "bot_keys_ok d \<longleftrightarrow>
     distinct (map iv_id (invites d)) \<and> distinct (map iv_operation_id (invites d)) \<and>
     distinct (map iv_command_message_id (invites d)) \<and> distinct (map iv_result_message_id (invites d)) \<and>
     distinct (map iv_token_digest (invites d)) \<and>
     distinct (map ns_id (inactive d)) \<and> distinct (map (\<lambda>r. (ns_bot_id r, ns_user_id r)) (inactive d)) \<and>
     distinct (map at_id (attempts d)) \<and> distinct (map at_operation_id (attempts d)) \<and>
     distinct (map at_reserve_message_id (attempts d)) \<and>
     distinct (filter (\<lambda>x. x \<noteq> None) (map at_verify_message_id (attempts d))) \<and>
     distinct (filter (\<lambda>x. x \<noteq> None) (map transaction_key (attempts d))) \<and>
     distinct (map pj_session_id (projections d)) \<and>
     distinct (map (\<lambda>r. (pj_bot_id r, pj_user_id r)) (projections d)) \<and>
     distinct (map (\<lambda>r. (tu_transport r, tu_update_id r)) (updates d))"

definition bot_refs_ok :: "'a bot_db_scheme \<Rightarrow> bool" where
  "bot_refs_ok d \<longleftrightarrow>
     list_all (\<lambda>r. iv_command_message_id r \<in> ib_message_id ` set (inbox d) \<and>
                   iv_result_message_id r \<in> ob_message_id ` set (outbox d) \<and>
                   optional (\<lambda>i. i \<in> ns_id ` set (inactive d)) (iv_consumed_by r)) (invites d) \<and>
     list_all (\<lambda>r. at_reserve_message_id r \<in> ob_message_id ` set (outbox d) \<and>
                   optional (\<lambda>i. i \<in> ob_message_id ` set (outbox d)) (at_verify_message_id r)) (attempts d) \<and>
     list_all (\<lambda>r. optional (\<lambda>i. i \<in> at_id ` set (attempts d)) (ns_current_attempt_id r)) (inactive d)"

definition bot_ok :: "'a bot_db_scheme \<Rightarrow> bool" where
  "bot_ok d \<longleftrightarrow>
     msgdb_ok {PROCESSING, COMPLETED, APPLIED, REJECTED} d \<and>
     list_all invite_row_ok (invites d) \<and> list_all inactive_row_ok (inactive d) \<and>
     list_all attempt_row_ok (attempts d) \<and> list_all projection_row_ok (projections d) \<and>
     list_all update_row_ok (updates d) \<and> bot_keys_ok d \<and> bot_refs_ok d"

section \<open>The store\<close>

record flow_store =
  fs_keyring :: data_keyring
  fs_fingerprint_key :: bytes

record incoming_message =
  im_message_id :: uuid
  im_subject :: string
  im_producer :: string
  im_payload :: bytes
  im_expires_at :: instant

record activation_draft =
  ad_operation_id :: uuid
  ad_session_id :: uuid
  ad_balance_id :: string
  ad_sender_wallet :: string
  ad_amount :: string

record verification_draft =
  vd_operation_id :: uuid
  vd_session_id :: uuid
  vd_balance_id :: string
  vd_bot_id :: int
  vd_telegram_user_id :: int
  vd_telegram_chat_id :: int
  vd_display_label :: string
  vd_sender_wallet :: string
  vd_receiver_wallet :: string
  vd_amount :: string
  vd_transaction_id :: string
  vd_external_reservation_id :: string
  vd_offer_valid_from :: instant
  vd_offer_expires_at :: instant

record conversation_state =
  cs_bound :: bool
  cs_active :: bool
  cs_session_id :: uuid
  cs_dialog_state :: "dialog_state option"

record notification =
  nt_applied :: bool
  nt_chat_id :: int
  nt_text :: string

type_synonym invite_result_factory = "string \<Rightarrow> instant \<Rightarrow> world \<Rightarrow> error + outbox_message"
type_synonym reserve_factory = "activation_draft \<Rightarrow> world \<Rightarrow> error + outbox_message"
type_synonym verify_factory = "verification_draft \<Rightarrow> uuid \<Rightarrow> world \<Rightarrow> error + outbox_message"

definition no_notification :: notification where
  "no_notification = \<lparr>nt_applied = False, nt_chat_id = 0, nt_text = ''''\<rparr>"

definition bot_service :: string where "bot_service = ''rw-bot''"

definition fl_aad :: "lib \<Rightarrow> string \<Rightarrow> uuid \<Rightarrow> string \<Rightarrow> bytes" where
  "fl_aad L table row_id column = bot_service @ nul @ table @ nul @ uuid_string L row_id @ nul @ column"

definition fl_encrypt :: "lib \<Rightarrow> flow_store \<Rightarrow> nat \<Rightarrow> string \<Rightarrow> uuid \<Rightarrow> string \<Rightarrow> string \<Rightarrow> world \<Rightarrow> error + bytes" where
  "fl_encrypt L fs i table row_id column value w =
     (case encrypt L (fs_keyring fs) w i value (fl_aad L table row_id column) of
        Inl e \<Rightarrow> Inl e
      | Inr sealed \<Rightarrow> Inr (marshal True ciphertext_spec (ciphertext_vals sealed)))"

definition fl_decrypt :: "lib \<Rightarrow> flow_store \<Rightarrow> string \<Rightarrow> uuid \<Rightarrow> string \<Rightarrow> bytes \<Rightarrow> error + string" where
  "fl_decrypt L fs table row_id column encoded =
     (case unmarshal False ciphertext_spec encoded of None \<Rightarrow> Inl (Errorf ''decode ciphertext'')
      | Some vs \<Rightarrow> decrypt L (fs_keyring fs) (ciphertext_of vs) (fl_aad L table row_id column))"

definition fl_fingerprint :: "lib \<Rightarrow> flow_store \<Rightarrow> string \<Rightarrow> bytes" where
  "fl_fingerprint L fs value = fingerprint L (fs_fingerprint_key fs) value"

definition fl_insert_outbox :: "lib \<Rightarrow> flow_store \<Rightarrow> nat \<Rightarrow> outbox_message \<Rightarrow> (bot_db, unit) tx" where
  "fl_insert_outbox L fs i item =
     tx_bind (tx_lift (\<lambda>w. seal_outbox L (fs_keyring fs) w i bot_service item)) (insert_outbox bot_ok)"

definition crypto_token :: "world \<Rightarrow> string" where
  "crypto_token w = raw_url_encode (rand_bytes w 10 32)"

definition fl_register :: "lib \<Rightarrow> incoming_message \<Rightarrow> (bot_db, inbox_result) tx" where
  "fl_register L inc =
     register_inbox bot_ok (im_message_id inc) (im_subject inc) (im_producer inc) (sha256 L (im_payload inc))
       (im_expires_at inc)"

section \<open>Invites\<close>

definition create_invite ::
  "lib \<Rightarrow> flow_store \<Rightarrow> incoming_message \<Rightarrow> invite_create \<Rightarrow> duration \<Rightarrow> invite_result_factory \<Rightarrow> world \<Rightarrow> bot_db \<Rightarrow>
    (error + unit) \<times> bot_db" where
  "create_invite L fs inc command ttl factory w d =
     (case new_v7 w 0 of Inl e \<Rightarrow> (Inl e, d) | Inr invite_id \<Rightarrow>
      let token = crypto_token w; expires_at = go_now w 1 + ttl in
      case factory token expires_at w of Inl e \<Rightarrow> (Inl e, d) | Inr made \<Rightarrow>
      let result = made\<lparr>om_kind := ''RESULT''\<rparr> in
      case fl_encrypt L fs 0 ''invites'' invite_id ''token'' token w of Inl e \<Rightarrow> (Inl e, d) | Inr token_ct \<Rightarrow>
      case fl_encrypt L fs 1 ''invites'' invite_id ''balance_id'' (ic_balance_id command) w of
        Inl e \<Rightarrow> (Inl e, d) | Inr balance_ct \<Rightarrow>
      run_tx w
        (tx_bind (fl_register L inc) (\<lambda>r.
         if \<not> ir_accepted r then
           (if ir_completed r \<and> ir_result_message_id r \<noteq> None
            then requeue_outbox bot_ok (the (ir_result_message_id r))
            else tx_return ())
         else
         tx_bind (fl_insert_outbox L fs 8 result) (\<lambda>_.
         tx_bind (tx_exec bot_ok ''insert invite'' (\<lambda>w d.
             ((), d\<lparr>invites := invites d @
                [\<lparr>iv_id = invite_id, iv_operation_id = parse_or_nil L (ic_operation_id command),
                  iv_command_message_id = im_message_id inc, iv_result_message_id = om_message_id result,
                  iv_token_digest = sha256 L token, iv_token_ciphertext = token_ct,
                  iv_balance_ciphertext = balance_ct,
                  iv_balance_fingerprint = fl_fingerprint L fs (ic_balance_id command), iv_status = IV_ACTIVE,
                  iv_expires_at = pg_time expires_at, iv_consumed_at = None, iv_consumed_by = None\<rparr>]\<rparr>))) (\<lambda>_.
         complete_inbox bot_ok (im_message_id inc) (om_message_id result))))) d)"

definition find_projection :: "int \<Rightarrow> int \<Rightarrow> 'a bot_db_scheme \<Rightarrow> projection_row option" where
  "find_projection bot_id user_id d = find (\<lambda>r. pj_bot_id r = bot_id \<and> pj_user_id r = user_id) (projections d)"

definition find_inactive :: "int \<Rightarrow> int \<Rightarrow> 'a bot_db_scheme \<Rightarrow> inactive_row option" where
  "find_inactive bot_id user_id d = find (\<lambda>r. ns_bot_id r = bot_id \<and> ns_user_id r = user_id) (inactive d)"

definition seven_days :: duration where "seven_days = 7 * 24 * hour"

text \<open>What \<open>ConsumeInvite\<close> does after it has found no projection of the user.\<close>

definition bind_user ::
  "lib \<Rightarrow> flow_store \<Rightarrow> int \<Rightarrow> int \<Rightarrow> int \<Rightarrow> string \<Rightarrow> string \<Rightarrow> (bot_db, uuid) tx" where
  "bind_user L fs bot_id user_id chat_id label token =
     tx_bind (tx_query ''read session'' (\<lambda>w. find_inactive bot_id user_id)) (\<lambda>bound.
     case bound of Some s \<Rightarrow> tx_return (ns_id s) | None \<Rightarrow>
     tx_bind (tx_query ''read invite'' (\<lambda>w d. find (\<lambda>r. iv_token_digest r = sha256 L token) (invites d))) (\<lambda>found.
     case found of None \<Rightarrow> tx_fail ErrInviteInvalid | Some invite \<Rightarrow>
     tx_bind (tx_lift (\<lambda>w. Inr (go_now w 1))) (\<lambda>now.
     if iv_status invite \<noteq> IV_ACTIVE \<or> \<not> iv_expires_at invite > now then tx_fail ErrInviteInvalid
     else
     tx_bind (tx_lift (\<lambda>w. fl_decrypt L fs ''invites'' (iv_id invite) ''balance_id'' (iv_balance_ciphertext invite))) (\<lambda>balance.
     tx_bind (tx_lift (\<lambda>w. new_v7 w 0)) (\<lambda>session_id.
     tx_bind (tx_lift (fl_encrypt L fs 0 ''inactive_sessions'' session_id ''balance_id'' balance)) (\<lambda>balance_ct.
     tx_bind (tx_exec bot_ok ''insert inactive session'' (\<lambda>w d.
         ((), d\<lparr>inactive := inactive d @
            [\<lparr>ns_id = session_id, ns_bot_id = bot_id, ns_user_id = user_id, ns_chat_id = chat_id,
              ns_balance_ciphertext = balance_ct, ns_balance_fingerprint = fl_fingerprint L fs balance,
              ns_display_label = nullif_empty label, ns_dialog_state = AWAITING_WALLET,
              ns_current_attempt_id = None, ns_expires_at = db_now w + seven_days, ns_version = 1\<rparr>]\<rparr>))) (\<lambda>_.
     tx_bind (tx_exec bot_ok ''consume invite'' (\<lambda>w d.
         ((), d\<lparr>invites := map (\<lambda>r. if iv_id r = iv_id invite \<and> iv_status r = IV_ACTIVE
                then r\<lparr>iv_status := IV_CONSUMED, iv_consumed_at := Some (db_now w), iv_consumed_by := Some session_id\<rparr>
                else r) (invites d)\<rparr>))) (\<lambda>_.
     tx_return session_id))))))))"

definition consume_invite ::
  "lib \<Rightarrow> flow_store \<Rightarrow> int \<Rightarrow> int \<Rightarrow> int \<Rightarrow> string \<Rightarrow> string \<Rightarrow> world \<Rightarrow> bot_db \<Rightarrow> (error + uuid) \<times> bot_db" where
  "consume_invite L fs bot_id user_id chat_id label token w d =
     run_tx w
       (tx_bind (tx_query ''read projection'' (\<lambda>w. find_projection bot_id user_id)) (\<lambda>active.
        case active of Some p \<Rightarrow> tx_return (pj_session_id p) | None \<Rightarrow> bind_user L fs bot_id user_id chat_id label token)) d"

text \<open>\<open>State\<close> reads through the pool: two queries outside a transaction.\<close>

definition read_state :: "int \<Rightarrow> int \<Rightarrow> world \<Rightarrow> bot_db \<Rightarrow> error + conversation_state" where
  "read_state bot_id user_id w d =
     (let state = \<lparr>cs_bound = False, cs_active = False, cs_session_id = nil_uuid, cs_dialog_state = None\<rparr> in
      if stmt_fails w 0 then Inl DbUnavailable
      else case find_projection bot_id user_id d of
        Some p \<Rightarrow> Inr (state\<lparr>cs_bound := True, cs_active := True, cs_session_id := pj_session_id p\<rparr>)
      | None \<Rightarrow>
          if stmt_fails w 1 then Inl DbUnavailable
          else case find_inactive bot_id user_id d of
            None \<Rightarrow> Inr state
          | Some s \<Rightarrow> Inr (state\<lparr>cs_bound := True, cs_session_id := ns_id s, cs_dialog_state := Some (ns_dialog_state s)\<rparr>))"

section \<open>Activation attempts\<close>

definition begin_activation ::
  "lib \<Rightarrow> flow_store \<Rightarrow> int \<Rightarrow> int \<Rightarrow> string \<Rightarrow> string \<Rightarrow> string \<Rightarrow> reserve_factory \<Rightarrow> world \<Rightarrow> bot_db \<Rightarrow>
    (error + unit) \<times> bot_db" where
  "begin_activation L fs bot_id user_id wallet amount network factory w d =
     run_tx w
       (tx_bind (tx_query ''read session'' (\<lambda>w. find_inactive bot_id user_id)) (\<lambda>found.
        case found of None \<Rightarrow> tx_fail ErrSessionNotFound | Some session \<Rightarrow>
        if ns_dialog_state session \<noteq> AWAITING_WALLET \<and> ns_dialog_state session \<noteq> DIALOG_REJECTED
        then tx_fail ErrUnexpectedState
        else
        tx_bind (tx_lift (\<lambda>w. fl_decrypt L fs ''inactive_sessions'' (ns_id session) ''balance_id'' (ns_balance_ciphertext session))) (\<lambda>balance.
        tx_bind (tx_lift (\<lambda>w. new_v7 w 0)) (\<lambda>attempt_id.
        tx_bind (tx_lift (\<lambda>w. new_v7 w 1)) (\<lambda>operation_id.
        tx_bind (tx_lift (factory \<lparr>ad_operation_id = operation_id, ad_session_id = ns_id session, ad_balance_id = balance,
            ad_sender_wallet = wallet, ad_amount = amount\<rparr>)) (\<lambda>made.
        let reserve = made\<lparr>om_kind := ''COMMAND''\<rparr> in
        tx_bind (tx_lift (fl_encrypt L fs 0 ''activation_attempts'' attempt_id ''sender_wallet'' wallet)) (\<lambda>wallet_ct.
        tx_bind (fl_insert_outbox L fs 8 reserve) (\<lambda>_.
        tx_bind (tx_exec bot_ok ''insert activation attempt'' (\<lambda>w d.
            ((), d\<lparr>attempts := attempts d @
               [\<lparr>at_id = attempt_id, at_operation_id = operation_id, at_session_id = ns_id session,
                 at_reserve_message_id = om_message_id reserve, at_verify_message_id = None,
                 at_sender_ciphertext = wallet_ct, at_sender_fingerprint = fl_fingerprint L fs wallet,
                 at_receiver_ciphertext = None, at_receiver_fingerprint = None, at_amount = amount,
                 at_asset = ''USDT'', at_network = network, at_external_reservation_id = None,
                 at_transaction_id = None, at_offer_valid_from = None, at_offer_expires_at = None,
                 at_status = AT_RESERVATION, at_failure_code = None, at_created_at = db_now w,
                 at_updated_at = db_now w, at_completed_at = None, at_version = 1\<rparr>]\<rparr>))) (\<lambda>_.
        tx_exec bot_ok ''await reservation'' (\<lambda>w d.
          ((), d\<lparr>inactive := map (\<lambda>r. if ns_id r = ns_id session
                 then r\<lparr>ns_dialog_state := AWAITING_RESERVATION, ns_current_attempt_id := Some attempt_id,
                        ns_version := ns_version r + 1\<rparr>
                 else r) (inactive d)\<rparr>))))))))))) d"

definition find_attempt :: "uuid \<Rightarrow> 'a bot_db_scheme \<Rightarrow> attempt_row option" where
  "find_attempt operation_id d = find (\<lambda>r. at_operation_id r = operation_id) (attempts d)"

definition find_session :: "uuid \<Rightarrow> 'a bot_db_scheme \<Rightarrow> inactive_row option" where
  "find_session session_id d = find (\<lambda>r. ns_id r = session_id) (inactive d)"

definition update_attempt :: "uuid \<Rightarrow> (world \<Rightarrow> attempt_row \<Rightarrow> attempt_row) \<Rightarrow> (bot_db, unit) tx" where
  "update_attempt attempt_id f =
     tx_exec bot_ok ''update attempt'' (\<lambda>w d.
       ((), d\<lparr>attempts := map (\<lambda>r. if at_id r = attempt_id
              then (f w r)\<lparr>at_updated_at := db_now w, at_version := at_version r + 1\<rparr> else r) (attempts d)\<rparr>))"

definition set_dialog_state :: "uuid \<Rightarrow> dialog_state \<Rightarrow> (bot_db, unit) tx" where
  "set_dialog_state session_id state =
     tx_exec bot_ok ''update session'' (\<lambda>w d.
       ((), d\<lparr>inactive := map (\<lambda>r. if ns_id r = session_id
              then r\<lparr>ns_dialog_state := state, ns_version := ns_version r + 1\<rparr> else r) (inactive d)\<rparr>))"

definition session_row_of :: "uuid \<Rightarrow> (bot_db, inactive_row) tx" where
  "session_row_of session_id =
     tx_bind (tx_query ''read session'' (\<lambda>w. find_session session_id))
       (\<lambda>found. case found of None \<Rightarrow> tx_fail SqlNoRows | Some row \<Rightarrow> tx_return row)"

text \<open>
  How a message about an attempt begins: registered before, it has no effect; otherwise the attempt
  is read under its lock.
\<close>

definition with_attempt ::
  "lib \<Rightarrow> incoming_message \<Rightarrow> uuid \<Rightarrow> (attempt_row \<Rightarrow> (bot_db, notification) tx) \<Rightarrow> (bot_db, notification) tx" where
  "with_attempt L inc operation_id body =
     tx_bind (fl_register L inc) (\<lambda>r.
     if \<not> ir_accepted r then tx_return no_notification
     else
     tx_bind (tx_query ''read attempt'' (\<lambda>w. find_attempt operation_id)) (\<lambda>found.
     case found of None \<Rightarrow> tx_fail ErrActivationMissing | Some attempt \<Rightarrow> body attempt))"

definition reject_message :: "incoming_message \<Rightarrow> (bot_db, notification) tx" where
  "reject_message inc = tx_bind (reject_inbox bot_ok (im_message_id inc)) (\<lambda>_. tx_return no_notification)"

text \<open>\<open>time.Parse\<close> with the error ignored: the zero time where it fails.\<close>

definition time_or_zero :: "string \<Rightarrow> instant" where
  "time_or_zero s = (case parse_instant s of None \<Rightarrow> zero_time | Some t \<Rightarrow> t)"

definition reserved_body ::
  "lib \<Rightarrow> flow_store \<Rightarrow> incoming_message \<Rightarrow> activation_reserved \<Rightarrow> uuid \<Rightarrow> string \<Rightarrow> attempt_row \<Rightarrow> (bot_db, notification) tx" where
  "reserved_body L fs inc result operation_id network attempt =
     (if at_status attempt \<noteq> AT_RESERVATION then reject_message inc
      else
      tx_bind (tx_lift (\<lambda>w. validate_reserved result (uuid_string L operation_id) (at_amount attempt) (go_now w 1))) (\<lambda>_.
      tx_bind (tx_lift (fl_encrypt L fs 0 ''activation_attempts'' (at_id attempt) ''receiver_wallet'' (as_receiver_wallet result))) (\<lambda>receiver_ct.
      let valid_from = time_or_zero (as_valid_from result); expires_at = time_or_zero (as_expires_at result) in
      tx_bind (update_attempt (at_id attempt) (\<lambda>w r. r\<lparr>at_receiver_ciphertext := Some receiver_ct,
          at_receiver_fingerprint := Some (fl_fingerprint L fs (as_receiver_wallet result)),
          at_external_reservation_id := Some (as_external_reservation_id result),
          at_offer_valid_from := Some (pg_time valid_from), at_offer_expires_at := Some (pg_time expires_at),
          at_status := AT_PAYMENT\<rparr>)) (\<lambda>_.
      tx_bind (set_dialog_state (at_session_id attempt) AWAITING_PAYMENT) (\<lambda>_.
      tx_bind (confirm_outbox bot_ok (at_reserve_message_id attempt)) (\<lambda>_.
      tx_bind (acknowledge_inbox bot_ok (im_message_id inc)) (\<lambda>_.
      tx_bind (session_row_of (at_session_id attempt)) (\<lambda>session.
      tx_return \<lparr>nt_applied = True, nt_chat_id = ns_chat_id session,
        nt_text = text_offer network (at_amount attempt) (as_receiver_wallet result) (format_time False expires_at)\<rparr>))))))))"

definition apply_reserved ::
  "lib \<Rightarrow> flow_store \<Rightarrow> incoming_message \<Rightarrow> activation_reserved \<Rightarrow> string \<Rightarrow> world \<Rightarrow> bot_db \<Rightarrow> (error + notification) \<times> bot_db" where
  "apply_reserved L fs inc result network w d =
     (case uuid_parse L (as_operation_id result) of None \<Rightarrow> (Inl (Errorf ''invalid UUID''), d)
      | Some operation_id \<Rightarrow>
          run_tx w (with_attempt L inc operation_id (reserved_body L fs inc result operation_id network)) d)"

definition reserve_rejected_body :: "incoming_message \<Rightarrow> reserve_rejection \<Rightarrow> attempt_row \<Rightarrow> (bot_db, notification) tx" where
  "reserve_rejected_body inc result attempt =
     (if at_status attempt \<noteq> AT_RESERVATION then reject_message inc
      else
      tx_bind (update_attempt (at_id attempt) (\<lambda>w r. r\<lparr>at_status := AT_REJECTED,
          at_failure_code := Some (rr_code result), at_completed_at := Some (db_now w)\<rparr>)) (\<lambda>_.
      tx_bind (set_dialog_state (at_session_id attempt) DIALOG_REJECTED) (\<lambda>_.
      tx_bind (confirm_outbox bot_ok (at_reserve_message_id attempt)) (\<lambda>_.
      tx_bind (acknowledge_inbox bot_ok (im_message_id inc)) (\<lambda>_.
      tx_bind (session_row_of (at_session_id attempt)) (\<lambda>session.
      tx_return \<lparr>nt_applied = True, nt_chat_id = ns_chat_id session, nt_text = text_reserve_rejected\<rparr>))))))"

definition apply_reserve_rejected ::
  "lib \<Rightarrow> incoming_message \<Rightarrow> reserve_rejection \<Rightarrow> world \<Rightarrow> bot_db \<Rightarrow> (error + notification) \<times> bot_db" where
  "apply_reserve_rejected L inc result w d =
     (case uuid_parse L (rr_operation_id result) of None \<Rightarrow> (Inl (Errorf ''invalid UUID''), d)
      | Some operation_id \<Rightarrow> run_tx w (with_attempt L inc operation_id (reserve_rejected_body inc result)) d)"

text \<open>One statement with three parts, which all see the database before it.\<close>

definition attempt_due :: "instant \<Rightarrow> attempt_row \<Rightarrow> bool" where
  "attempt_due now r \<longleftrightarrow>
     (at_status r = AT_RESERVATION \<and> at_created_at r \<le> now - 2 * minute) \<or>
     (at_status r = AT_PAYMENT \<and> optional (\<lambda>t. t \<le> now) (at_offer_expires_at r) \<and> at_offer_expires_at r \<noteq> None) \<or>
     (at_status r = AT_VERIFICATION \<and> optional (\<lambda>t. t + 30 * minute \<le> now) (at_offer_expires_at r) \<and>
        at_offer_expires_at r \<noteq> None)"

definition due_attempts :: "int \<Rightarrow> instant \<Rightarrow> 'a bot_db_scheme \<Rightarrow> attempt_row list" where
  "due_attempts limit now d =
     take (nat limit) (sort_key (\<lambda>r. (at_updated_at r, at_id r)) (filter (attempt_due now) (attempts d)))"

definition expire_attempts :: "int \<Rightarrow> world \<Rightarrow> bot_db \<Rightarrow> (error + notification list) \<times> bot_db" where
  "expire_attempts limit w d =
     run_tx w
       (tx_exec bot_ok ''expire attempts'' (\<lambda>w d.
          let expired = due_attempts limit (db_now w) d;
              attempt_ids = set (map at_id expired); session_ids = set (map at_session_id expired)
          in (map (\<lambda>r. \<lparr>nt_applied = True, nt_chat_id = ns_chat_id r, nt_text = text_expired\<rparr>)
                (filter (\<lambda>r. ns_id r \<in> session_ids) (inactive d)),
              d\<lparr>attempts := map (\<lambda>r. if at_id r \<in> attempt_ids
                    then r\<lparr>at_status := AT_EXPIRED, at_failure_code := Some ''EXPIRED'',
                           at_completed_at := Some (db_now w), at_updated_at := db_now w, at_version := at_version r + 1\<rparr>
                    else r) (attempts d),
                inactive := map (\<lambda>r. if ns_id r \<in> session_ids
                    then r\<lparr>ns_dialog_state := DIALOG_REJECTED, ns_version := ns_version r + 1\<rparr> else r) (inactive d)\<rparr>))) d"

text \<open>A column of the offer that is \<open>NULL\<close> cannot be scanned, and this is before the status is looked at.\<close>

definition payment_body ::
  "lib \<Rightarrow> flow_store \<Rightarrow> incoming_message \<Rightarrow> payment_confirmed \<Rightarrow> uuid \<Rightarrow> verify_factory \<Rightarrow> attempt_row \<Rightarrow> (bot_db, notification) tx" where
  "payment_body L fs inc result operation_id factory attempt =
     (case (at_external_reservation_id attempt, at_offer_valid_from attempt, at_offer_expires_at attempt) of
        (Some reservation_id, Some offer_from, Some offer_expires) \<Rightarrow>
          if at_status attempt \<noteq> AT_PAYMENT then reject_message inc
          else
          tx_bind (session_row_of (at_session_id attempt)) (\<lambda>session.
          tx_bind (tx_lift (\<lambda>w. fl_decrypt L fs ''inactive_sessions'' (at_session_id attempt) ''balance_id'' (ns_balance_ciphertext session))) (\<lambda>balance.
          tx_bind (tx_lift (\<lambda>w. fl_decrypt L fs ''activation_attempts'' (at_id attempt) ''sender_wallet'' (at_sender_ciphertext attempt))) (\<lambda>sender.
          tx_bind (tx_lift (\<lambda>w. fl_decrypt L fs ''activation_attempts'' (at_id attempt) ''receiver_wallet''
              (case at_receiver_ciphertext attempt of None \<Rightarrow> '''' | Some c \<Rightarrow> c))) (\<lambda>receiver.
          tx_bind (tx_lift (\<lambda>w. validate_payment result
              \<lparr>pc_operation_id = uuid_string L operation_id, pc_external_reservation_id = reservation_id, pc_transaction_id = '''',
               pc_sender_wallet = sender, pc_receiver_wallet = receiver, pc_amount = at_amount attempt, pc_observed_at = ''''\<rparr>
              offer_expires (go_now w 1))) (\<lambda>_.
          tx_bind (tx_lift (factory
              \<lparr>vd_operation_id = operation_id, vd_session_id = at_session_id attempt, vd_balance_id = balance,
               vd_bot_id = ns_bot_id session, vd_telegram_user_id = ns_user_id session, vd_telegram_chat_id = ns_chat_id session,
               vd_display_label = (case ns_display_label session of None \<Rightarrow> '''' | Some l \<Rightarrow> l),
               vd_sender_wallet = sender, vd_receiver_wallet = receiver, vd_amount = at_amount attempt,
               vd_transaction_id = pc_transaction_id result, vd_external_reservation_id = reservation_id,
               vd_offer_valid_from = offer_from, vd_offer_expires_at = offer_expires\<rparr> (im_message_id inc))) (\<lambda>made.
          let verify = made\<lparr>om_kind := ''COMMAND''\<rparr> in
          tx_bind (fl_insert_outbox L fs 8 verify) (\<lambda>_.
          tx_bind (update_attempt (at_id attempt) (\<lambda>w r. r\<lparr>at_verify_message_id := Some (om_message_id verify),
              at_transaction_id := Some (pc_transaction_id result), at_status := AT_VERIFICATION\<rparr>)) (\<lambda>_.
          tx_bind (set_dialog_state (at_session_id attempt) AWAITING_VERIFICATION) (\<lambda>_.
          tx_bind (acknowledge_inbox bot_ok (im_message_id inc)) (\<lambda>_.
          tx_return \<lparr>nt_applied = True, nt_chat_id = ns_chat_id session, nt_text = text_payment_found\<rparr>))))))))))
      | _ \<Rightarrow> tx_fail (Errorf ''cannot scan NULL''))"

definition apply_payment ::
  "lib \<Rightarrow> flow_store \<Rightarrow> incoming_message \<Rightarrow> payment_confirmed \<Rightarrow> verify_factory \<Rightarrow> world \<Rightarrow> bot_db \<Rightarrow>
    (error + notification) \<times> bot_db" where
  "apply_payment L fs inc result factory w d =
     (case uuid_parse L (pc_operation_id result) of None \<Rightarrow> (Inl (Errorf ''invalid UUID''), d)
      | Some operation_id \<Rightarrow>
          run_tx w (with_attempt L inc operation_id (payment_body L fs inc result operation_id factory)) d)"

text \<open>
  The projection of an active session: a newer version replaces the version and the time. Deleting a
  session sets the reference of its invite to \<open>NULL\<close>.
\<close>

definition put_projection :: "projection_row \<Rightarrow> projection_row list \<Rightarrow> projection_row list" where
  "put_projection p ps =
     (if list_ex (\<lambda>r. pj_session_id r = pj_session_id p) ps
      then map (\<lambda>r. if pj_session_id r = pj_session_id p \<and> pj_authority_version r < pj_authority_version p
             then r\<lparr>pj_authority_version := pj_authority_version p, pj_activated_at := pj_activated_at p\<rparr> else r) ps
      else ps @ [p])"

definition delete_session :: "uuid \<Rightarrow> bot_db \<Rightarrow> bot_db" where
  "delete_session session_id d =
     d\<lparr>inactive := filter (\<lambda>r. ns_id r \<noteq> session_id) (inactive d),
       invites := map (\<lambda>r. if iv_consumed_by r = Some session_id then r\<lparr>iv_consumed_by := None\<rparr> else r) (invites d)\<rparr>"

text \<open>The result: \<open>Inl\<close> for \<open>activated\<close>, \<open>Inr\<close> for \<open>rejection\<close> (exactly one of the two pointers is set).\<close>

definition complete_body ::
  "lib \<Rightarrow> flow_store \<Rightarrow> incoming_message \<Rightarrow> activated + rejection \<Rightarrow> attempt_row \<Rightarrow> (bot_db, notification) tx" where
  "complete_body L fs inc outcome attempt =
     (if at_status attempt \<noteq> AT_VERIFICATION then reject_message inc
      else
      tx_bind (session_row_of (at_session_id attempt)) (\<lambda>session.
      tx_bind
        (case outcome of
           Inl activated \<Rightarrow>
             (case parse_instant (ac_activated_at activated) of None \<Rightarrow> tx_fail (Errorf ''invalid activation result'')
              | Some activated_at \<Rightarrow>
                  if ac_session_id activated \<noteq> uuid_string L (at_session_id attempt) \<or> ac_status activated \<noteq> ''ACTIVE'' \<or>
                     fl_fingerprint L fs (ac_balance_id activated) \<noteq> ns_balance_fingerprint session
                  then tx_fail (Errorf ''invalid activation result'')
                  else
                  tx_bind (tx_exec bot_ok ''insert projection'' (\<lambda>w d.
                      ((), d\<lparr>projections := put_projection
                         \<lparr>pj_session_id = at_session_id attempt, pj_bot_id = ns_bot_id session, pj_user_id = ns_user_id session,
                          pj_chat_id = ns_chat_id session, pj_balance_fingerprint = ns_balance_fingerprint session,
                          pj_display_label = ns_display_label session, pj_authority_version = ac_authority_version activated,
                          pj_activated_at = pg_time activated_at\<rparr> (projections d)\<rparr>))) (\<lambda>_.
                  tx_bind (update_attempt (at_id attempt) (\<lambda>w r. r\<lparr>at_status := AT_ACTIVE, at_completed_at := Some (db_now w)\<rparr>)) (\<lambda>_.
                  tx_bind (tx_exec bot_ok ''delete session'' (\<lambda>w d. ((), delete_session (at_session_id attempt) d))) (\<lambda>_.
                  tx_return text_activated))))
         | Inr rej \<Rightarrow>
             tx_bind (update_attempt (at_id attempt) (\<lambda>w r. r\<lparr>at_status := AT_REJECTED,
                 at_failure_code := Some (rj_code rej), at_completed_at := Some (db_now w)\<rparr>)) (\<lambda>_.
             tx_bind (set_dialog_state (at_session_id attempt) DIALOG_REJECTED) (\<lambda>_.
             tx_return (if rj_code rej = ''WALLET_MISMATCH'' then text_wallet_mismatch else text_failed)))) (\<lambda>text.
      tx_bind (confirm_outbox bot_ok (case at_verify_message_id attempt of None \<Rightarrow> nil_uuid | Some u \<Rightarrow> u)) (\<lambda>_.
      tx_bind (acknowledge_inbox bot_ok (im_message_id inc)) (\<lambda>_.
      tx_return \<lparr>nt_applied = True, nt_chat_id = ns_chat_id session, nt_text = text\<rparr>)))))"

definition complete_activation ::
  "lib \<Rightarrow> flow_store \<Rightarrow> incoming_message \<Rightarrow> activated + rejection \<Rightarrow> world \<Rightarrow> bot_db \<Rightarrow> (error + notification) \<times> bot_db" where
  "complete_activation L fs inc outcome w d =
     (case uuid_parse L (case outcome of Inl activated \<Rightarrow> ac_operation_id activated | Inr rej \<Rightarrow> rj_operation_id rej) of
        None \<Rightarrow> (Inl (Errorf ''invalid UUID''), d)
      | Some operation_id \<Rightarrow> run_tx w (with_attempt L inc operation_id (complete_body L fs inc outcome)) d)"

section \<open>Telegram updates\<close>

record update_store =
  us_transport :: string

definition begin_update :: "update_store \<Rightarrow> int \<Rightarrow> bytes \<Rightarrow> world \<Rightarrow> bot_db \<Rightarrow> (error + bool) \<times> bot_db" where
  "begin_update us update_id payload_digest w d =
     run_tx w
       (tx_exec bot_ok ''insert update'' (\<lambda>w d.
          if list_ex (\<lambda>r. tu_transport r = us_transport us \<and> tu_update_id r = update_id) (updates d) then (False, d)
          else (True, d\<lparr>updates := updates d @
                 [\<lparr>tu_transport = us_transport us, tu_update_id = update_id, tu_status = UPDATE_PROCESSING,
                   tu_payload_digest = payload_digest, tu_processed_at = None\<rparr>]\<rparr>))) d"

definition processing_update :: "update_store \<Rightarrow> int \<Rightarrow> update_row \<Rightarrow> bool" where
  "processing_update us update_id r \<longleftrightarrow>
     tu_transport r = us_transport us \<and> tu_update_id r = update_id \<and> tu_status r = UPDATE_PROCESSING"

text \<open>A statement of its own: what it changed stays also when no row was in progress.\<close>

definition finish_update :: "update_store \<Rightarrow> int \<Rightarrow> update_status \<Rightarrow> world \<Rightarrow> bot_db \<Rightarrow> (error + unit) \<times> bot_db" where
  "finish_update us update_id outcome w d =
     (case run_tx w
        (tx_exec bot_ok ''update outcome'' (\<lambda>w d.
           (length (filter (processing_update us update_id) (updates d)),
            d\<lparr>updates := map (\<lambda>r. if processing_update us update_id r
               then r\<lparr>tu_status := outcome, tu_processed_at := Some (db_now w)\<rparr> else r) (updates d)\<rparr>))) d of
        (Inl e, d') \<Rightarrow> (Inl e, d')
      | (Inr n, d') \<Rightarrow> (if n \<noteq> 1 then (Inl (Errorf ''update is not in processing state''), d') else (Inr (), d')))"

end
