(* ===== verification/Bot_Service.thy ===== *)
theory Bot_Service
  imports Bot_Store Config
begin

text \<open>
  src/internal/bot/app/: the bot. \<open>process_message\<close> (messages.go) takes a Telegram message through the
  update table, the conversation and the reply; the conversation and the handlers of the service's
  messages are those of activation.go, and the replies without a conversation those of
  src/internal/bot/presentation/russian.go. An operation runs several transactions: the \<open>i\<close>-th one in
  the world \<open>ws i\<close>. Beside Go's results an operation gives the texts it hands to Telegram, in order;
  \<open>send_ok\<close> says whether sending succeeds. The conversation draws an amount in a loop that may not
  end; its result is an \<open>option\<close>, and \<open>None\<close> means that the call does not return.
\<close>

record telegram_message =
  tm_update_id :: int
  tm_bot_id :: int
  tm_user_id :: int
  tm_chat_id :: int
  tm_chat_type :: string
  tm_text :: string
  tm_display_label :: string
  tm_payload_digest :: bytes

datatype reply =
    ReplyNone | ReplyStart | ReplyStartInvite | ReplyHelp | ReplyStatus | ReplyTextUnsupported | ReplyUnknownCommand

record process_result =
  psr_duplicate :: bool
  psr_delivery_failed :: bool

type_synonym sent = "(int \<times> string) list"

definition parse_command :: "string \<Rightarrow> string \<times> string" where
  "parse_command text =
     (let fields = go_fields (trim_space text) in
      if fields = [] \<or> \<not> starts_with ''/'' (hd fields) then ('''', '''')
      else
        let command = fst (go_cut CHR ''@'' (trim_prefix ''/'' (hd fields)));
            argument = (if length fields > 1 then fields ! 1 else '''')
        in (to_lower command, argument))"

definition reply_for :: "telegram_message \<Rightarrow> reply" where
  "reply_for m =
     (if tm_chat_type m \<noteq> ''private'' then ReplyNone
      else
        let (command, argument) = parse_command (tm_text m) in
        if command = ''start'' then (if argument \<noteq> '''' then ReplyStartInvite else ReplyStart)
        else if command = ''help'' then ReplyHelp
        else if command = ''status'' then ReplyStatus
        else if command = '''' then ReplyTextUnsupported
        else ReplyUnknownCommand)"

fun russian_text :: "reply \<Rightarrow> string" where
  "russian_text ReplyNone = ''''"
| "russian_text ReplyStart = text_start"
| "russian_text ReplyStartInvite = text_start_invite"
| "russian_text ReplyHelp = text_commands"
| "russian_text ReplyStatus = text_status"
| "russian_text ReplyTextUnsupported = text_use_commands"
| "russian_text ReplyUnknownCommand = text_unknown"

section \<open>The activation service\<close>

text \<open>
  \<open>ActivationService\<close>: the store, the codec, \<open>Config.Bot\<close> and \<open>Config.Messaging.ReconcileBatch\<close>,
  whether there is a messenger, and the identity of the bot.
\<close>

record bot_service =
  bs_store :: flow_store
  bs_codec :: codec
  bs_bot :: bot_config
  bs_reconcile_batch :: int
  bs_messenger :: bool
  bs_bot_id :: int
  bs_username :: string

definition new_activation_service :: "flow_store \<Rightarrow> codec \<Rightarrow> bot_config \<Rightarrow> messaging \<Rightarrow> bool \<Rightarrow> bot_service" where
  "new_activation_service fs c cfg mg messenger =
     \<lparr>bs_store = fs, bs_codec = c, bs_bot = cfg, bs_reconcile_batch = mg_reconcile_batch mg, bs_messenger = messenger,
      bs_bot_id = bc_telegram_bot_id cfg, bs_username = trim_prefix ''@'' (bc_telegram_bot_username cfg)\<rparr>"

definition set_telegram_identity :: "int \<Rightarrow> string \<Rightarrow> bot_service \<Rightarrow> bot_service" where
  "set_telegram_identity bot_id username bs = bs\<lparr>bs_bot_id := bot_id, bs_username := trim_prefix ''@'' username\<rparr>"

definition trim_label :: "string \<Rightarrow> string" where
  "trim_label value =
     (let value = trim_space value in if length value > 128 then take 128 value else value)"

text \<open>
  \<open>randomMinor\<close>: eight random bytes are one big-endian word; a word at or above the limit is thrown
  away. \<open>rand.Read\<close> of crypto/rand does not fail. \<open>None\<close> is the loop that never ends, and the division
  by zero of a span of 2^64 values, which no two bounds of a configuration give.
\<close>

definition get_uint64 :: "bytes \<Rightarrow> 64 word" where
  "get_uint64 bs = word_of_nat (foldl (\<lambda>acc c. acc * 256 + byte c) 0 bs)"

definition random_word :: "world \<Rightarrow> nat \<Rightarrow> 64 word" where
  "random_word w i = get_uint64 (rand_bytes w (16 + i) 8)"

partial_function (option) draw_below :: "64 word \<Rightarrow> (nat \<Rightarrow> 64 word) \<Rightarrow> nat \<Rightarrow> (64 word) option" where
  "draw_below limit draws i = (if draws i < limit then Some (draws i) else draw_below limit draws (i + 1))"

definition random_minor :: "int \<Rightarrow> int \<Rightarrow> (nat \<Rightarrow> 64 word) \<Rightarrow> (error + int) option" where
  "random_minor minimum maximum draws =
     (if minimum > maximum then Some (Inl (Errorf ''invalid activation amount range''))
      else
        let span = word_of_int (maximum - minimum) + 1; limit = - 1 - (- 1) mod span in
        if span = 0 then None
        else (case draw_below limit draws 0 of None \<Rightarrow> None
              | Some value \<Rightarrow> Some (Inr (sint (word_of_int minimum + value mod span :: 64 word)))))"

section \<open>The conversation\<close>

definition status_for_state :: "bot_service \<Rightarrow> dialog_state option \<Rightarrow> string" where
  "status_for_state bs state =
     (case state of
        Some AWAITING_WALLET \<Rightarrow> text_bound_inactive (bc_usdt_network (bs_bot bs))
      | Some DIALOG_REJECTED \<Rightarrow> text_bound_inactive (bc_usdt_network (bs_bot bs))
      | Some AWAITING_RESERVATION \<Rightarrow> text_reservation
      | Some AWAITING_PAYMENT \<Rightarrow> text_payment
      | Some AWAITING_VERIFICATION \<Rightarrow> text_verification
      | None \<Rightarrow> text_unclear)"

definition status_text :: "bot_service \<Rightarrow> telegram_message \<Rightarrow> bool \<Rightarrow> world \<Rightarrow> bot_db \<Rightarrow> error + string" where
  "status_text bs m start w d =
     (case read_state (tm_bot_id m) (tm_user_id m) w d of
        Inl e \<Rightarrow> Inl e
      | Inr state \<Rightarrow>
          if \<not> cs_bound state then Inr (if start then text_send_invite else text_not_bound)
          else if cs_active state then Inr text_active
          else Inr (status_for_state bs (cs_dialog_state state)))"

definition consume_invite_text ::
  "lib \<Rightarrow> bot_service \<Rightarrow> telegram_message \<Rightarrow> string \<Rightarrow> world \<Rightarrow> bot_db \<Rightarrow> (error + string) \<times> bot_db" where
  "consume_invite_text L bs m token w d =
     (if length token \<noteq> 43 then (Inr text_invite_invalid, d)
      else
        case consume_invite L (bs_store bs) (tm_bot_id m) (tm_user_id m) (tm_chat_id m) (trim_label (tm_display_label m))
               token w d of
          (Inl e, d') \<Rightarrow> (if errors_is e ErrInviteInvalid then (Inr text_invite_invalid, d') else (Inl e, d'))
        | (Inr _, d') \<Rightarrow> (Inr (text_bound (bc_usdt_network (bs_bot bs))), d'))"

definition reserve_factory_of :: "lib \<Rightarrow> bot_service \<Rightarrow> reserve_factory" where
  "reserve_factory_of L bs draft w =
     codec_sign L (bs_codec bs) w 3 ActivationReserveSubject ActivationReserveType (ad_operation_id draft) nil_uuid
       (encode_activation_reserve
          \<lparr>ar_operation_id = uuid_string L (ad_operation_id draft), ar_balance_id = ad_balance_id draft,
           ar_session_id = uuid_string L (ad_session_id draft), ar_sender_wallet = ad_sender_wallet draft,
           ar_verification_amount = ad_amount draft, ar_asset = ''USDT'', ar_network = bc_usdt_network (bs_bot bs)\<rparr>)
       (go_now w 2 + 2 * minute)"

text \<open>The wallet of a bound session: what \<open>handleText\<close> does after the checks of the state.\<close>

definition accept_wallet ::
  "lib \<Rightarrow> bot_service \<Rightarrow> telegram_message \<Rightarrow> string \<Rightarrow> (nat \<Rightarrow> world) \<Rightarrow> bot_db \<Rightarrow> ((error + string) \<times> bot_db) option" where
  "accept_wallet L bs m text ws d =
     (case random_minor (bc_activation_amount_min (bs_bot bs)) (bc_activation_amount_max (bs_bot bs)) (random_word (ws 1)) of
        None \<Rightarrow> None
      | Some (Inl e) \<Rightarrow> Some (Inl e, d)
      | Some (Inr minor) \<Rightarrow>
          (case format_amount minor (bc_usdt_scale (bs_bot bs)) of None \<Rightarrow> None
           | Some amount \<Rightarrow>
               Some (case begin_activation L (bs_store bs) (tm_bot_id m) (tm_user_id m) text amount
                            (bc_usdt_network (bs_bot bs)) (reserve_factory_of L bs) (ws 1) d of
                       (Inl e, d') \<Rightarrow>
                         (if errors_is e ErrUnexpectedState then (status_text bs m False (ws 2) d', d') else (Inl e, d'))
                     | (Inr _, d') \<Rightarrow> (Inr text_wallet_accepted, d'))))"

definition handle_text ::
  "lib \<Rightarrow> bot_service \<Rightarrow> telegram_message \<Rightarrow> (nat \<Rightarrow> world) \<Rightarrow> bot_db \<Rightarrow> ((error + string) \<times> bot_db) option" where
  "handle_text L bs m ws d =
     (case read_state (tm_bot_id m) (tm_user_id m) (ws 0) d of
        Inl e \<Rightarrow> Some (Inl e, d)
      | Inr state \<Rightarrow>
          let text = trim_space (tm_text m) in
          if \<not> cs_bound state then Some (consume_invite_text L bs m text (ws 1) d)
          else if cs_active state then Some (Inr text_active, d)
          else if cs_dialog_state state \<noteq> Some AWAITING_WALLET \<and> cs_dialog_state state \<noteq> Some DIALOG_REJECTED
          then Some (Inr (status_for_state bs (cs_dialog_state state)), d)
          else if is_err (validate_wallet text) then Some (Inr (text_bad_wallet (bc_usdt_network (bs_bot bs))), d)
          else accept_wallet L bs m text ws d)"

definition handle_conversation ::
  "lib \<Rightarrow> bot_service \<Rightarrow> telegram_message \<Rightarrow> (nat \<Rightarrow> world) \<Rightarrow> bot_db \<Rightarrow> ((error + string) \<times> bot_db) option" where
  "handle_conversation L bs m ws d =
     (if tm_bot_id m \<le> 0 \<or> tm_user_id m \<le> 0 \<or> tm_chat_id m \<le> 0 then Some (Inr text_no_session, d)
      else
        let (command, argument) = parse_command (tm_text m) in
        if command = ''start'' then
          (if argument \<noteq> '''' then Some (consume_invite_text L bs m argument (ws 0) d)
           else Some (status_text bs m True (ws 0) d, d))
        else if command = ''status'' then Some (status_text bs m False (ws 0) d, d)
        else if command = ''help'' then Some (Inr text_help, d)
        else if command = '''' then handle_text L bs m ws d
        else Some (Inr text_unknown_command, d))"

section \<open>One update\<close>

text \<open>What \<open>Process\<close> does once the reply is known: it sends the reply and records the outcome.\<close>

definition deliver ::
  "update_store \<Rightarrow> telegram_message \<Rightarrow> string \<Rightarrow> bool \<Rightarrow> world \<Rightarrow> bot_db \<Rightarrow> (error + process_result) \<times> sent \<times> bot_db" where
  "deliver us m response send_ok w d =
     (let delivery_failed = (response \<noteq> '''' \<and> \<not> send_ok);
          outcome = (if response = '''' then IGNORED else if send_ok then DELIVERED else OUTCOME_UNKNOWN);
          sent = (if response = '''' then [] else [(tm_chat_id m, response)])
      in case finish_update us (tm_update_id m) outcome w d of
           (Inl e, d') \<Rightarrow> (Inl (Wrap ''finish Telegram update'' e), sent, d')
         | (Inr _, d') \<Rightarrow> (Inr \<lparr>psr_duplicate = False, psr_delivery_failed = delivery_failed\<rparr>, sent, d'))"

definition process_message ::
  "lib \<Rightarrow> bot_service option \<Rightarrow> update_store \<Rightarrow> telegram_message \<Rightarrow> bool \<Rightarrow> (nat \<Rightarrow> world) \<Rightarrow> bot_db \<Rightarrow>
    ((error + process_result) \<times> sent \<times> bot_db) option" where
  "process_message L conversation us m send_ok ws d =
     (case begin_update us (tm_update_id m) (tm_payload_digest m) (ws 0) d of
        (Inl e, d') \<Rightarrow> Some (Inl (Wrap ''begin Telegram update'' e), [], d')
      | (Inr started, d') \<Rightarrow>
          if \<not> started then Some (Inr \<lparr>psr_duplicate = True, psr_delivery_failed = False\<rparr>, [], d')
          else
            case (if conversation \<noteq> None \<and> tm_chat_type m = ''private''
                  then handle_conversation L (the conversation) m (\<lambda>i. ws (i + 2)) d'
                  else Some (Inr (russian_text (reply_for m)), d')) of
              None \<Rightarrow> None
            | Some (Inl e, d'') \<Rightarrow> Some (Inl (Wrap ''handle Telegram conversation'' e), [], d'')
            | Some (Inr response, d'') \<Rightarrow> Some (deliver us m response send_ok (ws 1) d''))"

section \<open>The handlers of messages\<close>

definition incoming_message_of :: "verified \<Rightarrow> string \<Rightarrow> incoming_message" where
  "incoming_message_of v subj =
     \<lparr>im_message_id = vf_id v, im_subject = subj, im_producer = producer (vf_envelope v),
      im_payload = vf_payload v, im_expires_at = vf_expires v\<rparr>"

definition notify :: "bot_service \<Rightarrow> (error + notification) \<times> bot_db \<Rightarrow> (error + unit) \<times> sent \<times> bot_db" where
  "notify bs r =
     (case r of
        (Inl e, d) \<Rightarrow> (Inl e, [], d)
      | (Inr n, d) \<Rightarrow>
          (Inr (), (if nt_applied n \<and> bs_messenger bs then [(nt_chat_id n, nt_text n)] else []), d))"

definition invite_result_factory_of :: "lib \<Rightarrow> bot_service \<Rightarrow> verified \<Rightarrow> invite_create \<Rightarrow> invite_result_factory" where
  "invite_result_factory_of L bs v command token expires w =
     (if bs_username bs = '''' then Inl (Errorf ''telegram bot username is not available'')
      else
        codec_sign L (bs_codec bs) w 3 InviteCreatedSubject InviteCreatedType (parse_or_nil L (ic_operation_id command)) (vf_id v)
          (encode_invite_created
             \<lparr>id_operation_id = ic_operation_id command, id_invite = token,
              id_bot_deep_link = ''https://t.me/'' @ bs_username bs @ ''?start='' @ token,
              id_expires_at = format_rfc3339nano expires\<rparr>)
          (go_now w 2 + 5 * minute))"

definition handle_invite_create ::
  "lib \<Rightarrow> bot_service \<Rightarrow> string \<Rightarrow> bytes \<Rightarrow> world \<Rightarrow> bot_db \<Rightarrow> (error + unit) \<times> sent \<times> bot_db" where
  "handle_invite_create L bs subj data w d =
     (case codec_verify L (bs_codec bs) w data subj InviteCreateType [''rw-invite-issuer''] of
        Inl e \<Rightarrow> (Inl e, [], d) | Inr v \<Rightarrow>
      case decode_invite_create (vf_payload v) of Inl _ \<Rightarrow> (Inl ErrInvalidInput, [], d) | Inr command \<Rightarrow>
      if is_err (validate_invite_create L command) then (Inl ErrInvalidInput, [], d)
      else
        let ttl = (if ic_requested_ttl_seconds command \<noteq> 0 then ic_requested_ttl_seconds command * second
                   else bc_invite_ttl (bs_bot bs));
            (r, d') = create_invite L (bs_store bs) (incoming_message_of v subj) command ttl
                        (invite_result_factory_of L bs v command) w d
        in (r, [], d'))"

definition handle_reserved ::
  "lib \<Rightarrow> bot_service \<Rightarrow> string \<Rightarrow> bytes \<Rightarrow> world \<Rightarrow> bot_db \<Rightarrow> (error + unit) \<times> sent \<times> bot_db" where
  "handle_reserved L bs subj data w d =
     (case codec_verify L (bs_codec bs) w data subj ActivationReservedType [''rw-topup''] of
        Inl e \<Rightarrow> (Inl e, [], d) | Inr v \<Rightarrow>
      case decode_activation_reserved (vf_payload v) of Inl e \<Rightarrow> (Inl e, [], d) | Inr result \<Rightarrow>
      notify bs (apply_reserved L (bs_store bs) (incoming_message_of v subj) result (bc_usdt_network (bs_bot bs)) w d))"

definition handle_reserve_rejected ::
  "lib \<Rightarrow> bot_service \<Rightarrow> string \<Rightarrow> bytes \<Rightarrow> world \<Rightarrow> bot_db \<Rightarrow> (error + unit) \<times> sent \<times> bot_db" where
  "handle_reserve_rejected L bs subj data w d =
     (case codec_verify L (bs_codec bs) w data subj ReserveRejectedType [''rw-topup''] of
        Inl e \<Rightarrow> (Inl e, [], d) | Inr v \<Rightarrow>
      case decode_reserve_rejection (vf_payload v) of Inl e \<Rightarrow> (Inl e, [], d) | Inr result \<Rightarrow>
      notify bs (apply_reserve_rejected L (incoming_message_of v subj) result w d))"

text \<open>A column of type \<open>timestamptz\<close> is read in the zone of the process, which is taken to be UTC.\<close>

definition verify_factory_of :: "lib \<Rightarrow> bot_service \<Rightarrow> verify_factory" where
  "verify_factory_of L bs draft causation w =
     codec_sign L (bs_codec bs) w 3 ActivationVerifySubject ActivationVerifyType (vd_operation_id draft) causation
       (encode_activation_verify
          \<lparr>av_operation_id = uuid_string L (vd_operation_id draft), av_session_id = uuid_string L (vd_session_id draft),
           av_balance_id = vd_balance_id draft, av_bot_id = vd_bot_id draft,
           av_telegram_user_id = vd_telegram_user_id draft, av_telegram_chat_id = vd_telegram_chat_id draft,
           av_sender_wallet = vd_sender_wallet draft, av_receiver_wallet = vd_receiver_wallet draft,
           av_amount = vd_amount draft, av_asset = ''USDT'', av_network = bc_usdt_network (bs_bot bs),
           av_transaction_id = vd_transaction_id draft, av_external_reservation_id = vd_external_reservation_id draft,
           av_offer_valid_from = format_rfc3339nano (vd_offer_valid_from draft),
           av_offer_expires_at = format_rfc3339nano (vd_offer_expires_at draft), av_display_label = vd_display_label draft\<rparr>)
       (vd_offer_expires_at draft + 30 * minute)"

definition handle_payment_confirmed ::
  "lib \<Rightarrow> bot_service \<Rightarrow> string \<Rightarrow> bytes \<Rightarrow> world \<Rightarrow> bot_db \<Rightarrow> (error + unit) \<times> sent \<times> bot_db" where
  "handle_payment_confirmed L bs subj data w d =
     (case codec_verify L (bs_codec bs) w data subj PaymentConfirmedType [''rw-topup''] of
        Inl e \<Rightarrow> (Inl e, [], d) | Inr v \<Rightarrow>
      case decode_payment_confirmed (vf_payload v) of Inl e \<Rightarrow> (Inl e, [], d) | Inr result \<Rightarrow>
      notify bs (apply_payment L (bs_store bs) (incoming_message_of v subj) result (verify_factory_of L bs) w d))"

definition handle_activated ::
  "lib \<Rightarrow> bot_service \<Rightarrow> string \<Rightarrow> bytes \<Rightarrow> world \<Rightarrow> bot_db \<Rightarrow> (error + unit) \<times> sent \<times> bot_db" where
  "handle_activated L bs subj data w d =
     (case codec_verify L (bs_codec bs) w data subj ActivationActivatedType [''rw-active-sessions''] of
        Inl e \<Rightarrow> (Inl e, [], d) | Inr v \<Rightarrow>
      case decode_activated (vf_payload v) of Inl e \<Rightarrow> (Inl e, [], d) | Inr result \<Rightarrow>
      notify bs (complete_activation L (bs_store bs) (incoming_message_of v subj) (Inl result) w d))"

definition handle_activation_rejected ::
  "lib \<Rightarrow> bot_service \<Rightarrow> string \<Rightarrow> bytes \<Rightarrow> world \<Rightarrow> bot_db \<Rightarrow> (error + unit) \<times> sent \<times> bot_db" where
  "handle_activation_rejected L bs subj data w d =
     (case codec_verify L (bs_codec bs) w data subj ActivationRejectedType [''rw-active-sessions''] of
        Inl e \<Rightarrow> (Inl e, [], d) | Inr v \<Rightarrow>
      case decode_rejection (vf_payload v) of Inl e \<Rightarrow> (Inl e, [], d) | Inr result \<Rightarrow>
      notify bs (complete_activation L (bs_store bs) (incoming_message_of v subj) (Inr result) w d))"

text \<open>One round of \<open>reconcile\<close>: expired attempts are reported, an error is only logged.\<close>

definition reconcile_round :: "bot_service \<Rightarrow> world \<Rightarrow> bot_db \<Rightarrow> sent \<times> bot_db" where
  "reconcile_round bs w d =
     (case expire_attempts (bs_reconcile_batch bs) w d of
        (Inl e, d') \<Rightarrow> ([], d')
      | (Inr notifications, d') \<Rightarrow> (concat (map (\<lambda>n. fst (snd (notify bs (Inr n, d')))) notifications), d'))"

end
