(* ===== verification/Bot_History.thy ===== *)
theory Bot_History
  imports Bot_Service
begin

text \<open>
  The steps of the bot, each in any world: an update of Telegram, a handler on any bytes, a round of the
  reconciliation and a batch of the publisher. A step runs one transaction, an update of Telegram also
  two statements on its own row, which the relation \<open>N\<close> allows: the locale \<open>bot_scoped\<close> carries a relation
  from the transactions to the steps, using what the handlers have checked of the arguments, for the services in a scope
  \<open>S\<close>; \<open>bot_relation\<close> is the case of any service, \<open>bot_preorder\<close> carries it to the runs, and the invariants of the bot
  interpret them.
\<close>

interpretation bot_messages: message_schema "bot_ok :: bot_db \<Rightarrow> bool"
  by unfold_locales (simp_all add: bot_ok_def msgdb_ok_def)

inductive bot_step ::
  "lib \<Rightarrow> bot_service option \<Rightarrow> bot_service \<Rightarrow> update_store \<Rightarrow> publisher \<Rightarrow> bot_db \<Rightarrow> bot_db \<Rightarrow> bool" for L conv bs us pb where
  update: "process_message L conv us m send_ok ws d = Some (r, texts, d') \<Longrightarrow> bot_step L conv bs us pb d d'"
| invite_create: "bot_step L conv bs us pb d (snd (snd (handle_invite_create L bs subj data w d)))"
| reserved: "bot_step L conv bs us pb d (snd (snd (handle_reserved L bs subj data w d)))"
| reserve_rejected: "bot_step L conv bs us pb d (snd (snd (handle_reserve_rejected L bs subj data w d)))"
| payment_confirmed: "bot_step L conv bs us pb d (snd (snd (handle_payment_confirmed L bs subj data w d)))"
| activated: "bot_step L conv bs us pb d (snd (snd (handle_activated L bs subj data w d)))"
| activation_rejected: "bot_step L conv bs us pb d (snd (snd (handle_activation_rejected L bs subj data w d)))"
| reconcile: "bot_step L conv bs us pb d (snd (reconcile_round bs w d))"
| publish: "bot_step L conv bs us pb d (snd (publish_batch bot_ok L pb nats js ws d))"

lemma checked: "\<not> is_err r \<longleftrightarrow> r = Inr ()"
  by (cases r) simp_all

lemma notify_db: "snd (snd (notify bs r)) = snd r"
  by (cases r) (simp add: notify_def split: sum.split)

lemma reconcile_round_db: "snd (reconcile_round bs w d) = snd (expire_attempts (bs_reconcile_batch bs) w d)"
  by (auto simp: reconcile_round_def split: prod.split sum.split)

locale bot_scoped =
  fixes R N :: "bot_db \<Rightarrow> bot_db \<Rightarrow> bool" and S :: "lib \<Rightarrow> bot_service \<Rightarrow> bool"
  assumes R_refl: "R d d" and N_refl: "N d d" and framed: "N a b \<Longrightarrow> R b c \<Longrightarrow> N c d \<Longrightarrow> R a d"
    and create_invite: "S L bs \<Longrightarrow> validate_invite_create L command = Inr () \<Longrightarrow>
      R d (snd (create_invite L (bs_store bs) inc command ttl invite_factory w d))"
    and consume_invite: "S L bs \<Longrightarrow> R d (snd (consume_invite L (bs_store bs) bot_id user_id chat_id (trim_label name) token w d))"
    and begin_activation: "S L bs \<Longrightarrow> validate_wallet wallet = Inr () \<Longrightarrow>
      random_minor (bc_activation_amount_min (bs_bot bs)) (bc_activation_amount_max (bs_bot bs)) draws = Some (Inr minor) \<Longrightarrow>
      format_amount minor (bc_usdt_scale (bs_bot bs)) = Some amount \<Longrightarrow>
      R d (snd (begin_activation L (bs_store bs) bot_id user_id wallet amount network reserve w d))"
    and apply_reserved: "S L bs \<Longrightarrow> R d (snd (apply_reserved L (bs_store bs) inc result network w d))"
    and apply_reserve_rejected: "R d (snd (apply_reserve_rejected L inc refusal w d))"
    and apply_payment: "S L bs \<Longrightarrow> R d (snd (apply_payment L (bs_store bs) inc payment command_factory w d))"
    and complete_activation: "S L bs \<Longrightarrow> R d (snd (complete_activation L (bs_store bs) inc outcome w d))"
    and expire_attempts: "R d (snd (expire_attempts limit w d))"
    and begin_update: "N d (snd (begin_update us update_id digest w d))"
    and finish_update: "N d (snd (finish_update us update_id status w d))"
    and publish_batch: "R d (snd (publish_batch bot_ok L pb nats js ws d))"
begin

lemma consume_invite_text: "S L bs \<Longrightarrow> R d (snd (consume_invite_text L bs m token w d))"
  using consume_invite [of L bs d "tm_bot_id m" "tm_user_id m" "tm_chat_id m" "tm_display_label m" token w]
  by (auto simp: consume_invite_text_def R_refl split: prod.split sum.split)

lemma accept_wallet: "S L bs \<Longrightarrow> validate_wallet text = Inr () \<Longrightarrow> accept_wallet L bs m text ws d = Some (r, d') \<Longrightarrow> R d d'"
proof -
  assume s: "S L bs" "validate_wallet text = Inr ()" and a: "accept_wallet L bs m text ws d = Some (r, d')"
  from a consider "d' = d" | minor amount res where
      "random_minor (bc_activation_amount_min (bs_bot bs)) (bc_activation_amount_max (bs_bot bs)) (random_word (ws 1)) = Some (Inr minor)"
      "format_amount minor (bc_usdt_scale (bs_bot bs)) = Some amount"
      "begin_activation L (bs_store bs) (tm_bot_id m) (tm_user_id m) text amount
      (bc_usdt_network (bs_bot bs)) (reserve_factory_of L bs) (ws 1) d = (res, d')"
    by (auto simp: accept_wallet_def split: option.splits sum.splits prod.splits if_splits)
  then show ?thesis
  proof cases
    case 2
    with begin_activation [OF s] show ?thesis by (metis snd_conv)
  qed (simp add: R_refl)
qed

lemma handle_text: "S L bs \<Longrightarrow> handle_text L bs m ws d = Some (r, d') \<Longrightarrow> R d d'"
  using consume_invite_text [of L bs d m "trim_space (tm_text m)" "ws 1"]
  by (auto simp: handle_text_def R_refl Let_def checked dest: accept_wallet split: sum.splits if_splits)

lemma handle_conversation: "S L bs \<Longrightarrow> handle_conversation L bs m ws d = Some (r, d') \<Longrightarrow> R d d'"
  using consume_invite_text [of L bs d m "snd (parse_command (tm_text m))" "ws 0"]
  by (auto simp: handle_conversation_def R_refl dest: handle_text split: if_splits prod.splits)

lemma process_message:
  assumes "\<And>bs. conv = Some bs \<Longrightarrow> S L bs" "process_message L conv us m send_ok ws d = Some (r, texts, d')"
  shows "R d d'"
proof -
  note assms = assms(2) and scope = assms(1)
  obtain b d1 where b: "begin_update us (tm_update_id m) (tm_payload_digest m) (ws 0) d = (b, d1)"
    by fastforce
  then have 1: "N d d1"
    using begin_update [of d us "tm_update_id m" "tm_payload_digest m" "ws 0"] by simp
  show ?thesis
  proof (cases b)
    case (Inl e)
    with assms b framed [OF 1 R_refl N_refl] show ?thesis by (simp add: process_message_def)
  next
    case (Inr started)
    show ?thesis
    proof (cases started)
      case False
      with assms b Inr framed [OF 1 R_refl N_refl] show ?thesis by (simp add: process_message_def)
    next
      case True
      let ?c = "if conv \<noteq> None \<and> tm_chat_type m = ''private'' then handle_conversation L (the conv) m (\<lambda>i. ws (i + 2)) d1
          else Some (Inr (russian_text (reply_for m)), d1)"
      from assms b Inr True obtain c d2 where c: "?c = Some (c, d2)"
        by (auto simp: process_message_def split: option.splits)
      then have 2: "R d1 d2"
        using handle_conversation scope R_refl by (auto split: if_splits)
      have "d' = d2 \<or> (\<exists>response. deliver us m response send_ok (ws 1) d2 = (r, texts, d'))"
        using assms b Inr True c by (auto simp: process_message_def split: sum.splits)
      moreover have "N d2 (snd (snd (deliver us m response send_ok (ws 1) d2)))" for response
        using finish_update [of d2 us "tm_update_id m"] by (auto simp: deliver_def Let_def split_beta split: sum.split)
      ultimately show ?thesis
        using framed [OF 1 2] N_refl by (metis snd_conv)
    qed
  qed
qed

lemma step:
  assumes "S L bs" "\<And>c. conv = Some c \<Longrightarrow> S L c" "bot_step L conv bs us pb d d'"
  shows "R d d'"
  using assms(3)
proof (induction rule: bot_step.induct)
  case (update m send_ok ws d r texts d')
  with assms(2) show ?case by (rule process_message)
next
  case (invite_create d subj data w)
  show ?case
    using assms(1) by (auto simp: handle_invite_create_def R_refl Let_def split_beta checked create_invite split: sum.split)
next
  case (reserved d subj data w)
  show ?case
    using assms(1) by (auto simp: handle_reserved_def R_refl notify_db apply_reserved split: sum.split)
next
  case (reserve_rejected d subj data w)
  show ?case
    by (auto simp: handle_reserve_rejected_def R_refl notify_db apply_reserve_rejected split: sum.split)
next
  case (payment_confirmed d subj data w)
  show ?case
    using assms(1) by (auto simp: handle_payment_confirmed_def R_refl notify_db apply_payment split: sum.split)
next
  case (activated d subj data w)
  show ?case
    using assms(1) by (auto simp: handle_activated_def R_refl notify_db complete_activation split: sum.split)
next
  case (activation_rejected d subj data w)
  show ?case
    using assms(1) by (auto simp: handle_activation_rejected_def R_refl notify_db complete_activation split: sum.split)
next
  case (reconcile d w)
  show ?case by (simp add: reconcile_round_db expire_attempts)
next
  case (publish d nats js ws)
  show ?case by (rule publish_batch)
qed

end

text \<open>A relation for any service and any arguments.\<close>

locale bot_relation =
  fixes R N :: "bot_db \<Rightarrow> bot_db \<Rightarrow> bool"
  assumes R_refl: "R d d" and N_refl: "N d d" and framed: "N a b \<Longrightarrow> R b c \<Longrightarrow> N c d \<Longrightarrow> R a d"
    and create_invite: "R d (snd (create_invite L fs inc command ttl invite_factory w d))"
    and consume_invite: "R d (snd (consume_invite L fs bot_id user_id chat_id label token w d))"
    and begin_activation: "R d (snd (begin_activation L fs bot_id user_id wallet amount network reserve w d))"
    and apply_reserved: "R d (snd (apply_reserved L fs inc result network w d))"
    and apply_reserve_rejected: "R d (snd (apply_reserve_rejected L inc refusal w d))"
    and apply_payment: "R d (snd (apply_payment L fs inc payment command_factory w d))"
    and complete_activation: "R d (snd (complete_activation L fs inc outcome w d))"
    and expire_attempts: "R d (snd (expire_attempts limit w d))"
    and begin_update: "N d (snd (begin_update us update_id digest w d))"
    and finish_update: "N d (snd (finish_update us update_id status w d))"
    and publish_batch: "R d (snd (publish_batch bot_ok L pb nats js ws d))"
begin

lemma any_service: "bot_scoped R N (\<lambda>L bs. True)"
  by unfold_locales
    (auto intro: R_refl N_refl framed create_invite consume_invite begin_activation apply_reserved apply_reserve_rejected apply_payment
      complete_activation expire_attempts begin_update finish_update publish_batch)

lemma step: "bot_step L conv bs us pb d d' \<Longrightarrow> R d d'"
  by (rule bot_scoped.step [OF any_service]) simp_all

lemma handle_conversation: "handle_conversation L bs m ws d = Some (r, d') \<Longrightarrow> R d d'"
  by (rule bot_scoped.handle_conversation [OF any_service]) simp_all

lemma process_message: "process_message L conv us m send_ok ws d = Some (r, texts, d') \<Longrightarrow> R d d'"
  by (rule bot_scoped.process_message [OF any_service]) simp_all

end

locale bot_preorder = bot_relation +
  assumes R_trans: "R a b \<Longrightarrow> R b c \<Longrightarrow> R a c"
begin

lemma steps: "(bot_step L conv bs us pb)\<^sup>*\<^sup>* d d' \<Longrightarrow> R d d'"
  by (induction rule: rtranclp_induct) (auto intro: R_refl R_trans step)

end

end
