(* ===== verification/Bot_Invariants.thy ===== *)
theory Bot_Invariants
  imports Bot_History
begin

text \<open>
  The schema of the bot's database is kept: every statement checks it, so every transaction keeps it, and every step does.
\<close>

section \<open>The schema\<close>

lemma bot_messages_schema:
  "keeps (schema_kept bot_ok) (fl_register L inc)" "keeps (schema_kept bot_ok) (fl_insert_outbox L fs i item)"
  "keeps (schema_kept bot_ok) (requeue_outbox bot_ok mid)" "keeps (schema_kept bot_ok) (confirm_outbox bot_ok mid)"
  "keeps (schema_kept bot_ok) (complete_inbox bot_ok mid result)" "keeps (schema_kept bot_ok) (reject_inbox bot_ok mid)"
  "keeps (schema_kept bot_ok) (acknowledge_inbox bot_ok mid)"
  unfolding fl_register_def register_inbox_def fl_insert_outbox_def insert_outbox_def requeue_outbox_def confirm_outbox_def
    complete_inbox_def reject_inbox_def acknowledge_inbox_def
  by (intro schema_keeps)+

lemma bot_parts_schema:
  "keeps (schema_kept bot_ok) (update_attempt i f)" "keeps (schema_kept bot_ok) (set_dialog_state j state)"
  "keeps (schema_kept bot_ok) (session_row_of j)" "keeps (schema_kept bot_ok) (reject_message inc)"
  unfolding update_attempt_def set_dialog_state_def session_row_of_def reject_message_def
  by (intro schema_keeps bot_messages_schema)+

lemma with_attempt_schema:
  "(\<And>attempt. keeps (schema_kept bot_ok) (body attempt)) \<Longrightarrow> keeps (schema_kept bot_ok) (with_attempt L inc operation_id body)"
  unfolding with_attempt_def by (intro schema_keeps bot_messages_schema)

lemma bot_bodies_schema:
  "keeps (schema_kept bot_ok) (reserved_body L fs inc result operation_id network attempt)"
  "keeps (schema_kept bot_ok) (reserve_rejected_body inc refusal attempt)"
  "keeps (schema_kept bot_ok) (payment_body L fs inc payment operation_id factory attempt)"
  "keeps (schema_kept bot_ok) (complete_body L fs inc outcome attempt)"
  unfolding reserved_body_def reserve_rejected_body_def payment_body_def complete_body_def Let_def
  by (intro schema_keeps bot_messages_schema bot_parts_schema)+

lemma run_bot_schema: "keeps (schema_kept bot_ok) body \<Longrightarrow> schema_kept bot_ok d (snd (run_tx w body d))"
  by (rule run_tx_keeps [OF schema_kept_pre(1)])

lemma schema_same: "schema_kept ok d d"
  by (simp add: schema_kept_def)

interpretation bot_schema: bot_preorder "schema_kept bot_ok" "schema_kept bot_ok"
proof unfold_locales
  show "schema_kept bot_ok a b \<Longrightarrow> schema_kept bot_ok b c \<Longrightarrow> schema_kept bot_ok a c" for a b c
    by (simp add: schema_kept_def)
  show "schema_kept bot_ok a b \<Longrightarrow> schema_kept bot_ok b c \<Longrightarrow> schema_kept bot_ok c d \<Longrightarrow> schema_kept bot_ok a d" for a b c d
    by (simp add: schema_kept_def)
  note transaction = run_bot_schema schema_keeps bot_messages_schema bot_parts_schema with_attempt_schema bot_bodies_schema
  show "schema_kept bot_ok d (snd (create_invite L fs inc command ttl invite_factory w d))" for L fs inc command ttl invite_factory w d
    unfolding create_invite_def Let_def by (auto simp: schema_same split: sum.split intro!: transaction)
  show "schema_kept bot_ok d (snd (consume_invite L fs bot_id user_id chat_id label token w d))" for L fs bot_id user_id chat_id label token w d
    unfolding consume_invite_def bind_user_def by (intro transaction)
  show "schema_kept bot_ok d (snd (begin_activation L fs bot_id user_id wallet amount network reserve w d))"
    for L fs bot_id user_id wallet amount network reserve w d
    unfolding begin_activation_def Let_def by (intro transaction)
  show "schema_kept bot_ok d (snd (apply_reserved L fs inc result network w d))" for L fs inc result network w d
    unfolding apply_reserved_def by (auto simp: schema_same split: option.split intro!: transaction)
  show "schema_kept bot_ok d (snd (apply_reserve_rejected L inc refusal w d))" for L inc refusal w d
    unfolding apply_reserve_rejected_def by (auto simp: schema_same split: option.split intro!: transaction)
  show "schema_kept bot_ok d (snd (apply_payment L fs inc payment command_factory w d))" for L fs inc payment command_factory w d
    unfolding apply_payment_def by (auto simp: schema_same split: option.split intro!: transaction)
  show "schema_kept bot_ok d (snd (complete_activation L fs inc outcome w d))" for L fs inc outcome w d
    unfolding complete_activation_def by (auto simp: schema_same split: option.split intro!: transaction)
  show "schema_kept bot_ok d (snd (expire_attempts limit w d))" for limit w d
    unfolding expire_attempts_def by (intro transaction)
  show "schema_kept bot_ok d (snd (begin_update us update_id digest w d))" for us update_id digest w d
    unfolding begin_update_def by (intro transaction)
  show "schema_kept bot_ok d (snd (finish_update us update_id status w d))" for us update_id status w d
  proof -
    have "schema_kept bot_ok d (snd (run_tx w (tx_exec bot_ok ''update outcome'' (\<lambda>w d.
           (length (filter (processing_update us update_id) (updates d)),
            d\<lparr>updates := map (\<lambda>r. if processing_update us update_id r
               then r\<lparr>tu_status := status, tu_processed_at := Some (db_now w)\<rparr> else r) (updates d)\<rparr>))) d))"
      by (intro transaction)
    then show ?thesis
      unfolding finish_update_def by (auto split: prod.split sum.split)
  qed
  show "schema_kept bot_ok d (snd (publish_batch bot_ok L pb nats js ws d))" for L pb nats js ws d
    using publish_batch_sends_only [of bot_ok d L pb nats js ws] by (simp add: sends_only_def schema_kept_def)
qed (rule schema_same)

end
