(* ===== verification/Bot_Flow.thy ===== *)
theory Bot_Flow
  imports Bot_Invariants
begin

text \<open>
  What the transactions of the bot do to sessions, attempts and projections, as the steps of a machine on
  these three tables: a session is bound, an attempt starts, advances, is settled or expires, and a
  successful one turns its session into a projection. Every transaction of the store is one such step.
\<close>

record dialogs =
  dg_inactive :: "inactive_row list"
  dg_attempts :: "attempt_row list"
  dg_projections :: "projection_row list"

definition dialogs_of :: "bot_db \<Rightarrow> dialogs" where
  "dialogs_of d = \<lparr>dg_inactive = inactive d, dg_attempts = attempts d, dg_projections = projections d\<rparr>"

definition session_user :: "inactive_row \<Rightarrow> int \<times> int" where
  "session_user s = (ns_bot_id s, ns_user_id s)"

definition active_user :: "projection_row \<Rightarrow> int \<times> int" where
  "active_user p = (pj_bot_id p, pj_user_id p)"

text \<open>A change of some attempts that keeps their identity and gives them a status.\<close>

definition changes_attempts :: "uuid set \<Rightarrow> attempt_status \<Rightarrow> attempt_row list \<Rightarrow> attempt_row list \<Rightarrow> bool" where
  "changes_attempts ids status rows rows' \<longleftrightarrow>
     (\<exists>f. rows' = map (\<lambda>r. if at_id r \<in> ids then f r else r) rows \<and>
        (\<forall>r. at_id (f r) = at_id r \<and> at_session_id (f r) = at_session_id r \<and> at_operation_id (f r) = at_operation_id r \<and>
             at_status (f r) = status))"

definition show_dialog :: "uuid set \<Rightarrow> dialog_state \<Rightarrow> inactive_row list \<Rightarrow> inactive_row list" where
  "show_dialog ids state rows =
     map (\<lambda>r. if ns_id r \<in> ids then r\<lparr>ns_dialog_state := state, ns_version := ns_version r + 1\<rparr> else r) rows"

text \<open>The transitions of an attempt, with the dialog state each one shows.\<close>

definition moves :: "(attempt_status \<times> attempt_status \<times> dialog_state) set" where
  "moves = {(AT_RESERVATION, AT_PAYMENT, AWAITING_PAYMENT), (AT_RESERVATION, AT_REJECTED, DIALOG_REJECTED),
     (AT_PAYMENT, AT_VERIFICATION, AWAITING_VERIFICATION), (AT_VERIFICATION, AT_REJECTED, DIALOG_REJECTED)}"

inductive flow_step :: "dialogs \<Rightarrow> dialogs \<Rightarrow> bool" where
  idle: "flow_step g g"
| bind: "ns_dialog_state s = AWAITING_WALLET \<Longrightarrow> ns_current_attempt_id s = None \<Longrightarrow>
    ns_id s \<notin> ns_id ` set (dg_inactive g) \<Longrightarrow> session_user s \<notin> session_user ` set (dg_inactive g) \<Longrightarrow>
    session_user s \<notin> active_user ` set (dg_projections g) \<Longrightarrow>
    flow_step g (g\<lparr>dg_inactive := dg_inactive g @ [s]\<rparr>)"
| start: "s \<in> set (dg_inactive g) \<Longrightarrow> ns_dialog_state s \<in> {AWAITING_WALLET, DIALOG_REJECTED} \<Longrightarrow>
    at_session_id a = ns_id s \<Longrightarrow> at_status a = AT_RESERVATION \<Longrightarrow> at_id a \<notin> at_id ` set (dg_attempts g) \<Longrightarrow>
    flow_step g (g\<lparr>dg_attempts := dg_attempts g @ [a],
      dg_inactive := map (\<lambda>r. if ns_id r = ns_id s
         then r\<lparr>ns_dialog_state := AWAITING_RESERVATION, ns_current_attempt_id := Some (at_id a), ns_version := ns_version r + 1\<rparr>
         else r) (dg_inactive g)\<rparr>)"
| advance: "a \<in> set (dg_attempts g) \<Longrightarrow> (at_status a, status, state) \<in> moves \<Longrightarrow>
    changes_attempts {at_id a} status (dg_attempts g) rows \<Longrightarrow>
    flow_step g (g\<lparr>dg_attempts := rows, dg_inactive := show_dialog {at_session_id a} state (dg_inactive g)\<rparr>)"
| finish: "a \<in> set (dg_attempts g) \<Longrightarrow> at_status a = AT_VERIFICATION \<Longrightarrow> s \<in> set (dg_inactive g) \<Longrightarrow> ns_id s = at_session_id a \<Longrightarrow>
    changes_attempts {at_id a} AT_ACTIVE (dg_attempts g) rows \<Longrightarrow> pj_session_id p = at_session_id a \<Longrightarrow> active_user p = session_user s \<Longrightarrow>
    flow_step g \<lparr>dg_inactive = filter (\<lambda>r. ns_id r \<noteq> at_session_id a) (dg_inactive g), dg_attempts = rows,
      dg_projections = put_projection p (dg_projections g)\<rparr>"
| expire: "E \<subseteq> set (dg_attempts g) \<Longrightarrow> \<forall>a\<in>E. open_attempt a \<Longrightarrow> changes_attempts (at_id ` E) AT_EXPIRED (dg_attempts g) rows \<Longrightarrow>
    flow_step g (g\<lparr>dg_attempts := rows, dg_inactive := show_dialog (at_session_id ` E) DIALOG_REJECTED (dg_inactive g)\<rparr>)"

section \<open>What the statements do to the tables\<close>

lemma dialogs_more: "msgdb.more d' = msgdb.more d \<Longrightarrow> dialogs_of d' = dialogs_of d"
proof -
  assume more: "msgdb.more d' = msgdb.more d"
  have *: "d' = d\<lparr>inbox := inbox d', outbox := outbox d'\<rparr>"
    by (rule msgdb.equality) (simp_all add: more)
  have "dialogs_of d' = dialogs_of (d\<lparr>inbox := inbox d', outbox := outbox d'\<rparr>)"
    by (rule arg_cong [OF *])
  then show ?thesis by (simp add: dialogs_of_def)
qed

lemma messages_dialogs:
  "fl_insert_outbox L fs i item w s = Inr (x, s') \<Longrightarrow> dialogs_of (fst s') = dialogs_of (fst s)"
  "fl_register L inc w s = Inr (q, s') \<Longrightarrow> dialogs_of (fst s') = dialogs_of (fst s)"
  "requeue_outbox bot_ok mid w s = Inr (x, s') \<Longrightarrow> dialogs_of (fst s') = dialogs_of (fst s)"
  "confirm_outbox bot_ok mid w s = Inr (x, s') \<Longrightarrow> dialogs_of (fst s') = dialogs_of (fst s)"
  "complete_inbox bot_ok mid result w s = Inr (x, s') \<Longrightarrow> dialogs_of (fst s') = dialogs_of (fst s)"
  "acknowledge_inbox bot_ok mid w s = Inr (x, s') \<Longrightarrow> dialogs_of (fst s') = dialogs_of (fst s)"
  "reject_inbox bot_ok mid w s = Inr (x, s') \<Longrightarrow> dialogs_of (fst s') = dialogs_of (fst s)"
  by (rule dialogs_more; auto simp: fl_insert_outbox_def fl_register_def tx_bind_ok tx_lift_ok insert_outbox_ok register_inbox_ok
      requeue_outbox_ok confirm_outbox_ok complete_inbox_ok acknowledge_inbox_ok reject_inbox_ok split: option.splits if_splits)+

text \<open>Running a transaction from a database with the dialogs \<open>h\<close> completes a step that began at \<open>g\<close>.\<close>

definition flows :: "world \<Rightarrow> dialogs \<Rightarrow> dialogs \<Rightarrow> (bot_db, 'a) tx \<Rightarrow> bool" where
  "flows w g h m \<longleftrightarrow> (\<forall>s n s'. dialogs_of (fst s) = h \<longrightarrow> m w s = Inr (n, s') \<longrightarrow> flow_step g (dialogs_of (fst s')))"

lemma flowsD: "flows w (dialogs_of (fst s)) (dialogs_of (fst s)) m \<Longrightarrow> m w s = Inr (n, s') \<Longrightarrow>
    flow_step (dialogs_of (fst s)) (dialogs_of (fst s'))"
  unfolding flows_def by blast

lemma flows_return: "flow_step g h \<Longrightarrow> flows w g h (tx_return x)"
  by (simp add: flows_def tx_return_ok)

lemma flows_fail: "flows w g h (tx_fail e)"
  by (simp add: flows_def tx_fail_ok)

lemma flows_bind:
  assumes "\<And>s x s'. dialogs_of (fst s) = h \<Longrightarrow> c w s = Inr (x, s') \<Longrightarrow> flows w g (dialogs_of (fst s')) (k x)"
  shows "flows w g h (tx_bind c k)"
  using assms unfolding flows_def tx_bind_ok by blast

lemma flows_keep:
  assumes "\<And>s x s'. c w s = Inr (x, s') \<Longrightarrow> dialogs_of (fst s') = dialogs_of (fst s)" and "\<And>x. flows w g h (k x)"
  shows "flows w g h (tx_bind c k)"
  by (rule flows_bind) (use assms in simp)

lemma flows_lift: "(\<And>x. flows w g h (k x)) \<Longrightarrow> flows w g h (tx_bind (tx_lift c) k)"
  by (rule flows_keep) (auto simp: tx_lift_ok)

lemma flows_insert_outbox: "(\<And>x. flows w g h (k x)) \<Longrightarrow> flows w g h (tx_bind (fl_insert_outbox L fs i item) k)"
  by (rule flows_keep) (rule messages_dialogs)

lemma flows_confirm: "(\<And>x. flows w g h (k x)) \<Longrightarrow> flows w g h (tx_bind (confirm_outbox bot_ok mid) k)"
  by (rule flows_keep) (rule messages_dialogs)

lemma flows_acknowledge: "(\<And>x. flows w g h (k x)) \<Longrightarrow> flows w g h (tx_bind (acknowledge_inbox bot_ok mid) k)"
  by (rule flows_keep) (rule messages_dialogs)

lemma flows_reject: "flow_step g h \<Longrightarrow> flows w g h (reject_message inc)"
  by (auto simp: flows_def reject_message_def tx_bind_ok tx_return_ok dest: messages_dialogs)

lemma session_row_ok:
  "session_row_of j w s = Inr (row, s') \<longleftrightarrow> \<not> stmt_fails w (snd s) \<and> find_session j (fst s) = Some row \<and> s' = (fst s, snd s + 1)"
  by (auto simp: session_row_of_def tx_bind_ok tx_query_ok tx_return_ok tx_fail_ok split: option.splits)

lemma flows_session:
  assumes "\<And>row. row \<in> set (dg_inactive h) \<Longrightarrow> ns_id row = j \<Longrightarrow> flows w g h (k row)"
  shows "flows w g h (tx_bind (session_row_of j) k)"
proof (rule flows_bind)
  fix s x s'
  assume h: "dialogs_of (fst s) = h" and "session_row_of j w s = Inr (x, s')"
  then have row: "find_session j (fst s) = Some x" and same: "dialogs_of (fst s') = h"
    by (auto simp: session_row_ok)
  have "x \<in> set (dg_inactive h)" "ns_id x = j"
    using find_Some_iff_first [OF row [unfolded find_session_def]] h by (auto simp: dialogs_of_def)
  then show "flows w g (dialogs_of (fst s')) (k x)" using assms same by simp
qed

lemma flows_update_attempt:
  assumes "\<And>r. at_id (f w r) = at_id r \<and> at_session_id (f w r) = at_session_id r \<and> at_operation_id (f w r) = at_operation_id r \<and>
      at_status (f w r) = status"
    and "\<And>rows x. changes_attempts {i} status (dg_attempts h) rows \<Longrightarrow> flows w g (h\<lparr>dg_attempts := rows\<rparr>) (k x)"
  shows "flows w g h (tx_bind (update_attempt i f) k)"
proof (rule flows_bind)
  fix s x s'
  assume h: "dialogs_of (fst s) = h" and u: "update_attempt i f w s = Inr (x, s')"
  have "changes_attempts {i} status (attempts (fst s)) (attempts (fst s'))"
    and "dialogs_of (fst s') = h\<lparr>dg_attempts := attempts (fst s')\<rparr>"
    using u h assms(1) by (auto simp: update_attempt_def tx_exec_ok changes_attempts_def dialogs_of_def
      intro!: exI [of _ "\<lambda>r. (f w r)\<lparr>at_updated_at := db_now w, at_version := at_version r + 1\<rparr>"])
  with assms(2) h show "flows w g (dialogs_of (fst s')) (k x)"
    by (auto simp: dialogs_of_def)
qed

lemma flows_dialog_state:
  assumes "\<And>x. flows w g (h\<lparr>dg_inactive := show_dialog {j} state (dg_inactive h)\<rparr>) (k x)"
  shows "flows w g h (tx_bind (set_dialog_state j state) k)"
  by (rule flows_bind) (use assms in \<open>auto simp: set_dialog_state_def tx_exec_ok show_dialog_def dialogs_of_def\<close>)

lemma flows_projection:
  assumes "\<And>x. flows w g (h\<lparr>dg_projections := put_projection p (dg_projections h)\<rparr>) (k x)"
  shows "flows w g h (tx_bind (tx_exec bot_ok step (\<lambda>w d. ((), d\<lparr>projections := put_projection p (projections d)\<rparr>))) k)"
  by (rule flows_bind) (use assms in \<open>auto simp: tx_exec_ok dialogs_of_def\<close>)

lemma flows_delete:
  assumes "\<And>x. flows w g (h\<lparr>dg_inactive := filter (\<lambda>r. ns_id r \<noteq> j) (dg_inactive h)\<rparr>) (k x)"
  shows "flows w g h (tx_bind (tx_exec bot_ok step (\<lambda>w d. ((), delete_session j d))) k)"
  by (rule flows_bind) (use assms in \<open>auto simp: tx_exec_ok dialogs_of_def delete_session_def\<close>)

lemmas flows_intros = flows_lift flows_insert_outbox flows_confirm flows_acknowledge flows_session flows_update_attempt
  flows_dialog_state flows_projection flows_delete flows_fail

text \<open>The end of a step that moves one attempt.\<close>

lemma advanced:
  assumes "a \<in> set (dg_attempts g)" "(at_status a, status, state) \<in> moves" "changes_attempts {at_id a} status (dg_attempts g) rows"
  shows "flow_step g (g\<lparr>dg_attempts := rows, dg_inactive := show_dialog {at_session_id a} state (dg_inactive g)\<rparr>)"
  by (rule advance [OF assms])

text \<open>A message about an attempt is a step when the body is, on the attempt it finds.\<close>

lemma with_attempt_step:
  assumes "\<And>attempt g. attempt \<in> set (dg_attempts g) \<Longrightarrow> flows w g g (body attempt)"
  shows "flow_step (dialogs_of d) (dialogs_of (snd (run_tx w (with_attempt L inc operation_id body) d)))"
proof (rule run_tx_invariant)
  have "flows w (dialogs_of d) (dialogs_of d) (with_attempt L inc operation_id body)"
    unfolding with_attempt_def
  proof (rule flows_keep)
    fix q
    have "flows w g g (tx_bind (tx_query ''read attempt'' (\<lambda>w. find_attempt operation_id)) (\<lambda>found.
      case found of None \<Rightarrow> tx_fail ErrActivationMissing | Some attempt \<Rightarrow> body attempt))" for g
    proof (rule flows_bind)
      fix s x s'
      assume g: "dialogs_of (fst s) = g" and "tx_query ''read attempt'' (\<lambda>w. find_attempt operation_id) w s = Inr (x, s')"
      then have x: "x = find_attempt operation_id (fst s)" and same: "dialogs_of (fst s') = g"
        by (auto simp: tx_query_ok)
      show "flows w g (dialogs_of (fst s')) (case x of None \<Rightarrow> tx_fail ErrActivationMissing | Some attempt \<Rightarrow> body attempt)"
      proof (cases x)
        case None
        then show ?thesis by (simp add: flows_fail)
      next
        case (Some a)
        have "a \<in> set (dg_attempts g)"
          using find_Some_iff_first [OF x [symmetric, unfolded Some find_attempt_def]] g by (auto simp: dialogs_of_def)
        then show ?thesis using assms [of a g] by (simp add: same Some)
      qed
    qed
    then show "flows w (dialogs_of d) (dialogs_of d) (if \<not> ir_accepted q then tx_return no_notification
     else tx_bind (tx_query ''read attempt'' (\<lambda>w. find_attempt operation_id)) (\<lambda>found.
       case found of None \<Rightarrow> tx_fail ErrActivationMissing | Some attempt \<Rightarrow> body attempt))"
      by (simp add: flows_return idle)
  qed (rule messages_dialogs)
  then show "flow_step (dialogs_of d) (dialogs_of d')"
    if "with_attempt L inc operation_id body w (d, 0) = Inr (n, (d', k))" for n d' k
    using flowsD [where s = "(d, 0)"] that by fastforce
qed (rule idle)

lemma reserved_body_flows: "attempt \<in> set (dg_attempts g) \<Longrightarrow> flows w g g (reserved_body L fs inc result operation_id network attempt)"
  unfolding reserved_body_def
  by (auto simp: Let_def moves_def intro!: flows_reject idle flows_intros flows_return advanced split: option.splits)

lemma reserve_rejected_body_flows: "attempt \<in> set (dg_attempts g) \<Longrightarrow> flows w g g (reserve_rejected_body inc result attempt)"
  unfolding reserve_rejected_body_def
  by (auto simp: Let_def moves_def intro!: flows_reject idle flows_intros flows_return advanced split: option.splits)

lemma payment_body_flows: "attempt \<in> set (dg_attempts g) \<Longrightarrow> flows w g g (payment_body L fs inc payment operation_id factory attempt)"
  unfolding payment_body_def
  by (auto simp: Let_def moves_def intro!: flows_reject idle flows_intros flows_return advanced split: option.splits)

lemma flows_assoc: "flows w g h (tx_bind a (\<lambda>x. tx_bind (b x) k)) \<Longrightarrow> flows w g h (tx_bind (tx_bind a b) k)"
  unfolding flows_def tx_bind_ok by blast

lemma flows_bind_return: "flows w g h (k x) \<Longrightarrow> flows w g h (tx_bind (tx_return x) k)"
  unfolding flows_def tx_bind_ok tx_return_ok by blast

lemma flows_bind_fail: "flows w g h (tx_bind (tx_fail e) k)"
  by (simp add: flows_def tx_bind_ok tx_fail_ok)

lemma finished:
  assumes "a \<in> set (dg_attempts g)" "at_status a = AT_VERIFICATION" "s \<in> set (dg_inactive g)" "ns_id s = at_session_id a"
    and "changes_attempts {at_id a} AT_ACTIVE (dg_attempts g) rows" "pj_session_id p = at_session_id a" "active_user p = session_user s"
  shows "flow_step g (g\<lparr>dg_projections := put_projection p (dg_projections g), dg_attempts := rows,
      dg_inactive := filter (\<lambda>r. ns_id r \<noteq> at_session_id a) (dg_inactive g)\<rparr>)"
proof -
  have eq: "g\<lparr>dg_projections := put_projection p (dg_projections g), dg_attempts := rows,
      dg_inactive := filter (\<lambda>r. ns_id r \<noteq> at_session_id a) (dg_inactive g)\<rparr> =
    \<lparr>dg_inactive = filter (\<lambda>r. ns_id r \<noteq> at_session_id a) (dg_inactive g), dg_attempts = rows,
      dg_projections = put_projection p (dg_projections g)\<rparr>"
    by (rule dialogs.equality) simp_all
  show ?thesis unfolding eq by (rule finish [OF assms])
qed

lemma complete_body_flows:
  assumes a: "attempt \<in> set (dg_attempts g)"
  shows "flows w g g (complete_body L fs inc outcome attempt)"
proof (cases "at_status attempt = AT_VERIFICATION")
  case False
  then show ?thesis by (simp add: complete_body_def flows_reject idle)
next
  case True
  show ?thesis
  proof (cases outcome)
    case (Inr rej)
    show ?thesis
      unfolding complete_body_def Inr using a
      by (auto simp: True moves_def intro!: flows_intros flows_assoc flows_bind_return flows_return advanced)
  next
    case (Inl result)
    show ?thesis
    proof (cases "parse_instant (ac_activated_at result)")
      case None
      then show ?thesis
        unfolding complete_body_def Inl
        by (auto simp: True intro!: flows_session flows_bind_fail)
    next
      case (Some activated_at)
      have end_state: "flow_step g (g\<lparr>dg_projections := put_projection p (dg_projections g), dg_attempts := rows,
          dg_inactive := filter (\<lambda>r. ns_id r \<noteq> at_session_id attempt) (dg_inactive g)\<rparr>)"
        if "row \<in> set (dg_inactive g)" "ns_id row = at_session_id attempt"
          "changes_attempts {at_id attempt} AT_ACTIVE (dg_attempts g) rows" "pj_session_id p = at_session_id attempt"
          "pj_bot_id p = ns_bot_id row" "pj_user_id p = ns_user_id row" for p row rows
        by (rule finished [OF a True that(1-4)]) (simp add: active_user_def session_user_def that)
      show ?thesis
        unfolding complete_body_def Inl
        by (auto simp: True Some intro!: flows_session flows_bind_fail flows_assoc flows_projection
            flows_update_attempt [where status = AT_ACTIVE] flows_delete flows_bind_return flows_confirm flows_acknowledge)
          (rule flows_return, rule end_state, assumption+, simp_all)
    qed
  qed
qed

section \<open>The transactions that bind, start and expire\<close>

lemma flows_query:
  assumes "\<And>d. dialogs_of d = h \<Longrightarrow> flows w g h (k (q w d))"
  shows "flows w g h (tx_bind (tx_query step q) k)"
  by (rule flows_bind) (auto simp: tx_query_ok assms)

lemma flows_exec_last:
  assumes "\<And>d r d'. dialogs_of d = h \<Longrightarrow> f w d = (r, d') \<Longrightarrow> bot_ok d' \<Longrightarrow> flow_step g (dialogs_of d')"
  shows "flows w g h (tx_exec bot_ok step f)"
  unfolding flows_def tx_exec_ok using assms by (metis fst_conv prod.collapse)

lemma flows_exec:
  assumes "\<And>d r d'. dialogs_of d = h \<Longrightarrow> f w d = (r, d') \<Longrightarrow> bot_ok d' \<Longrightarrow> flows w g (dialogs_of d') (k r)"
  shows "flows w g h (tx_bind (tx_exec bot_ok step f) k)"
  by (rule flows_bind) (auto simp: tx_exec_ok assms split: prod.splits)

lemma run_flows:
  assumes "flows w (dialogs_of d) (dialogs_of d) body"
  shows "flow_step (dialogs_of d) (dialogs_of (snd (run_tx w body d)))"
proof (rule run_tx_invariant [where P = "\<lambda>d'. flow_step (dialogs_of d) (dialogs_of d')"])
  show "flow_step (dialogs_of d) (dialogs_of d')" if "body w (d, 0) = Inr (x, (d', n))" for x d' n
    using flowsD [where s = "(d, 0)"] assms that by fastforce
qed (rule idle)

lemma appended_new: "distinct (map f (xs @ [x])) \<Longrightarrow> f x \<notin> f ` set xs"
  by auto

lemma flows_bound:
  assumes none: "find_projection bot_id user_id d0 = None" "dialogs_of d0 = h"
    and row: "\<And>w. ns_dialog_state (r w) = AWAITING_WALLET" "\<And>w. ns_current_attempt_id (r w) = None"
      "\<And>w. session_user (r w) = (bot_id, user_id)"
    and k: "\<And>w s. flow_step h (h\<lparr>dg_inactive := dg_inactive h @ [s]\<rparr>) \<Longrightarrow> flows w h (h\<lparr>dg_inactive := dg_inactive h @ [s]\<rparr>) (k ())"
  shows "flows w h h (tx_bind (tx_exec bot_ok step (\<lambda>w d. ((), d\<lparr>inactive := inactive d @ [r w]\<rparr>))) k)"
proof (rule flows_exec, goal_cases)
  case (1 d x d')
  then have d': "d' = d\<lparr>inactive := inactive d @ [r w]\<rparr>" "dialogs_of d' = h\<lparr>dg_inactive := dg_inactive h @ [r w]\<rparr>"
    by (auto simp: dialogs_of_def)
  have keys: "distinct (map ns_id (dg_inactive h @ [r w]))" "distinct (map session_user (dg_inactive h @ [r w]))"
    using 1(1,3) by (auto simp: d' bot_ok_def bot_keys_ok_def dialogs_of_def session_user_def [abs_def])
  have "(bot_id, user_id) \<notin> active_user ` set (dg_projections h)"
    using none by (auto simp: find_projection_def find_None_iff dialogs_of_def active_user_def session_user_def)
  then have "flow_step h (h\<lparr>dg_inactive := dg_inactive h @ [r w]\<rparr>)"
    by (intro bind row appended_new keys) (simp add: row)
  from k [OF this] show ?case unfolding d'(2) by simp
qed

lemma consume_invite_flows: "flow_step (dialogs_of d) (dialogs_of (snd (consume_invite L fs bot_id user_id chat_id label token w d)))"
proof -
  let ?g = "dialogs_of d"
  have same: "flows w ?g h (tx_bind (tx_exec bot_ok step (\<lambda>w d. ((), d\<lparr>invites := f w d\<rparr>))) (\<lambda>_. tx_return x))"
    if "flow_step ?g h" for w h step f x
    by (rule flows_keep [OF _ flows_return [OF that]]) (auto simp: tx_exec_ok dialogs_of_def)
  show ?thesis
    unfolding consume_invite_def bind_user_def
    by (rule run_flows, intro flows_query)
      (auto intro!: flows_return idle flows_query flows_fail flows_lift 
          flows_bound [where bot_id = bot_id and user_id = user_id] same simp: session_user_def split: option.splits)
qed

lemma begin_activation_flows:
  "flow_step (dialogs_of d) (dialogs_of (snd (begin_activation L fs bot_id user_id wallet amount network reserve w d)))"
proof -
  let ?g = "dialogs_of d"
  have begun: "flows w ?g ?g (tx_bind (tx_exec bot_ok step (\<lambda>w d. ((), d\<lparr>attempts := attempts d @ [a w]\<rparr>))) (\<lambda>_.
        tx_exec bot_ok step' (\<lambda>w d. ((), d\<lparr>inactive := map (\<lambda>r. if ns_id r = ns_id s
                 then r\<lparr>ns_dialog_state := AWAITING_RESERVATION, ns_current_attempt_id := Some i,
                        ns_version := ns_version r + 1\<rparr> else r) (inactive d)\<rparr>))))"
    if s: "find_inactive bot_id user_id d1 = Some s" "dialogs_of d1 = ?g" "ns_dialog_state s \<in> {AWAITING_WALLET, DIALOG_REJECTED}"
      and a: "\<And>w. at_session_id (a w) = ns_id s" "\<And>w. at_status (a w) = AT_RESERVATION" "\<And>w. at_id (a w) = i"
    for w step step' s a i d1
  proof (rule flows_exec, rule flows_exec_last, goal_cases)
    case (1 d x d' d2 r d3)
    have d': "dialogs_of d2 = ?g\<lparr>dg_attempts := dg_attempts ?g @ [a w]\<rparr>"
      using 1 by (auto simp: dialogs_of_def)
    have d3: "dialogs_of d3 = ?g\<lparr>dg_attempts := dg_attempts ?g @ [a w],
        dg_inactive := map (\<lambda>r. if ns_id r = ns_id s
         then r\<lparr>ns_dialog_state := AWAITING_RESERVATION, ns_current_attempt_id := Some (at_id (a w)), ns_version := ns_version r + 1\<rparr>
         else r) (dg_inactive ?g)\<rparr>"
      using 1(5) d' by (auto simp: dialogs_of_def a)
    have "distinct (map at_id (dg_attempts ?g @ [a w]))"
      using 1(1-3) by (auto simp: bot_ok_def bot_keys_ok_def dialogs_of_def)
    moreover have "s \<in> set (dg_inactive ?g)"
      using find_Some_iff_first [OF s(1) [unfolded find_inactive_def]] s(2) by (auto simp: dialogs_of_def)
    ultimately show ?case
      unfolding d3 by (intro start s a appended_new)
  qed
  show ?thesis
    unfolding begin_activation_def Let_def
    by (rule run_flows, intro flows_query)
      (auto intro!: flows_query flows_fail flows_lift flows_insert_outbox begun split: option.splits)
qed

lemma expire_attempts_flows: "flow_step (dialogs_of d) (dialogs_of (snd (expire_attempts limit w d)))"
  unfolding expire_attempts_def Let_def
proof (rule run_flows, rule flows_exec_last, goal_cases)
  case (1 d1 r d2)
  let ?g = "dialogs_of d" and ?E = "set (due_attempts limit (db_now w) d1)"
  let ?rows = "map (\<lambda>r. if at_id r \<in> at_id ` ?E
                    then r\<lparr>at_status := AT_EXPIRED, at_failure_code := Some ''EXPIRED'',
                           at_completed_at := Some (db_now w), at_updated_at := db_now w, at_version := at_version r + 1\<rparr>
                    else r) (dg_attempts ?g)"
  have d2: "dialogs_of d2 = ?g\<lparr>dg_attempts := ?rows, dg_inactive := show_dialog (at_session_id ` ?E) DIALOG_REJECTED (dg_inactive ?g)\<rparr>"
    using 1(1,2) by (auto simp: dialogs_of_def show_dialog_def)
  have "?E \<subseteq> set (filter (attempt_due (db_now w)) (attempts d1))"
    unfolding due_attempts_def by (rule order_trans [OF set_take_subset]) simp
  then have "?E \<subseteq> set (dg_attempts ?g)" "\<forall>a\<in>?E. open_attempt a"
    using 1(1) by (auto simp: dialogs_of_def attempt_due_def open_attempt_def)
  moreover have "changes_attempts (at_id ` ?E) AT_EXPIRED (dg_attempts ?g) ?rows"
    unfolding changes_attempts_def
    by (rule exI [of _ "\<lambda>r. r\<lparr>at_status := AT_EXPIRED, at_failure_code := Some ''EXPIRED'', at_completed_at := Some (db_now w),
      at_updated_at := db_now w, at_version := at_version r + 1\<rparr>"]) simp
  ultimately show ?case
    unfolding d2 by (rule expire)
qed

text \<open>What neither binds, starts, advances nor expires leaves the three tables alone.\<close>

lemma create_invite_dialogs: "dialogs_of (snd (create_invite L fs inc command ttl invite_factory w d)) = dialogs_of d"
proof -
  have body: "dialogs_of (snd (run_tx w (tx_bind (fl_register L inc) (\<lambda>r.
         if \<not> ir_accepted r then
           (if ir_completed r \<and> ir_result_message_id r \<noteq> None
            then requeue_outbox bot_ok (the (ir_result_message_id r))
            else tx_return ())
         else
         tx_bind (fl_insert_outbox L fs 8 result) (\<lambda>_.
         tx_bind (tx_exec bot_ok step (\<lambda>w d. ((), d\<lparr>invites := invites d @ [v w d]\<rparr>))) (\<lambda>_.
         complete_inbox bot_ok mid rid)))) d)) = dialogs_of d" for result step v mid rid
  proof (rule run_tx_invariant [where P = "\<lambda>d'. dialogs_of d' = dialogs_of d"], goal_cases)
    case (2 x d' n)
    have insert: "dialogs_of (fst s') = dialogs_of (fst s)"
      if "tx_exec bot_ok step (\<lambda>w d. ((), d\<lparr>invites := invites d @ [v w d]\<rparr>)) w s = Inr (y, s')" for y s s'
      using that by (auto simp: tx_exec_ok dialogs_of_def)
    from 2 show ?case
      by (auto simp: tx_bind_ok tx_return_ok split: if_splits dest!: messages_dialogs insert)
  qed simp
  show ?thesis
    unfolding create_invite_def Let_def by (auto simp: body split: sum.split)
qed

lemma updates_dialogs:
  "dialogs_of (snd (begin_update us update_id digest w d)) = dialogs_of d"
  "dialogs_of (snd (finish_update us update_id status w d)) = dialogs_of d"
proof -
  have run: "dialogs_of (snd (run_tx w (tx_exec bot_ok step f) d)) = dialogs_of d"
    if "\<And>w d. dialogs_of (snd (f w d)) = dialogs_of d" for step and f :: "world \<Rightarrow> bot_db \<Rightarrow> 'a \<times> bot_db"
    by (rule run_tx_invariant [where P = "\<lambda>d'. dialogs_of d' = dialogs_of d"]) (use that in \<open>auto simp: tx_exec_ok\<close>)
  show "dialogs_of (snd (begin_update us update_id digest w d)) = dialogs_of d"
    unfolding begin_update_def by (rule run) (simp add: dialogs_of_def)
  let ?r = "run_tx w (tx_exec bot_ok ''update outcome'' (\<lambda>w d.
           (length (filter (processing_update us update_id) (updates d)),
            d\<lparr>updates := map (\<lambda>r. if processing_update us update_id r
               then r\<lparr>tu_status := status, tu_processed_at := Some (db_now w)\<rparr> else r) (updates d)\<rparr>))) d"
  have "dialogs_of (snd ?r) = dialogs_of d"
    by (rule run) (simp add: dialogs_of_def)
  then show "dialogs_of (snd (finish_update us update_id status w d)) = dialogs_of d"
    unfolding finish_update_def by (cases ?r) (auto split: sum.split)
qed

lemma publish_dialogs: "dialogs_of (snd (publish_batch bot_ok L pb nats js ws d)) = dialogs_of d"
  using publish_batch_sends_only [of bot_ok d L pb nats js ws] by (intro dialogs_more) (simp add: sends_only_def)

text \<open>Every transaction is a step, so every step of the bot is one of the machine.\<close>

interpretation bot_flow: bot_relation "\<lambda>d d'. flow_step (dialogs_of d) (dialogs_of d')" "\<lambda>d d'. dialogs_of d' = dialogs_of d"
  by unfold_locales
    (auto simp: create_invite_dialogs updates_dialogs publish_dialogs apply_reserved_def apply_reserve_rejected_def apply_payment_def
      complete_activation_def split: option.split intro: idle consume_invite_flows begin_activation_flows expire_attempts_flows
      intro!: with_attempt_step reserved_body_flows reserve_rejected_body_flows payment_body_flows complete_body_flows)

end
