(* ===== verification/Bot_Dialogs.thy ===== *)
theory Bot_Dialogs
  imports Bot_Flow Simulation
begin

text \<open>
  What holds in every state of the machine of \<^verbatim>\<open>Bot_Flow\<close>: a Telegram user is bound to at most one
  session or active, never both; the open attempts and the dialogs that wait for one match; settled
  attempts and active users stay. For a single user this is a small machine of phases.
\<close>

fun shown :: "attempt_status \<Rightarrow> dialog_state" where
  "shown AT_RESERVATION = AWAITING_RESERVATION"
| "shown AT_PAYMENT = AWAITING_PAYMENT"
| "shown AT_VERIFICATION = AWAITING_VERIFICATION"
| "shown _ = DIALOG_REJECTED"

definition users_ok :: "dialogs \<Rightarrow> bool" where
  "users_ok g \<longleftrightarrow>
     distinct (map ns_id (dg_inactive g)) \<and> distinct (map session_user (dg_inactive g)) \<and>
     distinct (map active_user (dg_projections g)) \<and>
     session_user ` set (dg_inactive g) \<inter> active_user ` set (dg_projections g) = {}"

definition serves :: "attempt_row \<Rightarrow> inactive_row \<Rightarrow> bool" where
  "serves a s \<longleftrightarrow> open_attempt a \<and> ns_id s = at_session_id a \<and> ns_current_attempt_id s = Some (at_id a) \<and>
     ns_dialog_state s = shown (at_status a)"

definition waiting :: "dialog_state set" where
  "waiting = {AWAITING_RESERVATION, AWAITING_PAYMENT, AWAITING_VERIFICATION}"

definition attempts_match :: "dialogs \<Rightarrow> bool" where
  "attempts_match g \<longleftrightarrow>
     distinct (map at_id (dg_attempts g)) \<and>
     (\<forall>a\<in>set (dg_attempts g). open_attempt a \<longrightarrow> (\<exists>s\<in>set (dg_inactive g). serves a s)) \<and>
     (\<forall>s\<in>set (dg_inactive g). ns_dialog_state s \<in> waiting \<longrightarrow> (\<exists>a\<in>set (dg_attempts g). serves a s))"

section \<open>Users\<close>

lemma show_dialog_map: "(\<And>r. f (r\<lparr>ns_dialog_state := state, ns_version := ns_version r + 1\<rparr>) = f r) \<Longrightarrow>
    map f (show_dialog ids state rows) = map f rows"
  by (simp add: show_dialog_def)

lemma show_dialog_keys:
  "map ns_id (show_dialog ids state rows) = map ns_id rows" "map session_user (show_dialog ids state rows) = map session_user rows"
  "session_user ` set (show_dialog ids state rows) = session_user ` set rows"
proof -
  show "map ns_id (show_dialog ids state rows) = map ns_id rows"
    by (simp add: show_dialog_map)
  show u: "map session_user (show_dialog ids state rows) = map session_user rows"
    by (simp add: show_dialog_map session_user_def)
  show "session_user ` set (show_dialog ids state rows) = session_user ` set rows"
    using arg_cong [OF u, of set] by simp
qed

lemma put_projection_users:
  "map active_user (put_projection p ps) = map active_user ps \<or> map active_user (put_projection p ps) = map active_user ps @ [active_user p]"
  by (auto simp: put_projection_def active_user_def)

lemma put_projection_active:
  "active_user ` set (put_projection p ps) \<subseteq> insert (active_user p) (active_user ` set ps)"
  "active_user ` set ps \<subseteq> active_user ` set (put_projection p ps)"
proof -
  have "set (map active_user (put_projection p ps)) = set (map active_user ps) \<or>
      set (map active_user (put_projection p ps)) = set (map active_user ps @ [active_user p])"
    using put_projection_users [of p ps] by metis
  then show "active_user ` set (put_projection p ps) \<subseteq> insert (active_user p) (active_user ` set ps)"
    "active_user ` set ps \<subseteq> active_user ` set (put_projection p ps)"
    by auto
qed

lemma flow_users: "flow_step g g' \<Longrightarrow> users_ok g \<Longrightarrow> users_ok g'"
proof (induction rule: flow_step.induct)
  case (bind s g)
  then show ?case by (auto simp: users_ok_def)
next
  case (start s g a)
  let ?f = "\<lambda>r. if ns_id r = ns_id s then r\<lparr>ns_dialog_state := AWAITING_RESERVATION,
    ns_current_attempt_id := Some (at_id a), ns_version := ns_version r + 1\<rparr> else r"
  have same: "session_user (?f r) = session_user r" "ns_id (?f r) = ns_id r" for r
    by (simp_all add: session_user_def)
  show ?case
    using start.prems by (simp add: users_ok_def comp_def image_image same del: if_image_distrib)
next
  case (finish a g s rows p)
  have other: "session_user r \<noteq> session_user s" if "r \<in> set (dg_inactive g)" "ns_id r \<noteq> at_session_id a" for r
    using finish that by (auto simp: users_ok_def distinct_map dest: inj_onD)
  have new: "active_user p \<notin> active_user ` set (dg_projections g)"
    using finish by (auto simp: users_ok_def)
  have "distinct (map active_user (put_projection p (dg_projections g)))"
    using put_projection_users [of p "dg_projections g"] finish.prems new by (auto simp: users_ok_def)
  moreover have "active_user q \<noteq> session_user r"
    if "r \<in> set (dg_inactive g)" "ns_id r \<noteq> at_session_id a" "q \<in> set (put_projection p (dg_projections g))" for r q
  proof -
    have "session_user r \<notin> insert (session_user s) (active_user ` set (dg_projections g))"
      using other that finish.prems by (auto simp: users_ok_def)
    moreover have "active_user q \<in> insert (session_user s) (active_user ` set (dg_projections g))"
      using put_projection_active(1) [of p "dg_projections g"] that(3) unfolding finish(7) by blast
    ultimately show ?thesis by metis
  qed
  ultimately show ?case
    using finish.prems by (auto simp: users_ok_def distinct_map_filter)
qed (simp_all add: users_ok_def show_dialog_keys)

section \<open>Attempts\<close>

lemma open_after: "open_attempt a \<longleftrightarrow> shown (at_status a) \<in> waiting"
  by (cases "at_status a") (auto simp: open_attempt_def waiting_def)

lemma changes_attempts_set:
  assumes "changes_attempts ids status rows rows'"
  shows "r \<in> set rows' \<longleftrightarrow> (r \<in> set rows \<and> at_id r \<notin> ids) \<or>
    (\<exists>r0\<in>set rows. at_id r0 \<in> ids \<and> at_id r = at_id r0 \<and> at_session_id r = at_session_id r0 \<and> at_status r = status \<and> r \<in> set rows')"
    and "map at_id rows' = map at_id rows"
proof -
  from assms obtain f where f: "rows' = map (\<lambda>r. if at_id r \<in> ids then f r else r) rows"
    "\<And>r. at_id (f r) = at_id r" "\<And>r. at_session_id (f r) = at_session_id r" "\<And>r. at_status (f r) = status"
    by (auto simp: changes_attempts_def)
  show "map at_id rows' = map at_id rows"
    using f(1,2) by simp
  show "r \<in> set rows' \<longleftrightarrow> (r \<in> set rows \<and> at_id r \<notin> ids) \<or>
    (\<exists>r0\<in>set rows. at_id r0 \<in> ids \<and> at_id r = at_id r0 \<and> at_session_id r = at_session_id r0 \<and> at_status r = status \<and> r \<in> set rows')"
    using f by auto
qed

lemma changed_attempt:
  assumes "changes_attempts ids status rows rows'" "r0 \<in> set rows" "at_id r0 \<in> ids"
  shows "\<exists>r\<in>set rows'. at_id r = at_id r0 \<and> at_session_id r = at_session_id r0 \<and> at_status r = status"
  using assms by (force simp: changes_attempts_def)

lemma served_once: "serves a s \<Longrightarrow> serves b s \<Longrightarrow> at_id a = at_id b"
  by (simp add: serves_def)

text \<open>The attempts of a set are moved to \<open>status\<close>, which their sessions show.\<close>

lemma attempts_match_moved:
  assumes match: "attempts_match g" and keys: "distinct (map ns_id (dg_inactive g))"
    and E: "E \<subseteq> set (dg_attempts g)" "\<And>a. a \<in> E \<Longrightarrow> open_attempt a"
    and c: "changes_attempts (at_id ` E) status (dg_attempts g) rows" and state: "state = shown status"
  shows "attempts_match (g\<lparr>dg_attempts := rows, dg_inactive := show_dialog (at_session_id ` E) state (dg_inactive g)\<rparr>)"
proof -
  have once: "a = b" if "a \<in> set (dg_attempts g)" "b \<in> set (dg_attempts g)" "at_id a = at_id b" for a b
    using match that by (auto simp: attempts_match_def distinct_map dest: inj_onD)
  have member: "a \<in> E" if "a \<in> set (dg_attempts g)" "at_id a \<in> at_id ` E" for a
    using that once E(1) by (metis imageE subsetD)
  have session: "\<exists>s\<in>set (dg_inactive g). serves a s" if "a \<in> set (dg_attempts g)" "open_attempt a" for a
    using match that by (auto simp: attempts_match_def)
  have unique: "s = t" if "s \<in> set (dg_inactive g)" "t \<in> set (dg_inactive g)" "ns_id s = ns_id t" for s t
    using keys that by (auto simp: distinct_map dest: inj_onD)
  have others: "ns_id s \<notin> at_session_id ` E" if "a \<in> set (dg_attempts g)" "at_id a \<notin> at_id ` E" "s \<in> set (dg_inactive g)" "serves a s" for a s
  proof
    assume "ns_id s \<in> at_session_id ` E"
    then obtain b where b: "b \<in> E" "at_session_id b = ns_id s" by auto
    obtain t where "t \<in> set (dg_inactive g)" "serves b t"
      using session [of b] b E by auto
    moreover from this have "t = s" using unique [of t s] that(3) b by (simp add: serves_def)
    ultimately show False using served_once [of a s b] that b by auto
  qed
  have "\<exists>s\<in>set (show_dialog (at_session_id ` E) state (dg_inactive g)). serves a s"
    if a: "a \<in> set rows" "open_attempt a" for a
  proof (cases "a \<in> set (dg_attempts g) \<and> at_id a \<notin> at_id ` E")
    case True
    then obtain s where s: "s \<in> set (dg_inactive g)" "serves a s"
      using session a(2) by auto
    moreover have "s \<in> set (show_dialog (at_session_id ` E) state (dg_inactive g))"
      using others [OF _ _ s] True s(1) by (force simp: show_dialog_def)
    ultimately show ?thesis by auto
  next
    case False
    then obtain a0 where a0: "a0 \<in> set (dg_attempts g)" "at_id a0 \<in> at_id ` E" "at_id a = at_id a0"
        "at_session_id a = at_session_id a0" "at_status a = status"
      using changes_attempts_set(1) [OF c, of a] a(1) by auto
    then have "a0 \<in> E" using member by blast
    then obtain s where s: "s \<in> set (dg_inactive g)" "serves a0 s"
      using session E(2) a0(1) by blast
    let ?s = "s\<lparr>ns_dialog_state := state, ns_version := ns_version s + 1\<rparr>"
    have "?s \<in> set (show_dialog (at_session_id ` E) state (dg_inactive g))"
      using s \<open>a0 \<in> E\<close> by (force simp: show_dialog_def serves_def)
    moreover have "serves a ?s"
      using s(2) a0 a(2) by (simp add: serves_def state)
    ultimately show ?thesis by blast
  qed
  moreover have "\<exists>a\<in>set rows. serves a s"
    if s: "s \<in> set (show_dialog (at_session_id ` E) state (dg_inactive g))" "ns_dialog_state s \<in> waiting" for s
  proof -
    from s(1) obtain s0 where s0: "s0 \<in> set (dg_inactive g)"
        "s = (if ns_id s0 \<in> at_session_id ` E then s0\<lparr>ns_dialog_state := state, ns_version := ns_version s0 + 1\<rparr> else s0)"
      by (auto simp: show_dialog_def)
    show ?thesis
    proof (cases "ns_id s0 \<in> at_session_id ` E")
      case True
      then obtain b where b: "b \<in> E" "at_session_id b = ns_id s0" by auto
      obtain t where t: "t \<in> set (dg_inactive g)" "serves b t"
        using session [of b] b E by auto
      then have "t = s0" using unique [of t s0] s0(1) b by (simp add: serves_def)
      obtain r where r: "r \<in> set rows" "at_id r = at_id b" "at_session_id r = at_session_id b" "at_status r = status"
        using changed_attempt [OF c, of b] b E by auto
      have "serves r s"
        using t(2) \<open>t = s0\<close> r s0(2) s(2) True by (simp add: serves_def open_after state)
      with r(1) show ?thesis by blast
    next
      case False
      then have "ns_dialog_state s0 \<in> waiting" using s0 s(2) by simp
      then obtain a where a: "a \<in> set (dg_attempts g)" "serves a s0"
        using match s0(1) by (auto simp: attempts_match_def)
      have "at_id a \<notin> at_id ` E"
      proof
        assume "at_id a \<in> at_id ` E"
        then have "a \<in> E" using member a(1) by blast
        with False a(2) show False by (auto simp: serves_def)
      qed
      with a(1) have "a \<in> set rows" using changes_attempts_set(1) [OF c] by blast
      with a(2) s0(2) False show ?thesis by auto
    qed
  qed
  ultimately show ?thesis
    using match changes_attempts_set(2) [OF c] by (simp add: attempts_match_def)
qed

lemma moves_open: "(from_status, status, state) \<in> moves \<Longrightarrow> from_status \<in> {AT_RESERVATION, AT_PAYMENT, AT_VERIFICATION} \<and> state = shown status"
  by (auto simp: moves_def)

lemma flow_attempts: "flow_step g g' \<Longrightarrow> users_ok g \<Longrightarrow> attempts_match g \<Longrightarrow> attempts_match g'"
proof (induction rule: flow_step.induct)
  case (bind s g)
  then show ?case by (auto simp: attempts_match_def waiting_def)
next
  case (start s g a)
  let ?f = "\<lambda>r. if ns_id r = ns_id s then r\<lparr>ns_dialog_state := AWAITING_RESERVATION,
    ns_current_attempt_id := Some (at_id a), ns_version := ns_version r + 1\<rparr> else r"
  have once: "r = s" if "r \<in> set (dg_inactive g)" "ns_id r = ns_id s" for r
    using start.hyps(1) start.prems(1) that by (auto simp: users_ok_def distinct_map dest: inj_onD)
  have a: "open_attempt a" "serves a (?f s)"
    using start.hyps by (auto simp: serves_def open_attempt_def)
  have other: "ns_id r \<noteq> ns_id s" if "serves b r" "r \<in> set (dg_inactive g)" for b r
    using that once [of r] start.hyps(2) open_after [of b] by (auto simp: serves_def waiting_def)
  have fresh: "b \<noteq> a" if "b \<in> set (dg_attempts g)" for b
    using start.hyps that by auto
  have 1: "\<exists>r\<in>?f ` set (dg_inactive g). serves b r" if "b \<in> set (dg_attempts g @ [a])" "open_attempt b" for b
  proof (cases "b = a")
    case True
    with a start.hyps(1) show ?thesis by blast
  next
    case False
    with that start.prems obtain r where "r \<in> set (dg_inactive g)" "serves b r"
      by (auto simp: attempts_match_def)
    with other [of b r] show ?thesis by force
  qed
  have 2: "\<exists>b\<in>set (dg_attempts g @ [a]). serves b r" if r: "r \<in> ?f ` set (dg_inactive g)" "ns_dialog_state r \<in> waiting" for r
  proof -
    from r(1) obtain r0 where r0: "r0 \<in> set (dg_inactive g)" "r = ?f r0" by blast
    show ?thesis
    proof (cases "ns_id r0 = ns_id s")
      case True
      with once r0 a show ?thesis by auto
    next
      case False
      then have "r = r0" using r0 by simp
      with r r0(1) start.prems(2) show ?thesis by (auto simp: attempts_match_def)
    qed
  qed
  show ?case
    using 1 2 start.prems(2) start.hyps(5) by (simp add: attempts_match_def)
next
  case (advance a g status state rows)
  then have "state = shown status" "\<And>b. b \<in> {a} \<Longrightarrow> open_attempt b"
    using moves_open [of "at_status a"] by (auto simp: open_attempt_def)
  with attempts_match_moved [of g "{a}" status rows state] advance show ?case
    by (simp add: users_ok_def)
next
  case (finish a g s rows p)
  let ?j = "at_session_id a"
  have a: "open_attempt a" using finish.hyps by (simp add: open_attempt_def)
  have idle: "attempts_match (g\<lparr>dg_attempts := rows, dg_inactive := show_dialog {?j} DIALOG_REJECTED (dg_inactive g)\<rparr>)"
    using attempts_match_moved [of g "{a}" AT_ACTIVE rows DIALOG_REJECTED] finish a by (simp add: users_ok_def)
  have kept: "set (filter (\<lambda>r. ns_id r \<noteq> ?j) (dg_inactive g)) = set (filter (\<lambda>r. ns_id r \<noteq> ?j) (show_dialog {?j} DIALOG_REJECTED (dg_inactive g)))"
    by (auto simp: show_dialog_def)
  have gone: "ns_id r \<noteq> ?j" if "serves b r" "r \<in> set (show_dialog {?j} DIALOG_REJECTED (dg_inactive g))" for b r
    using that open_after [of b] by (auto simp: serves_def show_dialog_def waiting_def split: if_splits)
  show ?case
    using idle gone unfolding attempts_match_def dialogs.simps kept by (auto simp: attempts_match_def) blast
next
  case (expire E g rows)
  then show ?case
    using attempts_match_moved [of g E AT_EXPIRED rows DIALOG_REJECTED] by (simp add: users_ok_def)
qed simp

section \<open>What stays\<close>

fun stage :: "attempt_status \<Rightarrow> nat" where
  "stage AT_RESERVATION = 0"
| "stage AT_PAYMENT = 1"
| "stage AT_VERIFICATION = 2"
| "stage _ = 3"

definition attempt_continues :: "attempt_row \<Rightarrow> attempt_row \<Rightarrow> bool" where
  "attempt_continues a b \<longleftrightarrow>
     at_id b = at_id a \<and> at_operation_id b = at_operation_id a \<and> at_session_id b = at_session_id a \<and>
     (b = a \<or> open_attempt a \<and> stage (at_status a) < stage (at_status b) \<or> at_status b = at_status a \<and> open_attempt a)"

definition projection_continues :: "projection_row \<Rightarrow> projection_row \<Rightarrow> bool" where
  "projection_continues p q \<longleftrightarrow>
     pj_session_id q = pj_session_id p \<and> active_user q = active_user p \<and> pj_authority_version p \<le> pj_authority_version q"

definition continues :: "dialogs \<Rightarrow> dialogs \<Rightarrow> bool" where
  "continues g g' \<longleftrightarrow>
     (\<forall>a\<in>set (dg_attempts g). \<exists>b\<in>set (dg_attempts g'). attempt_continues a b) \<and>
     (\<forall>p\<in>set (dg_projections g). \<exists>q\<in>set (dg_projections g'). projection_continues p q)"

lemma continues_refl: "continues g g"
  by (auto simp: continues_def attempt_continues_def projection_continues_def)

lemma attempt_continues_trans: "attempt_continues a b \<Longrightarrow> attempt_continues b c \<Longrightarrow> attempt_continues a c"
  by (auto simp: attempt_continues_def)

lemma continues_trans: "continues g g' \<Longrightarrow> continues g' g'' \<Longrightarrow> continues g g''"
proof -
  have p: "projection_continues p r" if "projection_continues p q" "projection_continues q r" for p q r
    using that by (simp add: projection_continues_def)
  show "continues g g' \<Longrightarrow> continues g' g'' \<Longrightarrow> continues g g''"
    unfolding continues_def by (meson attempt_continues_trans p)
qed

lemma changes_continue:
  assumes "changes_attempts (at_id ` E) status rows rows'" "E \<subseteq> set rows" "distinct (map at_id rows)"
    and "\<And>a. a \<in> E \<Longrightarrow> open_attempt a \<and> stage (at_status a) < stage status" "a \<in> set rows"
  shows "\<exists>b\<in>set rows'. attempt_continues a b"
proof -
  from assms(1) obtain f where f: "rows' = map (\<lambda>r. if at_id r \<in> at_id ` E then f r else r) rows"
    "\<And>r. at_id (f r) = at_id r \<and> at_session_id (f r) = at_session_id r \<and> at_operation_id (f r) = at_operation_id r \<and> at_status (f r) = status"
    by (auto simp: changes_attempts_def)
  show ?thesis
  proof (cases "at_id a \<in> at_id ` E")
    case True
    then have "a \<in> E" using assms(2,3,5) by (auto simp: distinct_map dest: inj_onD)
    with assms(4) f have "attempt_continues a (f a)"
      by (auto simp: attempt_continues_def)
    moreover have "f a \<in> set rows'"
      using f(1) assms(5) True by auto
    ultimately show ?thesis ..
  next
    case False
    with assms(5) f(1) show ?thesis
      by (auto simp: attempt_continues_def intro!: bexI [of _ a])
  qed
qed

lemma put_projection_continues: "q \<in> set ps \<Longrightarrow> \<exists>r\<in>set (put_projection p ps). projection_continues q r"
proof (cases "pj_session_id q = pj_session_id p \<and> pj_authority_version q < pj_authority_version p")
  case True
  let ?q = "q\<lparr>pj_authority_version := pj_authority_version p, pj_activated_at := pj_activated_at p\<rparr>"
  assume "q \<in> set ps"
  then have "?q \<in> set (put_projection p ps)"
    using True by (force simp: put_projection_def list_ex_iff)
  moreover have "projection_continues q ?q"
    using True by (simp add: projection_continues_def active_user_def)
  ultimately show ?thesis ..
next
  case False
  assume "q \<in> set ps"
  then have "q \<in> set (put_projection p ps)"
    using False by (force simp: put_projection_def)
  then show ?thesis by (auto simp: projection_continues_def)
qed

lemma moves_stage: "(from_status, status, state) \<in> moves \<Longrightarrow> stage from_status < stage status"
  by (auto simp: moves_def)

lemma flow_continues: "flow_step g g' \<Longrightarrow> attempts_match g \<Longrightarrow> continues g g'"
proof (induction rule: flow_step.induct)
  case (advance a g status state rows)
  then have "open_attempt a" "stage (at_status a) < stage status"
    using moves_open [of "at_status a"] moves_stage [of "at_status a"] by (auto simp: open_attempt_def)
  with advance changes_continue [of "{a}" status "dg_attempts g" rows] show ?case
    by (auto simp: continues_def attempts_match_def projection_continues_def)
next
  case (finish a g s rows p)
  with changes_continue [of "{a}" AT_ACTIVE "dg_attempts g" rows] show ?case
    by (auto simp: continues_def attempts_match_def open_attempt_def put_projection_continues)
next
  case (expire E g rows)
  have "stage (at_status a) < stage AT_EXPIRED" if "open_attempt a" for a
    using that by (auto simp: open_attempt_def)
  with expire changes_continue [of E AT_EXPIRED "dg_attempts g" rows] show ?case
    by (auto simp: continues_def attempts_match_def projection_continues_def)
qed (auto simp: continues_def attempt_continues_def projection_continues_def)

section \<open>The phases of a user\<close>

datatype user_phase = Unknown | Bound dialog_state | Active

definition user_phase_of :: "dialogs \<Rightarrow> int \<times> int \<Rightarrow> user_phase" where
  "user_phase_of g u =
     (if u \<in> active_user ` set (dg_projections g) then Active
      else case find (\<lambda>s. session_user s = u) (dg_inactive g) of None \<Rightarrow> Unknown | Some s \<Rightarrow> Bound (ns_dialog_state s))"

text \<open>
  The transitions of a user. The last one is possible only when an identifier was given twice, to an active session
  and to one that is not: then the projection found keeps its user. Session identifiers are fresh UUIDs.
\<close>

definition id_repeated :: "dialogs \<Rightarrow> bool" where
  "id_repeated g \<longleftrightarrow> (\<exists>s\<in>set (dg_inactive g). \<exists>p\<in>set (dg_projections g). ns_id s = pj_session_id p)"

inductive phase_step :: "bool \<Rightarrow> user_phase \<Rightarrow> user_phase \<Rightarrow> bool" for repeated where
  same: "phase_step repeated x x"
| invited: "phase_step repeated Unknown (Bound AWAITING_WALLET)"
| wallet: "state \<in> {AWAITING_WALLET, DIALOG_REJECTED} \<Longrightarrow> phase_step repeated (Bound state) (Bound AWAITING_RESERVATION)"
| offered: "phase_step repeated (Bound AWAITING_RESERVATION) (Bound AWAITING_PAYMENT)"
| paid: "phase_step repeated (Bound AWAITING_PAYMENT) (Bound AWAITING_VERIFICATION)"
| refused: "state \<in> waiting \<Longrightarrow> phase_step repeated (Bound state) (Bound DIALOG_REJECTED)"
| activated: "phase_step repeated (Bound AWAITING_VERIFICATION) Active"
| repeated_id: "repeated \<Longrightarrow> phase_step repeated (Bound AWAITING_VERIFICATION) Unknown"

definition flow_ok :: "dialogs \<Rightarrow> bool" where
  "flow_ok g \<longleftrightarrow> users_ok g \<and> attempts_match g"

lemma find_row:
  assumes "distinct (map k xs)" "x \<in> set xs"
  shows "find (\<lambda>y. k y = k x) xs = Some x"
  using assms by (induction xs) force+

lemma find_filter: "(\<And>x. x \<in> set xs \<Longrightarrow> P x \<Longrightarrow> Q x) \<Longrightarrow> find P (filter Q xs) = find P xs"
  by (induction xs) auto

lemma user_phase_bound: "users_ok g \<Longrightarrow> s \<in> set (dg_inactive g) \<Longrightarrow> user_phase_of g (session_user s) = Bound (ns_dialog_state s)"
  by (auto simp: user_phase_of_def users_ok_def find_row)

lemma user_phase_cases:
  obtains "u \<in> active_user ` set (dg_projections g)" "user_phase_of g u = Active"
    | s where "u \<notin> active_user ` set (dg_projections g)" "s \<in> set (dg_inactive g)" "u = session_user s"
        "user_phase_of g u = Bound (ns_dialog_state s)"
    | "u \<notin> active_user ` set (dg_projections g)" "u \<notin> session_user ` set (dg_inactive g)" "user_phase_of g u = Unknown"
proof (cases "u \<in> active_user ` set (dg_projections g)")
  case True
  with that(1) show ?thesis by (simp add: user_phase_of_def)
next
  case False
  show ?thesis
  proof (cases "find (\<lambda>s. session_user s = u) (dg_inactive g)")
    case None
    with False that(3) show ?thesis by (auto simp: user_phase_of_def find_None_iff)
  next
    case (Some s)
    with find_Some_iff_first [OF Some] False that(2) show ?thesis by (auto simp: user_phase_of_def)
  qed
qed

text \<open>A step that changes the sessions row by row changes the phases by the states of the rows.\<close>

lemma rows_phase:
  assumes "users_ok g" "dg_inactive g' = map f (dg_inactive g)" "dg_projections g' = dg_projections g"
    and f: "\<And>s. s \<in> set (dg_inactive g) \<Longrightarrow> session_user (f s) = session_user s"
    and step: "\<And>s. s \<in> set (dg_inactive g) \<Longrightarrow> phase_step repeated (Bound (ns_dialog_state s)) (Bound (ns_dialog_state (f s)))"
  shows "phase_step repeated (user_phase_of g u) (user_phase_of g' u)"
proof (cases rule: user_phase_cases [of u g])
  case 1
  with assms(3) show ?thesis by (simp add: user_phase_of_def same)
next
  case (2 s)
  have "map session_user (dg_inactive g') = map session_user (dg_inactive g)"
    using f assms(2) by simp
  then have "distinct (map session_user (dg_inactive g'))"
    using assms(1) by (simp add: users_ok_def)
  moreover have "f s \<in> set (dg_inactive g')"
    using 2 assms(2) by simp
  ultimately have "find (\<lambda>y. session_user y = session_user (f s)) (dg_inactive g') = Some (f s)"
    by (rule find_row)
  then have "user_phase_of g' u = Bound (ns_dialog_state (f s))"
    using 2 f [of s] assms(3) by (simp add: user_phase_of_def)
  with step 2 show ?thesis by simp
next
  case 3
  then have "user_phase_of g' u = Unknown"
    using assms(2,3) f by (auto simp: user_phase_of_def find_None_iff image_iff split: option.split)
  with 3 same show ?thesis by simp
qed

lemma show_dialog_phase:
  assumes "users_ok g" "dg_inactive g' = show_dialog ids state (dg_inactive g)" "dg_projections g' = dg_projections g"
    and "\<And>s. s \<in> set (dg_inactive g) \<Longrightarrow> ns_id s \<in> ids \<Longrightarrow> phase_step repeated (Bound (ns_dialog_state s)) (Bound state)"
  shows "phase_step repeated (user_phase_of g u) (user_phase_of g' u)"
  by (rule rows_phase [where f = "\<lambda>r. if ns_id r \<in> ids then r\<lparr>ns_dialog_state := state, ns_version := ns_version r + 1\<rparr> else r"])
    (use assms in \<open>auto simp: show_dialog_def session_user_def same\<close>)

text \<open>The session of an open attempt shows its status.\<close>

lemma session_shows:
  assumes "flow_ok g" "a \<in> set (dg_attempts g)" "open_attempt a" "s \<in> set (dg_inactive g)" "ns_id s = at_session_id a"
  shows "ns_dialog_state s = shown (at_status a)"
proof -
  from assms obtain t where t: "t \<in> set (dg_inactive g)" "serves a t"
    by (auto simp: flow_ok_def attempts_match_def)
  then have "t = s"
    using assms by (intro inj_onD [of ns_id "set (dg_inactive g)"]) (auto simp: flow_ok_def users_ok_def serves_def distinct_map)
  with t show ?thesis by (simp add: serves_def)
qed

lemma moves_phase: "(from_status, status, state) \<in> moves \<Longrightarrow> phase_step repeated (Bound (shown from_status)) (Bound state)"
  by (auto simp: moves_def waiting_def intro: phase_step.intros)

lemma flow_phase: "flow_step g g' \<Longrightarrow> flow_ok g \<Longrightarrow> phase_step (id_repeated g) (user_phase_of g u) (user_phase_of g' u)"
proof (induction rule: flow_step.induct)
  case (idle g)
  show ?case by (rule same)
next
  case (bind s g)
  have "find (\<lambda>r. session_user r = session_user s) (dg_inactive g) = None"
    unfolding find_None_iff using bind.hyps(4) by (metis image_eqI)
  then show ?case
    using bind by (cases "u = session_user s") (auto simp: user_phase_of_def same invited split: option.split)
next
  case (start s g a)
  have once: "r = s" if "r \<in> set (dg_inactive g)" "ns_id r = ns_id s" for r
    using start that by (auto simp: flow_ok_def users_ok_def distinct_map dest: inj_onD)
  show ?case
    by (rule rows_phase [where f = "\<lambda>r. if ns_id r = ns_id s then r\<lparr>ns_dialog_state := AWAITING_RESERVATION,
        ns_current_attempt_id := Some (at_id a), ns_version := ns_version r + 1\<rparr> else r"])
      (use start once in \<open>auto simp: flow_ok_def session_user_def intro: same wallet\<close>)
next
  case (advance a g status state rows)
  then have "open_attempt a"
    using moves_open [of "at_status a"] by (auto simp: open_attempt_def)
  then show ?case
    using advance session_shows [of g a] moves_phase [of "at_status a"]
    by (intro show_dialog_phase [where ids = "{at_session_id a}" and state = state]) (auto simp: flow_ok_def)
next
  case (expire E g rows)
  show ?case
  proof (rule show_dialog_phase [where ids = "at_session_id ` E" and state = DIALOG_REJECTED])
    fix s assume "s \<in> set (dg_inactive g)" "ns_id s \<in> at_session_id ` E"
    then show "phase_step (id_repeated g) (Bound (ns_dialog_state s)) (Bound DIALOG_REJECTED)"
      using expire session_shows [OF expire.prems] open_after by (auto intro!: refused)
  qed (use expire in \<open>auto simp: flow_ok_def\<close>)
next
  case (finish a g s rows p)
  let ?g' = "\<lparr>dg_inactive = filter (\<lambda>r. ns_id r \<noteq> at_session_id a) (dg_inactive g), dg_attempts = rows,
      dg_projections = put_projection p (dg_projections g)\<rparr>"
  show ?case
  proof (cases "u = session_user s")
    case True
    have "user_phase_of g u = Bound AWAITING_VERIFICATION"
      using user_phase_bound [of g s] session_shows [OF finish.prems] finish True by (simp add: flow_ok_def open_attempt_def)
    moreover have "find (\<lambda>r. session_user r = u) (filter (\<lambda>r. ns_id r \<noteq> at_session_id a) (dg_inactive g)) = None"
    proof -
      have "ns_id r = at_session_id a" if "r \<in> set (dg_inactive g)" "session_user r = u" for r
        using inj_onD [of session_user "set (dg_inactive g)" r s] that finish True
        by (simp add: flow_ok_def users_ok_def distinct_map)
      then show ?thesis by (auto simp: find_None_iff)
    qed
    then have "user_phase_of ?g' u \<in> {Active, Unknown}"
      by (simp add: user_phase_of_def)
    moreover have "user_phase_of ?g' u = Active" if "\<not> id_repeated g"
    proof -
      have "put_projection p (dg_projections g) = dg_projections g @ [p]"
        using that finish unfolding put_projection_def id_repeated_def list_ex_iff by metis
      then show ?thesis using finish True by (simp add: user_phase_of_def)
    qed
    ultimately show ?thesis by (cases "id_repeated g") (auto intro: phase_step.intros)
  next
    case False
    have "u \<in> active_user ` set (put_projection p (dg_projections g)) \<longleftrightarrow> u \<in> active_user ` set (dg_projections g)"
      using put_projection_active(1) [of p "dg_projections g"] put_projection_active(2) [of "dg_projections g" p] False finish(7)
      by auto
    moreover have "find (\<lambda>r. session_user r = u) (filter (\<lambda>r. ns_id r \<noteq> at_session_id a) (dg_inactive g)) =
        find (\<lambda>r. session_user r = u) (dg_inactive g)"
    proof (rule find_filter)
      show "ns_id r \<noteq> at_session_id a" if "r \<in> set (dg_inactive g)" "session_user r = u" for r
        using inj_onD [of ns_id "set (dg_inactive g)" r s] that finish False
        by (auto simp: flow_ok_def users_ok_def distinct_map)
    qed
    ultimately have "user_phase_of ?g' u = user_phase_of g u"
      by (simp add: user_phase_of_def)
    then show ?thesis by (simp add: same)
  qed
qed

end
