(* ===== verification/Bot_Liveness.thy ===== *)
theory Bot_Liveness
  imports Bot_Dialogs Sessions_Activation
begin

text \<open>
  What the bot does when nothing stands in the way: a token of an active invite binds the user who sends it.
  Each statement of the transaction is shown to keep the schema.
\<close>

definition flow_store_ready :: "flow_store \<Rightarrow> bool" where
  "flow_store_ready fs \<longleftrightarrow> keyring_ok (fs_keyring fs) \<and> length (kr_active (fs_keyring fs)) \<le> 256"

lemma fl_encrypt_total: "flow_store_ready fs \<Longrightarrow> \<exists>c. fl_encrypt L fs i table row_id column plain w = Inr c"
  using encrypt_total [of "fs_keyring fs" L w i plain "fl_aad L table row_id column"]
  by (auto simp: fl_encrypt_def flow_store_ready_def)

lemma fl_decrypt_encrypt:
  assumes "aead_laws L" "keyring_ok (fs_keyring fs)" "utf8_valid (kr_active (fs_keyring fs))"
    and "fl_encrypt L fs i table row_id column plain w = Inr c"
  shows "fl_decrypt L fs table row_id column c = Inr plain"
proof -
  obtain sealed where s: "encrypt L (fs_keyring fs) w i plain (fl_aad L table row_id column) = Inr sealed"
      "c = marshal True ciphertext_spec (ciphertext_vals sealed)"
    using assms(4) by (auto simp: fl_encrypt_def split: sum.splits)
  then show ?thesis
    using ciphertext_round_trip [OF assms(2,3) s(1)] decrypt_encrypt [OF assms(1,2) s(1)]
    by (simp add: fl_decrypt_def ct.read_back)
qed

section \<open>Binding a user\<close>

definition consumed :: "uuid \<Rightarrow> uuid \<Rightarrow> instant \<Rightarrow> invite_row \<Rightarrow> invite_row" where
  "consumed invite_id session_id now r =
     (if iv_id r = invite_id \<and> iv_status r = IV_ACTIVE
      then r\<lparr>iv_status := IV_CONSUMED, iv_consumed_at := Some now, iv_consumed_by := Some session_id\<rparr> else r)"

lemma bot_ok_session:
  assumes "bot_ok d" "inactive_row_ok s" "ns_current_attempt_id s = None" "ns_id s \<notin> ns_id ` set (inactive d)"
    and "find_inactive (ns_bot_id s) (ns_user_id s) d = None"
  shows "bot_ok (d\<lparr>inactive := inactive d @ [s]\<rparr>)"
proof -
  have "(ns_bot_id s, ns_user_id s) \<notin> (\<lambda>r. (ns_bot_id r, ns_user_id r)) ` set (inactive d)"
    using assms(5) by (auto simp: find_inactive_def find_None_iff)
  moreover have "list_all (\<lambda>r. iv_command_message_id r \<in> ib_message_id ` set (inbox d) \<and>
      iv_result_message_id r \<in> ob_message_id ` set (outbox d) \<and>
      optional (\<lambda>i. i \<in> ns_id ` set (inactive d @ [s])) (iv_consumed_by r)) (invites d)"
    using assms(1) by (auto simp: bot_ok_def bot_refs_ok_def list_all_iff optional_def split: option.splits)
  ultimately show ?thesis
    using assms by (simp add: bot_ok_def bot_keys_ok_def bot_refs_ok_def msgdb_ok_def optional_def)
qed

lemma bot_ok_consumed:
  assumes "bot_ok d" "session_id \<in> ns_id ` set (inactive d)"
  shows "bot_ok (d\<lparr>invites := map (consumed invite_id session_id now) (invites d)\<rparr>)"
proof -
  have "invite_row_ok (consumed invite_id session_id now r)" if "invite_row_ok r" for r
    using that by (auto simp: consumed_def invite_row_ok_def)
  moreover have "optional (\<lambda>i. i \<in> ns_id ` set (inactive d)) (iv_consumed_by (consumed invite_id session_id now r))"
    if "optional (\<lambda>i. i \<in> ns_id ` set (inactive d)) (iv_consumed_by r)" for r
    using that assms(2) by (auto simp: consumed_def optional_def)
  moreover have "iv_id (consumed i j t r) = iv_id r" "iv_operation_id (consumed i j t r) = iv_operation_id r"
      "iv_command_message_id (consumed i j t r) = iv_command_message_id r" "iv_token_digest (consumed i j t r) = iv_token_digest r"
      "iv_result_message_id (consumed i j t r) = iv_result_message_id r" for i j t r
    by (simp_all add: consumed_def)
  ultimately show ?thesis
    using assms(1) by (simp add: bot_ok_def bot_keys_ok_def bot_refs_ok_def msgdb_ok_def list_all_iff comp_def)
qed

text \<open>An invite the user may consume, and what the columns take of the user.\<close>

definition offers :: "lib \<Rightarrow> flow_store \<Rightarrow> instant \<Rightarrow> string \<Rightarrow> string \<Rightarrow> invite_row \<Rightarrow> bot_db \<Rightarrow> bool" where
  "offers L fs now token balance v d \<longleftrightarrow>
     find (\<lambda>r. iv_token_digest r = sha256 L token) (invites d) = Some v \<and> iv_status v = IV_ACTIVE \<and> now < iv_expires_at v \<and>
     fl_decrypt L fs ''invites'' (iv_id v) ''balance_id'' (iv_balance_ciphertext v) = Inr balance"

definition bound_row :: "lib \<Rightarrow> flow_store \<Rightarrow> int \<Rightarrow> int \<Rightarrow> int \<Rightarrow> string \<Rightarrow> string \<Rightarrow> uuid \<Rightarrow> bytes \<Rightarrow> world \<Rightarrow> inactive_row" where
  "bound_row L fs bot_id user_id chat_id label balance session_id ct w =
     \<lparr>ns_id = session_id, ns_bot_id = bot_id, ns_user_id = user_id, ns_chat_id = chat_id, ns_balance_ciphertext = ct,
      ns_balance_fingerprint = fl_fingerprint L fs balance, ns_display_label = nullif_empty label,
      ns_dialog_state = AWAITING_WALLET, ns_current_attempt_id = None, ns_expires_at = db_now w + seven_days, ns_version = 1\<rparr>"

lemma bind_user_succeeds:
  assumes "hash_sizes L" "flow_store_ready fs" "healthy w" "bot_ok d" "new_v7 w 0 = Inr session_id"
    and none: "find_inactive bot_id user_id d = None" and fresh: "session_id \<notin> ns_id ` set (inactive d)"
    and offer: "offers L fs (go_now w 1) token balance v d"
    and columns: "bigint_positive bot_id" "bigint_positive user_id" "bigint_positive chat_id" "label_ok (nullif_empty label)"
  obtains ct n where "bind_user L fs bot_id user_id chat_id label token w (d, k) =
      Inr (session_id, (d\<lparr>inactive := inactive d @ [bound_row L fs bot_id user_id chat_id label balance session_id ct w],
        invites := map (consumed (iv_id v) session_id (db_now w)) (invites d)\<rparr>, n))"
    and "bot_ok (d\<lparr>inactive := inactive d @ [bound_row L fs bot_id user_id chat_id label balance session_id ct w],
        invites := map (consumed (iv_id v) session_id (db_now w)) (invites d)\<rparr>)"
proof -
  obtain ct where ct: "fl_encrypt L fs 0 ''inactive_sessions'' session_id ''balance_id'' balance w = Inr ct"
    using fl_encrypt_total [OF assms(2)] by blast
  let ?s = "bound_row L fs bot_id user_id chat_id label balance session_id ct w"
  let ?d1 = "d\<lparr>inactive := inactive d @ [?s]\<rparr>"
  let ?d2 = "?d1\<lparr>invites := map (consumed (iv_id v) session_id (db_now w)) (invites ?d1)\<rparr>"
  have row: "inactive_row_ok ?s"
    using columns assms(1) by (simp add: inactive_row_ok_def bound_row_def fl_fingerprint_def fingerprint_def hash_sizes_def bigint_positive_def)
  have ok1: "bot_ok ?d1"
    by (rule bot_ok_session [OF assms(4) row]) (use fresh none in \<open>simp_all add: bound_row_def\<close>)
  have ok2: "bot_ok ?d2"
    by (rule bot_ok_consumed [OF ok1]) (simp add: bound_row_def)
  show thesis
    by (rule that [of ct "k + 4"])
      (use none offer assms(3,5) ct ok1 ok2 in \<open>simp_all add: bind_user_def offers_def healthy_def tx_ok
        bound_row_def consumed_def [abs_def]\<close>)
qed

lemma consume_invite_succeeds:
  assumes "hash_sizes L" "flow_store_ready fs" "healthy w" "bot_ok d" "new_v7 w 0 = Inr session_id"
    and unknown: "user_phase_of (dialogs_of d) (bot_id, user_id) = Unknown" and fresh: "session_id \<notin> ns_id ` set (inactive d)"
    and offer: "offers L fs (go_now w 1) token balance v d"
    and columns: "bigint_positive bot_id" "bigint_positive user_id" "bigint_positive chat_id" "label_ok (nullif_empty label)"
  obtains ct where "consume_invite L fs bot_id user_id chat_id label token w d =
      (Inr session_id, d\<lparr>inactive := inactive d @ [bound_row L fs bot_id user_id chat_id label balance session_id ct w],
        invites := map (consumed (iv_id v) session_id (db_now w)) (invites d)\<rparr>)"
proof -
  have none: "find_projection bot_id user_id d = None" "find_inactive bot_id user_id d = None"
    using unknown by (auto simp: user_phase_of_def find_projection_def find_inactive_def find_None_iff dialogs_of_def
      active_user_def session_user_def image_iff split: option.splits if_splits)
  obtain ct n where "bind_user L fs bot_id user_id chat_id label token w (d, 1) =
      Inr (session_id, (d\<lparr>inactive := inactive d @ [bound_row L fs bot_id user_id chat_id label balance session_id ct w],
        invites := map (consumed (iv_id v) session_id (db_now w)) (invites d)\<rparr>, n))"
    by (rule bind_user_succeeds [OF assms(1-5) none(2) fresh offer columns])
  with none(1) assms(3) show thesis
    by (intro that [of ct]) (simp add: consume_invite_def run_tx_def tx_bind_def tx_query_def healthy_def)
qed

section \<open>Creating an invite\<close>

lemma bot_ok_inbox:
  "bot_ok d \<Longrightarrow> ib_message_id r \<notin> inbox_ids d \<Longrightarrow> inbox_row_ok {PROCESSING, COMPLETED, APPLIED, REJECTED} r \<Longrightarrow>
     bot_ok (d\<lparr>inbox := inbox d @ [r]\<rparr>)"
  by (auto simp: bot_ok_def msgdb_ok_def bot_keys_ok_def bot_refs_ok_def inbox_ids_def list_all_iff)

lemma bot_ok_outbox:
  assumes "bot_ok d" "ob_message_id r \<notin> outbox_ids d" "outbox_row_ok r"
  shows "bot_ok (d\<lparr>outbox := outbox d @ [r]\<rparr>)"
proof -
  have "optional (\<lambda>i. i = j \<or> i \<in> ob_message_id ` set (outbox d)) x" if "optional (\<lambda>i. i \<in> ob_message_id ` set (outbox d)) x" for x j
    using that by (auto simp: optional_def split: option.splits)
  with assms show ?thesis
    by (auto simp: bot_ok_def msgdb_ok_def bot_keys_ok_def bot_refs_ok_def outbox_ids_def list_all_iff)
qed

lemma fl_insert_outbox_succeeds:
  assumes "aead_sizes L" "flow_store_ready fs" "healthy w" "bot_ok (fst s)" "om_message_id item \<notin> outbox_ids (fst s)"
    and "pg_text (om_subject item)" "om_kind item \<in> {''COMMAND'', ''RESULT'', ''EVENT''}" "length (om_envelope item) \<le> MaxBytes"
    and "db_now w < pg_time (om_expires_at item)"
  obtains r n where "fl_insert_outbox L fs i item w s = Inr ((), ((fst s)\<lparr>outbox := outbox (fst s) @ [r]\<rparr>, n))"
    and "ob_message_id r = om_message_id item" "ob_subject r = om_subject item" "ob_kind r = om_kind item" "ob_status r = PENDING"
    and "bot_ok ((fst s)\<lparr>outbox := outbox (fst s) @ [r]\<rparr>)"
proof -
  let ?a = "outbox_aad L Bot_Store.bot_service (om_message_id item) (om_subject item)"
  have k: "keyring_ok (fs_keyring fs)" "length (kr_active (fs_keyring fs)) \<le> 256"
    using assms(2) by (simp_all add: flow_store_ready_def)
  obtain c where c: "encrypt L (fs_keyring fs) w i (om_envelope item) ?a = Inr c"
    using encrypt_total [OF k(1)] by blast
  define e where "e = marshal True ciphertext_spec (ciphertext_vals c)"
  let ?r = "new_outbox_row (item\<lparr>om_envelope := e\<rparr>) (db_now w)"
  have e: "1 \<le> length e" "length e \<le> 400000"
    using length_sealed [OF assms(1) k c] assms(8) by (simp_all add: e_def MaxBytes_def Suc_le_eq)
  have row: "outbox_row_ok ?r"
    using e assms(6,7,9) by (simp add: outbox_row_ok_def new_outbox_row_def)
  have ok: "bot_ok ((fst s)\<lparr>outbox := outbox (fst s) @ [?r]\<rparr>)"
    by (rule bot_ok_outbox [OF assms(4) _ row]) (use assms(5) in \<open>simp add: new_outbox_row_def\<close>)
  have new: "find_outbox (om_message_id item) (fst s) = None"
    using assms(5) by (simp add: find_outbox_None)
  have "seal_outbox L (fs_keyring fs) w i Bot_Store.bot_service item = Inr (item\<lparr>om_envelope := e\<rparr>)"
    by (simp add: seal_outbox_def c e_def)
  then have "fl_insert_outbox L fs i item w s = Inr ((), ((fst s)\<lparr>outbox := outbox (fst s) @ [?r]\<rparr>, snd s + 1))"
    using assms(3) ok new by (simp add: fl_insert_outbox_def tx_bind_ok tx_lift_ok insert_outbox_ok healthy_def)
  then show thesis
    by (rule that) (use ok in \<open>simp_all add: new_outbox_row_def\<close>)
qed

lemma bot_ok_completed:
  assumes "bot_ok d"
  shows "bot_ok (d\<lparr>inbox := map (completed mid m now) (inbox d)\<rparr>)"
proof -
  have "inbox_row_ok {PROCESSING, COMPLETED, APPLIED, REJECTED} (completed mid m now r)" if "r \<in> set (inbox d)" for r
    using assms that by (auto simp: bot_ok_def msgdb_ok_def list_all_iff completed_def inbox_row_ok_def)
  moreover have "ib_message_id ` completed mid m now ` set (inbox d) = ib_message_id ` set (inbox d)"
    by (simp add: image_image)
  ultimately show ?thesis
    using assms by (simp add: bot_ok_def bot_keys_ok_def bot_refs_ok_def msgdb_ok_def list_all_iff comp_def)
qed

definition fresh_invite :: "invite_row \<Rightarrow> bot_db \<Rightarrow> bool" where
  "fresh_invite v d \<longleftrightarrow>
     (\<forall>r\<in>set (invites d). iv_id r \<noteq> iv_id v \<and> iv_operation_id r \<noteq> iv_operation_id v \<and> iv_token_digest r \<noteq> iv_token_digest v \<and>
        iv_command_message_id r \<noteq> iv_command_message_id v \<and> iv_result_message_id r \<noteq> iv_result_message_id v)"

lemma bot_ok_invite:
  "bot_ok d \<Longrightarrow> fresh_invite v d \<Longrightarrow> invite_row_ok v \<Longrightarrow> iv_consumed_by v = None \<Longrightarrow> iv_command_message_id v \<in> inbox_ids d \<Longrightarrow>
     iv_result_message_id v \<in> outbox_ids d \<Longrightarrow> bot_ok (d\<lparr>invites := invites d @ [v]\<rparr>)"
  by (auto simp: bot_ok_def msgdb_ok_def bot_keys_ok_def bot_refs_ok_def inbox_ids_def outbox_ids_def fresh_invite_def
      optional_def list_all_iff)

lemma create_invite_succeeds:
  assumes "aead_sizes L" "hash_sizes L" "flow_store_ready fs" "healthy w" "bot_ok d"
    and ids: "new_v7 w 0 = Inr invite_id" "im_message_id inc \<notin> inbox_ids d" "om_message_id result \<notin> outbox_ids d"
    and made: "factory (crypto_token w) (go_now w 1 + ttl) w = Inr result"
    and fresh: "\<forall>r\<in>set (invites d). iv_id r \<noteq> invite_id \<and> iv_operation_id r \<noteq> parse_or_nil L (ic_operation_id command) \<and>
        iv_token_digest r \<noteq> sha256 L (crypto_token w)"
    and columns: "pg_text (im_subject inc)" "pg_text (im_producer inc)" "pg_text (om_subject result)"
      "length (om_envelope result) \<le> MaxBytes" "db_now w < pg_time (om_expires_at result)"
  obtains d' v ct where "create_invite L fs inc command ttl factory w d = (Inr (), d')"
    and "invites d' = invites d @ [v]" "iv_id v = invite_id" "iv_status v = IV_ACTIVE" "iv_token_digest v = sha256 L (crypto_token w)"
      "iv_expires_at v = pg_time (go_now w 1 + ttl)" "iv_operation_id v = parse_or_nil L (ic_operation_id command)"
      "iv_balance_ciphertext v = ct" "fl_encrypt L fs 1 ''invites'' invite_id ''balance_id'' (ic_balance_id command) w = Inr ct"
      "iv_command_message_id v = im_message_id inc" "iv_result_message_id v = om_message_id result"
    and "\<exists>ob. outbox d' = outbox d @ [ob] \<and> ob_message_id ob = om_message_id result \<and> ob_subject ob = om_subject result \<and>
      ob_kind ob = ''RESULT'' \<and> ob_status ob = PENDING"
    and "\<exists>ib\<in>set (inbox d'). ib_message_id ib = im_message_id inc \<and> ib_status ib = COMPLETED \<and>
      ib_result_message_id ib = Some (om_message_id result)"
    and "bot_ok d'" "dialogs_of d' = dialogs_of d" "inbox_ids d' = insert (im_message_id inc) (inbox_ids d)"
proof -
  obtain ct0 ct where ct: "fl_encrypt L fs 0 ''invites'' invite_id ''token'' (crypto_token w) w = Inr ct0"
      "fl_encrypt L fs 1 ''invites'' invite_id ''balance_id'' (ic_balance_id command) w = Inr ct"
    using fl_encrypt_total [OF assms(3)] by metis
  define ib where "ib = \<lparr>ib_message_id = im_message_id inc, ib_subject = im_subject inc, ib_producer = im_producer inc,
      ib_payload_digest = sha256 L (im_payload inc), ib_status = PROCESSING, ib_result_message_id = None,
      ib_completed_at = None, ib_expires_at = pg_time (im_expires_at inc)\<rparr>"
  let ?d1 = "d\<lparr>inbox := inbox d @ [ib]\<rparr>"
  have ok1: "bot_ok ?d1"
    by (rule bot_ok_inbox [OF assms(5)]) (use assms(2) ids columns in \<open>simp_all add: ib_def inbox_row_ok_def hash_sizes_def\<close>)
  let ?item = "result\<lparr>om_kind := ''RESULT''\<rparr>"
  have i: "om_message_id ?item \<notin> outbox_ids (fst (?d1, 1))" "bot_ok (fst (?d1, 1))" "pg_text (om_subject ?item)"
      "om_kind ?item \<in> {''COMMAND'', ''RESULT'', ''EVENT''}" "length (om_envelope ?item) \<le> MaxBytes"
      "db_now w < pg_time (om_expires_at ?item)"
    using ids ok1 columns by (simp_all add: outbox_ids_def)
  obtain ob n where ob: "fl_insert_outbox L fs 8 ?item w (?d1, 1) = Inr ((), (?d1\<lparr>outbox := outbox d @ [ob]\<rparr>, n))"
      "ob_message_id ob = om_message_id result" "ob_subject ob = om_subject result" "ob_kind ob = ''RESULT''" "ob_status ob = PENDING"
      "bot_ok (?d1\<lparr>outbox := outbox d @ [ob]\<rparr>)"
    by (rule fl_insert_outbox_succeeds [OF assms(1,3,4) i(2,1,3-6), of 8]) (use that in simp)
  let ?d2 = "?d1\<lparr>outbox := outbox d @ [ob]\<rparr>"
  define v where "v = \<lparr>iv_id = invite_id, iv_operation_id = parse_or_nil L (ic_operation_id command),
      iv_command_message_id = im_message_id inc, iv_result_message_id = om_message_id result, iv_token_digest = sha256 L (crypto_token w),
      iv_token_ciphertext = ct0, iv_balance_ciphertext = ct, iv_balance_fingerprint = fl_fingerprint L fs (ic_balance_id command),
      iv_status = IV_ACTIVE, iv_expires_at = pg_time (go_now w 1 + ttl), iv_consumed_at = None, iv_consumed_by = None\<rparr>"
  have refs: "iv_command_message_id r \<in> inbox_ids d \<and> iv_result_message_id r \<in> outbox_ids d" if "r \<in> set (invites d)" for r
    using assms(5) that by (auto simp: bot_ok_def bot_refs_ok_def list_all_iff inbox_ids_def outbox_ids_def)
  have "fresh_invite v ?d2"
    using refs ids fresh by (fastforce simp: fresh_invite_def v_def)
  moreover have "invite_row_ok v"
    using assms(2) by (simp add: invite_row_ok_def v_def fl_fingerprint_def fingerprint_def hash_sizes_def)
  ultimately have ok3: "bot_ok (?d2\<lparr>invites := invites d @ [v]\<rparr>)"
    using bot_ok_invite [OF ob(6), of v] ob(2) by (simp add: v_def inbox_ids_def outbox_ids_def ib_def)
  let ?d3 = "?d2\<lparr>invites := invites d @ [v]\<rparr>"
  let ?d' = "?d3\<lparr>inbox := map (completed (im_message_id inc) (om_message_id result) (db_now w)) (inbox d @ [ib])\<rparr>"
  have ok': "bot_ok ?d'"
    using bot_ok_completed [OF ok3] by simp
  have ib: "is_processing (im_message_id inc) ib" "distinct (map ib_message_id (inbox ?d3))"
    using ok3 by (simp_all add: ib_def is_processing_def bot_ok_def msgdb_ok_def)
  have one: "length (filter (is_processing (im_message_id inc)) (inbox ?d3)) = 1"
    by (rule one_processing [OF ib(2) _ ib(1)]) simp
  have new: "find_inbox (im_message_id inc) d = None"
    using ids by (simp add: find_inbox_None)
  have run: "create_invite L fs inc command ttl factory w d = (Inr (), ?d')"
    using assms(4) ob(1) ok1 ok3 ok' new one ids made ct
    by (simp add: create_invite_def Let_def run_tx_Inr healthy_def tx_ok fl_register_def ib_def v_def completed_def [abs_def] del: One_nat_def)
  let ?ib = "completed (im_message_id inc) (om_message_id result) (db_now w) ib"
  have closed: "?ib \<in> set (inbox ?d')" "ib_message_id ?ib = im_message_id inc" "ib_status ?ib = COMPLETED"
      "ib_result_message_id ?ib = Some (om_message_id result)"
    by (simp_all add: completed_def is_processing_def ib_def)
  have known: "inbox_ids ?d' = insert (im_message_id inc) (inbox_ids d)"
    by (simp add: inbox_ids_def image_image ib_def)
  show thesis
    by (rule that [OF run, of v ct])
      (use ob ok' known bexI [OF _ closed(1)] closed(2-4) ct(2) in \<open>simp_all add: v_def dialogs_of_def\<close>)
qed

end
