(* ===== verification/Bot_Properties.thy ===== *)
theory Bot_Properties
  imports Bot_Liveness
begin

text \<open>
  The properties of the bot: what its runs keep of users, sessions and attempts, the life of a user as a
  small machine, and the life of an invite.
\<close>

lemma length_crypto_token: "length (crypto_token w) = 43"
  by (simp add: crypto_token_def raw_url_encode_def length_sextets rand_bytes_def)

section \<open>Runs of the bot\<close>

definition no_users :: "bot_db \<Rightarrow> bool" where
  "no_users d \<longleftrightarrow> inactive d = [] \<and> attempts d = [] \<and> projections d = []"

lemma no_users_ok: "no_users d \<Longrightarrow> flow_ok (dialogs_of d)"
  by (simp add: no_users_def dialogs_of_def flow_ok_def users_ok_def attempts_match_def)

interpretation bot_users: simulates "bot_step L conv bs us pb" "\<lambda>x y. \<forall>u. phase_step (fst x) (snd x u) (snd y u)"
    "\<lambda>d. (id_repeated (dialogs_of d), user_phase_of (dialogs_of d))" "\<lambda>d. flow_ok (dialogs_of d)"
  by unfold_locales (auto simp: flow_ok_def dest!: bot_flow.step dest: flow_users flow_attempts intro: flow_phase)

lemma runs_continue: "(bot_step L conv bs us pb)\<^sup>*\<^sup>* d d' \<Longrightarrow> flow_ok (dialogs_of d) \<Longrightarrow> continues (dialogs_of d) (dialogs_of d')"
proof (induction rule: rtranclp_induct)
  case base
  show ?case by (rule continues_refl)
next
  case (step y z)
  then have "flow_ok (dialogs_of y)" using bot_users.steps_inv by blast
  with step show ?case
    using flow_continues [OF bot_flow.step] continues_trans by (auto simp: flow_ok_def)
qed

text \<open>
  C2. In every run of the bot from a database without users: the schema is kept; a Telegram user is bound to at
  most one session or has at most one active projection, never both; every attempt that is not settled is the current one of
  its session, whose dialog shows the status of the attempt; and a session whose dialog waits for a
  reservation, a payment or a verification has such an attempt. A run is one of transactions that follow one another; two that
  overlap can break the third part (theory \<open>Bot_Race\<close>).
\<close>

theorem bot_dialogs_consistent:
  assumes "(bot_step L conv bs us pb)\<^sup>*\<^sup>* d0 d" "no_users d0" "bot_ok d0"
  shows "bot_ok d \<and> distinct (map session_user (inactive d)) \<and> distinct (map active_user (projections d)) \<and>
    session_user ` set (inactive d) \<inter> active_user ` set (projections d) = {} \<and>
    (\<forall>a\<in>set (attempts d). open_attempt a \<longrightarrow> (\<exists>s\<in>set (inactive d). serves a s)) \<and>
    (\<forall>s\<in>set (inactive d). ns_dialog_state s \<in> waiting \<longrightarrow> (\<exists>a\<in>set (attempts d). serves a s))"
proof -
  have "flow_ok (dialogs_of d)"
    using bot_users.steps_inv assms no_users_ok by blast
  moreover have "bot_ok d"
    using bot_schema.steps [OF assms(1)] assms(3) by (simp add: schema_kept_def)
  ultimately show ?thesis
    by (simp add: flow_ok_def users_ok_def attempts_match_def dialogs_of_def)
qed

text \<open>
  C14. History: between two states of a run of the bot, every attempt is still there under its operation and
  session, unchanged once settled and never back at an earlier stage, and every active user is
  still active, with an authority version that never decreases.
\<close>

theorem bot_history_final:
  assumes "(bot_step L conv bs us pb)\<^sup>*\<^sup>* d0 d" "no_users d0" "(bot_step L conv bs us pb)\<^sup>*\<^sup>* d d'"
  shows "(\<forall>a\<in>set (attempts d). \<exists>b\<in>set (attempts d'). at_id b = at_id a \<and> at_operation_id b = at_operation_id a \<and>
      at_session_id b = at_session_id a \<and> stage (at_status a) \<le> stage (at_status b) \<and> (\<not> open_attempt a \<longrightarrow> b = a)) \<and>
    (\<forall>p\<in>set (projections d). \<exists>q\<in>set (projections d'). pj_session_id q = pj_session_id p \<and> active_user q = active_user p \<and>
      pj_authority_version p \<le> pj_authority_version q)"
proof -
  have "flow_ok (dialogs_of d)"
    using bot_users.steps_inv assms(1,2) no_users_ok by blast
  then have "continues (dialogs_of d) (dialogs_of d')"
    by (rule runs_continue [OF assms(3)])
  then show ?thesis
    unfolding continues_def attempt_continues_def projection_continues_def dialogs_of_def dialogs.simps
    by (metis order_refl less_imp_le)
qed

text \<open>
  C5. The bot refines the life of a user: with every update, message, reconciliation and publication, every user
  stays in its phase or makes one move: from unknown to bound, from waiting for a wallet or refused to
  waiting for a reservation, then for a payment, then for the verification, from each of these back to
  refused, and from waiting for the verification to active (to unknown only when the identifier of an active session was
  given again to a new one).
\<close>

theorem bot_refines_phases:
  assumes "(bot_step L conv bs us pb)\<^sup>*\<^sup>* d0 d" "no_users d0" "bot_step L conv bs us pb d d'"
  shows "phase_step (id_repeated (dialogs_of d)) (user_phase_of (dialogs_of d) u) (user_phase_of (dialogs_of d') u)"
  using bot_users.step_spec [OF bot_users.steps_inv [OF assms(1) no_users_ok [OF assms(2)]] assms(3)] by (cases u) simp

section \<open>The life of an invite\<close>

lemma invite_payload_fits:
  assumes "uuid_laws L" "uuid_v7 L (ic_operation_id command)" "length (bs_username bs) \<le> 64" "rfc3339_years expires"
  shows "length (encode_invite_created
             \<lparr>id_operation_id = ic_operation_id command, id_invite = crypto_token w,
              id_bot_deep_link = ''https://t.me/'' @ bs_username bs @ ''?start='' @ crypto_token w,
              id_expires_at = format_rfc3339nano expires\<rparr>) \<le> 20000" (is "length (encode_invite_created ?p) \<le> _")
proof -
  obtain u where "uuid_parse L (ic_operation_id command) = Some u" "uuid_string L u = ic_operation_id command"
    using assms(2) by (auto simp: uuid_v7_def split: option.splits)
  then have "length (ic_operation_id command) = 36"
    using assms(1) by (metis uuid_laws_def)
  moreover have "length (format_rfc3339nano expires) \<le> 30"
    using assms(4) by (simp add: rfc3339_years_def length_format_time)
  ultimately have "struct_size invite_created_spec (invite_created_vals ?p) \<le> 20000"
    using assms(3) by (simp add: struct_size_def invite_created_spec_def invite_created_vals_def length_crypto_token)
  then show ?thesis
    using length_marshal [of True invite_created_spec "invite_created_vals ?p"]
    by (simp add: encode_invite_created_def encode_payload_def)
qed

lemma invite_names: "short_name InviteCreatedSubject" "short_name InviteCreatedType" "pg_text InviteCreatedSubject" "pg_text ''rw-invite-issuer''"
proof -
  have v: "list_all visible InviteCreatedSubject" "list_all visible InviteCreatedType" "list_all visible ''rw-invite-issuer''"
    by (simp_all add: InviteCreatedSubject_def InviteCreatedType_def visible_def byte_def)
  then show "short_name InviteCreatedSubject" "short_name InviteCreatedType"
    by (auto intro!: short_name_visible simp: InviteCreatedSubject_def InviteCreatedType_def)
  show "pg_text InviteCreatedSubject" "pg_text ''rw-invite-issuer''"
    by (rule pg_text_visible [OF v(1)], rule pg_text_visible [OF v(3)])
qed

definition invite_ttl :: "bot_service \<Rightarrow> invite_create \<Rightarrow> duration" where
  "invite_ttl bs command =
     (if ic_requested_ttl_seconds command \<noteq> 0 then ic_requested_ttl_seconds command * second else bc_invite_ttl (bs_bot bs))"

lemma invite_created:
  assumes "uuid_laws L" "signature_laws L" "aead_sizes L" "hash_sizes L" "flow_store_ready (bs_store bs)" "codec_ready (bs_codec bs)"
    and "bs_username bs \<noteq> ''''" "length (bs_username bs) \<le> 64"
    and "healthy w" "new_v7 w 0 = Inr invite_id" "new_v7 w 3 = Inr rid" "is_v7 L rid"
    and years: "rfc3339_years (go_now w 3)" "rfc3339_years (go_now w 2 + 5 * minute)" "rfc3339_years (go_now w 1 + invite_ttl bs command)"
    and clock: "go_now w 3 < go_now w 2 + 5 * minute" "db_now w < pg_time (go_now w 2 + 5 * minute)"
    and message: "codec_verify L (bs_codec bs) w data subj InviteCreateType [''rw-invite-issuer''] = Inr v"
      "decode_invite_create (vf_payload v) = Inr command" "validate_invite_create L command = Inr ()" "pg_text subj"
    and "bot_ok d" "vf_id v \<notin> inbox_ids d" "rid \<notin> outbox_ids d"
    and "\<forall>r\<in>set (invites d). iv_id r \<noteq> invite_id \<and> iv_operation_id r \<noteq> parse_or_nil L (ic_operation_id command) \<and>
        iv_token_digest r \<noteq> sha256 L (crypto_token w)"
  obtains d' r ct where "handle_invite_create L bs subj data w d = (Inr (), [], d')"
    and "invites d' = invites d @ [r]" "iv_id r = invite_id" "iv_status r = IV_ACTIVE" "iv_token_digest r = sha256 L (crypto_token w)"
      "iv_expires_at r = pg_time (go_now w 1 + invite_ttl bs command)" "iv_operation_id r = parse_or_nil L (ic_operation_id command)"
      "iv_balance_ciphertext r = ct"
      "fl_encrypt L (bs_store bs) 1 ''invites'' invite_id ''balance_id'' (ic_balance_id command) w = Inr ct"
      "iv_command_message_id r = vf_id v" "iv_result_message_id r = rid"
    and "\<exists>ob. outbox d' = outbox d @ [ob] \<and> ob_message_id ob = rid \<and> ob_subject ob = InviteCreatedSubject \<and>
      ob_kind ob = ''RESULT'' \<and> ob_status ob = PENDING"
    and "\<exists>ib\<in>set (inbox d'). ib_message_id ib = vf_id v \<and> ib_status ib = COMPLETED \<and> ib_result_message_id ib = Some rid"
    and "bot_ok d'" "dialogs_of d' = dialogs_of d"
proof -
  have v7: "uuid_v7 L (ic_operation_id command)"
    using message(3) by (auto simp: validate_invite_create_def split: if_splits)
  let ?ttl = "invite_ttl bs command"
  obtain item where sg: "codec_sign L (bs_codec bs) w 3 InviteCreatedSubject InviteCreatedType
        (parse_or_nil L (ic_operation_id command)) (vf_id v)
        (encode_invite_created \<lparr>id_operation_id = ic_operation_id command, id_invite = crypto_token w,
              id_bot_deep_link = ''https://t.me/'' @ bs_username bs @ ''?start='' @ crypto_token w,
              id_expires_at = format_rfc3339nano (go_now w 1 + ?ttl)\<rparr>) (go_now w 2 + 5 * minute) = Inr item"
      and item: "om_message_id item = rid" "om_subject item = InviteCreatedSubject" "om_expires_at item = go_now w 2 + 5 * minute"
    by (rule codec_sign_succeeds [OF assms(1,2,6,11,12) parse_or_nil_v7 [OF assms(1) v7] _ invite_names(1,2)
          invite_payload_fits [OF assms(1) v7 assms(8) years(3)] years(1,2) clock(1), of "vf_id v"])
      (use verified_id_v7 [OF assms(1) message(1)] in auto)
  have made: "invite_result_factory_of L bs v command (crypto_token w) (go_now w 1 + ?ttl) w = Inr item"
    using assms(7) sg by (simp add: invite_result_factory_of_def)
  have inc: "im_message_id (incoming_message_of v subj) = vf_id v" "im_subject (incoming_message_of v subj) = subj"
      "im_producer (incoming_message_of v subj) = ''rw-invite-issuer''"
    using verified_producer [OF message(1)] by (simp_all add: incoming_message_of_def)
  have handle: "handle_invite_create L bs subj data w d =
      (case create_invite L (bs_store bs) (incoming_message_of v subj) command ?ttl (invite_result_factory_of L bs v command) w d of
        (r, d') \<Rightarrow> (r, [], d'))"
    by (simp add: handle_invite_create_def message invite_ttl_def)
  show thesis
    by (rule create_invite_succeeds [OF assms(3-5,9) \<open>bot_ok d\<close> assms(10), of "incoming_message_of v subj" item
          "invite_result_factory_of L bs v command" ?ttl command])
      (use handle made inc item assms message invite_names codec_sign_fits [OF sg] in \<open>auto intro: that\<close>)
qed

text \<open>
  C32. A valid command of the invite issuer is answered: with a database that answers, fresh identifiers and
  working clocks, \<open>handleInviteCreate\<close> returns no error, one active invite with the digest of the new token and
  the requested expiry is added, the result is in the outbox and the command is completed with it.
\<close>

theorem invite_command_answered:
  assumes "uuid_laws L" "signature_laws L" "aead_sizes L" "hash_sizes L" "flow_store_ready (bs_store bs)" "codec_ready (bs_codec bs)"
    and "bs_username bs \<noteq> ''''" "length (bs_username bs) \<le> 64"
    and "healthy w" "new_v7 w 0 = Inr invite_id" "new_v7 w 3 = Inr rid" "is_v7 L rid"
    and "rfc3339_years (go_now w 3)" "rfc3339_years (go_now w 2 + 5 * minute)" "rfc3339_years (go_now w 1 + invite_ttl bs command)"
    and "go_now w 3 < go_now w 2 + 5 * minute" "db_now w < pg_time (go_now w 2 + 5 * minute)"
    and "codec_verify L (bs_codec bs) w data subj InviteCreateType [''rw-invite-issuer''] = Inr v"
    and "decode_invite_create (vf_payload v) = Inr command" "validate_invite_create L command = Inr ()" "pg_text subj"
    and "bot_ok d" "vf_id v \<notin> inbox_ids d" "rid \<notin> outbox_ids d"
    and "\<forall>r\<in>set (invites d). iv_id r \<noteq> invite_id \<and> iv_operation_id r \<noteq> parse_or_nil L (ic_operation_id command) \<and>
        iv_token_digest r \<noteq> sha256 L (crypto_token w)"
  shows "\<exists>d' r ob. handle_invite_create L bs subj data w d = (Inr (), [], d') \<and> invites d' = invites d @ [r] \<and>
    iv_status r = IV_ACTIVE \<and> iv_token_digest r = sha256 L (crypto_token w) \<and>
    iv_expires_at r = pg_time (go_now w 1 + invite_ttl bs command) \<and>
    outbox d' = outbox d @ [ob] \<and> ob_message_id ob = rid \<and> ob_subject ob = InviteCreatedSubject \<and> ob_status ob = PENDING \<and>
    (\<exists>ib\<in>set (inbox d'). ib_message_id ib = vf_id v \<and> ib_status ib = COMPLETED \<and> ib_result_message_id ib = Some rid)"
  by (rule invite_created [OF assms]) blast

lemma token_binds:
  assumes "hash_sizes L" "flow_store_ready (bs_store bs)" "healthy (ws 0)" "bot_ok d" "new_v7 (ws 0) 0 = Inr session_id"
    and unknown: "user_phase_of (dialogs_of d) (tm_bot_id m, tm_user_id m) = Unknown" and fresh: "session_id \<notin> ns_id ` set (inactive d)"
    and message: "parse_command (tm_text m) = (''start'', token)" "length token = 43"
    and offer: "offers L (bs_store bs) (go_now (ws 0) 1) token balance v d"
    and columns: "bigint_positive (tm_bot_id m)" "bigint_positive (tm_user_id m)" "bigint_positive (tm_chat_id m)"
      "label_ok (nullif_empty (trim_label (tm_display_label m)))"
  obtains s d' where "handle_conversation L bs m ws d = Some (Inr (text_bound (bc_usdt_network (bs_bot bs))), d')"
    and "inactive d' = inactive d @ [s]" "ns_id s = session_id" "session_user s = (tm_bot_id m, tm_user_id m)"
      "ns_dialog_state s = AWAITING_WALLET" "invites d' = map (consumed (iv_id v) session_id (db_now (ws 0))) (invites d)"
      "projections d' = projections d" "attempts d' = attempts d"
proof -
  obtain ct where run: "consume_invite L (bs_store bs) (tm_bot_id m) (tm_user_id m) (tm_chat_id m) (trim_label (tm_display_label m)) token (ws 0) d =
      (Inr session_id, d\<lparr>inactive := inactive d @ [bound_row L (bs_store bs) (tm_bot_id m) (tm_user_id m) (tm_chat_id m)
          (trim_label (tm_display_label m)) balance session_id ct (ws 0)],
        invites := map (consumed (iv_id v) session_id (db_now (ws 0))) (invites d)\<rparr>)"
    by (rule consume_invite_succeeds [OF assms(1-5) unknown fresh offer columns])
  let ?s = "bound_row L (bs_store bs) (tm_bot_id m) (tm_user_id m) (tm_chat_id m) (trim_label (tm_display_label m)) balance session_id ct (ws 0)"
  let ?d' = "d\<lparr>inactive := inactive d @ [?s], invites := map (consumed (iv_id v) session_id (db_now (ws 0))) (invites d)\<rparr>"
  have "token \<noteq> ''''" using message(2) by auto
  then have handle: "handle_conversation L bs m ws d = Some (Inr (text_bound (bc_usdt_network (bs_bot bs))), ?d')"
    using message columns run by (simp add: handle_conversation_def consume_invite_text_def bigint_positive_def)
  show thesis
    by (rule that [OF handle, of ?s]) (simp_all add: bound_row_def session_user_def)
qed

text \<open>
  C33. An invite binds the user who sends its token: the reply names the next step, the user is bound and
  asked for a wallet, and the invite is consumed by the new session.
\<close>

theorem invite_binds_user:
  assumes "hash_sizes L" "flow_store_ready (bs_store bs)" "healthy (ws 0)" "bot_ok d" "new_v7 (ws 0) 0 = Inr session_id"
    and "user_phase_of (dialogs_of d) (tm_bot_id m, tm_user_id m) = Unknown" and "session_id \<notin> ns_id ` set (inactive d)"
    and "parse_command (tm_text m) = (''start'', token)" "length token = 43"
    and "offers L (bs_store bs) (go_now (ws 0) 1) token balance v d"
    and "bigint_positive (tm_bot_id m)" "bigint_positive (tm_user_id m)" "bigint_positive (tm_chat_id m)"
      "label_ok (nullif_empty (trim_label (tm_display_label m)))"
  shows "\<exists>d'. handle_conversation L bs m ws d = Some (Inr (text_bound (bc_usdt_network (bs_bot bs))), d') \<and>
    user_phase_of (dialogs_of d') (tm_bot_id m, tm_user_id m) = Bound AWAITING_WALLET \<and>
    (\<exists>r\<in>set (invites d'). iv_id r = iv_id v \<and> iv_status r = IV_CONSUMED \<and> iv_consumed_by r = Some session_id)"
proof -
  obtain s d' where d': "handle_conversation L bs m ws d = Some (Inr (text_bound (bc_usdt_network (bs_bot bs))), d')"
      "inactive d' = inactive d @ [s]" "session_user s = (tm_bot_id m, tm_user_id m)" "ns_dialog_state s = AWAITING_WALLET"
      "invites d' = map (consumed (iv_id v) session_id (db_now (ws 0))) (invites d)" "projections d' = projections d"
    by (rule token_binds [where ws = ws, OF assms])
  have "user_phase_of (dialogs_of d') (tm_bot_id m, tm_user_id m) = Bound AWAITING_WALLET"
    using d' assms(6) by (auto simp: user_phase_of_def dialogs_of_def find_None_append split: option.splits if_splits)
  moreover have "consumed (iv_id v) session_id (db_now (ws 0)) v \<in> set (invites d')" "iv_status v = IV_ACTIVE"
    using assms(10) find_Some_iff_first by (fastforce simp: offers_def d'(5))+
  then have "\<exists>r\<in>set (invites d'). iv_id r = iv_id v \<and> iv_status r = IV_CONSUMED \<and> iv_consumed_by r = Some session_id"
    by (intro bexI [of _ "consumed (iv_id v) session_id (db_now (ws 0)) v"]) (simp_all add: consumed_def)
  ultimately show ?thesis using d'(1) by blast
qed

end
