(* ===== verification/Bot_Amounts.thy ===== *)
theory Bot_Amounts
  imports Bot_Service
begin

text \<open>
  The random amount of an activation: the loop of \<open>randomMinor\<close> ends with the first word below the
  limit, which at least half of the words are, the amount is within its bounds, and every amount has equally many words.
\<close>

definition accept_limit :: "64 word \<Rightarrow> 64 word" where
  "accept_limit span = - 1 - (- 1) mod span"

definition amount_span :: "int \<Rightarrow> int \<Rightarrow> 64 word" where
  "amount_span minimum maximum = word_of_int (maximum - minimum) + 1"

lemma unat_minus_one_64: "unat (- 1 :: 64 word) = 2 ^ 64 - 1"
  by transfer (simp add: take_bit_minus_one_eq_mask mask_eq_exp_minus_1)

lemma unat_span:
  assumes "minimum \<le> maximum" "maximum - minimum < 2 ^ 64 - 1"
  shows "int (unat (amount_span minimum maximum)) = maximum - minimum + 1" "amount_span minimum maximum \<noteq> 0"
proof -
  have "amount_span minimum maximum = word_of_int (maximum - minimum + 1)"
    by (simp add: amount_span_def)
  then have u: "uint (amount_span minimum maximum) = maximum - minimum + 1"
    by (simp only: uint_word_of_int_eq) (use assms in \<open>simp add: take_bit_int_eq_self\<close>)
  then show "int (unat (amount_span minimum maximum)) = maximum - minimum + 1"
    by (simp only: uint_nat)
  show "amount_span minimum maximum \<noteq> 0"
  proof
    assume "amount_span minimum maximum = 0"
    with u assms(1) show False by simp
  qed
qed

lemma unat_limit:
  assumes "span \<noteq> 0"
  shows "unat (accept_limit span) = (2 ^ 64 - 1) div unat span * unat span" "2 ^ 63 \<le> unat (accept_limit span)"
proof -
  have le: "(- 1 :: 64 word) mod span \<le> - 1" by simp
  have "unat (accept_limit span) = (2 ^ 64 - 1) - (2 ^ 64 - 1) mod unat span"
    unfolding accept_limit_def unat_sub [OF le] unat_mod unat_minus_one_64 ..
  also have "\<dots> = (2 ^ 64 - 1) div unat span * unat span"
    by (simp add: minus_mod_eq_div_mult)
  finally show eq: "unat (accept_limit span) = (2 ^ 64 - 1) div unat span * unat span" .
  have s: "0 < unat span" "unat span < 2 ^ 64"
    using assms unsigned_less [where 'a = nat, of span] by (simp_all add: unat_gt_0)
  show "2 ^ 63 \<le> unat (accept_limit span)"
  proof (cases "unat span \<le> 2 ^ 63")
    case True
    define q r :: nat where "q = (2 ^ 64 - 1) div unat span * unat span" and "r = (2 ^ 64 - 1) mod unat span"
    have "q + r = 2 ^ 64 - 1" "r < unat span"
      using s(1) unfolding q_def r_def by (rule_tac [2] mod_less_divisor) (simp_all only: div_mult_mod_eq)
    then have "2 ^ 63 \<le> q"
      using True by simp
    then show ?thesis unfolding eq q_def .
  next
    case False
    have "1 \<le> (2 ^ 64 - 1) div unat span"
      using s by (simp add: less_eq_div_iff_mult_less_eq)
    then have "1 * unat span \<le> (2 ^ 64 - 1) div unat span * unat span"
      by (rule mult_le_mono1)
    then have "unat span \<le> unat (accept_limit span)"
      unfolding eq mult_1 .
    with False show ?thesis by simp
  qed
qed

section \<open>The loop\<close>

lemma draw_below_Some:
  assumes "draw_below limit draws i = Some x"
  shows "x < limit \<and> (\<exists>j\<ge>i. x = draws j)"
proof (rule draw_below.raw_induct [where P = "\<lambda>limit draws i x. x < limit \<and> (\<exists>j\<ge>i. x = draws j)", OF _ assms])
  fix f :: "64 word \<Rightarrow> (nat \<Rightarrow> 64 word) \<Rightarrow> nat \<Rightarrow> (64 word) option" and limit draws i x
  assume IH: "\<And>limit draws i x. f limit draws i = Some x \<Longrightarrow>
      x < limit \<and> (\<exists>j\<ge>i. x = draws j)"
    and step: "(if draws i < limit then Some (draws i) else f limit draws (i + 1)) = Some x"
  show "x < limit \<and> (\<exists>j\<ge>i. x = draws j)"
  proof (cases "draws i < limit")
    case True
    with step show ?thesis by auto
  next
    case False
    with step have "x < limit \<and> (\<exists>j\<ge>i + 1. x = draws j)"
      by (intro IH) simp
    then obtain j where "x < limit" "i \<le> j" "x = draws j" by auto
    then show ?thesis by blast
  qed
qed

lemma draw_below_finds: "draws (i + n) < limit \<Longrightarrow> draw_below limit draws i \<noteq> None"
proof (induction n arbitrary: i)
  case 0
  then show ?case by (simp add: draw_below.simps)
next
  case (Suc n)
  then show ?case
    using Suc.IH [of "i + 1"] draw_below.simps [of limit draws i] by (auto split: if_splits)
qed

section \<open>The amount\<close>

lemma limited_draw:
  assumes "draw_below limit draws 0 = Some x"
  shows "x < limit"
  using draw_below_Some [OF assms] by simp

lemma amount_in_range:
  assumes "minimum \<le> maximum" "- (2 ^ 63) \<le> minimum" "maximum < 2 ^ 63" "maximum - minimum < 2 ^ 64 - 1"
  shows "sint (word_of_int minimum + x mod amount_span minimum maximum :: 64 word) = minimum + uint (x mod amount_span minimum maximum)"
    and "minimum + uint (x mod amount_span minimum maximum) \<le> maximum"
proof -
  let ?m = "x mod amount_span minimum maximum"
  have "unat x mod unat (amount_span minimum maximum) < unat (amount_span minimum maximum)"
    using unat_span(2) [OF assms(1,4)] by (intro mod_less_divisor) (simp add: unat_gt_0)
  then have "unat ?m < unat (amount_span minimum maximum)"
    by (simp only: unat_mod)
  then have m: "0 \<le> uint ?m" "uint ?m \<le> maximum - minimum"
    using unat_span(1) [OF assms(1,4)] by (simp_all only: uint_nat)
  then show "minimum + uint ?m \<le> maximum" by simp
  have "word_of_int minimum + ?m = word_of_int (minimum + uint ?m)"
    by simp
  moreover have "sint (word_of_int k :: 64 word) = k" if "- (2 ^ 63) \<le> k" "k < 2 ^ 63" for k
    unfolding sint_sbintrunc' using that by (intro signed_take_bit_int_eq_self) simp_all
  moreover have "- (2 ^ 63) \<le> minimum + uint ?m" "minimum + uint ?m < 2 ^ 63"
    using assms m by linarith+
  ultimately show "sint (word_of_int minimum + ?m :: 64 word) = minimum + uint ?m"
    by metis
qed

lemma random_minor_eq:
  assumes "minimum \<le> maximum" "- (2 ^ 63) \<le> minimum" "maximum < 2 ^ 63" "maximum - minimum < 2 ^ 64 - 1"
  shows "random_minor minimum maximum draws =
    map_option (\<lambda>x. Inr (minimum + uint (x mod amount_span minimum maximum)))
      (draw_below (accept_limit (amount_span minimum maximum)) draws 0)"
  using assms(1) unat_span(2) [OF assms(1,4)] amount_in_range(1) [OF assms]
  by (simp add: random_minor_def Let_def accept_limit_def amount_span_def split: option.split)

text \<open>How many words give one amount.\<close>

lemma residues:
  assumes "0 < (n::nat)" "k < n"
  shows "card {x. x < q * n \<and> x mod n = k} = q"
proof -
  have "{x. x < q * n \<and> x mod n = k} = (\<lambda>i. i * n + k) ` {..<q}"
  proof (intro equalityI subsetI)
    fix x assume "x \<in> {x. x < q * n \<and> x mod n = k}"
    then have "x = (x div n) * n + k" "x div n < q"
      using div_mult_mod_eq [of x n] assms(1) by (auto simp: less_mult_imp_div_less)
    then show "x \<in> (\<lambda>i. i * n + k) ` {..<q}" by blast
  next
    fix x assume "x \<in> (\<lambda>i. i * n + k) ` {..<q}"
    then obtain i where i: "i < q" "x = i * n + k" by auto
    have "i * n + k < (i + 1) * n" using assms(2) by simp
    also have "\<dots> \<le> q * n" using i(1) by (intro mult_le_mono1) simp
    finally show "x \<in> {x. x < q * n \<and> x mod n = k}" using i assms(2) by simp
  qed
  moreover have "inj_on (\<lambda>i. i * n + k) {..<q}"
    using assms(1) by (auto simp: inj_on_def)
  ultimately show ?thesis by (simp add: card_image)
qed

lemma words_below: "card {x :: 64 word. x < limit \<and> P (unat x)} = card {n. n < unat limit \<and> P n}"
proof -
  have "unat ` {x :: 64 word. x < limit \<and> P (unat x)} = {n. n < unat limit \<and> P n}"
  proof (intro equalityI subsetI)
    fix n assume n: "n \<in> {n. n < unat limit \<and> P n}"
    then have "n < 2 ^ 64" using unsigned_less [where 'a = nat, of limit] by simp
    then have "unat (word_of_nat n :: 64 word) = n"
      by (simp add: unat_of_nat take_bit_nat_eq_self)
    with n show "n \<in> unat ` {x :: 64 word. x < limit \<and> P (unat x)}"
      by (intro image_eqI [of _ _ "word_of_nat n"]) (simp_all add: word_less_nat_alt)
  qed (auto simp: word_less_nat_alt)
  moreover have "inj_on unat {x :: 64 word. x < limit \<and> P (unat x)}"
    by (rule inj_onI) (rule unsigned_word_eqI)
  ultimately show ?thesis using card_image [of unat "{x :: 64 word. x < limit \<and> P (unat x)}"] by simp
qed

text \<open>
  C35. \<open>randomMinor\<close> ends: for two int64 bounds in order that do not span all values, the loop returns an
  amount exactly when one of the random words lies below the limit, and at least half of all words do.
\<close>

theorem random_amount_ends:
  assumes "minimum \<le> maximum" "- (2 ^ 63) \<le> minimum" "maximum < 2 ^ 63" "maximum - minimum < 2 ^ 64 - 1"
  shows "(random_minor minimum maximum draws \<noteq> None \<longleftrightarrow> (\<exists>i. draws i < accept_limit (amount_span minimum maximum))) \<and>
    2 ^ 63 \<le> unat (accept_limit (amount_span minimum maximum))"
proof
  let ?l = "accept_limit (amount_span minimum maximum)"
  have "draw_below ?l draws 0 \<noteq> None \<longleftrightarrow> (\<exists>i. draws i < ?l)"
    using draw_below_Some [of ?l draws 0] draw_below_finds [of draws 0 _ ?l] by fastforce
  then show "random_minor minimum maximum draws \<noteq> None \<longleftrightarrow> (\<exists>i. draws i < ?l)"
    by (simp add: random_minor_eq [OF assms])
  show "2 ^ 63 \<le> unat ?l"
    by (rule unat_limit(2) [OF unat_span(2) [OF assms(1,4)]])
qed

lemma random_amount_ends_witness:
  "\<exists>x. random_minor 100 200 (\<lambda>i. if i = 0 then - 1 else 5) = Some x"
proof -
  let ?d = "\<lambda>i :: nat. if i = 0 then - 1 else 5 :: 64 word" and ?l = "accept_limit (amount_span 100 200)"
  have ends: "random_minor 100 200 ?d \<noteq> None \<longleftrightarrow> (\<exists>i. ?d i < ?l)" and l: "2 ^ 63 \<le> unat ?l"
    using random_amount_ends [of 100 200 ?d] by auto
  have "?d 1 < ?l"
    using l by (simp add: word_less_nat_alt)
  then have "random_minor 100 200 ?d \<noteq> None"
    unfolding ends by (rule exI [of _ 1])
  then show ?thesis by simp
qed

text \<open>
  C36. The amount is fair: what \<open>randomMinor\<close> returns lies within its bounds, and every amount between the bounds is
  returned for equally many random words.
\<close>

theorem random_amount_fair:
  assumes "minimum \<le> maximum" "- (2 ^ 63) \<le> minimum" "maximum < 2 ^ 63" "maximum - minimum < 2 ^ 64 - 1"
  shows "(\<forall>draws x. random_minor minimum maximum draws = Some x \<longrightarrow> (\<exists>v. x = Inr v \<and> minimum \<le> v \<and> v \<le> maximum)) \<and>
    (\<forall>v\<in>{minimum..maximum}. card {x. random_minor minimum maximum (\<lambda>_. x) = Some (Inr v)} = (2 ^ 64 - 1) div nat (maximum - minimum + 1))"
proof (intro conjI allI ballI impI)
  let ?s = "amount_span minimum maximum"
  fix draws x
  assume "random_minor minimum maximum draws = Some x"
  then obtain y where "x = Inr (minimum + uint (y mod ?s))"
    by (auto simp: random_minor_eq [OF assms])
  with amount_in_range(2) [OF assms, of y] show "\<exists>v. x = Inr v \<and> minimum \<le> v \<and> v \<le> maximum"
    by simp
next
  let ?s = "amount_span minimum maximum"
  fix v assume v: "v \<in> {minimum..maximum}"
  let ?l = "accept_limit ?s" and ?k = "nat (v - minimum)" and ?n = "nat (maximum - minimum + 1)"
  have n: "unat ?s = ?n"
    using unat_span(1) [OF assms(1,4)] by (metis nat_int)
  have "draw_below ?l (\<lambda>_. x) 0 = (if x < ?l then Some x else None)" for x
  proof (cases "x < ?l")
    case True
    then show ?thesis by (subst draw_below.simps) simp
  next
    case False
    then show ?thesis using draw_below_Some [of ?l "\<lambda>_. x" 0] by (cases "draw_below ?l (\<lambda>_. x) 0") auto
  qed
  then have "{x. random_minor minimum maximum (\<lambda>_. x) = Some (Inr v)} = {x. x < ?l \<and> minimum + uint (x mod ?s) = v}"
    by (auto simp: random_minor_eq [OF assms] split: if_splits)
  also have "\<dots> = {x. x < ?l \<and> unat x mod ?n = ?k}"
  proof -
    have "minimum + uint (x mod ?s) = v \<longleftrightarrow> unat x mod ?n = ?k" for x
      using v by (auto simp: uint_nat unat_mod n)
    then show ?thesis by simp
  qed
  also have "card \<dots> = card {i. i < unat ?l \<and> i mod ?n = ?k}"
    by (rule words_below)
  also have "\<dots> = (2 ^ 64 - 1) div ?n"
    unfolding unat_limit(1) [OF unat_span(2) [OF assms(1,4)]] n using v assms(1) by (intro residues) auto
  finally show "card {x. random_minor minimum maximum (\<lambda>_. x) = Some (Inr v)} = (2 ^ 64 - 1) div ?n" .
qed

lemma random_amount_fair_witness:
  "card {x. random_minor 100 200 (\<lambda>_. x) = Some (Inr 150)} = (2 ^ 64 - 1) div 101"
  using random_amount_fair [of 100 200] by simp

end
