(* ===== verification/Bot_Records.thy ===== *)
theory Bot_Records
  imports Bot_Invariants
begin

text \<open>
  The records of the bot are final: messages, invites and Telegram updates stay, what is settled stays as it
  is. So an invite is consumed once, and an update that was begun is never handled again.
\<close>

definition update_le :: "update_row \<Rightarrow> update_row \<Rightarrow> bool" where
  "update_le r r' \<longleftrightarrow>
     tu_transport r' = tu_transport r \<and> tu_update_id r' = tu_update_id r \<and> tu_payload_digest r' = tu_payload_digest r \<and>
     (tu_status r \<noteq> UPDATE_PROCESSING \<longrightarrow> r' = r)"

definition invite_le :: "invite_row \<Rightarrow> invite_row \<Rightarrow> bool" where
  "invite_le r r' \<longleftrightarrow>
     iv_id r' = iv_id r \<and> iv_operation_id r' = iv_operation_id r \<and> iv_token_digest r' = iv_token_digest r \<and>
     iv_balance_ciphertext r' = iv_balance_ciphertext r \<and> iv_expires_at r' = iv_expires_at r \<and>
     (iv_status r = IV_CONSUMED \<longrightarrow> iv_status r' = IV_CONSUMED \<and> iv_consumed_at r' = iv_consumed_at r)"

definition bot_le :: "bot_db \<Rightarrow> bot_db \<Rightarrow> bool" where
  "bot_le d d' \<longleftrightarrow>
     rows_grow inbox_le (inbox d) (inbox d') \<and> rows_grow outbox_le (outbox d) (outbox d') \<and>
     rows_grow invite_le (invites d) (invites d') \<and> rows_grow update_le (updates d) (updates d')"

lemma row_le_refl [simp]: "update_le r r" "invite_le v v"
  by (simp_all add: update_le_def invite_le_def)

lemma row_le_trans: "update_le a b \<Longrightarrow> update_le b c \<Longrightarrow> update_le a c" "invite_le u v \<Longrightarrow> invite_le v x \<Longrightarrow> invite_le u x"
  by (auto simp: update_le_def invite_le_def)

lemma bot_le_refl [simp]: "bot_le d d"
  by (simp add: bot_le_def rows_grow_refl)

lemma bot_le_pre [simp, intro]: "reflp bot_le" "transp bot_le"
proof -
  show "reflp bot_le" by (simp add: reflp_def)
  show "transp bot_le"
    unfolding transp_def bot_le_def
    using rows_grow_trans [of inbox_le] rows_grow_trans [of outbox_le] rows_grow_trans [of invite_le] rows_grow_trans [of update_le]
      inbox_le_trans outbox_le_trans row_le_trans
    by (metis (no_types, lifting))
qed

lemma bot_more_tables:
  assumes "msgdb.more d' = msgdb.more d"
  shows "invites d' = invites d" "updates d' = updates d"
proof -
  have *: "d' = d\<lparr>inbox := inbox d', outbox := outbox d'\<rparr>"
    by (rule msgdb.equality) (simp_all add: assms)
  show "invites d' = invites d" "updates d' = updates d"
    using arg_cong [OF *, of invites] arg_cong [OF *, of updates] by simp_all
qed

lemma msg_le_bot_le: "msg_le d d' \<Longrightarrow> bot_le d d'"
  using bot_more_tables [of d' d] by (simp add: msg_le_def bot_le_def rows_grow_refl)

lemma bot_msg_keeps: "keeps msg_le m \<Longrightarrow> keeps bot_le m"
  unfolding keeps_def by (blast intro: msg_le_bot_le)

lemma same_records: "inbox d' = inbox d \<Longrightarrow> outbox d' = outbox d \<Longrightarrow> rows_grow invite_le (invites d) (invites d') \<Longrightarrow>
    rows_grow update_le (updates d) (updates d') \<Longrightarrow> bot_le d d'"
  by (simp add: bot_le_def rows_grow_refl)

lemmas bot_le_base = keeps_bind [OF bot_le_pre(2)] keeps_return [OF bot_le_pre(1)] keeps_lift [OF bot_le_pre(1)]
  keeps_query [OF bot_le_pre(1)] keeps_fail keeps_if keeps_option keeps_sum keeps_prod
  register_inbox_keeps [THEN bot_msg_keeps] inbox_updates_keep [THEN bot_msg_keeps] outbox_updates_keep [THEN bot_msg_keeps]

lemma bot_parts_le:
  "keeps bot_le (fl_register L inc)" "keeps bot_le (fl_insert_outbox L fs i item)" "keeps bot_le (session_row_of j)"
  "keeps bot_le (update_attempt u f)" "keeps bot_le (set_dialog_state j state)" "keeps bot_le (reject_message inc)"
proof -
  have "keeps bot_le (tx_exec bot_ok step (\<lambda>w d. ((), d\<lparr>attempts := a w d\<rparr>)))"
    "keeps bot_le (tx_exec bot_ok step (\<lambda>w d. ((), d\<lparr>inactive := s w d\<rparr>)))" for step a s
    by (auto intro!: keeps_exec same_records rows_grow_refl)
  then show "keeps bot_le (update_attempt u f)" "keeps bot_le (set_dialog_state j state)"
    unfolding update_attempt_def set_dialog_state_def by simp_all
qed (unfold fl_register_def fl_insert_outbox_def session_row_of_def reject_message_def, (intro bot_le_base)+)

lemma bot_execs_le:
  "keeps bot_le (tx_exec bot_ok step (\<lambda>w d. ((), d\<lparr>attempts := a w d\<rparr>)))"
  "keeps bot_le (tx_exec bot_ok step (\<lambda>w d. ((), d\<lparr>inactive := s w d\<rparr>)))"
  "keeps bot_le (tx_exec bot_ok step (\<lambda>w d. ((), d\<lparr>projections := p w d\<rparr>)))"
  "keeps bot_le (tx_exec bot_ok step (\<lambda>w d. ((), d\<lparr>invites := invites d @ v w d\<rparr>)))"
  "keeps bot_le (tx_exec bot_ok step (\<lambda>w d. ((), delete_session j d)))"
  by (auto intro!: keeps_exec same_records rows_grow_refl rows_grow_append rows_grow_map simp: delete_session_def invite_le_def)

lemma bot_bodies_le:
  "keeps bot_le (reserved_body L fs inc result operation_id network attempt)"
  "keeps bot_le (reserve_rejected_body inc refusal attempt)"
  "keeps bot_le (payment_body L fs inc payment operation_id factory attempt)"
  "keeps bot_le (complete_body L fs inc outcome attempt)"
  unfolding reserved_body_def reserve_rejected_body_def payment_body_def complete_body_def Let_def
  by (intro bot_le_base bot_parts_le bot_execs_le)+

lemma with_attempt_le:
  "(\<And>attempt. keeps bot_le (body attempt)) \<Longrightarrow> bot_le d (snd (run_tx w (with_attempt L inc operation_id body) d))"
  unfolding with_attempt_def by (intro run_tx_keeps [OF bot_le_pre(1)] bot_le_base bot_parts_le)

interpretation bot_records: bot_preorder bot_le bot_le
proof unfold_locales
  show "bot_le d d" for d by simp
  show "bot_le a b \<Longrightarrow> bot_le b c \<Longrightarrow> bot_le a c" for a b c
    using bot_le_pre(2) by (rule transpD)
  then show "bot_le a b \<Longrightarrow> bot_le b c \<Longrightarrow> bot_le c d \<Longrightarrow> bot_le a d" for a b c d by blast
  note transaction = run_tx_keeps [OF bot_le_pre(1)] bot_le_base bot_parts_le bot_execs_le
  show "bot_le d (snd (create_invite L fs inc command ttl invite_factory w d))" for L fs inc command ttl invite_factory w d
    unfolding create_invite_def Let_def by (auto split: sum.split intro!: transaction)
  have consume: "keeps bot_le (tx_exec bot_ok step (\<lambda>w d. ((), d\<lparr>invites := map (\<lambda>r. if iv_id r = i \<and> iv_status r = IV_ACTIVE
      then r\<lparr>iv_status := IV_CONSUMED, iv_consumed_at := Some (db_now w), iv_consumed_by := Some j\<rparr> else r) (invites d)\<rparr>)))" for step i j
    by (auto intro!: keeps_exec same_records rows_grow_refl rows_grow_map simp: invite_le_def)
  show "bot_le d (snd (consume_invite L fs bot_id user_id chat_id label token w d))" for L fs bot_id user_id chat_id label token w d
    unfolding consume_invite_def bind_user_def by (intro transaction consume)
  show "bot_le d (snd (begin_activation L fs bot_id user_id wallet amount network reserve w d))"
    for L fs bot_id user_id wallet amount network reserve w d
    unfolding begin_activation_def Let_def by (intro transaction)
  show "bot_le d (snd (apply_reserved L fs inc result network w d))" for L fs inc result network w d
    unfolding apply_reserved_def by (auto split: option.split intro!: with_attempt_le bot_bodies_le)
  show "bot_le d (snd (apply_reserve_rejected L inc refusal w d))" for L inc refusal w d
    unfolding apply_reserve_rejected_def by (auto split: option.split intro!: with_attempt_le bot_bodies_le)
  show "bot_le d (snd (apply_payment L fs inc payment command_factory w d))" for L fs inc payment command_factory w d
    unfolding apply_payment_def by (auto split: option.split intro!: with_attempt_le bot_bodies_le)
  show "bot_le d (snd (complete_activation L fs inc outcome w d))" for L fs inc outcome w d
    unfolding complete_activation_def by (auto split: option.split intro!: with_attempt_le bot_bodies_le)
  show "bot_le d (snd (expire_attempts limit w d))" for limit w d
    unfolding expire_attempts_def Let_def by (intro run_tx_keeps [OF bot_le_pre(1)] keeps_exec) (auto intro!: same_records rows_grow_refl)
  show "bot_le d (snd (begin_update us update_id digest w d))" for us update_id digest w d
    unfolding begin_update_def by (intro run_tx_keeps [OF bot_le_pre(1)] keeps_exec) (auto intro!: same_records rows_grow_refl rows_grow_append)
  show "bot_le d (snd (finish_update us update_id status w d))" for us update_id status w d
  proof -
    let ?r = "run_tx w (tx_exec bot_ok ''update outcome'' (\<lambda>w d.
           (length (filter (processing_update us update_id) (updates d)),
            d\<lparr>updates := map (\<lambda>r. if processing_update us update_id r
               then r\<lparr>tu_status := status, tu_processed_at := Some (db_now w)\<rparr> else r) (updates d)\<rparr>))) d"
    have "bot_le d (snd ?r)"
      by (intro run_tx_keeps [OF bot_le_pre(1)] keeps_exec)
        (auto intro!: same_records rows_grow_refl rows_grow_map simp: update_le_def processing_update_def)
    then show ?thesis
      unfolding finish_update_def by (cases ?r) (auto split: sum.split)
  qed
  show "bot_le d (snd (publish_batch bot_ok L pb nats js ws d))" for L pb nats js ws d
    by (rule msg_le_bot_le) (rule bot_messages.publish_batch_monotone)
qed

end
