(* ===== verification/Sample_Bot.thy ===== *)
theory Sample_Bot
  imports Bot_Properties Sample_Activation
begin

text \<open>
  A concrete bot, an invite created for it and a user who sends the token: the instances of the properties of
  the bot are states of this conversation.
\<close>

definition sample_issuer_codec :: codec where
  "sample_issuer_codec = sample_codec\<lparr>cd_producer := ''rw-invite-issuer'', cd_key_id := ''issuer-1''\<rparr>"

definition sample_bot_codec :: codec where
  "sample_bot_codec = sample_codec\<lparr>cd_trusted := [map_key ''rw-invite-issuer'' ''issuer-1'' \<mapsto>
       \<lparr>tk_producer = ''rw-invite-issuer'', tk_key_id = ''issuer-1'', tk_public_key = replicate 32 CHR ''k'',
        tk_valid_from = 1600000000000000000, tk_valid_until = 2000000000000000000\<rparr>,
      map_key ''rw-topup'' ''topup-1'' \<mapsto>
       \<lparr>tk_producer = ''rw-topup'', tk_key_id = ''topup-1'', tk_public_key = replicate 32 CHR ''k'',
        tk_valid_from = 1600000000000000000, tk_valid_until = 2000000000000000000\<rparr>]\<rparr>"

definition sample_bot :: Bot_Service.bot_service where
  "sample_bot =
     \<lparr>bs_store = \<lparr>fs_keyring = sample_keyring, fs_fingerprint_key = replicate 32 CHR ''f''\<rparr>, bs_codec = sample_bot_codec,
      bs_bot = \<lparr>bc_telegram_mode = ''direct_polling'', bc_telegram_bot_id = 1, bc_telegram_bot_username = ''rw_bot'',
        bc_telegram_token_file = '''', bc_telegram_token = '''', bc_webhook_public_url = '''', bc_webhook_secret_file = '''',
        bc_poll_timeout = 30 * second, bc_invite_ttl = 24 * hour, bc_usdt_network = ''tron'', bc_usdt_scale = 6,
        bc_activation_amount_min = 100, bc_activation_amount_max = 200\<rparr>,
      bs_reconcile_batch = 10, bs_messenger = True, bs_bot_id = 1, bs_username = ''rw_bot''\<rparr>"

definition sample_bot_publisher :: publisher where
  "sample_bot_publisher = sample_publisher\<lparr>pb_service := Bot_Store.bot_service\<rparr>"

definition sample_updates :: update_store where
  "sample_updates = \<lparr>us_transport = ''direct_polling''\<rparr>"

definition empty_bot :: bot_db where
  "empty_bot = \<lparr>inbox = [], outbox = [], invites = [], inactive = [], attempts = [], projections = [], updates = []\<rparr>"

definition sample_invite :: invite_create where
  "sample_invite = \<lparr>ic_operation_id = sample_id 100, ic_balance_id = ''balance'', ic_requested_ttl_seconds = 0\<rparr>"

definition sample_invite_bytes :: bytes where
  "sample_invite_bytes = sample_bytes sample_issuer_codec 20 InviteCreateSubject InviteCreateType (encode_invite_create sample_invite)"

definition sample_invited :: bot_db where
  "sample_invited = snd (snd (handle_invite_create sample_lib sample_bot InviteCreateSubject sample_invite_bytes sample_world empty_bot))"

definition sample_token :: string where
  "sample_token = crypto_token sample_world"

definition sample_start :: telegram_message where
  "sample_start = \<lparr>tm_update_id = 7, tm_bot_id = 1, tm_user_id = 2, tm_chat_id = 3, tm_chat_type = ''private'',
     tm_text = ''/start '' @ sample_token, tm_display_label = ''label'', tm_payload_digest = replicate 32 CHR ''d''\<rparr>"

lemma sample_token_parsed: "parse_command (tm_text sample_start) = (''start'', sample_token)"
  by code_simp

lemma sample_bot_ready:
  "flow_store_ready (bs_store sample_bot)" "codec_ready (bs_codec sample_bot)" "codec_ready sample_issuer_codec"
proof -
  have "short_name ''rw-invite-issuer''" "short_name ''issuer-1''"
    by (rule short_name_visible; simp add: visible_def byte_def)+
  then show "codec_ready (bs_codec sample_bot)" "codec_ready sample_issuer_codec"
    using sample_codec_ready by (simp_all add: codec_ready_def sample_bot_def sample_bot_codec_def sample_issuer_codec_def)
  show "flow_store_ready (bs_store sample_bot)"
    using sample_ready(3) by (simp add: flow_store_ready_def store_ready_def sample_bot_def sample_service_def)
qed

lemma sample_invite_verified:
  obtains v where "codec_verify sample_lib (bs_codec sample_bot) sample_world sample_invite_bytes InviteCreateSubject InviteCreateType
      [''rw-invite-issuer''] = Inr v"
    and "decode_invite_create (vf_payload v) = Inr sample_invite" "vf_id v = sample_uuid 20"
proof -
  have names: "short_name InviteCreateSubject" "short_name InviteCreateType"
    by (auto intro!: short_name_visible simp: InviteCreateSubject_def InviteCreateType_def visible_def byte_def)
  have i: "length (sample_id n) = 36" for n
    by (simp add: sample_id_def length_sample_string)
  have "struct_size invite_create_spec (invite_create_vals sample_invite) \<le> 20000"
    by (simp add: struct_size_def invite_create_spec_def invite_create_vals_def sample_invite_def i format_int_def nat_digits.simps)
  then have fits: "length (encode_invite_create sample_invite) \<le> 20000"
    using length_marshal [of True invite_create_spec "invite_create_vals sample_invite"]
    by (simp add: encode_invite_create_def encode_payload_def)
  have printable: "list_all printable (invite_create_vals sample_invite)"
    using sample_visible sample_id_visible
    by (simp add: invite_create_vals_def sample_invite_def utf8_valid_visible)
  have key: "lookup_key (cd_trusted sample_bot_codec) (cd_producer sample_issuer_codec) (cd_key_id sample_issuer_codec)
      1700000000000000000 = Inr (ed25519_public sample_lib (cd_private_key sample_issuer_codec))"
    by (simp add: lookup_key_def sample_codec_def sample_issuer_codec_def sample_bot_codec_def sample_lib_def map_key_def)
  obtain v where v: "codec_verify sample_lib sample_bot_codec sample_world sample_invite_bytes InviteCreateSubject InviteCreateType
      [cd_producer sample_issuer_codec] = Inr v" "vf_payload v = encode_invite_create sample_invite" "vf_id v = sample_uuid 20"
    by (rule sample_bytes_verified [where c = sample_issuer_codec and r = sample_bot_codec and i = 20, OF sample_bot_ready(3) _ names fits key])
      (auto simp: sample_invite_bytes_def sample_bot_codec_def sample_codec_def)
  have "cd_producer sample_issuer_codec = ''rw-invite-issuer''"
    by (simp add: sample_issuer_codec_def)
  then show thesis
    by (intro that [of v])
      (use v invite_create.decode_encode [OF printable] in
        \<open>simp_all add: sample_bot_def decode_invite_create_def encode_invite_create_def\<close>)
qed

lemma empty_bot_ok: "bot_ok empty_bot" "no_users empty_bot"
  by (simp_all add: bot_ok_def msgdb_ok_def bot_keys_ok_def bot_refs_ok_def empty_bot_def no_users_def)

lemma sample_invite_valid: "validate_invite_create sample_lib sample_invite = Inr ()" "pg_text InviteCreateSubject"
proof -
  show "pg_text InviteCreateSubject"
    by (rule pg_text_visible) (simp add: InviteCreateSubject_def visible_def byte_def)
  show "validate_invite_create sample_lib sample_invite = Inr ()"
    using sample_visible by (simp add: validate_invite_create_def sample_invite_def trim_space_visible)
qed

lemma sample_bot_clock:
  "rfc3339_years (1700000000000000000 + 5 * minute)" "rfc3339_years (1700000000000000000 + invite_ttl sample_bot sample_invite)"
proof -
  have "year_of 1700000300000000000 = 2023" "year_of 1700086400000000000 = 2023"
    by code_simp+
  then show "rfc3339_years (1700000000000000000 + 5 * minute)" "rfc3339_years (1700000000000000000 + invite_ttl sample_bot sample_invite)"
    by (simp_all add: rfc3339_years_def duration_defs invite_ttl_def sample_invite_def sample_bot_def)
qed

lemma sample_created_premises:
  assumes "vf_id v = sample_uuid 20"
  shows "bs_username sample_bot \<noteq> ''''" "length (bs_username sample_bot) \<le> 64" "is_v7 sample_lib (sample_uuid 3)"
    "rfc3339_years (go_now sample_world 3)" "rfc3339_years (go_now sample_world 2 + 5 * minute)"
    "rfc3339_years (go_now sample_world 1 + invite_ttl sample_bot sample_invite)"
    "go_now sample_world 3 < go_now sample_world 2 + 5 * minute" "db_now sample_world < pg_time (go_now sample_world 2 + 5 * minute)"
    "vf_id v \<notin> inbox_ids empty_bot" "sample_uuid 3 \<notin> outbox_ids empty_bot"
    "\<forall>r\<in>set (invites empty_bot). iv_id r \<noteq> sample_uuid 0 \<and> iv_operation_id r \<noteq> parse_or_nil sample_lib (ic_operation_id sample_invite) \<and>
        iv_token_digest r \<noteq> sha256 sample_lib (crypto_token sample_world)"
    "pg_time (go_now sample_world 1 + invite_ttl sample_bot sample_invite) = 1700086400000000000" "invites empty_bot = []"
proof -
  have ttl: "invite_ttl sample_bot sample_invite = 24 * hour"
    by (simp add: invite_ttl_def sample_invite_def sample_bot_def)
  show "bs_username sample_bot \<noteq> ''''" "length (bs_username sample_bot) \<le> 64"
    by (simp_all add: sample_bot_def)
  show "rfc3339_years (go_now sample_world 3)" "rfc3339_years (go_now sample_world 2 + 5 * minute)"
    "rfc3339_years (go_now sample_world 1 + invite_ttl sample_bot sample_invite)"
    "go_now sample_world 3 < go_now sample_world 2 + 5 * minute" "db_now sample_world < pg_time (go_now sample_world 2 + 5 * minute)"
    "pg_time (go_now sample_world 1 + invite_ttl sample_bot sample_invite) = 1700086400000000000"
    using sample_bot_clock sample_years by (simp_all add: sample_world_facts(2,3) ttl pg_time_def duration_defs)
qed (simp_all add: empty_bot_def inbox_ids_def outbox_ids_def)

lemma sample_invited_state:
  obtains r ct where "handle_invite_create sample_lib sample_bot InviteCreateSubject sample_invite_bytes sample_world empty_bot =
      (Inr (), [], sample_invited)"
    and "invites sample_invited = [r]" "iv_id r = sample_uuid 0" "iv_status r = IV_ACTIVE" "iv_token_digest r = sha256 sample_lib sample_token"
      "iv_expires_at r = 1700086400000000000" "iv_balance_ciphertext r = ct"
      "fl_encrypt sample_lib (bs_store sample_bot) 1 ''invites'' (sample_uuid 0) ''balance_id'' ''balance'' sample_world = Inr ct"
    and "bot_ok sample_invited" "dialogs_of sample_invited = dialogs_of empty_bot" "sample_uuid 20 \<in> inbox_ids sample_invited"
proof -
  obtain v where v: "codec_verify sample_lib (bs_codec sample_bot) sample_world sample_invite_bytes InviteCreateSubject InviteCreateType
      [''rw-invite-issuer''] = Inr v" "decode_invite_create (vf_payload v) = Inr sample_invite" "vf_id v = sample_uuid 20"
    by (rule sample_invite_verified)
  note conditions = sample_created_premises [OF v(3)]
  have balance: "ic_balance_id sample_invite = ''balance''"
    by (simp add: sample_invite_def)
  note created = invite_created [where bs = sample_bot and command = sample_invite and invite_id = "sample_uuid 0" and rid = "sample_uuid 3" and
        subj = InviteCreateSubject and data = sample_invite_bytes and w = sample_world and d = empty_bot,
        OF sample_uuid_laws sample_signature_laws sample_ready(1,2) sample_bot_ready(1,2) conditions(1,2) sample_ready(5)
          sample_world_facts(1) sample_world_facts(1) conditions(3-8) v(1,2) sample_invite_valid empty_bot_ok(1) conditions(9-11),
        unfolded conditions(12) balance conditions(13) append_Nil]
  obtain d' r ct where d': "handle_invite_create sample_lib sample_bot InviteCreateSubject sample_invite_bytes sample_world empty_bot = (Inr (), [], d')"
    "invites d' = [r]" "iv_id r = sample_uuid 0" "iv_status r = IV_ACTIVE" "iv_token_digest r = sha256 sample_lib (crypto_token sample_world)"
      "iv_expires_at r = 1700086400000000000" "iv_balance_ciphertext r = ct"
      "fl_encrypt sample_lib (bs_store sample_bot) 1 ''invites'' (sample_uuid 0) ''balance_id'' ''balance'' sample_world = Inr ct"
      "bot_ok d'" "dialogs_of d' = dialogs_of empty_bot" "\<exists>ib\<in>set (inbox d'). ib_message_id ib = vf_id v \<and> ib_status ib = COMPLETED \<and>
        ib_result_message_id ib = Some (sample_uuid 3)"
    by (rule created)
  have "sample_invited = d'"
    using d'(1) by (simp add: sample_invited_def)
  moreover from d'(11) have "sample_uuid 20 \<in> inbox_ids d'"
    unfolding inbox_ids_def using v(3) by (metis image_eqI)
  ultimately show thesis
    using d' by (intro that [of r ct]) (simp_all add: sample_token_def)
qed

text \<open>The update with the token, as the bot processes it.\<close>

definition sample_started :: bot_db where
  "sample_started = sample_invited\<lparr>updates := updates sample_invited @
     [\<lparr>tu_transport = ''direct_polling'', tu_update_id = 7, tu_status = UPDATE_PROCESSING,
       tu_payload_digest = replicate 32 CHR ''d'', tu_processed_at = None\<rparr>]\<rparr>"

lemma invite_create_updates:
  "updates (snd (create_invite L fs inc command ttl invite_factory w d)) = updates d"
proof -
  have body: "updates (snd (run_tx w (tx_bind (fl_register L inc) (\<lambda>r.
         if \<not> ir_accepted r then
           (if ir_completed r \<and> ir_result_message_id r \<noteq> None
            then requeue_outbox bot_ok (the (ir_result_message_id r))
            else tx_return ())
         else
         tx_bind (fl_insert_outbox L fs 8 result) (\<lambda>_.
         tx_bind (tx_exec bot_ok step (\<lambda>w d. ((), d\<lparr>invites := invites d @ [v w d]\<rparr>))) (\<lambda>_.
         complete_inbox bot_ok mid rid)))) d)) = updates d" for result step v mid rid
    by (rule run_tx_invariant [where P = "\<lambda>d'. updates d' = updates d"])
      (auto simp: tx_ok fl_register_def fl_insert_outbox_def update_outbox_def split: if_splits option.splits)
  show ?thesis
    unfolding create_invite_def Let_def by (auto simp: body split: sum.split)
qed

lemma sample_started_ok: "bot_ok sample_started" "updates sample_invited = []"
proof -
  show u: "updates sample_invited = []"
    by (auto simp: sample_invited_def handle_invite_create_def Let_def split_beta invite_create_updates empty_bot_def split: sum.split)
  have "bot_ok sample_invited"
    by (rule sample_invited_state) blast
  then show "bot_ok sample_started"
    by (simp add: sample_started_def bot_ok_def bot_keys_ok_def bot_refs_ok_def msgdb_ok_def u update_row_ok_def)
qed

lemma sample_offer:
  obtains r where "offers sample_lib (bs_store sample_bot) 1700000000000000000 sample_token ''balance'' r sample_started"
    "iv_id r = sample_uuid 0"
proof -
  obtain r ct where r: "invites sample_invited = [r]" "iv_id r = sample_uuid 0" "iv_status r = IV_ACTIVE"
      "iv_token_digest r = sha256 sample_lib sample_token"
      "iv_expires_at r = 1700086400000000000" "iv_balance_ciphertext r = ct"
      "fl_encrypt sample_lib (bs_store sample_bot) 1 ''invites'' (sample_uuid 0) ''balance_id'' ''balance'' sample_world = Inr ct"
    by (rule sample_invited_state) blast
  have k: "keyring_ok (fs_keyring (bs_store sample_bot))" "utf8_valid (kr_active (fs_keyring (bs_store sample_bot)))"
    using sample_ready(3)
    by (simp_all add: store_ready_def sample_service_def sample_bot_def sample_keyring_def utf8_valid_visible visible_def byte_def)
  show thesis
    by (rule that [of r]) (use r fl_decrypt_encrypt [OF sample_aead_laws k r(7)] in \<open>simp_all add: offers_def sample_started_def\<close>)
qed

lemma sample_columns:
  "bigint_positive (tm_bot_id sample_start)" "bigint_positive (tm_user_id sample_start)" "bigint_positive (tm_chat_id sample_start)"
  "label_ok (nullif_empty (trim_label (tm_display_label sample_start)))" "length sample_token = 43"
  "user_phase_of (dialogs_of sample_started) (tm_bot_id sample_start, tm_user_id sample_start) = Unknown"
  "sample_uuid 0 \<notin> ns_id ` set (inactive sample_started)"
proof -
  have "dialogs_of sample_invited = dialogs_of empty_bot"
    by (rule sample_invited_state) blast
  then show "user_phase_of (dialogs_of sample_started) (tm_bot_id sample_start, tm_user_id sample_start) = Unknown"
      "sample_uuid 0 \<notin> ns_id ` set (inactive sample_started)"
    by (simp_all add: user_phase_of_def dialogs_of_def empty_bot_def sample_started_def)
  have "pg_text ''label''" using sample_visible(9) by (rule pg_text_visible)
  then show "label_ok (nullif_empty (trim_label (tm_display_label sample_start)))"
    using sample_visible(9) by (simp add: sample_start_def trim_label_def trim_space_visible label_ok_nullif)
qed (simp_all add: sample_start_def bigint_positive_def sample_token_def length_crypto_token)

lemma sample_bound_state:
  obtains r texts d s where "process_message sample_lib (Some sample_bot) sample_updates sample_start True (\<lambda>_. sample_world) sample_invited =
      Some (r, texts, d)"
    and "inactive d = [s]" "session_user s = (1, 2)" "ns_dialog_state s = AWAITING_WALLET"
proof -
  obtain v where v: "offers sample_lib (bs_store sample_bot) 1700000000000000000 sample_token ''balance'' v sample_started"
    by (rule sample_offer)
  then have offer: "offers sample_lib (bs_store sample_bot) (go_now sample_world 1) sample_token ''balance'' v sample_started"
    by (simp add: sample_world_facts(2))
  have none: "inactive sample_started = []"
  proof -
    have "dialogs_of sample_invited = dialogs_of empty_bot"
      by (rule sample_invited_state) blast
    then show ?thesis by (simp add: dialogs_of_def sample_started_def empty_bot_def)
  qed
  obtain s d' where d': "handle_conversation sample_lib sample_bot sample_start (\<lambda>_. sample_world) sample_started =
        Some (Inr (text_bound (bc_usdt_network (bs_bot sample_bot))), d')"
      "inactive d' = inactive sample_started @ [s]" "session_user s = (tm_bot_id sample_start, tm_user_id sample_start)"
      "ns_dialog_state s = AWAITING_WALLET"
    by (rule token_binds [where ws = "\<lambda>_. sample_world", OF sample_ready(2) sample_bot_ready(1) sample_ready(5) sample_started_ok(1)
        sample_world_facts(1) sample_columns(6,7) sample_token_parsed sample_columns(5) offer sample_columns(1-4)])
  have begun: "begin_update sample_updates (tm_update_id sample_start) (tm_payload_digest sample_start) sample_world sample_invited =
      (Inr True, sample_started)"
    using sample_started_ok sample_ready(5)
    by (simp add: begin_update_def run_tx_Inr tx_ok healthy_def sample_updates_def sample_start_def sample_started_def)
  obtain r texts d where f: "deliver sample_updates sample_start (text_bound (bc_usdt_network (bs_bot sample_bot))) True sample_world d' = (r, texts, d)"
    by (metis prod.exhaust)
  have "dialogs_of d = dialogs_of d'"
    using f updates_dialogs(2) by (auto simp: deliver_def Let_def split: prod.splits sum.splits) (metis snd_conv)+
  then have "inactive d = [s]"
    using d'(2) none by (simp add: dialogs_of_def)
  moreover have "process_message sample_lib (Some sample_bot) sample_updates sample_start True (\<lambda>_. sample_world) sample_invited = Some (r, texts, d)"
    using begun d'(1) f by (simp add: process_message_def) (simp add: sample_start_def)
  moreover have "session_user s = (1, 2)"
    using d'(3) by (simp add: sample_start_def)
  ultimately show thesis using that d'(4) by blast
qed

section \<open>The instances\<close>

abbreviation sample_step :: "bot_db \<Rightarrow> bot_db \<Rightarrow> bool" where
  "sample_step \<equiv> bot_step sample_lib (Some sample_bot) sample_bot sample_updates sample_bot_publisher"

lemma sample_invited_step:
  "sample_step empty_bot sample_invited"
  unfolding sample_invited_def by (rule bot_step.invite_create)

lemma sample_invited_run:
  "sample_step\<^sup>*\<^sup>* empty_bot sample_invited"
  by (rule r_into_rtranclp [where r = sample_step, OF sample_invited_step])

lemma sample_run:
  obtains d s where "sample_step sample_invited d"
    and "sample_step\<^sup>*\<^sup>* empty_bot d"
    and "inactive d = [s]" "session_user s = (1, 2)" "ns_dialog_state s = AWAITING_WALLET"
proof -
  obtain r texts d s where d: "process_message sample_lib (Some sample_bot) sample_updates sample_start True (\<lambda>_. sample_world) sample_invited =
      Some (r, texts, d)" "inactive d = [s]" "session_user s = (1, 2)" "ns_dialog_state s = AWAITING_WALLET"
    by (rule sample_bound_state)
  have "sample_step sample_invited d"
    by (rule bot_step.update [OF d(1)])
  moreover from this have "sample_step\<^sup>*\<^sup>* empty_bot d"
    by (rule rtranclp.rtrancl_into_rtrancl [where r = sample_step, OF sample_invited_run])
  ultimately show thesis
    using d(2-4) by (rule that)
qed

lemma bot_dialogs_consistent_witness:
  "\<exists>(d :: bot_db) s. inactive d = [s] \<and> ns_dialog_state s = AWAITING_WALLET \<and> bot_ok d \<and> distinct (map session_user (inactive d)) \<and>
     session_user ` set (inactive d) \<inter> active_user ` set (projections d) = {}"
proof -
  obtain d s where d: "sample_step\<^sup>*\<^sup>* empty_bot d" "inactive d = [s]" "ns_dialog_state s = AWAITING_WALLET"
    by (rule sample_run)
  have "bot_ok d \<and> distinct (map session_user (inactive d)) \<and> session_user ` set (inactive d) \<inter> active_user ` set (projections d) = {}"
    using bot_dialogs_consistent [OF d(1) empty_bot_ok(2,1)] by simp
  with d(2,3) show ?thesis by metis
qed

lemma bot_history_final_witness:
  "\<exists>(d :: bot_db) s. inactive d = [s] \<and> active_user ` set (projections sample_invited) \<subseteq> active_user ` set (projections d) \<and>
     at_id ` set (attempts sample_invited) \<subseteq> at_id ` set (attempts d)"
proof -
  obtain d s where d: "sample_step sample_invited d" "inactive d = [s]"
    by (rule sample_run)
  note final = bot_history_final [OF sample_invited_run empty_bot_ok(2) r_into_rtranclp [where r = sample_step, OF d(1)]]
  have "active_user ` set (projections sample_invited) \<subseteq> active_user ` set (projections d)"
    using conjunct2 [OF final] by (metis image_eqI image_subsetI)
  moreover have "at_id ` set (attempts sample_invited) \<subseteq> at_id ` set (attempts d)"
    using conjunct1 [OF final] by (metis image_eqI image_subsetI)
  ultimately show ?thesis using d(2) by metis
qed

lemma bot_refines_phases_witness:
  "\<exists>d. phase_step False (user_phase_of (dialogs_of sample_invited) (1, 2)) (user_phase_of (dialogs_of d) (1, 2)) \<and>
     user_phase_of (dialogs_of d) (1, 2) \<noteq> Unknown"
proof -
  obtain d s where d: "sample_step sample_invited d"
      "inactive d = [s]" "session_user s = (1, 2)"
    by (rule sample_run)
  have "user_phase_of (dialogs_of d) (1, 2) \<noteq> Unknown"
    using d by (simp add: user_phase_of_def dialogs_of_def)
  moreover have "\<not> id_repeated (dialogs_of sample_invited)"
  proof -
    have "dialogs_of sample_invited = dialogs_of empty_bot"
      by (rule sample_invited_state) blast
    then show ?thesis by (simp add: id_repeated_def dialogs_of_def empty_bot_def)
  qed
  ultimately show ?thesis
    using bot_refines_phases [OF sample_invited_run empty_bot_ok(2) d(1), of "(1, 2)"] by auto
qed

lemma invite_command_answered_witness:
  "\<exists>d' r. handle_invite_create sample_lib sample_bot InviteCreateSubject sample_invite_bytes sample_world empty_bot = (Inr (), [], d') \<and>
    invites d' = [r] \<and> iv_status r = IV_ACTIVE \<and> iv_expires_at r = 1700086400000000000"
proof -
  obtain v where v: "codec_verify sample_lib (bs_codec sample_bot) sample_world sample_invite_bytes InviteCreateSubject InviteCreateType
      [''rw-invite-issuer''] = Inr v" "decode_invite_create (vf_payload v) = Inr sample_invite" "vf_id v = sample_uuid 20"
    by (rule sample_invite_verified)
  note conditions = sample_created_premises [OF v(3)]
  have "pg_time (go_now sample_world 1 + invite_ttl sample_bot sample_invite) = 1700086400000000000" "invites empty_bot = []"
    by (rule conditions)+
  with invite_command_answered [where bs = sample_bot and command = sample_invite and invite_id = "sample_uuid 0" and rid = "sample_uuid 3" and
        subj = InviteCreateSubject and data = sample_invite_bytes and w = sample_world and d = empty_bot,
        OF sample_uuid_laws sample_signature_laws sample_ready(1,2) sample_bot_ready(1,2) conditions(1,2) sample_ready(5)
          sample_world_facts(1) sample_world_facts(1) conditions(3-8) v(1,2) sample_invite_valid empty_bot_ok(1) conditions(9-11)]
  show ?thesis by auto
qed

lemma invite_binds_user_witness:
  "\<exists>d'. handle_conversation sample_lib sample_bot sample_start (\<lambda>_. sample_world) sample_started =
     Some (Inr (text_bound ''tron''), d') \<and> user_phase_of (dialogs_of d') (1, 2) = Bound AWAITING_WALLET"
proof -
  obtain v where v: "offers sample_lib (bs_store sample_bot) 1700000000000000000 sample_token ''balance'' v sample_started"
    by (rule sample_offer)
  then have offer: "offers sample_lib (bs_store sample_bot) (go_now sample_world 1) sample_token ''balance'' v sample_started"
    by (simp add: sample_world_facts(2))
  have fields: "bc_usdt_network (bs_bot sample_bot) = ''tron''" "tm_bot_id sample_start = 1" "tm_user_id sample_start = 2"
    by (simp_all add: sample_bot_def sample_start_def)
  show ?thesis
    using invite_binds_user [where ws = "\<lambda>_. sample_world", OF sample_ready(2) sample_bot_ready(1) sample_ready(5) sample_started_ok(1)
        sample_world_facts(1) sample_columns(6,7) sample_token_parsed sample_columns(5) offer sample_columns(1-4)]
    unfolding fields by blast
qed

end
