(* ===== verification/Bot_Guarantees.thy ===== *)
theory Bot_Guarantees
  imports Bot_Records Sample_Bot
begin

text \<open>
  What a user and another service can rely on: an update is handled once, an invite is consumed once, a
  repeated message has no effect and no notification, and a handler that fails has done nothing.
\<close>

section \<open>Once\<close>

lemma run_same:
  assumes "\<And>x d' n. body w (d, 0) = Inr (x, (d', n)) \<Longrightarrow> d' = d \<and> P"
  shows "(\<exists>e. run_tx w body d = (Inl e, d)) \<or> P \<and> (\<exists>r. run_tx w body d = (r, d))"
  using run_tx_cases [of w body d] assms by blast

lemma begin_update_known:
  assumes "r \<in> set (updates d)" "tu_transport r = us_transport us" "tu_update_id r = update_id"
  obtains e where "begin_update us update_id digest w d = (Inl e, d)" | "begin_update us update_id digest w d = (Inr False, d)"
proof -
  let ?f = "\<lambda>w d. if list_ex (\<lambda>r. tu_transport r = us_transport us \<and> tu_update_id r = update_id) (updates d) then (False, d)
          else (True, d\<lparr>updates := updates d @
                 [\<lparr>tu_transport = us_transport us, tu_update_id = update_id, tu_status = UPDATE_PROCESSING,
                   tu_payload_digest = digest, tu_processed_at = None\<rparr>]\<rparr>)"
  have "list_ex (\<lambda>r. tu_transport r = us_transport us \<and> tu_update_id r = update_id) (updates d)"
    using assms by (auto simp: list_ex_iff)
  then have same: "x = False \<and> d' = d" if "tx_exec bot_ok ''insert update'' ?f w (d, 0) = Inr (x, (d', n))" for x d' n
    using that by (simp add: tx_exec_ok)
  from run_tx_cases [of w "tx_exec bot_ok ''insert update'' ?f" d] show thesis
    using that same unfolding begin_update_def by blast
qed

lemma begin_update_healthy:
  assumes "r \<in> set (updates d)" "tu_transport r = us_transport us" "tu_update_id r = update_id" "healthy w" "bot_ok d"
  shows "begin_update us update_id digest w d = (Inr False, d)"
proof -
  have "list_ex (\<lambda>r. tu_transport r = us_transport us \<and> tu_update_id r = update_id) (updates d)"
    using assms(1-3) by (auto simp: list_ex_iff)
  with assms(4,5) show ?thesis
    by (simp add: begin_update_def run_tx_Inr healthy_def tx_exec_ok)
qed

text \<open>
  C12. An update of Telegram is handled once: whatever happens after an update was begun, processing an update with
  its transport and identifier again changes nothing and sends nothing; its result is that of a duplicate, or an error
  of the database, and with a database that answers it is that of a duplicate.
\<close>

theorem update_handled_once:
  assumes "r \<in> set (updates d0)" "tu_transport r = us_transport us" "tu_update_id r = tm_update_id m"
    and "(bot_step L conv bs us' pb)\<^sup>*\<^sup>* d0 d" "process_message L conversation us m send_ok ws d = Some (result, texts, d')"
  shows "texts = [] \<and> d' = d \<and> (is_err result \<or> result = Inr \<lparr>psr_duplicate = True, psr_delivery_failed = False\<rparr>) \<and>
    (bot_ok d0 \<and> healthy (ws 0) \<longrightarrow> result = Inr \<lparr>psr_duplicate = True, psr_delivery_failed = False\<rparr>)"
proof -
  have "rows_grow update_le (updates d0) (updates d)"
    using bot_records.steps [OF assms(4)] by (simp add: bot_le_def)
  then obtain q where q: "q \<in> set (updates d)" "update_le r q"
    using assms(1) by (rule rows_grow_member)
  then have known: "tu_transport q = us_transport us" "tu_update_id q = tm_update_id m"
    using assms(2,3) by (simp_all add: update_le_def)
  have "bot_ok d" if "bot_ok d0"
    using bot_schema.steps [OF assms(4)] that by (simp add: schema_kept_def)
  note answered = begin_update_healthy [OF q(1) known _ this, of "ws 0" "tm_payload_digest m"]
  from q(1) known show ?thesis
    by (rule begin_update_known [where digest = "tm_payload_digest m" and w = "ws 0"])
      (use assms(5) answered in \<open>auto simp: process_message_def\<close>)
qed

definition sample_later :: bot_db where
  "sample_later = snd (reconcile_round sample_bot sample_world sample_started)"

lemma sample_later_step: "sample_step\<^sup>*\<^sup>* sample_started sample_later"
  unfolding sample_later_def by (rule r_into_rtranclp [where r = sample_step, OF bot_step.reconcile])

lemma update_handled_once_witness:
  "process_message sample_lib (Some sample_bot) sample_updates sample_start True (\<lambda>_. sample_world) sample_later =
     Some (Inr \<lparr>psr_duplicate = True, psr_delivery_failed = False\<rparr>, [], sample_later)"
proof -
  obtain r where r: "r \<in> set (updates sample_started)" "tu_transport r = us_transport sample_updates"
      "tu_update_id r = tm_update_id sample_start"
    by (rule that [of "last (updates sample_started)"]) (simp_all add: sample_started_def sample_updates_def sample_start_def)
  have "rows_grow update_le (updates sample_started) (updates sample_later)"
    using bot_records.steps [OF sample_later_step] by (simp add: bot_le_def)
  then obtain q where q: "q \<in> set (updates sample_later)" "update_le r q"
    using r(1) by (rule rows_grow_member)
  then have "tu_transport q = us_transport sample_updates" "tu_update_id q = tm_update_id sample_start"
    using r(2,3) by (simp_all add: update_le_def)
  with q(1) obtain result texts d' where p: "process_message sample_lib (Some sample_bot) sample_updates sample_start True (\<lambda>_. sample_world)
      sample_later = Some (result, texts, d')"
    by (rule begin_update_known [where digest = "tm_payload_digest sample_start" and w = sample_world]) (auto simp: process_message_def)
  with update_handled_once [OF r sample_later_step p] sample_started_ok(1) sample_ready(5) show ?thesis by simp
qed

lemma unknown_user:
  assumes "user_phase_of (dialogs_of d) (bot_id, user_id) = Unknown"
  shows "find_projection bot_id user_id d = None" "find_inactive bot_id user_id d = None"
  using assms by (auto simp: user_phase_of_def find_projection_def find_inactive_def find_None_iff dialogs_of_def
      active_user_def session_user_def image_iff split: option.splits if_splits)

text \<open>
  C15. An invite is consumed once: whatever happens after it was, it stays consumed, and its token gives nobody a session. Who
  sends it is refused, or is told of the session it already has, and nothing changes.
\<close>

theorem invite_consumed_once:
  assumes "v \<in> set (invites d0)" "iv_status v = IV_CONSUMED" "iv_token_digest v = sha256 L token" "bot_ok d0"
    and "(bot_step L' conv bs us pb)\<^sup>*\<^sup>* d0 d"
  shows "(\<exists>u\<in>set (invites d). iv_id u = iv_id v \<and> iv_status u = IV_CONSUMED \<and> iv_consumed_at u = iv_consumed_at v) \<and>
    (\<exists>r. consume_invite L fs bot_id user_id chat_id label token w d = (r, d) \<and>
       (is_err r \<or> (\<exists>p. find_projection bot_id user_id d = Some p \<and> r = Inr (pj_session_id p)) \<or>
          (\<exists>s. find_inactive bot_id user_id d = Some s \<and> r = Inr (ns_id s))) \<and>
       (user_phase_of (dialogs_of d) (bot_id, user_id) = Unknown \<longrightarrow> is_err r))"
proof -
  have "rows_grow invite_le (invites d0) (invites d)"
    using bot_records.steps [OF assms(5)] by (simp add: bot_le_def)
  then obtain u where u: "u \<in> set (invites d)" "invite_le v u"
    using assms(1) by (rule rows_grow_member)
  then have status: "iv_status u = IV_CONSUMED" "iv_token_digest u = sha256 L token"
    using assms(2,3) by (simp_all add: invite_le_def)
  have "bot_ok d"
    using bot_schema.steps [OF assms(5)] assms(4) by (simp add: schema_kept_def)
  then have "distinct (map iv_token_digest (invites d))"
    by (simp add: bot_ok_def bot_keys_ok_def)
  from find_row [OF this u(1)] have found: "find (\<lambda>r. iv_token_digest r = sha256 L token) (invites d) = Some u"
    by (simp add: status)
  have same: "d' = d \<and> (\<exists>p. find_projection bot_id user_id d = Some p \<and> x = pj_session_id p) \<or>
      d' = d \<and> (\<exists>s. find_inactive bot_id user_id d = Some s \<and> x = ns_id s)"
    if "(tx_bind (tx_query ''read projection'' (\<lambda>w. find_projection bot_id user_id)) (\<lambda>active.
        case active of Some p \<Rightarrow> tx_return (pj_session_id p) | None \<Rightarrow> bind_user L fs bot_id user_id chat_id label token)) w (d, 0) =
      Inr (x, (d', n))" for x d' n
    using that found status(1) unfolding bind_user_def by (auto simp: tx_ok split: option.splits)
  have kept: "iv_id u = iv_id v \<and> iv_consumed_at u = iv_consumed_at v"
    using u(2) assms(2) by (simp add: invite_le_def)
  obtain r where r: "consume_invite L fs bot_id user_id chat_id label token w d = (r, d)"
    "is_err r \<or> (\<exists>p. find_projection bot_id user_id d = Some p \<and> r = Inr (pj_session_id p)) \<or>
        (\<exists>s. find_inactive bot_id user_id d = Some s \<and> r = Inr (ns_id s))"
    using run_tx_cases [of w "tx_bind (tx_query ''read projection'' (\<lambda>w. find_projection bot_id user_id)) (\<lambda>active.
        case active of Some p \<Rightarrow> tx_return (pj_session_id p) | None \<Rightarrow> bind_user L fs bot_id user_id chat_id label token)" d] same
    unfolding consume_invite_def by (metis is_err.simps(1))
  moreover have "is_err r" if "user_phase_of (dialogs_of d) (bot_id, user_id) = Unknown"
    using r(2) unknown_user [OF that] by auto
  ultimately show ?thesis
    using u(1) status(1) kept by blast
qed

lemma invite_consumed_once_witness:
  "\<exists>(d :: bot_db) v r. v \<in> set (invites d) \<and> iv_status v = IV_CONSUMED \<and> is_err r \<and>
     consume_invite sample_lib (bs_store sample_bot) 1 5 5 '''' sample_token sample_world d = (r, d)"
proof -
  obtain u where u: "offers sample_lib (bs_store sample_bot) (go_now sample_world 1) sample_token ''balance'' u sample_started"
    using sample_offer sample_world_facts(2) by metis
  obtain s d where d: "handle_conversation sample_lib sample_bot sample_start (\<lambda>_. sample_world) sample_started =
        Some (Inr (text_bound (bc_usdt_network (bs_bot sample_bot))), d)"
      "inactive d = inactive sample_started @ [s]" "session_user s = (tm_bot_id sample_start, tm_user_id sample_start)"
      "invites d = map (consumed (iv_id u) (sample_uuid 0) (db_now sample_world)) (invites sample_started)" "projections d = projections sample_started"
    by (rule token_binds [where ws = "\<lambda>_. sample_world", OF sample_ready(2) sample_bot_ready(1) sample_ready(5) sample_started_ok(1)
        sample_world_facts(1) sample_columns(6,7) sample_token_parsed sample_columns(5) u sample_columns(1-4)])
  let ?v = "consumed (iv_id u) (sample_uuid 0) (db_now sample_world) u"
  have "u \<in> set (invites sample_started)" "iv_status u = IV_ACTIVE" "iv_token_digest u = sha256 sample_lib sample_token"
    using u by (auto simp: offers_def dest: find_Some_iff_first)
  then have v: "?v \<in> set (invites d)" "iv_status ?v = IV_CONSUMED" "iv_token_digest ?v = sha256 sample_lib sample_token"
    by (simp_all add: d(4) consumed_def)
  have "bot_ok d"
    using bot_schema.handle_conversation [OF d(1)] sample_started_ok(1) by (simp add: schema_kept_def)
  moreover have "user_phase_of (dialogs_of d) (1, 5) = Unknown"
  proof -
    have "dialogs_of sample_invited = dialogs_of empty_bot"
      by (rule sample_invited_state) blast
    then show ?thesis
      using d(2,3,5) by (simp add: user_phase_of_def dialogs_of_def empty_bot_def sample_started_def sample_start_def)
  qed
  ultimately obtain r where "consume_invite sample_lib (bs_store sample_bot) 1 5 5 '''' sample_token sample_world d = (r, d)" "is_err r"
    using invite_consumed_once [where conv = "Some sample_bot" and L' = sample_lib and bs = sample_bot and us = sample_updates and
        pb = sample_bot_publisher and fs = "bs_store sample_bot" and bot_id = 1 and user_id = 5 and chat_id = 5 and label = "''''" and
        w = sample_world, OF v _ rtranclp.rtrancl_refl]
    by blast
  with v(1,2) show ?thesis by blast
qed

section \<open>Handlers of messages\<close>

definition result_handlers ::
  "((lib \<Rightarrow> Bot_Service.bot_service \<Rightarrow> string \<Rightarrow> bytes \<Rightarrow> world \<Rightarrow> bot_db \<Rightarrow> (error + unit) \<times> sent \<times> bot_db) \<times> string \<times> string) set" where
  "result_handlers =
     {(handle_reserved, ActivationReservedType, ''rw-topup''), (handle_reserve_rejected, ReserveRejectedType, ''rw-topup''),
      (handle_payment_confirmed, PaymentConfirmedType, ''rw-topup''), (handle_activated, ActivationActivatedType, ''rw-active-sessions''),
      (handle_activation_rejected, ActivationRejectedType, ''rw-active-sessions'')}"

text \<open>Each handler either refuses the message before the database or notifies of one transaction on an attempt.\<close>

definition attempts_one :: "lib \<Rightarrow> Bot_Service.bot_service \<Rightarrow> incoming_message \<Rightarrow> world \<Rightarrow> bot_db \<Rightarrow> (error + unit) \<times> sent \<times> bot_db \<Rightarrow> bool" where
  "attempts_one L bs inc w d r \<longleftrightarrow>
     (\<exists>e. r = (Inl e, [], d)) \<or> (\<exists>operation_id body. r = notify bs (run_tx w (with_attempt L inc operation_id body) d))"

lemma notify_error: "notify bs (Inl e, d) = (Inl e, [], d)"
  by (simp add: notify_def)

lemma attempts_one_cases:
  "attempts_one L bs inc w d (Inl e, [], d)" "attempts_one L bs inc w d (notify bs (run_tx w (with_attempt L inc operation_id body) d))"
  by (auto simp: attempts_one_def)

lemma result_transaction:
  assumes "(h, mtype, sender) \<in> result_handlers" "codec_verify L (bs_codec bs) w data subj mtype [sender] = Inr v"
  shows "attempts_one L bs (incoming_message_of v subj) w d (h L bs subj data w d)"
  using assms unfolding result_handlers_def
  by (auto simp: attempts_one_cases handle_reserved_def handle_reserve_rejected_def handle_payment_confirmed_def handle_activated_def
      handle_activation_rejected_def apply_reserved_def apply_reserve_rejected_def apply_payment_def complete_activation_def
      notify_error split: sum.split option.split)

lemma with_attempt_known:
  assumes "im_message_id inc \<in> inbox_ids d" "with_attempt L inc operation_id body w (d, 0) = Inr (n, (d', k))"
  shows "d' = d \<and> n = no_notification"
proof -
  have "find_inbox (im_message_id inc) d \<noteq> None"
    using assms(1) find_inbox_None by blast
  with assms(2) show ?thesis
    by (auto simp: with_attempt_def fl_register_def tx_ok split: option.splits)
qed

text \<open>
  C25. Redelivery to the bot: a result whose message identifier is already registered changes nothing and notifies nobody.
\<close>

theorem redelivered_result_silent:
  assumes "(h, mtype, sender) \<in> result_handlers" "codec_verify L (bs_codec bs) w data subj mtype [sender] = Inr v"
    and "vf_id v \<in> inbox_ids d"
  shows "snd (h L bs subj data w d) = ([], d)"
proof -
  have known: "im_message_id (incoming_message_of v subj) \<in> inbox_ids d"
    using assms(3) by (simp add: incoming_message_of_def)
  from result_transaction [OF assms(1,2), of d, unfolded attempts_one_def] show ?thesis
  proof (elim disjE exE)
    fix operation_id body
    assume h: "h L bs subj data w d = notify bs (run_tx w (with_attempt L (incoming_message_of v subj) operation_id body) d)"
    have same: "d' = d \<and> x = no_notification"
      if "with_attempt L (incoming_message_of v subj) operation_id body w (d, 0) = Inr (x, (d', n))" for x d' n
      using with_attempt_known [OF known that] .
    show ?thesis
      using run_tx_cases [of w "with_attempt L (incoming_message_of v subj) operation_id body" d]
      unfolding h by (auto simp: notify_def no_notification_def dest!: same)
  qed simp
qed

definition sample_repeated :: bytes where
  "sample_repeated = sample_bytes sample_topup_codec 20 PaymentConfirmedSubject PaymentConfirmedType ''{}''"

lemma redelivered_result_silent_witness:
  "snd (handle_payment_confirmed sample_lib sample_bot PaymentConfirmedSubject sample_repeated sample_world sample_invited) = ([], sample_invited)"
proof -
  have names: "short_name PaymentConfirmedSubject" "short_name PaymentConfirmedType" "length ''{}'' \<le> 20000"
    by (auto intro!: short_name_visible simp: PaymentConfirmedSubject_def PaymentConfirmedType_def visible_def byte_def)
  have key: "lookup_key (cd_trusted sample_bot_codec) (cd_producer sample_topup_codec) (cd_key_id sample_topup_codec)
      1700000000000000000 = Inr (ed25519_public sample_lib (cd_private_key sample_topup_codec))"
    by (simp add: lookup_key_def sample_codec_def sample_topup_codec_def sample_bot_codec_def sample_lib_def)
  have skew: "cd_clock_skew sample_bot_codec = 2 * minute" "bs_codec sample_bot = sample_bot_codec" "cd_producer sample_topup_codec = ''rw-topup''"
    by (simp_all add: sample_bot_codec_def sample_codec_def sample_bot_def sample_topup_codec_def)
  obtain v where v: "codec_verify sample_lib sample_bot_codec sample_world sample_repeated PaymentConfirmedSubject PaymentConfirmedType
      [cd_producer sample_topup_codec] = Inr v" "vf_id v = sample_uuid 20"
    unfolding sample_repeated_def by (rule sample_bytes_verified [OF sample_codecs_ready(2) skew(1) names key, of 20])
  have h: "(handle_payment_confirmed, PaymentConfirmedType, ''rw-topup'') \<in> result_handlers"
    by (simp add: result_handlers_def)
  have "sample_uuid 20 \<in> inbox_ids sample_invited"
    by (rule sample_invited_state) blast
  then show ?thesis
    by (intro redelivered_result_silent [OF h, where v = v]) (use v skew in simp_all)
qed

end
