(* ===== verification/Bot_Race.thy ===== *)
theory Bot_Race
  imports Bot_Guarantees
begin

text \<open>
  A case in which two transactions of the bot that overlap do what they do in no order one after the other. Under READ
  COMMITTED a statement sees what others have committed by then. \<open>ConsumeInvite\<close> reads the projection of the user without
  a lock; its next statement waits for the row of the user in \<open>inactive_sessions\<close>. \<open>CompleteActivation\<close> inserts the
  projection and deletes that row: when it commits in between, the reader has seen neither, and binds an active user again.
\<close>

text \<open>\<open>ConsumeInvite\<close> when other transactions, which turn \<open>d\<close> into \<open>others d\<close>, commit after its first statement.\<close>

definition consume_invite_raced ::
  "lib \<Rightarrow> flow_store \<Rightarrow> int \<Rightarrow> int \<Rightarrow> int \<Rightarrow> string \<Rightarrow> string \<Rightarrow> (bot_db \<Rightarrow> bot_db) \<Rightarrow> world \<Rightarrow> bot_db \<Rightarrow> (error + uuid) \<times> bot_db" where
  "consume_invite_raced L fs bot_id user_id chat_id label token others w d =
     run_tx w
       (tx_bind (tx_query ''read projection'' (\<lambda>w _. find_projection bot_id user_id d)) (\<lambda>active.
        case active of Some p \<Rightarrow> tx_return (pj_session_id p) | None \<Rightarrow> bind_user L fs bot_id user_id chat_id label token)) (others d)"

text \<open>With nothing in between it is the transaction that runs alone.\<close>

lemma consume_invite_alone:
  "consume_invite_raced L fs bot_id user_id chat_id label token (\<lambda>d. d) w d = consume_invite L fs bot_id user_id chat_id label token w d"
  by (simp add: consume_invite_raced_def consume_invite_def run_tx_def tx_bind_def tx_query_def)

text \<open>
  C6. Overlapping transactions: let the bot be in a state that is consistent as C2 says, with a user whose payment is being
  verified, and let the transaction of the activation, which makes the user active and deletes the waiting session,
  commit between the first two statements of a \<open>ConsumeInvite\<close> of the same user with a second, active invite. Then
  \<open>ConsumeInvite\<close> succeeds, consumes the invite, and leaves the user active and bound to a session at the same time, which
  the schema accepts. Run after the activation instead, \<open>ConsumeInvite\<close> changes nothing.
\<close>

theorem raced_invite_binds_active_user:
  assumes "bot_ok d" "flow_ok (dialogs_of d)" "user_phase_of (dialogs_of d) (bot_id, user_id) = Bound AWAITING_VERIFICATION"
    and "complete_activation L fs inc (Inl result) w' d = (Inr n, d')" "user_phase_of (dialogs_of d') (bot_id, user_id) = Active"
    and "hash_sizes L" "flow_store_ready fs" "healthy w" "new_v7 w 0 = Inr session_id" "session_id \<notin> ns_id ` set (inactive d')"
    and "offers L fs (go_now w 1) token balance v d'"
    and "bigint_positive bot_id" "bigint_positive user_id" "bigint_positive chat_id" "label_ok (nullif_empty label)"
  shows "\<exists>d''. consume_invite_raced L fs bot_id user_id chat_id label token
        (\<lambda>d. snd (complete_activation L fs inc (Inl result) w' d)) w d = (Inr session_id, d'') \<and>
      (bot_id, user_id) \<in> session_user ` set (inactive d'') \<inter> active_user ` set (projections d'') \<and>
      bot_ok d'' \<and> (\<exists>r\<in>set (invites d''). iv_id r = iv_id v \<and> iv_status r = IV_CONSUMED) \<and>
      (\<exists>s. consume_invite L fs bot_id user_id chat_id label token w d' = (Inr s, d'))"
proof -
  have ok: "bot_ok d'"
    using bot_schema.complete_activation [of d L fs inc "Inl result" w'] assms(1,4) by (simp add: schema_kept_def)
  have flow: "flow_ok (dialogs_of d')"
    using bot_flow.complete_activation [of d L fs inc "Inl result" w'] assms(2,4)
    by (auto simp: flow_ok_def dest: flow_users flow_attempts)
  have unseen: "find_projection bot_id user_id d = None"
    using assms(3) by (auto simp: user_phase_of_def find_projection_def find_None_iff dialogs_of_def active_user_def image_iff
      split: if_splits)
  have active: "(bot_id, user_id) \<in> active_user ` set (projections d')"
    using assms(5) by (auto simp: user_phase_of_def dialogs_of_def split: if_splits option.splits)
  then have "(bot_id, user_id) \<notin> session_user ` set (inactive d')"
    using flow by (auto simp: flow_ok_def users_ok_def dialogs_of_def)
  then have none: "find_inactive bot_id user_id d' = None"
    by (auto simp: find_inactive_def find_None_iff session_user_def image_iff)
  obtain ct k where run: "bind_user L fs bot_id user_id chat_id label token w (d', 1) =
      Inr (session_id, (d'\<lparr>inactive := inactive d' @ [bound_row L fs bot_id user_id chat_id label balance session_id ct w],
        invites := map (consumed (iv_id v) session_id (db_now w)) (invites d')\<rparr>, k))"
      "bot_ok (d'\<lparr>inactive := inactive d' @ [bound_row L fs bot_id user_id chat_id label balance session_id ct w],
        invites := map (consumed (iv_id v) session_id (db_now w)) (invites d')\<rparr>)"
    by (rule bind_user_succeeds [OF assms(6-8) ok assms(9) none assms(10-15), of 1])
  let ?s = "bound_row L fs bot_id user_id chat_id label balance session_id ct w"
  let ?d'' = "d'\<lparr>inactive := inactive d' @ [?s], invites := map (consumed (iv_id v) session_id (db_now w)) (invites d')\<rparr>"
  have raced: "consume_invite_raced L fs bot_id user_id chat_id label token
      (\<lambda>d. snd (complete_activation L fs inc (Inl result) w' d)) w d = (Inr session_id, ?d'')"
    using assms(4,8) run(1) unseen
    by (simp add: consume_invite_raced_def run_tx_def tx_bind_def tx_query_def healthy_def)
  have "(bot_id, user_id) \<in> session_user ` set (inactive ?d'') \<inter> active_user ` set (projections ?d'')"
    using active by (simp add: bound_row_def session_user_def)
  moreover have "v \<in> set (invites d')" "iv_status v = IV_ACTIVE"
    using assms(11) by (auto simp: offers_def dest: find_Some_iff_first)
  then have "\<exists>r\<in>set (invites ?d''). iv_id r = iv_id v \<and> iv_status r = IV_CONSUMED"
    by (intro bexI [of _ "consumed (iv_id v) session_id (db_now w) v"]) (simp_all add: consumed_def)
  moreover have "\<exists>s. consume_invite L fs bot_id user_id chat_id label token w d' = (Inr s, d')"
  proof -
    have "find_projection bot_id user_id d' \<noteq> None"
      using active by (auto simp: find_projection_def find_None_iff active_user_def)
    then show ?thesis
      using assms(8) by (auto simp: consume_invite_def run_tx_Inr tx_ok healthy_def)
  qed
  ultimately show ?thesis
    using raced run(2) by blast
qed

section \<open>An instance\<close>

text \<open>
  A user whose payment is being verified, and an active invite of another balance: the rows and what the session service
  answers.
\<close>

definition race_balance :: bytes where
  "race_balance = (case fl_encrypt sample_lib (bs_store sample_bot) 1 ''invites'' (sample_uuid 6) ''balance_id'' ''other'' sample_world of
     Inl e \<Rightarrow> [] | Inr c \<Rightarrow> c)"

definition race_invite :: invite_row where
  "race_invite =
     \<lparr>iv_id = sample_uuid 6, iv_operation_id = sample_uuid 7, iv_command_message_id = sample_uuid 5, iv_result_message_id = sample_uuid 4,
      iv_token_digest = sha256 sample_lib sample_token, iv_token_ciphertext = [], iv_balance_ciphertext = race_balance,
      iv_balance_fingerprint = replicate 32 CHR ''b'', iv_status = IV_ACTIVE, iv_expires_at = 1700086400000000000,
      iv_consumed_at = None, iv_consumed_by = None\<rparr>"

definition race_session :: inactive_row where
  "race_session =
     \<lparr>ns_id = sample_uuid 1, ns_bot_id = 1, ns_user_id = 2, ns_chat_id = 3, ns_balance_ciphertext = [],
      ns_balance_fingerprint = fl_fingerprint sample_lib (bs_store sample_bot) ''balance'', ns_display_label = None,
      ns_dialog_state = AWAITING_VERIFICATION, ns_current_attempt_id = Some (sample_uuid 2), ns_expires_at = 1700086400000000000,
      ns_version = 4\<rparr>"

definition race_attempt :: attempt_row where
  "race_attempt =
     \<lparr>at_id = sample_uuid 2, at_operation_id = sample_uuid 3, at_session_id = sample_uuid 1, at_reserve_message_id = sample_uuid 4,
      at_verify_message_id = Some (sample_uuid 4), at_sender_ciphertext = [], at_sender_fingerprint = replicate 32 CHR ''s'',
      at_receiver_ciphertext = None, at_receiver_fingerprint = None, at_amount = ''0.000150'', at_asset = ''USDT'',
      at_network = ''tron'', at_external_reservation_id = Some ''reservation'', at_transaction_id = Some ''tx'',
      at_offer_valid_from = None, at_offer_expires_at = None, at_status = AT_VERIFICATION, at_failure_code = None,
      at_created_at = 1700000000000000000, at_updated_at = 1700000000000000000, at_completed_at = None, at_version = 3\<rparr>"

definition race_db :: bot_db where
  "race_db =
     \<lparr>inbox = [\<lparr>ib_message_id = sample_uuid 5, ib_subject = InviteCreateSubject, ib_producer = ''rw-invite-issuer'',
        ib_payload_digest = replicate 32 CHR ''d'', ib_status = COMPLETED, ib_result_message_id = Some (sample_uuid 4),
        ib_completed_at = Some 1700000000000000000, ib_expires_at = 1700086400000000000\<rparr>],
      outbox = [\<lparr>ob_message_id = sample_uuid 4, ob_subject = ActivationVerifySubject, ob_envelope = ''e'', ob_kind = ''COMMAND'',
        ob_status = PENDING, ob_attempts = 0, ob_next_attempt_at = 1700000000000000000, ob_lease_until = None,
        ob_last_error_code = None, ob_created_at = 1700000000000000000, ob_published_at = None, ob_confirmed_at = None,
        ob_expires_at = 1700086400000000000\<rparr>],
      invites = [race_invite], inactive = [race_session], attempts = [race_attempt], projections = [], updates = []\<rparr>"

definition race_message :: incoming_message where
  "race_message = \<lparr>im_message_id = sample_uuid 8, im_subject = ''rw.sessions.v1.activation.activated'', im_producer = ''rw-active-sessions'',
     im_payload = [], im_expires_at = 1700086400000000000\<rparr>"

definition race_activated :: activated where
  "race_activated = \<lparr>ac_operation_id = sample_id 3, ac_session_id = sample_id 1, ac_balance_id = ''balance'', ac_status = ''ACTIVE'',
     ac_authority_version = 1, ac_activated_at = format_rfc3339nano 1700000000000000000\<rparr>"

text \<open>The rows and all that the activation makes of them pass the schema.\<close>

lemma race_texts:
  "pg_text ''0.000150''" "pg_text ''tron''" "pg_text ''reservation''" "pg_text ''tx''" "pg_text InviteCreateSubject"
  "pg_text ''rw-invite-issuer''" "pg_text ActivationVerifySubject" "pg_text ''rw.sessions.v1.activation.activated''" "pg_text ''rw-active-sessions''"
  "pg_length ''tron'' = 4"
proof -
  show "pg_length ''tron'' = 4" by code_simp
qed (auto intro!: pg_text_visible simp: InviteCreateSubject_def ActivationVerifySubject_def visible_def byte_def)

lemmas race_defs = race_invite_def race_session_def race_attempt_def race_db_def race_message_def race_activated_def

lemmas schema_defs = bot_ok_def bot_keys_ok_def bot_refs_ok_def msgdb_ok_def inbox_row_ok_def outbox_row_ok_def invite_row_ok_def
  inactive_row_ok_def attempt_row_ok_def projection_row_ok_def optional_def open_attempt_def bigint_positive_def label_ok_def

lemma race_lengths: "length (sha256 sample_lib s) = 32" "length (fl_fingerprint sample_lib fs s) = 32"
  using sample_ready(2) by (simp_all add: hash_sizes_def fl_fingerprint_def fingerprint_def)

lemma race_db_ok: "bot_ok race_db"
  by (simp add: race_db_def schema_defs) (simp add: race_defs race_texts race_lengths transaction_key_def)

lemma race_flow: "flow_ok (dialogs_of race_db)" "user_phase_of (dialogs_of race_db) (1, 2) = Bound AWAITING_VERIFICATION"
  by (simp_all add: flow_ok_def users_ok_def attempts_match_def dialogs_of_def race_defs serves_def
      open_attempt_def session_user_def user_phase_of_def waiting_def)

lemma race_activation:
  obtains n d where "complete_activation sample_lib (bs_store sample_bot) race_message (Inl race_activated) sample_world race_db = (Inr n, d)"
    and "user_phase_of (dialogs_of d) (1, 2) = Active" "inactive d = []" "invites d = [race_invite]"
proof -
  have ids: "uuid_string sample_lib (sample_uuid 1) = sample_id 1"
    by (simp add: sample_lib_def sample_id_def)
  have "\<exists>n d. complete_activation sample_lib (bs_store sample_bot) race_message (Inl race_activated) sample_world race_db = (Inr n, d) \<and>
     user_phase_of (dialogs_of d) (1, 2) = Active \<and> inactive d = [] \<and> invites d = [race_invite]"
    by (simp add: complete_activation_def race_activated_def)
      (simp add: run_tx_def tx_bind_def with_attempt_def fl_register_def register_inbox_def tx_exec_def tx_query_def tx_return_def
        find_inbox_def sample_world_def schema_defs race_defs race_texts race_lengths transaction_key_def find_attempt_def
        complete_body_def session_row_of_def find_session_def sample_parse ids [simplified] put_projection_def update_attempt_def
        delete_session_def confirm_outbox_def update_outbox_def acknowledge_inbox_def update_inbox_def is_processing_def
        user_phase_of_def dialogs_of_def active_user_def)
  then show thesis
    using that by blast
qed

lemma raced_invite_binds_active_user_witness:
  "\<exists>d''. consume_invite_raced sample_lib (bs_store sample_bot) 1 2 3 '''' sample_token
       (\<lambda>d. snd (complete_activation sample_lib (bs_store sample_bot) race_message (Inl race_activated) sample_world d)) sample_world race_db =
       (Inr (sample_uuid 0), d'') \<and>
     (1, 2) \<in> session_user ` set (inactive d'') \<inter> active_user ` set (projections d'')"
proof -
  obtain n d where d: "complete_activation sample_lib (bs_store sample_bot) race_message (Inl race_activated) sample_world race_db = (Inr n, d)"
      "user_phase_of (dialogs_of d) (1, 2) = Active" "inactive d = []" "invites d = [race_invite]"
    by (rule race_activation)
  have k: "keyring_ok (fs_keyring (bs_store sample_bot))" "utf8_valid (kr_active (fs_keyring (bs_store sample_bot)))"
    using sample_ready(3)
    by (simp_all add: store_ready_def sample_service_def sample_bot_def sample_keyring_def utf8_valid_visible visible_def byte_def)
  obtain c where c: "fl_encrypt sample_lib (bs_store sample_bot) 1 ''invites'' (sample_uuid 6) ''balance_id'' ''other'' sample_world = Inr c"
    using fl_encrypt_total [OF sample_bot_ready(1)] by blast
  then have "fl_decrypt sample_lib (bs_store sample_bot) ''invites'' (sample_uuid 6) ''balance_id'' race_balance = Inr ''other''"
    using fl_decrypt_encrypt [OF sample_aead_laws k c] by (simp add: race_balance_def)
  then have offer: "offers sample_lib (bs_store sample_bot) (go_now sample_world 1) sample_token ''other'' race_invite d"
    using d(4) by (simp add: offers_def race_invite_def sample_world_def)
  have columns: "bigint_positive 1" "bigint_positive 2" "bigint_positive 3" "label_ok (nullif_empty '''')"
      "sample_uuid 0 \<notin> ns_id ` set (inactive d)"
    using d(3) by (simp_all add: bigint_positive_def label_ok_def nullif_empty_def)
  show ?thesis
    using raced_invite_binds_active_user [OF race_db_ok race_flow d(1,2) sample_ready(2) sample_bot_ready(1) sample_ready(5)
        sample_world_facts(1) columns(5) offer columns(1-4)]
    by blast
qed

end
