(* ===== verification/Bot_Defects.thy ===== *)
theory Bot_Defects
  imports Bot_Guarantees
begin

text \<open>
  Where the bot does not do what it means to. The label of a session is the display name of the user, cut to 128
  bytes; the cut may be inside a character.
\<close>

lemma bot_ok_new_label: "bot_ok (d\<lparr>inactive := inactive d @ [s]\<rparr>) \<Longrightarrow> label_ok (ns_display_label s)"
  by (simp add: bot_ok_def inactive_row_ok_def)

lemma broken_label: "\<not> utf8_valid label \<Longrightarrow> \<not> label_ok (nullif_empty label)"
  by (auto simp: label_ok_def nullif_empty_def pg_text_def)

text \<open>
  C30. A name that is cut inside a character keeps its user out: when the label that \<open>trimLabel\<close> makes is not valid UTF-8,
  no invite binds an unknown user, whatever the invite is, and nothing changes.
\<close>

theorem cut_label_refused:
  assumes "user_phase_of (dialogs_of d) (bot_id, user_id) = Unknown" "\<not> utf8_valid (trim_label name)"
  shows "\<exists>e. consume_invite L fs bot_id user_id chat_id (trim_label name) token w d = (Inl e, d)"
proof -
  note label = broken_label [OF assms(2)]
  have "(\<exists>e. consume_invite L fs bot_id user_id chat_id (trim_label name) token w d = (Inl e, d)) \<or>
      False \<and> (\<exists>r. consume_invite L fs bot_id user_id chat_id (trim_label name) token w d = (r, d))"
    unfolding consume_invite_def bind_user_def
    by (rule run_same) (use unknown_user [OF assms(1)] label in \<open>auto simp: tx_ok Let_def dest!: bot_ok_new_label split: option.splits if_splits\<close>)
  then show ?thesis by blast
qed

text \<open>127 letters and one Cyrillic letter, which takes two bytes.\<close>

definition long_name :: string where
  "long_name = replicate 127 CHR ''a'' @ [CHR 0xD0, CHR 0xB0]"

lemma cut_label_refused_witness:
  "utf8_valid long_name \<and> \<not> utf8_valid (trim_label long_name) \<and>
     (\<exists>e. consume_invite sample_lib (bs_store sample_bot) 1 2 2 (trim_label long_name) sample_token sample_world sample_started =
        (Inl e, sample_started))"
proof -
  have "utf8_valid long_name" and broken: "\<not> utf8_valid (trim_label long_name)"
    by code_simp+
  moreover have "user_phase_of (dialogs_of sample_started) (1, 2) = Unknown"
    using sample_columns(6) by (simp add: sample_start_def)
  ultimately show ?thesis
    using cut_label_refused [OF _ broken] by blast
qed

end
