(* ===== verification/Message_Consumer.thy ===== *)
theory Message_Consumer
  imports Config "HOL-Library.Sublist"
begin

text \<open>
  src/internal/platform/message/consumer.go: a subscription with its channel and its workers. The goroutines
  interleave in any order: an event names the goroutine that goes on and what it does, \<open>consumer_next\<close> is
  its effect (\<open>None\<close> when it cannot happen), and a run is a sequence of events. The client library calls the
  callback for one message at a time; \<open>cn_waiting\<close> is what it has received and the callback has not put
  into the channel yet, the first one being in the callback. The library documents that it drops a message which would
  bring \<open>cn_waiting\<close> over a limit of \<open>SetPendingLimits\<close> (a slow consumer); a limit that is not positive is none.
  What the subscription, the setting of the limits and the flush answer are arguments. A run begins when
  the workers start; what arrives before is the beginning of the run.
\<close>

section \<open>The state\<close>

record nats_message =
  nm_subject :: string
  nm_data :: bytes

datatype worker_state = Idle | Received nats_message | Busy nats_message | Exited

record consumer =
  cn_waiting :: "nats_message list"
  cn_message_limit :: int
  cn_byte_limit :: int
  cn_capacity :: nat
  cn_messages :: "nats_message list"
  cn_workers :: "worker_state list"
  cn_cancelled :: bool
  cn_subscribed :: bool

record subscription_answers =
  sa_subscribe :: "error + unit"
  sa_limits :: "error + unit"
  sa_flush :: "error + unit"

text \<open>
  The channel is made before anything else and panics on a negative size. An error of a later call leaves no
  consumer; after the first one the subscription is gone again.
\<close>

definition start_consumer :: "subscription_answers \<Rightarrow> string \<Rightarrow> nats_config \<Rightarrow> int \<Rightarrow> error + consumer" where
  "start_consumer answers subj cfg concurrency =
     (if nc_pending_messages cfg < 0 then Inl (Errorf ''panic: makechan: size out of range'')
      else case sa_subscribe answers of Inl e \<Rightarrow> Inl (Wrap (''subscribe to '' @ subj) e) | Inr _ \<Rightarrow>
      case sa_limits answers of Inl e \<Rightarrow> Inl (Wrap ''set subscription limits'' e) | Inr _ \<Rightarrow>
      case sa_flush answers of Inl e \<Rightarrow> Inl (Wrap ''flush subscription'' e) | Inr _ \<Rightarrow>
      Inr \<lparr>cn_waiting = [], cn_message_limit = nc_pending_messages cfg, cn_byte_limit = nc_pending_bytes cfg,
           cn_capacity = nat (nc_pending_messages cfg), cn_messages = [],
           cn_workers = replicate (nat concurrency) Idle, cn_cancelled = False, cn_subscribed = True\<rparr>)"

section \<open>The goroutines\<close>

text \<open>
  \<open>Arrive\<close>: a message comes to the client library, which queues or drops it. \<open>Enqueue\<close> and \<open>Drop\<close>: the callback sends
  to the channel or sees the cancellation. \<open>Take\<close>: a worker receives from the channel; \<open>Hand_Over\<close>: it receives from the
  callback directly, which is how an empty channel without a buffer works. \<open>Call\<close>: a worker calls the handler with what it
  received, and \<open>Finish\<close>: the handler returns, its error is ignored. \<open>Leave\<close>: a worker sees the cancellation. \<open>Cancel\<close> and
  \<open>Unsubscribe\<close> are what \<open>Stop\<close> does.
\<close>

datatype consumer_event =
    Arrive nats_message | Enqueue | Drop | Take nat | Hand_Over nat | Call nat | Finish nat | Leave nat | Cancel | Unsubscribe

definition waiting_bytes :: "nats_message list \<Rightarrow> nat" where
  "waiting_bytes ms = sum_list (map (\<lambda>m. length (nm_data m)) ms)"

definition has_room :: "consumer \<Rightarrow> nats_message \<Rightarrow> bool" where
  "has_room c m \<longleftrightarrow>
     (cn_message_limit c \<le> 0 \<or> int (length (cn_waiting c @ [m])) \<le> cn_message_limit c) \<and>
     (cn_byte_limit c \<le> 0 \<or> int (waiting_bytes (cn_waiting c @ [m])) \<le> cn_byte_limit c)"

definition worker_at :: "consumer \<Rightarrow> nat \<Rightarrow> worker_state" where
  "worker_at c i = (if i < length (cn_workers c) then cn_workers c ! i else Exited)"

definition set_worker :: "nat \<Rightarrow> worker_state \<Rightarrow> consumer \<Rightarrow> consumer" where
  "set_worker i s c = c\<lparr>cn_workers := (cn_workers c)[i := s]\<rparr>"

fun consumer_next :: "consumer \<Rightarrow> consumer_event \<Rightarrow> consumer option" where
  "consumer_next c (Arrive m) =
     (if \<not> cn_subscribed c then None
      else if has_room c m then Some (c\<lparr>cn_waiting := cn_waiting c @ [m]\<rparr>) else Some c)"
| "consumer_next c Enqueue =
     (case cn_waiting c of [] \<Rightarrow> None
      | m # rest \<Rightarrow>
          if length (cn_messages c) < cn_capacity c
          then Some (c\<lparr>cn_waiting := rest, cn_messages := cn_messages c @ [m]\<rparr>) else None)"
| "consumer_next c Drop =
     (case cn_waiting c of [] \<Rightarrow> None
      | m # rest \<Rightarrow> if cn_cancelled c then Some (c\<lparr>cn_waiting := rest\<rparr>) else None)"
| "consumer_next c (Take i) =
     (case cn_messages c of [] \<Rightarrow> None
      | m # rest \<Rightarrow> if worker_at c i = Idle then Some (set_worker i (Received m) (c\<lparr>cn_messages := rest\<rparr>)) else None)"
| "consumer_next c (Hand_Over i) =
     (case cn_waiting c of [] \<Rightarrow> None
      | m # rest \<Rightarrow>
          if cn_messages c = [] \<and> worker_at c i = Idle
          then Some (set_worker i (Received m) (c\<lparr>cn_waiting := rest\<rparr>)) else None)"
| "consumer_next c (Call i) = (case worker_at c i of Received m \<Rightarrow> Some (set_worker i (Busy m) c) | _ \<Rightarrow> None)"
| "consumer_next c (Finish i) = (case worker_at c i of Busy m \<Rightarrow> Some (set_worker i Idle c) | _ \<Rightarrow> None)"
| "consumer_next c (Leave i) = (if cn_cancelled c \<and> worker_at c i = Idle then Some (set_worker i Exited c) else None)"
| "consumer_next c Cancel = (if cn_cancelled c then None else Some (c\<lparr>cn_cancelled := True\<rparr>))"
| "consumer_next c Unsubscribe = (if cn_subscribed c then Some (c\<lparr>cn_subscribed := False\<rparr>) else None)"

fun consumer_run :: "consumer \<Rightarrow> consumer_event list \<Rightarrow> consumer option" where
  "consumer_run c [] = Some c"
| "consumer_run c (e # es) = (case consumer_next c e of None \<Rightarrow> None | Some c' \<Rightarrow> consumer_run c' es)"

text \<open>\<open>Stop\<close> cancels, unsubscribes and waits until every worker has returned.\<close>

definition stopped :: "consumer \<Rightarrow> bool" where
  "stopped c \<longleftrightarrow> list_all (\<lambda>s. s = Exited) (cn_workers c)"

section \<open>The history of a run\<close>

text \<open>
  The messages that arrive, those the client library queues, those the workers receive and those the handler is
  called with, with the number of the worker, in the order of the events.
\<close>

fun arrived :: "consumer_event \<Rightarrow> nats_message list" where
  "arrived (Arrive m) = [m]"
| "arrived _ = []"

fun queued :: "consumer \<Rightarrow> consumer_event \<Rightarrow> nats_message list" where
  "queued c (Arrive m) = (if has_room c m then [m] else [])"
| "queued c _ = []"

fun received :: "consumer \<Rightarrow> consumer_event \<Rightarrow> (nat \<times> nats_message) list" where
  "received c (Take i) = map (Pair i) (take 1 (cn_messages c))"
| "received c (Hand_Over i) = map (Pair i) (take 1 (cn_waiting c))"
| "received c _ = []"

fun called :: "consumer \<Rightarrow> consumer_event \<Rightarrow> (nat \<times> nats_message) list" where
  "called c (Call i) = (case worker_at c i of Received m \<Rightarrow> [(i, m)] | _ \<Rightarrow> [])"
| "called c _ = []"

fun history :: "(consumer \<Rightarrow> consumer_event \<Rightarrow> 'a list) \<Rightarrow> consumer \<Rightarrow> consumer_event list \<Rightarrow> 'a list" where
  "history f c [] = []"
| "history f c (e # es) = f c e @ (case consumer_next c e of None \<Rightarrow> [] | Some c' \<Rightarrow> history f c' es)"

text \<open>What worker \<open>i\<close> has of a list of numbered messages, and the message it has received and not yet handled.\<close>

definition by_worker :: "nat \<Rightarrow> (nat \<times> nats_message) list \<Rightarrow> nats_message list" where
  "by_worker i ms = map snd (filter (\<lambda>(j, m). j = i) ms)"

definition held :: "consumer \<Rightarrow> nat \<Rightarrow> nats_message list" where
  "held c i = (case worker_at c i of Received m \<Rightarrow> [m] | _ \<Rightarrow> [])"

lemma by_worker_append [simp]: "by_worker i [] = []" "by_worker i (xs @ ys) = by_worker i xs @ by_worker i ys"
  by (simp_all add: by_worker_def)

lemma worker_at_set [simp]: "worker_at (set_worker i s c) j = (if j = i \<and> i < length (cn_workers c) then s else worker_at c j)"
  by (auto simp: worker_at_def set_worker_def)

lemma worker_at_valid: "worker_at c i \<noteq> Exited \<Longrightarrow> i < length (cn_workers c)"
  by (auto simp: worker_at_def split: if_splits)

lemma worker_at_update [simp]:
  "worker_at (c\<lparr>cn_waiting := ms\<rparr>) i = worker_at c i" "worker_at (c\<lparr>cn_messages := ms\<rparr>) i = worker_at c i"
  "worker_at (c\<lparr>cn_waiting := ms, cn_messages := ns\<rparr>) i = worker_at c i"
  "worker_at (c\<lparr>cn_cancelled := b\<rparr>) i = worker_at c i" "worker_at (c\<lparr>cn_subscribed := b\<rparr>) i = worker_at c i"
  by (simp_all add: worker_at_def)

lemma set_worker_frame [simp]:
  "cn_waiting (set_worker i s c) = cn_waiting c" "cn_messages (set_worker i s c) = cn_messages c"
  "cn_message_limit (set_worker i s c) = cn_message_limit c" "cn_byte_limit (set_worker i s c) = cn_byte_limit c"
  "cn_capacity (set_worker i s c) = cn_capacity c" "cn_cancelled (set_worker i s c) = cn_cancelled c"
  "cn_subscribed (set_worker i s c) = cn_subscribed c" "length (cn_workers (set_worker i s c)) = length (cn_workers c)"
  by (simp_all add: set_worker_def)

lemma run_Cons:
  assumes "consumer_run c (e # es) = Some c'"
  obtains c1 where "consumer_next c e = Some c1" "consumer_run c1 es = Some c'"
  using assms by (auto split: option.splits)

section \<open>Order\<close>

definition in_flight :: "consumer \<Rightarrow> nats_message list" where
  "in_flight c = cn_messages c @ cn_waiting c"

definition calls_running :: "consumer \<Rightarrow> nat" where
  "calls_running c = length (filter (\<lambda>s. case s of Busy m \<Rightarrow> True | _ \<Rightarrow> False) (cn_workers c))"

text \<open>What waits in the client library stays within the limits, and the channel within its size.\<close>

definition within_limits :: "consumer \<Rightarrow> bool" where
  "within_limits c \<longleftrightarrow>
     (0 < cn_message_limit c \<longrightarrow> int (length (cn_waiting c)) \<le> cn_message_limit c) \<and>
     (0 < cn_byte_limit c \<longrightarrow> int (waiting_bytes (cn_waiting c)) \<le> cn_byte_limit c) \<and>
     length (cn_messages c) \<le> cn_capacity c"

lemma next_order:
  assumes "consumer_next c e = Some c'"
  shows "subseq (map snd (received c e) @ in_flight c') (in_flight c @ queued c e)"
    and "\<not> cn_cancelled c \<Longrightarrow> map snd (received c e) @ in_flight c' = in_flight c @ queued c e"
proof -
  have either: "map snd (received c e) @ in_flight c' = in_flight c @ queued c e \<or>
    (cn_cancelled c \<and> (\<exists>m rest. map snd (received c e) @ in_flight c' = cn_messages c @ rest \<and> in_flight c @ queued c e = cn_messages c @ m # rest))"
    using assms by (cases e) (simp_all add: in_flight_def split: list.splits if_splits worker_state.splits, auto)
  then show "subseq (map snd (received c e) @ in_flight c') (in_flight c @ queued c e)"
    by (metis list_emb_Cons list_emb_append_mono subseq_order.refl)
  show "\<not> cn_cancelled c \<Longrightarrow> map snd (received c e) @ in_flight c' = in_flight c @ queued c e"
    using either by blast
qed

lemma next_frame:
  assumes "consumer_next c e = Some c'"
  shows "cn_cancelled c \<Longrightarrow> cn_cancelled c'" "\<not> cn_subscribed c \<Longrightarrow> \<not> cn_subscribed c'"
    "cn_capacity c' = cn_capacity c" "cn_message_limit c' = cn_message_limit c" "cn_byte_limit c' = cn_byte_limit c"
    "length (cn_workers c') = length (cn_workers c)"
  using assms by (cases e; auto split: list.splits if_splits worker_state.splits)+

lemma next_within:
  assumes "consumer_next c e = Some c'" "within_limits c"
  shows "within_limits c'"
  using assms by (cases e) (auto simp: within_limits_def has_room_def waiting_bytes_def split: list.splits if_splits worker_state.splits)

lemma next_worker:
  assumes "consumer_next c e = Some c'"
  shows "by_worker i (called c e) @ held c' i = held c i @ by_worker i (received c e)"
  using assms
  by (cases e) (auto simp: by_worker_def held_def worker_at_valid split: list.splits if_splits worker_state.splits)

lemma run_frame:
  "consumer_run c es = Some c' \<Longrightarrow> length (cn_workers c') = length (cn_workers c) \<and> cn_capacity c' = cn_capacity c \<and>
    cn_message_limit c' = cn_message_limit c \<and> cn_byte_limit c' = cn_byte_limit c \<and>
    (cn_cancelled c \<longrightarrow> cn_cancelled c') \<and> (within_limits c \<longrightarrow> within_limits c')"
proof (induction es arbitrary: c)
  case (Cons e es)
  from Cons.prems obtain c1 where s: "consumer_next c e = Some c1" "consumer_run c1 es = Some c'"
    by (rule run_Cons)
  show ?case using Cons.IH [OF s(2)] next_frame [OF s(1)] next_within [OF s(1)] by auto
qed simp

lemma run_order:
  assumes "consumer_run c es = Some c'"
  shows "subseq (map snd (history received c es) @ in_flight c') (in_flight c @ history queued c es) \<and>
    (\<not> cn_cancelled c' \<longrightarrow> map snd (history received c es) @ in_flight c' = in_flight c @ history queued c es)"
  using assms
proof (induction es arbitrary: c)
  case (Cons e es)
  from Cons.prems obtain c1 where s: "consumer_next c e = Some c1" "consumer_run c1 es = Some c'"
    by (rule run_Cons)
  note ih = Cons.IH [OF s(2)]
  have "subseq (map snd (received c e) @ map snd (history received c1 es) @ in_flight c')
      (map snd (received c e) @ in_flight c1 @ history queued c1 es)"
    using ih by (simp add: list_emb_append_mono)
  also have "subseq (map snd (received c e) @ in_flight c1 @ history queued c1 es) ((in_flight c @ queued c e) @ history queued c1 es)"
    using next_order(1) [OF s(1)] by (metis append_assoc list_emb_append_mono subseq_order.refl)
  finally have "subseq (map snd (history received c (e # es)) @ in_flight c') (in_flight c @ history queued c (e # es))"
    by (simp add: s(1))
  moreover have "map snd (history received c (e # es)) @ in_flight c' = in_flight c @ history queued c (e # es)" if "\<not> cn_cancelled c'"
  proof -
    have "\<not> cn_cancelled c1" "\<not> cn_cancelled c"
      using run_frame [OF s(2)] next_frame(1) [OF s(1)] that by auto
    with ih next_order(2) [OF s(1)] that show ?thesis by (simp add: s(1))
  qed
  ultimately show ?case by blast
qed simp

lemma run_worker:
  "consumer_run c es = Some c' \<Longrightarrow>
    by_worker i (history called c es) @ held c' i = held c i @ by_worker i (history received c es)"
proof (induction es arbitrary: c)
  case (Cons e es)
  from Cons.prems obtain c1 where s: "consumer_next c e = Some c1" "consumer_run c1 es = Some c'"
    by (rule run_Cons)
  show ?case
    using Cons.IH [OF s(2)] next_worker [OF s(1), of i] by (simp add: s(1))
qed simp

text \<open>Nothing is dropped as long as all that arrives fits.\<close>

lemma run_queued:
  assumes "consumer_run c es = Some c'"
    and "cn_message_limit c \<le> 0 \<or> int (length (cn_waiting c @ concat (map arrived es))) \<le> cn_message_limit c"
    and "cn_byte_limit c \<le> 0 \<or> int (waiting_bytes (cn_waiting c @ concat (map arrived es))) \<le> cn_byte_limit c"
  shows "history queued c es = concat (map arrived es)"
  using assms
proof (induction es arbitrary: c)
  case (Cons e es)
  from Cons.prems(1) obtain c1 where s: "consumer_next c e = Some c1" "consumer_run c1 es = Some c'"
    by (rule run_Cons)
  have room: "queued c e = arrived e"
    using Cons.prems(2,3) by (cases e) (auto simp: has_room_def waiting_bytes_def)
  have "length (cn_waiting c1) \<le> length (cn_waiting c @ arrived e)" "waiting_bytes (cn_waiting c1) \<le> waiting_bytes (cn_waiting c @ arrived e)"
    using s(1) room by (cases e; auto simp: waiting_bytes_def split: list.splits if_splits worker_state.splits)+
  then have "history queued c1 es = concat (map arrived es)"
    using Cons.prems(2,3) next_frame(4,5) [OF s(1)] by (intro Cons.IH [OF s(2)]) (auto simp: waiting_bytes_def)
  with room show ?case by (simp add: s(1))
qed simp

lemma start_consumer_state:
  assumes "start_consumer answers subj cfg concurrency = Inr c"
  shows "in_flight c = []" "cn_waiting c = []" "within_limits c" "held c i = []" "cn_message_limit c = nc_pending_messages cfg"
    "cn_byte_limit c = nc_pending_bytes cfg" "int (cn_capacity c) = nc_pending_messages cfg"
    "length (cn_workers c) = nat concurrency"
  using assms by (auto simp: start_consumer_def in_flight_def within_limits_def waiting_bytes_def held_def worker_at_def
      split: if_splits sum.splits)

text \<open>
  C18. The workers of a consumer receive the messages that the client library queues in the order of their arrival, each of them
  once; what is missing at the end was dropped by the stopping consumer. Every worker calls the handler with what
  it received, in this order and once, and at most as many calls run at a time as there are workers. The library drops
  a message only at a pending limit: when all messages that arrive fit into the limits, all are queued, and
  neither the limits nor the size of the channel are ever exceeded.
\<close>

theorem consumer_in_order:
  assumes "start_consumer answers subj cfg concurrency = Inr c" "consumer_run c es = Some c'"
  shows "subseq (map snd (history received c es) @ cn_messages c' @ cn_waiting c') (history queued c es) \<and>
    (\<not> cn_cancelled c' \<longrightarrow> map snd (history received c es) @ cn_messages c' @ cn_waiting c' = history queued c es) \<and>
    (\<forall>i. by_worker i (history called c es) @ held c' i = by_worker i (history received c es)) \<and>
    calls_running c' \<le> nat concurrency \<and>
    ((nc_pending_messages cfg = 0 \<or> int (length (concat (map arrived es))) \<le> nc_pending_messages cfg) \<and>
     (nc_pending_bytes cfg \<le> 0 \<or> int (waiting_bytes (concat (map arrived es))) \<le> nc_pending_bytes cfg) \<longrightarrow>
       history queued c es = concat (map arrived es)) \<and>
    within_limits c' \<and> int (length (cn_messages c')) \<le> nc_pending_messages cfg"
proof -
  note start = start_consumer_state [OF assms(1)] and frame = run_frame [OF assms(2)]
  have "calls_running c' \<le> length (cn_workers c')"
    by (simp add: calls_running_def)
  moreover have "within_limits c'"
    using frame start(3) by blast
  moreover from this have "length (cn_messages c') \<le> cn_capacity c"
    using frame by (simp add: within_limits_def)
  then have "int (length (cn_messages c')) \<le> nc_pending_messages cfg"
    using start(7) by linarith
  moreover have "by_worker i (history called c es) @ held c' i = by_worker i (history received c es)" for i
    using run_worker [OF assms(2), of i] start(4) [of i] by simp
  ultimately show ?thesis
    using run_order [OF assms(2)] run_queued [OF assms(2)] start frame by (auto simp: in_flight_def)
qed

definition example_nats :: nats_config where
  "example_nats =
     \<lparr>nc_urls = [], nc_credentials_file = '''', nc_tls_ca_file = '''', nc_tls_server_name = '''', nc_connect_timeout = 0,
      nc_reconnect_wait = 0, nc_max_reconnects = 0, nc_reconnect_buffer = 0, nc_pending_messages = 2, nc_pending_bytes = 100\<rparr>"

definition example_message :: "string \<Rightarrow> nats_message" where
  "example_message data = \<lparr>nm_subject = ''rw'', nm_data = data\<rparr>"

definition example_consumer :: "bool \<Rightarrow> nats_message list \<Rightarrow> worker_state list \<Rightarrow> consumer" where
  "example_consumer running queue ws =
     \<lparr>cn_waiting = [], cn_message_limit = 2, cn_byte_limit = 100, cn_capacity = 2, cn_messages = queue, cn_workers = ws,
      cn_cancelled = \<not> running, cn_subscribed = running\<rparr>"

text \<open>The third message comes while two wait, and is dropped.\<close>

definition example_events :: "consumer_event list" where
  "example_events = [Arrive (example_message ''a''), Arrive (example_message ''b''), Arrive (example_message ''c''),
     Enqueue, Take 1, Enqueue, Take 0, Call 0, Call 1, Finish 0]"

lemma consumer_in_order_witness:
  "\<exists>c c'. start_consumer \<lparr>sa_subscribe = Inr (), sa_limits = Inr (), sa_flush = Inr ()\<rparr> ''rw'' example_nats 2 = Inr c \<and>
     consumer_run c example_events = Some c' \<and>
     map snd (history received c example_events) @ cn_messages c' @ cn_waiting c' = history queued c example_events \<and>
     history queued c example_events = [example_message ''a'', example_message ''b''] \<and>
     by_worker 0 (history called c example_events) @ held c' 0 = by_worker 0 (history received c example_events)"
proof -
  let ?c = "example_consumer True [] [Idle, Idle]" and ?c' = "example_consumer True [] [Idle, Busy (example_message ''a'')]"
  have start: "start_consumer \<lparr>sa_subscribe = Inr (), sa_limits = Inr (), sa_flush = Inr ()\<rparr> ''rw'' example_nats 2 = Inr ?c"
    by (simp add: start_consumer_def example_nats_def example_consumer_def eval_nat_numeral)
  have run: "consumer_run ?c example_events = Some ?c'" "\<not> cn_cancelled ?c'"
    "history queued ?c example_events = [example_message ''a'', example_message ''b'']"
    by (simp_all add: example_consumer_def example_events_def example_message_def worker_at_def set_worker_def has_room_def waiting_bytes_def)
  from consumer_in_order [OF start run(1)] start run show ?thesis by blast
qed

section \<open>Stopping\<close>

fun worker_steps :: "worker_state \<Rightarrow> nat" where
  "worker_steps Exited = 0" | "worker_steps Idle = 1" | "worker_steps (Busy m) = 2" | "worker_steps (Received m) = 3"

definition stop_steps :: "consumer \<Rightarrow> nat" where
  "stop_steps c = 4 * length (cn_waiting c) + 3 * length (cn_messages c) + sum_list (map worker_steps (cn_workers c))"

lemma sum_list_set_worker:
  "i < length ws \<Longrightarrow> sum_list (map worker_steps (ws[i := s])) + worker_steps (ws ! i) = sum_list (map worker_steps ws) + worker_steps s"
  by (induction ws arbitrary: i) (auto split: nat.splits)

lemma set_worker_steps:
  assumes "worker_at c i \<noteq> Exited"
  shows "stop_steps (set_worker i s c) + worker_steps (worker_at c i) = stop_steps c + worker_steps s"
  using sum_list_set_worker [OF worker_at_valid [OF assms], of s] worker_at_valid [OF assms]
  by (simp add: stop_steps_def set_worker_def worker_at_def)

lemma next_stop_steps:
  assumes "consumer_next c e = Some c'" "cn_cancelled c" "\<not> cn_subscribed c"
  shows "stop_steps c' < stop_steps c"
proof (cases e)
  case (Take i)
  with assms obtain m rest where t: "cn_messages c = m # rest" "worker_at c i = Idle"
      "c' = set_worker i (Received m) (c\<lparr>cn_messages := rest\<rparr>)"
    by (auto split: list.splits if_splits)
  with set_worker_steps [of "c\<lparr>cn_messages := rest\<rparr>" i "Received m"] show ?thesis
    by (simp add: stop_steps_def)
next
  case (Hand_Over i)
  with assms obtain m rest where t: "cn_waiting c = m # rest" "worker_at c i = Idle"
      "c' = set_worker i (Received m) (c\<lparr>cn_waiting := rest\<rparr>)"
    by (auto split: list.splits if_splits)
  with set_worker_steps [of "c\<lparr>cn_waiting := rest\<rparr>" i "Received m"] show ?thesis
    by (simp add: stop_steps_def)
next
  case (Call i)
  with assms obtain m where "worker_at c i = Received m" "c' = set_worker i (Busy m) c"
    by (auto split: worker_state.splits)
  with set_worker_steps [of c i "Busy m"] show ?thesis by simp
next
  case (Finish i)
  with assms obtain m where "worker_at c i = Busy m" "c' = set_worker i Idle c"
    by (auto split: worker_state.splits)
  with set_worker_steps [of c i Idle] show ?thesis by simp
next
  case (Leave i)
  with assms have "worker_at c i = Idle" "c' = set_worker i Exited c"
    by (auto split: if_splits)
  with set_worker_steps [of c i Exited] show ?thesis by simp
qed (use assms in \<open>auto simp: stop_steps_def split: list.splits if_splits\<close>)

lemma stuck_stopped:
  assumes "cn_cancelled c" "\<not> stopped c"
  shows "\<exists>e. consumer_next c e \<noteq> None"
proof -
  obtain i where i: "i < length (cn_workers c)" "cn_workers c ! i \<noteq> Exited"
    using assms(2) by (auto simp: stopped_def list_all_iff in_set_conv_nth)
  then have "consumer_next c (Leave i) \<noteq> None \<or> consumer_next c (Call i) \<noteq> None \<or> consumer_next c (Finish i) \<noteq> None"
    using assms(1) by (cases "cn_workers c ! i") (simp_all add: worker_at_def)
  then show ?thesis by blast
qed

lemma stopped_calls: "stopped c \<Longrightarrow> history called c es = []"
proof (induction es arbitrary: c)
  case (Cons e es)
  have none: "worker_at c i = Exited" for i
    using Cons.prems by (auto simp: stopped_def list_all_length worker_at_def)
  have "cn_workers c1 = cn_workers c" if "consumer_next c e = Some c1" for c1
    using that none by (cases e; auto split: list.splits if_splits)
  then have "stopped c1" if "consumer_next c e = Some c1" for c1
    using Cons.prems that by (simp add: stopped_def)
  with Cons.IH none show ?case
    by (cases e) (auto split: option.split)
qed simp

text \<open>
  C23. \<open>Stop\<close> returns: once the consumer is cancelled and unsubscribed its goroutines do a bounded number of
  things, they can go on until every worker has returned, and after that the handler is not called again.
\<close>

theorem consumer_stops:
  assumes "cn_cancelled c" "\<not> cn_subscribed c" "consumer_run c es = Some c'"
  shows "length es \<le> stop_steps c \<and> (stopped c' \<or> (\<exists>e. consumer_next c' e \<noteq> None)) \<and> (stopped c \<longrightarrow> history called c es = [])"
proof -
  have "length es + stop_steps c' \<le> stop_steps c"
    using assms
  proof (induction es arbitrary: c)
    case (Cons e es)
    from Cons.prems(3) obtain c1 where s: "consumer_next c e = Some c1" "consumer_run c1 es = Some c'"
      by (rule run_Cons)
    have "length es + stop_steps c' \<le> stop_steps c1"
      using Cons.prems next_frame [OF s(1)] by (intro Cons.IH [OF _ _ s(2)]) auto
    with next_stop_steps [OF s(1) Cons.prems(1,2)] show ?case by simp
  qed simp
  moreover have "cn_cancelled c'"
    using run_frame [OF assms(3)] assms(1) by blast
  ultimately show ?thesis
    using stuck_stopped [of c'] stopped_calls by auto
qed

lemma consumer_stops_witness:
  "length [Finish 0, Take 1, Leave 0, Call 1, Finish 1, Leave 1] \<le>
     stop_steps (example_consumer False [example_message ''b''] [Busy (example_message ''a''), Idle])"
proof -
  let ?c = "example_consumer False [example_message ''b''] [Busy (example_message ''a''), Idle]"
  have "consumer_run ?c [Finish 0, Take 1, Leave 0, Call 1, Finish 1, Leave 1] = Some (example_consumer False [] [Exited, Exited])"
    by (simp add: example_consumer_def worker_at_def set_worker_def)
  then show ?thesis
    using consumer_stops [of ?c "[Finish 0, Take 1, Leave 0, Call 1, Finish 1, Leave 1]" "example_consumer False [] [Exited, Exited]"]
    by (simp add: example_consumer_def del: consumer_run.simps consumer_next.simps)
qed

end
