(* ===== verification/Telegram_Api.thy ===== *)
theory Telegram_Api
  imports Bot_Service
begin

text \<open>
  src/internal/bot/adapter/telegram/client.go: the client of the Bot API of Telegram. \<open>transport\<close> stands for
  the HTTP client and the server: it maps a request to an error or a response. A response of status 200
  is at most \<open>maxResponseBytes\<close> of one JSON value and white space; the result is decoded into the Go type
  of the call. \<open>getUpdates\<close> keeps the bytes of every update, whose digest is stored with it.
\<close>

record telegram_user =
  tg_id :: int
  tg_is_bot :: bool
  tg_username :: string
  tg_first_name :: string
  tg_last_name :: string

record chat_message =
  ch_message_id :: int
  ch_text :: string
  ch_chat_id :: int
  ch_chat_type :: string
  ch_from :: telegram_user

record telegram_update =
  up_update_id :: int
  up_message :: "chat_message option"
  up_payload_digest :: bytes

section \<open>The client\<close>

text \<open>\<open>strings.ContainsAny\<close> on ASCII characters.\<close>

definition contains_any :: "string \<Rightarrow> string \<Rightarrow> bool" where
  "contains_any s chars \<longleftrightarrow> list_ex (\<lambda>c. c \<in> set chars) s"

definition token_breakers :: string where
  "token_breakers = [CHR ''/'', CHR 0x5C, CHR '' '', CHR 0x09, CHR 0x0D, CHR 0x0A]"

definition valid_token :: "string \<Rightarrow> bool" where
  "valid_token token =
     (let (prefix, secret, ok) = go_cut CHR '':'' (trim_space token) in
      if \<not> ok \<or> length secret < 20 \<or> contains_any secret token_breakers then False
      else parse_int64 prefix \<noteq> None)"

record client =
  cl_base_url :: string
  cl_token :: string

definition new_client :: "string \<Rightarrow> error + client" where
  "new_client token =
     (if \<not> valid_token token then Inl (Errorf ''invalid Telegram bot token format'')
      else Inr \<lparr>cl_base_url = ''https://api.telegram.org'', cl_token = token\<rparr>)"

definition call_endpoint :: "client \<Rightarrow> string \<Rightarrow> string" where
  "call_endpoint c name = cl_base_url c @ ''/bot'' @ cl_token c @ ''/'' @ name"

definition poll_seconds :: "duration \<Rightarrow> int" where
  "poll_seconds timeout = (let seconds = timeout div second in if seconds < 1 then 1 else seconds)"

section \<open>Decoding the answers\<close>

text \<open>A flat struct that is decoded into one that is there already keeps the fields the text leaves out.\<close>

fun merge_struct :: "spec \<Rightarrow> fval list \<Rightarrow> json \<Rightarrow> fval list option" where
  "merge_struct sp vs JNull = Some vs"
| "merge_struct sp vs (JObj ms) = decode_members False sp vs ms"
| "merge_struct sp vs _ = None"

definition user_spec :: spec where
  "user_spec =
     [(''id'', KInt, False), (''is_bot'', KBool, False), (''username'', KStr, False), (''first_name'', KStr, False),
      (''last_name'', KStr, False)]"

definition user_vals :: "telegram_user \<Rightarrow> fval list" where
  "user_vals u = [FInt (tg_id u), FBool (tg_is_bot u), FStr (tg_username u), FStr (tg_first_name u), FStr (tg_last_name u)]"

definition user_of :: "fval list \<Rightarrow> telegram_user" where
  "user_of vs =
     \<lparr>tg_id = int_of (vs ! 0), tg_is_bot = bool_of (vs ! 1), tg_username = str_of (vs ! 2), tg_first_name = str_of (vs ! 3),
      tg_last_name = str_of (vs ! 4)\<rparr>"

definition zero_user :: telegram_user where
  "zero_user = user_of (zero_struct user_spec)"

definition decode_user :: "telegram_user \<Rightarrow> json \<Rightarrow> telegram_user option" where
  "decode_user old j = map_option user_of (merge_struct user_spec (user_vals old) j)"

definition chat_spec :: spec where
  "chat_spec = [(''id'', KInt, False), (''type'', KStr, False)]"

definition decode_chat :: "chat_message \<Rightarrow> json \<Rightarrow> chat_message option" where
  "decode_chat m j =
     map_option (\<lambda>vs. m\<lparr>ch_chat_id := int_of (vs ! 0), ch_chat_type := str_of (vs ! 1)\<rparr>)
       (merge_struct chat_spec [FInt (ch_chat_id m), FStr (ch_chat_type m)] j)"

text \<open>The fields of \<open>Message\<close>; the kinds of the last two, which are structs, are not used.\<close>

definition message_names :: spec where
  "message_names = [(''message_id'', KInt, False), (''text'', KStr, True), (''chat'', KStr, False), (''from'', KStr, False)]"

definition zero_message :: chat_message where
  "zero_message = \<lparr>ch_message_id = 0, ch_text = '''', ch_chat_id = 0, ch_chat_type = '''', ch_from = zero_user\<rparr>"

definition decode_message_field :: "nat \<Rightarrow> chat_message \<Rightarrow> json \<Rightarrow> chat_message option" where
  "decode_message_field i m j =
     (if i = 0 then map_option (\<lambda>v. m\<lparr>ch_message_id := int_of v\<rparr>) (decode_field KInt (FInt (ch_message_id m)) j)
      else if i = 1 then map_option (\<lambda>v. m\<lparr>ch_text := str_of v\<rparr>) (decode_field KStr (FStr (ch_text m)) j)
      else if i = 2 then decode_chat m j
      else map_option (\<lambda>u. m\<lparr>ch_from := u\<rparr>) (decode_user (ch_from m) j))"

fun decode_fields :: "spec \<Rightarrow> (nat \<Rightarrow> 'a \<Rightarrow> json \<Rightarrow> 'a option) \<Rightarrow> 'a \<Rightarrow> (bytes \<times> json) list \<Rightarrow> 'a option" where
  "decode_fields sp field x [] = Some x"
| "decode_fields sp field x ((k, j) # ms) =
     (case field_index sp k of
        None \<Rightarrow> decode_fields sp field x ms
      | Some i \<Rightarrow> (case field i x j of None \<Rightarrow> None | Some y \<Rightarrow> decode_fields sp field y ms))"

fun decode_message :: "chat_message \<Rightarrow> json \<Rightarrow> chat_message option" where
  "decode_message m JNull = Some m"
| "decode_message m (JObj ms) = decode_fields message_names decode_message_field m ms"
| "decode_message m _ = None"

text \<open>The message of an update is a pointer: \<open>null\<close> clears it, anything else is decoded into what it points to.\<close>

definition update_names :: spec where
  "update_names = [(''update_id'', KInt, False), (''message'', KStr, True)]"

definition zero_update :: telegram_update where
  "zero_update = \<lparr>up_update_id = 0, up_message = None, up_payload_digest = []\<rparr>"

definition decode_update_field :: "nat \<Rightarrow> telegram_update \<Rightarrow> json \<Rightarrow> telegram_update option" where
  "decode_update_field i u j =
     (if i = 0 then map_option (\<lambda>v. u\<lparr>up_update_id := int_of v\<rparr>) (decode_field KInt (FInt (up_update_id u)) j)
      else if j = JNull then Some (u\<lparr>up_message := None\<rparr>)
      else map_option (\<lambda>m. u\<lparr>up_message := Some m\<rparr>)
             (decode_message (case up_message u of None \<Rightarrow> zero_message | Some m \<Rightarrow> m) j))"

fun decode_update :: "json \<Rightarrow> telegram_update option" where
  "decode_update JNull = Some zero_update"
| "decode_update (JObj ms) = decode_fields update_names decode_update_field zero_update ms"
| "decode_update _ = None"

section \<open>Raw values\<close>

text \<open>A value at the head of the text, the bytes it is written with, and the rest.\<close>

definition raw_value :: "string \<Rightarrow> (json \<times> bytes \<times> string) option" where
  "raw_value s =
     (let t = skip_ws s in
      case parse_value (Suc (length t)) t of
        None \<Rightarrow> None | Some (j, r) \<Rightarrow> Some (j, take (length t - length r) t, r))"

text \<open>
  The elements of an array after its bracket and the members of an object after its brace, each with its
  bytes. The fuel is the length of the text, as every element takes a byte.
\<close>

fun raw_elements :: "nat \<Rightarrow> string \<Rightarrow> bytes list" where
  "raw_elements 0 s = []"
| "raw_elements (Suc n) s =
     (case raw_value s of
        None \<Rightarrow> []
      | Some (_, raw, r) \<Rightarrow>
          (case skip_ws r of
             e # rest \<Rightarrow> if e = CHR '','' then raw # raw_elements n rest else [raw]
           | [] \<Rightarrow> [raw]))"

fun raw_members :: "nat \<Rightarrow> string \<Rightarrow> (bytes \<times> json \<times> bytes) list" where
  "raw_members 0 s = []"
| "raw_members (Suc n) s =
     (case unquote (tl (skip_ws s)) of
        None \<Rightarrow> []
      | Some (k, r1) \<Rightarrow>
          (case raw_value (tl (skip_ws r1)) of
             None \<Rightarrow> []
           | Some (j, raw, r) \<Rightarrow>
               (case skip_ws r of
                  e # rest \<Rightarrow> if e = CHR '','' then (k, j, raw) # raw_members n rest else [(k, j, raw)]
                | [] \<Rightarrow> [(k, j, raw)])))"

definition raw_array :: "json \<Rightarrow> bytes \<Rightarrow> bytes list option" where
  "raw_array j raw =
     (case j of
        JNull \<Rightarrow> Some []
      | JArr es \<Rightarrow> Some (if es = [] then [] else raw_elements (length raw) (tl (skip_ws raw)))
      | _ \<Rightarrow> None)"

section \<open>A call\<close>

record http_request =
  hq_url :: string
  hq_content_type :: string
  hq_body :: bytes

record http_response =
  hr_status :: int
  hr_body :: bytes

text \<open>A request that cannot be made of the URL, or one that gets no response.\<close>

datatype http_failure = BadRequest | NoResponse

type_synonym transport = "http_request \<Rightarrow> http_failure + http_response"

definition maxResponseBytes :: nat where
  "maxResponseBytes = 1048576"

text \<open>The members of \<open>apiResponse[T]\<close>: \<open>ok\<close>, and the result with the decoder of its type.\<close>

definition response_names :: spec where
  "response_names = [(''ok'', KBool, False), (''result'', KStr, False)]"

fun decode_response ::
  "('a \<Rightarrow> json \<Rightarrow> bytes \<Rightarrow> 'a option) \<Rightarrow> bool \<Rightarrow> 'a \<Rightarrow> (bytes \<times> json \<times> bytes) list \<Rightarrow> (bool \<times> 'a) option" where
  "decode_response dec ok x [] = Some (ok, x)"
| "decode_response dec ok x ((k, j, raw) # ms) =
     (case field_index response_names k of
        None \<Rightarrow> decode_response dec ok x ms
      | Some i \<Rightarrow>
          if i = 0 then
            (case decode_field KBool (FBool ok) j of None \<Rightarrow> None | Some v \<Rightarrow> decode_response dec (bool_of v) x ms)
          else (case dec x j raw of None \<Rightarrow> None | Some y \<Rightarrow> decode_response dec ok y ms))"

definition decode_answer :: "('a \<Rightarrow> json \<Rightarrow> bytes \<Rightarrow> 'a option) \<Rightarrow> 'a \<Rightarrow> bytes \<Rightarrow> error + 'a" where
  "decode_answer dec zero body =
     (let data = take maxResponseBytes body in
      case raw_value data of None \<Rightarrow> Inl (Errorf ''decode Telegram response'') | Some (j, raw, rest) \<Rightarrow>
      case (case j of
              JNull \<Rightarrow> Some (False, zero)
            | JObj ms \<Rightarrow> decode_response dec False zero (if ms = [] then [] else raw_members (length raw) (tl raw))
            | _ \<Rightarrow> None) of
        None \<Rightarrow> Inl (Errorf ''decode Telegram response'')
      | Some (ok, result) \<Rightarrow>
          if skip_ws rest \<noteq> [] then Inl (Errorf ''telegram response contains trailing data'')
          else if \<not> ok then Inl (Errorf ''telegram API rejected request'')
          else Inr result)"

definition telegram_call ::
  "transport \<Rightarrow> client \<Rightarrow> string \<Rightarrow> bytes \<Rightarrow> ('a \<Rightarrow> json \<Rightarrow> bytes \<Rightarrow> 'a option) \<Rightarrow> 'a \<Rightarrow> error + 'a" where
  "telegram_call transport c name body dec zero =
     (case transport \<lparr>hq_url = call_endpoint c name, hq_content_type = ''application/json'', hq_body = body\<rparr> of
        Inl BadRequest \<Rightarrow> Inl (Errorf ''create Telegram request'')
      | Inl NoResponse \<Rightarrow> Inl (Errorf ''telegram request failed'')
      | Inr response \<Rightarrow>
          if hr_status response \<noteq> 200
          then Inl (Errorf (''telegram API returned HTTP '' @ format_int (hr_status response)))
          else decode_answer dec zero (hr_body response))"

definition get_me :: "transport \<Rightarrow> client \<Rightarrow> error + telegram_user" where
  "get_me transport c = telegram_call transport c ''getMe'' ''{}'' (\<lambda>u j raw. decode_user u j) zero_user"

definition delete_webhook :: "transport \<Rightarrow> client \<Rightarrow> error + unit" where
  "delete_webhook transport c =
     map_sum id (\<lambda>_. ())
       (telegram_call transport c ''deleteWebhook'' (marshal True [(''drop_pending_updates'', KBool, False)] [FBool False])
          (\<lambda>b j raw. map_option bool_of (decode_field KBool (FBool b) j)) False)"

definition updates_request :: "int \<Rightarrow> duration \<Rightarrow> bytes" where
  "updates_request offset timeout =
     ''{'' @ quote True ''offset'' @ '':'' @ format_int offset @ '','' @ quote True ''timeout'' @ '':'' @
     format_int (poll_seconds timeout) @ '','' @ quote True ''allowed_updates'' @ '':['' @ quote True ''message'' @ '']}''"

fun decode_updates :: "lib \<Rightarrow> bytes list \<Rightarrow> error + telegram_update list" where
  "decode_updates L [] = Inr []"
| "decode_updates L (raw # rest) =
     (case raw_value raw of None \<Rightarrow> Inl (Errorf ''decode Telegram update'') | Some (j, _, _) \<Rightarrow>
      case decode_update j of None \<Rightarrow> Inl (Errorf ''decode Telegram update'') | Some update \<Rightarrow>
      case decode_updates L rest of Inl e \<Rightarrow> Inl e
      | Inr later \<Rightarrow> Inr (update\<lparr>up_payload_digest := sha256 L raw\<rparr> # later))"

definition get_updates :: "lib \<Rightarrow> transport \<Rightarrow> client \<Rightarrow> int \<Rightarrow> duration \<Rightarrow> error + telegram_update list" where
  "get_updates L transport c offset timeout =
     (case telegram_call transport c ''getUpdates'' (updates_request offset timeout) (\<lambda>_. raw_array) [] of
        Inl e \<Rightarrow> Inl e
      | Inr raw_updates \<Rightarrow> decode_updates L raw_updates)"

definition send_text :: "transport \<Rightarrow> client \<Rightarrow> int \<Rightarrow> string \<Rightarrow> error + unit" where
  "send_text transport c chat_id body =
     map_sum id (\<lambda>_. ())
       (telegram_call transport c ''sendMessage''
          (marshal True [(''chat_id'', KInt, False), (''text'', KStr, False)] [FInt chat_id, FStr body])
          (\<lambda>m j raw. decode_message m j) zero_message)"

end
