(* ===== verification/Telegram.thy ===== *)
theory Telegram
  imports Telegram_Api
begin

text \<open>
  src/internal/bot/adapter/telegram/poller.go: what the poller checks before it starts, and its loop over the
  answers of \<open>getUpdates\<close> with the offset of the next request and the backoff. The loop of \<open>Run\<close> ends when
  the context is cancelled; it is followed for a number of requests.
\<close>

section \<open>The poller\<close>

record poller =
  pl_bot_id :: int
  pl_username :: string

definition new_poller :: "int \<Rightarrow> string \<Rightarrow> poller" where
  "new_poller bot_id username = \<lparr>pl_bot_id = bot_id, pl_username = trim_prefix ''@'' username\<rparr>"

text \<open>\<open>strings.EqualFold\<close> on ASCII, which the usernames of Telegram are.\<close>

definition equal_fold :: "string \<Rightarrow> string \<Rightarrow> bool" where
  "equal_fold s t \<longleftrightarrow> to_lower s = to_lower t"

definition check_identity :: "poller \<Rightarrow> telegram_user \<Rightarrow> error + unit" where
  "check_identity p identity =
     (if \<not> tg_is_bot identity \<or> tg_username identity = ''''
      then Inl (Errorf ''telegram token does not belong to a valid bot'')
      else if pl_bot_id p > 0 \<and> tg_id identity \<noteq> pl_bot_id p
      then Inl (Errorf ''telegram bot ID does not match token'')
      else if pl_username p \<noteq> '''' \<and> \<not> equal_fold (tg_username identity) (pl_username p)
      then Inl (Errorf ''telegram bot username does not match token'')
      else Inr ())"

definition message_of_update :: "int \<Rightarrow> telegram_update \<Rightarrow> chat_message \<Rightarrow> telegram_message" where
  "message_of_update bot_id u m =
     (let user_id = tg_id (ch_from m);
          user_id = (if user_id = 0 \<and> ch_chat_type m = ''private'' then ch_chat_id m else user_id)
      in \<lparr>tm_update_id = up_update_id u, tm_bot_id = bot_id, tm_user_id = user_id, tm_chat_id = ch_chat_id m,
          tm_chat_type = ch_chat_type m, tm_text = ch_text m,
          tm_display_label = trim_space (tg_first_name (ch_from m) @ '' '' @ tg_last_name (ch_from m)),
          tm_payload_digest = up_payload_digest u\<rparr>)"

text \<open>An \<open>int64\<close> that is increased wraps.\<close>

definition next_offset :: "int \<Rightarrow> int" where
  "next_offset update_id = sint (word_of_int (update_id + 1) :: 64 word)"

text \<open>
  One answer. The \<open>n\<close>-th update runs in the worlds \<open>wss n\<close> and its reply is sent when \<open>sends n\<close>. The
  result is the error \<open>Run\<close> ends with or the next offset, the texts sent, and the database.
\<close>

fun process_updates ::
  "lib \<Rightarrow> bot_service option \<Rightarrow> update_store \<Rightarrow> int \<Rightarrow> telegram_update list \<Rightarrow> (nat \<Rightarrow> bool) \<Rightarrow> (nat \<Rightarrow> nat \<Rightarrow> world) \<Rightarrow>
    nat \<Rightarrow> int \<Rightarrow> bot_db \<Rightarrow> ((error + int) \<times> sent \<times> bot_db) option" where
  "process_updates L conv us bot_id [] sends wss n offset d = Some (Inr offset, [], d)"
| "process_updates L conv us bot_id (u # rest) sends wss n offset d =
     (if up_update_id u < offset then process_updates L conv us bot_id rest sends wss (n + 1) offset d
      else
        case up_message u of
          None \<Rightarrow> process_updates L conv us bot_id rest sends wss (n + 1) (next_offset (up_update_id u)) d
        | Some m \<Rightarrow>
            (case process_message L conv us (message_of_update bot_id u m) (sends n) (wss n) d of
               None \<Rightarrow> None
             | Some (Inl e, texts, d') \<Rightarrow> Some (Inl e, texts, d')
             | Some (Inr _, texts, d') \<Rightarrow>
                 (case process_updates L conv us bot_id rest sends wss (n + 1) (next_offset (up_update_id u)) d' of
                    None \<Rightarrow> None
                  | Some (r, later, d'') \<Rightarrow> Some (r, texts @ later, d''))))"

text \<open>What \<open>Run\<close> does before it polls: whose token it is, and that updates are not sent to a webhook.\<close>

definition poller_start :: "(nat \<Rightarrow> transport) \<Rightarrow> client \<Rightarrow> poller \<Rightarrow> error + telegram_user" where
  "poller_start transport c p =
     (case get_me (transport 0) c of Inl e \<Rightarrow> Inl (Wrap ''verify Telegram bot identity'' e) | Inr identity \<Rightarrow>
      case check_identity p identity of Inl e \<Rightarrow> Inl e | Inr _ \<Rightarrow>
      case delete_webhook (transport 1) c of Inl e \<Rightarrow> Inl (Wrap ''prepare Telegram polling'' e)
      | Inr _ \<Rightarrow> Inr identity)"

text \<open>
  The loop: an error of \<open>getUpdates\<close> doubles the backoff up to half a minute, an answer resets it. The
  \<open>k\<close>-th request, for the updates from an offset on, is answered by \<open>answer k\<close>.
\<close>

record poll_state =
  po_offset :: int
  po_backoff :: duration

definition poll_begin :: poll_state where
  "poll_begin = \<lparr>po_offset = 0, po_backoff = second\<rparr>"

definition failed_poll :: "poll_state \<Rightarrow> poll_state" where
  "failed_poll s = s\<lparr>po_backoff := min (po_backoff s * 2) (30 * second)\<rparr>"

fun poll_loop ::
  "lib \<Rightarrow> bot_service option \<Rightarrow> update_store \<Rightarrow> int \<Rightarrow> (nat \<Rightarrow> int \<Rightarrow> error + telegram_update list) \<Rightarrow> (nat \<Rightarrow> nat \<Rightarrow> bool) \<Rightarrow>
    (nat \<Rightarrow> nat \<Rightarrow> nat \<Rightarrow> world) \<Rightarrow> nat \<Rightarrow> nat \<Rightarrow> poll_state \<Rightarrow> bot_db \<Rightarrow> ((error + poll_state) \<times> sent \<times> bot_db) option" where
  "poll_loop L conv us bot_id answer sends wss 0 k s d = Some (Inr s, [], d)"
| "poll_loop L conv us bot_id answer sends wss (Suc n) k s d =
     (case answer k (po_offset s) of
        Inl e \<Rightarrow> poll_loop L conv us bot_id answer sends wss n (k + 1) (failed_poll s) d
      | Inr us' \<Rightarrow>
          (case process_updates L conv us bot_id us' (sends k) (wss k) 0 (po_offset s) d of
             None \<Rightarrow> None
           | Some (Inl e, texts, d') \<Rightarrow> Some (Inl e, texts, d')
           | Some (Inr offset, texts, d') \<Rightarrow>
               (case poll_loop L conv us bot_id answer sends wss n (k + 1) \<lparr>po_offset = offset, po_backoff = second\<rparr> d' of
                  None \<Rightarrow> None
                | Some (r, later, d'') \<Rightarrow> Some (r, texts @ later, d''))))"

text \<open>\<open>Run\<close>: the identity that the token has, then the loop with the answers of Telegram.\<close>

definition poller_run ::
  "lib \<Rightarrow> bot_service option \<Rightarrow> update_store \<Rightarrow> (nat \<Rightarrow> transport) \<Rightarrow> client \<Rightarrow> duration \<Rightarrow> poller \<Rightarrow> (nat \<Rightarrow> nat \<Rightarrow> bool) \<Rightarrow>
    (nat \<Rightarrow> nat \<Rightarrow> nat \<Rightarrow> world) \<Rightarrow> nat \<Rightarrow> bot_db \<Rightarrow> ((error + poll_state) \<times> sent \<times> bot_db) option" where
  "poller_run L conv us transport c timeout p sends wss n d =
     (case poller_start transport c p of Inl e \<Rightarrow> Some (Inl e, [], d)
      | Inr identity \<Rightarrow>
          poll_loop L conv us (tg_id identity) (\<lambda>k offset. get_updates L (transport (k + 2)) c offset timeout)
            sends wss n 0 poll_begin d)"

end
