(* ===== verification/Service_Runtime.thy ===== *)
theory Service_Runtime
  imports Telegram Sessions_Service
begin

text \<open>
  How a process is put together: src/internal/platform/runtime/runtime.go (\<open>run_service\<close>, the security
  material, the readiness check), the parameters of the database pool
  (src/internal/platform/postgres/postgres.go), the version check of
  src/internal/platform/migrate/migrate.go, the options of the NATS connection
  (src/internal/platform/messaging/nats.go), and the database URL of cmd/rw-migrate. \<open>outside\<close> is what
  the packages pgxpool, nats.go and crypto/x509 answer.
\<close>

record pool_settings =
  ps_url :: string
  ps_max_conns :: int
  ps_min_conns :: int
  ps_runtime_params :: "(string \<times> string) list"

record nats_options =
  no_name :: string
  no_servers :: string
  no_timeout :: duration
  no_reconnect_wait :: duration
  no_max_reconnects :: int
  no_reconnect_buffer :: int
  no_credentials_file :: "string option"
  no_tls :: "(bytes \<times> string) option"

record outside =
  parse_pool_url :: "string \<Rightarrow> bool"
  create_pool :: "pool_settings \<Rightarrow> error + unit"
  ping_pool :: "error + unit"
  server_version :: "error + int"
  applied_version :: "error + int"
  append_certs :: "bytes \<Rightarrow> bool"
  connect_nats :: "nats_options \<Rightarrow> error + unit"

section \<open>Dependencies\<close>

definition duration_milliseconds :: "duration \<Rightarrow> string" where
  "duration_milliseconds d = format_int (sgn d * (\<bar>d\<bar> div millisecond))"

definition pool_settings_of :: "database_config \<Rightarrow> pool_settings" where
  "pool_settings_of cfg =
     \<lparr>ps_url = dc_url cfg, ps_max_conns = dc_pool_max cfg, ps_min_conns = dc_pool_min cfg,
      ps_runtime_params =
        [(''statement_timeout'', duration_milliseconds (dc_statement_timeout cfg)),
         (''lock_timeout'', duration_milliseconds (dc_lock_timeout cfg)),
         (''idle_in_transaction_session_timeout'', duration_milliseconds (dc_idle_tx_timeout cfg)),
         (''application_name'', ''realwallet'')]\<rparr>"

definition open_database :: "outside \<Rightarrow> database_config \<Rightarrow> error + unit" where
  "open_database X cfg =
     (if \<not> parse_pool_url X (dc_url cfg) then Inl (Errorf ''parse database configuration'')
      else case create_pool X (pool_settings_of cfg) of Inl e \<Rightarrow> Inl (Wrap ''create database pool'' e) | Inr _ \<Rightarrow>
      case ping_pool X of Inl e \<Rightarrow> Inl (Wrap ''connect to database'' e) | Inr _ \<Rightarrow>
      case server_version X of Inl e \<Rightarrow> Inl (Wrap ''read database version'' e) | Inr version \<Rightarrow>
      if version div 10000 \<noteq> 18 then Inl (Errorf ''PostgreSQL major version 18 is required'') else Inr ())"

definition check_version :: "outside \<Rightarrow> int \<Rightarrow> error + unit" where
  "check_version X expected =
     (case applied_version X of Inl e \<Rightarrow> Inl (Wrap ''read schema version'' e)
      | Inr version \<Rightarrow> if version \<noteq> expected then Inl (Errorf ''schema version mismatch'') else Inr ())"

definition tls_config :: "outside \<Rightarrow> host \<Rightarrow> nats_config \<Rightarrow> error + bytes \<times> string" where
  "tls_config X H cfg =
     (case file_contents H (nc_tls_ca_file cfg) of Inl e \<Rightarrow> Inl (Wrap ''read NATS CA'' e)
      | Inr contents \<Rightarrow>
          if \<not> append_certs X contents then Inl (Errorf ''NATS CA file contains no certificates'')
          else Inr (contents, nc_tls_server_name cfg))"

definition go_join :: "char \<Rightarrow> string list \<Rightarrow> string" where
  "go_join c xs = (case xs of [] \<Rightarrow> '''' | x # rest \<Rightarrow> x @ concat (map (\<lambda>y. c # y) rest))"

definition nats_connect :: "outside \<Rightarrow> host \<Rightarrow> string \<Rightarrow> nats_config \<Rightarrow> error + unit" where
  "nats_connect X H service_id cfg =
     (let options = \<lparr>no_name = service_id, no_servers = go_join CHR '','' (nc_urls cfg), no_timeout = nc_connect_timeout cfg,
            no_reconnect_wait = nc_reconnect_wait cfg, no_max_reconnects = nc_max_reconnects cfg,
            no_reconnect_buffer = nc_reconnect_buffer cfg,
            no_credentials_file = nullif_empty (nc_credentials_file cfg), no_tls = None\<rparr> in
      case (if nc_tls_ca_file cfg \<noteq> '''' then map_sum id Some (tls_config X H cfg) else Inr None) of
        Inl e \<Rightarrow> Inl e
      | Inr tls \<Rightarrow>
          (case connect_nats X (options\<lparr>no_tls := tls\<rparr>) of Inl e \<Rightarrow> Inl (Wrap ''connect to NATS'' e) | Inr _ \<Rightarrow> Inr ()))"

section \<open>Security material\<close>

record security_material =
  sm_private_key :: bytes
  sm_trusted_keys :: trusted_keys
  sm_data_keyring :: data_keyring
  sm_fingerprint_key :: bytes

text \<open>\<open>strings.Contains\<close>.\<close>

definition go_contains :: "string \<Rightarrow> string \<Rightarrow> bool" where
  "go_contains s sub \<longleftrightarrow> list_ex (\<lambda>i. starts_with sub (drop i s)) [0..<length s + 1]"

definition load_security_material :: "lib \<Rightarrow> fs \<Rightarrow> config \<Rightarrow> instant \<Rightarrow> error + security_material" where
  "load_security_material L F cfg now =
     (let sec = cf_security cfg in
      case load_signing_private_key L F (sc_signing_private_key_file sec) (sc_signing_private_key sec) of
        Inl e \<Rightarrow> Inl e | Inr private_key \<Rightarrow>
      case load_trusted_keys L F (sc_trusted_keys_file sec) of Inl e \<Rightarrow> Inl e | Inr manifest \<Rightarrow>
      case lookup_key manifest (cf_service cfg) (sc_signing_key_id sec) now of
        Inl e \<Rightarrow> Inl (Wrap ''current signing key is not trusted'' e) | Inr public_key \<Rightarrow>
      if public_key \<noteq> ed25519_public L private_key
      then Inl (Errorf ''signing private key does not match trusted public key'')
      else if deployed (cf_environment cfg) \<and> go_contains (to_lower (sc_signing_key_id sec)) ''test''
      then Inl (Errorf ''test signing key is forbidden in staging/prod'')
      else case load_data_keyring F (sc_data_keyring_file sec) of Inl e \<Rightarrow> Inl e | Inr keyring \<Rightarrow>
      case load_fingerprint_key F (sc_fingerprint_key_file sec) of Inl e \<Rightarrow> Inl e | Inr fingerprint_key \<Rightarrow>
      Inr \<lparr>sm_private_key = private_key, sm_trusted_keys = manifest, sm_data_keyring = keyring,
           sm_fingerprint_key = fingerprint_key\<rparr>)"

section \<open>A process\<close>

text \<open>The services a process runs: the bot with its poller if it polls, or the sessions service.\<close>

datatype worker =
    Bot_Worker bot_service "(client \<times> update_store \<times> poller) option"
  | Sessions_Worker service

record application =
  ap_config :: config
  ap_worker :: worker
  ap_telegram_ready :: bool
  ap_domain_ready :: bool

definition runtime_codec :: "config \<Rightarrow> security_material \<Rightarrow> codec" where
  "runtime_codec cfg sm =
     \<lparr>cd_producer = cf_service cfg, cd_key_id = sc_signing_key_id (cf_security cfg), cd_private_key = sm_private_key sm,
      cd_trusted = sm_trusted_keys sm, cd_clock_skew = ClockSkew\<rparr>"

definition bot_worker :: "config \<Rightarrow> bot_config \<Rightarrow> security_material \<Rightarrow> error + worker" where
  "bot_worker cfg b sm =
     (let fs = \<lparr>fs_keyring = sm_data_keyring sm, fs_fingerprint_key = sm_fingerprint_key sm\<rparr>;
          activation = new_activation_service fs (runtime_codec cfg sm) b (cf_messaging cfg) in
      if bc_telegram_mode b = ''direct_polling'' then
        (case new_client (bc_telegram_token b) of Inl e \<Rightarrow> Inl e
         | Inr c \<Rightarrow> Inr (Bot_Worker (activation True)
             (Some (c, \<lparr>us_transport = ''direct_polling''\<rparr>, new_poller (bc_telegram_bot_id b) (bc_telegram_bot_username b)))))
      else Inr (Bot_Worker (activation False) None))"

definition sessions_worker :: "config \<Rightarrow> sessions_config \<Rightarrow> security_material \<Rightarrow> worker" where
  "sessions_worker cfg s sm =
     Sessions_Worker
       \<lparr>sv_store = \<lparr>st_keyring = sm_data_keyring sm, st_fingerprint_key = sm_fingerprint_key sm\<rparr>,
        sv_codec = runtime_codec cfg sm, sv_usdt_network = se_usdt_network s,
        sv_reconcile_batch = mg_reconcile_batch (cf_messaging cfg)\<rparr>"

text \<open>\<open>Run\<close> up to the call of \<open>serve\<close>.\<close>

definition mode_implemented :: "config \<Rightarrow> bool" where
  "mode_implemented cfg =
     (case cf_bot cfg of None \<Rightarrow> True
      | Some b \<Rightarrow> bc_telegram_mode b \<noteq> ''direct_webhook'' \<and> bc_telegram_mode b \<noteq> ''natsproxy'')"

definition start_dependencies :: "outside \<Rightarrow> host \<Rightarrow> config \<Rightarrow> error + unit" where
  "start_dependencies X H cfg =
     (case open_database X (cf_database cfg) of Inl e \<Rightarrow> Inl e | Inr _ \<Rightarrow>
      case check_version X (schema_version (cf_service cfg)) of Inl e \<Rightarrow> Inl e | Inr _ \<Rightarrow>
      nats_connect X H (cf_service cfg) (cf_nats cfg))"

definition run_service :: "lib \<Rightarrow> fs \<Rightarrow> host \<Rightarrow> outside \<Rightarrow> string \<Rightarrow> instant \<Rightarrow> error + application" where
  "run_service L F H X service_id now =
     (case load_config service_id H of Inl e \<Rightarrow> Inl (Wrap ''load configuration'' e) | Inr cfg \<Rightarrow>
      if \<not> mode_implemented cfg then Inl (Errorf ''telegram mode is not implemented'')
      else case load_security_material L F cfg now of Inl e \<Rightarrow> Inl (Wrap ''load security material'' e) | Inr sm \<Rightarrow>
      case start_dependencies X H cfg of Inl e \<Rightarrow> Inl e | Inr _ \<Rightarrow>
      case (case (cf_bot cfg, cf_sessions cfg) of
              (Some b, _) \<Rightarrow> bot_worker cfg b sm
            | (None, Some s) \<Rightarrow> Inr (sessions_worker cfg s sm)
            | (None, None) \<Rightarrow> Inl (Errorf ''unsupported service'')) of
        Inl e \<Rightarrow> Inl e
      | Inr worker \<Rightarrow>
          Inr \<lparr>ap_config = cfg, ap_worker = worker, ap_telegram_ready = False, ap_domain_ready = False\<rparr>)"

definition check_ready :: "outside \<Rightarrow> bool \<Rightarrow> application \<Rightarrow> error + unit" where
  "check_ready X nats_connected a =
     (if is_err (ping_pool X) then Inl (Errorf ''database unavailable'')
      else if is_err (check_version X (schema_version (cf_service (ap_config a))))
      then Inl (Errorf ''database schema incompatible'')
      else if \<not> nats_connected then Inl (Errorf ''NATS unavailable'')
      else if cf_service (ap_config a) = BotService \<and>
        (case cf_bot (ap_config a) of None \<Rightarrow> False | Some b \<Rightarrow> bc_telegram_mode b = ''direct_polling'') \<and>
        \<not> ap_telegram_ready a
      then Inl (Errorf ''telegram polling unavailable'')
      else if cf_service (ap_config a) = BotService \<and> \<not> ap_domain_ready a then Inl (Errorf ''bot consumers unavailable'')
      else if cf_service (ap_config a) = ActiveSessions \<and> \<not> ap_domain_ready a
      then Inl (Errorf ''active-sessions consumers unavailable'')
      else Inr ())"

section \<open>The migration tool\<close>

definition migrate_service_ok :: "string \<Rightarrow> bool" where
  "migrate_service_ok s \<longleftrightarrow> s = ''bot'' \<or> s = ''sessions''"

definition migrate_database_url :: "host \<Rightarrow> error + string" where
  "migrate_database_url H =
     (let direct = trim_space (getenv H ''RW_DATABASE_URL''); path = trim_space (getenv H ''RW_DATABASE_URL_FILE'');
          env = trim_space (getenv H ''RW_ENVIRONMENT''); strict = (env = ''staging'' \<or> env = ''prod'') in
      if direct \<noteq> '''' \<and> path \<noteq> '''' then Inl (Errorf ''configure only one database URL source'')
      else if strict \<and> direct \<noteq> '''' then Inl (Errorf ''RW_DATABASE_URL is forbidden in staging/prod'')
      else if path \<noteq> '''' then
        (case lstat H path of Inl e \<Rightarrow> Inl (Errorf ''database URL file must be a protected regular file'')
         | Inr info \<Rightarrow>
             if \<not> fi_regular info \<or> fi_symlink info \<or> fi_perm info AND 0b010010 \<noteq> 0
             then Inl (Errorf ''database URL file must be a protected regular file'')
             else (case file_contents H path of Inl e \<Rightarrow> Inl (Wrap ''read database URL'' e)
                   | Inr contents \<Rightarrow> Inr (trim_space contents)))
      else if strict then Inl (Errorf ''RW_DATABASE_URL_FILE is required in staging/prod'')
      else if direct = '''' then Inl (Errorf ''RW_DATABASE_URL or RW_DATABASE_URL_FILE is required'')
      else Inr direct)"

end
