(* ===== verification/Service_Lifecycle.thy ===== *)
theory Service_Lifecycle
  imports Service_Runtime Message_Consumer
begin

text \<open>
  What the services do around their handlers: \<open>Service.Run\<close> (src/internal/sessions/app/service.go) and
  \<open>ActivationService.Run\<close> (src/internal/bot/app/activation.go) start a consumer for every subject, report that
  they are ready, and stop the consumers at the end; \<open>runWorkers\<close>, \<open>serve\<close> and the health handlers of
  src/internal/platform/runtime/runtime.go. What ends a select is an argument, as is what the servers, the
  drained connection and the dependencies answer.
\<close>

section \<open>The consumers of a service\<close>

text \<open>\<open>start_all start subjects started\<close> gives the error and the consumers it stopped, or all consumers.\<close>

fun start_all :: "(string \<Rightarrow> error + 'c) \<Rightarrow> string list \<Rightarrow> 'c list \<Rightarrow> (error \<times> 'c list) + 'c list" where
  "start_all start [] started = Inr started"
| "start_all start (subj # rest) started =
     (case start subj of
        Inl e \<Rightarrow> Inl (e, started)
      | Inr c \<Rightarrow> start_all start rest (started @ [c]))"

definition sessions_handlers ::
  "lib \<Rightarrow> service \<Rightarrow> (string \<times> (string \<Rightarrow> bytes \<Rightarrow> world \<Rightarrow> sessions_db \<Rightarrow> (error + unit) \<times> sessions_db)) list" where
  "sessions_handlers L sv =
     [(ActivationVerifySubject, handle_activation_verify L sv), (TopupVerifiedSubject, handle_topup_verified L sv),
      (TopupRejectedSubject, handle_topup_rejected L sv)]"

definition bot_handlers ::
  "lib \<Rightarrow> bot_service \<Rightarrow> (string \<times> (string \<Rightarrow> bytes \<Rightarrow> world \<Rightarrow> bot_db \<Rightarrow> (error + unit) \<times> sent \<times> bot_db)) list" where
  "bot_handlers L bs =
     [(InviteCreateSubject, handle_invite_create L bs), (ActivationReservedSubject, handle_reserved L bs),
      (ReserveRejectedSubject, handle_reserve_rejected L bs), (PaymentConfirmedSubject, handle_payment_confirmed L bs),
      (ActivationActivated, handle_activated L bs), (ActivationRejected, handle_activation_rejected L bs)]"

text \<open>What a select ends with: the context is cancelled, or a goroutine returns a value.\<close>

datatype first_event = Context_Done | Returned "error option"

fun outcome_of :: "first_event \<Rightarrow> error option" where
  "outcome_of Context_Done = None"
| "outcome_of (Returned e) = e"

text \<open>What \<open>Run\<close> returns, whether it called \<open>onReady\<close>, and the consumers it stopped.\<close>

record 'c run_result =
  rr_error :: "error option"
  rr_ready :: bool
  rr_stopped :: "'c list"

definition run_consumers :: "(string \<Rightarrow> error + 'c) \<Rightarrow> string list \<Rightarrow> first_event \<Rightarrow> 'c run_result" where
  "run_consumers start subjects first =
     (case start_all start subjects [] of
        Inl (e, started) \<Rightarrow> \<lparr>rr_error = Some e, rr_ready = False, rr_stopped = started\<rparr>
      | Inr consumers \<Rightarrow> \<lparr>rr_error = outcome_of first, rr_ready = True, rr_stopped = consumers\<rparr>)"

definition sessions_run :: "lib \<Rightarrow> service \<Rightarrow> (string \<Rightarrow> error + 'c) \<Rightarrow> first_event \<Rightarrow> 'c run_result" where
  "sessions_run L sv start first = run_consumers start (map fst (sessions_handlers L sv)) first"

definition bot_run :: "lib \<Rightarrow> bot_service \<Rightarrow> (string \<Rightarrow> error + 'c) \<Rightarrow> first_event \<Rightarrow> 'c run_result" where
  "bot_run L bs start first = run_consumers start (map fst (bot_handlers L bs)) first"

section \<open>The process\<close>

text \<open>The callbacks that make a process ready: the consumers are started, the identity of the bot is known.\<close>

definition domain_started :: "application \<Rightarrow> application" where
  "domain_started a = a\<lparr>ap_domain_ready := True\<rparr>"

definition telegram_identified :: "telegram_user \<Rightarrow> application \<Rightarrow> application" where
  "telegram_identified identity a =
     a\<lparr>ap_worker := (case ap_worker a of
          Bot_Worker bs polling \<Rightarrow> Bot_Worker (set_telegram_identity (tg_id identity) (tg_username identity) bs) polling
        | Sessions_Worker sv \<Rightarrow> Sessions_Worker sv),
       ap_telegram_ready := True\<rparr>"

text \<open>\<open>runWorkers\<close>: the first worker to return ends all of them.\<close>

definition run_workers :: "first_event \<Rightarrow> error option" where
  "run_workers first = outcome_of first"

record http_reply =
  rp_status :: int
  rp_content_type :: string
  rp_body :: string

definition status_reply :: "int \<Rightarrow> string \<Rightarrow> http_reply" where
  "status_reply code status =
     \<lparr>rp_status = code, rp_content_type = ''application/json'',
      rp_body = ''{'' @ quote True ''status'' @ '':'' @ quote True status @ ''}'' @ [CHR 0x0A]\<rparr>"

definition live_handler :: http_reply where
  "live_handler = status_reply 200 ''ok''"

text \<open>The answer to a readiness probe, and the value of the metric it sets.\<close>

definition ready_handler :: "outside \<Rightarrow> bool \<Rightarrow> application \<Rightarrow> http_reply \<times> int" where
  "ready_handler X nats_connected a =
     (case check_ready X nats_connected a of
        Inl _ \<Rightarrow> (status_reply 503 ''not_ready'', 0)
      | Inr _ \<Rightarrow> (status_reply 200 ''ready'', 1))"

text \<open>A server that was shut down has not failed.\<close>

datatype server_end = ServerClosed | ServerFailed error

fun listen_result :: "server_end \<Rightarrow> error option" where
  "listen_result ServerClosed = None"
| "listen_result (ServerFailed e) = Some e"

datatype drain_result = Drained | ConnectionClosed | DrainFailed error

record shutdown_answers =
  sd_main_server :: "error + unit"
  sd_metrics_server :: "error + unit"
  sd_drain :: drain_result

definition serve :: "first_event \<Rightarrow> shutdown_answers \<Rightarrow> error option" where
  "serve first answers =
     (let run_err = outcome_of first in
      case sd_main_server answers of Inl e \<Rightarrow> Some (Wrap ''shutdown HTTP server'' e) | Inr _ \<Rightarrow>
      case sd_metrics_server answers of Inl e \<Rightarrow> Some (Wrap ''shutdown metrics server'' e) | Inr _ \<Rightarrow>
      case sd_drain answers of DrainFailed e \<Rightarrow> Some (Wrap ''drain NATS'' e) | _ \<Rightarrow> run_err)"

section \<open>The loops\<close>

text \<open>
  The loops of the publisher and of the reconciliations do their work once and then again at every tick, until
  the context is cancelled; an error is logged and the loop goes on. \<open>ticks body n k x\<close> is \<open>n\<close> ticks, the work at
  the \<open>i\<close>-th with what it reads from outside then.
\<close>

fun ticks :: "(nat \<Rightarrow> 'x \<Rightarrow> 'x) \<Rightarrow> nat \<Rightarrow> nat \<Rightarrow> 'x \<Rightarrow> 'x" where
  "ticks body 0 k x = body k x"
| "ticks body (Suc n) k x = ticks body n (k + 1) (body k x)"

definition publisher_loop ::
  "('a msgdb_scheme \<Rightarrow> bool) \<Rightarrow> lib \<Rightarrow> publisher \<Rightarrow> (nat \<Rightarrow> nat \<Rightarrow> bool) \<Rightarrow> (nat \<Rightarrow> nat \<Rightarrow> nat) \<Rightarrow> (nat \<Rightarrow> nat \<Rightarrow> world) \<Rightarrow> nat \<Rightarrow>
    'a msgdb_scheme \<Rightarrow> 'a msgdb_scheme" where
  "publisher_loop ok L pb nats jss wss n d = ticks (\<lambda>k d. snd (publish_batch ok L pb (nats k) (jss k) (wss k) d)) n 0 d"

definition sessions_reconcile_loop :: "lib \<Rightarrow> service \<Rightarrow> (nat \<Rightarrow> nat \<Rightarrow> world) \<Rightarrow> nat \<Rightarrow> sessions_db \<Rightarrow> sessions_db" where
  "sessions_reconcile_loop L sv wss n d = ticks (\<lambda>k d. snd (reconcile_once L sv (wss k) d)) n 0 d"

definition bot_reconcile_loop :: "Bot_Service.bot_service \<Rightarrow> (nat \<Rightarrow> world) \<Rightarrow> nat \<Rightarrow> bot_db \<Rightarrow> sent \<times> bot_db" where
  "bot_reconcile_loop bs ws n d =
     ticks (\<lambda>k (texts, d). let (more_texts, d') = reconcile_round bs (ws k) d in (texts @ more_texts, d')) n 0 ([], d)"

section \<open>Dispatch\<close>

text \<open>A message of a subscription goes to the handler of its subject.\<close>

definition handled_by_sessions :: "lib \<Rightarrow> service \<Rightarrow> string \<Rightarrow> bytes \<Rightarrow> world \<Rightarrow> sessions_db \<Rightarrow> sessions_db option" where
  "handled_by_sessions L sv subj data w d =
     map_option (\<lambda>h. snd (h subj data w d)) (map_of (sessions_handlers L sv) subj)"

definition handled_by_bot :: "lib \<Rightarrow> Bot_Service.bot_service \<Rightarrow> string \<Rightarrow> bytes \<Rightarrow> world \<Rightarrow> bot_db \<Rightarrow> bot_db option" where
  "handled_by_bot L bs subj data w d =
     map_option (\<lambda>h. snd (snd (h subj data w d))) (map_of (bot_handlers L bs) subj)"

end
