(* ===== verification/Config_Properties.thy ===== *)
theory Config_Properties
  imports Config
begin

text \<open>
  What a configuration that \<open>Load\<close> (src/internal/platform/config/config.go) accepts guarantees to the rest of the program.
\<close>

section \<open>The configuration\<close>

definition messaging_ok :: "messaging \<Rightarrow> bool" where
  "messaging_ok m \<longleftrightarrow>
     mg_outbox_batch m \<in> {1..1000} \<and> mg_outbox_concurrency m \<in> {1..64} \<and> mg_reconcile_batch m \<in> {1..1000} \<and>
     0 < mg_retry_initial m \<and> mg_retry_initial m \<le> mg_retry_max m \<and> 0 < mg_reconcile_interval m"

definition database_ok :: "database_config \<Rightarrow> bool" where
  "database_ok c \<longleftrightarrow>
     0 \<le> dc_pool_min c \<and> dc_pool_min c \<le> dc_pool_max c \<and> 1 \<le> dc_pool_max c \<and> dc_pool_max c < 2 ^ 31 \<and>
     0 < dc_statement_timeout c \<and> 0 < dc_lock_timeout c \<and> 0 < dc_idle_tx_timeout c"

definition nats_ok :: "host \<Rightarrow> nats_config \<Rightarrow> bool" where
  "nats_ok H n \<longleftrightarrow>
     nc_urls n \<noteq> [] \<and> 0 < nc_connect_timeout n \<and> 0 < nc_reconnect_wait n \<and>
     (\<forall>raw\<in>set (nc_urls n). \<exists>u. url_parse H raw = Some u \<and> ur_scheme u \<in> {''nats'', ''tls''} \<and> ur_host u \<noteq> '''' \<and> \<not> ur_user u) \<and>
     (\<forall>path\<in>{nc_credentials_file n, nc_tls_ca_file n}. path \<noteq> '''' \<longrightarrow> validate_secret_file H path = Inr ())"

definition security_ok :: "security_config \<Rightarrow> bool" where
  "security_ok c \<longleftrightarrow>
     sc_signing_key_id c \<noteq> '''' \<and> sc_trusted_keys_file c \<noteq> '''' \<and> sc_data_keyring_file c \<noteq> '''' \<and> sc_fingerprint_key_file c \<noteq> '''' \<and>
     (sc_signing_private_key_file c = '''' \<longleftrightarrow> sc_signing_private_key c \<noteq> '''')"

definition bot_settings_ok :: "bot_config \<Rightarrow> bool" where
  "bot_settings_ok b \<longleftrightarrow>
     bc_usdt_network b \<noteq> '''' \<and> bc_usdt_scale b \<in> {0..18} \<and> bc_invite_ttl b \<in> {5 * minute..168 * hour} \<and>
     0 \<le> bc_activation_amount_min b \<and> bc_activation_amount_min b + 999 \<le> bc_activation_amount_max b \<and>
     bc_activation_amount_max b < 2 ^ 63 \<and> 0 < bc_poll_timeout b"

text \<open>The settings of each Telegram mode: what the mode forbids is empty, what it needs is there.\<close>

definition bot_mode_ok :: "host \<Rightarrow> bot_config \<Rightarrow> bool" where
  "bot_mode_ok H b \<longleftrightarrow>
     bc_telegram_mode b \<in> {''disabled'', ''natsproxy'', ''direct_polling'', ''direct_webhook''} \<and>
     (bc_telegram_mode b \<in> {''disabled'', ''natsproxy''} \<longrightarrow> bc_telegram_token b = '''' \<and> bc_telegram_token_file b = '''') \<and>
     (bc_telegram_mode b \<noteq> ''direct_webhook'' \<longrightarrow> bc_webhook_public_url b = '''' \<and> bc_webhook_secret_file b = '''') \<and>
     (bc_telegram_mode b = ''direct_webhook'' \<longrightarrow> bc_webhook_secret_file b \<noteq> '''' \<and>
        (\<exists>u. url_parse H (bc_webhook_public_url b) = Some u \<and> ur_scheme u = ''https'' \<and> ur_host u \<noteq> '''')) \<and>
     (bc_telegram_mode b \<in> {''natsproxy'', ''direct_webhook''} \<longrightarrow> 0 < bc_telegram_bot_id b \<and> bc_telegram_bot_username b \<noteq> '''')"

definition sessions_settings_ok :: "sessions_config \<Rightarrow> bool" where
  "sessions_settings_ok s \<longleftrightarrow> se_usdt_network s \<noteq> '''' \<and> se_page_size s \<in> {1..100}"

definition config_ok :: "host \<Rightarrow> config \<Rightarrow> bool" where
  "config_ok H cfg \<longleftrightarrow>
     messaging_ok (cf_messaging cfg) \<and> database_ok (cf_database cfg) \<and> nats_ok H (cf_nats cfg) \<and> security_ok (cf_security cfg) \<and>
     0 < cf_shutdown cfg \<and> cf_log_level cfg \<in> {''debug'', ''info'', ''warn'', ''error''} \<and> cf_http_addr cfg \<noteq> cf_metrics_addr cfg \<and>
     (cf_environment cfg = Prod \<longrightarrow> trim_space (getenv H ''RW_INSTANCE_ID'') \<noteq> '''') \<and>
     (cf_service cfg = BotService \<and> cf_sessions cfg = None \<and> (\<exists>b. cf_bot cfg = Some b \<and> bot_settings_ok b \<and> bot_mode_ok H b) \<or>
      cf_service cfg = ActiveSessions \<and> cf_bot cfg = None \<and> (\<exists>s. cf_sessions cfg = Some s \<and> sessions_settings_ok s))"

text \<open>
  What staging and production must have: no secret in a variable of the environment, but in files; a database URL that
  verifies the server; TLS, credentials and a server name for NATS; and a bot that is known and not disabled.
\<close>

definition no_secret_variables :: "host \<Rightarrow> config \<Rightarrow> bool" where
  "no_secret_variables H cfg \<longleftrightarrow>
     trim_space (getenv H ''RW_DATABASE_URL'') = '''' \<and> getenv H ''RW_SIGNING_PRIVATE_KEY_BASE64'' = '''' \<and>
     (cf_bot cfg \<noteq> None \<longrightarrow> trim_space (getenv H ''RW_TELEGRAM_TOKEN'') = '''')"

definition hardened :: "host \<Rightarrow> config \<Rightarrow> bool" where
  "hardened H cfg \<longleftrightarrow>
     no_secret_variables H cfg \<and> sc_signing_private_key_file (cf_security cfg) \<noteq> '''' \<and>
     (\<exists>u. url_parse H (dc_url (cf_database cfg)) = Some u \<and> ur_scheme u \<in> {''postgres'', ''postgresql''} \<and> ur_host u \<noteq> '''' \<and>
        ur_sslmode u = ''verify-full'') \<and>
     (\<forall>raw\<in>set (nc_urls (cf_nats cfg)). \<exists>u. url_parse H raw = Some u \<and> ur_scheme u = ''tls'') \<and>
     nc_credentials_file (cf_nats cfg) \<noteq> '''' \<and> nc_tls_ca_file (cf_nats cfg) \<noteq> '''' \<and> nc_tls_server_name (cf_nats cfg) \<noteq> '''' \<and>
     (\<forall>b. cf_bot cfg = Some b \<longrightarrow> bc_telegram_mode b \<noteq> ''disabled'' \<and> 0 < bc_telegram_bot_id b \<and> bc_telegram_bot_username b \<noteq> '''')"

lemma parse_int64_range: "parse_int64 s = Some v \<Longrightarrow> - (2 ^ 63) \<le> v \<and> v < 2 ^ 63"
  by (auto simp: parse_int64_def Let_def split: option.splits if_splits list.splits)

lemma env_values:
  "env_duration H name fallback = Inr v \<Longrightarrow> 0 < v"
  "env_int32 H name n = Inr i \<Longrightarrow> 0 \<le> i \<and> i < 2 ^ 31"
  "env_int64_required H name = Inr k \<Longrightarrow> k < 2 ^ 63"
  by (auto simp: env_duration_def env_int32_def env_int64_required_def Let_def go_ok dest: parse_int64_range split: if_splits)

lemma load_messaging_range:
  assumes "load_messaging H = Inr m"
  shows "messaging_ok m"
  using assms unfolding load_messaging_def go_ok by (auto simp: messaging_ok_def dest: env_values)

lemma load_database_range:
  assumes "load_database H url = Inr c"
  shows "database_ok c"
  using assms unfolding load_database_def go_ok by (auto simp: database_ok_def dest: env_values)

lemma check_nats_url_ok:
  "check_nats_url H env raw = Inr () \<longleftrightarrow> (\<exists>u. url_parse H raw = Some u \<and> ur_scheme u \<in> {''nats'', ''tls''} \<and> ur_host u \<noteq> '''' \<and>
     \<not> ur_user u \<and> (deployed env \<longrightarrow> ur_scheme u = ''tls''))"
  by (auto simp: check_nats_url_def split: option.split)

lemma each_ok_all: "each_ok f xs = Inr () \<longleftrightarrow> (\<forall>x\<in>set xs. f x = Inr ())"
  by (induction xs) (auto split: sum.split)

lemma load_nats_range:
  assumes "load_nats H env = Inr n"
  shows "nats_ok H n"
    "deployed env \<Longrightarrow> nc_credentials_file n \<noteq> '''' \<and> nc_tls_ca_file n \<noteq> '''' \<and> nc_tls_server_name n \<noteq> '''' \<and>
       (\<forall>raw\<in>set (nc_urls n). \<exists>u. url_parse H raw = Some u \<and> ur_scheme u = ''tls'')"
proof -
  have n: "nc_urls n \<noteq> []" "each_ok (check_nats_url H env) (nc_urls n) = Inr ()" "0 < nc_connect_timeout n" "0 < nc_reconnect_wait n"
      "each_ok (validate_secret_file H) (filter (\<lambda>p. p \<noteq> '''') [nc_credentials_file n, nc_tls_ca_file n]) = Inr ()"
      "\<not> (deployed env \<and> (nc_credentials_file n = '''' \<or> nc_tls_ca_file n = '''' \<or> nc_tls_server_name n = ''''))"
    using assms unfolding load_nats_def Let_def go_ok by (auto simp del: each_ok.simps filter.simps dest: env_values(1))
  have urls: "\<exists>u. url_parse H raw = Some u \<and> ur_scheme u \<in> {''nats'', ''tls''} \<and> ur_host u \<noteq> '''' \<and> \<not> ur_user u \<and>
      (deployed env \<longrightarrow> ur_scheme u = ''tls'')" if "raw \<in> set (nc_urls n)" for raw
    using n(2) that unfolding each_ok_all check_nats_url_ok by blast
  moreover have "validate_secret_file H path = Inr ()" if "path \<in> {nc_credentials_file n, nc_tls_ca_file n}" "path \<noteq> ''''" for path
    using n(5) that unfolding each_ok_all by auto
  ultimately show "nats_ok H n"
    using n(1,3,4) unfolding nats_ok_def by blast
  show "nc_credentials_file n \<noteq> '''' \<and> nc_tls_ca_file n \<noteq> '''' \<and> nc_tls_server_name n \<noteq> '''' \<and>
       (\<forall>raw\<in>set (nc_urls n). \<exists>u. url_parse H raw = Some u \<and> ur_scheme u = ''tls'')" if "deployed env"
    using n(6) urls that by blast
qed

lemma load_security_range:
  assumes "load_security H env = Inr c"
  shows "security_ok c"
    "deployed env \<Longrightarrow> getenv H ''RW_SIGNING_PRIVATE_KEY_BASE64'' = '''' \<and> sc_signing_private_key_file c \<noteq> ''''"
  using assms unfolding load_security_def Let_def go_ok security_ok_def by auto

lemma secret_value_deployed: "secret_value H name file env required = Inr v \<Longrightarrow> deployed env \<Longrightarrow> trim_space (getenv H name) = ''''"
  by (auto simp: secret_value_def Let_def split: if_splits)

lemma load_bot_common_range:
  assumes "load_bot_common H = Inr b"
  shows "bot_settings_ok b" "bc_telegram_token b = getenv H ''RW_TELEGRAM_TOKEN''"
  using assms unfolding load_bot_common_def go_ok by (auto simp: bot_settings_ok_def dest: env_values)

lemma load_bot_mode_range:
  assumes "load_bot_mode H env c = Inr b"
  shows "bc_telegram_mode b \<in> {''disabled'', ''natsproxy'', ''direct_polling'', ''direct_webhook''}"
    "bc_telegram_mode b = ''disabled'' \<Longrightarrow> \<not> deployed env" "b = c\<lparr>bc_telegram_token := bc_telegram_token b\<rparr>"
    "bc_telegram_mode b \<in> {''disabled'', ''natsproxy''} \<Longrightarrow> b = c \<and> bc_telegram_token b = '''' \<and> bc_telegram_token_file b = ''''"
    "bc_telegram_mode b \<noteq> ''direct_webhook'' \<Longrightarrow> bc_webhook_public_url b = '''' \<and> bc_webhook_secret_file b = ''''"
    "bc_telegram_mode b = ''direct_webhook'' \<Longrightarrow> bc_webhook_secret_file b \<noteq> '''' \<and>
       (\<exists>u. url_parse H (bc_webhook_public_url b) = Some u \<and> ur_scheme u = ''https'' \<and> ur_host u \<noteq> '''')"
    "bc_telegram_mode b \<in> {''direct_polling'', ''direct_webhook''} \<Longrightarrow> deployed env \<Longrightarrow> trim_space (getenv H ''RW_TELEGRAM_TOKEN'') = ''''"
  using assms unfolding load_bot_mode_def Let_def
  by (auto simp: go_ok deployed_def dest: secret_value_deployed split: if_splits option.splits)

lemma load_bot_range:
  assumes "load_bot H env = Inr b"
  shows "bot_settings_ok b" "bot_mode_ok H b"
    "deployed env \<Longrightarrow> bc_telegram_mode b \<noteq> ''disabled'' \<and> 0 < bc_telegram_bot_id b \<and> bc_telegram_bot_username b \<noteq> ''''"
    "deployed env \<Longrightarrow> trim_space (getenv H ''RW_TELEGRAM_TOKEN'') = ''''"
proof -
  from assms obtain c where c: "load_bot_common H = Inr c" "load_bot_mode H env c = Inr b"
    and known: "bc_telegram_mode b \<noteq> ''disabled'' \<and> (deployed env \<or> bc_telegram_mode b \<noteq> ''direct_polling'') \<longrightarrow>
      0 < bc_telegram_bot_id b \<and> bc_telegram_bot_username b \<noteq> ''''"
    unfolding load_bot_def go_ok by (auto simp: deployed_def)
  note m = load_bot_mode_range [OF c(2)]
  obtain t where b: "b = c\<lparr>bc_telegram_token := t\<rparr>" using m(3) by blast
  with load_bot_common_range(1) [OF c(1)] show "bot_settings_ok b"
    by (simp add: bot_settings_ok_def)
  show "bot_mode_ok H b"
    unfolding bot_mode_ok_def using m(1,4-6) known by auto
  show "deployed env \<Longrightarrow> bc_telegram_mode b \<noteq> ''disabled'' \<and> 0 < bc_telegram_bot_id b \<and> bc_telegram_bot_username b \<noteq> ''''"
    using m(2) known by blast
  have "trim_space '''' = ''''"
    by code_simp
  with m(1,2,4,7) load_bot_common_range(2) [OF c(1)] show "trim_space (getenv H ''RW_TELEGRAM_TOKEN'') = ''''" if "deployed env"
    using that by auto
qed

lemma load_sessions_range: "load_sessions H = Inr c \<Longrightarrow> sessions_settings_ok c"
  unfolding load_sessions_def Let_def go_ok sessions_settings_ok_def by auto

lemma load_start_range:
  assumes "load_start H = Inr (env, url)" "deployed env"
  shows "trim_space (getenv H ''RW_DATABASE_URL'') = ''''"
    "\<exists>u. url_parse H url = Some u \<and> ur_scheme u \<in> {''postgres'', ''postgresql''} \<and> ur_host u \<noteq> '''' \<and> ur_sslmode u = ''verify-full''"
  using assms unfolding load_start_def
  by (auto simp: go_ok validate_database_policy_def dest: secret_value_deployed split: option.splits if_splits)

lemma load_config_parts:
  assumes "load_config service_id H = Inr cfg"
  obtains env url parts where "load_start H = Inr (env, url)" "load_parts service_id H env url = Inr parts" "check_parts H parts = Inr ()"
    and "service_id = BotService \<and> (\<exists>b. load_bot H env = Inr b \<and> cfg = parts\<lparr>cf_bot := Some b\<rparr>) \<or>
      service_id = ActiveSessions \<and> (\<exists>s. load_sessions H = Inr s \<and> cfg = parts\<lparr>cf_sessions := Some s\<rparr>)"
proof -
  have either: "service_id = BotService \<or> service_id = ActiveSessions"
    using assms unfolding load_config_def by (auto split: if_splits)
  then have no: "(service_id \<noteq> BotService \<and> service_id \<noteq> ActiveSessions) = False"
    by blast
  obtain env url where start: "load_start H = Inr (env, url)"
    using assms unfolding load_config_def no by (cases "load_start H") auto
  have "(case load_parts service_id H env url of Inl e \<Rightarrow> Inl e | Inr parts \<Rightarrow>
      case check_parts H parts of Inl e \<Rightarrow> Inl e | Inr _ \<Rightarrow>
      if service_id = BotService
      then (case load_bot H env of Inl e \<Rightarrow> Inl e | Inr b \<Rightarrow> Inr (parts\<lparr>cf_bot := Some b\<rparr>))
      else (case load_sessions H of Inl e \<Rightarrow> Inl e | Inr s \<Rightarrow> Inr (parts\<lparr>cf_sessions := Some s\<rparr>))) = Inr cfg"
    using assms unfolding load_config_def no start by (simp only: if_False sum.case prod.case)
  then obtain parts where parts: "load_parts service_id H env url = Inr parts" "check_parts H parts = Inr ()"
    and rest: "(if service_id = BotService
      then (case load_bot H env of Inl e \<Rightarrow> Inl e | Inr b \<Rightarrow> Inr (parts\<lparr>cf_bot := Some b\<rparr>))
      else (case load_sessions H of Inl e \<Rightarrow> Inl e | Inr s \<Rightarrow> Inr (parts\<lparr>cf_sessions := Some s\<rparr>))) = Inr cfg"
    unfolding sum_case_Inr by auto
  show thesis
    by (rule that [OF start parts]) (use either rest in \<open>cases "service_id = BotService"; auto simp: go_ok\<close>)
qed

lemma load_parts_range:
  assumes "load_parts service_id H env url = Inr cfg" "check_parts H cfg = Inr ()"
  shows "messaging_ok (cf_messaging cfg)" "database_ok (cf_database cfg)" "nats_ok H (cf_nats cfg)" "security_ok (cf_security cfg)"
    "0 < cf_shutdown cfg" "cf_log_level cfg \<in> {''debug'', ''info'', ''warn'', ''error''}" "cf_http_addr cfg \<noteq> cf_metrics_addr cfg"
    "cf_environment cfg = Prod \<Longrightarrow> trim_space (getenv H ''RW_INSTANCE_ID'') \<noteq> ''''"
    "cf_service cfg = service_id" "cf_environment cfg = env" "cf_bot cfg = None" "cf_sessions cfg = None" "dc_url (cf_database cfg) = url"
    "load_nats H env = Inr (cf_nats cfg)" "load_security H env = Inr (cf_security cfg)"
proof -
  from assms(1) obtain shutdown database nats msg security
    where p: "env_duration H ''RW_SHUTDOWN_TIMEOUT'' (30 * second) = Inr shutdown" "load_database H url = Inr database"
      "load_nats H env = Inr nats" "load_messaging H = Inr msg" "load_security H env = Inr security"
    and cfg: "cf_shutdown cfg = shutdown" "cf_database cfg = database" "cf_nats cfg = nats" "cf_messaging cfg = msg" "cf_security cfg = security"
      "cf_service cfg = service_id" "cf_environment cfg = env" "cf_bot cfg = None" "cf_sessions cfg = None"
    unfolding load_parts_def sum_case_Inr by fastforce
  show "messaging_ok (cf_messaging cfg)" "database_ok (cf_database cfg)" "nats_ok H (cf_nats cfg)" "security_ok (cf_security cfg)"
      "0 < cf_shutdown cfg" "cf_service cfg = service_id" "cf_environment cfg = env" "cf_bot cfg = None" "cf_sessions cfg = None"
      "load_nats H env = Inr (cf_nats cfg)" "load_security H env = Inr (cf_security cfg)"
    using p cfg load_messaging_range [OF p(4)] load_database_range [OF p(2)] load_nats_range(1) [OF p(3)] load_security_range(1) [OF p(5)]
      env_values(1) [OF p(1)] by simp_all
  show "dc_url (cf_database cfg) = url"
    using p(2) unfolding cfg(2) load_database_def go_ok by auto
  show "cf_log_level cfg \<in> {''debug'', ''info'', ''warn'', ''error''}" "cf_http_addr cfg \<noteq> cf_metrics_addr cfg"
    "cf_environment cfg = Prod \<Longrightarrow> trim_space (getenv H ''RW_INSTANCE_ID'') \<noteq> ''''"
    using assms(2) unfolding check_parts_def go_ok by blast+
qed


text \<open>A bound that can be evaluated.\<close>

lemma parse_uint64_code [code]:
  "parse_uint64 s =
     (if s = [] \<or> \<not> list_all is_digit s then None
      else if int (digits_val s) < 18446744073709551616 then Some (digits_val s) else None)"
  by (auto simp: parse_uint64_def)

definition sample_environ :: "string list" where
  "sample_environ =
     [''RW_ENVIRONMENT=local'', ''RW_DATABASE_URL=postgres://db'', ''RW_NATS_URLS=nats://n'', ''RW_SIGNING_KEY_ID=sessions-1'',
      ''RW_SIGNING_PRIVATE_KEY_FILE=key'', ''RW_TRUSTED_KEYS_FILE=keys'', ''RW_DATA_KEYRING_FILE=ring'',
      ''RW_FINGERPRINT_KEY_FILE=fp'', ''RW_USDT_NETWORK=tron'']"

definition sample_host :: host where
  "sample_host =
     \<lparr>environ = sample_environ, host_name = Inr ''node'', lstat = (\<lambda>_. Inl DbUnavailable), file_contents = (\<lambda>_. Inl DbUnavailable),
      url_parse = (\<lambda>_. Some \<lparr>ur_scheme = ''nats'', ur_host = ''n'', ur_user = False, ur_sslmode = ''''\<rparr>)\<rparr>"

definition sample_security :: security_config where
  "sample_security =
     \<lparr>sc_signing_key_id = ''sessions-1'', sc_signing_private_key_file = ''key'', sc_signing_private_key = '''',
      sc_trusted_keys_file = ''keys'', sc_data_keyring_file = ''ring'', sc_fingerprint_key_file = ''fp''\<rparr>"

lemma sample_config_value:
  "case load_config ActiveSessions sample_host of Inl e \<Rightarrow> False
   | Inr cfg \<Rightarrow> cf_service cfg = ActiveSessions \<and> cf_environment cfg = Local \<and> cf_security cfg = sample_security \<and>
       nc_tls_ca_file (cf_nats cfg) = '''' \<and> cf_bot cfg = None \<and> cf_sessions cfg = Some \<lparr>se_usdt_network = ''tron'', se_page_size = 20\<rparr>"
  by code_simp

lemma sample_config_loads:
  obtains cfg where "load_config ActiveSessions sample_host = Inr cfg" "cf_service cfg = ActiveSessions" "cf_environment cfg = Local"
    "cf_security cfg = sample_security" "nc_tls_ca_file (cf_nats cfg) = ''''" "cf_bot cfg = None"
    "cf_sessions cfg = Some \<lparr>se_usdt_network = ''tron'', se_page_size = 20\<rparr>"
  using sample_config_value that by (cases "load_config ActiveSessions sample_host") auto

text \<open>A bot in production, with its secrets in files.\<close>

definition production_host :: host where
  "production_host =
     \<lparr>environ = [''RW_ENVIRONMENT=prod'', ''RW_INSTANCE_ID=bot-1'', ''RW_DATABASE_URL_FILE=db'', ''RW_NATS_URLS=n'', ''RW_NATS_CREDS_FILE=creds'',
        ''RW_NATS_TLS_CA_FILE=ca'', ''RW_NATS_TLS_SERVER_NAME=nats'', ''RW_SIGNING_KEY_ID=bot-1'', ''RW_SIGNING_PRIVATE_KEY_FILE=key'',
        ''RW_TRUSTED_KEYS_FILE=keys'', ''RW_DATA_KEYRING_FILE=ring'', ''RW_FINGERPRINT_KEY_FILE=fp'', ''RW_USDT_NETWORK=tron'',
        ''RW_USDT_SCALE=6'', ''RW_ACTIVATION_AMOUNT_MIN_MINOR=1'', ''RW_ACTIVATION_AMOUNT_MAX_MINOR=1000'', ''RW_TELEGRAM_MODE=direct_polling'',
        ''RW_TELEGRAM_TOKEN_FILE=token'', ''RW_TELEGRAM_BOT_ID=1'', ''RW_TELEGRAM_BOT_USERNAME=rw_bot''],
      host_name = Inr ''node'', lstat = (\<lambda>_. Inr \<lparr>fi_symlink = False, fi_regular = True, fi_perm = 0\<rparr>), file_contents = (\<lambda>path. Inr path),
      url_parse = (\<lambda>raw. Some (if raw = ''db'' then \<lparr>ur_scheme = ''postgres'', ur_host = ''db'', ur_user = True, ur_sslmode = ''verify-full''\<rparr>
        else \<lparr>ur_scheme = ''tls'', ur_host = ''n'', ur_user = False, ur_sslmode = ''''\<rparr>))\<rparr>"

lemma production_loads: "case load_config BotService production_host of Inl e \<Rightarrow> False | Inr cfg \<Rightarrow> cf_environment cfg = Prod"
  by code_simp


end
