(* ===== verification/Process_Properties.thy ===== *)
theory Process_Properties
  imports Service_Lifecycle Config_Properties
begin

text \<open>
  What holds of a process that has started: its signing key is the one the other services trust it with.
\<close>

section \<open>The keys\<close>

definition process_codec :: "application \<Rightarrow> codec" where
  "process_codec a = (case ap_worker a of Bot_Worker bs polling \<Rightarrow> bs_codec bs | Sessions_Worker sv \<Rightarrow> sv_codec sv)"


lemma load_security_material_ok:
  assumes "load_security_material L F cfg now = Inr sm"
  shows "load_trusted_keys L F (sc_trusted_keys_file (cf_security cfg)) = Inr (sm_trusted_keys sm)"
    and "lookup_key (sm_trusted_keys sm) (cf_service cfg) (sc_signing_key_id (cf_security cfg)) now = Inr (ed25519_public L (sm_private_key sm))"
    and "deployed (cf_environment cfg) \<Longrightarrow> \<not> go_contains (to_lower (sc_signing_key_id (cf_security cfg))) ''test''"
  using assms unfolding load_security_material_def Let_def go_ok by auto

lemma worker_codec:
  assumes "bot_worker cfg b sm = Inr w"
  shows "(case w of Bot_Worker bs polling \<Rightarrow> bs_codec bs | Sessions_Worker sv \<Rightarrow> sv_codec sv) = runtime_codec cfg sm"
  using assms by (auto simp: bot_worker_def new_activation_service_def Let_def go_ok split: if_splits)

lemma run_service_ok:
  assumes "run_service L F H X service_id now = Inr a"
  obtains cfg sm where "load_config service_id H = Inr cfg" "load_security_material L F cfg now = Inr sm"
    "start_dependencies X H cfg = Inr ()" "ap_config a = cfg" "process_codec a = runtime_codec cfg sm"
proof -
  from assms obtain cfg sm worker where c: "load_config service_id H = Inr cfg" "load_security_material L F cfg now = Inr sm"
      "start_dependencies X H cfg = Inr ()"
    and w: "(case (cf_bot cfg, cf_sessions cfg) of
              (Some b, _) \<Rightarrow> bot_worker cfg b sm
            | (None, Some s) \<Rightarrow> Inr (sessions_worker cfg s sm)
            | (None, None) \<Rightarrow> Inl (Errorf ''unsupported service'')) = Inr worker"
    and a: "a = \<lparr>ap_config = cfg, ap_worker = worker, ap_telegram_ready = False, ap_domain_ready = False\<rparr>"
    unfolding run_service_def sum_case_Inr if_Inl_Inr by auto
  have "process_codec a = runtime_codec cfg sm"
    using w by (auto simp: a process_codec_def sessions_worker_def split: option.splits dest: worker_codec)
  with c a show thesis by (intro that) simp_all
qed

text \<open>
  C19. A process that starts can be trusted by the others: whatever it signs with its key, while the key is valid, is accepted by
  every process that has the same manifest and lets its service send the message; and in staging and production
  the key is not a test key.
\<close>

theorem started_process_trusted:
  assumes "run_service L F H X service_id start_time = Inr a" "uuid_laws L" "signature_laws L"
    and "codec_sign L (process_codec a) w i subj mtype correlation causation raw expires = Inr item"
    and "utf8_valid subj" "utf8_valid mtype" "utf8_valid (cd_key_id (process_codec a))" "length (om_message_id item) = 16"
    and "rfc3339_years (go_now w i)" "rfc3339_years expires"
    and "cd_trusted r = cd_trusted (process_codec a)" "service_id \<in> set allowed"
    and "\<forall>k. cd_trusted r (map_key service_id (cd_key_id (process_codec a))) = Some k \<longrightarrow>
      tk_valid_from k \<le> go_now w i \<and> go_now w i < tk_valid_until k"
    and "timely (cd_clock_skew r) (go_now w i) expires (go_now w' 0)"
  shows "(\<exists>env. codec_verify L r w' (om_envelope item) subj mtype allowed =
      Inr \<lparr>vf_envelope = env, vf_payload = raw, vf_id = om_message_id item, vf_expires = expires\<rparr> \<and> producer env = service_id) \<and>
    (deployed (cf_environment (ap_config a)) \<longrightarrow> \<not> go_contains (to_lower (cd_key_id (process_codec a))) ''test'')"
proof -
  obtain cfg sm where c: "load_config service_id H = Inr cfg" "load_security_material L F cfg start_time = Inr sm"
      "ap_config a = cfg" "process_codec a = runtime_codec cfg sm"
    using assms(1) by (rule run_service_ok)
  note sec = load_security_material_ok [OF c(2)]
  obtain env url parts where "load_parts service_id H env url = Inr parts" "check_parts H parts = Inr ()"
    and "service_id = BotService \<and> (\<exists>b. cfg = parts\<lparr>cf_bot := Some b\<rparr>) \<or> service_id = ActiveSessions \<and> (\<exists>s. cfg = parts\<lparr>cf_sessions := Some s\<rparr>)"
    using c(1) by (rule load_config_parts) blast
  then have name: "cf_service cfg = service_id" "utf8_valid service_id"
    using load_parts_range(9) [of service_id H env url parts] by (auto simp: BotService_def ActiveSessions_def visible_def byte_def intro!: utf8_valid_visible)
  then have producer: "cd_producer (process_codec a) = service_id"
    by (simp add: c(4) runtime_codec_def)
  have "lookup_key (cd_trusted r) service_id (cd_key_id (process_codec a)) (go_now w i) =
      Inr (ed25519_public L (cd_private_key (process_codec a)))"
    using sec(2) assms(11,13) by (auto simp: c(4) name runtime_codec_def lookup_key_def split: option.splits if_splits)
  with signed_item_verifies [OF assms(2-6) _ assms(7,9,10,8) _ _ assms(14)] name(2) producer assms(12) sec(3) c(3,4) show ?thesis
    by (simp add: runtime_codec_def)
qed

definition process_fs :: fs where
  "process_fs =
     \<lparr>lstat_clean = (\<lambda>_. Inr \<lparr>fi_symlink = False, fi_regular = True, fi_perm = 0\<rparr>),
      read_file = (\<lambda>path. Inr (if path = ''key'' then replicate 64 CHR ''k'' else std_encode (replicate 32 CHR ''f''))),
      decode_trusted = (\<lambda>_. Inr \<lparr>tf_version = 1,
        tf_keys = [\<lparr>ti_producer = ActiveSessions, ti_key_id = ''sessions-1'', ti_public_key_pem = replicate 32 CHR ''k'',
                    ti_valid_from = format_rfc3339nano 1600000000000000000,
                    ti_valid_until = format_rfc3339nano 2000000000000000000\<rparr>]\<rparr>),
      decode_data = (\<lambda>_. Inr (sample_keyring_file ''k1'' [sample_key_item ''k1'' CHR ''a'' False]))\<rparr>"

definition process_trusted :: trusted_keys where
  "process_trusted = [map_key ActiveSessions ''sessions-1'' \<mapsto>
     \<lparr>tk_producer = ActiveSessions, tk_key_id = ''sessions-1'', tk_public_key = replicate 32 CHR ''k'',
      tk_valid_from = 1600000000000000000, tk_valid_until = 2000000000000000000\<rparr>]"

definition process_material :: security_material where
  "process_material =
     \<lparr>sm_private_key = replicate 64 CHR ''k'', sm_trusted_keys = process_trusted, sm_data_keyring = sample_keyring,
      sm_fingerprint_key = replicate 32 CHR ''f''\<rparr>"

lemma process_material_loads:
  assumes "cf_service cfg = ActiveSessions" "cf_environment cfg = Local" "cf_security cfg = sample_security"
  shows "load_security_material sample_lib process_fs cfg 1700000000000000000 = Inr process_material"
proof -
  have "year_of 1600000000000000000 = 2020" "year_of 2000000000000000000 = 2033"
    by code_simp+
  then have t: "parse_instant (format_rfc3339nano 1600000000000000000) = Some 1600000000000000000"
    "parse_instant (format_rfc3339nano 2000000000000000000) = Some 2000000000000000000"
    by (simp_all add: parse_instant_format)
  have lib: "pem_decode sample_lib s = Some s" "parse_pkix sample_lib s = Inr (Some s)" "parse_pkcs8 sample_lib s = Inr (Some s)"
      "ed25519_public sample_lib (replicate 64 CHR ''k'') = replicate 32 CHR ''k''" for s
    by (simp_all add: sample_lib_def)
  have valid: "validate_file process_fs path = Inr ()" for path
    by (simp add: validate_file_def process_fs_def)
  have key: "load_signing_private_key sample_lib process_fs ''key'' '''' = Inr (replicate 64 CHR ''k'')"
    by (simp add: load_signing_private_key_def valid) (simp add: process_fs_def lib)
  have trust: "load_trusted_keys sample_lib process_fs ''keys'' = Inr process_trusted"
    by (simp add: load_trusted_keys_def valid trusted_key_of_def) (simp add: process_fs_def t lib process_trusted_def trusted_key_of_def Let_def ActiveSessions_def)
  have ring: "load_data_keyring process_fs ''ring'' = Inr sample_keyring"
    by (simp add: load_data_keyring_def valid) (simp add: process_fs_def sample_keyring_loads)
  have fp: "trim_space (std_encode (replicate 32 CHR ''f'')) = std_encode (replicate 32 CHR ''f'')"
    by (intro trim_space_visible std_encode_ascii)
  have finger: "load_fingerprint_key process_fs ''fp'' = Inr (replicate 32 CHR ''f'')"
    by (simp add: load_fingerprint_key_def valid) (simp add: process_fs_def fp std_decode_encode)
  have look: "lookup_key process_trusted ActiveSessions ''sessions-1'' 1700000000000000000 = Inr (replicate 32 CHR ''k'')"
    by (simp add: lookup_key_def process_trusted_def)
  show ?thesis
    using assms by (simp add: load_security_material_def sample_security_def key trust ring finger look deployed_def lib
        process_material_def Let_def)
qed

definition sample_outside :: outside where
  "sample_outside =
     \<lparr>parse_pool_url = (\<lambda>_. True), create_pool = (\<lambda>_. Inr ()), ping_pool = Inr (), server_version = Inr 180000,
      applied_version = Inr 2, append_certs = (\<lambda>_. True), connect_nats = (\<lambda>_. Inr ())\<rparr>"

lemma sample_process_starts:
  obtains a where "run_service sample_lib process_fs sample_host sample_outside ActiveSessions 1700000000000000000 = Inr a"
    "process_codec a = \<lparr>cd_producer = ActiveSessions, cd_key_id = ''sessions-1'', cd_private_key = replicate 64 CHR ''k'',
      cd_trusted = process_trusted, cd_clock_skew = ClockSkew\<rparr>"
proof (rule sample_config_loads)
  fix cfg
  assume c: "load_config ActiveSessions sample_host = Inr cfg" "cf_service cfg = ActiveSessions" "cf_environment cfg = Local"
    "cf_security cfg = sample_security" "nc_tls_ca_file (cf_nats cfg) = ''''" "cf_bot cfg = None"
    "cf_sessions cfg = Some \<lparr>se_usdt_network = ''tron'', se_page_size = 20\<rparr>"
  have "schema_version ActiveSessions = 2"
    by (simp add: schema_version_def ActiveSessions_def BotService_def)
  then have deps: "start_dependencies sample_outside sample_host cfg = Inr ()"
    by (simp add: start_dependencies_def open_database_def check_version_def nats_connect_def sample_outside_def c Let_def)
  show thesis
    by (rule that [of "\<lparr>ap_config = cfg, ap_worker = sessions_worker cfg \<lparr>se_usdt_network = ''tron'', se_page_size = 20\<rparr> process_material,
        ap_telegram_ready = False, ap_domain_ready = False\<rparr>"]) (simp_all add: run_service_def c mode_implemented_def process_material_loads deps process_codec_def sessions_worker_def
        runtime_codec_def sample_security_def process_material_def)
qed

lemma started_process_trusted_witness:
  "\<exists>c item env. codec_sign sample_lib c sample_world 0 ''s'' ''t'' (sample_uuid 5) nil_uuid ''{}'' 1700000600000000000 = Inr item \<and>
     cd_producer c = ActiveSessions \<and> cd_trusted c = process_trusted \<and>
     codec_verify sample_lib c sample_world (om_envelope item) ''s'' ''t'' [ActiveSessions] =
       Inr \<lparr>vf_envelope = env, vf_payload = ''{}'', vf_id = om_message_id item, vf_expires = 1700000600000000000\<rparr>"
proof (rule sample_process_starts)
  fix a
  assume a: "run_service sample_lib process_fs sample_host sample_outside ActiveSessions 1700000000000000000 = Inr a"
    "process_codec a = \<lparr>cd_producer = ActiveSessions, cd_key_id = ''sessions-1'', cd_private_key = replicate 64 CHR ''k'',
      cd_trusted = process_trusted, cd_clock_skew = ClockSkew\<rparr>"
  have "codec_ready (process_codec a)"
    by (auto simp: codec_ready_def a(2) PrivateKeySize_def ActiveSessions_def intro!: short_name_visible) (simp_all add: visible_def byte_def)
  moreover have years: "rfc3339_years (go_now sample_world 0)"
    by (simp add: sample_world_def sample_years)
  moreover have "new_v7 sample_world 0 = Inr (sample_uuid 0)" "go_now sample_world 0 < 1700000600000000000"
      "short_name ''s''" "short_name ''t''"
    by (simp_all add: sample_world_def sample_years short_name_visible visible_def byte_def)
  ultimately obtain item where item: "codec_sign sample_lib (process_codec a) sample_world 0 ''s'' ''t'' (sample_uuid 5) nil_uuid ''{}''
      1700000600000000000 = Inr item" "om_message_id item = sample_uuid 0"
    using codec_sign_succeeds [of sample_lib "process_codec a" sample_world 0 "sample_uuid 0" "sample_uuid 5" nil_uuid "''s''" "''t''" "''{}''"
      1700000600000000000] sample_uuid_laws sample_signature_laws sample_v7 sample_years(2) by auto
  have visible: "utf8_valid ''s''" "utf8_valid ''t''" "utf8_valid ''sessions-1''"
    by (simp_all add: utf8_valid_visible visible_def byte_def)
  have valid: "\<forall>k. cd_trusted (process_codec a) (map_key ActiveSessions (cd_key_id (process_codec a))) = Some k \<longrightarrow>
      tk_valid_from k \<le> go_now sample_world 0 \<and> go_now sample_world 0 < tk_valid_until k"
    by (simp add: a(2) process_trusted_def sample_world_def)
  have time: "timely (cd_clock_skew (process_codec a)) (go_now sample_world 0) 1700000600000000000 (go_now sample_world 0)"
    by (simp add: a(2) timely_def sample_world_def duration_defs EventMaxAge_def ClockSkew_def)
  have "\<exists>env. codec_verify sample_lib (process_codec a) sample_world (om_envelope item) ''s'' ''t'' [ActiveSessions] =
      Inr \<lparr>vf_envelope = env, vf_payload = ''{}'', vf_id = om_message_id item, vf_expires = 1700000600000000000\<rparr>"
    using started_process_trusted [where allowed = "[ActiveSessions]", OF a(1) sample_uuid_laws sample_signature_laws item(1) visible(1,2) _ _
        years sample_years(2) refl _ valid time] item(2) visible(3) by (auto simp: a(2))
  with item(1) show ?thesis
    by (intro exI [of _ "process_codec a"] exI [of _ item]) (simp add: a(2))
qed

end
