(* ===== verification/Code_Findings.thy ===== *)
theory Code_Findings
  imports Bot_Defects Message_Consumer Process_Properties
begin

text \<open>
  More places where the code does not do what it means to, each on an input that shows it: a payment
  message before the offer, and two settings that are accepted and cannot work.
\<close>

section \<open>A payment before its offer\<close>

text \<open>
  The status check of \<open>ApplyPayment\<close> would reject the message in the inbox; an attempt without an offer never gets there.
  Nothing is recorded, so the same message fails again each time it arrives.
\<close>

lemma payment_before_offer:
  assumes "uuid_parse L (pc_operation_id result) = Some operation_id" "find_attempt operation_id d = Some attempt"
    and "at_external_reservation_id attempt = None" "im_message_id inc \<notin> inbox_ids d"
  shows "\<exists>e. apply_payment L fs inc result factory w d = (Inl e, d)"
proof -
  have "find_inbox (im_message_id inc) d = None"
    using assms(4) find_inbox_None by blast
  then have "(\<exists>e. apply_payment L fs inc result factory w d = (Inl e, d)) \<or>
      False \<and> (\<exists>r. apply_payment L fs inc result factory w d = (r, d))"
    unfolding apply_payment_def assms(1) option.case
    by (intro run_same) (use assms(2,3) in
      \<open>auto simp: with_attempt_def payment_body_def fl_register_def find_attempt_def tx_ok split: option.splits\<close>)
  then show ?thesis by blast
qed

section \<open>Settings\<close>

text \<open>The size of a mebibyte is multiplied in 64 bits: sixteen exbibytes are zero bytes.\<close>

lemma mebibytes_wrap:
  assumes "getenv H name = ''17592186044416MiB''"
  shows "env_bytes H name default_size = Inr 0"
proof -
  have v: "trim_space ''17592186044416MiB'' = ''17592186044416MiB''" "ends_with ''KiB'' ''17592186044416MiB'' = False"
    "ends_with ''MiB'' ''17592186044416MiB'' = True"
    by code_simp+
  have "parse_int64 (take (length ''17592186044416MiB'' - length ''MiB'') ''17592186044416MiB'') = Some 17592186044416"
    by (simp add: parse_int64_def parse_uint64_def is_digit_def byte_def digits_val_def digit_val_def)
  then have "scaled_bytes name ''17592186044416MiB'' ''MiB'' 1048576 = Inr 0"
    by (simp add: scaled_bytes_def int64_mult_def del: list.size length_Cons take_Suc_Cons)
  with v assms show ?thesis
    by (simp only: env_bytes_def Let_def list.distinct if_False if_True)
qed

text \<open>
  A negative number of pending messages is accepted with the rest of the configuration, and the consumer then panics before
  it has subscribed.
\<close>

definition negative_pending_host :: host where
  "negative_pending_host = sample_host\<lparr>environ := ''RW_NATS_PENDING_MESSAGES=-1'' # sample_environ\<rparr>"

lemma negative_pending_value:
  "case load_config ActiveSessions negative_pending_host of Inl e \<Rightarrow> False | Inr cfg \<Rightarrow> nc_pending_messages (cf_nats cfg) = - 1"
  by code_simp

lemma negative_pending_panics:
  "\<exists>cfg. load_config ActiveSessions negative_pending_host = Inr cfg \<and>
     (\<forall>answers subj workers. start_consumer answers subj (cf_nats cfg) workers = Inl (Errorf ''panic: makechan: size out of range''))"
proof (cases "load_config ActiveSessions negative_pending_host")
  case (Inl e)
  with negative_pending_value show ?thesis by simp
next
  case (Inr cfg)
  with negative_pending_value show ?thesis
    by (simp add: start_consumer_def)
qed

end
