(* ===== verification/Bot_Data.thy ===== *)
theory Bot_Data
  imports Bot_Liveness Bot_Amounts
begin

text \<open>
  What the rows of the bot hold: every encrypted column decrypts, in its row and column, to data the bot has checked before
  it wrote them (the balance of an invite, the wallets of an attempt), amounts are valid, and an attempt that waits for its payment has the
  reservation and the offer that were checked. Every step of the bot keeps this.
\<close>

definition holds :: "lib \<Rightarrow> flow_store \<Rightarrow> string \<Rightarrow> uuid \<Rightarrow> string \<Rightarrow> (string \<Rightarrow> bool) \<Rightarrow> bytes \<Rightarrow> bool" where
  "holds L fs table row_id column P c \<longleftrightarrow> (\<exists>x. fl_decrypt L fs table row_id column c = Inr x \<and> P x)"

definition balance_ok :: "string \<Rightarrow> bool" where
  "balance_ok x \<longleftrightarrow> 1 \<le> length x \<and> length x \<le> 256"

definition wallet_ok :: "string \<Rightarrow> bool" where
  "wallet_ok x \<longleftrightarrow> validate_wallet x = Inr ()"

definition invite_data :: "lib \<Rightarrow> flow_store \<Rightarrow> invite_row \<Rightarrow> bool" where
  "invite_data L fs r \<longleftrightarrow> holds L fs ''invites'' (iv_id r) ''balance_id'' balance_ok (iv_balance_ciphertext r)"

definition session_data :: "lib \<Rightarrow> flow_store \<Rightarrow> inactive_row \<Rightarrow> bool" where
  "session_data L fs r \<longleftrightarrow>
     holds L fs ''inactive_sessions'' (ns_id r) ''balance_id'' balance_ok (ns_balance_ciphertext r) \<and>
     optional (\<lambda>l. length l \<le> 128) (ns_display_label r)"

definition offer_data :: "lib \<Rightarrow> flow_store \<Rightarrow> attempt_row \<Rightarrow> bool" where
  "offer_data L fs r \<longleftrightarrow>
     (\<exists>c reservation vf ex. at_receiver_ciphertext r = Some c \<and>
        holds L fs ''activation_attempts'' (at_id r) ''receiver_wallet'' wallet_ok c \<and>
        at_external_reservation_id r = Some reservation \<and> external_id reservation \<and>
        at_offer_valid_from r = Some vf \<and> at_offer_expires_at r = Some ex \<and> vf + minute \<le> ex \<and> ex \<le> vf + hour)"

definition attempt_data :: "lib \<Rightarrow> flow_store \<Rightarrow> attempt_row \<Rightarrow> bool" where
  "attempt_data L fs r \<longleftrightarrow>
     holds L fs ''activation_attempts'' (at_id r) ''sender_wallet'' wallet_ok (at_sender_ciphertext r) \<and>
     valid_amount (at_amount r) \<and> (at_status r = AT_PAYMENT \<longrightarrow> offer_data L fs r)"

definition bot_data :: "lib \<Rightarrow> flow_store \<Rightarrow> bot_db \<Rightarrow> bool" where
  "bot_data L fs d \<longleftrightarrow>
     list_all (invite_data L fs) (invites d) \<and> list_all (session_data L fs) (inactive d) \<and> list_all (attempt_data L fs) (attempts d)"

text \<open>The services the invariant is stated for: the keys are there, and the configured amounts are amounts.\<close>

definition sound_service :: "lib \<Rightarrow> bot_service \<Rightarrow> bool" where
  "sound_service L bs \<longleftrightarrow>
     aead_laws L \<and> keyring_ok (fs_keyring (bs_store bs)) \<and> utf8_valid (kr_active (fs_keyring (bs_store bs))) \<and>
     0 \<le> bc_activation_amount_min (bs_bot bs) \<and> bc_activation_amount_min (bs_bot bs) \<le> bc_activation_amount_max (bs_bot bs) \<and>
     bc_activation_amount_max (bs_bot bs) < 2 ^ 63 \<and> 0 \<le> bc_usdt_scale (bs_bot bs) \<and> bc_usdt_scale (bs_bot bs) \<le> 18"

definition keeps_data :: "lib \<Rightarrow> flow_store \<Rightarrow> lib \<Rightarrow> bot_service \<Rightarrow> bool" where
  "keeps_data L fs L' bs \<longleftrightarrow> L' = L \<and> bs_store bs = fs \<and> sound_service L bs"

lemma holds_encrypted:
  assumes "keeps_data L fs L' bs" "fl_encrypt L fs i table row_id column x w = Inr c" "P x"
  shows "holds L fs table row_id column P c"
  using assms fl_decrypt_encrypt [OF _ _ _ assms(2)] by (auto simp: holds_def keeps_data_def sound_service_def)

lemma drawn_amount:
  assumes "keeps_data L fs L' bs"
    and "random_minor (bc_activation_amount_min (bs_bot bs)) (bc_activation_amount_max (bs_bot bs)) draws = Some (Inr minor)"
    and "format_amount minor (bc_usdt_scale (bs_bot bs)) = Some amount"
  shows "valid_amount amount"
proof -
  let ?m = "bc_activation_amount_min (bs_bot bs)" and ?n = "bc_activation_amount_max (bs_bot bs)"
  have range: "?m \<le> ?n" "- (2 ^ 63) \<le> ?m" "?n < 2 ^ 63" "?n - ?m < 2 ^ 64 - 1" "0 \<le> ?m"
    using assms(1) by (auto simp: keeps_data_def sound_service_def)
  obtain x where x: "minor = ?m + uint (x mod amount_span ?m ?n)"
    using assms(2) unfolding random_minor_eq [OF range(1-4)] by auto
  have "0 \<le> minor" "minor < 2 ^ 63"
    using range amount_in_range(2) [OF range(1-4), of x] unfolding x by simp_all
  with format_amount_denotes [of minor "bc_usdt_scale (bs_bot bs)"] assms(1,3) show ?thesis
    by (auto simp: keeps_data_def sound_service_def)
qed

section \<open>Offers\<close>

text \<open>Rounding the two ends of an offer to microseconds keeps its length in bounds.\<close>

lemma pg_time_bounds: "pg_time t \<le> t" "t < pg_time t + 1000" "(1000::int) dvd pg_time t"
  by (simp_all add: pg_time_def minus_mod_eq_div_mult [symmetric] pos_mod_bound) 

lemma pg_time_mono: "s \<le> t \<Longrightarrow> pg_time s \<le> pg_time t"
  by (simp add: pg_time_def zdiv_mono1)

lemma pg_time_add: "(1000::int) dvd k \<Longrightarrow> pg_time (t + k) = pg_time t + k"
  by (auto simp: pg_time_def dvd_def distrib_right)

lemma offer_length_stored:
  assumes "offer_window now vf ex"
  shows "pg_time vf + minute \<le> pg_time ex" "pg_time ex \<le> pg_time vf + hour"
proof -
  have m: "pg_time (vf + minute) = pg_time vf + minute" "pg_time (vf + hour) = pg_time vf + hour"
    by (rule pg_time_add; simp add: duration_defs)+
  have w: "vf + minute \<le> ex" "ex \<le> vf + hour"
    using assms by (simp_all add: offer_window_def)
  show "pg_time vf + minute \<le> pg_time ex" "pg_time ex \<le> pg_time vf + hour"
    using pg_time_mono [OF w(1)] pg_time_mono [OF w(2)] m by simp_all
qed

lemma validate_reserved_ok:
  "validate_reserved result op amount now = Inr () \<longleftrightarrow>
     as_operation_id result = op \<and> as_amount result = amount \<and> external_id (as_external_reservation_id result) \<and>
     validate_wallet (as_receiver_wallet result) = Inr () \<and>
     (\<exists>vf ex. parse_instant (as_valid_from result) = Some vf \<and> parse_instant (as_expires_at result) = Some ex \<and> offer_window now vf ex)"
  unfolding validate_reserved_def offer_window_check
  by (cases "validate_wallet (as_receiver_wallet result)") (auto split: option.splits)

section \<open>The parts of transactions\<close>

abbreviation data_kept :: "lib \<Rightarrow> flow_store \<Rightarrow> bot_db \<Rightarrow> bot_db \<Rightarrow> bool" where
  "data_kept L fs \<equiv> schema_kept (bot_data L fs)"

lemma same_data: "invites d' = invites d \<Longrightarrow> inactive d' = inactive d \<Longrightarrow> attempts d' = attempts d \<Longrightarrow> data_kept L fs d d'"
  by (simp add: schema_kept_def bot_data_def)

lemma msg_le_data: "msg_le d d' \<Longrightarrow> data_kept L fs d d'"
proof -
  assume "msg_le d d'"
  then have "d' = d\<lparr>inbox := inbox d', outbox := outbox d'\<rparr>"
    by (intro msgdb.equality) (simp_all add: msg_le_def)
  from arg_cong [OF this, of invites] arg_cong [OF this, of inactive] arg_cong [OF this, of attempts] show ?thesis
    by (intro same_data) simp_all
qed

lemma msg_keeps_data: "keeps msg_le m \<Longrightarrow> keeps (data_kept L fs) m"
  unfolding keeps_def by (blast intro: msg_le_data)

text \<open>What a lifted call gave is known to the rest of the body.\<close>

lemma keeps_after_lift: "(\<And>w x. r w = Inr x \<Longrightarrow> keeps R (f x)) \<Longrightarrow> keeps R (tx_bind (tx_lift r) f)"
  unfolding keeps_def tx_bind_ok tx_lift_ok by blast

lemmas data_base = keeps_bind [OF schema_kept_pre(2)] keeps_return [OF schema_kept_pre(1)] keeps_lift [OF schema_kept_pre(1)]
  keeps_query [OF schema_kept_pre(1)] keeps_fail keeps_if keeps_option keeps_sum keeps_prod
  register_inbox_keeps [THEN msg_keeps_data] inbox_updates_keep [THEN msg_keeps_data] outbox_updates_keep [THEN msg_keeps_data]

lemma data_execs:
  "keeps (data_kept L fs) (tx_exec bot_ok step (\<lambda>w d. ((), d\<lparr>projections := p w d\<rparr>)))"
  "keeps (data_kept L fs) (tx_exec bot_ok step (\<lambda>w d. ((), delete_session j d)))"
  by (auto intro!: keeps_exec simp: schema_kept_def bot_data_def delete_session_def list_all_iff invite_data_def)

lemma update_attempt_data:
  "(\<And>w r. attempt_data L fs r \<Longrightarrow> at_id r = u \<Longrightarrow> attempt_data L fs (f w r)) \<Longrightarrow> keeps (data_kept L fs) (update_attempt u f)"
proof -
  assume f: "\<And>w r. attempt_data L fs r \<Longrightarrow> at_id r = u \<Longrightarrow> attempt_data L fs (f w r)"
  have "attempt_data L fs (r\<lparr>at_updated_at := t, at_version := k\<rparr>)" if "attempt_data L fs r" for r t k
    using that by (simp add: attempt_data_def offer_data_def)
  with f show ?thesis
    unfolding update_attempt_def by (intro keeps_exec) (auto simp: schema_kept_def bot_data_def list_all_iff)
qed

lemma attempt_data_settled:
  "attempt_data L fs r \<Longrightarrow> st \<noteq> AT_PAYMENT \<Longrightarrow> attempt_data L fs (r\<lparr>at_status := st, at_failure_code := x, at_completed_at := y\<rparr>)"
  "attempt_data L fs r \<Longrightarrow> st \<noteq> AT_PAYMENT \<Longrightarrow> attempt_data L fs (r\<lparr>at_status := st, at_completed_at := y\<rparr>)"
  "attempt_data L fs r \<Longrightarrow> st \<noteq> AT_PAYMENT \<Longrightarrow>
     attempt_data L fs (r\<lparr>at_verify_message_id := v, at_transaction_id := t, at_status := st\<rparr>)"
  by (simp_all add: attempt_data_def)

lemma data_parts:
  "keeps (data_kept L fs) (fl_register L' inc)" "keeps (data_kept L fs) (fl_insert_outbox L' fs' i item)"
  "keeps (data_kept L fs) (session_row_of j)" "keeps (data_kept L fs) (set_dialog_state j state)"
  "keeps (data_kept L fs) (reject_message inc)"
proof -
  show "keeps (data_kept L fs) (set_dialog_state j state)"
    unfolding set_dialog_state_def
    by (intro keeps_exec) (auto simp: schema_kept_def bot_data_def list_all_iff session_data_def)
qed (unfold fl_register_def fl_insert_outbox_def session_row_of_def reject_message_def, (intro data_base)+)

lemma data_bodies:
  "keeps (data_kept L fs) (reserve_rejected_body inc refusal attempt)"
  "keeps (data_kept L fs) (payment_body L' fs' inc payment operation_id factory attempt)"
  "keeps (data_kept L fs) (complete_body L' fs' inc outcome attempt)"
  unfolding reserve_rejected_body_def payment_body_def complete_body_def Let_def
  by (intro data_base data_parts data_execs update_attempt_data attempt_data_settled; assumption?; simp)+

text \<open>An offer that was checked is stored with microseconds, which keeps its length in bounds.\<close>

lemma reserved_body_data:
  assumes "keeps_data L fs L bs"
  shows "keeps (data_kept L fs) (reserved_body L fs inc result operation_id network attempt)"
proof -
  have offered: "attempt_data L fs (r\<lparr>at_receiver_ciphertext := Some ct, at_receiver_fingerprint := fp,
      at_external_reservation_id := Some (as_external_reservation_id result),
      at_offer_valid_from := Some (pg_time (time_or_zero (as_valid_from result))),
      at_offer_expires_at := Some (pg_time (time_or_zero (as_expires_at result))), at_status := AT_PAYMENT\<rparr>)"
    if r: "attempt_data L fs r" "at_id r = at_id attempt"
      and checked: "validate_reserved result op amount now = Inr u"
      and ct: "fl_encrypt L fs 0 ''activation_attempts'' (at_id attempt) ''receiver_wallet'' (as_receiver_wallet result) w = Inr ct"
    for r ct fp op amount now w u
  proof -
    obtain vf ex where offer: "parse_instant (as_valid_from result) = Some vf" "parse_instant (as_expires_at result) = Some ex"
        "offer_window now vf ex" "external_id (as_external_reservation_id result)" "wallet_ok (as_receiver_wallet result)"
      using checked by (auto simp: validate_reserved_ok wallet_ok_def)
    have "holds L fs ''activation_attempts'' (at_id r) ''receiver_wallet'' wallet_ok ct"
      using holds_encrypted [OF assms ct, of wallet_ok] offer(5) r(2) by simp
    moreover have "pg_time vf + minute \<le> pg_time ex" "pg_time ex \<le> pg_time vf + hour"
      using offer_length_stored [OF offer(3)] by simp_all
    ultimately show ?thesis
      using r(1) offer by (simp add: attempt_data_def offer_data_def time_or_zero_def)
  qed
  show ?thesis
    unfolding reserved_body_def Let_def
    by (intro keeps_if keeps_after_lift) (intro data_base data_parts update_attempt_data offered; assumption?)+
qed

section \<open>The steps\<close>

lemma with_attempt_data:
  "(\<And>attempt. keeps (data_kept L fs) (body attempt)) \<Longrightarrow> data_kept L fs d (snd (run_tx w (with_attempt L' inc operation_id body) d))"
  unfolding with_attempt_def by (intro run_tx_keeps [OF schema_kept_pre(1)] data_base data_parts)

lemma create_invite_data:
  assumes "keeps_data L fs L bs" "validate_invite_create L command = Inr ()"
  shows "data_kept L fs d (snd (create_invite L fs inc command ttl factory w d))"
proof -
  have balance: "balance_ok (ic_balance_id command)"
    using assms(2) by (auto simp: validate_invite_create_def balance_ok_def Suc_le_eq split: if_splits)
  have insert: "keeps (data_kept L fs) (tx_exec bot_ok step (\<lambda>w d. ((), d\<lparr>invites := invites d @ [row w]\<rparr>)))"
    if "fl_encrypt L fs 1 ''invites'' i ''balance_id'' (ic_balance_id command) w' = Inr ct"
      "\<And>w. iv_id (row w) = i \<and> iv_balance_ciphertext (row w) = ct" for step row i ct w'
    using holds_encrypted [OF assms(1) that(1), of balance_ok] that(2) balance
    by (intro keeps_exec) (simp add: schema_kept_def bot_data_def invite_data_def)
  show ?thesis
    unfolding create_invite_def Let_def
    by (auto simp: schema_kept_def [where d = d and d' = d] split: sum.split intro!: run_tx_keeps [OF schema_kept_pre(1)] data_base data_parts
        intro: insert)
qed

lemma trim_label_short: "optional (\<lambda>l. length l \<le> 128) (nullif_empty (trim_label name))"
  by (simp add: optional_def nullif_empty_def trim_label_def Let_def)

lemma consume_invite_data:
  assumes "keeps_data L fs L bs"
  shows "data_kept L fs d (snd (consume_invite L fs bot_id user_id chat_id (trim_label name) token w d))"
proof -
  have bound: "bot_data L fs d'" if run: "bind_user L fs bot_id user_id chat_id (trim_label name) token w (d, k) = Inr (x, (d', n))"
    and d: "bot_data L fs d" for x d' k n
  proof (cases "find_inactive bot_id user_id d")
    case None
    from run None obtain v balance ct where
        v: "find (\<lambda>r. iv_token_digest r = sha256 L token) (invites d) = Some v"
          "fl_decrypt L fs ''invites'' (iv_id v) ''balance_id'' (iv_balance_ciphertext v) = Inr balance"
          "fl_encrypt L fs 0 ''inactive_sessions'' x ''balance_id'' balance w = Inr ct"
      and d': "d' = d\<lparr>inactive := inactive d @ [bound_row L fs bot_id user_id chat_id (trim_label name) balance x ct w],
          invites := map (consumed (iv_id v) x (db_now w)) (invites d)\<rparr>"
      by (auto simp: bind_user_def tx_ok bound_row_def consumed_def [abs_def] split: option.splits if_splits)
    have "balance_ok balance"
      using d v(2) find_Some_iff_first [OF v(1)] by (auto simp: bot_data_def list_all_iff invite_data_def holds_def)
    then have "session_data L fs (bound_row L fs bot_id user_id chat_id (trim_label name) balance x ct w)"
      using holds_encrypted [OF assms v(3), of balance_ok] trim_label_short by (simp add: session_data_def bound_row_def)
    moreover have "invite_data L fs (consumed i j t r)" if "invite_data L fs r" for i j t r
      using that by (auto simp: consumed_def invite_data_def)
    ultimately show ?thesis
      using d by (auto simp: d' bot_data_def list_all_iff)
  next
    case (Some s)
    with run d show ?thesis by (simp add: bind_user_def tx_ok)
  qed
  show ?thesis
    unfolding schema_kept_def consume_invite_def
    by (intro impI run_tx_invariant [where P = "bot_data L fs"])
      (auto simp: tx_ok split: option.splits dest: bound)
qed

lemma begin_activation_data:
  assumes "keeps_data L fs L bs" "wallet_ok wallet" "valid_amount amount"
  shows "data_kept L fs d (snd (begin_activation L fs bot_id user_id wallet amount network factory w d))"
proof -
  have insert: "keeps (data_kept L fs) (tx_exec bot_ok step (\<lambda>w d. ((), d\<lparr>attempts := attempts d @ [row w]\<rparr>)))"
    if "fl_encrypt L fs 0 ''activation_attempts'' i ''sender_wallet'' wallet w' = Inr ct"
      "\<And>w. at_id (row w) = i \<and> at_sender_ciphertext (row w) = ct \<and> at_amount (row w) = amount \<and> at_status (row w) = AT_RESERVATION"
    for step row i ct w'
    using holds_encrypted [OF assms(1) that(1), of wallet_ok] that(2) assms(2,3)
    by (intro keeps_exec) (simp add: schema_kept_def bot_data_def attempt_data_def)
  have await: "keeps (data_kept L fs) (tx_exec bot_ok step (\<lambda>w d. ((), d\<lparr>inactive := map (\<lambda>r. if ns_id r = i
      then r\<lparr>ns_dialog_state := st, ns_current_attempt_id := a, ns_version := ns_version r + 1\<rparr> else r) (inactive d)\<rparr>)))" for step i st a
    by (intro keeps_exec) (auto simp: schema_kept_def bot_data_def list_all_iff session_data_def)
  show ?thesis
    unfolding begin_activation_def Let_def
    by (intro run_tx_keeps [OF schema_kept_pre(1)] keeps_after_lift data_base data_parts await)
      (rule insert, assumption, simp)
qed

interpretation stored_data: bot_scoped "data_kept L fs" "data_kept L fs" "keeps_data L fs"
proof unfold_locales
  show "data_kept L fs d d" for d
    by (simp add: schema_kept_def)
  show "data_kept L fs a b \<Longrightarrow> data_kept L fs b c \<Longrightarrow> data_kept L fs c d \<Longrightarrow> data_kept L fs a d" for a b c d
    by (simp add: schema_kept_def)
  have same: "L' = L \<and> bs_store bs = fs \<and> keeps_data L fs L bs" if "keeps_data L fs L' bs" for L' bs
    using that by (auto simp: keeps_data_def)
  show "data_kept L fs d (snd (create_invite L' (bs_store bs) inc command ttl invite_factory w d))"
    if "keeps_data L fs L' bs" "validate_invite_create L' command = Inr ()" for L' bs d inc command ttl invite_factory w
    using same [OF that(1)] that(2) create_invite_data by blast
  show "data_kept L fs d (snd (consume_invite L' (bs_store bs) bot_id user_id chat_id (trim_label name) token w d))"
    if "keeps_data L fs L' bs" for L' bs d bot_id user_id chat_id name token w
    using same [OF that(1)] consume_invite_data by blast
  show "data_kept L fs d (snd (begin_activation L' (bs_store bs) bot_id user_id wallet amount network reserve w d))"
    if "keeps_data L fs L' bs" "validate_wallet wallet = Inr ()"
      "random_minor (bc_activation_amount_min (bs_bot bs)) (bc_activation_amount_max (bs_bot bs)) draws = Some (Inr minor)"
      "format_amount minor (bc_usdt_scale (bs_bot bs)) = Some amount"
    for L' bs wallet draws minor amount d bot_id user_id network reserve w
    using same [OF that(1)] begin_activation_data [of L fs bs wallet amount] drawn_amount [OF that(1,3,4)] that(2)
    by (simp add: wallet_ok_def)
  show "data_kept L fs d (snd (apply_reserved L' (bs_store bs) inc result network w d))"
    if "keeps_data L fs L' bs" for L' bs d inc result network w
    using same [OF that(1)] reserved_body_data [of L fs bs]
    by (auto simp: apply_reserved_def schema_kept_def [where d = d and d' = d] split: option.split intro!: with_attempt_data)
  show "data_kept L fs d (snd (apply_reserve_rejected L' inc refusal w d))" for d L' inc refusal w
    by (auto simp: apply_reserve_rejected_def schema_kept_def [where d = d and d' = d] split: option.split intro!: with_attempt_data data_bodies)
  show "data_kept L fs d (snd (apply_payment L' (bs_store bs) inc payment command_factory w d))"
    if "keeps_data L fs L' bs" for L' bs d inc payment command_factory w
    by (auto simp: apply_payment_def schema_kept_def [where d = d and d' = d] split: option.split intro!: with_attempt_data data_bodies)
  show "data_kept L fs d (snd (complete_activation L' (bs_store bs) inc outcome w d))"
    if "keeps_data L fs L' bs" for L' bs d inc outcome w
    unfolding complete_activation_def
    by (auto simp: schema_kept_def [where d = d and d' = d] split: option.split intro!: with_attempt_data data_bodies)
  show "data_kept L fs d (snd (expire_attempts limit w d))" for d limit w
    unfolding expire_attempts_def Let_def
    by (intro run_tx_keeps [OF schema_kept_pre(1)] keeps_exec)
      (auto simp: schema_kept_def bot_data_def list_all_iff session_data_def attempt_data_def)
  show "data_kept L fs d (snd (begin_update us update_id digest w d))" for d us update_id digest w
    unfolding begin_update_def by (intro run_tx_keeps [OF schema_kept_pre(1)] keeps_exec) (auto intro!: same_data)
  show "data_kept L fs d (snd (finish_update us update_id status w d))" for d us update_id status w
  proof -
    let ?r = "run_tx w (tx_exec bot_ok ''update outcome'' (\<lambda>w d.
           (length (filter (processing_update us update_id) (updates d)),
            d\<lparr>updates := map (\<lambda>r. if processing_update us update_id r
               then r\<lparr>tu_status := status, tu_processed_at := Some (db_now w)\<rparr> else r) (updates d)\<rparr>))) d"
    have "data_kept L fs d (snd ?r)"
      by (intro run_tx_keeps [OF schema_kept_pre(1)] keeps_exec) (auto intro!: same_data)
    then show ?thesis
      unfolding finish_update_def by (cases ?r) (auto split: sum.split)
  qed
  show "data_kept L fs d (snd (publish_batch bot_ok L' pb nats js ws d))" for d L' pb nats js ws
    by (rule msg_le_data) (rule bot_messages.publish_batch_monotone)
qed

lemma empty_data: "invites d = [] \<Longrightarrow> inactive d = [] \<Longrightarrow> attempts d = [] \<Longrightarrow> bot_data L fs d"
  by (simp add: bot_data_def)

lemma runs_keep_data:
  assumes "sound_service L bs" "(bot_step L (Some bs) bs us pb)\<^sup>*\<^sup>* d d'"
  shows "bot_data L (bs_store bs) d \<Longrightarrow> bot_data L (bs_store bs) d'"
  using assms(2)
proof (induction rule: rtranclp_induct)
  case (step y z)
  have "keeps_data L (bs_store bs) L bs"
    using assms(1) by (simp add: keeps_data_def)
  from stored_data.step [OF this _ step(2)] this have "data_kept L (bs_store bs) y z"
    by simp
  with step show ?case by (simp add: schema_kept_def)
qed

end
