(* ===== verification/Local_Tools.thy ===== *)
theory Local_Tools
  imports Service_Runtime
begin

text \<open>
  The programs for local use: the stand-in for the top-up service (cmd/rw-fake-topup, and the one inside
  cmd/rw-demo-active-sessions) and the issuer of invites (cmd/rw-create-invite). A handler gives the
  signed messages it publishes; a message it cannot accept or sign is dropped. The payment of
  \<open>handle_reserve\<close> is published two seconds later, at the third clock reading of its world.
\<close>

definition local_receiver :: string where
  "local_receiver = ''0x9999999999999999999999999999999999999999''"

definition local_reservation_id :: "lib \<Rightarrow> uuid \<Rightarrow> string" where
  "local_reservation_id L operation_id = ''local-reservation-'' @ uuid_string L operation_id"

definition local_reserved :: "lib \<Rightarrow> activation_reserve \<Rightarrow> uuid \<Rightarrow> instant \<Rightarrow> activation_reserved" where
  "local_reserved L request operation_id now =
     \<lparr>as_operation_id = ar_operation_id request, as_external_reservation_id = local_reservation_id L operation_id,
      as_receiver_wallet = local_receiver, as_amount = ar_verification_amount request,
      as_valid_from = format_rfc3339nano now, as_expires_at = format_rfc3339nano (now + 10 * minute)\<rparr>"

definition local_payment :: "lib \<Rightarrow> activation_reserve \<Rightarrow> uuid \<Rightarrow> instant \<Rightarrow> payment_confirmed" where
  "local_payment L request operation_id observed =
     \<lparr>pc_operation_id = ar_operation_id request, pc_external_reservation_id = local_reservation_id L operation_id,
      pc_transaction_id = ''local-transaction-'' @ uuid_string L operation_id,
      pc_sender_wallet = ar_sender_wallet request, pc_receiver_wallet = local_receiver,
      pc_amount = ar_verification_amount request, pc_observed_at = format_rfc3339nano observed\<rparr>"

definition handle_reserve :: "lib \<Rightarrow> codec \<Rightarrow> string \<Rightarrow> bytes \<Rightarrow> (outbox_message \<Rightarrow> bool) \<Rightarrow> world \<Rightarrow> outbox_message list" where
  "handle_reserve L c subj data publish_ok w =
     (case codec_verify L c w data subj ActivationReserveType [''rw-bot''] of Inl _ \<Rightarrow> [] | Inr v \<Rightarrow>
      case decode_activation_reserve (vf_payload v) of Inl _ \<Rightarrow> [] | Inr request \<Rightarrow>
      case uuid_parse L (ar_operation_id request) of None \<Rightarrow> [] | Some operation_id \<Rightarrow>
      let now = go_now w 1 in
      case codec_sign L c w 2 ActivationReservedSubject ActivationReservedType operation_id (vf_id v)
             (encode_activation_reserved (local_reserved L request operation_id now)) (now + 15 * minute) of
        Inl _ \<Rightarrow> []
      | Inr reserved \<Rightarrow>
          if \<not> publish_ok reserved then []
          else
            let observed = go_now w 3 in
            case codec_sign L c w 4 PaymentConfirmedSubject PaymentConfirmedType operation_id (om_message_id reserved)
                   (encode_payment_confirmed (local_payment L request operation_id observed)) (observed + 15 * minute) of
              Inl _ \<Rightarrow> [reserved]
            | Inr payment \<Rightarrow> [reserved, payment])"

definition topup_answer :: "topup_verify \<Rightarrow> instant \<Rightarrow> topup_verified" where
  "topup_answer request finalized =
     \<lparr>td_operation_id = tv_operation_id request, td_transaction_id = tv_transaction_id request,
      td_external_reservation_id = tv_external_reservation_id request, td_sender_wallet = tv_sender_wallet request,
      td_receiver_wallet = tv_receiver_wallet request, td_amount = tv_amount request, td_asset = tv_asset request,
      td_network = tv_network request, td_finalized_at = format_rfc3339nano finalized\<rparr>"

definition handle_verify :: "lib \<Rightarrow> codec \<Rightarrow> string \<Rightarrow> bytes \<Rightarrow> world \<Rightarrow> outbox_message list" where
  "handle_verify L c subj data w =
     (case codec_verify L c w data subj TopupVerifyType [''rw-active-sessions''] of Inl _ \<Rightarrow> [] | Inr v \<Rightarrow>
      case decode_topup_verify (vf_payload v) of Inl _ \<Rightarrow> [] | Inr request \<Rightarrow>
      case uuid_parse L (tv_operation_id request) of None \<Rightarrow> [] | Some operation_id \<Rightarrow>
      case codec_sign L c w 2 TopupVerifiedSubject TopupVerifiedType operation_id (vf_id v)
             (encode_topup_verified (topup_answer request (go_now w 1))) (go_now w 1 + 10 * minute) of
        Inl _ \<Rightarrow> []
      | Inr answer \<Rightarrow> [answer])"

text \<open>
  The one of the demonstration remembers its answer per operation and sends it again; a transaction
  called \<open>late-\<close> is finalised an hour later. Its state maps the operation to the encoded answer.
\<close>

definition fake_topup ::
  "lib \<Rightarrow> codec \<Rightarrow> codec \<Rightarrow> string \<Rightarrow> bytes \<Rightarrow> world \<Rightarrow> (string \<rightharpoonup> bytes) \<Rightarrow> bytes option \<times> (string \<rightharpoonup> bytes)" where
  "fake_topup L verify_codec sign_codec subj data w responses =
     (case codec_verify L verify_codec w data subj TopupVerifyType [''rw-active-sessions''] of Inl _ \<Rightarrow> (None, responses) | Inr v \<Rightarrow>
      case decode_topup_verify (vf_payload v) of Inl _ \<Rightarrow> (None, responses) | Inr request \<Rightarrow>
      case responses (tv_operation_id request) of Some response \<Rightarrow> (Some response, responses) | None \<Rightarrow>
      case uuid_parse L (tv_operation_id request) of None \<Rightarrow> (None, responses) | Some operation_id \<Rightarrow>
      let finalized = go_now w 1 + (if starts_with ''late-'' (tv_transaction_id request) then hour else 0) in
      case codec_sign L sign_codec w 3 TopupVerifiedSubject TopupVerifiedType operation_id (vf_id v)
             (encode_topup_verified (topup_answer request finalized)) (go_now w 2 + 10 * minute) of
        Inl _ \<Rightarrow> (None, responses)
      | Inr signed_answer \<Rightarrow>
          (Some (om_envelope signed_answer), responses(tv_operation_id request \<mapsto> om_envelope signed_answer)))"

section \<open>The issuer of invites\<close>

definition issue_invite_command :: "lib \<Rightarrow> codec \<Rightarrow> string \<Rightarrow> world \<Rightarrow> error + uuid \<times> outbox_message" where
  "issue_invite_command L c balance_id w =
     (case new_v7 w 0 of Inl e \<Rightarrow> Inl e | Inr operation_id \<Rightarrow>
      case codec_sign L c w 2 InviteCreateSubject InviteCreateType operation_id nil_uuid
             (encode_invite_create \<lparr>ic_operation_id = uuid_string L operation_id, ic_balance_id = balance_id,
                ic_requested_ttl_seconds = 0\<rparr>) (go_now w 1 + 5 * minute) of
        Inl e \<Rightarrow> Inl e
      | Inr command \<Rightarrow> Inr (operation_id, command))"

definition invite_answer :: "lib \<Rightarrow> codec \<Rightarrow> uuid \<Rightarrow> string \<Rightarrow> bytes \<Rightarrow> world \<Rightarrow> invite_created option" where
  "invite_answer L c operation_id subj data w =
     (case codec_verify L c w data subj InviteCreatedType [''rw-bot''] of Inl _ \<Rightarrow> None | Inr v \<Rightarrow>
      case decode_invite_created (vf_payload v) of Inl _ \<Rightarrow> None | Inr payload \<Rightarrow>
      if id_operation_id payload = uuid_string L operation_id then Some payload else None)"

section \<open>The demonstration of the sessions service\<close>

record demo_result =
  dr_message_id :: uuid
  dr_operation :: uuid
  dr_status :: string
  dr_code :: string

definition demo_result_of :: "lib \<Rightarrow> codec \<Rightarrow> string \<Rightarrow> bytes \<Rightarrow> world \<Rightarrow> demo_result option" where
  "demo_result_of L c subj data w =
     (let mtype = (if subj = ActivationRejected then ActivationRejectedType else ActivationActivatedType) in
      case codec_verify L c w data subj mtype [''rw-active-sessions''] of Inl _ \<Rightarrow> None | Inr v \<Rightarrow>
      if subj = ActivationActivated then
        (case decode_activated (vf_payload v) of Inl _ \<Rightarrow> None
         | Inr p \<Rightarrow> Some \<lparr>dr_message_id = vf_id v, dr_operation = parse_or_nil L (ac_operation_id p),
                       dr_status = ac_status p, dr_code = ''''\<rparr>)
      else
        (case decode_rejection (vf_payload v) of Inl _ \<Rightarrow> None
         | Inr p \<Rightarrow> Some \<lparr>dr_message_id = vf_id v, dr_operation = parse_or_nil L (rj_operation_id p),
                       dr_status = ''REJECTED'', dr_code = rj_code p\<rparr>))"

definition wait_result :: "uuid \<Rightarrow> demo_result list \<Rightarrow> error + demo_result" where
  "wait_result operation_id arrived =
     (case find (\<lambda>v. dr_operation v = operation_id) arrived of
        None \<Rightarrow> Inl (Errorf ''timed out waiting for activation result'') | Some v \<Rightarrow> Inr v)"

definition demo_activation :: "lib \<Rightarrow> string \<Rightarrow> string \<Rightarrow> int \<Rightarrow> string \<Rightarrow> world \<Rightarrow> activation_verify" where
  "demo_activation L balance_id wallet user_id transaction_id w =
     \<lparr>av_operation_id = uuid_string L (case new_v7 w 0 of Inl _ \<Rightarrow> nil_uuid | Inr u \<Rightarrow> u),
      av_session_id = uuid_string L (case new_v7 w 1 of Inl _ \<Rightarrow> nil_uuid | Inr u \<Rightarrow> u),
      av_balance_id = balance_id, av_bot_id = 100001, av_telegram_user_id = user_id, av_telegram_chat_id = user_id,
      av_sender_wallet = wallet, av_receiver_wallet = local_receiver, av_amount = ''0.001001'', av_asset = ''USDT'',
      av_network = ''fixture-net'', av_transaction_id = transaction_id,
      av_external_reservation_id = ''reservation-'' @ transaction_id,
      av_offer_valid_from = format_rfc3339nano (go_now w 0 - minute),
      av_offer_expires_at = format_rfc3339nano (go_now w 1 + 30 * minute), av_display_label = ''Demo Telegram''\<rparr>"

end
