(* ===== verification/Service_Contracts.thy ===== *)
theory Service_Contracts
  imports Bot_Data Bot_Race Local_Tools
begin

text \<open>
  The services fit together: what the bot sends after its own checks, the sessions service accepts, and
  what the local stand-in of the top-up service answers, both accept.
\<close>

section \<open>The verification command of the bot\<close>

text \<open>The payload that \<open>verify_factory_of\<close> signs.\<close>

definition verify_payload :: "lib \<Rightarrow> string \<Rightarrow> verification_draft \<Rightarrow> activation_verify" where
  "verify_payload L network draft =
     \<lparr>av_operation_id = uuid_string L (vd_operation_id draft), av_session_id = uuid_string L (vd_session_id draft),
      av_balance_id = vd_balance_id draft, av_bot_id = vd_bot_id draft,
      av_telegram_user_id = vd_telegram_user_id draft, av_telegram_chat_id = vd_telegram_chat_id draft,
      av_sender_wallet = vd_sender_wallet draft, av_receiver_wallet = vd_receiver_wallet draft,
      av_amount = vd_amount draft, av_asset = ''USDT'', av_network = network,
      av_transaction_id = vd_transaction_id draft, av_external_reservation_id = vd_external_reservation_id draft,
      av_offer_valid_from = format_rfc3339nano (vd_offer_valid_from draft),
      av_offer_expires_at = format_rfc3339nano (vd_offer_expires_at draft), av_display_label = vd_display_label draft\<rparr>"

lemma verify_factory_payload:
  "verify_factory_of L bs draft causation w =
     codec_sign L (bs_codec bs) w 3 ActivationVerifySubject ActivationVerifyType (vd_operation_id draft) causation
       (encode_activation_verify (verify_payload L (bc_usdt_network (bs_bot bs)) draft)) (vd_offer_expires_at draft + 30 * minute)"
  by (simp add: verify_factory_of_def verify_payload_def)

lemma valid_wallet_of: "wallet_ok s \<Longrightarrow> valid_wallet s"
  by (auto simp: wallet_ok_def validate_wallet_def valid_wallet_def split: if_splits)

text \<open>What is true of the draft that \<open>ApplyPayment\<close> hands to the factory.\<close>

definition draft_data :: "verification_draft \<Rightarrow> bool" where
  "draft_data draft \<longleftrightarrow>
     balance_ok (vd_balance_id draft) \<and> 0 < vd_bot_id draft \<and> 0 < vd_telegram_user_id draft \<and> 0 < vd_telegram_chat_id draft \<and>
     length (vd_display_label draft) \<le> 128 \<and> utf8_valid (vd_display_label draft) \<and>
     wallet_ok (vd_sender_wallet draft) \<and> wallet_ok (vd_receiver_wallet draft) \<and> valid_amount (vd_amount draft) \<and>
     external_id (vd_transaction_id draft) \<and> external_id (vd_external_reservation_id draft) \<and>
     vd_offer_valid_from draft + minute \<le> vd_offer_expires_at draft \<and> vd_offer_expires_at draft \<le> vd_offer_valid_from draft + hour"

lemma draft_accepted:
  assumes "uuid_laws L" "draft_data draft" "is_v7 L (vd_operation_id draft)" "is_v7 L (vd_session_id draft)"
    and "rfc3339_years (vd_offer_valid_from draft)" "rfc3339_years (vd_offer_expires_at draft)"
    and "vd_offer_valid_from draft \<le> now + 2 * minute" "now < vd_offer_expires_at draft"
  shows "validate_activation L (verify_payload L network draft) network now = Inr ()"
proof -
  let ?vf = "vd_offer_valid_from draft" and ?ex = "vd_offer_expires_at draft"
  note c = assms(2) [unfolded draft_data_def]
  have v7: "uuid_v7 L (uuid_string L u)" if "is_v7 L u" for u
    using assms(1) that by (simp add: is_v7_def uuid_string_v7)
  have parsed: "parse_instant (format_rfc3339nano ?vf) = Some ?vf" "parse_instant (format_rfc3339nano ?ex) = Some ?ex"
    using assms(5,6) by (simp_all add: parse_instant_format rfc3339_years_def)
  have "offer_window now ?vf ?ex"
    using c assms(7,8) by (simp add: offer_window_def)
  then have check: "\<not> (?vf > now + 2 * minute \<or> \<not> ?ex > now \<or> \<not> ?ex > ?vf \<or> time_sub ?ex ?vf < minute \<or> time_sub ?ex ?vf > hour)"
    using offer_window_check [where now = now and valid_from = ?vf and expires = ?ex] by blast
  have "?ex \<le> now + 2 * hour"
    using c assms(7) by (simp add: duration_defs)
  then show ?thesis
    using c v7 assms(3,4) parsed check valid_wallet_of
    by (auto simp: validate_activation_def verify_payload_def valid_external_id_def external_id_def balance_ok_def not_less not_le)
qed

definition made_of :: "attempt_row \<Rightarrow> verification_draft \<Rightarrow> bool" where
  "made_of r draft \<longleftrightarrow>
     vd_operation_id draft = at_operation_id r \<and> vd_session_id draft = at_session_id r \<and>
     at_offer_valid_from r = Some (vd_offer_valid_from draft) \<and> at_offer_expires_at r = Some (vd_offer_expires_at draft)"

lemma payment_body_draft:
  assumes run: "payment_body L fs inc payment operation_id factory attempt w s = Inr (x, s')"
    and ok: "bot_ok (fst s)" "bot_data L fs (fst s)" "attempt \<in> set (attempts (fst s))" "at_operation_id attempt = operation_id"
    and row: "r \<in> set (outbox (fst s'))" "ob_message_id r \<notin> outbox_ids (fst s)"
  obtains draft item sealed where "factory draft (im_message_id inc) w = Inr item" "draft_data draft" "made_of attempt draft"
    and "seal_outbox L (fs_keyring fs) w 8 Bot_Store.bot_service (item\<lparr>om_kind := ''COMMAND''\<rparr>) = Inr sealed"
      "r = new_outbox_row sealed (db_now w)"
proof -
  have old: "r \<notin> set (outbox (fst s))"
    using row(2) by (auto simp: outbox_ids_def)
  show thesis
  proof (cases "at_status attempt = AT_PAYMENT")
    case False
    with run row old show thesis
      by (auto simp: payment_body_def reject_message_def reject_inbox_def update_inbox_def tx_ok split: option.splits)
  next
    case True
    then obtain c reservation vf ex where offer: "at_receiver_ciphertext attempt = Some c"
        "holds L fs ''activation_attempts'' (at_id attempt) ''receiver_wallet'' wallet_ok c"
        "at_external_reservation_id attempt = Some reservation" "external_id reservation"
        "at_offer_valid_from attempt = Some vf" "at_offer_expires_at attempt = Some ex" "vf + minute \<le> ex" "ex \<le> vf + hour"
      using ok(2,3) by (auto simp: bot_data_def list_all_iff attempt_data_def offer_data_def)
    define draft_of where "draft_of session balance sender receiver =
        \<lparr>vd_operation_id = operation_id, vd_session_id = at_session_id attempt, vd_balance_id = balance,
         vd_bot_id = ns_bot_id session, vd_telegram_user_id = ns_user_id session, vd_telegram_chat_id = ns_chat_id session,
         vd_display_label = (case ns_display_label session of None \<Rightarrow> '''' | Some l \<Rightarrow> l),
         vd_sender_wallet = sender, vd_receiver_wallet = receiver, vd_amount = at_amount attempt,
         vd_transaction_id = pc_transaction_id payment, vd_external_reservation_id = reservation,
         vd_offer_valid_from = vf, vd_offer_expires_at = ex\<rparr>" for session :: inactive_row and balance sender receiver
    obtain session balance sender receiver item s1 s2 where
        session: "find_session (at_session_id attempt) (fst s) = Some session"
          "fl_decrypt L fs ''inactive_sessions'' (at_session_id attempt) ''balance_id'' (ns_balance_ciphertext session) = Inr balance"
      and wallets: "fl_decrypt L fs ''activation_attempts'' (at_id attempt) ''sender_wallet'' (at_sender_ciphertext attempt) = Inr sender"
          "fl_decrypt L fs ''activation_attempts'' (at_id attempt) ''receiver_wallet'' c = Inr receiver"
      and paid: "external_id (pc_transaction_id payment)"
      and made: "factory (draft_of session balance sender receiver) (im_message_id inc) w = Inr item"
      and sent: "fl_insert_outbox L fs 8 (item\<lparr>om_kind := ''COMMAND''\<rparr>) w s1 = Inr ((), s2)" "fst s1 = fst s" "outbox (fst s') = outbox (fst s2)"
      using run True offer unfolding draft_of_def
      by (auto simp: payment_body_def session_row_of_def update_attempt_def set_dialog_state_def acknowledge_inbox_def update_inbox_def
          validate_payment_def Let_def tx_ok split: option.splits if_splits)
    obtain sealed where sealed: "seal_outbox L (fs_keyring fs) w 8 Bot_Store.bot_service (item\<lparr>om_kind := ''COMMAND''\<rparr>) = Inr sealed"
        "r = new_outbox_row sealed (db_now w)"
      using sent row(1) old by (auto simp: fl_insert_outbox_def insert_outbox_def tx_ok split: if_splits)
    have "session \<in> set (inactive (fst s))" "ns_id session = at_session_id attempt"
      using session(1) by (auto simp: find_session_def dest: find_Some_iff_first)
    then have s: "session_data L fs session" "inactive_row_ok session"
      using ok(1,2) by (auto simp: bot_data_def bot_ok_def list_all_iff)
    have "attempt_data L fs attempt"
      using ok(2,3) by (auto simp: bot_data_def list_all_iff)
    then have "draft_data (draft_of session balance sender receiver)"
      using s session(2) wallets offer paid \<open>ns_id session = at_session_id attempt\<close>
      by (auto simp: draft_data_def draft_of_def session_data_def inactive_row_ok_def attempt_data_def holds_def label_ok_def pg_text_def
          bigint_positive_def optional_def utf8_valid_visible split: option.splits)
    moreover have "made_of attempt (draft_of session balance sender receiver)"
      using offer ok(4) by (simp add: made_of_def draft_of_def)
    ultimately show thesis
      using made sealed by (intro that)
  qed
qed

lemma payment_sends_draft:
  assumes run: "run_tx w (with_attempt L inc operation_id (payment_body L fs inc payment operation_id factory)) d = (res, d')"
    and ok: "bot_ok d" "bot_data L fs d"
    and row: "r \<in> set (outbox d')" "ob_message_id r \<notin> outbox_ids d"
  obtains a draft item sealed where "a \<in> set (attempts d)" "made_of a draft" "factory draft (im_message_id inc) w = Inr item" "draft_data draft"
    and "seal_outbox L (fs_keyring fs) w 8 Bot_Store.bot_service (item\<lparr>om_kind := ''COMMAND''\<rparr>) = Inr sealed"
      "r = new_outbox_row sealed (db_now w)"
proof -
  have changed: "r \<notin> set (outbox d)"
    using row(2) by (auto simp: outbox_ids_def)
  then obtain x n where body: "with_attempt L inc operation_id (payment_body L fs inc payment operation_id factory) w (d, 0) = Inr (x, (d', n))"
    using run run_tx_cases [of w "with_attempt L inc operation_id (payment_body L fs inc payment operation_id factory)" d] row(1) by auto
  from body obtain reg s1 where reg: "fl_register L inc w (d, 0) = Inr (reg, s1)"
    by (auto simp: with_attempt_def tx_ok)
  have "keeps (schema_kept bot_ok) (fl_register L inc)"
    unfolding fl_register_def register_inbox_def by (intro schema_keeps)
  from keepsD [OF this reg] have ok1: "bot_ok (fst s1)"
    using ok(1) by (simp add: schema_kept_def)
  have same: "attempts (fst s1) = attempts d" "inactive (fst s1) = inactive d" "invites (fst s1) = invites d" "outbox (fst s1) = outbox d"
    using reg by (auto simp: fl_register_def register_inbox_def tx_ok split: if_splits option.splits)
  then have ok2: "bot_data L fs (fst s1)"
    using ok(2) by (simp add: bot_data_def)
  show thesis
  proof (cases "ir_accepted reg")
    case False
    with body reg same changed row(1) show thesis
      by (auto simp: with_attempt_def tx_ok)
  next
    case True
    then obtain attempt n' where a: "find_attempt operation_id (fst s1) = Some attempt"
        "payment_body L fs inc payment operation_id factory attempt w (fst s1, n') = Inr (x, (d', n))"
      using body reg by (auto simp: with_attempt_def tx_ok split: option.splits)
    have "attempt \<in> set (attempts (fst s1))" "at_operation_id attempt = operation_id"
      using a(1) by (auto simp: find_attempt_def dest: find_Some_iff_first)
    with payment_body_draft [OF a(2)] ok1 ok2 row same(1,4) that show thesis
      by (simp add: outbox_ids_def) metis
  qed
qed

text \<open>
  C21. The services agree: let the bot run from a database whose encrypted columns hold checked data, as those of an empty
  one do, and let it handle a confirmed payment. A message that this puts into the outbox is the command made of a
  draft of an attempt, and the sessions service on the same network accepts the command, when the identifiers of the operation and of the
  session are of version 7, the times of the offer have four-digit years, and by the clock of the sessions
  service the offer has begun, up to two minutes, and has not expired.
\<close>

theorem verify_command_accepted:
  assumes "uuid_laws L" "sound_service L bs" "(bot_step L (Some bs) bs us pb)\<^sup>*\<^sup>* d0 d"
    and "bot_ok d0" "bot_data L (bs_store bs) d0"
    and "handle_payment_confirmed L bs subj data w d = (result, texts, d')"
    and "r \<in> set (outbox d')" "ob_message_id r \<notin> outbox_ids d"
  shows "\<exists>a draft causation item sealed. a \<in> set (attempts d) \<and> made_of a draft \<and>
      codec_sign L (bs_codec bs) w 3 ActivationVerifySubject ActivationVerifyType (vd_operation_id draft) causation
        (encode_activation_verify (verify_payload L (bc_usdt_network (bs_bot bs)) draft)) (vd_offer_expires_at draft + 30 * minute) = Inr item \<and>
      seal_outbox L (fs_keyring (bs_store bs)) w 8 Bot_Store.bot_service (item\<lparr>om_kind := ''COMMAND''\<rparr>) = Inr sealed \<and>
      r = new_outbox_row sealed (db_now w) \<and>
      (\<forall>now. is_v7 L (vd_operation_id draft) \<and> is_v7 L (vd_session_id draft) \<and>
         rfc3339_years (vd_offer_valid_from draft) \<and> rfc3339_years (vd_offer_expires_at draft) \<and>
         vd_offer_valid_from draft \<le> now + 2 * minute \<and> now < vd_offer_expires_at draft \<longrightarrow>
         validate_activation L (verify_payload L (bc_usdt_network (bs_bot bs)) draft) (bc_usdt_network (bs_bot bs)) now = Inr ())"
proof -
  have ok: "bot_ok d" "bot_data L (bs_store bs) d"
    using bot_schema.steps [OF assms(3)] assms(4) runs_keep_data [OF assms(2,3,5)] by (simp_all add: schema_kept_def)
  have "r \<notin> set (outbox d)"
    using assms(8) by (auto simp: outbox_ids_def)
  then have "d' \<noteq> d"
    using assms(7) by blast
  then obtain v payment operation_id res where
      run: "run_tx w (with_attempt L (incoming_message_of v subj) operation_id
        (payment_body L (bs_store bs) (incoming_message_of v subj) payment operation_id (verify_factory_of L bs))) d = (res, d')"
    using assms(6) by (auto simp: handle_payment_confirmed_def apply_payment_def notify_def split: sum.splits option.splits prod.splits)
  obtain a draft item sealed where "a \<in> set (attempts d)" "made_of a draft" "verify_factory_of L bs draft (im_message_id (incoming_message_of v subj)) w = Inr item" "draft_data draft"
      "seal_outbox L (fs_keyring (bs_store bs)) w 8 Bot_Store.bot_service (item\<lparr>om_kind := ''COMMAND''\<rparr>) = Inr sealed"
      "r = new_outbox_row sealed (db_now w)"
    by (rule payment_sends_draft [OF run ok assms(7,8)])
  with draft_accepted [OF assms(1)] show ?thesis
    unfolding verify_factory_payload by blast
qed

section \<open>The local stand-in of the top-up service\<close>

lemma local_names: "external_id (local_reservation_id L u)" if "list_all visible (uuid_string L u)" "length (uuid_string L u) = 36"
proof -
  have "list_all visible ''local-reservation-''" by (simp add: visible_def byte_def)
  with that have "list_all visible (local_reservation_id L u)" by (simp add: local_reservation_id_def)
  then show ?thesis using that(2) by (simp add: external_id_def trim_space_visible) (simp add: local_reservation_id_def)
qed

text \<open>
  C26. The local stand-in of the top-up service keeps the contract of the real one: its reservation passes the check of the bot
  for the command it answers, its payment that of the bot for that reservation, and its answer to a
  verification reports the facts that the sessions service asked about.
\<close>

theorem local_topup_conforms:
  assumes "uuid_laws L" "uuid_parse L (ar_operation_id request) = Some u" "uuid_string L u = ar_operation_id request"
    and "list_all visible (uuid_string L u)"
    and "rfc3339_years now" "rfc3339_years (now + 10 * minute)" "rfc3339_years observed" "observed \<le> now + 10 * minute"
  shows "validate_reserved (local_reserved L request u now) (ar_operation_id request) (ar_verification_amount request) now = Inr () \<and>
    validate_payment (local_payment L request u observed)
      \<lparr>pc_operation_id = ar_operation_id request, pc_external_reservation_id = as_external_reservation_id (local_reserved L request u now),
       pc_transaction_id = '''', pc_sender_wallet = ar_sender_wallet request, pc_receiver_wallet = as_receiver_wallet (local_reserved L request u now),
       pc_amount = ar_verification_amount request, pc_observed_at = ''''\<rparr> (now + 10 * minute) observed = Inr () \<and>
    same_facts (topup_answer (topup_payload command) finalized) (topup_payload command) \<and>
    validate_topup_result (topup_answer (topup_payload command) now) (topup_payload command) = Inr ()"
proof (intro conjI)
  have length: "length (uuid_string L u) = 36"
    using assms(1,2) by (auto simp: uuid_laws_def)
  have times: "parse_instant (format_rfc3339nano now) = Some now" "parse_instant (format_rfc3339nano (now + 10 * minute)) = Some (now + 10 * minute)"
      "parse_instant (format_rfc3339nano observed) = Some observed"
    using assms(5-7) by (simp_all add: parse_instant_format rfc3339_years_def)
  have receiver: "validate_wallet local_receiver = Inr ()"
    by (simp add: validate_wallet_def local_receiver_def trim_space_visible visible_def byte_def)
  have window: "offer_window now now (now + 10 * minute)"
    by (simp add: offer_window_def duration_defs)
  show "validate_reserved (local_reserved L request u now) (ar_operation_id request) (ar_verification_amount request) now = Inr ()"
    unfolding validate_reserved_ok using times receiver window local_names [OF assms(4) length] by (simp add: local_reserved_def)
  have "list_all visible (''local-transaction-'' @ uuid_string L u)"
    using assms(4) by (simp add: visible_def byte_def)
  then have "external_id (''local-transaction-'' @ uuid_string L u)"
    using length by (simp add: external_id_def trim_space_visible)
  then show "validate_payment (local_payment L request u observed)
      \<lparr>pc_operation_id = ar_operation_id request, pc_external_reservation_id = as_external_reservation_id (local_reserved L request u now),
       pc_transaction_id = '''', pc_sender_wallet = ar_sender_wallet request, pc_receiver_wallet = as_receiver_wallet (local_reserved L request u now),
       pc_amount = ar_verification_amount request, pc_observed_at = ''''\<rparr> (now + 10 * minute) observed = Inr ()"
    using times assms(8) by (simp add: validate_payment_def local_payment_def local_reserved_def duration_defs)
  show "same_facts (topup_answer (topup_payload command) finalized) (topup_payload command)"
    by (simp add: same_facts_def topup_answer_def)
  show "validate_topup_result (topup_answer (topup_payload command) now) (topup_payload command) = Inr ()"
    using times by (simp add: validate_topup_result_def topup_answer_def)
qed

section \<open>The instances\<close>

definition sample_request :: activation_reserve where
  "sample_request =
     \<lparr>ar_operation_id = sample_id 100, ar_balance_id = ''balance'', ar_session_id = sample_id 101,
      ar_sender_wallet = ''0x1111111111111111'', ar_verification_amount = ''0.000150'', ar_asset = ''USDT'', ar_network = ''tron''\<rparr>"

definition sample_reservation :: activation_reserved where
  "sample_reservation = local_reserved sample_lib sample_request (sample_uuid 100) 1700000000000000000"

definition sample_confirmed :: payment_confirmed where
  "sample_confirmed = local_payment sample_lib sample_request (sample_uuid 100) 1700000000000000000"

lemma sample_string_facts:
  "list_all visible (uuid_string sample_lib (sample_uuid n))" "length (uuid_string sample_lib (sample_uuid n)) = 36"
  "uuid_string sample_lib (sample_uuid 100) = sample_id 100" "uuid_parse sample_lib (sample_id 100) = Some (sample_uuid 100)"
  "rfc3339_years (1700000000000000000 + 10 * minute)"
proof -
  have id: "uuid_string sample_lib (sample_uuid n) = sample_id n" for n
    by (simp add: sample_id_def sample_lib_def)
  show "list_all visible (uuid_string sample_lib (sample_uuid n))" "length (uuid_string sample_lib (sample_uuid n)) = 36"
    using sample_id_visible [of n] by (simp_all add: id) (simp add: sample_id_def length_sample_string)
  show "uuid_string sample_lib (sample_uuid 100) = sample_id 100"
    by (rule id)
  show "rfc3339_years (1700000000000000000 + 10 * minute)"
    using sample_years(2) by (simp add: duration_defs)
qed simp

lemma local_topup_conforms_witness:
  "validate_reserved sample_reservation (sample_id 100) ''0.000150'' 1700000000000000000 = Inr () \<and>
   validate_topup_result (topup_answer (topup_payload sample_command) 1700000000000000000) (topup_payload sample_command) = Inr ()"
proof -
  have f: "ar_operation_id sample_request = sample_id 100" "ar_verification_amount sample_request = ''0.000150''"
    by (simp_all add: sample_request_def)
  have p: "uuid_parse sample_lib (ar_operation_id sample_request) = Some (sample_uuid 100)"
    "uuid_string sample_lib (sample_uuid 100) = ar_operation_id sample_request"
    unfolding f by (rule sample_string_facts)+
  have "(1700000000000000000 :: int) \<le> 1700000000000000000 + 10 * minute"
    by (simp add: duration_defs)
  note conforms = local_topup_conforms [OF sample_uuid_laws p sample_string_facts(1) sample_years(1) sample_string_facts(5) sample_years(1) this,
      of sample_command 0, unfolded f]
  show ?thesis
    unfolding sample_reservation_def using conforms by blast
qed

text \<open>A bot with one user, who waits for the payment of a reservation that the local stand-in made.\<close>

definition stored :: "string \<Rightarrow> uuid \<Rightarrow> string \<Rightarrow> string \<Rightarrow> bytes" where
  "stored table row_id column x =
     (case fl_encrypt sample_lib (bs_store sample_bot) 0 table row_id column x sample_world of Inl e \<Rightarrow> [] | Inr c \<Rightarrow> c)"

definition waiting_session :: inactive_row where
  "waiting_session =
     \<lparr>ns_id = sample_uuid 101, ns_bot_id = 1, ns_user_id = 2, ns_chat_id = 3,
      ns_balance_ciphertext = stored ''inactive_sessions'' (sample_uuid 101) ''balance_id'' ''balance'',
      ns_balance_fingerprint = fl_fingerprint sample_lib (bs_store sample_bot) ''balance'', ns_display_label = Some ''label'',
      ns_dialog_state = AWAITING_PAYMENT, ns_current_attempt_id = Some (sample_uuid 2), ns_expires_at = 1700086400000000000,
      ns_version = 3\<rparr>"

definition waiting_attempt :: attempt_row where
  "waiting_attempt =
     \<lparr>at_id = sample_uuid 2, at_operation_id = sample_uuid 100, at_session_id = sample_uuid 101, at_reserve_message_id = sample_uuid 4,
      at_verify_message_id = None,
      at_sender_ciphertext = stored ''activation_attempts'' (sample_uuid 2) ''sender_wallet'' ''0x1111111111111111'',
      at_sender_fingerprint = replicate 32 CHR ''s'',
      at_receiver_ciphertext = Some (stored ''activation_attempts'' (sample_uuid 2) ''receiver_wallet'' local_receiver),
      at_receiver_fingerprint = None, at_amount = ''0.000150'', at_asset = ''USDT'', at_network = ''tron'',
      at_external_reservation_id = Some (local_reservation_id sample_lib (sample_uuid 100)), at_transaction_id = None,
      at_offer_valid_from = Some 1700000000000000000, at_offer_expires_at = Some 1700000600000000000, at_status = AT_PAYMENT,
      at_failure_code = None, at_created_at = 1700000000000000000, at_updated_at = 1700000000000000000, at_completed_at = None,
      at_version = 2\<rparr>"

definition waiting_db :: bot_db where
  "waiting_db =
     \<lparr>inbox = [],
      outbox = [\<lparr>ob_message_id = sample_uuid 4, ob_subject = ActivationReserveSubject, ob_envelope = ''e'', ob_kind = ''COMMAND'',
        ob_status = PENDING, ob_attempts = 0, ob_next_attempt_at = 1700000000000000000, ob_lease_until = None,
        ob_last_error_code = None, ob_created_at = 1700000000000000000, ob_published_at = None, ob_confirmed_at = None,
        ob_expires_at = 1700086400000000000\<rparr>],
      invites = [], inactive = [waiting_session], attempts = [waiting_attempt], projections = [], updates = []\<rparr>"

definition confirmed_bytes :: bytes where
  "confirmed_bytes = sample_bytes sample_topup_codec 20 PaymentConfirmedSubject PaymentConfirmedType (encode_payment_confirmed sample_confirmed)"

lemma stored_reads:
  "fl_decrypt sample_lib (bs_store sample_bot) table row_id column (stored table row_id column x) = Inr x"
proof -
  have k: "keyring_ok (fs_keyring (bs_store sample_bot))" "utf8_valid (kr_active (fs_keyring (bs_store sample_bot)))"
    using sample_ready(3)
    by (simp_all add: store_ready_def sample_service_def sample_bot_def sample_keyring_def utf8_valid_visible visible_def byte_def)
  obtain c where c: "fl_encrypt sample_lib (bs_store sample_bot) 0 table row_id column x sample_world = Inr c"
    using fl_encrypt_total [OF sample_bot_ready(1)] by blast
  with fl_decrypt_encrypt [OF sample_aead_laws k c] show ?thesis by (simp add: stored_def)
qed

lemma waiting_wallets: "wallet_ok local_receiver" "wallet_ok ''0x1111111111111111''"
  by (simp_all add: wallet_ok_def validate_wallet_def local_receiver_def trim_space_visible visible_def byte_def)

lemma waiting_names:
  "external_id (local_reservation_id sample_lib (sample_uuid 100))" "external_id (pc_transaction_id sample_confirmed)"
  "pg_text (local_reservation_id sample_lib (sample_uuid 100))" "pg_text (pc_transaction_id sample_confirmed)"
proof -
  have v: "list_all visible (''local-transaction-'' @ uuid_string sample_lib (sample_uuid 100))"
    "list_all visible (''local-reservation-'' @ uuid_string sample_lib (sample_uuid 100))"
    using sample_string_facts(1) [of 100] by (simp_all add: visible_def byte_def)
  show "external_id (local_reservation_id sample_lib (sample_uuid 100))"
    by (rule local_names [OF sample_string_facts(1,2)])
  show "pg_text (local_reservation_id sample_lib (sample_uuid 100))" "pg_text (pc_transaction_id sample_confirmed)"
    unfolding sample_confirmed_def local_payment_def local_reservation_id_def using v by (auto intro: pg_text_visible)
  show "external_id (pc_transaction_id sample_confirmed)"
    using v(1) sample_string_facts(2) [of 100] by (simp add: sample_confirmed_def local_payment_def external_id_def trim_space_visible)
qed

lemma waiting_texts: "pg_text ''label''" "pg_length ''label'' = 5" "pg_text ActivationReserveSubject"
proof -
  show "pg_text ''label''" using sample_visible(9) by (rule pg_text_visible)
  show "pg_length ''label'' = 5" by code_simp
  show "pg_text ActivationReserveSubject"
    by (rule pg_text_visible) (simp add: ActivationReserveSubject_def visible_def byte_def)
qed

lemma waiting_db_ok: "bot_ok waiting_db" "bot_data sample_lib (bs_store sample_bot) waiting_db"
proof -
  show "bot_ok waiting_db"
    by (simp add: waiting_db_def schema_defs)
      (simp add: waiting_session_def waiting_attempt_def waiting_texts race_texts race_lengths transaction_key_def waiting_names)
  have "format_amount 150 6 = Some ''0.000150''"
    by code_simp
  then have "valid_amount ''0.000150''"
    using format_amount_denotes [of 150 6] by auto
  then show "bot_data sample_lib (bs_store sample_bot) waiting_db"
    using waiting_wallets waiting_names
    by (simp add: bot_data_def waiting_db_def session_data_def attempt_data_def offer_data_def waiting_session_def waiting_attempt_def
        holds_def stored_reads balance_ok_def optional_def duration_defs)
qed

lemma confirmed_verified:
  obtains v where "codec_verify sample_lib (bs_codec sample_bot) sample_world confirmed_bytes PaymentConfirmedSubject PaymentConfirmedType
      [''rw-topup''] = Inr v"
    and "decode_payment_confirmed (vf_payload v) = Inr sample_confirmed" "vf_id v = sample_uuid 20"
proof -
  have names: "short_name PaymentConfirmedSubject" "short_name PaymentConfirmedType"
    by (auto intro!: short_name_visible simp: PaymentConfirmedSubject_def PaymentConfirmedType_def visible_def byte_def)
  note confirmed = sample_confirmed_def local_payment_def local_reservation_id_def sample_request_def local_receiver_def
  have i: "length (uuid_string sample_lib (sample_uuid 100)) = 36" "length (sample_id 100) = 36"
    using sample_string_facts(2) [of 100] by (simp_all add: sample_id_def length_sample_string)
  have "length (format_rfc3339nano 1700000000000000000) \<le> 30"
    using sample_years by (simp add: rfc3339_years_def length_format_time)
  then have "struct_size payment_confirmed_spec (payment_confirmed_vals sample_confirmed) \<le> 20000"
    by (simp add: struct_size_def payment_confirmed_spec_def payment_confirmed_vals_def confirmed i)
  then have fits: "length (encode_payment_confirmed sample_confirmed) \<le> 20000"
    using length_marshal [of True payment_confirmed_spec "payment_confirmed_vals sample_confirmed"]
    by (simp add: encode_payment_confirmed_def encode_payload_def)
  have "list_all visible ''local-transaction-''" "list_all visible ''local-reservation-''" "list_all visible local_receiver"
      "list_all visible ''0.000150''"
    by (simp_all add: visible_def byte_def local_receiver_def)
  then have printable: "list_all printable (payment_confirmed_vals sample_confirmed)"
    using sample_visible(2) sample_id_visible sample_string_facts(1)
    by (simp add: payment_confirmed_vals_def sample_confirmed_def local_payment_def local_reservation_id_def sample_request_def
        utf8_valid_visible canonical_time_visible [unfolded canonical_time_def])
  have key: "lookup_key (cd_trusted sample_bot_codec) (cd_producer sample_topup_codec) (cd_key_id sample_topup_codec)
      1700000000000000000 = Inr (ed25519_public sample_lib (cd_private_key sample_topup_codec))"
    by (simp add: lookup_key_def sample_codec_def sample_topup_codec_def sample_bot_codec_def sample_lib_def)
  have c: "cd_clock_skew sample_bot_codec = 2 * minute" "bs_codec sample_bot = sample_bot_codec" "cd_producer sample_topup_codec = ''rw-topup''"
    by (simp_all add: sample_bot_codec_def sample_codec_def sample_bot_def sample_topup_codec_def)
  obtain v where "codec_verify sample_lib sample_bot_codec sample_world confirmed_bytes PaymentConfirmedSubject PaymentConfirmedType
      [cd_producer sample_topup_codec] = Inr v" "vf_payload v = encode_payment_confirmed sample_confirmed" "vf_id v = sample_uuid 20"
    unfolding confirmed_bytes_def by (rule sample_bytes_verified [OF sample_codecs_ready(2) c(1) names fits key, of 20])
  then show thesis
    by (intro that [of v])
      (use c payment_confirmed.decode_encode [OF printable] in \<open>simp_all add: decode_payment_confirmed_def encode_payment_confirmed_def\<close>)
qed

definition waiting_draft :: verification_draft where
  "waiting_draft =
     \<lparr>vd_operation_id = sample_uuid 100, vd_session_id = sample_uuid 101, vd_balance_id = ''balance'', vd_bot_id = 1,
      vd_telegram_user_id = 2, vd_telegram_chat_id = 3, vd_display_label = ''label'', vd_sender_wallet = ''0x1111111111111111'',
      vd_receiver_wallet = local_receiver, vd_amount = ''0.000150'', vd_transaction_id = pc_transaction_id sample_confirmed,
      vd_external_reservation_id = local_reservation_id sample_lib (sample_uuid 100), vd_offer_valid_from = 1700000000000000000,
      vd_offer_expires_at = 1700000600000000000\<rparr>"

lemma waiting_command:
  obtains item where "verify_factory_of sample_lib sample_bot waiting_draft (sample_uuid 20) sample_world = Inr item"
    and "om_message_id item = sample_uuid 3" "om_subject item = ActivationVerifySubject" "length (om_envelope item) \<le> MaxBytes"
      "om_expires_at item = 1700000600000000000 + 30 * minute"
proof -
  have names: "short_name ActivationVerifySubject" "short_name ActivationVerifyType"
    by (auto intro!: short_name_visible simp: ActivationVerifySubject_def ActivationVerifyType_def visible_def byte_def)
  have v7: "is_v7 sample_lib (sample_uuid n)" for n
    using sample_id_v7 [of n] sample_id_parse [of n] by (simp add: is_v7_def uuid_v7_def)
  have "year_of 1700002400000000000 = 2023"
    by code_simp
  then have years: "rfc3339_years (go_now sample_world 3)" "rfc3339_years (1700000600000000000 + 30 * minute)"
      "go_now sample_world 3 < 1700000600000000000 + 30 * minute"
    using sample_years by (simp_all add: sample_world_facts(2) rfc3339_years_def duration_defs)
  let ?p = "verify_payload sample_lib ''tron'' waiting_draft"
  have "length (format_rfc3339nano 1700000000000000000) \<le> 30" "length (format_rfc3339nano 1700000600000000000) \<le> 30"
    using sample_years by (simp_all add: rfc3339_years_def length_format_time)
  then have "struct_size activation_verify_spec (activation_verify_vals ?p) \<le> 20000"
    using sample_string_facts(2) [of 100] sample_string_facts(2) [of 101]
    by (simp add: struct_size_def activation_verify_spec_def activation_verify_vals_def verify_payload_def waiting_draft_def
      sample_confirmed_def local_payment_def local_reservation_id_def local_receiver_def format_int_def nat_digits.simps)
  then have fits: "length (encode_activation_verify ?p) \<le> 20000"
    using length_marshal [of True activation_verify_spec "activation_verify_vals ?p"]
    by (simp add: encode_activation_verify_def encode_payload_def)
  have codec: "codec_ready (bs_codec sample_bot)" "bc_usdt_network (bs_bot sample_bot) = ''tron''"
    using sample_bot_ready(2) by (simp_all add: sample_bot_def)
  obtain item where item: "codec_sign sample_lib (bs_codec sample_bot) sample_world 3 ActivationVerifySubject ActivationVerifyType (sample_uuid 100)
      (sample_uuid 20) (encode_activation_verify ?p) (1700000600000000000 + 30 * minute) = Inr item"
      "om_message_id item = sample_uuid 3" "om_subject item = ActivationVerifySubject" "om_expires_at item = 1700000600000000000 + 30 * minute"
    by (rule codec_sign_succeeds [where i = 3 and correlation = "sample_uuid 100" and causation = "sample_uuid 20" and
          expires = "1700000600000000000 + 30 * minute",
          OF sample_uuid_laws sample_signature_laws codec(1) sample_world_facts(1) v7 v7 disjI2 [OF v7] names fits years])
  show thesis
    by (rule that [OF _ item(2,3) codec_sign_fits [OF item(1)] item(4)])
      (use item(1) codec(2) in \<open>simp add: verify_factory_payload waiting_draft_def\<close>)
qed

lemma waiting_paid:
  obtains texts d' r where "handle_payment_confirmed sample_lib sample_bot PaymentConfirmedSubject confirmed_bytes sample_world waiting_db =
      (Inr (), texts, d')"
    and "r \<in> set (outbox d')" "ob_message_id r = sample_uuid 3" "ob_message_id r \<notin> outbox_ids waiting_db"
proof -
  obtain v where v: "codec_verify sample_lib (bs_codec sample_bot) sample_world confirmed_bytes PaymentConfirmedSubject PaymentConfirmedType
      [''rw-topup''] = Inr v" "decode_payment_confirmed (vf_payload v) = Inr sample_confirmed" "vf_id v = sample_uuid 20"
    by (rule confirmed_verified)
  obtain item where item: "verify_factory_of sample_lib sample_bot waiting_draft (sample_uuid 20) sample_world = Inr item"
      "om_message_id item = sample_uuid 3" "om_subject item = ActivationVerifySubject" "length (om_envelope item) \<le> MaxBytes"
      "om_expires_at item = 1700000600000000000 + 30 * minute"
    by (rule waiting_command)
  let ?inc = "incoming_message_of v PaymentConfirmedSubject"
  let ?in = "\<lparr>ib_message_id = sample_uuid 20, ib_subject = PaymentConfirmedSubject, ib_producer = ''rw-topup'',
      ib_payload_digest = sha256 sample_lib (vf_payload v), ib_status = PROCESSING, ib_result_message_id = None, ib_completed_at = None,
      ib_expires_at = pg_time (vf_expires v)\<rparr>"
  have inc: "im_message_id ?inc = sample_uuid 20" "im_subject ?inc = PaymentConfirmedSubject" "im_producer ?inc = ''rw-topup''"
      "im_payload ?inc = vf_payload v" "im_expires_at ?inc = vf_expires v"
    using verified_producer [OF v(1)] v(3) by (simp_all add: incoming_message_of_def)
  have t: "pg_text PaymentConfirmedSubject" "pg_text ''rw-topup''" "pg_text ActivationVerifySubject"
    by (auto intro!: pg_text_visible simp: PaymentConfirmedSubject_def ActivationVerifySubject_def visible_def byte_def)
  define d1 where "d1 = waiting_db\<lparr>inbox := [?in]\<rparr>"
  have ok1: "bot_ok d1"
    using bot_ok_inbox [OF waiting_db_ok(1), of ?in] t
    by (simp add: inbox_ids_def inbox_row_ok_def race_lengths d1_def) (simp add: waiting_db_def)
  have command: "om_message_id (item\<lparr>om_kind := ''COMMAND''\<rparr>) \<notin> outbox_ids d1" "pg_text (om_subject (item\<lparr>om_kind := ''COMMAND''\<rparr>))"
      "om_kind (item\<lparr>om_kind := ''COMMAND''\<rparr>) \<in> {''COMMAND'', ''RESULT'', ''EVENT''}"
      "length (om_envelope (item\<lparr>om_kind := ''COMMAND''\<rparr>)) \<le> MaxBytes"
      "db_now sample_world < pg_time (om_expires_at (item\<lparr>om_kind := ''COMMAND''\<rparr>))"
    using item t(3) by (simp_all add: outbox_ids_def d1_def waiting_db_def sample_world_facts(3) pg_time_def duration_defs)
  obtain r n where sent: "fl_insert_outbox sample_lib (bs_store sample_bot) 8 (item\<lparr>om_kind := ''COMMAND''\<rparr>) sample_world (d1, 3) =
      Inr ((), (d1\<lparr>outbox := outbox d1 @ [r]\<rparr>, n))" "ob_message_id r = sample_uuid 3"
      and ok2: "bot_ok (d1\<lparr>outbox := outbox d1 @ [r]\<rparr>)"
    by (rule fl_insert_outbox_succeeds [where i = 8 and s = "(d1, 3)" and item = "item\<lparr>om_kind := ''COMMAND''\<rparr>",
      OF sample_ready(1) sample_bot_ready(1) sample_ready(5), unfolded fst_conv, OF ok1 command])
      (use item(2) in simp)
  have row: "outbox_row_ok r"
    using ok2 by (simp add: bot_ok_def msgdb_ok_def)
  have paid: "validate_payment sample_confirmed
      \<lparr>pc_operation_id = sample_id 100, pc_external_reservation_id = local_reservation_id sample_lib (sample_uuid 100), pc_transaction_id = '''',
       pc_sender_wallet = ''0x1111111111111111'', pc_receiver_wallet = local_receiver, pc_amount = ''0.000150'', pc_observed_at = ''''\<rparr>
      1700000600000000000 1700000000000000000 = Inr ()"
    using waiting_names(2) by (simp add: validate_payment_def sample_confirmed_def local_payment_def sample_request_def sample_parse duration_defs)
  have registered: "fl_register sample_lib ?inc sample_world (waiting_db, 0) =
      Inr (\<lparr>ir_accepted = True, ir_completed = False, ir_result_message_id = None\<rparr>, (d1, 1))"
    using ok1 unfolding d1_def
    by (simp add: fl_register_def register_inbox_def tx_bind_def tx_exec_def tx_return_def find_inbox_def inc)
      (simp add: waiting_db_def sample_world_def)
  have tables: "inactive d1 = [waiting_session]" "attempts d1 = [waiting_attempt]" "outbox d1 = outbox waiting_db" "inbox d1 = [?in]"
      "invites d1 = []" "updates d1 = []" "projections d1 = []"
    by (simp_all add: d1_def waiting_db_def)
  have healthy: "\<not> stmt_fails sample_world k" "go_now sample_world k = 1700000000000000000" for k
    by (simp_all add: sample_world_def)
  have made: "verify_factory_of sample_lib sample_bot waiting_draft (sample_uuid 20) sample_world = Inr item"
    by (rule item(1))
  note made = made [unfolded waiting_draft_def]
  have "\<exists>x d' n. payment_body sample_lib (bs_store sample_bot) ?inc sample_confirmed (sample_uuid 100) (verify_factory_of sample_lib sample_bot)
      waiting_attempt sample_world (d1, 2) = Inr (x, (d', n)) \<and> outbox d' = outbox d1 @ [r]"
    by (simp add: payment_body_def waiting_attempt_def)
      (use row [unfolded outbox_row_ok_def] in \<open>simp add: tx_bind_def session_row_of_def tx_query_def tx_lift_def tx_return_def find_session_def tables waiting_session_def stored_reads
        sample_string_facts(3) healthy paid made sent(1) inc update_attempt_def set_dialog_state_def acknowledge_inbox_def update_inbox_def
        is_processing_def tx_exec_def schema_defs item(2) sent(2) waiting_db_def race_texts race_lengths transaction_key_def waiting_names t waiting_texts
        waiting_attempt_def\<close>)
  then obtain x d' n' where body: "payment_body sample_lib (bs_store sample_bot) ?inc sample_confirmed (sample_uuid 100)
      (verify_factory_of sample_lib sample_bot) waiting_attempt sample_world (d1, 2) = Inr (x, (d', n'))" "outbox d' = outbox d1 @ [r]"
    by blast
  have confirmed: "uuid_parse sample_lib (pc_operation_id sample_confirmed) = Some (sample_uuid 100)"
    by (simp add: sample_confirmed_def local_payment_def sample_request_def)
  have "find_attempt (sample_uuid 100) d1 = Some waiting_attempt"
    by (simp add: find_attempt_def tables waiting_attempt_def)
  then have "with_attempt sample_lib ?inc (sample_uuid 100) (payment_body sample_lib (bs_store sample_bot) ?inc sample_confirmed (sample_uuid 100)
      (verify_factory_of sample_lib sample_bot)) sample_world (waiting_db, 0) = Inr (x, (d', n'))"
    using body(1) by (simp add: with_attempt_def tx_bind_def registered tx_query_def healthy numeral_2_eq_2)
  then have "run_tx sample_world (with_attempt sample_lib ?inc (sample_uuid 100) (payment_body sample_lib (bs_store sample_bot) ?inc
      sample_confirmed (sample_uuid 100) (verify_factory_of sample_lib sample_bot))) waiting_db = (Inr x, d')"
    using sample_ready(5) by (auto simp: run_tx_Inr healthy_def)
  then have "\<exists>texts. handle_payment_confirmed sample_lib sample_bot PaymentConfirmedSubject confirmed_bytes sample_world waiting_db =
      (Inr (), texts, d')"
    by (simp add: handle_payment_confirmed_def v(1,2) apply_payment_def confirmed notify_def)
  moreover have "ob_message_id r \<notin> outbox_ids waiting_db"
    using sent(2) by (simp add: outbox_ids_def waiting_db_def)
  moreover have "r \<in> set (outbox d')"
    using body(2) by simp
  ultimately show thesis
    using that sent(2) by blast
qed

lemma verify_command_accepted_witness:
  "\<exists>texts d' r draft causation item. handle_payment_confirmed sample_lib sample_bot PaymentConfirmedSubject confirmed_bytes sample_world waiting_db =
       (Inr (), texts, d') \<and> r \<in> set (outbox d') \<and> ob_message_id r = sample_uuid 3 \<and>
     codec_sign sample_lib (bs_codec sample_bot) sample_world 3 ActivationVerifySubject ActivationVerifyType (vd_operation_id draft) causation
       (encode_activation_verify (verify_payload sample_lib ''tron'' draft)) (vd_offer_expires_at draft + 30 * minute) = Inr item \<and>
     validate_activation sample_lib (verify_payload sample_lib ''tron'' draft) ''tron'' 1700000000000000000 = Inr ()"
proof -
  obtain texts d' r where run: "handle_payment_confirmed sample_lib sample_bot PaymentConfirmedSubject confirmed_bytes sample_world waiting_db =
      (Inr (), texts, d')" "r \<in> set (outbox d')" "ob_message_id r = sample_uuid 3" "ob_message_id r \<notin> outbox_ids waiting_db"
    by (rule waiting_paid)
  have sound: "sound_service sample_lib sample_bot"
  proof -
    have "keyring_ok (fs_keyring (bs_store sample_bot))" "utf8_valid (kr_active (fs_keyring (bs_store sample_bot)))"
      using sample_ready(3)
      by (simp_all add: store_ready_def sample_service_def sample_bot_def sample_keyring_def utf8_valid_visible visible_def byte_def)
    then show ?thesis
      using sample_aead_laws by (simp add: sound_service_def) (simp add: sample_bot_def)
  qed
  have v7: "is_v7 sample_lib (sample_uuid n)" for n
    using sample_id_v7 [of n] sample_id_parse [of n] by (simp add: is_v7_def uuid_v7_def)
  have network: "bc_usdt_network (bs_bot sample_bot) = ''tron''"
    by (simp add: sample_bot_def)
  obtain a draft causation item where a: "a \<in> set (attempts waiting_db)" "made_of a draft"
      and item: "codec_sign sample_lib (bs_codec sample_bot) sample_world 3 ActivationVerifySubject ActivationVerifyType (vd_operation_id draft) causation
       (encode_activation_verify (verify_payload sample_lib ''tron'' draft)) (vd_offer_expires_at draft + 30 * minute) = Inr item"
      and accepted: "\<And>now. is_v7 sample_lib (vd_operation_id draft) \<Longrightarrow> is_v7 sample_lib (vd_session_id draft) \<Longrightarrow>
         rfc3339_years (vd_offer_valid_from draft) \<Longrightarrow> rfc3339_years (vd_offer_expires_at draft) \<Longrightarrow>
         vd_offer_valid_from draft \<le> now + 2 * minute \<Longrightarrow> now < vd_offer_expires_at draft \<Longrightarrow>
         validate_activation sample_lib (verify_payload sample_lib ''tron'' draft) ''tron'' now = Inr ()"
    using verify_command_accepted [OF sample_uuid_laws sound rtranclp.rtrancl_refl waiting_db_ok run(1,2,4)]
    unfolding network by blast
  have "validate_activation sample_lib (verify_payload sample_lib ''tron'' draft) ''tron'' 1700000000000000000 = Inr ()"
    by (rule accepted; use a v7 sample_years in \<open>simp add: waiting_db_def waiting_attempt_def made_of_def duration_defs\<close>)
  with run(1-3) item show ?thesis by blast
qed

end
