(* ===== verification/Poller_Properties.thy ===== *)
theory Poller_Properties
  imports Telegram Bot_Records Sample_Bot
begin

text \<open>
  The loop of the poller loses no update: Telegram forgets an update when a request asks for a later offset, and
  the poller asks for a later offset only when the update is recorded in the database.
\<close>

definition begun :: "update_store \<Rightarrow> int \<Rightarrow> bot_db \<Rightarrow> bool" where
  "begun us i d \<longleftrightarrow> list_ex (\<lambda>r. tu_transport r = us_transport us \<and> tu_update_id r = i) (updates d)"

lemma begun_stays:
  assumes "begun us i d" "bot_le d d'"
  shows "begun us i d'"
proof -
  from assms(1) obtain r where r: "r \<in> set (updates d)" "tu_transport r = us_transport us" "tu_update_id r = i"
    by (auto simp: begun_def list_ex_iff)
  have "rows_grow update_le (updates d) (updates d')"
    using assms(2) by (simp add: bot_le_def)
  then obtain q where "q \<in> set (updates d')" "update_le r q"
    using r(1) by (rule rows_grow_member)
  with r(2,3) show ?thesis
    by (auto simp: begun_def list_ex_iff update_le_def)
qed

lemma begin_update_begun:
  assumes "begin_update us i digest w d = (Inr started, d')"
  shows "begun us i d'"
proof -
  let ?f = "\<lambda>w d. if list_ex (\<lambda>r. tu_transport r = us_transport us \<and> tu_update_id r = i) (updates d) then (False, d)
          else (True, d\<lparr>updates := updates d @
                 [\<lparr>tu_transport = us_transport us, tu_update_id = i, tu_status = UPDATE_PROCESSING,
                   tu_payload_digest = digest, tu_processed_at = None\<rparr>]\<rparr>)"
  have recorded: "begun us i d''" if "tx_exec bot_ok ''insert update'' ?f w (d, 0) = Inr (x, (d'', n))" for x d'' n
    using that by (auto simp: tx_exec_ok begun_def split: if_splits)
  show ?thesis
    using run_tx_cases [of w "tx_exec bot_ok ''insert update'' ?f" d] assms recorded unfolding begin_update_def by auto
qed

lemma process_message_begun:
  assumes "process_message L conv us m send_ok ws d = Some (Inr x, texts, d')"
  shows "begun us (tm_update_id m) d'"
proof -
  obtain started d1 where b: "begin_update us (tm_update_id m) (tm_payload_digest m) (ws 0) d = (Inr started, d1)"
    using assms by (auto simp: process_message_def split: sum.splits prod.splits)
  note first = begin_update_begun [OF b]
  show ?thesis
  proof (cases started)
    case False
    with assms b first show ?thesis by (simp add: process_message_def)
  next
    case True
    let ?c = "if conv \<noteq> None \<and> tm_chat_type m = ''private'' then handle_conversation L (the conv) m (\<lambda>i. ws (i + 2)) d1
        else Some (Inr (russian_text (reply_for m)), d1)"
    from assms b True obtain c d2 where c: "?c = Some (c, d2)"
      by (auto simp: process_message_def split: option.splits)
    then have 1: "bot_le d1 d2"
      using bot_records.handle_conversation by (auto split: if_splits)
    obtain response where "deliver us m response send_ok (ws 1) d2 = (Inr x, texts, d')"
      using assms b True c by (auto simp: process_message_def split: sum.splits)
    then have "bot_le d2 d'"
      using bot_records.finish_update [of d2 us "tm_update_id m"] by (auto simp: deliver_def Let_def split_beta split: sum.splits)
    with begun_stays [OF begun_stays [OF first 1]] show ?thesis .
  qed
qed

section \<open>One answer\<close>

definition in_int64 :: "telegram_update \<Rightarrow> bool" where
  "in_int64 u \<longleftrightarrow> 0 \<le> up_update_id u \<and> up_update_id u < 2 ^ 63 - 1"

lemma next_offset_eq: "0 \<le> i \<Longrightarrow> i < 2 ^ 63 - 1 \<Longrightarrow> next_offset i = i + 1"
  unfolding next_offset_def sint_sbintrunc' by (intro signed_take_bit_int_eq_self) simp_all

lemma process_updates_result:
  assumes "process_updates L conv us bot_id answers sends wss n offset d = Some (Inr offset', texts, d')"
    and "sorted_wrt (<) (map up_update_id answers)" "\<forall>u\<in>set answers. in_int64 u \<and> offset \<le> up_update_id u"
  shows "bot_le d d' \<and> offset' = (if answers = [] then offset else up_update_id (last answers) + 1) \<and>
    (\<forall>u\<in>set answers. up_message u \<noteq> None \<longrightarrow> begun us (up_update_id u) d')"
  using assms
proof (induction answers arbitrary: n offset d texts)
  case (Cons u rest)
  have bounds: "0 \<le> up_update_id u" "up_update_id u < 2 ^ 63 - 1" "offset \<le> up_update_id u"
    using Cons.prems(3) by (simp_all add: in_int64_def)
  have later: "\<forall>v\<in>set rest. in_int64 v \<and> up_update_id u + 1 \<le> up_update_id v"
    using Cons.prems(2,3) by auto
  have sorted: "sorted_wrt (<) (map up_update_id rest)"
    using Cons.prems(2) by simp
  show ?case
  proof (cases "up_message u")
    case None
    with Cons.prems(1) bounds have "process_updates L conv us bot_id rest sends wss (n + 1) (up_update_id u + 1) d = Some (Inr offset', texts, d')"
      by (simp add: next_offset_eq)
    from Cons.IH [OF this sorted later] None show ?thesis
      by auto
  next
    case (Some m)
    with Cons.prems(1) bounds obtain x now_sent d1 later_sent
      where p: "process_message L conv us (message_of_update bot_id u m) (sends n) (wss n) d = Some (Inr x, now_sent, d1)"
        and r: "process_updates L conv us bot_id rest sends wss (n + 1) (up_update_id u + 1) d1 = Some (Inr offset', later_sent, d')"
      by (auto simp: next_offset_eq split: option.splits sum.splits)
    note ih = Cons.IH [OF r sorted later]
    have "bot_le d d1"
      by (rule bot_records.process_message [OF p])
    moreover have "begun us (up_update_id u) d1"
      using process_message_begun [OF p] by (simp add: message_of_update_def Let_def)
    ultimately have "bot_le d d'" "begun us (up_update_id u) d'"
      using ih begun_stays bot_records.R_trans by blast+
    with ih show ?thesis
      by auto
  qed
qed simp

section \<open>The feed\<close>

text \<open>
  What Telegram documents of \<open>getUpdates\<close>: an answer holds the first updates from the requested offset on, in the
  order of their identifiers. \<open>feed\<close> is every update there will ever be; an answer may end anywhere.
\<close>

definition feed_ok :: "telegram_update list \<Rightarrow> bool" where
  "feed_ok feed \<longleftrightarrow> sorted_wrt (<) (map up_update_id feed) \<and> list_all in_int64 feed"

definition answers_from :: "telegram_update list \<Rightarrow> (nat \<Rightarrow> int \<Rightarrow> error + telegram_update list) \<Rightarrow> bool" where
  "answers_from feed answer \<longleftrightarrow>
     (\<forall>k offset us. answer k offset = Inr us \<longrightarrow> (\<exists>m. us = take m (filter (\<lambda>u. offset \<le> up_update_id u) feed)))"

definition confirmed_begun :: "telegram_update list \<Rightarrow> update_store \<Rightarrow> int \<Rightarrow> bot_db \<Rightarrow> bool" where
  "confirmed_begun feed us offset d \<longleftrightarrow>
     list_all (\<lambda>u. up_update_id u < offset \<and> up_message u \<noteq> None \<longrightarrow> begun us (up_update_id u) d) feed"

lemma sorted_prefix_member:
  assumes "sorted_wrt (<) (map f xs)" "x \<in> set xs" "take m xs \<noteq> []" "f x < (f (last (take m xs)) :: int) + 1"
  shows "x \<in> set (take m xs)"
proof (rule ccontr)
  assume "x \<notin> set (take m xs)"
  moreover have "x \<in> set (take m xs @ drop m xs)" using assms(2) by simp
  ultimately have "x \<in> set (drop m xs)" by (simp only: set_append Un_iff simp_thms)
  moreover have "sorted_wrt (<) (map f (take m xs @ drop m xs))" using assms(1) by simp
  ultimately have "f (last (take m xs)) < f x"
    using assms(3) unfolding map_append sorted_wrt_append by (metis imageI last_in_set list.set_map)
  with assms(4) show False by simp
qed

lemma answer_confirmed:
  assumes "feed_ok feed" "answers_from feed answer" "answer k offset = Inr answers" "confirmed_begun feed us offset d"
    and "process_updates L conv us bot_id answers sends wss n offset d = Some (Inr offset', texts, d')"
  shows "confirmed_begun feed us offset' d' \<and> offset \<le> offset'"
proof -
  let ?later = "filter (\<lambda>u. offset \<le> up_update_id u) feed"
  obtain m where m: "answers = take m ?later"
    using assms(2,3) unfolding answers_from_def by blast
  have sorted: "sorted_wrt (<) (map up_update_id ?later)" "\<forall>u\<in>set feed. in_int64 u"
    using assms(1) by (auto simp: feed_ok_def list_all_iff sorted_wrt_map intro: sorted_wrt_filter)
  have members: "\<forall>u\<in>set answers. in_int64 u \<and> offset \<le> up_update_id u"
    using sorted(2) unfolding m by (auto dest!: in_set_takeD)
  have "sorted_wrt (<) (map up_update_id answers)"
    using sorted(1) unfolding m take_map [symmetric] by (rule sorted_wrt_take)
  note r = process_updates_result [OF assms(5) this members]
  have "offset \<le> offset'"
    using r members last_in_set [of answers] by (cases "answers = []") (fastforce+)
  moreover have "begun us (up_update_id u) d'" if u: "u \<in> set feed" "up_update_id u < offset'" "up_message u \<noteq> None" for u
  proof (cases "up_update_id u < offset")
    case True
    with assms(4) u have "begun us (up_update_id u) d"
      by (auto simp: confirmed_begun_def list_all_iff)
    with r show ?thesis using begun_stays by blast
  next
    case False
    with u r have "answers \<noteq> []" by (auto split: if_splits)
    with False u r sorted(1) have "u \<in> set answers"
      unfolding m by (intro sorted_prefix_member [where f = up_update_id]) auto
    with r u(3) show ?thesis by blast
  qed
  ultimately show ?thesis
    by (auto simp: confirmed_begun_def list_all_iff)
qed

lemma loop_confirmed:
  assumes "poll_loop L conv us bot_id answer sends wss n k s d = Some (Inr s', texts, d')"
    and "feed_ok feed" "answers_from feed answer" "confirmed_begun feed us (po_offset s) d"
    and "second \<le> po_backoff s" "po_backoff s \<le> 30 * second"
  shows "confirmed_begun feed us (po_offset s') d' \<and> po_offset s \<le> po_offset s' \<and>
    second \<le> po_backoff s' \<and> po_backoff s' \<le> 30 * second"
  using assms
proof (induction n arbitrary: k s d texts)
  case (Suc n)
  show ?case
  proof (cases "answer k (po_offset s)")
    case (Inl e)
    with Suc.prems(1) have "poll_loop L conv us bot_id answer sends wss n (k + 1) (failed_poll s) d = Some (Inr s', texts, d')"
      by simp
    from Suc.IH [OF this Suc.prems(2,3)] Suc.prems(4-6) show ?thesis
      by (simp add: failed_poll_def min_def second_def split: if_splits)
  next
    case (Inr answers)
    with Suc.prems(1) obtain offset now_sent d1 later_sent
      where p: "process_updates L conv us bot_id answers (sends k) (wss k) 0 (po_offset s) d = Some (Inr offset, now_sent, d1)"
        and r: "poll_loop L conv us bot_id answer sends wss n (k + 1) \<lparr>po_offset = offset, po_backoff = second\<rparr> d1 =
            Some (Inr s', later_sent, d')"
      by (auto split: option.splits sum.splits)
    from Suc.IH [OF r Suc.prems(2,3)] answer_confirmed [OF Suc.prems(2,3) Inr Suc.prems(4) p] show ?thesis
      by (simp add: second_def)
  qed
qed simp

text \<open>
  C17. The poller loses no update: whenever it has asked Telegram for the updates from an offset on, every earlier
  update with a message is recorded in the database, and its backoff stays between a second and half a minute.
\<close>

theorem poller_loses_no_update:
  assumes "feed_ok feed" "answers_from feed answer"
    and "poll_loop L conv us bot_id answer sends wss n 0 poll_begin d = Some (Inr s, texts, d')"
  shows "(\<forall>u\<in>set feed. up_update_id u < po_offset s \<and> up_message u \<noteq> None \<longrightarrow> begun us (up_update_id u) d') \<and>
    second \<le> po_backoff s \<and> po_backoff s \<le> 30 * second"
proof -
  have "confirmed_begun feed us (po_offset poll_begin) d"
    using assms(1) by (auto simp: confirmed_begun_def feed_ok_def list_all_iff in_int64_def poll_begin_def)
  from loop_confirmed [OF assms(3,1,2) this] show ?thesis
    by (simp add: confirmed_begun_def list_all_iff poll_begin_def second_def)
qed

definition sample_update :: telegram_update where
  "sample_update =
     \<lparr>up_update_id = 7,
      up_message = Some \<lparr>ch_message_id = 1, ch_text = '''', ch_chat_id = -5, ch_chat_type = ''group'', ch_from = zero_user\<rparr>,
      up_payload_digest = replicate 32 CHR ''d''\<rparr>"

lemma sample_update_ignored:
  "\<exists>x texts d. process_message sample_lib None sample_updates
      (message_of_update 1 sample_update (the (up_message sample_update))) True (\<lambda>_. sample_world) empty_bot = Some (Inr x, texts, d)"
  by (simp add: process_message_def begin_update_def finish_update_def deliver_def run_tx_def tx_exec_def sample_world_def empty_bot_def
      message_of_update_def sample_update_def sample_updates_def bot_ok_def bot_keys_ok_def bot_refs_ok_def msgdb_ok_def update_row_ok_def
      processing_update_def)

definition sample_answer :: "nat \<Rightarrow> int \<Rightarrow> error + telegram_update list" where
  "sample_answer k offset = Inr (filter (\<lambda>u. offset \<le> up_update_id u) [sample_update])"

lemma poller_loses_no_update_witness:
  "\<exists>s texts d. poll_loop sample_lib None sample_updates 1 sample_answer (\<lambda>_ _. True) (\<lambda>_ _ _. sample_world) 1 0 poll_begin empty_bot =
     Some (Inr s, texts, d) \<and> po_offset s = 8 \<and> begun sample_updates 7 d"
proof -
  obtain x texts d where p: "process_message sample_lib None sample_updates
      (message_of_update 1 sample_update (the (up_message sample_update))) True (\<lambda>_. sample_world) empty_bot = Some (Inr x, texts, d)"
    using sample_update_ignored by blast
  have u: "up_update_id sample_update = 7" "\<exists>m. up_message sample_update = Some m"
    by (simp_all add: sample_update_def)
  have run: "poll_loop sample_lib None sample_updates 1 sample_answer (\<lambda>_ _. True) (\<lambda>_ _ _. sample_world) 1 0 poll_begin empty_bot =
      Some (Inr \<lparr>po_offset = 8, po_backoff = second\<rparr>, texts, d)"
    using p u by (auto simp: poll_begin_def sample_answer_def next_offset_eq)
  have "feed_ok [sample_update]" "answers_from [sample_update] sample_answer"
    by (auto simp: feed_ok_def in_int64_def u(1) answers_from_def sample_answer_def intro: exI [of _ 1] exI [of _ 0])
  from poller_loses_no_update [OF this run] u have "begun sample_updates 7 d"
    by simp
  with run show ?thesis by (intro exI conjI) (assumption | simp)+
qed

end
