(* ===== verification/Demo_Tools.thy ===== *)
theory Demo_Tools
  imports Local_Tools Service_Lifecycle
begin

text \<open>
  The command line programs as a whole: what they load, what they subscribe to, and what they decide. An
  environment variable that is required and empty makes them panic. The demonstrations
  (cmd/rw-demo-active-sessions, cmd/rw-demo-telegram-flow) send a message and wait: \<open>exchange\<close> is the network, it
  says whether a message was published and which results arrive before the program gives up.
\<close>

section \<open>Settings\<close>

definition required_env :: "host \<Rightarrow> string \<Rightarrow> error + string" where
  "required_env H name = (let v = getenv H name in if v = '''' then Inl (Errorf (''panic: '' @ name @ '' is required'')) else Inr v)"

definition env_or :: "host \<Rightarrow> string \<Rightarrow> string \<Rightarrow> string" where
  "env_or H name fallback = (let v = getenv H name in if v \<noteq> '''' then v else fallback)"

text \<open>The manifest and one signing key, as \<open>run\<close> of each program loads them.\<close>

definition tool_keys :: "lib \<Rightarrow> fs \<Rightarrow> host \<Rightarrow> error + trusted_keys" where
  "tool_keys L F H =
     (case required_env H ''RW_TRUSTED_KEYS_FILE'' of Inl e \<Rightarrow> Inl e | Inr path \<Rightarrow> load_trusted_keys L F path)"

definition tool_private_key :: "lib \<Rightarrow> fs \<Rightarrow> host \<Rightarrow> string \<Rightarrow> error + bytes" where
  "tool_private_key L F H name =
     (case required_env H name of Inl e \<Rightarrow> Inl e | Inr encoded \<Rightarrow> load_signing_private_key L F '''' encoded)"

definition tool_codec :: "string \<Rightarrow> string \<Rightarrow> bytes \<Rightarrow> trusted_keys \<Rightarrow> codec" where
  "tool_codec name key_name private_key trust =
     \<lparr>cd_producer = name, cd_key_id = key_name, cd_private_key = private_key, cd_trusted = trust, cd_clock_skew = 2 * minute\<rparr>"

text \<open>
  What a program connects to: the servers, the name of the connection and a timeout; the other options, zero
  here, are left to the library. The answer of \<open>connect_nats\<close> stands for the subscriptions and their flush too.
\<close>

definition nats_of_tool :: "host \<Rightarrow> string \<Rightarrow> nats_options" where
  "nats_of_tool H name =
     \<lparr>no_name = name, no_servers = env_or H ''RW_NATS_URLS'' ''nats://127.0.0.1:4222'', no_timeout = 5 * second,
      no_reconnect_wait = 0, no_max_reconnects = 0, no_reconnect_buffer = 0, no_credentials_file = None, no_tls = None\<rparr>"

section \<open>The local top-up service\<close>

text \<open>\<open>run\<close> of cmd/rw-fake-topup: its codec, and the handlers of its two subscriptions.\<close>

definition fake_topup_setup :: "lib \<Rightarrow> fs \<Rightarrow> host \<Rightarrow> outside \<Rightarrow> error + codec" where
  "fake_topup_setup L F H X =
     (case tool_keys L F H of Inl e \<Rightarrow> Inl e | Inr trust \<Rightarrow>
      case tool_private_key L F H ''RW_TOPUP_SIGNING_PRIVATE_KEY_BASE64'' of Inl e \<Rightarrow> Inl e | Inr private_key \<Rightarrow>
      case connect_nats X (nats_of_tool H ''rw-fake-topup'') of Inl e \<Rightarrow> Inl e | Inr _ \<Rightarrow>
      Inr (tool_codec ''rw-topup'' ''topup-local-test'' private_key trust))"

definition fake_topup_handlers ::
  "lib \<Rightarrow> codec \<Rightarrow> (outbox_message \<Rightarrow> bool) \<Rightarrow> (string \<times> (string \<Rightarrow> bytes \<Rightarrow> world \<Rightarrow> outbox_message list)) list" where
  "fake_topup_handlers L c publish_ok =
     [(ActivationReserveSubject, \<lambda>subj data w. handle_reserve L c subj data publish_ok w),
      (TopupVerifySubject, \<lambda>subj data w. handle_verify L c subj data w)]"

section \<open>The issuer of invites\<close>

text \<open>What arrives after the command was published, with the world in which each message is verified.\<close>

type_synonym arrivals = "(string \<times> bytes \<times> world) list"

definition first_invite :: "lib \<Rightarrow> codec \<Rightarrow> uuid \<Rightarrow> arrivals \<Rightarrow> error + invite_created" where
  "first_invite L c operation_id inbound =
     (case concat (map (\<lambda>(subj, data, w). case invite_answer L c operation_id subj data w of None \<Rightarrow> [] | Some p \<Rightarrow> [p]) inbound) of
        [] \<Rightarrow> Inl (Errorf ''timed out waiting for invite'')
      | invite # _ \<Rightarrow> Inr invite)"

definition create_invite_tool ::
  "lib \<Rightarrow> fs \<Rightarrow> host \<Rightarrow> outside \<Rightarrow> (outbox_message \<Rightarrow> error + arrivals) \<Rightarrow> world \<Rightarrow> error + invite_created" where
  "create_invite_tool L F H X exchange w =
     (case tool_keys L F H of Inl e \<Rightarrow> Inl e | Inr trust \<Rightarrow>
      case tool_private_key L F H ''RW_ISSUER_SIGNING_PRIVATE_KEY_BASE64'' of Inl e \<Rightarrow> Inl e | Inr private_key \<Rightarrow>
      case connect_nats X (nats_of_tool H ''rw-create-invite'') of Inl e \<Rightarrow> Inl e | Inr _ \<Rightarrow>
      let c = tool_codec ''rw-invite-issuer'' ''issuer-local-test'' private_key trust in
      case new_v7 w 0 of Inl e \<Rightarrow> Inl e | Inr _ \<Rightarrow>
      case required_env H ''RW_BALANCE_ID'' of Inl e \<Rightarrow> Inl e | Inr balance_id \<Rightarrow>
      case issue_invite_command L c balance_id w of Inl e \<Rightarrow> Inl e | Inr (operation_id, command) \<Rightarrow>
      case exchange command of Inl e \<Rightarrow> Inl e | Inr inbound \<Rightarrow> first_invite L c operation_id inbound)"

section \<open>The demonstration of the sessions service\<close>

text \<open>The results that reach the channel, of the messages that arrive on the two result subjects.\<close>

definition demo_results :: "lib \<Rightarrow> codec \<Rightarrow> arrivals \<Rightarrow> demo_result list" where
  "demo_results L c inbound =
     concat (map (\<lambda>(subj, data, w). case demo_result_of L c subj data w of None \<Rightarrow> [] | Some r \<Rightarrow> [r]) inbound)"

text \<open>\<open>issue\<close>: sign a command, publish it and wait for the result of its operation.\<close>

definition demo_issue ::
  "lib \<Rightarrow> codec \<Rightarrow> (bytes \<Rightarrow> error + arrivals) \<Rightarrow> activation_verify \<Rightarrow> world \<Rightarrow> error + demo_result \<times> bytes" where
  "demo_issue L c exchange command w =
     (let operation_id = parse_or_nil L (av_operation_id command); expires = go_now w 2 + 45 * minute in
      case codec_sign L c w 3 ActivationVerifySubject ActivationVerifyType operation_id nil_uuid
             (encode_activation_verify command) expires of Inl e \<Rightarrow> Inl e | Inr item \<Rightarrow>
      case exchange (om_envelope item) of Inl e \<Rightarrow> Inl e | Inr inbound \<Rightarrow>
      map_sum id (\<lambda>r. (r, om_envelope item)) (wait_result operation_id (demo_results L c inbound)))"

definition another_wallet :: string where
  "another_wallet = ''0x2222222222222222222222222222222222222222''"

definition demo_wallet :: string where
  "demo_wallet = ''0x1111111111111111111111111111111111111111''"

text \<open>
  The four activations of the demonstration, and the one that is sent twice. The \<open>k\<close>-th message is published to
  \<open>exchange k\<close>. The texts of the error name what went wrong; the success is the summary's two codes. A code
  is printed quoted, which for the codes of the service only adds the quotes.
\<close>

definition demo_run ::
  "lib \<Rightarrow> codec \<Rightarrow> (nat \<Rightarrow> bytes \<Rightarrow> error + arrivals) \<Rightarrow> string \<Rightarrow> int \<Rightarrow> (nat \<Rightarrow> world) \<Rightarrow> error + string \<times> string" where
  "demo_run L c exchange run_id user_base ws =
     (let balance_id = ''demo-balance-'' @ run_id in
      case demo_issue L c (exchange 0) (demo_activation L balance_id demo_wallet user_base (''demo-tx-1-'' @ run_id) (ws 0)) (ws 0) of
        Inl e \<Rightarrow> Inl e | Inr (first, encoded) \<Rightarrow>
      if dr_status first \<noteq> ''ACTIVE'' then Inl (Errorf (''first activation failed: '' @ dr_code first))
      else case exchange 1 encoded of Inl e \<Rightarrow> Inl e | Inr again \<Rightarrow>
      case wait_result (dr_operation first) (demo_results L c again) of Inl e \<Rightarrow> Inl e | Inr duplicate \<Rightarrow>
      if dr_message_id duplicate \<noteq> dr_message_id first
      then Inl (Errorf ''duplicate command produced a different result message'')
      else case demo_issue L c (exchange 2) (demo_activation L balance_id demo_wallet (user_base + 1) (''demo-tx-2-'' @ run_id) (ws 1)) (ws 1) of
        Inl e \<Rightarrow> Inl e | Inr (second_result, _) \<Rightarrow>
      if dr_status second_result \<noteq> ''ACTIVE'' then Inl (Errorf (''repeat activation failed: '' @ dr_code second_result))
      else case demo_issue L c (exchange 3) (demo_activation L balance_id another_wallet (user_base + 2) (''demo-tx-3-'' @ run_id) (ws 2)) (ws 2) of
        Inl e \<Rightarrow> Inl e | Inr (mismatch, _) \<Rightarrow>
      if dr_code mismatch \<noteq> ''WALLET_MISMATCH'' then Inl (Errorf (''wallet mismatch returned '' @ quote False (dr_code mismatch)))
      else case demo_issue L c (exchange 4) (demo_activation L balance_id demo_wallet (user_base + 3) (''late-demo-tx-'' @ run_id) (ws 3)) (ws 3) of
        Inl e \<Rightarrow> Inl e | Inr (late, _) \<Rightarrow>
      if dr_code late \<noteq> ''CONTRACT_VIOLATION'' then Inl (Errorf (''late verification returned '' @ quote False (dr_code late)))
      else Inr (dr_code mismatch, dr_code late))"

text \<open>\<open>run\<close> up to its first command: the codecs of the bot and of the stand-in, and the numbers of the run.\<close>

definition demo_setup :: "lib \<Rightarrow> fs \<Rightarrow> host \<Rightarrow> outside \<Rightarrow> world \<Rightarrow> error + codec \<times> codec \<times> codec \<times> string \<times> int" where
  "demo_setup L F H X w =
     (case tool_keys L F H of Inl e \<Rightarrow> Inl e | Inr trust \<Rightarrow>
      case tool_private_key L F H ''RW_BOT_SIGNING_PRIVATE_KEY_BASE64'' of Inl e \<Rightarrow> Inl e | Inr bot_key \<Rightarrow>
      case tool_private_key L F H ''RW_TOPUP_SIGNING_PRIVATE_KEY_BASE64'' of Inl e \<Rightarrow> Inl e | Inr topup_key \<Rightarrow>
      case connect_nats X (nats_of_tool H ''rw-active-sessions-demo'') of Inl e \<Rightarrow> Inl (Wrap ''connect to NATS'' e) | Inr _ \<Rightarrow>
      Inr (tool_codec ''rw-bot'' ''bot-local-test'' bot_key trust, tool_codec '''' '''' [] trust,
           (tool_codec ''rw-topup'' ''topup-local-test'' topup_key Map.empty)\<lparr>cd_clock_skew := 0\<rparr>,
           format_int (go_now w 0), go_now w 1 div millisecond mod 1000000000 + 1000000000))"

section \<open>The demonstration of the conversation\<close>

definition telegram_demo_config :: bot_config where
  "telegram_demo_config =
     \<lparr>bc_telegram_mode = '''', bc_telegram_bot_id = 100001, bc_telegram_bot_username = ''realwallet_local_bot'',
      bc_telegram_token_file = '''', bc_telegram_token = '''', bc_webhook_public_url = '''', bc_webhook_secret_file = '''',
      bc_poll_timeout = 0, bc_invite_ttl = 24 * hour, bc_usdt_network = ''fixture-net'', bc_usdt_scale = 6,
      bc_activation_amount_min = 1000, bc_activation_amount_max = 9999\<rparr>"

definition telegram_demo_service :: "flow_store \<Rightarrow> codec \<Rightarrow> Bot_Service.bot_service" where
  "telegram_demo_service fs c =
     new_activation_service fs c telegram_demo_config
       \<lparr>mg_outbox_batch = 0, mg_outbox_concurrency = 0, mg_retry_initial = 0, mg_retry_max = 0, mg_reconcile_interval = 0,
        mg_reconcile_batch = 0\<rparr> False"

text \<open>\<open>run\<close> up to the invite: the store, the two keys, the database and the connection.\<close>

definition telegram_demo_store :: "lib \<Rightarrow> fs \<Rightarrow> host \<Rightarrow> error + flow_store" where
  "telegram_demo_store L F H =
     (case required_env H ''RW_DATA_KEYRING_FILE'' of Inl e \<Rightarrow> Inl e | Inr keyring_path \<Rightarrow>
      case load_data_keyring F keyring_path of Inl e \<Rightarrow> Inl e | Inr keyring \<Rightarrow>
      case required_env H ''RW_FINGERPRINT_KEY_FILE'' of Inl e \<Rightarrow> Inl e | Inr fingerprint_path \<Rightarrow>
      case load_fingerprint_key F fingerprint_path of Inl e \<Rightarrow> Inl e | Inr fingerprint_key \<Rightarrow>
      Inr \<lparr>fs_keyring = keyring, fs_fingerprint_key = fingerprint_key\<rparr>)"

definition telegram_demo_connect :: "host \<Rightarrow> outside \<Rightarrow> error + unit" where
  "telegram_demo_connect H X =
     (case required_env H ''RW_DATABASE_URL'' of Inl e \<Rightarrow> Inl e | Inr url \<Rightarrow>
      case create_pool X \<lparr>ps_url = url, ps_max_conns = 0, ps_min_conns = 0, ps_runtime_params = []\<rparr> of Inl e \<Rightarrow> Inl e | Inr _ \<Rightarrow>
      connect_nats X (nats_of_tool H ''rw-telegram-flow-demo''))"

definition telegram_demo_setup :: "lib \<Rightarrow> fs \<Rightarrow> host \<Rightarrow> outside \<Rightarrow> error + codec \<times> Bot_Service.bot_service" where
  "telegram_demo_setup L F H X =
     (case tool_keys L F H of Inl e \<Rightarrow> Inl e | Inr trust \<Rightarrow>
      case telegram_demo_store L F H of Inl e \<Rightarrow> Inl e | Inr fs \<Rightarrow>
      case tool_private_key L F H ''RW_BOT_SIGNING_PRIVATE_KEY_BASE64'' of Inl e \<Rightarrow> Inl e | Inr bot_key \<Rightarrow>
      case tool_private_key L F H ''RW_ISSUER_SIGNING_PRIVATE_KEY_BASE64'' of Inl e \<Rightarrow> Inl e | Inr issuer_key \<Rightarrow>
      case telegram_demo_connect H X of Inl e \<Rightarrow> Inl e | Inr _ \<Rightarrow>
      Inr (tool_codec ''rw-invite-issuer'' ''issuer-local-test'' issuer_key trust,
           telegram_demo_service fs (tool_codec ''rw-bot'' ''bot-local-test'' bot_key trust)))"

text \<open>\<open>createInvite\<close> of the demonstration: its own balance for every operation.\<close>

definition demo_invite :: "lib \<Rightarrow> codec \<Rightarrow> (outbox_message \<Rightarrow> error + arrivals) \<Rightarrow> world \<Rightarrow> error + invite_created" where
  "demo_invite L c exchange w =
     (case new_v7 w 0 of Inl e \<Rightarrow> Inl e | Inr operation_id \<Rightarrow>
      case codec_sign L c w 2 InviteCreateSubject InviteCreateType operation_id nil_uuid
             (encode_invite_create \<lparr>ic_operation_id = uuid_string L operation_id,
                ic_balance_id = ''telegram-demo-balance-'' @ uuid_string L operation_id, ic_requested_ttl_seconds = 0\<rparr>)
             (go_now w 1 + 5 * minute) of Inl e \<Rightarrow> Inl e | Inr command \<Rightarrow>
      case exchange command of Inl e \<Rightarrow> Inl e | Inr inbound \<Rightarrow> first_invite L c operation_id inbound)"

definition demo_message :: "int \<Rightarrow> string \<Rightarrow> telegram_message" where
  "demo_message user_id body =
     \<lparr>tm_update_id = 0, tm_bot_id = 100001, tm_user_id = user_id, tm_chat_id = user_id, tm_chat_type = ''private'', tm_text = body,
      tm_display_label = ''Telegram Demo'', tm_payload_digest = []\<rparr>"

text \<open>The states the program reads, one in every fifth of a second until its deadline.\<close>

fun await_active :: "(error + conversation_state) list \<Rightarrow> error + unit" where
  "await_active [] = Inl (Errorf ''timed out waiting for Telegram activation flow'')"
| "await_active (Inl e # rest) = Inl e"
| "await_active (Inr state # rest) = (if cs_active state then Inr () else await_active rest)"

text \<open>
  \<open>run\<close> after the setup: the user sends the invite and then a wallet, each on the database as it is then, and the
  program reads the state \<open>reads k\<close> times until the user is active. The result is the two answers.
\<close>

definition telegram_demo_run ::
  "lib \<Rightarrow> codec \<Rightarrow> Bot_Service.bot_service \<Rightarrow> (outbox_message \<Rightarrow> error + arrivals) \<Rightarrow> world \<Rightarrow> (nat \<Rightarrow> nat \<Rightarrow> world) \<Rightarrow>
    bot_db \<Rightarrow> (bot_db \<Rightarrow> bot_db) \<Rightarrow> (bot_db \<Rightarrow> (world \<times> bot_db) list) \<Rightarrow> (error + string \<times> string) option" where
  "telegram_demo_run L issuer bs exchange w wss d meanwhile reads =
     (let user_id = go_now w 3 mod 1000000000 + 2000000000 in
      case demo_invite L issuer exchange w of Inl e \<Rightarrow> Some (Inl e) | Inr invite \<Rightarrow>
      case handle_conversation L bs (demo_message user_id (''/start '' @ id_invite invite)) (wss 0) d of
        None \<Rightarrow> None | Some (Inl e, _) \<Rightarrow> Some (Inl e) | Some (Inr bound, d1) \<Rightarrow>
      (case handle_conversation L bs (demo_message user_id demo_wallet) (wss 1) (meanwhile d1) of
        None \<Rightarrow> None | Some (Inl e, _) \<Rightarrow> Some (Inl e) | Some (Inr wallet_accepted, d2) \<Rightarrow>
      (case await_active (map (\<lambda>(v, d'). read_state 100001 user_id v d') (reads d2)) of
        Inl e \<Rightarrow> Some (Inl e) | Inr _ \<Rightarrow> Some (Inr (bound, wallet_accepted)))))"

section \<open>Migrations\<close>

text \<open>What the migration library answers; the files of a service are in the directory with its name.\<close>

record goose_answers =
  ga_open :: "error + unit"
  ga_locker :: "error + unit"
  ga_provider :: "string \<Rightarrow> error + unit"
  ga_up :: "string \<Rightarrow> error + unit"

definition migrate_up :: "goose_answers \<Rightarrow> string \<Rightarrow> error + unit" where
  "migrate_up G directory =
     (case ga_open G of Inl e \<Rightarrow> Inl (Wrap ''open migration database'' e) | Inr _ \<Rightarrow>
      case ga_locker G of Inl e \<Rightarrow> Inl (Wrap ''create migration lock'' e) | Inr _ \<Rightarrow>
      case ga_provider G directory of Inl e \<Rightarrow> Inl (Wrap ''create migration provider'' e) | Inr _ \<Rightarrow>
      case ga_up G directory of Inl e \<Rightarrow> Inl (Wrap ''apply migrations'' e) | Inr _ \<Rightarrow> Inr ())"

definition migrate_main :: "host \<Rightarrow> goose_answers \<Rightarrow> string \<Rightarrow> string \<Rightarrow> error + unit" where
  "migrate_main H G root service_id =
     (if \<not> migrate_service_ok service_id then Inl (Errorf ''service must be bot or sessions'')
      else case migrate_database_url H of Inl e \<Rightarrow> Inl e | Inr _ \<Rightarrow> migrate_up G (root @ ''/'' @ service_id))"

end
