(* ===== verification/Service_Steps.thy ===== *)
theory Service_Steps
  imports Service_Lifecycle Sessions_History Bot_History
begin

text \<open>
  The step relations of the two services cover what \<open>Run\<close> starts: the dispatch of the messages to their handlers
  and the loops of the publisher and the reconciliation are runs of \<open>sessions_step\<close> and \<open>bot_step\<close>, so every
  invariant of the step relations holds after them.
\<close>

lemma ticks_steps:
  assumes "\<And>k x. R\<^sup>*\<^sup>* x (body k x)"
  shows "R\<^sup>*\<^sup>* x (ticks body n k x)"
proof (induction n arbitrary: k x)
  case (Suc n)
  then show ?case using assms [of x k] by (auto intro: rtranclp_trans)
qed (simp add: assms)

lemma handled_by_sessions_step:
  assumes "handled_by_sessions L sv subj data w d = Some d'"
  shows "sessions_step L sv pb d d'"
  using assms sessions_step.intros(1-3) [of L sv pb d subj data w]
  by (auto simp: handled_by_sessions_def sessions_handlers_def split: if_splits)

lemma handled_by_bot_step:
  assumes "handled_by_bot L bs subj data w d = Some d'"
  shows "bot_step L conv bs us pb d d'"
  using assms bot_step.intros(2-7) [of L conv bs us pb d subj data w]
  by (auto simp: handled_by_bot_def bot_handlers_def split: if_splits)

lemma sessions_reconcile_loop_steps: "(sessions_step L sv pb)\<^sup>*\<^sup>* d (sessions_reconcile_loop L sv wss n d)"
  unfolding sessions_reconcile_loop_def by (rule ticks_steps) (rule reconcile_once_steps)

lemma sessions_publisher_loop_steps: "(sessions_step L sv pb)\<^sup>*\<^sup>* d (publisher_loop sessions_ok L pb nats jss wss n d)"
  unfolding publisher_loop_def by (rule ticks_steps) (rule r_into_rtranclp [where r = "sessions_step L sv pb", OF sessions_step.publish])

lemma bot_publisher_loop_steps: "(bot_step L conv bs us pb)\<^sup>*\<^sup>* d (publisher_loop bot_ok L pb nats jss wss n d)"
  unfolding publisher_loop_def by (rule ticks_steps) (rule r_into_rtranclp [where r = "bot_step L conv bs us pb", OF bot_step.publish])

lemma bot_reconcile_loop_steps: "(bot_step L conv bs us pb)\<^sup>*\<^sup>* d (snd (bot_reconcile_loop bs ws n d))"
proof -
  let ?body = "\<lambda>k (texts, d). let (later, d') = reconcile_round bs (ws k) d in (texts @ later, d')"
  have "(bot_step L conv bs us pb)\<^sup>*\<^sup>* e (snd (ticks ?body n k (texts, e)))" for k texts and e :: bot_db
  proof (induction n arbitrary: k texts e)
    case (Suc n)
    have "bot_step L conv bs us pb e (snd (reconcile_round bs (ws k) e))"
      by (rule bot_step.reconcile)
    with Suc show ?case
      by (auto simp: Let_def split: prod.split intro: converse_rtranclp_into_rtranclp)
  next
    case 0
    show ?case
      using r_into_rtranclp [where r = "bot_step L conv bs us pb", OF bot_step.reconcile] by (simp add: Let_def split_beta)
  qed
  then show ?thesis
    unfolding bot_reconcile_loop_def .
qed

end
