(* ===== verification/Spec2Isabelle.thy ===== *)
theory Spec2Isabelle
  imports Codec Bot_Domain Sessions_Properties Sessions_Refinement Outbox_Properties Bot_Properties Bot_Amounts Bot_Race Code_Findings
    Service_Contracts Poller_Properties Config_Properties Process_Properties Demo_Tools Service_Steps
begin

text \<open>
  RW, an activation service for a Telegram bot, as Isabelle definitions, and what makes it correct.

  \<^bold>\<open>The program.\<close> An operator asks the bot for an invite (cmd/rw-create-invite). A user sends the invite's token to the
  bot and then the address of a wallet; the bot asks an external top-up service to reserve a small random payment, waits
  for the payment, and asks the sessions service to verify it. The sessions service asks the top-up service for
  the facts of the transaction, and when they are the expected ones it records the identity of the balance, activates
  the session and answers; the bot then keeps a projection of the active session. The two services share nothing but signed messages over NATS.
  Every message is signed with Ed25519 over a framed text, checked against a manifest of trusted keys, deduplicated in
  an inbox table, and sent from an outbox table whose rows are encrypted; a publisher sends the due rows again
  and again until they are confirmed or expire. Sources are named below without the prefix src/.

  \<^bold>\<open>The theories and the code.\<close>
  \<^item> \<^verbatim>\<open>Prelude\<close>: byte strings, errors, the library functions as a record \<open>lib\<close>, and the \<open>world\<close> that an operation reads
    (clocks, fresh identifiers, random bytes, how the database behaves). \<^verbatim>\<open>Go_Strings\<close>, \<^verbatim>\<open>Go_Time\<close>, \<^verbatim>\<open>Go_Duration\<close>,
    \<^verbatim>\<open>Go_Base64\<close>, \<^verbatim>\<open>Go_Json\<close>: what the program uses of the packages strings, strconv, time, encoding/base64,
    unicode/utf8 and encoding/json, with their round trips.
  \<^item> \<^verbatim>\<open>Payload\<close>, \<^verbatim>\<open>Sessions_Contract\<close>, \<^verbatim>\<open>Bot_Contract\<close>: internal/sessions/contract and internal/bot/contract, one record per
    message with its JSON fields; the locale \<open>payload_type\<close> is interpreted for each. \<^verbatim>\<open>Sessions_Domain\<close> and
    \<^verbatim>\<open>Bot_Domain\<close>: the checks of internal/*/domain/activation.go.
  \<^item> \<^verbatim>\<open>Envelope\<close>, \<^verbatim>\<open>Keyring\<close>, \<^verbatim>\<open>Codec\<close>: internal/platform/envelope, crypto and message/codec.go.
  \<^item> \<^verbatim>\<open>Sql\<close>, \<^verbatim>\<open>Message_Store\<close>, \<^verbatim>\<open>Outbox\<close>, \<^verbatim>\<open>Message_Consumer\<close>: transactions of pgx as a state transformer that fails or rolls back,
    and internal/platform/message/store.go, outbox.go and consumer.go. A table is a list of rows; the checks, unique indexes
    and foreign keys of migrations/ are the predicates \<open>sessions_ok\<close> and \<open>bot_ok\<close>, tested by every statement.
  \<^item> \<^verbatim>\<open>Sessions_Store\<close>, \<^verbatim>\<open>Sessions_Service\<close>: internal/sessions/adapter/postgres/store.go and internal/sessions/app/service.go.
  \<^item> \<^verbatim>\<open>Bot_Store\<close>, \<^verbatim>\<open>Bot_Texts\<close>, \<^verbatim>\<open>Bot_Service\<close>: internal/bot/adapter/postgres, internal/bot/presentation and internal/bot/app.
    \<^verbatim>\<open>Telegram_Api\<close> and \<^verbatim>\<open>Telegram\<close>: client.go and poller.go of internal/bot/adapter/telegram.
  \<^item> \<^verbatim>\<open>Config\<close>, \<^verbatim>\<open>Service_Runtime\<close>, \<^verbatim>\<open>Service_Lifecycle\<close>: internal/platform/config, postgres, migrate, messaging and runtime, and what
    the two \<open>Run\<close> functions start and stop. \<^verbatim>\<open>Local_Tools\<close> and \<^verbatim>\<open>Demo_Tools\<close>: the programs under cmd/.

  Operations carry the names of the source in lower case with underscores; a handler maps a message, a world and a
  database to its error or result and the new database.

  \<^bold>\<open>What is proved.\<close>
  \<^item> Messages (\<^verbatim>\<open>Envelope\<close>, \<^verbatim>\<open>Codec\<close>, \<^verbatim>\<open>Keyring\<close>, \<^verbatim>\<open>Service_Contracts\<close>): what is signed determines the message; what a receiver accepts
    was signed in time by an allowed producer with a manifest key; what a sender signs is accepted; encrypted
    values survive a rotation of the keys; in every run the encrypted columns of the bot hold what it has checked (\<^verbatim>\<open>Bot_Data\<close>), so
    that the command it makes of a payment passes the checks of the sessions service, and the local top-up service keeps its contract.
  \<^item> Sessions service. \<open>sessions_step\<close> (\<^verbatim>\<open>Sessions_History\<close>) runs one handler, retry or batch in any world; locales carry a relation or an
    invariant from the transactions to all runs. Records are final, every command has exactly one answer
    (\<^verbatim>\<open>Sessions_Answers\<close>), events are numbered and belong to verified verifications (\<^verbatim>\<open>Sessions_Authority\<close>), only a payment
    with the expected facts activates (\<^verbatim>\<open>Sessions_Properties\<close>; the facts that the store compares do not include the asset), a
    right one does, and so does one in another asset (\<^verbatim>\<open>Sessions_Activation\<close>, \<^verbatim>\<open>Sessions_Liveness\<close>), and all of it refines a small ledger (\<^verbatim>\<open>Sessions_Refinement\<close>, on the locale of \<^verbatim>\<open>Simulation\<close>).
  \<^item> Outbox (\<^verbatim>\<open>Outbox_Properties\<close>): delays are bounded, a batch sends what is due and nothing else, rows open to what was sealed.
  \<^item> Bot. \<open>bot_step\<close> (\<^verbatim>\<open>Bot_History\<close>) likewise; each step is one step of a machine on three tables (\<^verbatim>\<open>Bot_Flow\<close>), whose invariant relates
    dialogs and attempts (\<^verbatim>\<open>Bot_Dialogs\<close>) and which refines the phases of a user (\<^verbatim>\<open>Bot_Properties\<close>): this holds when transactions follow one another, and
    \<^verbatim>\<open>Bot_Race\<close> shows two that overlap and leave a user bound and active. Updates are handled once,
    invites are consumed once, repeated messages notify nobody (\<^verbatim>\<open>Bot_Records\<close>, \<^verbatim>\<open>Bot_Guarantees\<close>); the random amount
    ends and is fair (\<^verbatim>\<open>Bot_Amounts\<close>); invites are answered and bind users (\<^verbatim>\<open>Bot_Liveness\<close>); a name that is cut inside a
    character is refused (\<^verbatim>\<open>Bot_Defects\<close>). \<^verbatim>\<open>Code_Findings\<close> shows, on inputs, what else the code does not
    do as it means to: a payment before its offer, two settings that cannot work.
  \<^item> Processes: consumers keep the order of the messages that NATS does not drop at the pending limits, and stop (\<^verbatim>\<open>Message_Consumer\<close>); the poller confirms only what is recorded
    (\<^verbatim>\<open>Poller_Properties\<close>); an accepted configuration is in range, and in staging and production without secrets in variables and with TLS
    (\<^verbatim>\<open>Config_Properties\<close>); a started process is trusted (\<^verbatim>\<open>Process_Properties\<close>);
    dispatch and loops are runs of the step relations (\<^verbatim>\<open>Service_Steps\<close>).
  \<^item> \<^verbatim>\<open>Sample_Lib\<close>, \<^verbatim>\<open>Sample_Sessions\<close>, \<^verbatim>\<open>Sample_Activation\<close>, \<^verbatim>\<open>Sample_Bot\<close>: a concrete library and a concrete conversation on
    which the hypotheses of the properties hold.

  \<^bold>\<open>Bounds and fuel.\<close> The JSON parser takes one unit of fuel per nesting step and is called with more than the length of the
  text, which is always enough (the round trip of \<^verbatim>\<open>Go_Json\<close>). The sampling of the random amount is the only loop that may not end; it
  is a \<open>partial_function\<close> and its end is a property. The endless loops of the poller, the publisher and the
  reconciliations are followed for any number of rounds. Integers of Go that can wrap are 64-bit words or are
  wrapped where they are computed; elsewhere the configuration or a check bounds them.

  \<^bold>\<open>Parameters and assumptions.\<close> The functions of google/uuid, the primitives (SHA-256, HMAC, AES-GCM, Ed25519, PEM and PKIX) and
  what PostgreSQL, NATS, Telegram, the file system and URL parsing answer are arguments. What a property needs
  of them is a named predicate: \<open>uuid_laws\<close>, \<open>signature_laws\<close>, \<open>aead_laws\<close>, \<open>feed_ok\<close>, \<open>answers_from\<close>. A transaction runs alone: the
  steps and runs of the model are those in which transactions follow one another. The program runs them at PostgreSQL's default, READ
  COMMITTED, with row locks and advisory locks, which are queries without an effect here; these do not order all of them, and what overlapping
  transactions do beyond the case of \<^verbatim>\<open>Bot_Race\<close> is not modelled. The process runs in UTC.
  The jitter of the retry delay is computed exactly and not in floating point.

  \<^bold>\<open>Not modelled.\<close> internal/platform/observability (a logger and metrics without influence on the state); the goroutines of the
  HTTP servers, the metrics endpoint and the timeouts of the shutdown; the two entry points, which only call \<open>run_service\<close>;
  log lines and printed summaries; the deadlines of contexts; and the contents of the migrations library. JSON files of keys are given
  decoded, as what is checked is their content.
\<close>

end
